(* ===== verification/Prelude.thy ===== *)
theory Prelude
  imports Main "HOL-Library.Word" "HOL-Library.Monad_Syntax" "HOL-Library.Code_Target_Nat"
begin

unbundle bit_operations_syntax

text \<open>
  Shared vocabulary of the development.

  \<^item> \<open>std::string\<close> and \<open>std::string_view\<close> are \<^typ>\<open>string\<close>: an Isabelle \<^typ>\<open>char\<close> is one
    byte, \<open>char_code c\<close> its value as \<open>unsigned char\<close>. \<open>std::vector<unsigned char>\<close> is
    \<^typ>\<open>8 word list\<close>, \<open>std::uint64_t\<close> is \<^typ>\<open>64 word\<close>, \<open>std::uint32_t\<close> and \<open>DWORD\<close>
    are \<^typ>\<open>32 word\<close>.
  \<^item> \<open>duint\<close> (the SDK's pointer-sized integer) and \<open>std::size_t\<close> values that are read from
    text are polymorphic words: the two builds of the plugin are the instances 32 and 64.
    \<open>std::size_t\<close> values that only count elements of a container are \<^typ>\<open>nat\<close>.
  \<^item> \<open>std::optional\<close> is \<^typ>\<open>'a option\<close>; an early \<open>return std::nullopt\<close> is \<open>require\<close>
    in the option monad.
  \<^item> \<open>_WIN64\<close> is the value of type \<open>build\<close> that the definitions with an \<open>#ifdef\<close> take.

  The two locales at the end are the interfaces that several components implement: the
  tables between an enumeration and its wire names, and transition systems with an
  invariant.
\<close>

named_theorems monad_simps \<open>rewrite rules for early returns in the option monad\<close>
named_theorems char_simps \<open>definitions of character classes\<close>

type_synonym u8 = "8 word"
type_synonym u16 = "16 word"
type_synonym u32 = "32 word"
type_synonym u64 = "64 word"

datatype build = Win32 | Win64

section \<open>Early returns\<close>

definition require :: "bool \<Rightarrow> unit option" where
  "require b = (if b then Some () else None)"

lemma require_bind: "(require b \<bind> f) = (if b then f () else None)"
  by (simp add: require_def)

lemma require_bind_Some_iff [monad_simps]: "(require b \<bind> f) = Some y \<longleftrightarrow> b \<and> f () = Some y"
  by (simp add: require_def)

lemma bind_Some_iff [monad_simps]: "((m :: 'a option) \<bind> f) = Some y \<longleftrightarrow> (\<exists>x. m = Some x \<and> f x = Some y)"
  by (cases m) auto

lemma require_Some_iff [simp]: "require b = Some u \<longleftrightarrow> b"
  by (simp add: require_def)

text \<open>\<open>std::optional<T>\<close> out of a pointer that may be null: absent means keep the default.\<close>

definition optional_field :: "'j option \<Rightarrow> 'a \<Rightarrow> ('j \<Rightarrow> 'a option) \<Rightarrow> 'a option" where
  "optional_field p dflt f = (case p of None \<Rightarrow> Some dflt | Some v \<Rightarrow> f v)"

lemma optional_field_simps [simp]:
  "optional_field None d f = Some d"
  "optional_field (Some v) d f = f v"
  by (simp_all add: optional_field_def)

lemma optional_field_Some_iff [monad_simps]:
  "optional_field p d f = Some y \<longleftrightarrow> (p = None \<and> y = d) \<or> (\<exists>v. p = Some v \<and> f v = Some y)"
  by (cases p) auto

section \<open>Bytes of a string\<close>

definition char_code :: "char \<Rightarrow> nat" where
  "char_code c = of_char c"

lemma char_code_less_256 [simp]: "char_code c < 256"
  by (simp add: char_code_def)

lemma char_code_inject [simp]: "char_code c = char_code d \<longleftrightarrow> c = d"
  by (simp add: char_code_def)

lemma char_code_char_of [simp]: "n < 256 \<Longrightarrow> char_code (char_of n) = n"
  by (simp add: char_code_def)

lemma char_of_char_code [simp]: "char_of (char_code c) = c"
  by (simp add: char_code_def)

definition is_decimal :: "char \<Rightarrow> bool" where
  [char_simps]: "is_decimal c \<longleftrightarrow> 48 \<le> char_code c \<and> char_code c \<le> 57"

text \<open>The lower-case hexadecimal digits the wire formats insist on.\<close>

definition is_lower_hex :: "char \<Rightarrow> bool" where
  [char_simps]: "is_lower_hex c \<longleftrightarrow> is_decimal c \<or> (97 \<le> char_code c \<and> char_code c \<le> 102)"

definition is_control :: "char \<Rightarrow> bool" where
  [char_simps]: "is_control c \<longleftrightarrow> char_code c < 32 \<or> char_code c = 127"

section \<open>Lists\<close>

definition starts_with :: "'a list \<Rightarrow> 'a list \<Rightarrow> bool" where
  "starts_with s p \<longleftrightarrow> take (length p) s = p"

lemma starts_with_append [simp]: "starts_with (p @ s) p"
  by (simp add: starts_with_def)

lemma starts_with_iff: "starts_with s p \<longleftrightarrow> (\<exists>r. s = p @ r)"
  unfolding starts_with_def by (metis append_eq_conv_conj append_take_drop_id)

text \<open>\<open>s.find(c, from)\<close>: the first position at or after \<open>from\<close>, \<open>None\<close> for \<open>npos\<close>.\<close>

fun find_char :: "'a \<Rightarrow> 'a list \<Rightarrow> nat option" where
  "find_char c [] = None"
| "find_char c (x # xs) = (if x = c then Some 0 else map_option Suc (find_char c xs))"

definition find_from :: "'a \<Rightarrow> 'a list \<Rightarrow> nat \<Rightarrow> nat option" where
  "find_from c s from = map_option (\<lambda>i. from + i) (find_char c (drop from s))"

lemma find_char_append [simp]: "c \<notin> set xs \<Longrightarrow> find_char c (xs @ c # ys) = Some (length xs)"
  by (induction xs) auto

lemma find_char_None_iff [simp]: "find_char c xs = None \<longleftrightarrow> c \<notin> set xs"
  by (induction xs) auto

lemma find_char_SomeD:
  "find_char c xs = Some i \<Longrightarrow> i < length xs \<and> xs ! i = c \<and> c \<notin> set (take i xs)"
  by (induction xs arbitrary: i) (auto split: if_splits)

text \<open>\<open>s.substr(first, last - first)\<close>, the range a pair of pointers delimits.\<close>

definition slice :: "nat \<Rightarrow> nat \<Rightarrow> 'a list \<Rightarrow> 'a list" where
  "slice a b s = take (b - a) (drop a s)"

lemma length_slice [simp]: "length (slice a b s) = min (b - a) (length s - a)"
  by (simp add: slice_def)

lemma set_slice_subset: "set (slice a b s) \<subseteq> set s"
  unfolding slice_def by (meson set_drop_subset set_take_subset subset_trans)

lemma upt_join: "a \<le> b \<Longrightarrow> b \<le> c \<Longrightarrow> [a..<b] @ [b..<c] = [a..<c]"
  by (metis le_Suc_ex upt_add_eq_append)

lemma takeWhile_list_all: "list_all P s \<Longrightarrow> takeWhile P s = s"
  by (simp add: list_all_iff)

lemma length_takeWhile_all_iff: "length (takeWhile P s) = length s \<longleftrightarrow> list_all P s"
  by (induction s) auto

text \<open>
  A read of \<open>container[i]\<close> or \<open>span[i]\<close>. Out of range it is undefined behaviour in C++; the
  model makes that the value \<open>None\<close> of the enclosing \<open>option\<close>, so that a definition that
  provably returns \<open>Some\<close> never reads out of bounds.
\<close>

definition at :: "'a list \<Rightarrow> nat \<Rightarrow> 'a option" where
  "at xs i = (if i < length xs then Some (xs ! i) else None)"

lemma at_Some [simp]: "i < length xs \<Longrightarrow> at xs i = Some (xs ! i)"
  by (simp add: at_def)

lemma at_Some_iff: "at xs i = Some x \<longleftrightarrow> i < length xs \<and> x = xs ! i"
  by (auto simp: at_def)

section \<open>Bytes widened to machine integers and back\<close>

lemma unat_byte_less: "unat (b :: u8) < 256"
  using unsigned_less [of b] by simp

lemma unat_ucast_byte [simp]: "unat (ucast (b :: u8) :: u32) = unat b"
  by (simp add: unsigned_ucast_eq take_bit_nat_eq_self_iff less_trans [OF unat_byte_less])

lemma unat_ucast_le: "LENGTH('a :: len) \<le> LENGTH('b :: len) \<Longrightarrow> unat (ucast (w :: 'a word) :: 'b word) = unat w"
  by (simp add: unsigned_ucast_eq take_bit_nat_eq_self_iff) 
     (meson less_le_trans one_le_numeral power_increasing unsigned_less)

lemma ucast_ucast_byte [simp]: "(ucast (ucast (b :: u8) :: u32) :: u8) = b"
  by (rule bit_word_eqI) (simp add: bit_simps)

lemma unat_drop_bit_4: "unat (drop_bit 4 (b :: u8)) = unat b div 16"
  by (simp add: drop_bit_eq_div unat_div)

lemma unat_and_15: "unat ((b :: u8) AND 15) = unat b mod 16"
proof -
  have "b AND 15 = b mod 16"
    using take_bit_eq_mask [of 4 b] by (simp add: take_bit_eq_mod mask_eq_exp_minus_1)
  then show ?thesis by (simp add: unat_mod)
qed

section \<open>Interfaces\<close>

text \<open>
  An enumeration and its wire names: \<open>name\<close> prints a value, \<open>parse\<close> reads one back.
\<close>

locale wire_enum =
  fixes name :: "'e \<Rightarrow> string"
    and parse :: "string \<Rightarrow> 'e option"
  assumes parse_name: "parse (name e) = Some e"
    and parse_sound: "parse s = Some e \<Longrightarrow> name e = s"
begin

lemma name_inject: "name a = name b \<longleftrightarrow> a = b"
  by (metis option.inject parse_name)

lemma parse_iff: "parse s = Some e \<longleftrightarrow> s = name e"
  using parse_name parse_sound by auto

lemma parse_None_iff: "parse s = None \<longleftrightarrow> s \<notin> range name"
  by (metis not_None_eq parse_iff rangeE rangeI)

end

text \<open>
  A transition system: an initial-state predicate, a step relation and an invariant that
  the initial states have and every step keeps.
\<close>

inductive reaches :: "('s \<Rightarrow> 's \<Rightarrow> bool) \<Rightarrow> 's \<Rightarrow> 's \<Rightarrow> bool" for step where
  reaches_refl: "reaches step s s"
| reaches_step: "reaches step s t \<Longrightarrow> step t u \<Longrightarrow> reaches step s u"

locale invariant_system =
  fixes init :: "'s \<Rightarrow> bool"
    and step :: "'s \<Rightarrow> 's \<Rightarrow> bool"
    and inv :: "'s \<Rightarrow> bool"
  assumes inv_init: "init s \<Longrightarrow> inv s"
    and inv_step: "inv s \<Longrightarrow> step s t \<Longrightarrow> inv t"
begin

lemma inv_reaches: "reaches step s t \<Longrightarrow> inv s \<Longrightarrow> inv t"
  by (induction rule: reaches.induct) (auto intro: inv_step)

lemma inv_reachable: "init s \<Longrightarrow> reaches step s t \<Longrightarrow> inv t"
  using inv_init inv_reaches by blast

end

lemma reaches_trans: "reaches step t u \<Longrightarrow> reaches step s t \<Longrightarrow> reaches step s u"
  by (induction rule: reaches.induct) (auto intro: reaches_step)

end
