(* ===== verification/Cpp_Text.thy ===== *)
theory Cpp_Text
  imports Prelude
begin

text \<open>
  What the sources use of the C++ library to read and print numbers: \<open>std::from_chars\<close> in
  bases 10 and 16, \<open>std::to_string\<close>, the stream manipulators \<open>std::dec\<close>, \<open>std::hex\<close> with
  \<open>std::nouppercase\<close>, \<open>std::tolower\<close> in the C locale and \<open>strnlen_s\<close>. The last section has
  the FNV-1a hash that four functions of the plugin write out, and the UUID syntax that three
  of them check.
\<close>

section \<open>Printing numbers\<close>

definition digit_char :: "nat \<Rightarrow> char" where
  "digit_char d = ''0123456789abcdef'' ! d"

fun to_chars :: "nat \<Rightarrow> nat \<Rightarrow> string" where
  "to_chars b n = (if b < 2 \<or> n < b then [digit_char n]
     else to_chars b (n div b) @ [digit_char (n mod b)])"

declare to_chars.simps [simp del]

definition to_string :: "nat \<Rightarrow> string" where
  "to_string n = to_chars 10 n"

definition to_hex :: "nat \<Rightarrow> string" where
  "to_hex n = to_chars 16 n"

section \<open>Reading numbers\<close>

text \<open>\<open>std::from_chars\<close> takes upper- and lower-case digits and no sign for unsigned types.\<close>

definition digit_value :: "char \<Rightarrow> nat option" where
  "digit_value c = (if is_decimal c then Some (char_code c - 48)
     else if 97 \<le> char_code c \<and> char_code c \<le> 122 then Some (char_code c - 87)
     else if 65 \<le> char_code c \<and> char_code c \<le> 90 then Some (char_code c - 55)
     else None)"

definition is_digit :: "nat \<Rightarrow> char \<Rightarrow> bool" where
  "is_digit b c = (case digit_value c of None \<Rightarrow> False | Some d \<Rightarrow> d < b)"

definition digits_value :: "nat \<Rightarrow> string \<Rightarrow> nat" where
  "digits_value b s = foldl (\<lambda>n c. n * b + the (digit_value c)) 0 s"

datatype errc = errc_ok | invalid_argument | result_out_of_range

text \<open>
  \<open>from_chars b s v\<close> is \<open>std::from_chars(s.begin, s.end, v, b)\<close>: the error code, how many
  characters were consumed, and the value of the output variable afterwards (its old value
  \<open>v\<close> on an error). The width of the output variable is the width of the word.
\<close>

definition from_chars :: "nat \<Rightarrow> string \<Rightarrow> ('w :: len) word \<Rightarrow> errc \<times> nat \<times> 'w word" where
  "from_chars b s v =
     (let ds = takeWhile (is_digit b) s; n = digits_value b ds in
      if ds = [] then (invalid_argument, 0, v)
      else if 2 ^ LENGTH('w) \<le> n then (result_out_of_range, length ds, v)
      else (errc_ok, length ds, of_nat n))"

text \<open>The test every caller makes: no error, and the whole range was consumed.\<close>

definition parsed_all :: "string \<Rightarrow> errc \<times> nat \<times> 'a \<Rightarrow> bool" where
  "parsed_all s r \<longleftrightarrow> fst r = errc_ok \<and> fst (snd r) = length s"

definition parsed_value :: "errc \<times> nat \<times> 'a \<Rightarrow> 'a" where
  "parsed_value r = snd (snd r)"

section \<open>Reading back what was printed\<close>

lemma char_code_digit_char:
  "d < 16 \<Longrightarrow> char_code (digit_char d) = (if d < 10 then 48 + d else 87 + d)"
proof -
  have "list_all (\<lambda>d. of_char (''0123456789abcdef'' ! d) = (if d < 10 then 48 + d else 87 + d))
      [0..<16]" by code_simp
  then show "d < 16 \<Longrightarrow> char_code (digit_char d) = (if d < 10 then 48 + d else 87 + d)"
    by (simp add: list_all_iff digit_char_def char_code_def)
qed

lemma digit_value_digit_char [simp]: "d < 16 \<Longrightarrow> digit_value (digit_char d) = Some d"
  by (simp add: digit_value_def is_decimal_def char_code_digit_char)

lemma is_digit_digit_char [simp]: "d < b \<Longrightarrow> b \<le> 16 \<Longrightarrow> is_digit b (digit_char d)"
  by (simp add: is_digit_def)

lemma is_lower_hex_digit_char [simp]: "d < 16 \<Longrightarrow> is_lower_hex (digit_char d)"
  by (simp add: is_lower_hex_def is_decimal_def char_code_digit_char)

lemma digits_value_snoc [simp]: "digits_value b (s @ [c]) = digits_value b s * b + the (digit_value c)"
  by (simp add: digits_value_def)

lemma digits_value_Nil [simp]: "digits_value b [] = 0"
  by (simp add: digits_value_def)

lemma to_chars_nonempty [simp]: "to_chars b n \<noteq> []"
  by (subst to_chars.simps) simp

lemma to_chars_digits:
  "2 \<le> b \<Longrightarrow> b \<le> 16 \<Longrightarrow> \<forall>c \<in> set (to_chars b n). \<exists>d < b. c = digit_char d"
proof (induction b n rule: to_chars.induct)
  case (1 b n)
  show ?case
  proof (cases "n < b")
    case True
    then show ?thesis by (subst to_chars.simps) auto
  next
    case False
    have "\<exists>d < b. digit_char (n mod b) = digit_char d"
      using "1.prems" by (intro exI [of _ "n mod b"]) simp
    with False "1" show ?thesis by (subst to_chars.simps) simp
  qed
qed

lemma digits_value_to_chars [simp]:
  "2 \<le> b \<Longrightarrow> b \<le> 16 \<Longrightarrow> digits_value b (to_chars b n) = n"
proof (induction b n rule: to_chars.induct)
  case (1 b n)
  show ?case
  proof (cases "n < b")
    case True
    with "1.prems" show ?thesis
      by (subst to_chars.simps) (simp add: digits_value_def)
  next
    case False
    have "n mod b < b" using "1.prems" by simp
    with "1.prems" have "n mod b < 16" by linarith
    with False "1" show ?thesis by (subst to_chars.simps) simp
  qed
qed

lemma to_chars_all_digits: "2 \<le> b \<Longrightarrow> b \<le> 16 \<Longrightarrow> c \<in> set (to_chars b n) \<Longrightarrow> is_digit b c"
  using to_chars_digits [of b n] by auto

text \<open>The separator of the cursor formats is not a digit.\<close>

lemma colon_not_in_to_chars [simp]: "2 \<le> b \<Longrightarrow> b \<le> 16 \<Longrightarrow> CHR '':'' \<notin> set (to_chars b n)"
  using to_chars_all_digits [of b "CHR '':''" n]
  by (auto simp: is_digit_def digit_value_def is_decimal_def char_code_def)

lemma to_chars_list_all: "2 \<le> b \<Longrightarrow> b \<le> 16 \<Longrightarrow> list_all (is_digit b) (to_chars b n)"
  by (auto simp: list_all_iff intro: to_chars_all_digits)

lemma from_chars_list_all:
  "list_all (is_digit b) s \<Longrightarrow> s \<noteq> [] \<Longrightarrow> digits_value b s < 2 ^ LENGTH('w :: len) \<Longrightarrow>
   from_chars b s (v :: 'w word) = (errc_ok, length s, of_nat (digits_value b s))"
  by (simp only: from_chars_def Let_def takeWhile_list_all) simp

lemma from_chars_to_chars:
  assumes "2 \<le> b" "b \<le> 16" "n < 2 ^ LENGTH('w :: len)"
  shows "from_chars b (to_chars b n) (v :: 'w word) = (errc_ok, length (to_chars b n), of_nat n)"
  using from_chars_list_all [OF to_chars_list_all [OF assms(1,2)], of n v] assms by simp

lemma from_chars_unat [simp]:
  "2 \<le> b \<Longrightarrow> b \<le> 16 \<Longrightarrow>
   from_chars b (to_chars b (unat w)) v = (errc_ok, length (to_chars b (unat w)), w)"
  using from_chars_to_chars [of b "unat w" v] by (simp add: unsigned_less)

lemma length_to_chars:
  assumes "2 \<le> b" "n < b ^ k" "0 < k"
  shows "length (to_chars b n) \<le> k"
  using assms
proof (induction b n arbitrary: k rule: to_chars.induct)
  case (1 b n)
  show ?case
  proof (cases "n < b")
    case True
    with "1.prems" show ?thesis by (subst to_chars.simps) simp
  next
    case False
    have "k \<noteq> 1" using False "1.prems"(2) by auto
    with "1.prems" obtain j where k: "k = Suc j" "0 < j"
      by (cases k) auto
    from "1.prems" k have "n div b < b ^ j"
      by (simp add: less_mult_imp_div_less mult.commute)
    with "1.IH" False "1.prems" k have "length (to_chars b (n div b)) \<le> j" by simp
    with False k show ?thesis by (subst to_chars.simps) simp
  qed
qed

text \<open>Any parse that succeeds read digits only.\<close>

lemma parsed_all_iff:
  "parsed_all s (from_chars b s (v :: ('w :: len) word)) \<longleftrightarrow>
     s \<noteq> [] \<and> list_all (is_digit b) s \<and> digits_value b s < 2 ^ LENGTH('w)" (is "?l \<longleftrightarrow> ?r")
proof
  assume ?l
  then have "list_all (is_digit b) s" and "s \<noteq> []"
    by (auto simp: parsed_all_def from_chars_def Let_def simp flip: length_takeWhile_all_iff split: if_splits)
  moreover from this \<open>?l\<close> have "\<not> 2 ^ LENGTH('w) \<le> digits_value b s"
    by (simp only: parsed_all_def from_chars_def Let_def takeWhile_list_all) (auto split: if_splits)
  ultimately show ?r by simp
next
  assume ?r
  then show ?l using from_chars_list_all [of b s v] by (simp add: parsed_all_def)
qed

lemma parsed_value_all:
  "parsed_all s (from_chars b s v) \<Longrightarrow> unat (parsed_value (from_chars b s v)) = digits_value b s"
  for v :: "('w :: len) word"
  using from_chars_list_all [of b s v]
  by (simp add: parsed_all_iff parsed_value_def unat_of_nat take_bit_nat_eq_self)

section \<open>Case folding and bounded C strings\<close>

definition tolower :: "char \<Rightarrow> char" where
  "tolower c = (if 65 \<le> char_code c \<and> char_code c \<le> 90 then char_of (char_code c + 32) else c)"

lemma tolower_idem [simp]: "tolower (tolower c) = tolower c"
proof (cases "65 \<le> char_code c \<and> char_code c \<le> 90")
  case True
  then have "char_code (char_of (char_code c + 32)) = char_code c + 32" by simp
  with True show ?thesis by (simp add: tolower_def)
next
  case False
  then show ?thesis unfolding tolower_def by presburger
qed

text \<open>Only letters are folded: a folded non-letter is the character itself.\<close>

lemma tolower_eq_nonletter: "tolower c = d \<Longrightarrow> char_code d < 97 \<or> 122 < char_code d \<Longrightarrow> c = d"
proof (cases "65 \<le> char_code c \<and> char_code c \<le> 90")
  case True
  assume "tolower c = d" "char_code d < 97 \<or> 122 < char_code d"
  moreover have "char_code (char_of (char_code c + 32)) = char_code c + 32" using True by simp
  ultimately show ?thesis using True by (auto simp: tolower_def)
next
  case False
  then show "tolower c = d \<Longrightarrow> c = d" unfolding tolower_def by presburger
qed

text \<open>\<open>strnlen_s(field, sizeof(field))\<close>: the bytes before the first NUL of the array.\<close>

definition c_field :: "string \<Rightarrow> string" where
  "c_field f = takeWhile (\<lambda>c. c \<noteq> CHR 0x00) f"

section \<open>FNV-1a\<close>

definition fnv_offset :: u64 where
  "fnv_offset = 14695981039346656037"

definition fnv_add :: "u64 \<Rightarrow> u8 \<Rightarrow> u64" where
  "fnv_add hash byte = (hash XOR ucast byte) * 1099511628211"

definition fnv_bytes :: "u64 \<Rightarrow> string \<Rightarrow> u64" where
  "fnv_bytes hash s = foldl (\<lambda>h c. fnv_add h (of_nat (char_code c))) hash s"

section \<open>UUIDs\<close>

definition uuid_separator :: "nat \<Rightarrow> bool" where
  "uuid_separator i \<longleftrightarrow> i = 8 \<or> i = 13 \<or> i = 18 \<or> i = 23"

definition uuid_char :: "nat \<Rightarrow> char \<Rightarrow> bool" where
  "uuid_char i c = (if uuid_separator i then c = CHR ''-'' else is_lower_hex c)"

definition uuid_syntax :: "string \<Rightarrow> bool" where
  "uuid_syntax s \<longleftrightarrow> length s = 36 \<and> (\<forall>i < length s. uuid_char i (s ! i))"

lemma uuid_no_colon: "uuid_syntax s \<Longrightarrow> CHR '':'' \<notin> set s"
  by (auto simp: uuid_syntax_def uuid_char_def in_set_conv_nth is_lower_hex_def is_decimal_def
      char_code_def split: if_splits)

end
