(* ===== verification/Hex_Bytes.thy ===== *)
theory Hex_Bytes
  imports Cpp_Text
begin

text \<open>
  Byte strings as hexadecimal text: \<open>Hex\<close> of \<open>plugin/src/runtime.cpp\<close>, which prints memory
  for the client, and the two decoders that read such text back, \<open>ParsePatchBytes\<close> of
  \<open>plugin/src/patch_policy.cpp\<close> and the loop of \<open>ParseRequest\<close> for \<open>memory.write\<close>. The
  decoders are exact inverses of the printer on lower-case text; the \<open>memory.write\<close> loop also
  takes upper-case digits.
\<close>

definition hex_byte :: "u8 \<Rightarrow> string" where
  "hex_byte b = [digit_char (unat (drop_bit 4 b)), digit_char (unat (b AND 15))]"

definition Hex :: "u8 list \<Rightarrow> string" where
  "Hex bytes = concat (map hex_byte bytes)"

text \<open>One pair of characters: \<open>from_chars\<close> into an \<open>unsigned int\<close> that must take both.\<close>

definition hex_pair :: "char \<Rightarrow> char \<Rightarrow> u32 option" where
  "hex_pair a b =
     (let r = from_chars 16 [a, b] (0 :: u32) in
      if parsed_all [a, b] r then Some (parsed_value r) else None)"

fun ParsePatchBytes_loop :: "string \<Rightarrow> u8 list option" where
  "ParsePatchBytes_loop [] = Some []"
| "ParsePatchBytes_loop [_] = None"
| "ParsePatchBytes_loop (a # b # rest) = do {
     require (is_lower_hex a \<and> is_lower_hex b);
     byte \<leftarrow> hex_pair a b;
     bytes \<leftarrow> ParsePatchBytes_loop rest;
     Some (ucast byte # bytes)
   }"

definition ParsePatchBytes :: "string \<Rightarrow> u8 list option" where
  "ParsePatchBytes value = do {
     require (value \<noteq> [] \<and> length value \<le> 32 \<and> length value mod 2 = 0);
     ParsePatchBytes_loop value
   }"

fun WriteBytes_loop :: "string \<Rightarrow> u8 list option" where
  "WriteBytes_loop [] = Some []"
| "WriteBytes_loop [_] = None"
| "WriteBytes_loop (a # b # rest) = do {
     byte \<leftarrow> hex_pair a b;
     require (byte \<le> 255);
     bytes \<leftarrow> WriteBytes_loop rest;
     Some (ucast byte # bytes)
   }"

section \<open>The pair reader inverts the pair printer\<close>

lemma nibbles:
  fixes b :: u8
  shows "unat (drop_bit 4 b) < 16" and "unat (b AND 15) < 16"
    and "unat (drop_bit 4 b) * 16 + unat (b AND 15) = unat b"
  using unat_byte_less [of b] by (simp_all add: unat_drop_bit_4 unat_and_15)

lemma hex_pair_iff:
  "hex_pair a b = Some w \<longleftrightarrow>
     is_digit 16 a \<and> is_digit 16 b \<and>
     unat w = the (digit_value a) * 16 + the (digit_value b)"
proof -
  have dv: "digits_value 16 [a, b] = the (digit_value a) * 16 + the (digit_value b)"
    by (simp add: digits_value_def)
  have lt: "is_digit 16 a \<Longrightarrow> is_digit 16 b \<Longrightarrow> the (digit_value a) * 16 + the (digit_value b) < 256"
    by (auto simp: is_digit_def split: option.splits)
  have pa: "parsed_all [a, b] (from_chars 16 [a, b] (0 :: u32)) \<longleftrightarrow> is_digit 16 a \<and> is_digit 16 b"
    using lt by (auto simp: parsed_all_iff dv)
  have "is_digit 16 a \<and> is_digit 16 b \<Longrightarrow>
      unat (parsed_value (from_chars 16 [a, b] (0 :: u32))) = the (digit_value a) * 16 + the (digit_value b)"
    using parsed_value_all [of "[a, b]" 16 "0 :: u32"] pa dv by metis
  then show ?thesis
    by (auto simp: hex_pair_def Let_def pa unsigned_word_eqI word_unat_eq_iff)
qed

lemma hex_pair_hex_byte:
  "hex_pair (digit_char (unat (drop_bit 4 b))) (digit_char (unat (b AND 15))) = Some (ucast b)"
  for b :: u8
  using nibbles [of b] by (simp add: hex_pair_iff)

lemma hex_pair_bound: "hex_pair a b = Some w \<Longrightarrow> unat w < 256"
  by (auto simp: hex_pair_iff is_digit_def split: option.splits)

lemma digit_char_digit_value: "is_lower_hex c \<Longrightarrow> digit_char (the (digit_value c)) = c"
proof -
  assume "is_lower_hex c"
  then have v: "the (digit_value c) < 16 \<and>
      char_code c = (if the (digit_value c) < 10 then 48 + the (digit_value c) else 87 + the (digit_value c))"
    by (auto simp: is_lower_hex_def is_decimal_def digit_value_def)
  then have "char_code (digit_char (the (digit_value c))) = char_code c"
    by (simp add: char_code_digit_char)
  then show ?thesis by simp
qed

lemma hex_byte_hex_pair:
  assumes "is_lower_hex a" "is_lower_hex b" "hex_pair a b = Some w"
  shows "hex_byte (ucast w) = [a, b]"
proof -
  have da: "the (digit_value a) < 16" and db: "the (digit_value b) < 16"
    using assms(3) by (auto simp: hex_pair_iff is_digit_def split: option.splits)
  have u: "unat (ucast w :: u8) = the (digit_value a) * 16 + the (digit_value b)"
    using assms(3) hex_pair_bound [OF assms(3)]
    by (simp add: hex_pair_iff unsigned_ucast_eq take_bit_nat_eq_self)
  have "unat (drop_bit 4 (ucast w :: u8)) = the (digit_value a)"
    using u da db by (simp add: unat_drop_bit_4)
  moreover have "unat ((ucast w :: u8) AND 15) = the (digit_value b)"
    using nibbles(3) [of "ucast w"] u da db calculation by simp
  ultimately show ?thesis
    using assms(1,2) by (simp add: hex_byte_def digit_char_digit_value)
qed

section \<open>The decoders against the printer\<close>

lemma Hex_simps [simp]: "Hex [] = []" "Hex (b # bs) = hex_byte b @ Hex bs"
  by (simp_all add: Hex_def)

lemma length_Hex [simp]: "length (Hex bs) = 2 * length bs"
  by (induction bs) (simp_all add: hex_byte_def)

lemma Hex_eq_Nil_iff [simp]: "Hex bs = [] \<longleftrightarrow> bs = []"
  by (cases bs) (simp_all add: hex_byte_def)

lemma ParsePatchBytes_loop_Hex [simp]: "ParsePatchBytes_loop (Hex bs) = Some bs"
  by (induction bs) (simp_all add: hex_byte_def hex_pair_hex_byte nibbles require_bind)

lemma WriteBytes_loop_Hex [simp]: "WriteBytes_loop (Hex bs) = Some bs"
proof (induction bs)
  case (Cons b bs)
  have "unat b \<le> 255" using unat_byte_less [of b] by linarith
  then have "(ucast b :: u32) \<le> 255" by (simp add: word_le_nat_alt)
  with Cons show ?case by (simp add: hex_byte_def hex_pair_hex_byte require_bind)
qed simp

lemma ParsePatchBytes_loop_sound: "ParsePatchBytes_loop s = Some bs \<Longrightarrow> s = Hex bs"
proof (induction s arbitrary: bs rule: ParsePatchBytes_loop.induct)
  case (3 a b rest)
  then show ?case by (auto simp: monad_simps hex_byte_hex_pair)
qed auto

lemma ParsePatchBytes_iff:
  "ParsePatchBytes s = Some bs \<longleftrightarrow> s = Hex bs \<and> bs \<noteq> [] \<and> length bs \<le> 16"
  using ParsePatchBytes_loop_sound [of s bs] by (auto simp: ParsePatchBytes_def monad_simps)

lemma ParsePatchBytes_length: "ParsePatchBytes s = Some bs \<Longrightarrow> 1 \<le> length bs \<and> length bs \<le> 16"
  by (cases bs) (auto simp: ParsePatchBytes_iff)

lemma WriteBytes_loop_length: "WriteBytes_loop s = Some bs \<Longrightarrow> length s = 2 * length bs"
proof (induction s arbitrary: bs rule: WriteBytes_loop.induct)
  case (3 a b rest)
  then show ?case by (auto simp: monad_simps)
qed auto

lemma WriteBytes_loop_cong:
  "map digit_value s = map digit_value t \<Longrightarrow> WriteBytes_loop s = WriteBytes_loop t"
proof (induction s arbitrary: t rule: WriteBytes_loop.induct)
  case (3 a b rest)
  from 3(2) obtain a' b' rest' where t: "t = a' # b' # rest'"
    and v: "digit_value a = digit_value a'" "digit_value b = digit_value b'"
    and r: "map digit_value rest = map digit_value rest'"
    by (auto simp: map_eq_Cons_conv Cons_eq_map_conv)
  have "hex_pair a b = hex_pair a' b'"
    using v by (auto simp: hex_pair_def from_chars_def Let_def is_digit_def digits_value_def parsed_all_def)
  with 3(1) [OF _ _ r] t show ?case
    by (cases "hex_pair a' b'") (auto simp: require_bind)
qed (auto simp: map_eq_Cons_conv Cons_eq_map_conv)

end
