(* ===== verification/Memory_Policy.thy ===== *)
theory Memory_Policy
  imports Hex_Bytes
begin

text \<open>
  \<open>plugin/src/memory_filters.cpp\<close> (protection and range tests of \<open>memory.map\<close>) and
  \<open>plugin/src/memory_search.cpp\<close> (the pattern language and the scanner of \<open>memory.search\<close>).
  The range test is shown to decide set intersection exactly, with \<open>nullopt\<close> exactly on
  wrap-around. The scanner never reads out of bounds and reports exactly the matching
  candidates in order up to the limit, and its \<open>ms_nextCandidate\<close> resumes without a gap.
\<close>

section \<open>Filters\<close>

definition PAGE_EXECUTE :: u32 where "PAGE_EXECUTE = 0x10"
definition PAGE_EXECUTE_READ :: u32 where "PAGE_EXECUTE_READ = 0x20"
definition PAGE_EXECUTE_READWRITE :: u32 where "PAGE_EXECUTE_READWRITE = 0x40"
definition PAGE_EXECUTE_WRITECOPY :: u32 where "PAGE_EXECUTE_WRITECOPY = 0x80"

definition IsExecutableProtection :: "u32 \<Rightarrow> bool" where
  "IsExecutableProtection protection =
     (let p = protection AND 0xff in
      p = PAGE_EXECUTE \<or> p = PAGE_EXECUTE_READ \<or> p = PAGE_EXECUTE_READWRITE \<or>
      p = PAGE_EXECUTE_WRITECOPY)"

definition HalfOpenRangesOverlap :: "u64 \<Rightarrow> u64 \<Rightarrow> u64 \<Rightarrow> u64 \<Rightarrow> bool option" where
  "HalfOpenRangesOverlap leftBase leftSize rightBase rightSize =
     (if leftSize = 0 \<or> rightSize = 0 then Some False
      else if leftBase > - 1 - leftSize \<or> rightBase > - 1 - rightSize then None
      else Some (leftBase < rightBase + rightSize \<and> rightBase < leftBase + leftSize))"

text \<open>The addresses of a half-open range, as integers.\<close>

definition byte_range :: "('d :: len) word \<Rightarrow> 'd word \<Rightarrow> nat set" where
  "byte_range b n = {unat b ..< unat b + unat n}"

lemma range_limit_iff:
  "b > - 1 - n \<longleftrightarrow> 2 ^ LENGTH('d) \<le> unat b + unat n" if "n \<noteq> 0" for b n :: "('d :: len) word"
proof -
  have "n \<le> - 1" by (rule word_n1_ge)
  then have "unat (- 1 - n) = 2 ^ LENGTH('d) - 1 - unat n"
    by (simp add: unat_sub unsigned_minus_1_eq_mask mask_eq_exp_minus_1)
  moreover have "unat n < 2 ^ LENGTH('d)" by (rule unsigned_less)
  ultimately show ?thesis
    unfolding word_less_nat_alt by linarith
qed

lemma unat_range_end:
  "\<not> 2 ^ LENGTH('d) \<le> unat b + unat n \<Longrightarrow> unat (b + n) = unat b + unat n" for b n :: "('d :: len) word"
  by (simp add: unat_word_ariths)

section \<open>Patterns\<close>

record memory_pattern =
  mp_bytes :: "u8 list"
  mp_exact :: "u8 list"

record memory_search_matches =
  ms_offsets :: "nat list"
  ms_nextCandidate :: nat

text \<open>The loop of \<open>ParseMemoryPattern\<close>, consuming two digits and one mask character a round.\<close>

fun ParseMemoryPattern_loop :: "string \<Rightarrow> string \<Rightarrow> memory_pattern option" where
  "ParseMemoryPattern_loop [] msk = Some \<lparr>mp_bytes = [], mp_exact = []\<rparr>"
| "ParseMemoryPattern_loop (a # b # rest) (m # msk) = do {
     value \<leftarrow> hex_pair a b;
     require (value \<le> 0xff \<and> is_lower_hex a \<and> is_lower_hex b);
     p \<leftarrow> ParseMemoryPattern_loop rest msk;
     Some \<lparr>mp_bytes = ucast value # mp_bytes p, mp_exact = (if m = CHR ''x'' then 1 else 0) # mp_exact p\<rparr>
   }"
| "ParseMemoryPattern_loop _ _ = None"

definition ParseMemoryPattern :: "string \<Rightarrow> string \<Rightarrow> memory_pattern option" where
  "ParseMemoryPattern patternHex msk = do {
     require (\<not> (patternHex = [] \<or> length patternHex > 128 \<or> length patternHex mod 2 \<noteq> 0 \<or>
       length msk \<noteq> length patternHex div 2 \<or> msk = [] \<or> length msk > 64 \<or>
       \<not> list_ex (\<lambda>c. c = CHR ''x'') msk \<or>
       \<not> list_all (\<lambda>c. c = CHR ''x'' \<or> c = CHR ''?'') msk));
     ParseMemoryPattern_loop patternHex msk
   }"

definition pattern_wf :: "memory_pattern \<Rightarrow> bool" where
  "pattern_wf p \<longleftrightarrow> mp_bytes p \<noteq> [] \<and> length (mp_bytes p) \<le> 64 \<and> length (mp_exact p) = length (mp_bytes p) \<and>
     1 \<in> set (mp_exact p)"

lemma ParseMemoryPattern_loop_sound:
  "ParseMemoryPattern_loop h m = Some p \<Longrightarrow> length m = length h div 2 \<Longrightarrow>
   h = Hex (mp_bytes p) \<and> mp_exact p = map (\<lambda>c. if c = CHR ''x'' then 1 else 0) m"
proof (induction h m arbitrary: p rule: ParseMemoryPattern_loop.induct)
  case (2 a b rest m msk)
  then show ?case by (auto simp: monad_simps hex_byte_hex_pair)
qed (auto simp: monad_simps)

lemma ParseMemoryPattern_loop_Hex:
  "length m = length bs \<Longrightarrow>
   ParseMemoryPattern_loop (Hex bs) m =
     Some \<lparr>mp_bytes = bs, mp_exact = map (\<lambda>c. if c = CHR ''x'' then 1 else 0) m\<rparr>"
proof (induction bs arbitrary: m)
  case (Cons b bs)
  then obtain c m' where m: "m = c # m'" "length m' = length bs" by (cases m) auto
  have "unat b \<le> 255" using unat_byte_less [of b] by linarith
  then have "(ucast b :: u32) \<le> 255" by (simp add: word_le_nat_alt)
  with Cons.IH [OF m(2)] show ?case
    by (simp add: m(1) hex_byte_def hex_pair_hex_byte nibbles require_bind)
qed simp

definition mask_char :: "u8 \<Rightarrow> char" where
  "mask_char e = (if e \<noteq> 0 then CHR ''x'' else CHR ''?'')"

section \<open>The scanner\<close>

text \<open>The inner loop: all bytes from \<open>index\<close> on are readable and equal where the mask is exact.\<close>

function FindMemoryPattern_inner ::
    "u8 list \<Rightarrow> u8 list \<Rightarrow> memory_pattern \<Rightarrow> nat \<Rightarrow> nat \<Rightarrow> bool option" where
  "FindMemoryPattern_inner bs readable p candidate index =
     (if index < length (mp_bytes p) then do {
        r \<leftarrow> at readable (candidate + index);
        if r = 0 then Some False else do {
          e \<leftarrow> at (mp_exact p) index;
          b \<leftarrow> at bs (candidate + index);
          if e \<noteq> 0 \<and> b \<noteq> mp_bytes p ! index then Some False
          else FindMemoryPattern_inner bs readable p candidate (Suc index)
        }
      } else Some True)"
  by pat_completeness auto
termination
  by (relation "measure (\<lambda>(bs, readable, p, candidate, index). length (mp_bytes p) - index)") auto

declare FindMemoryPattern_inner.simps [simp del]

function FindMemoryPattern_outer ::
    "u8 list \<Rightarrow> u8 list \<Rightarrow> memory_pattern \<Rightarrow> nat \<Rightarrow> nat \<Rightarrow> nat \<Rightarrow> memory_search_matches \<Rightarrow>
     memory_search_matches option" where
  "FindMemoryPattern_outer bs readable p candidateCount limit candidate result =
     (if candidate < candidateCount then do {
        matched \<leftarrow> FindMemoryPattern_inner bs readable p candidate 0;
        let result = result\<lparr>ms_nextCandidate := candidate + 1\<rparr> in
        if matched then
          let result = result\<lparr>ms_offsets := ms_offsets result @ [candidate]\<rparr> in
          if length (ms_offsets result) = limit then Some result
          else FindMemoryPattern_outer bs readable p candidateCount limit (Suc candidate) result
        else FindMemoryPattern_outer bs readable p candidateCount limit (Suc candidate) result
      } else Some result)"
  by pat_completeness auto
termination
  by (relation "measure (\<lambda>(bs, readable, p, candidateCount, limit, candidate, result).
        candidateCount - candidate)") auto

declare FindMemoryPattern_outer.simps [simp del]

definition FindMemoryPattern ::
    "u8 list \<Rightarrow> u8 list \<Rightarrow> memory_pattern \<Rightarrow> nat \<Rightarrow> nat \<Rightarrow> memory_search_matches option" where
  "FindMemoryPattern bs readable p candidateCount limit =
     (let result = \<lparr>ms_offsets = [], ms_nextCandidate = 0\<rparr> in
      if mp_bytes p = [] \<or> length (mp_bytes p) \<noteq> length (mp_exact p) \<or> length readable \<noteq> length bs \<or>
         limit = 0 \<or> candidateCount > length bs \<or>
         (candidateCount \<noteq> 0 \<and> length (mp_bytes p) > length bs) \<or>
         (candidateCount \<noteq> 0 \<and> candidateCount - 1 > length bs - length (mp_bytes p))
      then Some result
      else FindMemoryPattern_outer bs readable p candidateCount limit 0 result)"

text \<open>What a match at a candidate means.\<close>

definition matches_at :: "u8 list \<Rightarrow> u8 list \<Rightarrow> memory_pattern \<Rightarrow> nat \<Rightarrow> bool" where
  "matches_at bs readable p c \<longleftrightarrow>
     (\<forall>i < length (mp_bytes p). readable ! (c + i) \<noteq> 0 \<and>
        (mp_exact p ! i \<noteq> 0 \<longrightarrow> bs ! (c + i) = mp_bytes p ! i))"

definition scan_request_ok :: "u8 list \<Rightarrow> u8 list \<Rightarrow> memory_pattern \<Rightarrow> nat \<Rightarrow> nat \<Rightarrow> bool" where
  "scan_request_ok bs readable p count limit \<longleftrightarrow>
     mp_bytes p \<noteq> [] \<and> length (mp_exact p) = length (mp_bytes p) \<and> length readable = length bs \<and> 0 < limit \<and>
     (count \<noteq> 0 \<longrightarrow> count - 1 + length (mp_bytes p) \<le> length bs)"

lemma FindMemoryPattern_start:
  "FindMemoryPattern bs readable p count limit =
     (if scan_request_ok bs readable p count limit
      then FindMemoryPattern_outer bs readable p count limit 0 \<lparr>ms_offsets = [], ms_nextCandidate = 0\<rparr>
      else Some \<lparr>ms_offsets = [], ms_nextCandidate = 0\<rparr>)"
proof (cases "mp_bytes p = []")
  case False
  then obtain n where "length (mp_bytes p) = Suc n" by (cases "mp_bytes p") auto
  with False show ?thesis
    by (cases count) (auto simp: FindMemoryPattern_def scan_request_ok_def Let_def)
qed (simp add: FindMemoryPattern_def scan_request_ok_def)

lemma FindMemoryPattern_inner_correct:
  assumes "length (mp_exact p) = length (mp_bytes p)" "length readable = length bs"
    and "c + length (mp_bytes p) \<le> length bs"
  shows "FindMemoryPattern_inner bs readable p c i =
    Some (\<forall>j. i \<le> j \<and> j < length (mp_bytes p) \<longrightarrow> readable ! (c + j) \<noteq> 0 \<and>
        (mp_exact p ! j \<noteq> 0 \<longrightarrow> bs ! (c + j) = mp_bytes p ! j))"
  using assms
proof (induction bs readable p c i rule: FindMemoryPattern_inner.induct)
  case (1 bs readable p c i)
  let ?ok = "\<lambda>j. readable ! (c + j) \<noteq> 0 \<and> (mp_exact p ! j \<noteq> 0 \<longrightarrow> bs ! (c + j) = mp_bytes p ! j)"
  show ?case
  proof (cases "i < length (mp_bytes p)")
    case True
    have split: "(\<forall>j. i \<le> j \<and> j < length (mp_bytes p) \<longrightarrow> ?ok j) \<longleftrightarrow>
        ?ok i \<and> (\<forall>j. Suc i \<le> j \<and> j < length (mp_bytes p) \<longrightarrow> ?ok j)"
      using True by (metis Suc_leD Suc_leI le_neq_implies_less order_refl)
    from True "1.prems" have "c + i < length bs" by linarith
    with True "1" show ?thesis
      by (subst FindMemoryPattern_inner.simps) (auto simp: split)
  next
    case False
    then show ?thesis by (subst FindMemoryPattern_inner.simps) auto
  qed
qed

lemma scan_ok_candidate: "scan_request_ok bs r p n l \<Longrightarrow> c < n \<Longrightarrow> c + length (mp_bytes p) \<le> length bs"
  unfolding scan_request_ok_def by (cases n) auto

lemma inner_matches_at:
  "scan_request_ok bs r p n l \<Longrightarrow> c < n \<Longrightarrow>
   FindMemoryPattern_inner bs r p c 0 = Some (matches_at bs r p c)"
  using scan_ok_candidate [of bs r p n l c]
  by (subst FindMemoryPattern_inner_correct) (auto simp: scan_request_ok_def matches_at_def)

lemma upt_split_first: "c < n \<Longrightarrow> [c..<n] = c # [Suc c..<n]"
  by (rule upt_conv_Cons)

lemma FindMemoryPattern_outer_correct:
  assumes "scan_request_ok bs r p n l" "length (ms_offsets res) < l" "c \<le> n" "ms_nextCandidate res = c"
  shows "\<exists>out. FindMemoryPattern_outer bs r p n l c res = Some out \<and>
     ms_offsets out = ms_offsets res @ take (l - length (ms_offsets res)) (filter (matches_at bs r p) [c..<n]) \<and>
     ms_nextCandidate out \<le> n \<and> c \<le> ms_nextCandidate out \<and>
     (length (ms_offsets out) < l \<longrightarrow> ms_nextCandidate out = n) \<and>
     ms_offsets out = ms_offsets res @ filter (matches_at bs r p) [c..<ms_nextCandidate out]"
  using assms
proof (induction "n - c" arbitrary: c res)
  case 0
  then have "FindMemoryPattern_outer bs r p n l c res = Some res"
    using FindMemoryPattern_outer.simps [of bs r p n l c res] by simp
  with 0 show ?case by (intro exI [of _ res]) simp
next
  case (Suc k)
  note unfold = FindMemoryPattern_outer.simps [of bs r p n l c res]
  let ?m = "matches_at bs r p"
  let ?res1 = "res\<lparr>ms_nextCandidate := Suc c\<rparr>"
  let ?res2 = "?res1\<lparr>ms_offsets := ms_offsets res @ [c]\<rparr>"
  from Suc(2) have True: "c < n" and k: "k = n - Suc c" by auto
  note inner = inner_matches_at [OF Suc.prems(1) True]
  consider (stop) "?m c" "Suc (length (ms_offsets res)) = l"
    | (hit) "?m c" "Suc (length (ms_offsets res)) < l" | (miss) "\<not> ?m c"
    using Suc.prems(2) by linarith
  then show ?case
  proof cases
    case stop
    with True unfold have "FindMemoryPattern_outer bs r p n l c res = Some ?res2"
      by (simp add: inner Let_def)
    moreover have "l - length (ms_offsets res) = 1" using stop(2) by simp
    ultimately show ?thesis using True stop
      by (intro exI [of _ ?res2]) (simp add: upt_split_first [OF True])
  next
    case hit
    then have "FindMemoryPattern_outer bs r p n l c res =
        FindMemoryPattern_outer bs r p n l (Suc c) ?res2"
      using True unfold by (simp add: inner Let_def)
    moreover have "l - length (ms_offsets res) = Suc (l - Suc (length (ms_offsets res)))"
      using hit by simp
    ultimately show ?thesis
      using Suc.hyps(1) [OF k Suc.prems(1), of ?res2] True hit
      by (auto simp: upt_split_first [OF True] upt_split_first [of c])
  next
    case miss
    then have "FindMemoryPattern_outer bs r p n l c res =
        FindMemoryPattern_outer bs r p n l (Suc c) ?res1"
      using True unfold by (simp add: inner Let_def)
    then show ?thesis
      using Suc.hyps(1) [OF k Suc.prems(1), of ?res1] True miss Suc.prems(2)
      by (auto simp: upt_split_first [OF True] upt_split_first [of c])
  qed
qed

text \<open>\<open>HalfOpenRangesOverlap\<close> is exact: an empty range overlaps nothing, a range that
  wraps past the end of the address space has no answer, and otherwise the answer is whether
  the two sets of addresses intersect.\<close>

theorem HalfOpenRangesOverlap_exact:
  "HalfOpenRangesOverlap lb ls rb rs =
     (if ls = 0 \<or> rs = 0 then Some False
      else if 2 ^ 64 \<le> unat lb + unat ls \<or> 2 ^ 64 \<le> unat rb + unat rs then None
      else Some (byte_range lb ls \<inter> byte_range rb rs \<noteq> {}))"
proof -
  have zero: "unat w = 0 \<longleftrightarrow> w = 0" for w :: u64 by (simp add: unat_eq_0)
  have inter: "{a ..< a + m} \<inter> {b ..< b + n} \<noteq> {} \<longleftrightarrow> a < b + n \<and> b < a + m"
    if "0 < m" "0 < n" for a b m n :: nat
  proof
    assume "a < b + n \<and> b < a + m"
    with that have "max a b \<in> {a ..< a + m} \<inter> {b ..< b + n}" by auto
    then show "{a ..< a + m} \<inter> {b ..< b + n} \<noteq> {}" by blast
  qed auto
  show ?thesis
  proof (cases "ls = 0 \<or> rs = 0 \<or> 2 ^ 64 \<le> unat lb + unat ls \<or> 2 ^ 64 \<le> unat rb + unat rs")
    case True
    then show ?thesis
      using range_limit_iff [of ls lb] range_limit_iff [of rs rb]
      by (auto simp: HalfOpenRangesOverlap_def)
  next
    case False
    then have "0 < unat ls" "0 < unat rs" by (auto simp: zero simp flip: neq0_conv)
    with False show ?thesis
      using range_limit_iff [of ls lb] range_limit_iff [of rs rb]
      by (simp add: HalfOpenRangesOverlap_def byte_range_def inter word_less_nat_alt unat_range_end)
        (simp add: conj_commute)
  qed
qed

text \<open>A search pattern is accepted exactly when it is the canonical printed form of a
  well-formed pattern (1 to 64 bytes, mask of the same length, at least one exact byte), and
  the parse gives back that pattern.\<close>

theorem ParseMemoryPattern_roundtrip:
  "ParseMemoryPattern h m = Some p \<longleftrightarrow>
     pattern_wf p \<and> set (mp_exact p) \<subseteq> {0, 1} \<and> h = Hex (mp_bytes p) \<and> m = map mask_char (mp_exact p)"
  (is "?l \<longleftrightarrow> ?r")
proof
  assume l: ?l
  then have len: "length m = length h div 2" and loop: "ParseMemoryPattern_loop h m = Some p"
    and ms: "list_all (\<lambda>c. c = CHR ''x'' \<or> c = CHR ''?'') m" "list_ex (\<lambda>c. c = CHR ''x'') m"
    and b: "h \<noteq> []" "length h \<le> 128"
    by (auto simp: ParseMemoryPattern_def monad_simps)
  note s = ParseMemoryPattern_loop_sound [OF loop len]
  have "map mask_char (map (\<lambda>c. if c = CHR ''x'' then 1 else 0) m) = m"
    unfolding map_map by (rule map_idI) (use ms(1) in \<open>auto simp: mask_char_def list_all_iff\<close>)
  with s ms b len show ?r by (auto simp: pattern_wf_def list_ex_iff)
next
  assume r: ?r
  then have m: "m = map mask_char (mp_exact p)" and ex: "set (mp_exact p) \<subseteq> {0, 1}"
    and wf: "pattern_wf p" by auto
  have "map (\<lambda>c. if c = CHR ''x'' then 1 else 0) m = mp_exact p"
    unfolding m map_map by (rule map_idI) (use ex in \<open>auto simp: mask_char_def\<close>)
  then have "ParseMemoryPattern_loop h m = Some p"
    using r wf ParseMemoryPattern_loop_Hex [of m "mp_bytes p"] by (simp add: pattern_wf_def)
  moreover have x: "CHR ''x'' \<in> set m"
    using wf by (auto simp: m pattern_wf_def mask_char_def image_iff intro!: bexI [of _ 1])
  moreover have "list_all (\<lambda>c. c = CHR ''x'' \<or> c = CHR ''?'') m"
    by (auto simp: m list_all_iff mask_char_def)
  moreover have "length m = length (mp_bytes p)" "h = Hex (mp_bytes p)"
    using r wf by (simp_all add: pattern_wf_def)
  moreover have "m \<noteq> []" using x by auto
  ultimately show ?l
    using wf by (simp add: ParseMemoryPattern_def monad_simps pattern_wf_def list_ex_iff)
qed

lemma FindMemoryPattern_scan:
  assumes "scan_request_ok bs readable p count limit"
  shows "\<exists>out. FindMemoryPattern bs readable p count limit = Some out \<and>
     ms_offsets out = take limit (filter (matches_at bs readable p) [0..<count]) \<and>
     ms_offsets out = filter (matches_at bs readable p) [0..<ms_nextCandidate out] \<and>
     ms_nextCandidate out \<le> count \<and> (length (ms_offsets out) < limit \<longrightarrow> ms_nextCandidate out = count)"
proof -
  let ?res = "\<lparr>ms_offsets = [], ms_nextCandidate = 0\<rparr>"
  have l: "length (ms_offsets ?res) < limit" using assms by (simp add: scan_request_ok_def)
  have "FindMemoryPattern bs readable p count limit =
      FindMemoryPattern_outer bs readable p count limit 0 ?res"
    using assms by (simp add: FindMemoryPattern_start)
  then show ?thesis
    using FindMemoryPattern_outer_correct [OF assms l, of 0, simplified] by auto
qed

text \<open>C34. On a well-formed request the scanner returns every matching offset in increasing
  order, cut after \<open>limit\<close> matches; continuing from \<open>nextCandidate\<close> yields exactly the
  remaining matches, and a scan cut by nothing examined every candidate.\<close>

theorem FindMemoryPattern_correct:
  assumes "scan_request_ok bs readable p count limit"
  shows "\<exists>out. FindMemoryPattern bs readable p count limit = Some out \<and>
     ms_offsets out = take limit (filter (matches_at bs readable p) [0..<count]) \<and>
     ms_offsets out @ filter (matches_at bs readable p) [ms_nextCandidate out..<count] =
       filter (matches_at bs readable p) [0..<count] \<and>
     (length (ms_offsets out) < limit \<longrightarrow> ms_nextCandidate out = count)"
proof -
  let ?m = "matches_at bs readable p"
  obtain out where out: "FindMemoryPattern bs readable p count limit = Some out"
    "ms_offsets out = take limit (filter ?m [0..<count])" "ms_offsets out = filter ?m [0..<ms_nextCandidate out]"
    "ms_nextCandidate out \<le> count" "length (ms_offsets out) < limit \<longrightarrow> ms_nextCandidate out = count"
    using FindMemoryPattern_scan [OF assms] by blast
  have "ms_offsets out @ filter ?m [ms_nextCandidate out..<count] = filter ?m [0..<count]"
    unfolding out(3) using out(4) by (metis filter_append le0 upt_join)
  with out(1,2,5) show ?thesis by blast
qed

theorem FindMemoryPattern_correct_witness:
  "\<exists>out. FindMemoryPattern [1, 2, 1, 3] [1, 1, 1, 1] \<lparr>mp_bytes = [1], mp_exact = [1]\<rparr> 4 1 = Some out \<and>
     ms_offsets out = [0]"
proof -
  have ok: "scan_request_ok [1, 2, 1, 3] [1, 1, 1, 1] \<lparr>mp_bytes = [1], mp_exact = [1]\<rparr> 4 1"
    by (simp add: scan_request_ok_def)
  show ?thesis
    using FindMemoryPattern_correct [OF ok] by (auto simp: matches_at_def upt_rec)
qed

text \<open>A scan never reads out of bounds, whatever its arguments.\<close>

lemma FindMemoryPattern_in_bounds: "FindMemoryPattern bs readable p count limit \<noteq> None"
proof (cases "scan_request_ok bs readable p count limit")
  case True
  then obtain out where "FindMemoryPattern bs readable p count limit = Some out"
    using FindMemoryPattern_outer_correct
      [of bs readable p count limit "\<lparr>ms_offsets = [], ms_nextCandidate = 0\<rparr>" 0]
    by (auto simp: FindMemoryPattern_start scan_request_ok_def)
  then show ?thesis by simp
next
  case False
  then show ?thesis by (simp add: FindMemoryPattern_start)
qed

end
