(* ===== verification/Pe_Policy.thy ===== *)
theory Pe_Policy
  imports Prelude
begin

text \<open>
  \<open>plugin/src/pe_policy.cpp\<close>: reading the identity of a PE image from its headers, and the
  test that an image fits the architecture of the debugger. Every subscript of the source is
  the checked read \<open>at\<close>; \<open>ParsePeIdentity_total\<close> shows that none of them can leave the
  buffer, for any input. The file itself is a parameter of \<open>ReadPeIdentity\<close>.
\<close>

record pe_identity =
  machine :: u16
  optionalMagic :: u16
  entryRva :: u32
  dll :: bool

definition kDosOffset :: nat where "kDosOffset = 0x3c"
definition kMaxHeaderOffset :: nat where "kMaxHeaderOffset = 1024 * 1024"
definition kHeaderSlack :: nat where "kHeaderSlack = 512"
definition kMachineI386 :: u16 where "kMachineI386 = 0x014c"
definition kMachineAmd64 :: u16 where "kMachineAmd64 = 0x8664"
definition kMagicPe32 :: u16 where "kMagicPe32 = 0x010b"
definition kMagicPe32Plus :: u16 where "kMagicPe32Plus = 0x020b"
definition kDllCharacteristic :: u16 where "kDllCharacteristic = 0x2000"

lemmas pe_constants = kDosOffset_def kMaxHeaderOffset_def kHeaderSlack_def

definition U16 :: "u8 list \<Rightarrow> nat \<Rightarrow> u16 option" where
  "U16 bs offset = do {
     b0 \<leftarrow> at bs offset;
     b1 \<leftarrow> at bs (offset + 1);
     Some (ucast b0 OR push_bit 8 (ucast b1))
   }"

definition U32 :: "u8 list \<Rightarrow> nat \<Rightarrow> u32 option" where
  "U32 bs offset = do {
     b0 \<leftarrow> at bs offset;
     b1 \<leftarrow> at bs (offset + 1);
     b2 \<leftarrow> at bs (offset + 2);
     b3 \<leftarrow> at bs (offset + 3);
     Some (ucast b0 OR push_bit 8 (ucast b1) OR push_bit 16 (ucast b2) OR push_bit 24 (ucast b3))
   }"

text \<open>
  The outer \<open>option\<close> is the memory access (\<open>None\<close> would be a read past the buffer), the
  inner one is the result of the function. The conditions are tested in the order of the
  source, each read only after the guard in front of it.
\<close>

definition ParsePeIdentity :: "u8 list \<Rightarrow> pe_identity option option" where
  "ParsePeIdentity bs =
     (if length bs < 64 then Some None else do {
        b0 \<leftarrow> at bs 0;
        b1 \<leftarrow> at bs 1;
        if b0 \<noteq> 77 \<or> b1 \<noteq> 90 then Some None else do {
          ntOffset \<leftarrow> U32 bs kDosOffset;
          let nt = unat ntOffset;
          if nt < 64 \<or> nt > kMaxHeaderOffset \<or> nt > length bs \<or> length bs - nt < 24 + 20
          then Some None else do {
            p0 \<leftarrow> at bs nt;
            p1 \<leftarrow> at bs (nt + 1);
            p2 \<leftarrow> at bs (nt + 2);
            p3 \<leftarrow> at bs (nt + 3);
            if p0 \<noteq> 80 \<or> p1 \<noteq> 69 \<or> p2 \<noteq> 0 \<or> p3 \<noteq> 0 then Some None else do {
              optionalSize \<leftarrow> U16 bs (nt + 20);
              if unat optionalSize < 20 \<or> length bs - nt < 24 + unat optionalSize
              then Some None else do {
                m \<leftarrow> U16 bs (nt + 4);
                magic \<leftarrow> U16 bs (nt + 24);
                entry \<leftarrow> U32 bs (nt + 24 + 16);
                characteristics \<leftarrow> U16 bs (nt + 22);
                Some (Some \<lparr>machine = m, optionalMagic = magic, entryRva = entry,
                            dll = (characteristics AND kDllCharacteristic \<noteq> 0)\<rparr>)
              }
            }
          }
        }
      })"

text \<open>
  \<open>file\<close> is what opening the path yields: \<open>None\<close> when it cannot be opened, otherwise the
  contents; \<open>read_ok\<close> is the outcome of \<open>file.read\<close>. At most the first
  \<open>kMaxHeaderOffset + kHeaderSlack\<close> bytes are looked at.
\<close>

definition ReadPeIdentity :: "u8 list option \<Rightarrow> bool \<Rightarrow> pe_identity option option" where
  "ReadPeIdentity file read_ok =
     (case file of
        None \<Rightarrow> Some None
      | Some content \<Rightarrow>
          if length content < 64 then Some None
          else
            let bounded = (if length content > kMaxHeaderOffset + kHeaderSlack
                           then kMaxHeaderOffset + kHeaderSlack else length content) in
            if \<not> read_ok then Some None else ParsePeIdentity (take bounded content))"

definition PeMatchesBackend :: "build \<Rightarrow> pe_identity \<Rightarrow> bool \<Rightarrow> bool" where
  "PeMatchesBackend b identity requireDll =
     (if dll identity \<noteq> requireDll then False
      else case b of
        Win64 \<Rightarrow> machine identity = kMachineAmd64 \<and> optionalMagic identity = kMagicPe32Plus
      | Win32 \<Rightarrow> machine identity = kMachineI386 \<and> optionalMagic identity = kMagicPe32)"

section \<open>No read leaves the buffer\<close>

lemma U16_in_range: "offset + 1 < length bs \<Longrightarrow> \<exists>w. U16 bs offset = Some w"
  by (simp add: U16_def)

lemma U32_in_range: "offset + 3 < length bs \<Longrightarrow> \<exists>w. U32 bs offset = Some w"
  by (simp add: U32_def)

lemma ParsePeIdentity_total: "\<exists>r. ParsePeIdentity bs = Some r"
proof (cases "length bs < 64")
  case True
  then show ?thesis by (simp add: ParsePeIdentity_def)
next
  case False
  then have b: "bs \<noteq> []" "Suc 0 < length bs" by auto
  from False obtain off where off: "U32 bs kDosOffset = Some off"
    using U32_in_range [of kDosOffset bs] by (auto simp: pe_constants)
  show ?thesis
  proof (cases "unat off > length bs \<or> length bs - unat off < 44")
    case True
    with False b off show ?thesis by (auto simp: ParsePeIdentity_def Let_def)
  next
    case room: False
    then have fit: "unat off + 44 \<le> length bs" by auto
    obtain s where s: "U16 bs (unat off + 20) = Some s"
      using U16_in_range [of "unat off + 20" bs] fit by auto
    obtain m where m: "U16 bs (unat off + 4) = Some m"
      using U16_in_range [of "unat off + 4" bs] fit by auto
    obtain g where g: "U16 bs (unat off + 24) = Some g"
      using U16_in_range [of "unat off + 24" bs] fit by auto
    obtain c where c: "U16 bs (unat off + 22) = Some c"
      using U16_in_range [of "unat off + 22" bs] fit by auto
    obtain e where e: "U32 bs (40 + unat off) = Some e"
      using U32_in_range [of "40 + unat off" bs] fit by auto
    from False b off fit s m g c e show ?thesis
      by (simp add: ParsePeIdentity_def Let_def)
  qed
qed

section \<open>What an accepted image looks like\<close>

text \<open>A little-endian number laid out in a buffer.\<close>

definition le16 :: "u8 list \<Rightarrow> nat \<Rightarrow> nat" where
  "le16 bs i = unat (bs ! i) + 256 * unat (bs ! (i + 1))"

definition le32 :: "u8 list \<Rightarrow> nat \<Rightarrow> nat" where
  "le32 bs i = le16 bs i + 65536 * le16 bs (i + 2)"

lemma or_push_bit_add:
  fixes x y :: "('w :: len) word"
  assumes "unat x < 2 ^ n" "unat y * 2 ^ n < 2 ^ LENGTH('w)"
  shows "unat (x OR push_bit n y) = unat x + unat y * 2 ^ n"
proof -
  have p: "unat (push_bit n y) = push_bit n (unat y)"
    unfolding unsigned_push_bit_eq using assms(2) by (simp add: push_bit_eq_mult take_bit_nat_eq_self)
  have "unat x = take_bit n (unat x)" using assms(1) by (simp add: take_bit_nat_eq_self)
  then have "unat x AND push_bit n (unat y) = 0"
    by (metis (no_types, opaque_lifting) bit_and_iff bit_eqI bit_push_bit_iff bit_take_bit_iff bit_0_eq
        bot_apply bot_bool_def not_le)
  then have "unat x + push_bit n (unat y) = unat x OR push_bit n (unat y)"
    by (rule disjunctive_add_eq_or)
  then show ?thesis unfolding unsigned_or_eq p by (simp add: push_bit_eq_mult)
qed

lemma U16_value: "U16 bs i = Some w \<Longrightarrow> i + 1 < length bs \<and> unat w = le16 bs i"
proof -
  assume u: "U16 bs i = Some w"
  then have r: "i + 1 < length bs" "w = ucast (bs ! i) OR push_bit 8 (ucast (bs ! (i + 1)))"
    by (auto simp: U16_def bind_Some_iff at_Some_iff)
  have "unat (bs ! i) < 2 ^ 8" "unat (bs ! (i + 1)) < 2 ^ 8"
    using unat_byte_less [of "bs ! i"] unat_byte_less [of "bs ! (i + 1)"] by simp_all
  then show ?thesis
    unfolding r(2) using r(1) by (subst or_push_bit_add) (simp_all add: unat_ucast_le le16_def)
qed

lemma U32_value: "U32 bs i = Some w \<Longrightarrow> i + 3 < length bs \<and> unat w = le32 bs i"
proof -
  assume "U32 bs i = Some w"
  then have r: "i + 3 < length bs" "w = ucast (bs ! i) OR push_bit 8 (ucast (bs ! (i + 1))) OR
      push_bit 16 (ucast (bs ! (i + 2))) OR push_bit 24 (ucast (bs ! (i + 3)))"
    by (auto simp: U32_def bind_Some_iff at_Some_iff)
  let ?b = "\<lambda>k. unat (bs ! (i + k))"
  have lt: "?b k < 256" for k by (rule unat_byte_less)
  let ?x1 = "ucast (bs ! i) OR push_bit 8 (ucast (bs ! (i + 1))) :: u32"
  let ?x2 = "?x1 OR push_bit 16 (ucast (bs ! (i + 2)))"
  have b0: "unat (bs ! i) < 256" by (rule unat_byte_less)
  have x1: "unat ?x1 = unat (bs ! i) + ?b 1 * 256"
    using b0 lt [of 1] or_push_bit_add [of "ucast (bs ! i) :: u32" 8 "ucast (bs ! (i + 1))"] by simp
  have x2: "unat ?x2 = unat (bs ! i) + ?b 1 * 256 + ?b 2 * 65536"
    using b0 lt [of 1] lt [of 2] x1 or_push_bit_add [of ?x1 16 "ucast (bs ! (i + 2))"] by simp
  have "unat (?x2 OR push_bit 24 (ucast (bs ! (i + 3)))) =
      unat (bs ! i) + ?b 1 * 256 + ?b 2 * 65536 + ?b 3 * 16777216"
    using b0 lt [of 1] lt [of 2] lt [of 3] x2 or_push_bit_add [of ?x2 24 "ucast (bs ! (i + 3))"] by simp
  with r show ?thesis by (simp add: le32_def le16_def or.assoc add.commute [of i] numeral_3_eq_3)
qed

text \<open>The layout an accepted image has; \<open>nt\<close> is the offset of the NT headers.\<close>

definition pe_layout :: "u8 list \<Rightarrow> nat \<Rightarrow> bool" where
  "pe_layout bs nt \<longleftrightarrow> 64 \<le> length bs \<and> bs ! 0 = 77 \<and> bs ! 1 = 90 \<and> nt = le32 bs 0x3c \<and>
     64 \<le> nt \<and> nt \<le> 1048576 \<and> nt + 44 \<le> length bs \<and>
     take 4 (drop nt bs) = [80, 69, 0, 0] \<and>
     20 \<le> le16 bs (nt + 20) \<and> nt + 24 + le16 bs (nt + 20) \<le> length bs"

lemma take_drop_4:
  assumes "n + 4 \<le> length xs"
  shows "take 4 (drop n xs) = [a, b, c, d] \<longleftrightarrow>
    xs ! n = a \<and> xs ! (n + 1) = b \<and> xs ! (n + 2) = c \<and> xs ! (n + 3) = d"
proof -
  have "take 4 (drop n xs) = [xs ! n, xs ! (n + 1), xs ! (n + 2), xs ! (n + 3)]"
    using assms by (intro nth_equalityI) (auto simp: numeral_eq_Suc less_Suc_eq)
  then show ?thesis by auto
qed

text \<open>An image is accepted exactly when it has the PE layout within the buffer, and the
  identity is read from its fixed offsets: machine, optional-header magic, entry point and the
  DLL bit of the characteristics. No subscript leaves the buffer on any input.\<close>

theorem ParsePeIdentity_layout:
  "ParsePeIdentity bs =
     (let nt = le32 bs 0x3c in
      if pe_layout bs nt then
        Some (Some \<lparr>machine = of_nat (le16 bs (nt + 4)), optionalMagic = of_nat (le16 bs (nt + 24)),
          entryRva = of_nat (le32 bs (nt + 40)),
          dll = (of_nat (le16 bs (nt + 22)) AND kDllCharacteristic \<noteq> 0)\<rparr>)
      else Some None)"
proof (cases "length bs < 64")
  case True
  then show ?thesis by (simp add: ParsePeIdentity_def pe_layout_def Let_def)
next
  case False
  then have b: "bs \<noteq> []" "Suc 0 < length bs" by auto
  from False obtain off where off: "U32 bs kDosOffset = Some off"
    using U32_in_range [of kDosOffset bs] by (auto simp: pe_constants)
  then have nt: "unat off = le32 bs 0x3c" using U32_value [OF off] by (simp add: pe_constants)
  show ?thesis
  proof (cases "le32 bs 0x3c + 44 \<le> length bs")
    case no: False
    with False b off nt show ?thesis
      by (auto simp: ParsePeIdentity_def pe_layout_def Let_def)
  next
    case fit: True
    let ?nt = "le32 bs 0x3c"
    have u16: "U16 bs i = Some (of_nat (le16 bs i))" if "i + 1 < length bs" for i
      using U16_in_range [OF that] U16_value [of bs i] by (metis of_nat_unat ucast_id)
    have u32: "U32 bs i = Some (of_nat (le32 bs i))" if "i + 3 < length bs" for i
      using U32_in_range [OF that] U32_value [of bs i] by (metis of_nat_unat ucast_id)
    have le16: "unat (of_nat (le16 bs i) :: u16) = le16 bs i" if "i + 1 < length bs" for i
      using u16 [OF that] U16_value [of bs i] by auto
    have pe: "(bs ! ?nt \<noteq> 80 \<or> bs ! (?nt + 1) \<noteq> 69 \<or> bs ! (?nt + 2) \<noteq> 0 \<or> bs ! (?nt + 3) \<noteq> 0) \<longleftrightarrow>
        take 4 (drop ?nt bs) \<noteq> [80, 69, 0, 0]"
      using fit by (simp add: take_drop_4)
    have sz: "unat (of_nat (le16 bs (?nt + 20)) :: u16) = le16 bs (?nt + 20)"
      using fit by (intro le16) simp
    have reads: "U16 bs (?nt + 20) = Some (of_nat (le16 bs (?nt + 20)))"
      "U16 bs (?nt + 4) = Some (of_nat (le16 bs (?nt + 4)))"
      "U16 bs (?nt + 24) = Some (of_nat (le16 bs (?nt + 24)))"
      "U16 bs (?nt + 22) = Some (of_nat (le16 bs (?nt + 22)))"
      "U32 bs (?nt + 24 + 16) = Some (of_nat (le32 bs (?nt + 40)))"
      using fit u32 [of "?nt + 40"] by (auto simp: u16 add.assoc)
    have at: "at bs ?nt = Some (bs ! ?nt)" "at bs (?nt + 1) = Some (bs ! (?nt + 1))"
      "at bs (?nt + 2) = Some (bs ! (?nt + 2))" "at bs (?nt + 3) = Some (bs ! (?nt + 3))"
      using fit by (simp_all add: at_def)
    show ?thesis
      unfolding ParsePeIdentity_def Let_def off bind.bind_lunit nt at reads pe sz
      using False b fit
      by (auto simp: pe_layout_def pe_constants)
  qed
qed

end
