(* ===== verification/Launch_Arguments.thy ===== *)
theory Launch_Arguments
  imports Cpp_Text
begin

text \<open>
  \<open>plugin/src/launch_arguments.cpp\<close>: validation and quoting of the arguments of a launched
  program, and the x64dbg command that carries them. Decoding UTF-8 is done by the Windows
  function \<open>MultiByteToWideChar\<close>, a parameter \<open>wide\<close> here: \<open>None\<close> for a failed
  conversion, otherwise the UTF-16 code units.

  Quoting is proved against the documented rules by which Windows splits a command line into
  arguments, and escaping against a reader of quoted strings in which a backslash takes the
  next character literally: what is rendered always reads back as the arguments that went in.
\<close>

definition kMaxLaunchArguments :: nat where "kMaxLaunchArguments = 32"
definition kMaxLaunchArgumentBytes :: nat where "kMaxLaunchArgumentBytes = 256"
definition kMaxLaunchArgumentTotalBytes :: nat where "kMaxLaunchArgumentTotalBytes = 512"
definition kMaxRenderedLaunchArgumentBytes :: nat where "kMaxRenderedLaunchArgumentBytes = 768"
definition kX64dbgCommandBufferBytes :: nat where "kX64dbgCommandBufferBytes = 1024"

lemmas launch_limits = kMaxLaunchArguments_def kMaxLaunchArgumentBytes_def
  kMaxLaunchArgumentTotalBytes_def kMaxRenderedLaunchArgumentBytes_def kX64dbgCommandBufferBytes_def

abbreviation bslash :: char where "bslash \<equiv> CHR 0x5C"
abbreviation dquote :: char where "dquote \<equiv> CHR 0x22"
abbreviation space_char :: char where "space_char \<equiv> CHR 0x20"
abbreviation tab_char :: char where "tab_char \<equiv> CHR 0x09"

definition ValidLaunchArgument :: "(string \<Rightarrow> u16 list option) \<Rightarrow> string \<Rightarrow> bool" where
  "ValidLaunchArgument wide value =
     (if length value > kMaxLaunchArgumentBytes \<or> length value > 2147483647 then False
      else if value = [] then True
      else case wide value of
        None \<Rightarrow> False
      | Some decoded \<Rightarrow>
          decoded \<noteq> [] \<and>
          list_all (\<lambda>c. \<not> (unat c \<le> 0x1f \<or> (unat c \<ge> 0x7f \<and> unat c \<le> 0x9f))) decoded)"

text \<open>The loop of \<open>QuoteWindowsArgument\<close>, with its count of pending backslashes.\<close>

fun QuoteWindowsArgument_loop :: "string \<Rightarrow> nat \<Rightarrow> string" where
  "QuoteWindowsArgument_loop [] backslashes = replicate (backslashes * 2) bslash @ [dquote]"
| "QuoteWindowsArgument_loop (c # cs) backslashes =
     (if c = bslash then QuoteWindowsArgument_loop cs (backslashes + 1)
      else if c = dquote
      then replicate (backslashes * 2 + 1) bslash @ dquote # QuoteWindowsArgument_loop cs 0
      else replicate backslashes bslash @ c # QuoteWindowsArgument_loop cs 0)"

definition QuoteWindowsArgument :: "string \<Rightarrow> string" where
  "QuoteWindowsArgument value = dquote # QuoteWindowsArgument_loop value 0"

fun RenderWindowsArguments_loop ::
    "(string \<Rightarrow> u16 list option) \<Rightarrow> string list \<Rightarrow> nat \<Rightarrow> string \<Rightarrow> string option" where
  "RenderWindowsArguments_loop wide [] inputBytes result = Some result"
| "RenderWindowsArguments_loop wide (a # as) inputBytes result = do {
     require (\<not> (\<not> ValidLaunchArgument wide a \<or>
       length a > kMaxLaunchArgumentTotalBytes - inputBytes));
     let inputBytes = inputBytes + length a;
     let quoted = QuoteWindowsArgument a;
     let result = (if result \<noteq> [] then result @ [space_char] else result) @ quoted;
     require (\<not> length result > kMaxRenderedLaunchArgumentBytes);
     RenderWindowsArguments_loop wide as inputBytes result
   }"

definition RenderWindowsArguments :: "(string \<Rightarrow> u16 list option) \<Rightarrow> string list \<Rightarrow> string option" where
  "RenderWindowsArguments wide arguments = do {
     require (\<not> length arguments > kMaxLaunchArguments);
     RenderWindowsArguments_loop wide arguments 0 []
   }"

fun EscapeX64dbgCommandArgument :: "string \<Rightarrow> string" where
  "EscapeX64dbgCommandArgument [] = []"
| "EscapeX64dbgCommandArgument (c # cs) =
     (if c = bslash \<or> c = dquote then [bslash, c] else [c]) @ EscapeX64dbgCommandArgument cs"

text \<open>\<open>find_last_of\<close> a set of characters.\<close>

fun find_last_of :: "('a \<Rightarrow> bool) \<Rightarrow> 'a list \<Rightarrow> nat option" where
  "find_last_of P [] = None"
| "find_last_of P (x # xs) =
     (case find_last_of P xs of Some i \<Rightarrow> Some (Suc i) | None \<Rightarrow> if P x then Some 0 else None)"

definition HasPifExtension :: "string \<Rightarrow> bool" where
  "HasPifExtension path =
     (let separator = find_last_of (\<lambda>c. c = CHR ''/'' \<or> c = bslash) path;
          dot = find_last_of (\<lambda>c. c = CHR ''.'') path in
      case dot of
        None \<Rightarrow> False
      | Some d \<Rightarrow>
          if separator \<noteq> None \<and> d < the separator then False
          else
            let extension = drop d path in
            length extension = 4 \<and> extension ! 0 = CHR ''.'' \<and> tolower (extension ! 1) = CHR ''p'' \<and>
            tolower (extension ! 2) = CHR ''i'' \<and> tolower (extension ! 3) = CHR ''f'')"

definition BuildInitCommand :: "string \<Rightarrow> string \<Rightarrow> string \<Rightarrow> string option" where
  "BuildInitCommand executable commandLine workingDirectory =
     (let result = ''scriptcmd init '' @ [dquote] @ EscapeX64dbgCommandArgument executable @
            [dquote] @ '', '' @ [dquote] @ EscapeX64dbgCommandArgument commandLine @
            [dquote] @ '', '' @ [dquote] @ EscapeX64dbgCommandArgument workingDirectory @ [dquote] in
      if length result \<ge> kX64dbgCommandBufferBytes then None else Some result)"

section \<open>The documented splitting rules\<close>

text \<open>
  One argument of a Windows command line: \<open>2n\<close> backslashes before a double quote are \<open>n\<close>
  backslashes and the quote switches quoting on or off; \<open>2n + 1\<close> are \<open>n\<close> backslashes and a
  literal quote; other backslashes are literal; an unquoted blank ends the argument.
\<close>

fun next_argument :: "string \<Rightarrow> nat \<Rightarrow> bool \<Rightarrow> string \<Rightarrow> string \<times> string" where
  "next_argument [] n quoted acc = (acc @ replicate n bslash, [])"
| "next_argument (c # cs) n quoted acc =
     (if c = bslash then next_argument cs (Suc n) quoted acc
      else if c = dquote then
        (if even n then next_argument cs 0 (\<not> quoted) (acc @ replicate (n div 2) bslash)
         else next_argument cs 0 quoted (acc @ replicate (n div 2) bslash @ [dquote]))
      else if \<not> quoted \<and> (c = space_char \<or> c = tab_char)
      then (acc @ replicate n bslash, c # cs)
      else next_argument cs 0 quoted (acc @ replicate n bslash @ [c]))"

definition skip_blanks :: "string \<Rightarrow> string" where
  "skip_blanks s = dropWhile (\<lambda>c. c = space_char \<or> c = tab_char) s"

lemma next_argument_length: "length (snd (next_argument s n q acc)) \<le> length s"
proof (induction s arbitrary: n q acc)
  case (Cons c cs)
  then have "length (snd (next_argument cs n q acc)) \<le> Suc (length cs)" for n q acc
    using le_SucI by blast
  then show ?case by simp
qed simp

lemma skip_blanks_length: "length (skip_blanks s) \<le> length s"
  by (simp add: skip_blanks_def length_dropWhile_le)

lemma next_argument_consumes:
  "s \<noteq> [] \<Longrightarrow> skip_blanks s = s \<Longrightarrow> length (snd (next_argument s 0 False [])) < length s"
proof (cases s)
  case (Cons c cs)
  assume "skip_blanks s = s"
  then have "\<not> (c = space_char \<or> c = tab_char)"
    by (simp add: Cons skip_blanks_def dropWhile_eq_self_iff del: dropWhile.simps)
  with Cons show ?thesis
    by (simp add: less_Suc_eq_le next_argument_length)
qed simp

function split_arguments :: "string \<Rightarrow> string list" where
  "split_arguments s =
     (let t = skip_blanks s in
      if t = [] then []
      else let (a, rest) = next_argument t 0 False [] in a # split_arguments rest)"
  by pat_completeness auto
termination
proof (relation "measure length"; clarsimp)
  fix s a rest
  assume t: "skip_blanks s \<noteq> []" and r: "(a, rest) = next_argument (skip_blanks s) 0 False []"
  have "skip_blanks (skip_blanks s) = skip_blanks s" by (simp add: skip_blanks_def)
  from next_argument_consumes [OF t this] r have "length rest < length (skip_blanks s)"
    by (metis snd_conv)
  then show "length rest < length s" using skip_blanks_length [of s] by linarith
qed

declare split_arguments.simps [simp del]

section \<open>Quoting reads back\<close>

lemma replicate_bslash_read:
  "next_argument (replicate n bslash @ s) m q acc = next_argument s (m + n) q acc"
  by (induction n arbitrary: m) simp_all

lemma next_argument_quote:
  "next_argument (QuoteWindowsArgument_loop v n @ rest) 0 True acc =
     next_argument rest 0 False (acc @ replicate n bslash @ v)"
proof (induction v n arbitrary: acc rule: QuoteWindowsArgument_loop.induct)
  case (2 c cs n)
  show ?case
  proof (cases "c = bslash")
    case True
    with 2(1) show ?thesis by (simp add: replicate_app_Cons_same)
  next
    case False
    with 2(2,3) show ?thesis by (simp add: replicate_bslash_read)
  qed
qed (simp add: replicate_bslash_read)

lemma next_argument_QuoteWindowsArgument:
  "next_argument (QuoteWindowsArgument v @ rest) 0 False [] = next_argument rest 0 False v"
  using next_argument_quote [of v 0 rest "[]"] by (simp add: QuoteWindowsArgument_def)

lemma Quote_nonempty: "QuoteWindowsArgument v \<noteq> []"
  by (simp add: QuoteWindowsArgument_def)

lemma skip_blanks_Quote: "skip_blanks (QuoteWindowsArgument v @ rest) = QuoteWindowsArgument v @ rest"
  by (simp add: skip_blanks_def QuoteWindowsArgument_def)

lemma split_arguments_one: "split_arguments (QuoteWindowsArgument v) = [v]"
proof -
  have "next_argument (QuoteWindowsArgument v) 0 False [] = (v, [])"
    using next_argument_QuoteWindowsArgument [of v "[]"] by simp
  moreover have "skip_blanks (QuoteWindowsArgument v) = QuoteWindowsArgument v"
    using skip_blanks_Quote [of v "[]"] by simp
  moreover note Quote_nonempty [of v]
  moreover have "split_arguments [] = []" by (subst split_arguments.simps) (simp add: skip_blanks_def)
  ultimately show ?thesis by (subst split_arguments.simps) simp
qed

lemma split_arguments_cons:
  "split_arguments (QuoteWindowsArgument v @ space_char # rest) = v # split_arguments rest"
proof -
  have sb: "split_arguments (space_char # rest) = split_arguments rest"
    by (subst (1 2) split_arguments.simps) (simp add: skip_blanks_def)
  have "next_argument (QuoteWindowsArgument v @ space_char # rest) 0 False [] = (v, space_char # rest)"
    by (simp add: next_argument_QuoteWindowsArgument)
  then show ?thesis
    by (subst split_arguments.simps) (simp add: skip_blanks_Quote sb Quote_nonempty)
qed

text \<open>What the rendered command line is, without the loop.\<close>

fun join_quoted :: "string list \<Rightarrow> string" where
  "join_quoted [] = []"
| "join_quoted [a] = QuoteWindowsArgument a"
| "join_quoted (a # as) = QuoteWindowsArgument a @ space_char # join_quoted as"

lemma split_join_quoted: "split_arguments (join_quoted as) = as"
proof (induction as rule: join_quoted.induct)
  case 1
  show ?case by (subst split_arguments.simps) (simp add: skip_blanks_def)
qed (simp_all add: split_arguments_one split_arguments_cons)

lemma join_quoted_snoc:
  "join_quoted (as @ [a]) =
     (if as = [] then QuoteWindowsArgument a else join_quoted as @ space_char # QuoteWindowsArgument a)"
proof (induction as rule: join_quoted.induct)
  case (3 a1 a2 as)
  then show ?case by (cases as) simp_all
qed simp_all

lemma join_quoted_Nil_iff: "join_quoted as = [] \<longleftrightarrow> as = []"
  by (cases as rule: join_quoted.cases) (simp_all add: QuoteWindowsArgument_def)

lemma RenderWindowsArguments_loop_sound:
  "RenderWindowsArguments_loop wide as n (join_quoted done) = Some cmd \<Longrightarrow>
   n = sum_list (map length done) \<Longrightarrow> n \<le> 512 \<Longrightarrow> length (join_quoted done) \<le> 768 \<Longrightarrow>
   cmd = join_quoted (done @ as) \<and> list_all (ValidLaunchArgument wide) as \<and>
   sum_list (map length (done @ as)) \<le> 512 \<and> length cmd \<le> 768"
proof (induction as arbitrary: n "done")
  case (Cons a as)
  have step: "(if join_quoted done \<noteq> [] then join_quoted done @ [space_char] else join_quoted done) @
      QuoteWindowsArgument a = join_quoted (done @ [a])"
    by (simp add: join_quoted_snoc join_quoted_Nil_iff)
  from Cons.prems(1) have v: "ValidLaunchArgument wide a" "length a \<le> 512 - n"
    and l: "length (join_quoted (done @ [a])) \<le> 768"
    and r: "RenderWindowsArguments_loop wide as (n + length a) (join_quoted (done @ [a])) = Some cmd"
    by (auto simp only: RenderWindowsArguments_loop.simps Let_def step monad_simps launch_limits
        require_Some_iff not_less)
  have "n + length a \<le> 512" using v Cons.prems(3) by linarith
  from Cons.IH [OF r _ this l] v Cons.prems(2) show ?case by auto
qed auto

section \<open>Escaping reads back\<close>

text \<open>A quoted string of the x64dbg command language: a backslash takes the next character.\<close>

fun read_quoted :: "string \<Rightarrow> (string \<times> string) option" where
  "read_quoted [] = None"
| "read_quoted (c # cs) =
     (if c = dquote then Some ([], cs)
      else if c = bslash then
        (case cs of [] \<Rightarrow> None
         | d # ds \<Rightarrow> map_option (\<lambda>(s, rest). (d # s, rest)) (read_quoted ds))
      else map_option (\<lambda>(s, rest). (c # s, rest)) (read_quoted cs))"

definition read_init_command :: "string \<Rightarrow> (string \<times> string \<times> string) option" where
  "read_init_command cmd = do {
     require (starts_with cmd (''scriptcmd init '' @ [dquote]));
     (executable, r1) \<leftarrow> read_quoted (drop 16 cmd);
     require (starts_with r1 ('', '' @ [dquote]));
     (commandLine, r2) \<leftarrow> read_quoted (drop 3 r1);
     require (starts_with r2 ('', '' @ [dquote]));
     (workingDirectory, r3) \<leftarrow> read_quoted (drop 3 r2);
     require (r3 = []);
     Some (executable, commandLine, workingDirectory)
   }"

lemma read_quoted_Escape [simp]:
  "read_quoted (EscapeX64dbgCommandArgument s @ dquote # rest) = Some (s, rest)"
  by (induction s) auto

lemma find_last_of_eq:
  "\<not> (\<exists>x \<in> set ys. P x) \<Longrightarrow> P x \<Longrightarrow> find_last_of P (xs @ x # ys) = Some (length xs)"
proof (induction xs)
  case Nil
  then have "find_last_of P ys = None" by (induction ys) auto
  with Nil show ?case by simp
qed simp

lemma find_last_of_Some:
  "find_last_of P xs = Some i \<Longrightarrow> i < length xs \<and> P (xs ! i) \<and> (\<forall>j < length xs. i < j \<longrightarrow> \<not> P (xs ! j))"
proof (induction xs arbitrary: i)
  case (Cons x xs)
  have none: "find_last_of P xs = None \<Longrightarrow> j < length xs \<Longrightarrow> \<not> P (xs ! j)" for j
  proof (induction xs arbitrary: j)
    case (Cons y ys)
    then show ?case by (cases j) (auto split: option.splits if_splits)
  qed simp
  show ?case
  proof (cases "find_last_of P xs")
    case None
    with Cons.prems have "i = 0" "P x" by (auto split: if_splits)
    with none [OF None] show ?thesis by (auto simp: nth_Cons split: nat.splits)
  next
    case (Some k)
    with Cons.prems have "i = Suc k" by simp
    with Cons.IH [OF Some] show ?thesis by (auto simp: nth_Cons split: nat.splits)
  qed
qed simp

section \<open>Properties\<close>

text \<open>C30. When the arguments of a launch are rendered, splitting the command line by the
  documented Windows rules yields exactly those arguments, each of them passed validation, and
  the limits on count and size hold.\<close>

theorem RenderWindowsArguments_roundtrip:
  assumes "RenderWindowsArguments wide arguments = Some cmd"
  shows "split_arguments cmd = arguments \<and> list_all (ValidLaunchArgument wide) arguments \<and>
    length arguments \<le> 32 \<and> sum_list (map length arguments) \<le> 512 \<and> length cmd \<le> 768"
proof -
  from assms have n: "length arguments \<le> 32"
    and r: "RenderWindowsArguments_loop wide arguments 0 (join_quoted []) = Some cmd"
    by (auto simp: RenderWindowsArguments_def monad_simps launch_limits)
  from RenderWindowsArguments_loop_sound [OF r] n show ?thesis
    by (auto simp: split_join_quoted)
qed

theorem RenderWindowsArguments_roundtrip_witness:
  "\<exists>cmd. RenderWindowsArguments (\<lambda>s. Some (map (\<lambda>c. of_nat (char_code c)) s)) [''a b'', [bslash]] = Some cmd \<and>
     split_arguments cmd = [''a b'', [bslash]]"
proof -
  have "\<exists>cmd. RenderWindowsArguments (\<lambda>s. Some (map (\<lambda>c. of_nat (char_code c)) s)) [''a b'', [bslash]] = Some cmd"
    by (simp add: RenderWindowsArguments_def require_bind launch_limits ValidLaunchArgument_def
        QuoteWindowsArgument_def Let_def char_code_def)
  then show ?thesis using RenderWindowsArguments_roundtrip by blast
qed

text \<open>The \<open>init\<close> command built for x64dbg fits its command buffer and reads back as
  exactly the executable, command line and working directory: no argument can end its
  quoted string early and inject a command.\<close>

theorem BuildInitCommand_roundtrip:
  assumes "BuildInitCommand executable commandLine workingDirectory = Some cmd"
  shows "read_init_command cmd = Some (executable, commandLine, workingDirectory) \<and> length cmd < 1024"
  using assms
  by (auto simp: BuildInitCommand_def read_init_command_def Let_def require_bind launch_limits
      starts_with_def split: if_splits)

theorem BuildInitCommand_roundtrip_witness:
  "\<exists>cmd. BuildInitCommand ''C:/a.exe'' [dquote] ''C:/'' = Some cmd \<and>
     read_init_command cmd = Some (''C:/a.exe'', [dquote], ''C:/'')"
proof -
  have "\<exists>cmd. BuildInitCommand ''C:/a.exe'' [dquote] ''C:/'' = Some cmd"
    by (simp add: BuildInitCommand_def launch_limits)
  then show ?thesis using BuildInitCommand_roundtrip by blast
qed

text \<open>A path has a PIF extension exactly when its last four characters are \<open>.pif\<close> in any
  case, wherever directory separators stand.\<close>

theorem HasPifExtension_iff:
  "HasPifExtension path \<longleftrightarrow> (\<exists>stem. map tolower path = stem @ ''.pif'')"
proof
  assume "HasPifExtension path"
  then obtain d where e: "length (drop d path) = 4" "drop d path ! 0 = CHR ''.''"
    "tolower (drop d path ! 1) = CHR ''p''" "tolower (drop d path ! 2) = CHR ''i''"
    "tolower (drop d path ! 3) = CHR ''f''"
    by (auto simp: HasPifExtension_def Let_def split: option.splits if_splits)
  have "map tolower (drop d path) = ''.pif''"
    using e by (intro nth_equalityI) (auto simp: numeral_eq_Suc less_Suc_eq tolower_def char_code_def)
  then have "map tolower path = map tolower (take d path) @ ''.pif''"
    by (metis append_take_drop_id map_append)
  then show "\<exists>stem. map tolower path = stem @ ''.pif''" by blast
next
  assume "\<exists>stem. map tolower path = stem @ ''.pif''"
  then obtain xs w x y z where p: "path = xs @ [w, x, y, z]" and w: "tolower w = CHR ''.''"
    and l: "tolower x = CHR ''p''" "tolower y = CHR ''i''" "tolower z = CHR ''f''"
    by (auto simp: map_eq_append_conv map_eq_Cons_conv)
  have dot: "w = CHR ''.''" by (rule tolower_eq_nonletter [OF w]) (simp add: char_code_def)
  have letters: "\<forall>c \<in> set [x, y, z]. c \<noteq> CHR ''.'' \<and> c \<noteq> CHR ''/'' \<and> c \<noteq> bslash"
    using l by (auto simp: tolower_def char_code_def)
  have d: "find_last_of (\<lambda>c. c = CHR ''.'') path = Some (length xs)"
    unfolding p using letters dot by (intro find_last_of_eq) auto
  have s: "k < length xs" if "find_last_of (\<lambda>c. c = CHR ''/'' \<or> c = bslash) path = Some k" for k
  proof (rule ccontr)
    assume "\<not> k < length xs"
    then have "path ! k = [w, x, y, z] ! (k - length xs)" by (simp add: p nth_append)
    moreover have "k - length xs < length [w, x, y, z]"
      using conjunct1 [OF find_last_of_Some [OF that]] by (simp add: p less_diff_conv2)
    ultimately have "path ! k \<in> set [w, x, y, z]" by (metis nth_mem)
    with find_last_of_Some [OF that] letters dot show False by auto
  qed
  have e: "drop (length xs) path = [w, x, y, z]" by (simp add: p)
  show "HasPifExtension path"
  proof (cases "find_last_of (\<lambda>c. c = CHR ''/'' \<or> c = bslash) path")
    case None
    with dot l show ?thesis by (simp add: HasPifExtension_def d e)
  next
    case (Some k)
    with s [OF Some] dot l show ?thesis by (simp add: HasPifExtension_def d e)
  qed
qed

end
