(* ===== verification/Utf8.thy ===== *)
theory Utf8
  imports Cpp_Text
begin

text \<open>
  \<open>plugin/src/utf8.cpp\<close>: the UTF-8 validator, the JSON string printer through which every
  string of a response passes, and the match context of \<open>strings.search\<close>. Conversions to
  UTF-16 and the case-insensitive comparisons are Windows functions, parameters of the
  definitions that call them.

  The validator is shown equivalent to the definition of UTF-8 (concatenated encodings of
  Unicode scalar values). \<open>JsonString\<close> always prints valid UTF-8 without raw control
  characters, and a reader of JSON string tokens gets back the input with each invalid byte
  replaced by U+FFFD.
\<close>

section \<open>Sequences\<close>

definition IsContinuation :: "char \<Rightarrow> bool" where
  "IsContinuation c \<longleftrightarrow> (char_code c AND 0xc0) = 0x80"

text \<open>\<open>None\<close> would be a read past the end of the view (see \<open>at\<close>).\<close>

definition ValidSequenceLength :: "string \<Rightarrow> nat \<Rightarrow> nat option" where
  "ValidSequenceLength value offset = do {
     f \<leftarrow> at value offset;
     let first = char_code f;
     let remaining = length value - offset;
     if first \<le> 0x7f then Some 1 else do {
       two \<leftarrow> (if first \<ge> 0xc2 \<and> first \<le> 0xdf \<and> remaining \<ge> 2
              then map_option IsContinuation (at value (offset + 1)) else Some False);
       if two then Some 2 else do {
         three \<leftarrow> (if remaining \<ge> 3 then do {
           s \<leftarrow> at value (offset + 1);
           third \<leftarrow> at value (offset + 2);
           let second = char_code s;
           let secondValid = ((first = 0xe0 \<and> second \<ge> 0xa0 \<and> second \<le> 0xbf) \<or>
             ((first \<ge> 0xe1 \<and> first \<le> 0xec) \<and> IsContinuation s) \<or>
             (first = 0xed \<and> second \<ge> 0x80 \<and> second \<le> 0x9f) \<or>
             ((first \<ge> 0xee \<and> first \<le> 0xef) \<and> IsContinuation s));
           Some (secondValid \<and> IsContinuation third) } else Some False);
         if three then Some 3 else do {
           four \<leftarrow> (if remaining \<ge> 4 then do {
             s \<leftarrow> at value (offset + 1);
             third \<leftarrow> at value (offset + 2);
             fourth \<leftarrow> at value (offset + 3);
             let second = char_code s;
             let secondValid = ((first = 0xf0 \<and> second \<ge> 0x90 \<and> second \<le> 0xbf) \<or>
               ((first \<ge> 0xf1 \<and> first \<le> 0xf3) \<and> IsContinuation s) \<or>
               (first = 0xf4 \<and> second \<ge> 0x80 \<and> second \<le> 0x8f));
             Some (secondValid \<and> IsContinuation third \<and> IsContinuation fourth) } else Some False);
           if four then Some 4 else Some 0
         }
       }
     }
   }"

definition Utf8SequenceLength :: "string \<Rightarrow> nat \<Rightarrow> nat" where
  "Utf8SequenceLength value offset =
     (if offset < length value then
        (case ValidSequenceLength value offset of Some n \<Rightarrow> n | None \<Rightarrow> 0) else 0)"

text \<open>
  Inside the library every caller tests \<open>offset < size\<close> first, so the call is
  \<open>Utf8SequenceLength\<close> with its range test already true.
\<close>

function IsValidUtf8_from :: "string \<Rightarrow> nat \<Rightarrow> bool" where
  "IsValidUtf8_from value offset =
     (if offset < length value then
        (let len = Utf8SequenceLength value offset in
         if len = 0 then False else IsValidUtf8_from value (offset + len))
      else True)"
  by pat_completeness auto
termination
  by (relation "measure (\<lambda>(value, offset). length value - offset)") auto

declare IsValidUtf8_from.simps [simp del]

definition IsValidUtf8 :: "string \<Rightarrow> bool" where
  "IsValidUtf8 value = IsValidUtf8_from value 0"

section \<open>JSON strings\<close>

definition kReplacement :: string where
  "kReplacement = [CHR 0xEF, CHR 0xBF, CHR 0xBD]"

definition AppendAsciiJsonEscape :: "string \<Rightarrow> char \<Rightarrow> string" where
  "AppendAsciiJsonEscape output b =
     output @
     (if b = CHR 0x22 then [CHR 0x5C, CHR 0x22]
      else if b = CHR 0x5C then [CHR 0x5C, CHR 0x5C]
      else if b = CHR 0x08 then [CHR 0x5C, CHR ''b'']
      else if b = CHR 0x0C then [CHR 0x5C, CHR ''f'']
      else if b = CHR 0x0A then [CHR 0x5C, CHR ''n'']
      else if b = CHR 0x0D then [CHR 0x5C, CHR ''r'']
      else if b = CHR 0x09 then [CHR 0x5C, CHR ''t'']
      else if char_code b < 0x20 then
        CHR 0x5C # ''u00'' @ [digit_char (char_code b div 16), digit_char (char_code b mod 16)]
      else [b])"

function JsonString_loop :: "string \<Rightarrow> nat \<Rightarrow> string \<Rightarrow> string" where
  "JsonString_loop value offset result =
     (if offset < length value then
        (let b = value ! offset in
         if char_code b \<le> 0x7f
         then JsonString_loop value (offset + 1) (AppendAsciiJsonEscape result b)
         else
           let sequenceLength = Utf8SequenceLength value offset in
           if sequenceLength = 0 then JsonString_loop value (offset + 1) (result @ kReplacement)
           else JsonString_loop value (offset + sequenceLength)
                  (result @ slice offset (offset + sequenceLength) value))
      else result)"
  by pat_completeness auto
termination
  by (relation "measure (\<lambda>(value, offset, result). length value - offset)") auto

declare JsonString_loop.simps [simp del]

definition JsonString :: "string \<Rightarrow> string" where
  "JsonString value = JsonString_loop value 0 [CHR 0x22] @ [CHR 0x22]"

section \<open>Windows comparisons\<close>

text \<open>
  \<open>ToWide\<close>: \<open>convert\<close> stands for \<open>MultiByteToWideChar\<close> with \<open>MB_ERR_INVALID_CHARS\<close>; an
  empty result stands for its failure value 0.
\<close>

definition ToWide :: "(string \<Rightarrow> u16 list) \<Rightarrow> string \<Rightarrow> u16 list option" where
  "ToWide convert value =
     (if value = [] \<or> length value > 2147483647 then None
      else if convert value = [] then None else Some (convert value))"

definition Utf8OrdinalEqualsIgnoreCase ::
    "(string \<Rightarrow> u16 list) \<Rightarrow> (u16 list \<Rightarrow> u16 list \<Rightarrow> bool) \<Rightarrow> string \<Rightarrow> string \<Rightarrow> bool" where
  "Utf8OrdinalEqualsIgnoreCase convert compareOrdinal left right =
     (case (ToWide convert left, ToWide convert right) of
        (Some l, Some r) \<Rightarrow> compareOrdinal l r
      | _ \<Rightarrow> False)"

record utf8_literal_match =
  m_offset :: nat
  m_length :: nat

text \<open>
  \<open>findNls\<close> stands for \<open>FindNLSStringEx\<close> (the position and length found, both signed) and
  \<open>utf8_size\<close> for the length \<open>WideCharToMultiByte\<close> computes.
\<close>

definition Utf8OrdinalMatchIgnoreCase ::
    "(string \<Rightarrow> u16 list) \<Rightarrow> (u16 list \<Rightarrow> u16 list \<Rightarrow> int \<times> int) \<Rightarrow> (u16 list \<Rightarrow> int) \<Rightarrow>
     string \<Rightarrow> string \<Rightarrow> utf8_literal_match option" where
  "Utf8OrdinalMatchIgnoreCase convert findNls utf8_size haystack needle =
     (if needle = [] then Some \<lparr>m_offset = 0, m_length = 0\<rparr> else do {
        wideHaystack \<leftarrow> ToWide convert haystack;
        wideNeedle \<leftarrow> ToWide convert needle;
        let (found, foundLength) = findNls wideHaystack wideNeedle;
        require (\<not> (found < 0 \<or> foundLength \<le> 0));
        let prefixBytes = (if found = 0 then 0 else utf8_size (take (nat found) wideHaystack));
        let matchBytes = utf8_size (slice (nat found) (nat found + nat foundLength) wideHaystack);
        require (\<not> (prefixBytes < 0 \<or> matchBytes \<le> 0));
        Some \<lparr>m_offset = nat prefixBytes, m_length = nat matchBytes\<rparr>
      })"

definition Utf8OrdinalContainsIgnoreCase ::
    "(string \<Rightarrow> u16 list) \<Rightarrow> (u16 list \<Rightarrow> u16 list \<Rightarrow> int \<times> int) \<Rightarrow> (u16 list \<Rightarrow> int) \<Rightarrow>
     string \<Rightarrow> string \<Rightarrow> bool" where
  "Utf8OrdinalContainsIgnoreCase convert findNls utf8_size haystack needle \<longleftrightarrow>
     Utf8OrdinalMatchIgnoreCase convert findNls utf8_size haystack needle \<noteq> None"

definition Utf8OrdinalFindIgnoreCase ::
    "(string \<Rightarrow> u16 list) \<Rightarrow> (u16 list \<Rightarrow> u16 list \<Rightarrow> int \<times> int) \<Rightarrow> (u16 list \<Rightarrow> int) \<Rightarrow>
     string \<Rightarrow> string \<Rightarrow> nat option" where
  "Utf8OrdinalFindIgnoreCase convert findNls utf8_size haystack needle =
     map_option m_offset (Utf8OrdinalMatchIgnoreCase convert findNls utf8_size haystack needle)"

section \<open>Match context\<close>

record utf8_match_context =
  before :: string
  match_text :: string
  after :: string
  context_text :: string
  textOffset :: nat
  truncated :: bool

function context_start :: "string \<Rightarrow> nat \<Rightarrow> nat \<Rightarrow> nat" where
  "context_start value start limit =
     (if start < limit \<and> IsContinuation (value ! start) then context_start value (start + 1) limit
      else start)"
  by pat_completeness auto
termination
  by (relation "measure (\<lambda>(value, start, limit). limit - start)") auto

declare context_start.simps [simp del]

fun context_end :: "string \<Rightarrow> nat \<Rightarrow> nat \<Rightarrow> nat" where
  "context_end value matchEnd e =
     (if e > matchEnd \<and> \<not> IsValidUtf8 (slice matchEnd e value) then context_end value matchEnd (e - 1)
      else e)"

declare context_end.simps [simp del]

definition Utf8ContextAroundMatch ::
    "string \<Rightarrow> utf8_literal_match \<Rightarrow> nat \<Rightarrow> utf8_match_context option" where
  "Utf8ContextAroundMatch value m contextBytes =
     (if contextBytes > 128 \<or> m_length m > 1024 \<or> m_offset m > length value \<or>
         m_length m > length value - m_offset m \<or> \<not> IsValidUtf8 value \<or>
         \<not> IsValidUtf8 (slice (m_offset m) (m_offset m + m_length m) value)
      then None
      else
        let start = (if m_offset m > contextBytes then m_offset m - contextBytes else 0);
            start = context_start value start (m_offset m);
            matchEnd = m_offset m + m_length m;
            e = context_end value matchEnd (min (length value) (matchEnd + contextBytes));
            b = slice start (m_offset m) value;
            t = slice (m_offset m) matchEnd value;
            a = slice matchEnd e value in
        Some \<lparr>before = b, match_text = t, after = a, context_text = b @ t @ a,
              textOffset = start, truncated = (start \<noteq> 0 \<or> e \<noteq> length value)\<rparr>)"

section \<open>Validity is UTF-8\<close>

text \<open>The encoding form of RFC 3629.\<close>

definition scalar :: "nat \<Rightarrow> bool" where
  "scalar c \<longleftrightarrow> c < 0xD800 \<or> (0xE000 \<le> c \<and> c \<le> 0x10FFFF)"

definition utf8_encode :: "nat \<Rightarrow> nat list" where
  "utf8_encode c =
     (if c < 0x80 then [c]
      else if c < 0x800 then [0xC0 + c div 64, 0x80 + c mod 64]
      else if c < 0x10000 then [0xE0 + c div 4096, 0x80 + c div 64 mod 64, 0x80 + c mod 64]
      else [0xF0 + c div 262144, 0x80 + c div 4096 mod 64, 0x80 + c div 64 mod 64, 0x80 + c mod 64])"

definition cont :: "nat \<Rightarrow> bool" where
  "cont b \<longleftrightarrow> 0x80 \<le> b \<and> b \<le> 0xbf"

definition lead2 :: "nat \<Rightarrow> nat \<Rightarrow> bool" where
  "lead2 a b \<longleftrightarrow> 0xc2 \<le> a \<and> a \<le> 0xdf \<and> cont b"

definition lead3 :: "nat \<Rightarrow> nat \<Rightarrow> bool" where
  "lead3 a b \<longleftrightarrow> 0xe0 \<le> a \<and> a \<le> 0xef \<and> cont b \<and> (a = 0xe0 \<longrightarrow> 0xa0 \<le> b) \<and> (a = 0xed \<longrightarrow> b \<le> 0x9f)"

definition lead4 :: "nat \<Rightarrow> nat \<Rightarrow> bool" where
  "lead4 a b \<longleftrightarrow> 0xf0 \<le> a \<and> a \<le> 0xf4 \<and> cont b \<and> (a = 0xf0 \<longrightarrow> 0x90 \<le> b) \<and> (a = 0xf4 \<longrightarrow> b \<le> 0x8f)"

fun encoded :: "nat list \<Rightarrow> bool" where
  "encoded [a] = (a \<le> 0x7f)"
| "encoded [a, b] = lead2 a b"
| "encoded [a, b, c] = (lead3 a b \<and> cont c)"
| "encoded [a, b, c, d] = (lead4 a b \<and> cont c \<and> cont d)"
| "encoded _ = False"

lemma IsContinuation_iff: "IsContinuation c \<longleftrightarrow> cont (char_code c)"
proof -
  let ?n = "char_code c"
  have "?n AND push_bit 6 (mask 2) = push_bit 6 (drop_bit 6 ?n AND mask 2)"
    by (intro bit_eqI) (auto simp: bit_simps)
  then have "?n AND 0xc0 = push_bit 6 (drop_bit 6 ?n AND mask 2)"
    by (simp add: push_bit_eq_mult mask_eq_exp_minus_1)
  also have "\<dots> = (?n div 64 mod 4) * 64"
    by (simp add: push_bit_eq_mult drop_bit_eq_div take_bit_eq_mask [symmetric] take_bit_eq_mod)
  finally have "?n AND 0xc0 = (?n div 64 mod 4) * 64" .
  moreover have "?n < 256" by simp
  ultimately have "IsContinuation c \<longleftrightarrow> ?n div 64 = 2" by (auto simp: IsContinuation_def)
  then show ?thesis by (auto simp: cont_def)
qed

lemma mod_bound_of_div:
  "q < 64 * d + k \<Longrightarrow> q div 64 = d \<Longrightarrow> q mod 64 < (k::nat)"
  using div_mult_mod_eq [of q 64] by simp

lemma no_surrogate: "c < 55296 \<Longrightarrow> c div 4096 = 13 \<Longrightarrow> c div 64 mod 64 \<le> (31::nat)"
  using mod_bound_of_div [of "c div 64" 13 32] less_mult_imp_div_less [of c 864 64]
  by (simp add: div_mult2_eq [symmetric])

lemma below_maximum: "c \<le> 1114111 \<Longrightarrow> c div 262144 = 4 \<Longrightarrow> c div 4096 mod 64 \<le> (15::nat)"
  using mod_bound_of_div [of "c div 4096" 4 16] less_mult_imp_div_less [of c 272 4096]
  by (simp add: div_mult2_eq [symmetric])

lemma encoded_utf8_encode: "scalar c \<Longrightarrow> encoded (utf8_encode c)"
  by (auto simp: scalar_def utf8_encode_def lead2_def lead3_def lead4_def cont_def
      no_surrogate below_maximum)

lemma cont_split: "cont b \<Longrightarrow> \<exists>y < 64. b = 0x80 + y"
  by (rule exI [of _ "b - 0x80"]) (auto simp: cont_def)

lemma encoded2:
  assumes "lead2 a b"
  shows "\<exists>c. scalar c \<and> utf8_encode c = [a, b]"
proof -
  from assms obtain y where y: "y < 64" "b = 0x80 + y"
    using cont_split by (auto simp: lead2_def)
  from assms obtain x where x: "a = 0xC0 + x" "2 \<le> x" "x < 32"
    by (auto simp: lead2_def intro!: that [of "a - 0xC0"])
  have "(x * 64 + y) div 64 = x" "(x * 64 + y) mod 64 = y" using y by auto
  with x y show ?thesis
    by (intro exI [of _ "x * 64 + y"]) (auto simp: scalar_def utf8_encode_def)
qed

lemma encoded3:
  assumes "lead3 a b" "cont c"
  shows "\<exists>s. scalar s \<and> utf8_encode s = [a, b, c]"
proof -
  obtain y where y: "y < 64" "b = 0x80 + y"
    using assms cont_split by (auto simp: lead3_def)
  obtain z where z: "z < 64" "c = 0x80 + z"
    using assms cont_split by auto
  from assms obtain x where x: "a = 0xE0 + x" "x < 16"
    by (auto simp: lead3_def intro!: that [of "a - 0xE0"])
  let ?s = "x * 4096 + y * 64 + z"
  from assms x y have hi: "x = 0 \<Longrightarrow> 32 \<le> y" "x = 13 \<Longrightarrow> y < 32"
    by (auto simp: lead3_def)
  have d: "?s div 4096 = x" "?s div 64 mod 64 = y" "?s mod 64 = z"
  proof -
    have "?s div 64 = x * 64 + y" using z by auto
    then show "?s div 64 mod 64 = y" using y by simp
    have "?s div 4096 = (?s div 64) div 64" by (simp add: div_mult2_eq [symmetric])
    with \<open>?s div 64 = x * 64 + y\<close> y show "?s div 4096 = x" by simp
    have "?s = (x * 64 + y) * 64 + z" by simp
    with z show "?s mod 64 = z" by (metis mod_less mod_mult_self3)
  qed
  have "0x800 \<le> ?s" using hi(1) by (cases "x = 0") auto
  moreover have "?s < 0x10000" using x y z by simp
  moreover have "scalar ?s"
    using hi(2) x y z by (cases "x \<le> 12"; cases "x = 13") (auto simp: scalar_def)
  ultimately show ?thesis using d x y z by (intro exI [of _ ?s]) (simp add: utf8_encode_def)
qed

lemma encoded4:
  assumes "lead4 a b" "cont c" "cont d"
  shows "\<exists>s. scalar s \<and> utf8_encode s = [a, b, c, d]"
proof -
  obtain y where y: "y < 64" "b = 0x80 + y"
    using assms cont_split by (auto simp: lead4_def)
  obtain z where z: "z < 64" "c = 0x80 + z"
    using assms(2) cont_split by auto
  obtain w where w: "w < 64" "d = 0x80 + w"
    using assms(3) cont_split by auto
  from assms obtain x where x: "a = 0xF0 + x" "x < 5"
    by (auto simp: lead4_def intro!: that [of "a - 0xF0"])
  let ?s = "x * 262144 + y * 4096 + z * 64 + w"
  from assms x y have hi: "x = 0 \<Longrightarrow> 16 \<le> y" "x = 4 \<Longrightarrow> y < 16"
    by (auto simp: lead4_def)
  have d1: "?s div 64 = x * 4096 + y * 64 + z" using w by auto
  have d2: "?s div 4096 = x * 64 + y"
  proof -
    have "?s div 4096 = (?s div 64) div 64" by (simp add: div_mult2_eq [symmetric])
    also have "\<dots> = x * 64 + y" unfolding d1 using z by auto
    finally show ?thesis .
  qed
  have d3: "?s div 262144 = x"
  proof -
    have "?s div 262144 = (?s div 4096) div 64" by (simp add: div_mult2_eq [symmetric])
    also have "\<dots> = x" unfolding d2 using y by simp
    finally show ?thesis .
  qed
  have m1: "?s div 4096 mod 64 = y" unfolding d2 using y by simp
  have m2: "?s div 64 mod 64 = z"
  proof -
    have "?s div 64 = (x * 64 + y) * 64 + z" unfolding d1 by simp
    with z show ?thesis by (metis mod_less mod_mult_self3)
  qed
  have m3: "?s mod 64 = w"
  proof -
    have "?s = (x * 4096 + y * 64 + z) * 64 + w" by simp
    with w show ?thesis by (metis mod_less mod_mult_self3)
  qed
  have "0x10000 \<le> ?s" using hi(1) by (cases "x = 0") auto
  moreover have "?s \<le> 0x10FFFF" using hi(2) x y z w by (cases "x = 4") auto
  ultimately show ?thesis using d3 m1 m2 m3 x y z w
    by (intro exI [of _ ?s]) (simp add: utf8_encode_def scalar_def)
qed

lemma encoded_iff: "encoded bs \<longleftrightarrow> (\<exists>c. scalar c \<and> utf8_encode c = bs)"
proof
  assume "encoded bs"
  then show "\<exists>c. scalar c \<and> utf8_encode c = bs"
  proof (cases bs rule: encoded.cases)
    case (1 a)
    with \<open>encoded bs\<close> show ?thesis
      by (intro exI [of _ a]) (simp add: scalar_def utf8_encode_def)
  qed (use encoded2 encoded3 encoded4 in auto)
qed (auto simp: encoded_utf8_encode)


text \<open>
  \<open>seq_len\<close> is the validator's step as a function of the remaining bytes: the length of the
  encoding they start with, 0 when they start with none.
\<close>

definition encodes :: "nat \<Rightarrow> string \<Rightarrow> bool" where
  "encodes k s \<longleftrightarrow> k \<le> length s \<and> encoded (map char_code (take k s))"

definition seq_len :: "string \<Rightarrow> nat" where
  "seq_len s = (if encodes 1 s then 1 else if encodes 2 s then 2
     else if encodes 3 s then 3 else if encodes 4 s then 4 else 0)"

lemma lead2_code: "(0xc2 \<le> f \<and> f \<le> 0xdf \<and> cont s) = lead2 f s"
  by (simp add: lead2_def)

lemma lead3_code:
  "((f = 0xe0 \<and> 0xa0 \<le> s \<and> s \<le> 0xbf) \<or> ((0xe1 \<le> f \<and> f \<le> 0xec) \<and> cont s) \<or>
    (f = 0xed \<and> 0x80 \<le> s \<and> s \<le> 0x9f) \<or> ((0xee \<le> f \<and> f \<le> 0xef) \<and> cont s)) = lead3 f s"
  unfolding lead3_def cont_def by auto

lemma lead4_code:
  "((f = 0xf0 \<and> 0x90 \<le> s \<and> s \<le> 0xbf) \<or> ((0xf1 \<le> f \<and> f \<le> 0xf3) \<and> cont s) \<or>
    (f = 0xf4 \<and> 0x80 \<le> s \<and> s \<le> 0x8f)) = lead4 f s"
  unfolding lead4_def cont_def by auto

lemma ValidSequenceLength_seq_len:
  assumes "offset < length value"
  shows "ValidSequenceLength value offset = Some (seq_len (drop offset value))"
proof -
  obtain a r where d: "drop offset value = a # r"
    using assms by (cases "drop offset value") auto
  have len: "length value - offset = Suc (length r)"
    using arg_cong [OF d, of length] by simp
  have n: "value ! (offset + k) = (a # r) ! k" if "k \<le> length r" for k
    using that len by (simp add: d [symmetric])
  have at0: "at value offset = Some a" using n [of 0] assms by simp
  have atk: "at value (offset + k) = Some ((a # r) ! k)" if "k \<le> length r" for k
    using n [OF that] that len by (simp add: at_def)
  note code = ValidSequenceLength_def at0 len d Let_def IsContinuation_iff lead3_code lead4_code
  consider "r = []" | b where "r = [b]" | b c where "r = [b, c]"
    | b c e r' where "r = b # c # e # r'"
    by (metis list.exhaust)
  then show ?thesis
  proof cases
    case 1
    then show ?thesis unfolding code by (simp add: seq_len_def encodes_def)
  next
    case (2 b)
    then show ?thesis
      unfolding code using atk [of 1] by (simp add: seq_len_def encodes_def IsContinuation_iff lead2_def)
  next
    case (3 b c)
    then show ?thesis unfolding code using atk [of 1] atk [of 2]
      by (simp add: seq_len_def encodes_def IsContinuation_iff lead2_def)
  next
    case (4 b c e r')
    then show ?thesis unfolding code using atk [of 1] atk [of 2] atk [of 3]
      by (simp add: seq_len_def encodes_def IsContinuation_iff lead2_def)
  qed
qed

lemma Utf8SequenceLength_eq:
  "offset < length value \<Longrightarrow> Utf8SequenceLength value offset = seq_len (drop offset value)"
  by (simp add: Utf8SequenceLength_def ValidSequenceLength_seq_len)

inductive wf8 :: "string \<Rightarrow> bool" where
  wf8_Nil: "wf8 []"
| wf8_Cons: "encoded (map char_code e) \<Longrightarrow> wf8 s \<Longrightarrow> wf8 (e @ s)"

lemma encoded_cases:
  assumes "encoded bs"
  obtains (one) a where "bs = [a]" "a \<le> 0x7f"
  | (two) a b where "bs = [a, b]" "lead2 a b"
  | (three) a b c where "bs = [a, b, c]" "lead3 a b" "cont c"
  | (four) a b c d where "bs = [a, b, c, d]" "lead4 a b" "cont c" "cont d"
  using assms by (cases bs rule: encoded.cases) auto

lemma encoded_shape:
  "encoded (map char_code e) \<Longrightarrow>
   \<exists>a r. e = a # r \<and> \<not> cont (char_code a) \<and> list_all (\<lambda>c. cont (char_code c)) r \<and> length r \<le> 3"
  by (erule encoded_cases) (auto simp: cont_def lead2_def lead3_def lead4_def)

lemma lead_exclusive:
  "lead2 a b \<Longrightarrow> \<not> a \<le> 0x7f"
  "lead3 a b \<Longrightarrow> \<not> a \<le> 0x7f" "lead3 a b \<Longrightarrow> \<not> lead2 a b'"
  "lead4 a b \<Longrightarrow> \<not> a \<le> 0x7f" "lead4 a b \<Longrightarrow> \<not> lead2 a b'" "lead4 a b \<Longrightarrow> \<not> lead3 a b'"
  by (simp_all add: lead2_def lead3_def lead4_def)

lemma seq_len_append: "encoded (map char_code e) \<Longrightarrow> seq_len (e @ s) = length e"
proof (erule encoded_cases, goal_cases)
  case (3 a b c)
  then obtain x y z where "e = [x, y, z]" by (auto simp: map_eq_Cons_conv)
  with 3 show ?case by (simp add: seq_len_def encodes_def lead_exclusive)
next
  case (4 a b c d)
  then obtain x y z w where "e = [x, y, z, w]" by (auto simp: map_eq_Cons_conv)
  with 4 show ?case by (simp add: seq_len_def encodes_def lead_exclusive)
qed (auto simp: seq_len_def encodes_def lead_exclusive)

lemma seq_len_pos:
  "0 < seq_len s \<Longrightarrow> seq_len s \<le> length s \<and> encoded (map char_code (take (seq_len s) s))"
  by (auto simp: seq_len_def encodes_def split: if_splits)

lemma seq_len_ascii: "char_code c \<le> 0x7f \<Longrightarrow> seq_len (c # s) = 1"
  by (simp add: seq_len_def encodes_def)

lemma seq_len_wf8: "wf8 s \<Longrightarrow> s \<noteq> [] \<Longrightarrow> 0 < seq_len s \<and> wf8 (drop (seq_len s) s)"
  by (erule wf8.cases) (use encoded_shape in \<open>fastforce simp: seq_len_append\<close>)+

lemma wf8_drop_seq: "0 < seq_len s \<Longrightarrow> wf8 (drop (seq_len s) s) \<Longrightarrow> wf8 s"
  using wf8_Cons [of "take (seq_len s) s" "drop (seq_len s) s"] seq_len_pos by simp

lemma IsValidUtf8_from_iff: "IsValidUtf8_from v offset \<longleftrightarrow> wf8 (drop offset v)"
proof (induction v offset rule: IsValidUtf8_from.induct)
  case (1 v offset)
  show ?case
  proof (cases "offset < length v")
    case True
    let ?n = "seq_len (drop offset v)"
    have ne: "drop offset v \<noteq> []" using True by simp
    from True have "IsValidUtf8_from v offset \<longleftrightarrow> 0 < ?n \<and> IsValidUtf8_from v (offset + ?n)"
      by (subst IsValidUtf8_from.simps) (simp add: Utf8SequenceLength_eq Let_def)
    also have "\<dots> \<longleftrightarrow> 0 < ?n \<and> wf8 (drop ?n (drop offset v))"
      using "1.IH" True by (auto simp: Utf8SequenceLength_eq add.commute)
    also have "\<dots> \<longleftrightarrow> wf8 (drop offset v)"
      using seq_len_wf8 [OF _ ne] wf8_drop_seq by blast
    finally show ?thesis .
  next
    case False
    then show ?thesis by (subst IsValidUtf8_from.simps) (simp add: wf8_Nil)
  qed
qed

lemma IsValidUtf8_wf8: "IsValidUtf8 s \<longleftrightarrow> wf8 s"
  by (simp add: IsValidUtf8_def IsValidUtf8_from_iff)

lemma wf8_append: "wf8 s \<Longrightarrow> wf8 t \<Longrightarrow> wf8 (s @ t)"
  by (induction rule: wf8.induct) (auto intro: wf8_Cons)

lemma wf8_encodings:
  "list_all scalar cs \<Longrightarrow> map char_code s = concat (map utf8_encode cs) \<Longrightarrow> wf8 s"
proof (induction cs arbitrary: s)
  case Nil
  then show ?case by (simp add: wf8_Nil)
next
  case (Cons c cs)
  then obtain e r where s: "s = e @ r" "map char_code e = utf8_encode c"
      "map char_code r = concat (map utf8_encode cs)"
    by (auto simp: map_eq_append_conv)
  then show ?case using Cons by (auto intro!: wf8_Cons simp: encoded_utf8_encode)
qed

lemma wf8_scalars:
  "wf8 s \<Longrightarrow> \<exists>cs. list_all scalar cs \<and> map char_code s = concat (map utf8_encode cs)"
proof (induction rule: wf8.induct)
  case wf8_Nil
  then show ?case by (intro exI [of _ "[]"]) simp
next
  case (wf8_Cons e s)
  then obtain cs c where "list_all scalar cs" "map char_code s = concat (map utf8_encode cs)"
      "scalar c" "utf8_encode c = map char_code e"
    by (auto simp: encoded_iff)
  then show ?case by (intro exI [of _ "c # cs"]) simp
qed

text \<open>
  C32. \<open>IsValidUtf8\<close> accepts exactly the concatenations of UTF-8 encodings of Unicode scalar
  values: no overlong form, no surrogate, nothing above U+10FFFF, no truncated sequence.
\<close>

theorem IsValidUtf8_iff:
  "IsValidUtf8 s \<longleftrightarrow>
   (\<exists>cs. list_all scalar cs \<and> map char_code s = concat (map utf8_encode cs))"
  using wf8_encodings wf8_scalars by (auto simp: IsValidUtf8_wf8)

section \<open>JSON strings read back\<close>

text \<open>
  A reader of the rest of a JSON string token (RFC 8259) after its opening quote: the content
  and what follows the closing quote. Raw control characters are errors; a \<open>\u\<close> escape is
  the encoding of its code unit (the printer writes no surrogate pairs).
\<close>

definition unescape :: "char \<Rightarrow> char option" where
  "unescape e =
     (if e = CHR 0x22 then Some (CHR 0x22) else if e = CHR 0x5C then Some (CHR 0x5C)
      else if e = CHR ''/'' then Some (CHR ''/'') else if e = CHR ''b'' then Some (CHR 0x08)
      else if e = CHR ''f'' then Some (CHR 0x0C) else if e = CHR ''n'' then Some (CHR 0x0A)
      else if e = CHR ''r'' then Some (CHR 0x0D) else if e = CHR ''t'' then Some (CHR 0x09)
      else None)"

definition prepend :: "string \<Rightarrow> (string \<times> string) option \<Rightarrow> (string \<times> string) option" where
  "prepend p r = map_option (\<lambda>(t, rest). (p @ t, rest)) r"

lemma prepend_prepend [simp]: "prepend p (prepend q r) = prepend (p @ q) r"
  by (cases r) (auto simp: prepend_def)

lemma prepend_Nil [simp]: "prepend [] r = r"
  by (cases r) (auto simp: prepend_def)

fun read_json :: "string \<Rightarrow> (string \<times> string) option" where
  "read_json [] = None"
| "read_json (c # s) =
     (if c = CHR 0x22 then Some ([], s)
      else if c = CHR 0x5C then
        (case s of
           [] \<Rightarrow> None
         | e # r \<Rightarrow>
             if e = CHR ''u'' then
               (case r of
                  h1 # h2 # h3 # h4 # r' \<Rightarrow>
                    if list_all (is_digit 16) [h1, h2, h3, h4]
                    then prepend (map char_of (utf8_encode (digits_value 16 [h1, h2, h3, h4])))
                      (read_json r')
                    else None
                | _ \<Rightarrow> None)
             else (case unescape e of None \<Rightarrow> None | Some d \<Rightarrow> prepend [d] (read_json r)))
      else if char_code c < 0x20 then None
      else prepend [c] (read_json s))"

text \<open>What a consumer sees of a string: every byte that starts no valid sequence is U+FFFD.\<close>

function sanitize :: "string \<Rightarrow> string" where
  "sanitize s =
     (if s = [] then []
      else if seq_len s = 0 then kReplacement @ sanitize (tl s)
      else take (seq_len s) s @ sanitize (drop (seq_len s) s))"
  by pat_completeness auto
termination
  by (relation "measure length") auto

declare sanitize.simps [simp del]

definition json_escape :: "char \<Rightarrow> string" where
  "json_escape b = AppendAsciiJsonEscape [] b"

text \<open>The pieces the loop appends, one per step of its offset.\<close>

definition json_piece :: "string \<Rightarrow> string" where
  "json_piece s =
     (if char_code (hd s) \<le> 0x7f then json_escape (hd s)
      else if seq_len s = 0 then kReplacement else take (seq_len s) s)"

definition json_advance :: "string \<Rightarrow> nat" where
  "json_advance s = (if seq_len s = 0 then 1 else seq_len s)"

function json_pieces :: "string \<Rightarrow> string list" where
  "json_pieces s = (if s = [] then [] else json_piece s # json_pieces (drop (json_advance s) s))"
  by pat_completeness auto
termination
  by (relation "measure length") (auto simp: json_advance_def)

declare json_pieces.simps [simp del]

lemma AppendAsciiJsonEscape_eq: "AppendAsciiJsonEscape out b = out @ json_escape b"
  by (simp add: AppendAsciiJsonEscape_def json_escape_def)

lemma JsonString_loop_pieces:
  "JsonString_loop v offset out = out @ concat (json_pieces (drop offset v))"
proof (induction v offset out rule: JsonString_loop.induct)
  case (1 v offset out)
  show ?case
  proof (cases "offset < length v")
    case True
    obtain a r where d: "drop offset v = a # r" using True by (cases "drop offset v") auto
    then have "v ! offset = a" using True by (metis hd_drop_conv_nth list.sel(1))
    moreover have "drop (Suc offset) v = r" by (metis d drop_Suc list.sel(3) tl_drop)
    moreover have "slice offset (offset + n) v = take n (a # r)" for n
      by (simp add: slice_def d)
    moreover have "drop (offset + n) v = drop n (a # r)" for n
      by (metis d drop_drop add.commute)
    moreover note Utf8SequenceLength_eq [OF True]
    ultimately show ?thesis using "1.IH" True
      by (subst JsonString_loop.simps, subst json_pieces.simps)
        (auto simp: d Let_def AppendAsciiJsonEscape_eq json_piece_def json_advance_def
          seq_len_ascii)
  next
    case False
    then show ?thesis by (subst JsonString_loop.simps, subst json_pieces.simps) simp
  qed
qed

definition sane_piece :: "string \<Rightarrow> string" where
  "sane_piece s = (if seq_len s = 0 then kReplacement else take (seq_len s) s)"

lemma sanitize_step: "s \<noteq> [] \<Longrightarrow> sanitize s = sane_piece s @ sanitize (drop (json_advance s) s)"
  by (subst sanitize.simps) (simp add: sane_piece_def json_advance_def drop_Suc)

lemma read_json_high:
  "list_all (\<lambda>c. 0x80 \<le> char_code c) p \<Longrightarrow> read_json (p @ r) = prepend p (read_json r)"
proof (induction p)
  case (Cons c p)
  then have "c \<noteq> CHR 0x22" "c \<noteq> CHR 0x5C" by (auto simp: char_code_def)
  with Cons show ?case by simp
qed simp

lemma digits_value_unicode:
  "d < 256 \<Longrightarrow> digits_value 16 [CHR ''0'', CHR ''0'', digit_char (d div 16), digit_char (d mod 16)] = d"
proof -
  have "digit_value CHR ''0'' = Some 0"
    by (simp add: digit_value_def is_decimal_def char_code_def)
  then show "d < 256 \<Longrightarrow> ?thesis" by (simp add: digits_value_def)
qed

lemma read_json_control:
  assumes "char_code c < 0x20"
  shows "read_json (CHR 0x5C # ''u00'' @ digit_char (char_code c div 16) # digit_char (char_code c mod 16) # r) =
    prepend [c] (read_json r)"
proof -
  have "utf8_encode (char_code c) = [char_code c]" using assms by (simp add: utf8_encode_def)
  moreover have "is_digit 16 CHR ''0''"
    by (simp add: is_digit_def digit_value_def is_decimal_def char_code_def)
  ultimately show ?thesis
    using assms digits_value_unicode [of "char_code c"] by simp
qed

lemma read_json_escape:
  assumes "char_code c \<le> 0x7f"
  shows "read_json (json_escape c @ r) = prepend [c] (read_json r)"
  using read_json_control [of c r]
  by (auto simp: json_escape_def AppendAsciiJsonEscape_def unescape_def)

lemma high_take_seq:
  assumes "s \<noteq> []" "\<not> char_code (hd s) \<le> 0x7f" "0 < seq_len s"
  shows "list_all (\<lambda>c. 0x80 \<le> char_code c) (take (seq_len s) s)"
proof -
  obtain a r where "take (seq_len s) s = a # r" "list_all (\<lambda>c. cont (char_code c)) r"
    using seq_len_pos [OF assms(3)] encoded_shape by blast
  moreover from this assms have "hd s = a" by (metis hd_take list.sel(1))
  ultimately show ?thesis using assms(2) by (auto simp: list_all_iff cont_def)
qed

lemma high_kReplacement: "list_all (\<lambda>c. 0x80 \<le> char_code c) kReplacement"
  by (simp add: kReplacement_def char_code_def)

lemma read_json_piece:
  assumes "s \<noteq> []"
  shows "read_json (json_piece s @ r) = prepend (sane_piece s) (read_json r)"
proof (cases "char_code (hd s) \<le> 0x7f")
  case True
  moreover have "seq_len s = 1" using True assms seq_len_ascii by (cases s) auto
  ultimately show ?thesis using assms read_json_escape [OF True]
    by (cases s) (simp_all add: json_piece_def sane_piece_def)
next
  case False
  then show ?thesis
    using read_json_high [OF high_kReplacement] read_json_high [OF high_take_seq [OF assms False]]
    by (simp add: json_piece_def sane_piece_def)
qed

lemma read_json_pieces: "read_json (concat (json_pieces s) @ [CHR 0x22]) = Some (sanitize s, [])"
proof (induction s rule: json_pieces.induct)
  case (1 s)
  show ?case
  proof (cases "s = []")
    case True
    then show ?thesis by (subst json_pieces.simps, subst sanitize.simps) simp
  next
    case False
    then have "concat (json_pieces s) = json_piece s @ concat (json_pieces (drop (json_advance s) s))"
      by (subst json_pieces.simps) simp
    with False "1" show ?thesis
      by (simp add: read_json_piece sanitize_step [OF False] prepend_def)
  qed
qed

lemma wf8_ascii: "list_all (\<lambda>c. char_code c \<le> 0x7f) s \<Longrightarrow> wf8 s"
proof (induction s)
  case (Cons c s)
  then show ?case using wf8_Cons [of "[c]" s] by simp
qed (rule wf8_Nil)

lemma wf8_kReplacement: "wf8 kReplacement"
  using wf8_Cons [OF _ wf8_Nil, of kReplacement]
  by (simp add: kReplacement_def lead3_def cont_def char_code_def)

lemma json_escape_ascii:
  assumes "char_code c \<le> 0x7f"
  shows "list_all (\<lambda>d. 0x20 \<le> char_code d \<and> char_code d \<le> 0x7f) (json_escape c)"
proof -
  have "char_code (digit_char d) \<le> 0x7f \<and> 0x20 \<le> char_code (digit_char d)" if "d < 16" for d
    using that by (simp add: char_code_digit_char)
  from this [of "char_code c div 16"] this [of "char_code c mod 16"] assms
  show ?thesis by (auto simp: json_escape_def AppendAsciiJsonEscape_def char_code_def)
qed

lemma json_piece_ok:
  assumes "s \<noteq> []"
  shows "wf8 (json_piece s) \<and> list_all (\<lambda>c. 0x20 \<le> char_code c) (json_piece s)"
proof (cases "char_code (hd s) \<le> 0x7f")
  case True
  then show ?thesis using json_escape_ascii [OF True] wf8_ascii
    by (auto simp: json_piece_def list_all_iff)
next
  case False
  show ?thesis
  proof (cases "seq_len s = 0")
    case True
    with False high_kReplacement wf8_kReplacement show ?thesis
      by (auto simp: json_piece_def list_all_iff)
  next
    case n: False
    with seq_len_pos [of s] wf8_Cons [OF _ wf8_Nil, of "take (seq_len s) s"]
    have "wf8 (take (seq_len s) s)" by simp
    with False n high_take_seq [OF assms False] show ?thesis
      by (auto simp: json_piece_def list_all_iff)
  qed
qed

lemma json_pieces_ok:
  "wf8 (concat (json_pieces s)) \<and> list_all (\<lambda>c. 0x20 \<le> char_code c) (concat (json_pieces s))"
proof (induction s rule: json_pieces.induct)
  case (1 s)
  then show ?case
    by (subst (1 2) json_pieces.simps) (use json_piece_ok in \<open>auto intro: wf8_Nil wf8_append\<close>)
qed

lemma sanitize_wf8: "wf8 s \<Longrightarrow> sanitize s = s"
proof (induction rule: wf8.induct)
  case (wf8_Cons e s)
  then have "seq_len (e @ s) = length e" "e \<noteq> []" using seq_len_append encoded_shape by auto
  with wf8_Cons show ?case by (subst sanitize.simps) simp
qed (subst sanitize.simps, simp)

text \<open>
  C33. \<open>JsonString\<close> prints, for every byte string, one complete JSON string token in valid
  UTF-8 without raw control characters; reading the token gives back the string itself when
  it is valid UTF-8, and otherwise the string with every invalid byte replaced by U+FFFD.
\<close>

theorem JsonString_reads_back:
  "hd (JsonString s) = CHR 0x22 \<and>
   read_json (tl (JsonString s)) = Some (if IsValidUtf8 s then s else sanitize s, []) \<and>
   IsValidUtf8 (JsonString s) \<and> list_all (\<lambda>c. 0x20 \<le> char_code c) (JsonString s)"
proof (intro conjI)
  have eq: "JsonString s = CHR 0x22 # concat (json_pieces s) @ [CHR 0x22]"
    by (simp add: JsonString_def JsonString_loop_pieces)
  show "hd (JsonString s) = CHR 0x22" by (simp add: eq)
  show "read_json (tl (JsonString s)) = Some (if IsValidUtf8 s then s else sanitize s, [])"
    by (simp add: eq read_json_pieces sanitize_wf8 IsValidUtf8_wf8)
  have "wf8 [CHR 0x22]" by (rule wf8_ascii) (simp add: char_code_def)
  then show "IsValidUtf8 (JsonString s)"
    using json_pieces_ok wf8_append [of "[CHR 0x22]"] wf8_append [of _ "[CHR 0x22]"]
    by (simp add: eq IsValidUtf8_wf8)
  show "list_all (\<lambda>c. 0x20 \<le> char_code c) (JsonString s)"
    using json_pieces_ok [of s] by (simp add: eq char_code_def)
qed

section \<open>The match context\<close>

text \<open>In valid UTF-8 every byte that is no continuation byte starts a sequence.\<close>

lemma wf8_boundary:
  "wf8 s \<Longrightarrow> i \<le> length s \<Longrightarrow> i = length s \<or> \<not> IsContinuation (s ! i) \<Longrightarrow>
   wf8 (take i s) \<and> wf8 (drop i s)"
proof (induction arbitrary: i rule: wf8.induct)
  case (wf8_Cons e s)
  show ?case
  proof (cases "i < length e")
    case True
    obtain a r where e: "e = a # r" "list_all (\<lambda>c. cont (char_code c)) r"
      using encoded_shape [OF wf8_Cons(1)] by blast
    have "i = 0"
    proof (rule ccontr)
      assume "i \<noteq> 0"
      then obtain k where "i = Suc k" by (cases i) auto
      with True e wf8_Cons.prems show False
        by (auto simp: IsContinuation_iff list_all_length nth_append)
    qed
    with wf8_Cons show ?thesis by (auto intro: wf8_Nil wf8.wf8_Cons)
  next
    case False
    with wf8_Cons.prems have "wf8 (take (i - length e) s) \<and> wf8 (drop (i - length e) s)"
      by (intro wf8_Cons.IH) (auto simp: nth_append)
    with False wf8_Cons(1) show ?thesis by (auto intro: wf8.wf8_Cons)
  qed
qed (simp add: wf8_Nil)

lemma wf8_first: "wf8 s \<Longrightarrow> s \<noteq> [] \<Longrightarrow> \<not> IsContinuation (hd s)"
  by (erule wf8.cases) (use encoded_shape in \<open>fastforce simp: IsContinuation_iff\<close>)+

lemma wf8_slice:
  assumes "wf8 s" "a \<le> b" "b \<le> length s"
    and "a = b \<or> \<not> IsContinuation (s ! a)" and "b = length s \<or> \<not> IsContinuation (s ! b)"
  shows "wf8 (slice a b s)"
proof (cases "a = b")
  case True
  then show ?thesis by (simp add: slice_def wf8_Nil)
next
  case False
  with assms have d: "wf8 (drop a s)" using wf8_boundary [of s a] by simp
  moreover have "b - a \<le> length s - a" using assms by simp
  ultimately show ?thesis using wf8_boundary [of "drop a s" "b - a"] assms
    by (auto simp: slice_def)
qed

lemma context_start_bounds:
  "start \<le> limit \<Longrightarrow> start \<le> context_start v start limit \<and> context_start v start limit \<le> limit \<and>
   (context_start v start limit = limit \<or> \<not> IsContinuation (v ! context_start v start limit))"
proof (induction v start limit rule: context_start.induct)
  case (1 v start limit)
  then show ?case by (subst (1 2 3 4) context_start.simps) auto
qed

lemma context_end_bounds:
  "matchEnd \<le> e \<Longrightarrow> matchEnd \<le> context_end v matchEnd e \<and> context_end v matchEnd e \<le> e \<and>
   IsValidUtf8 (slice matchEnd (context_end v matchEnd e) v)"
proof (induction v matchEnd e rule: context_end.induct)
  case (1 v matchEnd e)
  show ?case
  proof (cases "matchEnd < e \<and> \<not> IsValidUtf8 (slice matchEnd e v)")
    case True
    then have "matchEnd \<le> e - 1" "e - 1 \<le> e" by auto
    with "1" True show ?thesis by (subst (1 2 3) context_end.simps) auto
  next
    case False
    with "1.prems" have "IsValidUtf8 (slice matchEnd e v)"
      by (cases "matchEnd = e") (auto simp: slice_def IsValidUtf8_wf8 wf8_Nil)
    with False "1.prems" show ?thesis by (subst (1 2 3) context_end.simps) auto
  qed
qed

lemma slice_append:
  assumes "a \<le> b" "b \<le> c"
  shows "slice a b s @ slice b c s = slice a c s"
proof -
  have "c - a = (b - a) + (c - b)" using assms by simp
  moreover have "drop (b - a) (drop a s) = drop b s" using assms by simp
  ultimately show ?thesis unfolding slice_def by (metis take_add)
qed

lemma slice_full_iff:
  "a \<le> b \<Longrightarrow> b \<le> length s \<Longrightarrow> slice a b s = s \<longleftrightarrow> a = 0 \<and> b = length s \<or> s = []"
proof
  assume "a \<le> b" "b \<le> length s" "slice a b s = s"
  then have "length s = b - a" using length_slice [of a b s] by simp
  with \<open>b \<le> length s\<close> \<open>a \<le> b\<close> show "a = 0 \<and> b = length s \<or> s = []" by auto
qed (auto simp: slice_def)

text \<open>
  For a non-empty match inside a valid UTF-8 string, \<open>Utf8ContextAroundMatch\<close> returns a
  context exactly when the sizes are within its limits, and then: the three parts are valid
  UTF-8, at most \<open>contextBytes\<close> on each side, their concatenation is the substring of the
  input that starts at \<open>textOffset\<close>, and \<open>truncated\<close> says whether anything was left out.
\<close>

theorem Utf8ContextAroundMatch_correct:
  assumes "IsValidUtf8 s" and "0 < m_length m" and "m_offset m + m_length m \<le> length s"
    and "IsValidUtf8 (slice (m_offset m) (m_offset m + m_length m) s)"
    and "n \<le> 128" and "m_length m \<le> 1024"
  shows "\<exists>c. Utf8ContextAroundMatch s m n = Some c \<and>
    list_all IsValidUtf8 [before c, match_text c, after c, context_text c] \<and>
    length (before c) \<le> n \<and> length (after c) \<le> n \<and>
    before c @ match_text c @ after c = context_text c \<and>
    context_text c = slice (textOffset c) (textOffset c + length (context_text c)) s \<and>
    textOffset c + length (before c) = m_offset m \<and>
    match_text c = slice (m_offset m) (m_offset m + m_length m) s \<and>
    truncated c = (context_text c \<noteq> s)"
proof -
  let ?o = "m_offset m" and ?e = "m_offset m + m_length m"
  define st where "st = context_start s (if ?o > n then ?o - n else 0) ?o"
  define en where "en = context_end s ?e (min (length s) (?e + n))"
  have st: "st \<le> ?o" "?o - st \<le> n" "st = ?o \<or> \<not> IsContinuation (s ! st)"
    using context_start_bounds [of "if ?o > n then ?o - n else 0" ?o s]
    by (auto simp: st_def split: if_splits)
  have en: "?e \<le> en" "en \<le> length s" "en - ?e \<le> n" "IsValidUtf8 (slice ?e en s)"
    using context_end_bounds [of ?e "min (length s) (?e + n)" s] assms(3) by (auto simp: en_def)
  have "\<not> IsContinuation (hd (slice ?o ?e s))"
    using assms wf8_first [of "slice ?o ?e s"] by (auto simp: IsValidUtf8_wf8 slice_def)
  then have first: "\<not> IsContinuation (s ! ?o)"
    using assms by (simp add: slice_def hd_drop_conv_nth hd_take)
  have b: "IsValidUtf8 (slice st ?o s)"
    using wf8_slice [of s st ?o] assms st first by (simp add: IsValidUtf8_wf8)
  have app: "slice st ?o s @ slice ?o ?e s @ slice ?e en s = slice st en s"
    using st en by (simp add: slice_append)
  then have whole: "IsValidUtf8 (slice st en s)"
    using b en assms(4) wf8_append by (metis IsValidUtf8_wf8)
  have Some: "Utf8ContextAroundMatch s m n = Some
      \<lparr>before = slice st ?o s, match_text = slice ?o ?e s, after = slice ?e en s,
       context_text = slice st en s, textOffset = st, truncated = (st \<noteq> 0 \<or> en \<noteq> length s)\<rparr>"
    using assms app by (simp add: Utf8ContextAroundMatch_def Let_def st_def en_def)
  have "s \<noteq> []" using assms by auto
  then have "(slice st en s \<noteq> s) = (st \<noteq> 0 \<or> en \<noteq> length s)"
    using slice_full_iff [of st en s] st en by auto
  moreover have "length (slice st ?o s) = ?o - st" "length (slice ?e en s) = en - ?e"
      "length (slice st en s) = en - st" "st + (en - st) = en" "st + (?o - st) = ?o"
    using st en assms(3) by simp_all
  ultimately show ?thesis using Some b en whole assms(4) st app by simp
qed

theorem Utf8ContextAroundMatch_correct_witness:
  "\<exists>c. Utf8ContextAroundMatch [CHR 0xC3, CHR 0xA9, CHR ''a'', CHR 0xC3, CHR 0xA9] \<lparr>m_offset = 2, m_length = 1\<rparr> 1 = Some c \<and>
    list_all IsValidUtf8 [before c, match_text c, after c, context_text c] \<and>
    length (before c) \<le> 1 \<and> length (after c) \<le> 1"
proof -
  have "IsValidUtf8 [CHR 0xC3, CHR 0xA9, CHR ''a'', CHR 0xC3, CHR 0xA9] \<and> IsValidUtf8 ''a''"
    by code_simp
  then show ?thesis
    using Utf8ContextAroundMatch_correct [of "[CHR 0xC3, CHR 0xA9, CHR ''a'', CHR 0xC3, CHR 0xA9]"
        "\<lparr>m_offset = 2, m_length = 1\<rparr>" 1]
    by (auto simp: slice_def)
qed

end
