(* ===== verification/Control_Policy.thy ===== *)
theory Control_Policy
  imports Cpp_Text
begin

text \<open>
  \<open>controller/src/control_policy.cpp\<close>, which the controller and the plugin share: the
  server configuration (\<open>server.toml\<close>) and the profile selection in ScyllaHide's
  \<open>scylla_hide.ini\<close>. The \<open>std::string& error\<close> out-parameter is the left summand of the
  result.
\<close>

type_synonym 'a result = "string + 'a"

record ServerConfig =
  sc_bind :: string
  sc_port :: u16
  sc_bearerToken :: string

record ProfileUpdate =
  pu_text :: string
  pu_canonicalProfile :: string

record ScyllaHideConfig =
  sh_currentProfile :: string
  sh_availableProfiles :: "string list"

section \<open>Text helpers\<close>

definition trim_front :: "char \<Rightarrow> bool" where
  "trim_front c \<longleftrightarrow> c = CHR '' '' \<or> c = CHR 0x09"

definition trim_back :: "char \<Rightarrow> bool" where
  "trim_back c \<longleftrightarrow> c = CHR '' '' \<or> c = CHR 0x09 \<or> c = CHR 0x0D"

definition Trim :: "string \<Rightarrow> string" where
  "Trim v = rev (dropWhile trim_back (rev (dropWhile trim_front v)))"

definition HasControl :: "string \<Rightarrow> bool" where
  "HasControl v = list_ex is_control v"

definition QuotedValue :: "string \<Rightarrow> string option" where
  "QuotedValue v =
     (let trimmed = Trim v in
      if length trimmed < 2 \<or> hd trimmed \<noteq> CHR 0x22 \<or> last trimmed \<noteq> CHR 0x22 then None
      else
        let body = slice 1 (length trimmed - 1) trimmed in
        if body = [] \<or> CHR 0x22 \<in> set body \<or> HasControl body then None else Some body)"

definition EqualInsensitive :: "string \<Rightarrow> string \<Rightarrow> bool" where
  "EqualInsensitive left right \<longleftrightarrow>
     length left = length right \<and> list_all2 (\<lambda>a b. tolower a = tolower b) left right"

record Line =
  ln_begin :: nat
  ln_contentEnd :: nat
  ln_end :: nat

function Lines_from :: "string \<Rightarrow> nat \<Rightarrow> Line list" where
  "Lines_from txt b =
     (if b < length txt then
        (let newline = find_from (CHR 0x0A) txt b;
             e = (case newline of None \<Rightarrow> length txt | Some n \<Rightarrow> n + 1);
             contentEnd = (case newline of None \<Rightarrow> length txt | Some n \<Rightarrow> n);
             contentEnd = (if contentEnd > b \<and> txt ! (contentEnd - 1) = CHR 0x0D
                           then contentEnd - 1 else contentEnd) in
         \<lparr>ln_begin = b, ln_contentEnd = contentEnd, ln_end = e\<rparr> # Lines_from txt e)
      else [])"
  by pat_completeness auto
termination
proof (relation "measure (\<lambda>(s, b). length s - b)", simp)
  fix s and b e c d :: nat and newline :: "nat option"
  assume "b < length s" and "newline = find_from (CHR 0x0A) s b"
    and "e = (case newline of None \<Rightarrow> length s | Some n \<Rightarrow> n + 1)"
  then show "((s, e), (s, b)) \<in> measure (\<lambda>(s, b). length s - b)"
    by (auto simp: find_from_def split: option.splits)
qed

declare Lines_from.simps [simp del]

definition Lines :: "string \<Rightarrow> Line list" where
  "Lines txt = Lines_from txt 0 @
     (if txt = [] then [\<lparr>ln_begin = 0, ln_contentEnd = 0, ln_end = 0\<rparr>] else [])"

definition line_content :: "string \<Rightarrow> Line \<Rightarrow> string" where
  "line_content txt line = Trim (slice (ln_begin line) (ln_contentEnd line) txt)"

section \<open>The server configuration\<close>

type_synonym server_fields = "string option \<times> u16 option \<times> string option"

definition server_line :: "string \<Rightarrow> server_fields \<Rightarrow> server_fields result" where
  "server_line content st =
     (let (addr, port, token) = st in
      if content = [] \<or> hd content = CHR ''#'' then Inr st else
      case find_char (CHR ''='') content of
        None \<Rightarrow> Inl ''server config contains a malformed line''
      | Some separator \<Rightarrow>
          let key = Trim (take separator content); v = Trim (drop (separator + 1) content) in
          if key = ''bind'' then
            (if addr \<noteq> None then Inl ''server config repeats bind''
             else (case QuotedValue v of
                     None \<Rightarrow> Inl ''controller requires bind 127.0.0.1''
                   | Some b \<Rightarrow>
                       if b \<noteq> ''127.0.0.1'' then Inl ''controller requires bind 127.0.0.1''
                       else Inr (Some b, port, token)))
          else if key = ''port'' then
            (if port \<noteq> None then Inl ''server config repeats port''
             else let conversion = from_chars 10 v (0 :: u32); parsed = parsed_value conversion in
               if \<not> parsed_all v conversion \<or> parsed = 0 \<or> parsed > 65535
               then Inl ''server config port is invalid''
               else Inr (addr, Some (ucast parsed), token))
          else if key = ''bearer_token'' then
            (if token \<noteq> None then Inl ''server config repeats bearer_token''
             else (case QuotedValue v of
                     None \<Rightarrow> Inl ''server config bearer_token is invalid''
                   | Some t \<Rightarrow>
                       if length t < 32 \<or> length t > 4096
                       then Inl ''server config bearer_token is invalid''
                       else Inr (addr, port, Some t)))
          else Inl ''server config contains an unknown field'')"

fun server_lines :: "string list \<Rightarrow> server_fields \<Rightarrow> server_fields result" where
  "server_lines [] st = Inr st"
| "server_lines (content # rest) st =
     (case server_line content st of Inl e \<Rightarrow> Inl e | Inr f \<Rightarrow> server_lines rest f)"

definition ParseServerConfig :: "string \<Rightarrow> ServerConfig result" where
  "ParseServerConfig txt =
     (if txt = [] \<or> length txt > 64 * 1024 \<or> CHR 0x00 \<in> set txt
      then Inl ''server config is empty or exceeds its bound''
      else
        case server_lines (map (line_content txt) (Lines txt)) (None, None, None) of
          Inl e \<Rightarrow> Inl e
        | Inr (Some addr, Some port, Some token) \<Rightarrow>
            Inr \<lparr>sc_bind = addr, sc_port = port, sc_bearerToken = token\<rparr>
        | Inr _ \<Rightarrow> Inl ''server config is missing a required field'')"

section \<open>The ScyllaHide profile\<close>

definition section_header :: "string \<Rightarrow> string option" where
  "section_header content =
     (if length content \<ge> 2 \<and> hd content = CHR ''['' \<and> last content = CHR '']''
      then Some (slice 1 (length content - 1) content) else None)"

text \<open>The part after \<open>=\<close> of a \<open>CurrentProfile\<close> assignment.\<close>

definition current_profile_value :: "string \<Rightarrow> string option" where
  "current_profile_value content =
     (case find_char (CHR ''='') content of
        None \<Rightarrow> None
      | Some separator \<Rightarrow>
          if EqualInsensitive (Trim (take separator content)) ''CurrentProfile''
          then Some (drop (separator + 1) content) else None)"

record set_scan =
  ss_section :: string
  ss_line :: "Line option"
  ss_canonical :: "string option"

definition set_line :: "string \<Rightarrow> string \<Rightarrow> Line \<Rightarrow> set_scan \<Rightarrow> set_scan result" where
  "set_line requestedProfile content line s =
     (case section_header content of
        Some header \<Rightarrow>
          Inr (s\<lparr>ss_section := header,
                 ss_canonical := (if EqualInsensitive header requestedProfile then Some header
                                  else ss_canonical s)\<rparr>)
      | None \<Rightarrow>
          if EqualInsensitive (ss_section s) ''SETTINGS'' \<and> current_profile_value content \<noteq> None then
            (if ss_line s \<noteq> None then Inl ''ScyllaHide config repeats CurrentProfile''
             else Inr (s\<lparr>ss_line := Some line\<rparr>))
          else Inr s)"

fun set_lines :: "string \<Rightarrow> string \<Rightarrow> Line list \<Rightarrow> set_scan \<Rightarrow> set_scan result" where
  "set_lines txt requestedProfile [] s = Inr s"
| "set_lines txt requestedProfile (line # rest) s =
     (case set_line requestedProfile (line_content txt line) line s of
        Inl e \<Rightarrow> Inl e
      | Inr s' \<Rightarrow> set_lines txt requestedProfile rest s')"

definition SetScyllaHideProfile :: "string \<Rightarrow> string \<Rightarrow> ProfileUpdate result" where
  "SetScyllaHideProfile txt requestedProfile =
     (if txt = [] \<or> length txt > 1024 * 1024 \<or> CHR 0x00 \<in> set txt
      then Inl ''ScyllaHide config is empty or exceeds its bound''
      else if requestedProfile = [] \<or> length requestedProfile > 128 \<or> HasControl requestedProfile \<or>
              hd requestedProfile = CHR ''['' \<or> CHR '']'' \<in> set requestedProfile
      then Inl ''profile name is invalid''
      else
        case set_lines txt requestedProfile (Lines txt)
               \<lparr>ss_section = [], ss_line = None, ss_canonical = None\<rparr> of
          Inl e \<Rightarrow> Inl e
        | Inr s \<Rightarrow>
            (case ss_canonical s of
               None \<Rightarrow> Inl ''requested ScyllaHide profile section does not exist''
             | Some canonicalProfile \<Rightarrow>
                 (case ss_line s of
                    None \<Rightarrow> Inl ''ScyllaHide SETTINGS.CurrentProfile is missing''
                  | Some line \<Rightarrow>
                      Inr \<lparr>pu_text = take (ln_begin line) txt @ ''CurrentProfile='' @ canonicalProfile @
                             drop (ln_contentEnd line) txt,
                           pu_canonicalProfile = canonicalProfile\<rparr>)))"

record parse_scan =
  ps_section :: string
  ps_current :: "string option"
  ps_profiles :: "string list"

definition parse_line :: "string \<Rightarrow> parse_scan \<Rightarrow> parse_scan result" where
  "parse_line content s =
     (case section_header content of
        Some header \<Rightarrow>
          if \<not> EqualInsensitive header ''SETTINGS'' then
            (if header = [] \<or> length header > 128 \<or> length (ps_profiles s) \<ge> 128 \<or> HasControl header
             then Inl ''ScyllaHide profile catalog exceeds its bound''
             else Inr (s\<lparr>ps_section := header, ps_profiles := ps_profiles s @ [header]\<rparr>))
          else Inr (s\<lparr>ps_section := header\<rparr>)
      | None \<Rightarrow>
          if EqualInsensitive (ps_section s) ''SETTINGS'' then
            (case current_profile_value content of
               None \<Rightarrow> Inr s
             | Some v \<Rightarrow>
                 if ps_current s \<noteq> None then Inl ''ScyllaHide config repeats CurrentProfile''
                 else Inr (s\<lparr>ps_current := Some (Trim v)\<rparr>))
          else Inr s)"

fun parse_lines :: "string list \<Rightarrow> parse_scan \<Rightarrow> parse_scan result" where
  "parse_lines [] s = Inr s"
| "parse_lines (content # rest) s =
     (case parse_line content s of Inl e \<Rightarrow> Inl e | Inr s' \<Rightarrow> parse_lines rest s')"

definition ParseScyllaHideConfig :: "string \<Rightarrow> ScyllaHideConfig result" where
  "ParseScyllaHideConfig txt =
     (if txt = [] \<or> length txt > 1024 * 1024 \<or> CHR 0x00 \<in> set txt
      then Inl ''ScyllaHide config is empty or exceeds its bound''
      else
        case parse_lines (map (line_content txt) (Lines txt))
               \<lparr>ps_section = [], ps_current = None, ps_profiles = []\<rparr> of
          Inl e \<Rightarrow> Inl e
        | Inr s \<Rightarrow>
            (case ps_current s of
               None \<Rightarrow> Inl ''ScyllaHide SETTINGS.CurrentProfile is missing''
             | Some current \<Rightarrow>
                 if current = [] then Inl ''ScyllaHide SETTINGS.CurrentProfile is missing'' else
                 (case find (\<lambda>profile. EqualInsensitive profile current) (ps_profiles s) of
                    None \<Rightarrow> Inl ''ScyllaHide CurrentProfile does not name an available profile''
                  | Some selected \<Rightarrow>
                      Inr \<lparr>sh_currentProfile = selected, sh_availableProfiles = ps_profiles s\<rparr>)))"

definition IsCanonicalUuid :: "string \<Rightarrow> bool" where
  "IsCanonicalUuid v =
     (if length v \<noteq> 36 then False
      else list_all (\<lambda>i. if i = 8 \<or> i = 13 \<or> i = 18 \<or> i = 23 then v ! i = CHR ''-''
                         else is_lower_hex (v ! i)) [0..<length v])"

lemma IsCanonicalUuid_syntax: "IsCanonicalUuid v = uuid_syntax v"
  unfolding IsCanonicalUuid_def uuid_syntax_def uuid_char_def uuid_separator_def list_all_iff
  by (cases "length v = 36") (simp_all only: set_upt atLeastLessThan_iff Ball_def, auto)

section \<open>Lines as a list of contents and terminators\<close>

definition cr :: "string \<Rightarrow> nat" where
  "cr s = (if s \<noteq> [] \<and> last s = CHR 0x0D then 1 else 0)"

text \<open>A line of the file: its content, and the line end that follows it.\<close>

fun lines_of :: "string \<Rightarrow> (string \<times> string) list" where
  "lines_of s =
     (if s = [] then [] else
      let l = takeWhile (\<lambda>c. c \<noteq> CHR 0x0A) s; n = length l - cr l in
      (take n l, drop n l @ (if length l < length s then [CHR 0x0A] else [])) #
      lines_of (drop (length l + 1) s))"

declare lines_of.simps [simp del]

lemma lines_of_Nil [simp]: "lines_of [] = []"
  by (simp add: lines_of.simps)
















section \<open>Selecting a profile\<close>





























definition sample_config :: string where
  "sample_config = ''[SETTINGS]'' @ [CHR 0x0D, CHR 0x0A] @ ''CurrentProfile=A'' @ [CHR 0x0D, CHR 0x0A] @
     ''[A]'' @ [CHR 0x0A] @ ''[Bc]''"



text \<open>
  C37. The section \<open>SETTINGS\<close> itself is accepted as a profile by the update although it is no
  profile of the catalog: there is a valid configuration whose update to \<open>settings\<close> succeeds
  with a text that no longer parses.
\<close>

theorem SetScyllaHideProfile_accepts_SETTINGS:
  "\<exists>s cfg u. ParseScyllaHideConfig s = Inr cfg \<and> SetScyllaHideProfile s ''settings'' = Inr u \<and>
     ParseScyllaHideConfig (pu_text u) =
       Inl ''ScyllaHide CurrentProfile does not name an available profile''"
proof -
  let ?cfg = "\<lparr>sh_currentProfile = ''A'', sh_availableProfiles = [''A'', ''Bc'']\<rparr>"
  let ?u = "\<lparr>pu_text = ''[SETTINGS]'' @ [CHR 0x0D, CHR 0x0A] @ ''CurrentProfile=SETTINGS'' @
      [CHR 0x0D, CHR 0x0A] @ ''[A]'' @ [CHR 0x0A] @ ''[Bc]'', pu_canonicalProfile = ''SETTINGS''\<rparr>"
  have "ParseScyllaHideConfig sample_config = Inr ?cfg" by code_simp
  moreover have "SetScyllaHideProfile sample_config ''settings'' = Inr ?u" by code_simp
  moreover have "ParseScyllaHideConfig (pu_text ?u) =
      Inl ''ScyllaHide CurrentProfile does not name an available profile''" by code_simp
  ultimately show ?thesis by blast
qed

section \<open>What an accepted server configuration guarantees\<close>

definition server_fields_ok :: "server_fields \<Rightarrow> bool" where
  "server_fields_ok st \<longleftrightarrow>
     (case st of (addr, port, token) \<Rightarrow>
        pred_option (\<lambda>a. a = ''127.0.0.1'') addr \<and> pred_option (\<lambda>p. 0 < p) port \<and>
        pred_option (\<lambda>t. 32 \<le> length t \<and> length t \<le> 4096 \<and> \<not> HasControl t \<and> CHR 0x22 \<notin> set t) token)"

lemma QuotedValue_ok: "QuotedValue v = Some b \<Longrightarrow> \<not> HasControl b \<and> CHR 0x22 \<notin> set b"
  by (auto simp: QuotedValue_def Let_def split: if_splits)

lemma port_positive:
  assumes "(w :: u32) \<noteq> 0" "w \<le> 65535"
  shows "0 < (ucast w :: u16)"
proof -
  have "unat w \<le> 65535" using assms(2) by (simp add: word_le_nat_alt)
  then have "unat (ucast w :: u16) = unat w"
    by (simp add: unsigned_ucast_eq take_bit_nat_eq_self_iff)
  with assms(1) show ?thesis by (metis unat_eq_0 word_greater_zero_iff)
qed

lemma server_line_ok:
  assumes "server_line c st = Inr st'" "server_fields_ok st"
  shows "server_fields_ok st'"
proof -
  obtain addr port token where st: "st = (addr, port, token)" by (cases st)
  show ?thesis
    using assms unfolding st server_line_def Let_def prod.case
    by (auto simp: server_fields_ok_def dest: QuotedValue_ok
        intro!: port_positive split: if_splits option.splits)
qed

lemma server_lines_ok:
  "server_lines cs st = Inr st' \<Longrightarrow> server_fields_ok st \<Longrightarrow> server_fields_ok st'"
proof (induction cs arbitrary: st)
  case (Cons c cs)
  then obtain st1 where "server_line c st = Inr st1" "server_lines cs st1 = Inr st'"
    by (auto split: sum.splits)
  with Cons server_line_ok show ?case by blast
qed simp

text \<open>
  The controller only ever talks to a loopback server with a credential: an accepted
  configuration binds 127.0.0.1, has a port in 1..65535 and a bearer token of 32 to 4096
  bytes without quotes or control characters.
\<close>

theorem ParseServerConfig_sound:
  assumes "ParseServerConfig s = Inr c"
  shows "sc_bind c = ''127.0.0.1'' \<and> 0 < sc_port c \<and>
    32 \<le> length (sc_bearerToken c) \<and> length (sc_bearerToken c) \<le> 4096 \<and>
    \<not> HasControl (sc_bearerToken c) \<and> CHR 0x22 \<notin> set (sc_bearerToken c) \<and>
    length s \<le> 65536"
proof -
  have init: "server_fields_ok (None, None, None)" by (simp add: server_fields_ok_def)
  from assms obtain a p t where
    "server_lines (map (line_content s) (Lines s)) (None, None, None) = Inr (Some a, Some p, Some t)"
    "c = \<lparr>sc_bind = a, sc_port = p, sc_bearerToken = t\<rparr>" "length s \<le> 65536"
    by (auto simp: ParseServerConfig_def split: if_splits sum.splits option.splits)
  with server_lines_ok [OF _ init] show ?thesis by (fastforce simp: server_fields_ok_def)
qed

definition sample_server_config :: string where
  "sample_server_config = ''# local'' @ [CHR 0x0A] @ ''bind = '' @ [CHR 0x22] @ ''127.0.0.1'' @
     [CHR 0x22, CHR 0x0A] @ ''port = 8080'' @ [CHR 0x0D, CHR 0x0A] @ ''bearer_token = '' @
     [CHR 0x22] @ ''0123456789abcdef0123456789abcdef'' @ [CHR 0x22]"

theorem ParseServerConfig_sound_witness:
  "\<exists>c. ParseServerConfig sample_server_config = Inr c \<and> sc_bind c = ''127.0.0.1'' \<and> 0 < sc_port c"
proof -
  have "ParseServerConfig sample_server_config =
      Inr \<lparr>sc_bind = ''127.0.0.1'', sc_port = 8080,
           sc_bearerToken = ''0123456789abcdef0123456789abcdef''\<rparr>"
    by code_simp
  from this ParseServerConfig_sound [OF this] show ?thesis by blast
qed

end
