(* ===== verification/Breakpoint_Policy.thy ===== *)
theory Breakpoint_Policy
  imports Memory_Policy
begin

text \<open>
  \<open>plugin/src/breakpoint_policy.cpp\<close>: the tables between wire names and the SDK's breakpoint
  attributes, the checks on hardware and memory breakpoint requests, the compiler of structured
  conditions to x64dbg expressions, and the ownership of breakpoints through their names.

  The SDK header \<open>bridgemain.h\<close> is not part of the sources. Its enumerations are datatypes with
  the enumerators the code uses, their numeric values and \<open>MAX_CONDITIONAL_EXPR_SIZE\<close> are the
  fields of the parameter \<open>sdk\<close>. \<open>sdk_ok\<close> states what C++ already demands of them: the
  enumerators of one enumeration are case labels of one \<open>switch\<close>, hence distinct. A fixed-size
  \<open>char\<close> array of \<open>BRIDGEBP\<close> is the list of its bytes, so its \<open>sizeof\<close> is the length.
\<close>

datatype BPHWTYPE = hw_access | hw_write | hw_execute
datatype BPHWSIZE = hw_byte | hw_word | hw_dword | hw_qword
datatype BPMEMTYPE = mem_access | mem_read | mem_write | mem_execute
datatype BPEXTYPE = ex_firstchance | ex_secondchance | ex_all
datatype BPXTYPE = bp_none | bp_normal | bp_hardware | bp_memory | bp_dll | bp_exception

record sdk =
  code_BPHWTYPE :: "BPHWTYPE \<Rightarrow> u8"
  code_BPHWSIZE :: "BPHWSIZE \<Rightarrow> u8"
  code_BPMEMTYPE :: "BPMEMTYPE \<Rightarrow> u8"
  code_BPEXTYPE :: "BPEXTYPE \<Rightarrow> u8"
  MAX_CONDITIONAL_EXPR_SIZE :: nat

definition sdk_ok :: "sdk \<Rightarrow> bool" where
  "sdk_ok k \<longleftrightarrow> inj (code_BPHWTYPE k) \<and> inj (code_BPHWSIZE k) \<and> inj (code_BPMEMTYPE k) \<and>
     inj (code_BPEXTYPE k)"

record 'd bridgebp =
  bp_type :: BPXTYPE
  bp_addr :: 'd
  bp_enabled :: bool
  bp_singleshoot :: bool
  bp_active :: bool
  bp_name :: string
  bp_mod :: string
  bp_slot :: u16
  bp_typeEx :: u8
  bp_hwSize :: u8
  bp_hitCount :: u32
  bp_fastResume :: bool
  bp_silent :: bool
  bp_breakCondition :: string
  bp_logText :: string
  bp_logCondition :: string
  bp_commandText :: string
  bp_commandCondition :: string

datatype HardwareAccess = hw_a_execute | hw_a_write | hw_a_readWrite
datatype MemoryAccess = mem_a_access | mem_a_read | mem_a_write | mem_a_execute
datatype ExceptionChance = chance_first | chance_second | chance_both
datatype ConditionalMode = mode_all | mode_any
datatype ConditionalSource = registerValue | threadId | hitCount
datatype ConditionalOperator = op_equal | op_notEqual | op_less | op_lessEqual | op_greater
  | op_greaterEqual | op_multipleOf
datatype BreakpointTransitionKind = kind_software | kind_hardware | kind_memory
  | kind_conditional | kind_exception

record ConditionalPredicate =
  cp_source :: ConditionalSource
  cp_operation :: ConditionalOperator
  cp_registerName :: string
  cp_value :: u64

record ConditionalSpec =
  cs_mode :: ConditionalMode
  cs_predicates :: "ConditionalPredicate list"

section \<open>Native values\<close>

definition NativeHardwareSize :: "build \<Rightarrow> nat \<Rightarrow> BPHWSIZE option" where
  "NativeHardwareSize b sz =
     (if sz = 1 then Some hw_byte else if sz = 2 then Some hw_word
      else if sz = 4 then Some hw_dword
      else if b = Win64 \<and> sz = 8 then Some hw_qword else None)"

fun NativeHardwareAccess :: "HardwareAccess \<Rightarrow> BPHWTYPE" where
  "NativeHardwareAccess hw_a_execute = hw_execute"
| "NativeHardwareAccess hw_a_write = hw_write"
| "NativeHardwareAccess hw_a_readWrite = hw_access"

fun NativeMemoryAccess :: "MemoryAccess \<Rightarrow> BPMEMTYPE" where
  "NativeMemoryAccess mem_a_access = mem_access"
| "NativeMemoryAccess mem_a_read = mem_read"
| "NativeMemoryAccess mem_a_write = mem_write"
| "NativeMemoryAccess mem_a_execute = mem_execute"

fun NativeExceptionChance :: "ExceptionChance \<Rightarrow> BPEXTYPE" where
  "NativeExceptionChance chance_first = ex_firstchance"
| "NativeExceptionChance chance_second = ex_secondchance"
| "NativeExceptionChance chance_both = ex_all"

definition CanonicalManagedId :: "string \<Rightarrow> bool" where
  "CanonicalManagedId v =
     (if length v \<noteq> 36 then False
      else list_all (\<lambda>i. if i = 8 \<or> i = 13 \<or> i = 18 \<or> i = 23 then v ! i = CHR ''-''
                         else is_lower_hex (v ! i)) [0..<length v])"

definition BoundedFieldEquals :: "string \<Rightarrow> string \<Rightarrow> bool" where
  "BoundedFieldEquals field expected \<longleftrightarrow>
     length (c_field field) < length field \<and> c_field field = expected"

text \<open>\<open>field[0] == '\0'\<close>: the empty C string (the arrays have at least one element).\<close>

definition empty_field :: "string \<Rightarrow> bool" where
  "empty_field field \<longleftrightarrow> field \<noteq> [] \<and> hd field = CHR 0x00"

definition EmptyActionFields :: "'d bridgebp \<Rightarrow> bool" where
  "EmptyActionFields bp \<longleftrightarrow> empty_field (bp_logText bp) \<and> empty_field (bp_logCondition bp) \<and>
     empty_field (bp_commandText bp) \<and> empty_field (bp_commandCondition bp)"

fun ConditionalOperatorToken :: "ConditionalOperator \<Rightarrow> string" where
  "ConditionalOperatorToken op_equal = ''==''"
| "ConditionalOperatorToken op_notEqual = ''!=''"
| "ConditionalOperatorToken op_less = ''<''"
| "ConditionalOperatorToken op_lessEqual = ''<=''"
| "ConditionalOperatorToken op_greater = ''>''"
| "ConditionalOperatorToken op_greaterEqual = ''>=''"
| "ConditionalOperatorToken op_multipleOf = ''%''"

definition HexConstant :: "u64 \<Rightarrow> string" where
  "HexConstant v = ''0x'' @ to_hex (unat v)"

section \<open>Wire names\<close>

definition ParseHardwareAccess :: "string \<Rightarrow> HardwareAccess option" where
  "ParseHardwareAccess v =
     (if v = ''execute'' then Some hw_a_execute else if v = ''write'' then Some hw_a_write
      else if v = ''read_write'' then Some hw_a_readWrite else None)"

fun HardwareAccessName :: "HardwareAccess \<Rightarrow> string" where
  "HardwareAccessName hw_a_execute = ''execute''"
| "HardwareAccessName hw_a_write = ''write''"
| "HardwareAccessName hw_a_readWrite = ''read_write''"

definition HardwareAccessNameFromNative :: "sdk \<Rightarrow> u8 \<Rightarrow> string" where
  "HardwareAccessNameFromNative k v =
     (if v = code_BPHWTYPE k hw_execute then ''execute''
      else if v = code_BPHWTYPE k hw_write then ''write''
      else if v = code_BPHWTYPE k hw_access then ''read_write'' else ''unknown'')"

definition HardwareSizeFromNative :: "sdk \<Rightarrow> u8 \<Rightarrow> nat" where
  "HardwareSizeFromNative k v =
     (if v = code_BPHWSIZE k hw_byte then 1 else if v = code_BPHWSIZE k hw_word then 2
      else if v = code_BPHWSIZE k hw_dword then 4 else if v = code_BPHWSIZE k hw_qword then 8 else 0)"

fun HardwareAccessCommand :: "HardwareAccess \<Rightarrow> char" where
  "HardwareAccessCommand hw_a_execute = CHR ''x''"
| "HardwareAccessCommand hw_a_write = CHR ''w''"
| "HardwareAccessCommand hw_a_readWrite = CHR ''r''"

definition ParseMemoryAccess :: "string \<Rightarrow> MemoryAccess option" where
  "ParseMemoryAccess v =
     (if v = ''access'' then Some mem_a_access else if v = ''read'' then Some mem_a_read
      else if v = ''write'' then Some mem_a_write else if v = ''execute'' then Some mem_a_execute
      else None)"

fun MemoryAccessName :: "MemoryAccess \<Rightarrow> string" where
  "MemoryAccessName mem_a_access = ''access''"
| "MemoryAccessName mem_a_read = ''read''"
| "MemoryAccessName mem_a_write = ''write''"
| "MemoryAccessName mem_a_execute = ''execute''"

definition MemoryAccessNameFromNative :: "sdk \<Rightarrow> u8 \<Rightarrow> string" where
  "MemoryAccessNameFromNative k v =
     (if v = code_BPMEMTYPE k mem_access then ''access''
      else if v = code_BPMEMTYPE k mem_read then ''read''
      else if v = code_BPMEMTYPE k mem_write then ''write''
      else if v = code_BPMEMTYPE k mem_execute then ''execute'' else ''unknown'')"

fun MemoryAccessCommand :: "MemoryAccess \<Rightarrow> char" where
  "MemoryAccessCommand mem_a_access = CHR ''a''"
| "MemoryAccessCommand mem_a_read = CHR ''r''"
| "MemoryAccessCommand mem_a_write = CHR ''w''"
| "MemoryAccessCommand mem_a_execute = CHR ''x''"

definition ParseExceptionChance :: "string \<Rightarrow> ExceptionChance option" where
  "ParseExceptionChance v =
     (if v = ''first'' then Some chance_first else if v = ''second'' then Some chance_second
      else if v = ''both'' then Some chance_both else None)"

fun ExceptionChanceName :: "ExceptionChance \<Rightarrow> string" where
  "ExceptionChanceName chance_first = ''first''"
| "ExceptionChanceName chance_second = ''second''"
| "ExceptionChanceName chance_both = ''both''"

fun ExceptionChanceCommand :: "ExceptionChance \<Rightarrow> string" where
  "ExceptionChanceCommand chance_first = ''first''"
| "ExceptionChanceCommand chance_second = ''second''"
| "ExceptionChanceCommand chance_both = ''all''"

definition ParseConditionalOperator :: "string \<Rightarrow> ConditionalOperator option" where
  "ParseConditionalOperator v =
     (if v = ''eq'' then Some op_equal else if v = ''ne'' then Some op_notEqual
      else if v = ''lt'' then Some op_less else if v = ''le'' then Some op_lessEqual
      else if v = ''gt'' then Some op_greater else if v = ''ge'' then Some op_greaterEqual
      else if v = ''multiple_of'' then Some op_multipleOf else None)"

text \<open>\<open>ConditionalOperatorName\<close> of \<open>runtime.cpp\<close>, the printer of the same table.\<close>

fun ConditionalOperatorName :: "ConditionalOperator \<Rightarrow> string" where
  "ConditionalOperatorName op_equal = ''eq''"
| "ConditionalOperatorName op_notEqual = ''ne''"
| "ConditionalOperatorName op_less = ''lt''"
| "ConditionalOperatorName op_lessEqual = ''le''"
| "ConditionalOperatorName op_greater = ''gt''"
| "ConditionalOperatorName op_greaterEqual = ''ge''"
| "ConditionalOperatorName op_multipleOf = ''multiple_of''"

interpretation hardware_access: wire_enum HardwareAccessName ParseHardwareAccess
proof
  show "ParseHardwareAccess (HardwareAccessName e) = Some e" for e
    by (cases e) (simp_all add: ParseHardwareAccess_def)
qed (auto simp: ParseHardwareAccess_def split: if_splits)

interpretation memory_access: wire_enum MemoryAccessName ParseMemoryAccess
proof
  show "ParseMemoryAccess (MemoryAccessName e) = Some e" for e
    by (cases e) (simp_all add: ParseMemoryAccess_def)
qed (auto simp: ParseMemoryAccess_def split: if_splits)

interpretation exception_chance: wire_enum ExceptionChanceName ParseExceptionChance
proof
  show "ParseExceptionChance (ExceptionChanceName e) = Some e" for e
    by (cases e) (simp_all add: ParseExceptionChance_def)
qed (auto simp: ParseExceptionChance_def split: if_splits)

interpretation conditional_operator: wire_enum ConditionalOperatorName ParseConditionalOperator
proof
  show "ParseConditionalOperator (ConditionalOperatorName e) = Some e" for e
    by (cases e) (simp_all add: ParseConditionalOperator_def)
qed (auto simp: ParseConditionalOperator_def split: if_splits)

section \<open>Hardware and memory breakpoints\<close>

definition HardwareRequestValid :: "build \<Rightarrow> HardwareAccess \<Rightarrow> nat \<Rightarrow> ('d :: len) word \<Rightarrow> bool" where
  "HardwareRequestValid b access sz address =
     (if NativeHardwareSize b sz = None then False
      else if access = hw_a_execute \<and> sz \<noteq> 1 then False
      else address mod of_nat sz = 0)"

definition HardwareBreakpointMatches ::
    "sdk \<Rightarrow> build \<Rightarrow> 'd bridgebp \<Rightarrow> HardwareAccess \<Rightarrow> nat \<Rightarrow> bool \<Rightarrow> bool" where
  "HardwareBreakpointMatches k b bp access sz requireEnabled =
     (case NativeHardwareSize b sz of
        None \<Rightarrow> False
      | Some nativeSize \<Rightarrow>
          bp_type bp = bp_hardware \<and>
          (\<not> requireEnabled \<or> (bp_enabled bp \<and> bp_slot bp < 4)) \<and>
          bp_typeEx bp = code_BPHWTYPE k (NativeHardwareAccess access) \<and>
          bp_hwSize bp = code_BPHWSIZE k nativeSize)"

definition slots_step :: "bool list \<Rightarrow> 'd bridgebp \<Rightarrow> bool list" where
  "slots_step represented bp =
     (if bp_type bp = bp_hardware \<and> bp_enabled bp \<and> bp_slot bp < 4
      then represented[unat (bp_slot bp) := True] else represented)"

text \<open>The null pointer with a non-zero count is \<open>None\<close>; otherwise the elements are given.\<close>

definition HardwareSlotsExhausted :: "'d bridgebp list option \<Rightarrow> bool" where
  "HardwareSlotsExhausted bps =
     (case bps of
        None \<Rightarrow> False
      | Some l \<Rightarrow> list_all (\<lambda>r. r) (foldl slots_step [False, False, False, False] l))"

definition MemoryRangeContained ::
    "('d :: len) word \<Rightarrow> 'd word \<Rightarrow> 'd word \<Rightarrow> 'd word \<Rightarrow> bool" where
  "MemoryRangeContained address sz regionBase regionSize =
     (if sz = 0 \<or> unat sz > 65536 \<or> regionSize = 0 \<or> address < regionBase then False
      else let offset = address - regionBase in
        if offset \<ge> regionSize then False else sz \<le> regionSize - offset)"

definition MemoryBreakpointMatches ::
    "sdk \<Rightarrow> ('d :: len) word bridgebp \<Rightarrow> MemoryAccess \<Rightarrow> 'd word \<Rightarrow> 'd word \<Rightarrow> bool \<Rightarrow> bool" where
  "MemoryBreakpointMatches k bp access sz observedSize requireEnabled \<longleftrightarrow>
     bp_type bp = bp_memory \<and> (\<not> requireEnabled \<or> bp_enabled bp) \<and>
     bp_typeEx bp = code_BPMEMTYPE k (NativeMemoryAccess access) \<and> observedSize = sz"

section \<open>Names that mark ownership\<close>

definition ManagedBreakpointName :: "string \<Rightarrow> string \<Rightarrow> string" where
  "ManagedBreakpointName family managedId =
     (if (family \<noteq> ''exception'' \<and> family \<noteq> ''conditional'') \<or> \<not> CanonicalManagedId managedId
      then [] else ''__x64dbg_mcp_'' @ family @ ''_'' @ managedId)"

definition ManagedBreakpointId :: "'d bridgebp \<Rightarrow> string \<Rightarrow> string option" where
  "ManagedBreakpointId bp family =
     (let prefix = ''__x64dbg_mcp_'' @ family @ ''_''; name = c_field (bp_name bp) in
      if length name \<ge> length (bp_name bp) then None
      else if \<not> starts_with name prefix then None
      else let i = drop (length prefix) name in
        if CanonicalManagedId i then Some i else None)"

definition ExceptionBreakpointOwned ::
    "sdk \<Rightarrow> ('d :: len) word bridgebp \<Rightarrow> u32 \<Rightarrow> ExceptionChance \<Rightarrow> string \<Rightarrow> bool" where
  "ExceptionBreakpointOwned k bp code chance managedId \<longleftrightarrow>
     (let expectedName = ManagedBreakpointName ''exception'' managedId in
      expectedName \<noteq> [] \<and> bp_type bp = bp_exception \<and> bp_addr bp = ucast code \<and>
      bp_typeEx bp = code_BPEXTYPE k (NativeExceptionChance chance) \<and>
      BoundedFieldEquals (bp_name bp) expectedName \<and> empty_field (bp_breakCondition bp) \<and>
      EmptyActionFields bp)"

definition ExceptionBreakpointMatches ::
    "sdk \<Rightarrow> ('d :: len) word bridgebp \<Rightarrow> u32 \<Rightarrow> ExceptionChance \<Rightarrow> string \<Rightarrow> bool" where
  "ExceptionBreakpointMatches k bp code chance managedId \<longleftrightarrow>
     bp_enabled bp \<and> ExceptionBreakpointOwned k bp code chance managedId"

definition ConditionalBreakpointOwned :: "'d bridgebp \<Rightarrow> 'd \<Rightarrow> string \<Rightarrow> bool" where
  "ConditionalBreakpointOwned bp address managedId \<longleftrightarrow>
     (let expectedName = ManagedBreakpointName ''conditional'' managedId in
      expectedName \<noteq> [] \<and> bp_type bp = bp_normal \<and> bp_addr bp = address \<and>
      BoundedFieldEquals (bp_name bp) expectedName)"

definition ConditionalBreakpointMatches :: "'d bridgebp \<Rightarrow> 'd \<Rightarrow> string \<Rightarrow> string \<Rightarrow> bool" where
  "ConditionalBreakpointMatches bp address managedId expression \<longleftrightarrow>
     ConditionalBreakpointOwned bp address managedId \<and> bp_enabled bp \<and> bp_active bp \<and>
     \<not> bp_singleshoot bp \<and> bp_fastResume bp \<and>
     BoundedFieldEquals (bp_breakCondition bp) expression \<and> EmptyActionFields bp"

definition PlainSoftwareBreakpointSelectable :: "'d bridgebp \<Rightarrow> 'd \<Rightarrow> bool" where
  "PlainSoftwareBreakpointSelectable bp address \<longleftrightarrow>
     bp_type bp = bp_normal \<and> bp_addr bp = address \<and> \<not> bp_singleshoot bp \<and> \<not> bp_fastResume bp \<and>
     \<not> bp_silent bp \<and> empty_field (bp_breakCondition bp) \<and> EmptyActionFields bp \<and>
     ManagedBreakpointId bp ''conditional'' = None"

definition sameField :: "string \<Rightarrow> string \<Rightarrow> bool" where
  "sameField left right \<longleftrightarrow> length (c_field left) < length left \<and> length (c_field right) < length right \<and>
     length (c_field left) = length (c_field right) \<and> c_field left = c_field right"

definition BreakpointConfigurationUnchanged :: "'d bridgebp \<Rightarrow> 'd bridgebp \<Rightarrow> bool \<Rightarrow> bool" where
  "BreakpointConfigurationUnchanged b a allowSlotChange \<longleftrightarrow>
     bp_type b = bp_type a \<and> bp_addr b = bp_addr a \<and> bp_singleshoot b = bp_singleshoot a \<and>
     bp_active b = bp_active a \<and> (allowSlotChange \<or> bp_slot b = bp_slot a) \<and>
     bp_typeEx b = bp_typeEx a \<and> bp_hwSize b = bp_hwSize a \<and> bp_hitCount b = bp_hitCount a \<and>
     bp_fastResume b = bp_fastResume a \<and> bp_silent b = bp_silent a \<and>
     sameField (bp_name b) (bp_name a) \<and> sameField (bp_mod b) (bp_mod a) \<and>
     sameField (bp_breakCondition b) (bp_breakCondition a) \<and>
     sameField (bp_logText b) (bp_logText a) \<and> sameField (bp_logCondition b) (bp_logCondition a) \<and>
     sameField (bp_commandText b) (bp_commandText a) \<and>
     sameField (bp_commandCondition b) (bp_commandCondition a)"

section \<open>Conditions and commands\<close>

definition PortableConditionalRegister :: "string \<Rightarrow> bool" where
  "PortableConditionalRegister v \<longleftrightarrow>
     v = ''cax'' \<or> v = ''cbx'' \<or> v = ''ccx'' \<or> v = ''cdx'' \<or> v = ''csi'' \<or> v = ''cdi'' \<or>
     v = ''cbp'' \<or> v = ''csp'' \<or> v = ''cip''"

fun duint_max :: "build \<Rightarrow> u64" where
  "duint_max Win32 = 0xffffffff"
| "duint_max Win64 = 0xffffffffffffffff"

definition predicate_source :: "build \<Rightarrow> ConditionalPredicate \<Rightarrow> string option" where
  "predicate_source b p =
     (case cp_source p of
        registerValue \<Rightarrow>
          if \<not> PortableConditionalRegister (cp_registerName p) \<or> cp_operation p = op_multipleOf \<or>
             cp_value p > duint_max b
          then None else Some (cp_registerName p)
      | threadId \<Rightarrow>
          if cp_registerName p \<noteq> [] \<or> (cp_operation p \<noteq> op_equal \<and> cp_operation p \<noteq> op_notEqual) \<or>
             cp_value p > 0xffffffff
          then None else Some ''tid()''
      | hitCount \<Rightarrow>
          if cp_registerName p \<noteq> [] \<or> cp_value p = 0 \<or> cp_value p > 0xffffffff
          then None else Some ''$breakpointcounter'')"

primrec CompileConditionalExpression_loop ::
    "sdk \<Rightarrow> build \<Rightarrow> ConditionalMode \<Rightarrow> ConditionalPredicate list \<Rightarrow> nat \<Rightarrow> string \<Rightarrow> string option" where
  "CompileConditionalExpression_loop k b mode [] index expression = Some expression"
| "CompileConditionalExpression_loop k b mode (p # rest) index expression = do {
     let expression = (if index \<noteq> 0 then expression @ (if mode = mode_all then ''&&'' else ''||'')
                       else expression);
     let token = ConditionalOperatorToken (cp_operation p);
     source \<leftarrow> predicate_source b p;
     let v = HexConstant (cp_value p);
     let expression =
       (if cp_operation p = op_multipleOf then expression @ ''(('' @ source @ ''%'' @ v @ '')==0)''
        else expression @ ''('' @ source @ token @ v @ '')'');
     require (\<not> length expression \<ge> MAX_CONDITIONAL_EXPR_SIZE k);
     CompileConditionalExpression_loop k b mode rest (index + 1) expression
   }"

definition CompileConditionalExpression :: "sdk \<Rightarrow> build \<Rightarrow> ConditionalSpec \<Rightarrow> string option" where
  "CompileConditionalExpression k b condition =
     (if cs_predicates condition = [] \<or> length (cs_predicates condition) > 4 then None
      else CompileConditionalExpression_loop k b (cs_mode condition) (cs_predicates condition) 0 [])"

definition BreakpointToggleCommand :: "BreakpointTransitionKind \<Rightarrow> ('d :: len) word \<Rightarrow> bool \<Rightarrow> string" where
  "BreakpointToggleCommand kind identity enable =
     (case kind of
        kind_software \<Rightarrow> if enable then ''bpe '' else ''bpd ''
      | kind_conditional \<Rightarrow> if enable then ''bpe '' else ''bpd ''
      | kind_hardware \<Rightarrow> if enable then ''bphwe '' else ''bphwd ''
      | kind_memory \<Rightarrow> if enable then ''bpme '' else ''bpmd ''
      | kind_exception \<Rightarrow> if enable then ''EnableExceptionBPX '' else ''DisableExceptionBPX '') @
     ''0x'' @ to_hex (unat identity)"

definition RunToBreakpointName :: "string \<Rightarrow> string" where
  "RunToBreakpointName operationId = ''__x64dbg_mcp_run_to_'' @ operationId"

definition RunToBreakpointSetCommand :: "('d :: len) word \<Rightarrow> string \<Rightarrow> string" where
  "RunToBreakpointSetCommand target ownedName =
     ''bp 0x'' @ to_hex (unat target) @ '', '' @ [CHR 0x22] @ ownedName @ [CHR 0x22] @ '', ss''"

definition RunToBreakpointOwned :: "'d bridgebp \<Rightarrow> 'd \<Rightarrow> string \<Rightarrow> bool" where
  "RunToBreakpointOwned bp target expectedName \<longleftrightarrow>
     bp_type bp = bp_normal \<and> bp_addr bp = target \<and> bp_singleshoot bp \<and>
     length (c_field (bp_name bp)) < length (bp_name bp) \<and> c_field (bp_name bp) = expectedName"

section \<open>Native values agree with the wire names\<close>

definition sample_sdk :: sdk where
  "sample_sdk =
     \<lparr>code_BPHWTYPE = (\<lambda>t. case t of hw_access \<Rightarrow> 0 | hw_write \<Rightarrow> 1 | hw_execute \<Rightarrow> 2),
      code_BPHWSIZE = (\<lambda>t. case t of hw_byte \<Rightarrow> 0 | hw_word \<Rightarrow> 1 | hw_dword \<Rightarrow> 2 | hw_qword \<Rightarrow> 3),
      code_BPMEMTYPE = (\<lambda>t. case t of mem_access \<Rightarrow> 0 | mem_read \<Rightarrow> 1 | mem_write \<Rightarrow> 2 | mem_execute \<Rightarrow> 3),
      code_BPEXTYPE = (\<lambda>t. case t of ex_firstchance \<Rightarrow> 1 | ex_secondchance \<Rightarrow> 2 | ex_all \<Rightarrow> 3),
      MAX_CONDITIONAL_EXPR_SIZE = 256\<rparr>"

lemma sample_sdk_ok: "sdk_ok sample_sdk"
  by (auto simp: sdk_ok_def sample_sdk_def inj_def
      split: BPHWTYPE.splits BPHWSIZE.splits BPMEMTYPE.splits BPEXTYPE.splits)

definition sample_bp :: "u64 bridgebp" where
  "sample_bp =
     \<lparr>bp_type = bp_hardware, bp_addr = 0x1000, bp_enabled = True, bp_singleshoot = False,
      bp_active = True, bp_name = [CHR 0x00], bp_mod = [CHR 0x00], bp_slot = 0, bp_typeEx = 1,
      bp_hwSize = 2, bp_hitCount = 0, bp_fastResume = False, bp_silent = False,
      bp_breakCondition = [CHR 0x00], bp_logText = [CHR 0x00], bp_logCondition = [CHR 0x00],
      bp_commandText = [CHR 0x00], bp_commandCondition = [CHR 0x00]\<rparr>"

lemma HardwareSizeFromNative_inverse:
  "inj (code_BPHWSIZE k) \<Longrightarrow> NativeHardwareSize b sz = Some n \<Longrightarrow>
   HardwareSizeFromNative k (code_BPHWSIZE k n) = sz"
  by (auto simp: NativeHardwareSize_def HardwareSizeFromNative_def inj_eq split: if_splits)

lemma HardwareAccessNameFromNative_inverse:
  "inj (code_BPHWTYPE k) \<Longrightarrow>
   HardwareAccessNameFromNative k (code_BPHWTYPE k (NativeHardwareAccess a)) = HardwareAccessName a"
  by (cases a) (auto simp: HardwareAccessNameFromNative_def inj_eq)

lemma MemoryAccessNameFromNative_inverse:
  "inj (code_BPMEMTYPE k) \<Longrightarrow>
   MemoryAccessNameFromNative k (code_BPMEMTYPE k (NativeMemoryAccess a)) = MemoryAccessName a"
  by (cases a) (auto simp: MemoryAccessNameFromNative_def inj_eq)

text \<open>
  A breakpoint that matches a hardware request is reported with exactly the access and size
  that were requested: the names and sizes printed from native values invert the values that
  requests are translated to, on every build.
\<close>

theorem HardwareBreakpointMatches_reported:
  assumes "sdk_ok k" and "HardwareBreakpointMatches k b bp access sz enabled"
  shows "ParseHardwareAccess (HardwareAccessNameFromNative k (bp_typeEx bp)) = Some access \<and>
    HardwareSizeFromNative k (bp_hwSize bp) = sz"
  using assms
  by (auto simp: HardwareBreakpointMatches_def sdk_ok_def HardwareAccessNameFromNative_inverse
      HardwareSizeFromNative_inverse hardware_access.parse_name split: option.splits)

theorem HardwareBreakpointMatches_reported_witness:
  "ParseHardwareAccess (HardwareAccessNameFromNative sample_sdk (bp_typeEx sample_bp)) = Some hw_a_write \<and>
   HardwareSizeFromNative sample_sdk (bp_hwSize sample_bp) = 4"
  by (rule HardwareBreakpointMatches_reported [OF sample_sdk_ok, of Win32 _ _ _ True])
    (simp add: HardwareBreakpointMatches_def NativeHardwareSize_def sample_bp_def sample_sdk_def)

section \<open>Requests are checked exactly\<close>

lemma word_mod_dvd:
  assumes "sz < 2 ^ LENGTH('d :: len)"
  shows "(x :: 'd word) mod of_nat sz = 0 \<longleftrightarrow> sz dvd unat x"
proof -
  have "unat (of_nat sz :: 'd word) = sz"
    using assms by (simp add: unat_of_nat take_bit_nat_eq_self)
  then show ?thesis by (metis dvd_eq_mod_eq_0 unat_eq_0 unat_mod)
qed

lemma HardwareRequestValid_dvd:
  assumes "8 < (2 :: nat) ^ LENGTH('d)"
  shows "HardwareRequestValid b access sz (x :: ('d :: len) word) \<longleftrightarrow>
    NativeHardwareSize b sz \<noteq> None \<and> \<not> (access = hw_a_execute \<and> sz \<noteq> 1) \<and> sz dvd unat x"
proof (cases "NativeHardwareSize b sz = None")
  case False
  then have "sz \<le> 8" by (auto simp: NativeHardwareSize_def split: if_splits)
  with assms have "sz < 2 ^ LENGTH('d)" by linarith
  then show ?thesis unfolding HardwareRequestValid_def word_mod_dvd [OF \<open>sz < _\<close>] by simp
qed (simp add: HardwareRequestValid_def)

text \<open>
  A hardware breakpoint request is valid exactly when its size is one the build's debug
  registers support (one byte for execution) and its address is a multiple of the size.
\<close>

theorem HardwareRequestValid_iff:
  "HardwareRequestValid Win64 access sz (a :: u64) =
     (sz \<in> (if access = hw_a_execute then {1} else {1, 2, 4, 8}) \<and> sz dvd unat a) \<and>
   HardwareRequestValid Win32 access sz (a' :: u32) =
     (sz \<in> (if access = hw_a_execute then {1} else {1, 2, 4}) \<and> sz dvd unat a')"
  by (simp add: HardwareRequestValid_dvd) (auto simp: NativeHardwareSize_def)

lemma slots_step_nth:
  "length r = 4 \<Longrightarrow> i < 4 \<Longrightarrow>
   foldl slots_step r l ! i \<longleftrightarrow>
     r ! i \<or> (\<exists>bp \<in> set l. bp_type bp = bp_hardware \<and> bp_enabled bp \<and> unat (bp_slot bp) = i)"
proof (induction l arbitrary: r)
  case (Cons bp l)
  have four: "unat (4 :: u16) = 4" by simp
  have "slots_step r bp ! i \<longleftrightarrow>
      r ! i \<or> (bp_type bp = bp_hardware \<and> bp_enabled bp \<and> unat (bp_slot bp) = i)"
    using Cons.prems by (auto simp: slots_step_def nth_list_update word_less_nat_alt four)
  moreover have "length (slots_step r bp) = 4" using Cons.prems by (simp add: slots_step_def)
  ultimately show ?case using Cons.IH Cons.prems(2) by auto
qed simp

lemma four_cases: "(\<forall>i < 4. P i) \<longleftrightarrow> P 0 \<and> P 1 \<and> P 2 \<and> P (3 :: nat)"
  by (auto simp: less_Suc_eq eval_nat_numeral)

lemma slots_step_length: "length (foldl slots_step r l) = length r"
  by (induction l arbitrary: r) (auto simp: slots_step_def)

text \<open>
  The debug registers are reported exhausted exactly when each of the four slots is held by
  an enabled hardware breakpoint of the list.
\<close>

theorem HardwareSlotsExhausted_iff:
  "HardwareSlotsExhausted (Some l) \<longleftrightarrow>
     {0, 1, 2, 3} \<subseteq> unat ` bp_slot ` {bp \<in> set l. bp_type bp = bp_hardware \<and> bp_enabled bp}"
proof -
  let ?r = "foldl slots_step [False, False, False, False] l"
  have r: "?r ! i \<longleftrightarrow> i \<in> unat ` bp_slot ` {bp \<in> set l. bp_type bp = bp_hardware \<and> bp_enabled bp}"
    if "i < 4" for i
  proof -
    have "\<not> [False, False, False, False] ! i"
      using that by (auto simp: less_Suc_eq eval_nat_numeral)
    with slots_step_nth [of "[False, False, False, False]" i l] that
    have "?r ! i \<longleftrightarrow> (\<exists>bp \<in> set l. bp_type bp = bp_hardware \<and> bp_enabled bp \<and> unat (bp_slot bp) = i)"
      by simp
    then show ?thesis by (auto simp: image_iff)
  qed
  have "length ?r = 4" by (simp add: slots_step_length)
  then have "HardwareSlotsExhausted (Some l) \<longleftrightarrow> ?r ! 0 \<and> ?r ! 1 \<and> ?r ! 2 \<and> ?r ! 3"
    by (simp add: HardwareSlotsExhausted_def list_all_length four_cases)
  then show ?thesis using r [of 0] r [of 1] r [of 2] r [of 3] by simp
qed

text \<open>
  A memory breakpoint range is accepted exactly when it is non-empty, at most 64 KiB and
  every address of it lies in the region, with no wrap-around in the subtraction-only check.
\<close>

theorem MemoryRangeContained_iff:
  "MemoryRangeContained a s base r \<longleftrightarrow>
     s \<noteq> 0 \<and> unat s \<le> 65536 \<and> byte_range a s \<subseteq> byte_range base r"
  for a s base r :: "('d :: len) word"
proof -
  have "s \<noteq> 0 \<longleftrightarrow> 0 < unat s" "r \<noteq> 0 \<longleftrightarrow> 0 < unat r" by (auto simp: unat_gt_0)
  moreover have "base \<le> a \<Longrightarrow> unat (a - base) = unat a - unat base" by (simp add: unat_sub)
  moreover have "\<not> r \<le> a - base \<Longrightarrow> unat (r - (a - base)) = unat r - unat (a - base)"
    by (simp add: unat_sub less_imp_le not_le)
  ultimately show ?thesis
    unfolding MemoryRangeContained_def byte_range_def
    by (auto simp: word_le_nat_alt word_less_nat_alt Let_def not_le not_less ivl_subset)
qed

section \<open>Ownership\<close>

lemma CanonicalManagedId_length: "CanonicalManagedId i \<Longrightarrow> length i = 36"
  by (simp add: CanonicalManagedId_def split: if_splits)

lemma ManagedBreakpointName_nonempty [simp]:
  "family = ''exception'' \<or> family = ''conditional'' \<Longrightarrow>
   ManagedBreakpointName family i \<noteq> [] \<longleftrightarrow> CanonicalManagedId i"
  by (auto simp: ManagedBreakpointName_def)

lemma ManagedBreakpointId_iff:
  "ManagedBreakpointId bp family = Some i \<longleftrightarrow>
     CanonicalManagedId i \<and> BoundedFieldEquals (bp_name bp) (''__x64dbg_mcp_'' @ family @ ''_'' @ i)"
  by (auto simp: ManagedBreakpointId_def BoundedFieldEquals_def Let_def starts_with_iff)

lemma managed_families_disjoint:
  "ManagedBreakpointId bp ''exception'' = None \<or> ManagedBreakpointId bp ''conditional'' = None"
proof (rule ccontr)
  assume "\<not> ?thesis"
  then obtain i j where "ManagedBreakpointId bp ''exception'' = Some i"
      "ManagedBreakpointId bp ''conditional'' = Some j" by auto
  then show False by (simp add: ManagedBreakpointId_iff BoundedFieldEquals_def)
qed

lemma ManagedBreakpointId_name:
  "family = ''exception'' \<or> family = ''conditional'' \<Longrightarrow>
   (ManagedBreakpointId bp family = Some i) =
     (ManagedBreakpointName family i \<noteq> [] \<and>
      BoundedFieldEquals (bp_name bp) (ManagedBreakpointName family i))"
  by (auto simp: ManagedBreakpointId_iff ManagedBreakpointName_def)

text \<open>
  The id read back from a breakpoint's name is exactly the id it was named with, in both
  families, and no name belongs to both: what another family or the user named is never taken
  for a managed breakpoint.
\<close>

theorem ManagedBreakpointId_roundtrip:
  "(ManagedBreakpointId bp ''exception'' = Some i) =
     (ManagedBreakpointName ''exception'' i \<noteq> [] \<and>
      BoundedFieldEquals (bp_name bp) (ManagedBreakpointName ''exception'' i)) \<and>
   (ManagedBreakpointId bp ''conditional'' = Some i) =
     (ManagedBreakpointName ''conditional'' i \<noteq> [] \<and>
      BoundedFieldEquals (bp_name bp) (ManagedBreakpointName ''conditional'' i)) \<and>
   (ManagedBreakpointId bp ''exception'' = None \<or> ManagedBreakpointId bp ''conditional'' = None)"
  using managed_families_disjoint [of bp] ManagedBreakpointId_name [of _ bp i] by blast

lemma empty_field_iff: "empty_field f \<longleftrightarrow> f \<noteq> [] \<and> c_field f = []"
  by (cases f) (auto simp: empty_field_def c_field_def)

lemma sameField_empty: "sameField a b \<Longrightarrow> empty_field a \<longleftrightarrow> empty_field b"
  by (auto simp: sameField_def empty_field_iff)

lemma sameField_bounded: "sameField a b \<Longrightarrow> BoundedFieldEquals a s \<longleftrightarrow> BoundedFieldEquals b s"
  by (auto simp: sameField_def BoundedFieldEquals_def)

lemma unchanged_fields:
  assumes "BreakpointConfigurationUnchanged b a slot"
  shows "EmptyActionFields b = EmptyActionFields a"
    and "BoundedFieldEquals (bp_name b) s = BoundedFieldEquals (bp_name a) s"
    and "empty_field (bp_breakCondition b) = empty_field (bp_breakCondition a)"
    and "BoundedFieldEquals (bp_breakCondition b) s = BoundedFieldEquals (bp_breakCondition a) s"
    and "ManagedBreakpointId b f = ManagedBreakpointId a f"
proof -
  note u = assms [unfolded BreakpointConfigurationUnchanged_def]
  show "EmptyActionFields b = EmptyActionFields a"
    using u by (auto simp: EmptyActionFields_def dest: sameField_empty)
  show n: "BoundedFieldEquals (bp_name b) s = BoundedFieldEquals (bp_name a) s" for s
    using u sameField_bounded by blast
  show "empty_field (bp_breakCondition b) = empty_field (bp_breakCondition a)"
    using u sameField_empty by blast
  show "BoundedFieldEquals (bp_breakCondition b) s = BoundedFieldEquals (bp_breakCondition a) s"
    using u sameField_bounded by blast
  have "(ManagedBreakpointId b f = Some i) = (ManagedBreakpointId a f = Some i)" for i
    by (simp add: ManagedBreakpointId_iff n)
  then show "ManagedBreakpointId b f = ManagedBreakpointId a f"
    by (metis option.exhaust)
qed

text \<open>
  When a toggled breakpoint compares as unchanged, every ownership decision about it is the
  same before and after: it stays the same managed or plain breakpoint, with the same hardware
  attributes.
\<close>

theorem BreakpointConfigurationUnchanged_keeps_ownership:
  assumes "BreakpointConfigurationUnchanged b a slot"
  shows "ConditionalBreakpointOwned b addr i = ConditionalBreakpointOwned a addr i \<and>
    ExceptionBreakpointOwned k b code chance i = ExceptionBreakpointOwned k a code chance i \<and>
    PlainSoftwareBreakpointSelectable b addr = PlainSoftwareBreakpointSelectable a addr \<and>
    RunToBreakpointOwned b addr n = RunToBreakpointOwned a addr n \<and>
    HardwareBreakpointMatches k w b access sz False = HardwareBreakpointMatches k w a access sz False"
proof -
  have eqs: "bp_type b = bp_type a" "bp_addr b = bp_addr a" "bp_singleshoot b = bp_singleshoot a"
    "bp_typeEx b = bp_typeEx a" "bp_hwSize b = bp_hwSize a" "bp_fastResume b = bp_fastResume a"
    "bp_silent b = bp_silent a"
    using assms by (auto simp: BreakpointConfigurationUnchanged_def)
  have "RunToBreakpointOwned b addr n = RunToBreakpointOwned a addr n"
    using unchanged_fields(2) [OF assms, of n] eqs
    by (auto simp: RunToBreakpointOwned_def BoundedFieldEquals_def)
  then show ?thesis
    using eqs unchanged_fields [OF assms]
    by (simp add: ConditionalBreakpointOwned_def ExceptionBreakpointOwned_def
        PlainSoftwareBreakpointSelectable_def HardwareBreakpointMatches_def split: option.split)
qed

theorem BreakpointConfigurationUnchanged_keeps_ownership_witness:
  "PlainSoftwareBreakpointSelectable (sample_bp\<lparr>bp_type := bp_normal\<rparr>) 0x1000 =
   PlainSoftwareBreakpointSelectable (sample_bp\<lparr>bp_type := bp_normal, bp_enabled := False\<rparr>) 0x1000"
proof -
  have "BreakpointConfigurationUnchanged (sample_bp\<lparr>bp_type := bp_normal\<rparr>)
      (sample_bp\<lparr>bp_type := bp_normal, bp_enabled := False\<rparr>) False"
    by (simp add: BreakpointConfigurationUnchanged_def sameField_def sample_bp_def c_field_def)
  from BreakpointConfigurationUnchanged_keeps_ownership [OF this] show ?thesis by blast
qed

section \<open>Compiled conditions\<close>

definition predicate_text :: "ConditionalPredicate \<Rightarrow> string \<Rightarrow> string" where
  "predicate_text p source =
     (if cp_operation p = op_multipleOf
      then ''(('' @ source @ ''%'' @ HexConstant (cp_value p) @ '')==0)''
      else ''('' @ source @ ConditionalOperatorToken (cp_operation p) @ HexConstant (cp_value p) @ '')'')"

fun predicate_texts :: "build \<Rightarrow> ConditionalPredicate list \<Rightarrow> string list option" where
  "predicate_texts b [] = Some []"
| "predicate_texts b (p # ps) =
     (case (predicate_source b p, predicate_texts b ps) of
        (Some s, Some ts) \<Rightarrow> Some (predicate_text p s # ts)
      | _ \<Rightarrow> None)"

text \<open>The expression as a list of parenthesised comparisons with a connective in between.\<close>

definition joined :: "string \<Rightarrow> string list \<Rightarrow> string" where
  "joined sep ts = (case ts of [] \<Rightarrow> [] | t # r \<Rightarrow> t @ concat (map (\<lambda>x. sep @ x) r))"

definition connective :: "ConditionalMode \<Rightarrow> string" where
  "connective m = (if m = mode_all then ''&&'' else ''||'')"

lemma to_hex_length: "n < 16 ^ k \<Longrightarrow> 0 < k \<Longrightarrow> length (to_hex n) \<le> k"
  unfolding to_hex_def by (rule length_to_chars) auto

lemma HexConstant_length:
  "length (HexConstant v) \<le> 18" "v \<le> 0xffffffff \<Longrightarrow> length (HexConstant v) \<le> 10"
proof -
  have "unat v < 16 ^ 16" using unsigned_less [of v] by simp
  then show "length (HexConstant v) \<le> 18"
    using to_hex_length [of "unat v" 16] by (simp add: HexConstant_def)
  assume "v \<le> 0xffffffff"
  then have "unat v \<le> 0xffffffff" by (simp add: word_le_nat_alt)
  then show "length (HexConstant v) \<le> 10"
    using to_hex_length [of "unat v" 8] by (simp add: HexConstant_def)
qed

lemma token_length: "length (ConditionalOperatorToken op) \<le> 2"
  by (cases op) auto

lemma register_length: "PortableConditionalRegister r \<Longrightarrow> length r = 3"
  by (auto simp: PortableConditionalRegister_def)

lemma predicate_text_length: "predicate_source b p = Some s \<Longrightarrow> length (predicate_text p s) \<le> 36"
  using HexConstant_length [of "cp_value p"] token_length [of "cp_operation p"]
    register_length [of "cp_registerName p"]
  by (auto simp: predicate_source_def predicate_text_def not_less
      split: ConditionalSource.splits if_splits)

lemma compile_loop_step:
  assumes "predicate_source b p = Some s"
  shows "CompileConditionalExpression_loop k b mode (p # ps) n e =
    (let e' = e @ (if n \<noteq> 0 then connective mode else []) @ predicate_text p s in
     if length e' \<ge> MAX_CONDITIONAL_EXPR_SIZE k then None
     else CompileConditionalExpression_loop k b mode ps (Suc n) e')"
  using assms
  by (cases "cp_operation p = op_multipleOf"; cases "n = 0"; cases mode)
    (simp_all add: predicate_text_def connective_def require_bind)

lemma compile_loop_texts:
  assumes "predicate_texts b ps = Some ts"
    and "length e + 38 * length ps < MAX_CONDITIONAL_EXPR_SIZE k"
  shows "CompileConditionalExpression_loop k b mode ps (Suc n) e =
    Some (e @ concat (map (\<lambda>x. connective mode @ x) ts))"
  using assms
proof (induction ps arbitrary: ts n e)
  case (Cons p ps)
  then obtain s ts' where s: "predicate_source b p = Some s" "predicate_texts b ps = Some ts'"
      "ts = predicate_text p s # ts'"
    by (auto split: option.splits)
  let ?e = "e @ connective mode @ predicate_text p s"
  have "length ?e \<le> length e + 38"
    using predicate_text_length [OF s(1)] by (simp add: connective_def)
  with Cons.prems(2) have len: "length ?e + 38 * length ps < MAX_CONDITIONAL_EXPR_SIZE k" by simp
  from Cons.IH [OF s(2) len] s(3) len show ?case
    by (simp add: compile_loop_step [OF s(1)] Let_def del: CompileConditionalExpression_loop.simps)
qed simp

lemma predicate_texts_lengths:
  "predicate_texts b ps = Some ts \<Longrightarrow>
   length ts = length ps \<and> length (concat (map (\<lambda>x. connective mode @ x) ts)) \<le> 38 * length ps"
proof (induction ps arbitrary: ts)
  case (Cons p ps)
  then obtain s ts' where s: "predicate_source b p = Some s" "predicate_texts b ps = Some ts'"
      "ts = predicate_text p s # ts'"
    by (auto split: option.splits)
  have "length (connective mode) = 2" by (simp add: connective_def)
  with Cons.IH [OF s(2)] s(3) predicate_text_length [OF s(1)] show ?case by simp
qed simp

lemma compile_loop_None:
  "predicate_texts b ps = None \<Longrightarrow> CompileConditionalExpression_loop k b mode ps n e = None"
proof (induction ps arbitrary: n e)
  case (Cons p ps)
  then show ?case
    by (cases "predicate_source b p"; cases "predicate_texts b ps") (simp_all add: require_bind)
qed simp

text \<open>
  The condition compiler is total on well-formed conditions: with the SDK's expression
  buffer of more than 152 bytes it returns an expression exactly when there are one to four
  predicates that all pass their checks, and then it is the predicates' comparisons, in order,
  joined by the connective of the mode, never longer than 150 bytes.
\<close>

theorem CompileConditionalExpression_correct:
  assumes "152 < MAX_CONDITIONAL_EXPR_SIZE k"
  shows "CompileConditionalExpression k b c =
      (if length (cs_predicates c) \<in> {1..4}
       then map_option (joined (connective (cs_mode c))) (predicate_texts b (cs_predicates c))
       else None) \<and>
    pred_option (\<lambda>e. length e \<le> 150) (CompileConditionalExpression k b c)"
proof -
  let ?ps = "cs_predicates c" and ?m = "cs_mode c"
  show ?thesis
  proof (cases "length ?ps \<in> {1..4}")
    case True
    then obtain p ps where ps: "?ps = p # ps" "length ps \<le> 3" by (cases ?ps) auto
    then have comp: "CompileConditionalExpression k b c =
        CompileConditionalExpression_loop k b ?m ?ps 0 []"
      by (simp add: CompileConditionalExpression_def del: CompileConditionalExpression_loop.simps)
    show ?thesis
    proof (cases "predicate_texts b ?ps")
      case None
      with True comp compile_loop_None show ?thesis by simp
    next
      case (Some ts)
      with ps obtain s ts' where s: "predicate_source b p = Some s" "predicate_texts b ps = Some ts'"
          "ts = predicate_text p s # ts'"
        by (auto split: option.splits)
      have len: "length (predicate_text p s) \<le> 36"
          "length (concat (map (\<lambda>x. connective ?m @ x) ts')) \<le> 38 * length ps"
        using predicate_text_length [OF s(1)] predicate_texts_lengths [OF s(2)] by auto
      have "length (predicate_text p s) + 38 * length ps < MAX_CONDITIONAL_EXPR_SIZE k"
        using len ps assms by linarith
      from compile_loop_texts [OF s(2) this, of ?m 0] this
      have "CompileConditionalExpression k b c = Some (joined (connective ?m) ts)"
        unfolding comp ps(1) compile_loop_step [OF s(1)] by (simp add: s(3) joined_def Let_def)
      moreover have "length (joined (connective ?m) ts) \<le> 150"
        using len ps(2) by (simp add: s(3) joined_def)
      ultimately show ?thesis using True Some by simp
    qed
  next
    case False
    then have "?ps = [] \<or> 4 < length ?ps" by (cases ?ps) auto
    with False show ?thesis by (auto simp: CompileConditionalExpression_def)
  qed
qed

definition sample_condition :: ConditionalSpec where
  "sample_condition =
     \<lparr>cs_mode = mode_all,
      cs_predicates =
        [\<lparr>cp_source = registerValue, cp_operation = op_greaterEqual, cp_registerName = ''cax'', cp_value = 16\<rparr>,
         \<lparr>cp_source = hitCount, cp_operation = op_multipleOf, cp_registerName = [], cp_value = 3\<rparr>]\<rparr>"

theorem CompileConditionalExpression_correct_witness:
  "CompileConditionalExpression sample_sdk Win64 sample_condition =
     Some ''(cax>=0x10)&&(($breakpointcounter%0x3)==0)''"
proof -
  have "152 < MAX_CONDITIONAL_EXPR_SIZE sample_sdk" by (simp add: sample_sdk_def)
  from CompileConditionalExpression_correct [OF this, of Win64 sample_condition]
  have "CompileConditionalExpression sample_sdk Win64 sample_condition =
      map_option (joined (connective mode_all)) (predicate_texts Win64 (cs_predicates sample_condition))"
    by (simp add: sample_condition_def)
  also have "\<dots> = Some ''(cax>=0x10)&&(($breakpointcounter%0x3)==0)''"
    by code_simp
  finally show ?thesis .
qed

end
