(* ===== verification/Patch_Policy.thy ===== *)
theory Patch_Policy
  imports Hex_Bytes "HOL-Library.Product_Lexorder" "HOL-Library.List_Lexorder" "HOL-Library.Char_ord"
    "HOL-Library.Multiset"
begin

text \<open>
  \<open>plugin/src/patch_policy.cpp\<close>: the checks on an assembled instruction and its bytes, and the
  normal form of the patch bytes that x64dbg tracks (\<open>ParsePatchBytes\<close> is in \<open>Hex_Bytes\<close>).

  The comparator of \<open>std::sort\<close> orders by address and then by module, compared bytewise;
  \<open>sort_key\<close> is one of the orders \<open>std::sort\<close> may produce. Records it may order differently
  have equal addresses, and the list is refused then (shown below).
\<close>

definition SafeInstruction :: "string \<Rightarrow> bool" where
  "SafeInstruction v =
     (if v = [] \<or> length v > 128 then False
      else list_all (\<lambda>c. \<not> (char_code c < 0x20 \<or> char_code c > 0x7e \<or> c = CHR '';'')) v)"

definition PreparePatchBytes :: "u8 list \<Rightarrow> u8 list \<Rightarrow> bool \<Rightarrow> u8 list option" where
  "PreparePatchBytes assembled expected fillNop = do {
     require (\<not> (assembled = [] \<or> expected = [] \<or> length expected > 16 \<or>
       length assembled > length expected));
     require (\<not> (length assembled < length expected \<and> \<not> fillNop));
     Some (assembled @ replicate (length expected - length assembled) 0x90)
   }"

definition PatchRangeValid :: "('d :: len) word \<Rightarrow> nat \<Rightarrow> bool" where
  "PatchRangeValid address sz \<longleftrightarrow> sz \<ge> 1 \<and> sz \<le> 16 \<and> of_nat (sz - 1) \<le> - 1 - address"

record 'd DBGPATCHINFO =
  pi_addr :: 'd
  pi_oldbyte :: u8
  pi_newbyte :: u8

definition PatchRecordMatches :: "'d DBGPATCHINFO \<Rightarrow> 'd \<Rightarrow> u8 \<Rightarrow> u8 \<Rightarrow> bool" where
  "PatchRecordMatches r address original patched \<longleftrightarrow>
     pi_addr r = address \<and> pi_oldbyte r = original \<and> pi_newbyte r = patched"

record 'd TrackedPatchByte =
  tb_module :: string
  tb_address :: 'd
  tb_original :: u8
  tb_patched :: u8

record 'd TrackedPatchRange =
  tr_module :: string
  tr_address :: 'd
  tr_original :: "u8 list"
  tr_patched :: "u8 list"

text \<open>\<open>ranges\<close> is the vector built so far, \<open>last\<close> its \<open>back()\<close>.\<close>

primrec NormalizeTrackedPatches_loop ::
    "('d :: len) word TrackedPatchByte list \<Rightarrow> 'd word TrackedPatchRange list \<Rightarrow>
     'd word TrackedPatchRange list option" where
  "NormalizeTrackedPatches_loop [] ranges = Some ranges"
| "NormalizeTrackedPatches_loop (r # rest) ranges =
     (if tb_module r = [] \<or> tb_original r = tb_patched r then None
      else
        let back = last ranges;
            canExtend = (ranges \<noteq> [] \<and> of_nat (length (tr_patched back)) \<le> - 1 - tr_address back) in
        if canExtend \<and> tb_address r = tr_address back + of_nat (length (tr_patched back)) \<and>
           tb_module r = tr_module back
        then NormalizeTrackedPatches_loop rest
               (butlast ranges @ [back\<lparr>tr_original := tr_original back @ [tb_original r],
                                       tr_patched := tr_patched back @ [tb_patched r]\<rparr>])
        else if ranges \<noteq> [] \<and>
                (\<not> canExtend \<or> tb_address r < tr_address back + of_nat (length (tr_patched back)))
        then None
        else NormalizeTrackedPatches_loop rest
               (ranges @ [\<lparr>tr_module = tb_module r, tr_address = tb_address r,
                           tr_original = [tb_original r], tr_patched = [tb_patched r]\<rparr>]))"

definition patch_key :: "('d :: len) word TrackedPatchByte \<Rightarrow> 'd word \<times> string" where
  "patch_key r = (tb_address r, tb_module r)"

definition NormalizeTrackedPatches ::
    "('d :: len) word TrackedPatchByte list \<Rightarrow> 'd word TrackedPatchRange list option" where
  "NormalizeTrackedPatches records =
     (if length records > 65536 then None
      else NormalizeTrackedPatches_loop (sort_key patch_key records) [])"

definition TrackedPatchFingerprint_record :: "u64 \<Rightarrow> ('d :: len) word TrackedPatchByte \<Rightarrow> u64" where
  "TrackedPatchFingerprint_record hash r =
     (let hash = fnv_bytes hash (tb_module r);
          hash = fnv_add hash 0xff;
          hash = foldl (\<lambda>h i. fnv_add h (ucast (drop_bit (8 * i) (tb_address r)))) hash
                   [0..<LENGTH('d) div 8];
          hash = fnv_add hash (tb_original r) in
      fnv_add hash (tb_patched r))"

definition TrackedPatchFingerprint :: "('d :: len) word TrackedPatchByte list \<Rightarrow> u64" where
  "TrackedPatchFingerprint records = foldl TrackedPatchFingerprint_record fnv_offset records"

section \<open>Address arithmetic\<close>

lemma unat_complement: "unat (- 1 - (a :: ('d :: len) word)) = 2 ^ LENGTH('d) - 1 - unat a"
proof -
  have "a \<le> - 1" by (rule word_n1_ge)
  then show ?thesis by (simp add: unat_sub unsigned_minus_1_eq_mask mask_eq_exp_minus_1)
qed

lemma room_iff:
  assumes "n < 2 ^ LENGTH('d :: len)"
  shows "of_nat n \<le> - 1 - (a :: 'd word) \<longleftrightarrow> unat a + n < 2 ^ LENGTH('d)"
proof -
  have "unat (of_nat n :: 'd word) = n" using assms by (simp add: unat_of_nat take_bit_nat_eq_self)
  moreover have "unat a < 2 ^ LENGTH('d)" by (rule unsigned_less)
  then have "n \<le> 2 ^ LENGTH('d) - 1 - unat a \<longleftrightarrow> unat a + n < 2 ^ LENGTH('d)" by linarith
  ultimately show ?thesis unfolding word_le_nat_alt unat_complement by simp
qed

section \<open>Patches of one instruction\<close>

text \<open>
  Patch bytes are prepared exactly when the assembled instruction is non-empty, fits the
  bytes it replaces (at most 16), and leaves no gap unless NOP filling was asked for; the
  result then has the length of the replaced bytes, starts with the instruction and has only
  NOPs behind it.
\<close>

theorem PreparePatchBytes_iff:
  "PreparePatchBytes assembled expected fillNop = Some out \<longleftrightarrow>
     assembled \<noteq> [] \<and> length expected \<le> 16 \<and>
     (if fillNop then length assembled \<le> length expected else length assembled = length expected) \<and>
     length out = length expected \<and> take (length assembled) out = assembled \<and>
     list_all (\<lambda>b. b = 0x90) (drop (length assembled) out)"
proof -
  have "out = assembled @ replicate n 0x90 \<longleftrightarrow>
      length out = length assembled + n \<and> take (length assembled) out = assembled \<and>
      list_all (\<lambda>b. b = 0x90) (drop (length assembled) out)" for n
  proof
    assume r: "length out = length assembled + n \<and> take (length assembled) out = assembled \<and>
      list_all (\<lambda>b. b = 0x90) (drop (length assembled) out)"
    then have "drop (length assembled) out = replicate n 0x90"
      by (intro replicate_eqI) (auto simp: list_all_iff)
    with r show "out = assembled @ replicate n 0x90" by (metis append_take_drop_id)
  qed (simp add: list_all_iff)
  note split = this [of "length expected - length assembled"]
  show ?thesis
    unfolding PreparePatchBytes_def require_bind_Some_iff option.inject eq_commute [of _ out] split
    by auto
qed

text \<open>
  A patch range is valid exactly when it has 1 to 16 bytes and its last byte does not wrap
  past the top of the address space.
\<close>

theorem PatchRangeValid_iff:
  "PatchRangeValid (a :: u64) sz = (1 \<le> sz \<and> sz \<le> 16 \<and> unat a + sz \<le> 2 ^ 64) \<and>
   PatchRangeValid (a' :: u32) sz = (1 \<le> sz \<and> sz \<le> 16 \<and> unat a' + sz \<le> 2 ^ 32)"
proof -
  have "PatchRangeValid a sz = (1 \<le> sz \<and> sz \<le> 16 \<and> unat a + sz \<le> 2 ^ LENGTH('d))"
    if "16 < LENGTH('d)" for a :: "('d :: len) word"
  proof (cases "1 \<le> sz \<and> sz \<le> 16")
    case True
    have "(16 :: nat) < 2 ^ LENGTH('d)" using that by (meson less_exp less_trans)
    with True have "sz - 1 < 2 ^ LENGTH('d)" by linarith
    from room_iff [OF this, of a] True show ?thesis by (auto simp: PatchRangeValid_def)
  qed (auto simp: PatchRangeValid_def)
  from this [of a] this [of a'] show ?thesis by simp
qed

section \<open>The normal form of tracked patches\<close>

definition range_bytes :: "('d :: len) word TrackedPatchRange \<Rightarrow> 'd word TrackedPatchByte list" where
  "range_bytes r =
     map (\<lambda>i. \<lparr>tb_module = tr_module r, tb_address = tr_address r + of_nat i,
               tb_original = tr_original r ! i, tb_patched = tr_patched r ! i\<rparr>)
       [0..<length (tr_patched r)]"

definition range_ok :: "('d :: len) word TrackedPatchRange \<Rightarrow> bool" where
  "range_ok r \<longleftrightarrow> tr_module r \<noteq> [] \<and> tr_patched r \<noteq> [] \<and>
     length (tr_original r) = length (tr_patched r) \<and>
     unat (tr_address r) + length (tr_patched r) \<le> 2 ^ LENGTH('d)"

text \<open>Two ranges that the normal form would have merged.\<close>

definition mergeable :: "('d :: len) word TrackedPatchRange \<Rightarrow> 'd word TrackedPatchRange \<Rightarrow> bool" where
  "mergeable r r' \<longleftrightarrow> unat (tr_address r') = unat (tr_address r) + length (tr_patched r) \<and>
     tr_module r' = tr_module r"

definition record_ok :: "'d TrackedPatchByte \<Rightarrow> bool" where
  "record_ok r \<longleftrightarrow> tb_module r \<noteq> [] \<and> tb_original r \<noteq> tb_patched r"

definition normal_form :: "('d :: len) word TrackedPatchRange list \<Rightarrow> bool" where
  "normal_form rs \<longleftrightarrow> list_all range_ok rs \<and> successively (\<lambda>r r'. \<not> mergeable r r') rs"

lemma unat_plus_room:
  assumes "unat a + n < 2 ^ LENGTH('d :: len)"
  shows "unat ((a :: 'd word) + of_nat n) = unat a + n"
proof -
  have "unat (of_nat n :: 'd word) = n" using assms by (simp add: unat_of_nat take_bit_nat_eq_self)
  with assms show ?thesis by (simp add: unat_word_ariths)
qed

lemma range_bytes_snoc:
  "length (tr_original r) = length (tr_patched r) \<Longrightarrow>
   range_bytes (r\<lparr>tr_original := tr_original r @ [p], tr_patched := tr_patched r @ [q]\<rparr>) =
     range_bytes r @ [\<lparr>tb_module = tr_module r, tb_address = tr_address r + of_nat (length (tr_patched r)),
                      tb_original = p, tb_patched = q\<rparr>]"
  by (simp add: range_bytes_def nth_append)

lemma last_range_bytes:
  "range_ok r \<Longrightarrow> range_bytes r \<noteq> [] \<and>
   unat (tb_address (last (range_bytes r))) = unat (tr_address r) + length (tr_patched r) - 1"
proof -
  assume r: "range_ok r"
  then obtain n where n: "length (tr_patched r) = Suc n"
    by (cases "tr_patched r") (auto simp: range_ok_def)
  then have "last (range_bytes r) = \<lparr>tb_module = tr_module r, tb_address = tr_address r + of_nat n,
      tb_original = tr_original r ! n, tb_patched = tr_patched r ! n\<rparr>"
    by (simp add: range_bytes_def)
  moreover have "unat (tr_address r + of_nat n) = unat (tr_address r) + n"
    using r n by (intro unat_plus_room) (simp add: range_ok_def)
  ultimately show ?thesis using n by (simp add: range_bytes_def)
qed

text \<open>
  One step of the loop on a vector in normal form: the record either lies past everything seen
  so far and is appended, or it repeats the last address and the loop gives up.
\<close>

lemma normalize_step_accept:
  fixes ranges :: "('d :: len) word TrackedPatchRange list"
  assumes nf: "normal_form ranges" and rec: "record_ok r"
    and small: "list_all (\<lambda>x. length (tr_patched x) < 2 ^ LENGTH('d)) ranges"
    and above: "ranges \<noteq> [] \<Longrightarrow>
      tb_address (last (concat (map range_bytes ranges))) < tb_address r"
  shows "\<exists>ranges'. NormalizeTrackedPatches_loop (r # rest) ranges =
      NormalizeTrackedPatches_loop rest ranges' \<and> normal_form ranges' \<and>
      concat (map range_bytes ranges') = concat (map range_bytes ranges) @ [r] \<and> ranges' \<noteq> []"
proof (cases "ranges = []")
  case True
  let ?n = "\<lparr>tr_module = tb_module r, tr_address = tb_address r,
      tr_original = [tb_original r], tr_patched = [tb_patched r]\<rparr>"
  have "Suc (unat (tb_address r)) \<le> 2 ^ LENGTH('d)"
    using unsigned_less [of "tb_address r"] by (rule Suc_leI)
  then have "normal_form [?n]" "range_bytes ?n = [r]"
    using rec by (simp_all add: normal_form_def range_ok_def record_ok_def range_bytes_def)
  with True rec show ?thesis by (intro exI [of _ "[?n]"]) (simp add: record_ok_def)
next
  case False
  then obtain init bk where rs: "ranges = init @ [bk]" by (metis append_butlast_last_id)
  have bk: "range_ok bk" using nf rs by (simp add: normal_form_def)
  let ?len = "length (tr_patched bk)"
  have len: "?len < 2 ^ LENGTH('d)" "0 < ?len" using small rs bk by (auto simp: range_ok_def)
  have "unat (tr_address bk) + ?len - 1 < unat (tb_address r)"
    using above False rs last_range_bytes [OF bk] by (simp add: word_less_nat_alt)
  then have ge: "unat (tr_address bk) + ?len \<le> unat (tb_address r)" using len by linarith
  have lt: "unat (tb_address r) < 2 ^ LENGTH('d)" by (rule unsigned_less)
  with ge have room: "unat (tr_address bk) + ?len < 2 ^ LENGTH('d)" by linarith
  then have can: "of_nat ?len \<le> - 1 - tr_address bk" using room_iff [OF len(1)] by blast
  have end_addr: "unat (tr_address bk + of_nat ?len) = unat (tr_address bk) + ?len"
    using unat_plus_room [OF room] .
  have notless: "\<not> tb_address r < tr_address bk + of_nat ?len"
    using ge end_addr by (simp add: word_less_nat_alt)
  have eq_iff: "tb_address r = tr_address bk + of_nat ?len \<longleftrightarrow>
      unat (tb_address r) = unat (tr_address bk) + ?len"
    using end_addr by (metis word_unat_eq_iff)
  have suc: "successively (\<lambda>r r'. \<not> mergeable r r') (init @ [bk])" and init: "list_all range_ok init"
    using nf rs by (auto simp: normal_form_def)
  show ?thesis
  proof (cases "tb_address r = tr_address bk + of_nat ?len \<and> tb_module r = tr_module bk")
    case True
    let ?b = "bk\<lparr>tr_original := tr_original bk @ [tb_original r],
        tr_patched := tr_patched bk @ [tb_patched r]\<rparr>"
    have "range_ok ?b" using bk room by (simp add: range_ok_def)
    moreover have "successively (\<lambda>r r'. \<not> mergeable r r') (init @ [?b])"
      using suc by (auto simp: successively_append_iff mergeable_def)
    moreover have "range_bytes ?b = range_bytes bk @ [r]"
      using range_bytes_snoc [of bk] bk True by (simp add: range_ok_def)
    ultimately show ?thesis using True rec can rs init
      by (intro exI [of _ "init @ [?b]"]) (simp add: record_ok_def normal_form_def)
  next
    case False
    let ?n = "\<lparr>tr_module = tb_module r, tr_address = tb_address r,
        tr_original = [tb_original r], tr_patched = [tb_patched r]\<rparr>"
    have "Suc (unat (tb_address r)) \<le> 2 ^ LENGTH('d)" using lt by (rule Suc_leI)
    then have "range_ok ?n" "range_bytes ?n = [r]"
      using rec by (simp_all add: range_ok_def record_ok_def range_bytes_def)
    moreover have "\<not> mergeable bk ?n" using False eq_iff by (auto simp: mergeable_def)
    ultimately show ?thesis using False rec can notless rs init bk suc
      by (intro exI [of _ "ranges @ [?n]"])
        (auto simp: record_ok_def normal_form_def successively_append_iff)
  qed
qed

lemma normalize_step_reject:
  fixes ranges :: "('d :: len) word TrackedPatchRange list"
  assumes nf: "normal_form ranges" and ne: "ranges \<noteq> []"
    and small: "list_all (\<lambda>x. length (tr_patched x) < 2 ^ LENGTH('d)) ranges"
    and same: "tb_address r = tb_address (last (concat (map range_bytes ranges)))"
  shows "NormalizeTrackedPatches_loop (r # rest) ranges = None"
proof -
  obtain init bk where rs: "ranges = init @ [bk]" using ne by (metis append_butlast_last_id)
  have bk: "range_ok bk" using nf rs by (simp add: normal_form_def)
  let ?len = "length (tr_patched bk)"
  have len: "?len < 2 ^ LENGTH('d)" "0 < ?len" using small rs bk by (auto simp: range_ok_def)
  have r: "unat (tb_address r) = unat (tr_address bk) + ?len - 1"
    using same rs last_range_bytes [OF bk] by simp
  show ?thesis
  proof (cases "of_nat ?len \<le> - 1 - tr_address bk")
    case True
    with room_iff [OF len(1)] have room: "unat (tr_address bk) + ?len < 2 ^ LENGTH('d)" by blast
    have "tb_address r < tr_address bk + of_nat ?len"
      using unat_plus_room [OF room] r len(2) by (simp add: word_less_nat_alt)
    with True rs show ?thesis by auto
  qed (use rs in simp)
qed

lemma small_ranges:
  "length (concat (map range_bytes ranges)) < n \<Longrightarrow>
   list_all (\<lambda>x. length (tr_patched x) < n) ranges"
  by (induction ranges) (auto simp: range_bytes_def)

lemma flatten_Nil_iff: "normal_form ranges \<Longrightarrow> concat (map range_bytes ranges) = [] \<longleftrightarrow> ranges = []"
  using last_range_bytes by (cases ranges) (auto simp: normal_form_def)

lemma strict_snoc:
  "sorted_wrt (<) (xs @ [y :: ('a :: linorder)]) \<longleftrightarrow> sorted_wrt (<) xs \<and> (xs = [] \<or> last xs < y)"
  by (cases xs rule: rev_cases) (auto simp: sorted_wrt_append intro: less_trans)

lemma NormalizeTrackedPatches_loop_correct:
  fixes recs :: "('d :: len) word TrackedPatchByte list"
  assumes "normal_form ranges" and "flat = concat (map range_bytes ranges)"
    and "length flat + length recs < 2 ^ LENGTH('d)"
    and "sorted_wrt (<) (map tb_address flat)" and "sorted (map tb_address (flat @ recs))"
  shows "case NormalizeTrackedPatches_loop recs ranges of
      None \<Rightarrow> \<not> (list_all record_ok recs \<and> sorted_wrt (<) (map tb_address (flat @ recs)))
    | Some out \<Rightarrow> list_all record_ok recs \<and> sorted_wrt (<) (map tb_address (flat @ recs)) \<and>
        normal_form out \<and> concat (map range_bytes out) = flat @ recs"
  using assms
proof (induction recs arbitrary: ranges flat)
  case (Cons r recs)
  have small: "list_all (\<lambda>x. length (tr_patched x) < 2 ^ LENGTH('d)) ranges"
    using small_ranges [of ranges] Cons.prems(2,3) by simp
  have flat: "flat = [] \<longleftrightarrow> ranges = []" using flatten_Nil_iff Cons.prems(1,2) by simp
  have le: "flat \<noteq> [] \<Longrightarrow> tb_address (last flat) \<le> tb_address r"
    using Cons.prems(5) by (cases flat rule: rev_cases) (auto simp: sorted_append)
  show ?case
  proof (cases "record_ok r")
    case False
    then show ?thesis by (auto simp: record_ok_def)
  next
    case ok: True
    show ?thesis
    proof (cases "flat = [] \<or> tb_address (last flat) < tb_address r")
      case True
      then obtain ranges' where step: "NormalizeTrackedPatches_loop (r # recs) ranges =
          NormalizeTrackedPatches_loop recs ranges'" "normal_form ranges'"
          "concat (map range_bytes ranges') = flat @ [r]"
        using normalize_step_accept [OF Cons.prems(1) ok small] flat Cons.prems(2) by metis
      have "sorted_wrt (<) (map tb_address (flat @ [r]))"
        using Cons.prems(4) True by (cases "flat = []") (simp_all add: strict_snoc last_map)
      from Cons.IH [OF step(2) step(3) [symmetric] _ this] Cons.prems(3,5) ok
      show ?thesis unfolding step(1) by (auto split: option.splits)
    next
      case False
      with le have same: "tb_address r = tb_address (last flat)" by auto
      with False flat normalize_step_reject [OF Cons.prems(1) _ small] Cons.prems(2)
      have "NormalizeTrackedPatches_loop (r # recs) ranges = None" by metis
      moreover have "\<not> sorted_wrt (<) (map tb_address (flat @ r # recs))"
        using False same by (cases flat rule: rev_cases) (auto simp: sorted_wrt_append)
      ultimately show ?thesis by (simp del: NormalizeTrackedPatches_loop.simps)
    qed
  qed
qed simp

lemma sorted_addresses: "sorted (map tb_address (sort_key patch_key records))"
proof -
  have "sorted (map patch_key (sort_key patch_key records))" by (rule sorted_sort_key)
  then show ?thesis
    by (auto simp: sorted_wrt_map patch_key_def elim!: sorted_wrt_mono_rel [rotated])
qed

definition acceptable :: "'d TrackedPatchByte list \<Rightarrow> bool" where
  "acceptable records \<longleftrightarrow> length records \<le> 65536 \<and> list_all record_ok records \<and>
     distinct (map tb_address records)"

text \<open>
  C29. Normalising tracked patches is exact: it succeeds exactly when there are at most 65536
  records, each a real change in a named module, with no address twice; and then the ranges
  cover, in order, exactly the given bytes (the sorted records), each range is non-empty, in
  one module and within the address space, and no two neighbours could be merged.
\<close>

theorem NormalizeTrackedPatches_correct:
  fixes records :: "('d :: len) word TrackedPatchByte list"
  assumes "16 < LENGTH('d)"
  shows "case NormalizeTrackedPatches records of
      None \<Rightarrow> \<not> acceptable records
    | Some ranges \<Rightarrow> acceptable records \<and> normal_form ranges \<and>
        concat (map range_bytes ranges) = sort_key patch_key records"
proof (cases "length records > 65536")
  case True
  then show ?thesis by (simp add: NormalizeTrackedPatches_def acceptable_def)
next
  case False
  let ?s = "sort_key patch_key records"
  have "(65536 :: nat) < 2 ^ LENGTH('d)"
    using power_strict_increasing [OF assms, of "2 :: nat"] by simp
  with False have len: "length ([] @ ?s) < 2 ^ LENGTH('d)" by simp
  have strict: "sorted_wrt (<) (map tb_address ?s) \<longleftrightarrow> distinct (map tb_address records)"
  proof -
    have "distinct (map tb_address ?s) = distinct (map tb_address records)"
      by (metis mset_sort mset_eq_imp_distinct_iff mset_map)
    then show ?thesis using sorted_addresses [of records] by (simp add: strict_sorted_iff)
  qed
  have "list_all record_ok ?s = list_all record_ok records" by (simp add: list_all_iff)
  with strict False NormalizeTrackedPatches_loop_correct [of "[]" "[]" ?s] len
    sorted_addresses [of records]
  show ?thesis
    by (auto simp: NormalizeTrackedPatches_def acceptable_def normal_form_def split: option.splits)
qed

definition sample_patches :: "u64 TrackedPatchByte list" where
  "sample_patches =
     [\<lparr>tb_module = ''a.exe'', tb_address = 0x1001, tb_original = 1, tb_patched = 2\<rparr>,
      \<lparr>tb_module = ''a.exe'', tb_address = 0x1000, tb_original = 5, tb_patched = 0x90\<rparr>]"

theorem NormalizeTrackedPatches_correct_witness:
  "16 < LENGTH(64) \<and> (\<exists>ranges. NormalizeTrackedPatches sample_patches = Some ranges \<and>
     normal_form ranges \<and> concat (map range_bytes ranges) = rev sample_patches)"
proof -
  have sort: "sort_key patch_key sample_patches = rev sample_patches"
    by (simp add: sample_patches_def patch_key_def)
  have "acceptable sample_patches"
    by (simp add: acceptable_def sample_patches_def record_ok_def)
  with NormalizeTrackedPatches_correct [of sample_patches] sort show ?thesis
    by (auto split: option.splits)
qed

end
