(* ===== verification/Register_Policy.thy ===== *)
theory Register_Policy
  imports Cpp_Text
begin

text \<open>
  \<open>plugin/src/register_policy.cpp\<close> and the functions of \<open>runtime.cpp\<close> that read and write
  thread contexts with it. The two branches of each \<open>#ifdef _WIN64\<close> are the two values of
  \<open>build\<close>. Windows' \<open>CONTEXT\<close> and the SDK's \<open>REGISTERCONTEXT_AVX512\<close> are records of the
  fields the code touches, over the machine word of the build (\<open>cx_ax\<close> is \<open>Rax\<close> or \<open>Eax\<close>);
  the registers \<open>R8\<close> to \<open>R15\<close> exist on the 64-bit build only and no 32-bit branch names them.
\<close>

datatype RegisterEnum =
    RAX | RBX | RCX | RDX | RSI | RDI | RBP | RSP | RIP | R8 | R9 | R10 | R11 | R12 | R13 | R14 | R15
  | EAX | EBX | ECX | EDX | ESI | EDI | EBP | ESP | EIP | CFLAGS

record WritableRegister =
  wr_id :: RegisterEnum
  wr_bits :: nat

record RegisterAssignment =
  ra_name :: string
  ra_value :: u64

definition FindWritableRegister :: "build \<Rightarrow> string \<Rightarrow> WritableRegister option" where
  "FindWritableRegister b name =
     (if b = Win64 then
        (if name = ''rax'' then Some \<lparr>wr_id = RAX, wr_bits = 64\<rparr>
         else if name = ''rbx'' then Some \<lparr>wr_id = RBX, wr_bits = 64\<rparr>
         else if name = ''rcx'' then Some \<lparr>wr_id = RCX, wr_bits = 64\<rparr>
         else if name = ''rdx'' then Some \<lparr>wr_id = RDX, wr_bits = 64\<rparr>
         else if name = ''rsi'' then Some \<lparr>wr_id = RSI, wr_bits = 64\<rparr>
         else if name = ''rdi'' then Some \<lparr>wr_id = RDI, wr_bits = 64\<rparr>
         else if name = ''rbp'' then Some \<lparr>wr_id = RBP, wr_bits = 64\<rparr>
         else if name = ''rsp'' then Some \<lparr>wr_id = RSP, wr_bits = 64\<rparr>
         else if name = ''rip'' then Some \<lparr>wr_id = RIP, wr_bits = 64\<rparr>
         else if name = ''r8'' then Some \<lparr>wr_id = R8, wr_bits = 64\<rparr>
         else if name = ''r9'' then Some \<lparr>wr_id = R9, wr_bits = 64\<rparr>
         else if name = ''r10'' then Some \<lparr>wr_id = R10, wr_bits = 64\<rparr>
         else if name = ''r11'' then Some \<lparr>wr_id = R11, wr_bits = 64\<rparr>
         else if name = ''r12'' then Some \<lparr>wr_id = R12, wr_bits = 64\<rparr>
         else if name = ''r13'' then Some \<lparr>wr_id = R13, wr_bits = 64\<rparr>
         else if name = ''r14'' then Some \<lparr>wr_id = R14, wr_bits = 64\<rparr>
         else if name = ''r15'' then Some \<lparr>wr_id = R15, wr_bits = 64\<rparr>
         else if name = ''eflags'' then Some \<lparr>wr_id = CFLAGS, wr_bits = 32\<rparr> else None)
      else
        (if name = ''eax'' then Some \<lparr>wr_id = EAX, wr_bits = 32\<rparr>
         else if name = ''ebx'' then Some \<lparr>wr_id = EBX, wr_bits = 32\<rparr>
         else if name = ''ecx'' then Some \<lparr>wr_id = ECX, wr_bits = 32\<rparr>
         else if name = ''edx'' then Some \<lparr>wr_id = EDX, wr_bits = 32\<rparr>
         else if name = ''esi'' then Some \<lparr>wr_id = ESI, wr_bits = 32\<rparr>
         else if name = ''edi'' then Some \<lparr>wr_id = EDI, wr_bits = 32\<rparr>
         else if name = ''ebp'' then Some \<lparr>wr_id = EBP, wr_bits = 32\<rparr>
         else if name = ''esp'' then Some \<lparr>wr_id = ESP, wr_bits = 32\<rparr>
         else if name = ''eip'' then Some \<lparr>wr_id = EIP, wr_bits = 32\<rparr>
         else if name = ''eflags'' then Some \<lparr>wr_id = CFLAGS, wr_bits = 32\<rparr> else None))"

record 'd CONTEXT =
  cx_ax :: 'd
  cx_bx :: 'd
  cx_cx :: 'd
  cx_dx :: 'd
  cx_si :: 'd
  cx_di :: 'd
  cx_bp :: 'd
  cx_sp :: 'd
  cx_ip :: 'd
  cx_r8 :: 'd
  cx_r9 :: 'd
  cx_r10 :: 'd
  cx_r11 :: 'd
  cx_r12 :: 'd
  cx_r13 :: 'd
  cx_r14 :: 'd
  cx_r15 :: 'd
  cx_EFlags :: u32

record 'd registers =
  rg_cax :: 'd
  rg_cbx :: 'd
  rg_ccx :: 'd
  rg_cdx :: 'd
  rg_csi :: 'd
  rg_cdi :: 'd
  rg_cbp :: 'd
  rg_csp :: 'd
  rg_cip :: 'd
  rg_r8 :: 'd
  rg_r9 :: 'd
  rg_r10 :: 'd
  rg_r11 :: 'd
  rg_r12 :: 'd
  rg_r13 :: 'd
  rg_r14 :: 'd
  rg_r15 :: 'd
  rg_eflags :: 'd

text \<open>
  The chain of assignments of \<open>ApplyRegisterAssignments\<close>. On the 64-bit build \<open>ucast\<close> from
  64 bits is the identity, on the 32-bit build it is the cast to \<open>DWORD\<close>.
\<close>

definition assign_register :: "build \<Rightarrow> string \<Rightarrow> u64 \<Rightarrow> ('d :: len) word CONTEXT \<Rightarrow> 'd word CONTEXT option" where
  "assign_register b name v ctx =
     (if b = Win64 then
        (if name = ''rax'' then Some (ctx\<lparr>cx_ax := ucast v\<rparr>)
         else if name = ''rbx'' then Some (ctx\<lparr>cx_bx := ucast v\<rparr>)
         else if name = ''rcx'' then Some (ctx\<lparr>cx_cx := ucast v\<rparr>)
         else if name = ''rdx'' then Some (ctx\<lparr>cx_dx := ucast v\<rparr>)
         else if name = ''rsi'' then Some (ctx\<lparr>cx_si := ucast v\<rparr>)
         else if name = ''rdi'' then Some (ctx\<lparr>cx_di := ucast v\<rparr>)
         else if name = ''rbp'' then Some (ctx\<lparr>cx_bp := ucast v\<rparr>)
         else if name = ''rsp'' then Some (ctx\<lparr>cx_sp := ucast v\<rparr>)
         else if name = ''rip'' then Some (ctx\<lparr>cx_ip := ucast v\<rparr>)
         else if name = ''r8'' then Some (ctx\<lparr>cx_r8 := ucast v\<rparr>)
         else if name = ''r9'' then Some (ctx\<lparr>cx_r9 := ucast v\<rparr>)
         else if name = ''r10'' then Some (ctx\<lparr>cx_r10 := ucast v\<rparr>)
         else if name = ''r11'' then Some (ctx\<lparr>cx_r11 := ucast v\<rparr>)
         else if name = ''r12'' then Some (ctx\<lparr>cx_r12 := ucast v\<rparr>)
         else if name = ''r13'' then Some (ctx\<lparr>cx_r13 := ucast v\<rparr>)
         else if name = ''r14'' then Some (ctx\<lparr>cx_r14 := ucast v\<rparr>)
         else if name = ''r15'' then Some (ctx\<lparr>cx_r15 := ucast v\<rparr>)
         else if name = ''eflags'' then Some (ctx\<lparr>cx_EFlags := ucast v\<rparr>) else None)
      else
        (if name = ''eax'' then Some (ctx\<lparr>cx_ax := ucast v\<rparr>)
         else if name = ''ebx'' then Some (ctx\<lparr>cx_bx := ucast v\<rparr>)
         else if name = ''ecx'' then Some (ctx\<lparr>cx_cx := ucast v\<rparr>)
         else if name = ''edx'' then Some (ctx\<lparr>cx_dx := ucast v\<rparr>)
         else if name = ''esi'' then Some (ctx\<lparr>cx_si := ucast v\<rparr>)
         else if name = ''edi'' then Some (ctx\<lparr>cx_di := ucast v\<rparr>)
         else if name = ''ebp'' then Some (ctx\<lparr>cx_bp := ucast v\<rparr>)
         else if name = ''esp'' then Some (ctx\<lparr>cx_sp := ucast v\<rparr>)
         else if name = ''eip'' then Some (ctx\<lparr>cx_ip := ucast v\<rparr>)
         else if name = ''eflags'' then Some (ctx\<lparr>cx_EFlags := ucast v\<rparr>) else None))"

definition assignment_valid :: "build \<Rightarrow> RegisterAssignment list \<Rightarrow> nat \<Rightarrow> bool" where
  "assignment_valid b assignments index =
     (let a = assignments ! index in
      case FindWritableRegister b (ra_name a) of
        None \<Rightarrow> False
      | Some spec \<Rightarrow>
          \<not> (wr_bits spec < 64 \<and> ra_value a \<ge> push_bit (wr_bits spec) 1) \<and>
          \<not> list_ex (\<lambda>earlier. ra_name earlier = ra_name a) (take index assignments))"

text \<open>
  The loops run over the index; \<open>n\<close> below is the number of assignments already done. The
  context is the reference parameter: it is returned also when the function gives up half way.
\<close>

function ApplyRegisterAssignments_loop ::
    "build \<Rightarrow> RegisterAssignment list \<Rightarrow> nat \<Rightarrow> ('d :: len) word CONTEXT \<Rightarrow> bool \<times> 'd word CONTEXT" where
  "ApplyRegisterAssignments_loop b assignments n ctx =
     (if n < length assignments then
        (if \<not> assignment_valid b assignments n then (False, ctx)
         else
           (case assign_register b (ra_name (assignments ! n)) (ra_value (assignments ! n)) ctx of
              None \<Rightarrow> (False, ctx)
            | Some ctx' \<Rightarrow> ApplyRegisterAssignments_loop b assignments (n + 1) ctx'))
      else (True, ctx))"
  by pat_completeness auto
termination
  by (relation "measure (\<lambda>(b, assignments, n, ctx). length assignments - n)") auto

declare ApplyRegisterAssignments_loop.simps [simp del]

definition ApplyRegisterAssignments ::
    "build \<Rightarrow> ('d :: len) word CONTEXT \<Rightarrow> RegisterAssignment list \<Rightarrow> bool \<times> 'd word CONTEXT" where
  "ApplyRegisterAssignments b ctx assignments =
     (if assignments = [] \<or> length assignments > 4 then (False, ctx)
      else ApplyRegisterAssignments_loop b assignments 0 ctx)"

function BuildExceptionContinueCommand_loop ::
    "build \<Rightarrow> RegisterAssignment list \<Rightarrow> nat \<Rightarrow> string \<Rightarrow> string option" where
  "BuildExceptionContinueCommand_loop b assignments n command =
     (if n < length assignments then
        (let a = assignments ! n; encoded = to_hex (unat (ra_value a)) in
         if \<not> assignment_valid b assignments n then None
         else if length encoded > 16 then None
         else BuildExceptionContinueCommand_loop b assignments (n + 1)
                (command @ ''mov '' @ ra_name a @ '', 0x'' @ encoded @ '';''))
      else Some command)"
  by pat_completeness auto
termination
  by (relation "measure (\<lambda>(b, assignments, n, command). length assignments - n)") auto

declare BuildExceptionContinueCommand_loop.simps [simp del]

definition BuildExceptionContinueCommand ::
    "build \<Rightarrow> RegisterAssignment list \<Rightarrow> bool \<Rightarrow> string option" where
  "BuildExceptionContinueCommand b assignments handled =
     (if length assignments > 4 then None
      else map_option (\<lambda>command. command @ (if handled then ''serun'' else ''erun''))
             (BuildExceptionContinueCommand_loop b assignments 0 []))"

definition is_blank :: "char \<Rightarrow> bool" where
  "is_blank c \<longleftrightarrow> c = CHR '' '' \<or> c = CHR 0x09"

definition IsReturnInstruction :: "string \<Rightarrow> bool" where
  "IsReturnInstruction instruction =
     (let rest = dropWhile is_blank instruction in
      if rest = [] then False
      else
        let mnemonic = takeWhile (\<lambda>c. \<not> is_blank c) rest in
        if length mnemonic < 3 \<or> length mnemonic > 4 then False
        else
          let normalized = map tolower mnemonic in
          normalized = ''ret'' \<or> normalized = ''retn'' \<or> normalized = ''retf'')"

definition CoreRegisterContext :: "build \<Rightarrow> ('d :: len) word CONTEXT \<Rightarrow> 'd word registers" where
  "CoreRegisterContext b c =
     \<lparr>rg_cax = cx_ax c, rg_cbx = cx_bx c, rg_ccx = cx_cx c, rg_cdx = cx_dx c, rg_csi = cx_si c,
      rg_cdi = cx_di c, rg_cbp = cx_bp c, rg_csp = cx_sp c, rg_cip = cx_ip c,
      rg_r8 = (if b = Win64 then cx_r8 c else 0), rg_r9 = (if b = Win64 then cx_r9 c else 0), rg_r10 = (if b = Win64 then cx_r10 c else 0), rg_r11 = (if b = Win64 then cx_r11 c else 0),
      rg_r12 = (if b = Win64 then cx_r12 c else 0), rg_r13 = (if b = Win64 then cx_r13 c else 0), rg_r14 = (if b = Win64 then cx_r14 c else 0), rg_r15 = (if b = Win64 then cx_r15 c else 0),
      rg_eflags = ucast (cx_EFlags c)\<rparr>"

definition RegisterValue :: "build \<Rightarrow> 'd registers \<Rightarrow> string \<Rightarrow> 'd option" where
  "RegisterValue b r name =
     (if name = ''cip'' then Some (rg_cip r) else if name = ''csp'' then Some (rg_csp r)
      else if name = ''cbp'' then Some (rg_cbp r) else if name = ''eflags'' then Some (rg_eflags r)
      else if b = Win64 then
        (if name = ''rax'' then Some (rg_cax r)
         else if name = ''rbx'' then Some (rg_cbx r)
         else if name = ''rcx'' then Some (rg_ccx r)
         else if name = ''rdx'' then Some (rg_cdx r)
         else if name = ''rsp'' then Some (rg_csp r)
         else if name = ''rbp'' then Some (rg_cbp r)
         else if name = ''rsi'' then Some (rg_csi r)
         else if name = ''rdi'' then Some (rg_cdi r)
         else if name = ''rip'' then Some (rg_cip r)
         else if name = ''r8'' then Some (rg_r8 r)
         else if name = ''r9'' then Some (rg_r9 r)
         else if name = ''r10'' then Some (rg_r10 r)
         else if name = ''r11'' then Some (rg_r11 r)
         else if name = ''r12'' then Some (rg_r12 r)
         else if name = ''r13'' then Some (rg_r13 r)
         else if name = ''r14'' then Some (rg_r14 r)
         else if name = ''r15'' then Some (rg_r15 r)
         else None)
      else
        (if name = ''eax'' then Some (rg_cax r)
         else if name = ''ebx'' then Some (rg_cbx r)
         else if name = ''ecx'' then Some (rg_ccx r)
         else if name = ''edx'' then Some (rg_cdx r)
         else if name = ''esp'' then Some (rg_csp r)
         else if name = ''ebp'' then Some (rg_cbp r)
         else if name = ''esi'' then Some (rg_csi r)
         else if name = ''edi'' then Some (rg_cdi r)
         else if name = ''eip'' then Some (rg_cip r)
         else None))"

section \<open>Assignments read back\<close>

text \<open>The lookup of a register by its writable name, as the verification step reads it.\<close>

definition read_register :: "build \<Rightarrow> ('d :: len) word CONTEXT \<Rightarrow> string \<Rightarrow> 'd word option" where
  "read_register b ctx name = RegisterValue b (CoreRegisterContext b ctx) name"

definition fits :: "build \<Rightarrow> string \<Rightarrow> u64 \<Rightarrow> bool" where
  "fits b name v =
     (case FindWritableRegister b name of None \<Rightarrow> False | Some spec \<Rightarrow> unat v < 2 ^ wr_bits spec)"

lemma assign_register_Some_iff: "assign_register b name v ctx \<noteq> None \<longleftrightarrow> FindWritableRegister b name \<noteq> None"
  by (simp add: assign_register_def FindWritableRegister_def)

lemma wr_bits_cases: "FindWritableRegister b name = Some spec \<Longrightarrow> wr_bits spec = 32 \<or> wr_bits spec = 64"
  by (auto simp: FindWritableRegister_def split: if_splits)

lemma eflags_bits: "FindWritableRegister b ''eflags'' = Some \<lparr>wr_id = CFLAGS, wr_bits = 32\<rparr>"
  by (simp add: FindWritableRegister_def)

lemma alias_not_writable:
  "FindWritableRegister b ''cip'' = None" "FindWritableRegister b ''csp'' = None"
  "FindWritableRegister b ''cbp'' = None"
  by (simp_all add: FindWritableRegister_def)

lemma ucast_ucast_eflags:
  "unat (v :: u64) < 2 ^ 32 \<Longrightarrow> (ucast (ucast v :: u32) :: ('d :: len) word) = ucast v"
proof -
  assume "unat v < 2 ^ 32"
  then have "unat (ucast v :: u32) = unat v"
    by (simp add: unsigned_ucast_eq take_bit_nat_eq_self_iff)
  then show ?thesis by (metis of_nat_unat)
qed

lemma assign_eflags: "assign_register b ''eflags'' v ctx = Some (ctx\<lparr>cx_EFlags := ucast v\<rparr>)"
  by (cases b) (simp_all add: assign_register_def)

text \<open>The chain as a table of names and updates, one per build.\<close>

definition table_Win64 :: "u64 \<Rightarrow> ('d :: len) word CONTEXT \<Rightarrow> (string \<times> 'd word CONTEXT) list" where
  "table_Win64 v ctx =
     [(''rax'', ctx\<lparr>cx_ax := ucast v\<rparr>), (''rbx'', ctx\<lparr>cx_bx := ucast v\<rparr>),
      (''rcx'', ctx\<lparr>cx_cx := ucast v\<rparr>), (''rdx'', ctx\<lparr>cx_dx := ucast v\<rparr>),
      (''rsi'', ctx\<lparr>cx_si := ucast v\<rparr>), (''rdi'', ctx\<lparr>cx_di := ucast v\<rparr>),
      (''rbp'', ctx\<lparr>cx_bp := ucast v\<rparr>), (''rsp'', ctx\<lparr>cx_sp := ucast v\<rparr>),
      (''rip'', ctx\<lparr>cx_ip := ucast v\<rparr>), (''r8'', ctx\<lparr>cx_r8 := ucast v\<rparr>),
      (''r9'', ctx\<lparr>cx_r9 := ucast v\<rparr>), (''r10'', ctx\<lparr>cx_r10 := ucast v\<rparr>),
      (''r11'', ctx\<lparr>cx_r11 := ucast v\<rparr>), (''r12'', ctx\<lparr>cx_r12 := ucast v\<rparr>),
      (''r13'', ctx\<lparr>cx_r13 := ucast v\<rparr>), (''r14'', ctx\<lparr>cx_r14 := ucast v\<rparr>),
      (''r15'', ctx\<lparr>cx_r15 := ucast v\<rparr>), (''eflags'', ctx\<lparr>cx_EFlags := ucast v\<rparr>)]"

definition table_Win32 :: "u64 \<Rightarrow> ('d :: len) word CONTEXT \<Rightarrow> (string \<times> 'd word CONTEXT) list" where
  "table_Win32 v ctx =
     [(''eax'', ctx\<lparr>cx_ax := ucast v\<rparr>), (''ebx'', ctx\<lparr>cx_bx := ucast v\<rparr>),
      (''ecx'', ctx\<lparr>cx_cx := ucast v\<rparr>), (''edx'', ctx\<lparr>cx_dx := ucast v\<rparr>),
      (''esi'', ctx\<lparr>cx_si := ucast v\<rparr>), (''edi'', ctx\<lparr>cx_di := ucast v\<rparr>),
      (''ebp'', ctx\<lparr>cx_bp := ucast v\<rparr>), (''esp'', ctx\<lparr>cx_sp := ucast v\<rparr>),
      (''eip'', ctx\<lparr>cx_ip := ucast v\<rparr>), (''eflags'', ctx\<lparr>cx_EFlags := ucast v\<rparr>)]"

lemma assign_register_table:
  "assign_register Win64 name v ctx = map_of (table_Win64 v ctx) name"
  "assign_register Win32 name v ctx = map_of (table_Win32 v ctx) name"
  by (simp_all add: assign_register_def table_Win64_def table_Win32_def)

lemmas register_reads = read_register_def RegisterValue_def CoreRegisterContext_def

lemma read_assigned_table:
  "list_all (\<lambda>(n, c). n = ''eflags'' \<or> read_register Win64 c n = Some (ucast v)) (table_Win64 v ctx)"
  "list_all (\<lambda>(n, c). n = ''eflags'' \<or> read_register Win32 c n = Some (ucast v)) (table_Win32 v ctx)"
  by (simp_all add: table_Win64_def table_Win32_def register_reads)

lemma read_other_table:
  assumes "m \<noteq> ''cip''" "m \<noteq> ''csp''" "m \<noteq> ''cbp''"
  shows "list_all (\<lambda>(n, c). m = n \<or> read_register Win64 c m = read_register Win64 ctx m) (table_Win64 v ctx)"
    and "list_all (\<lambda>(n, c). m = n \<or> read_register Win32 c m = read_register Win32 ctx m) (table_Win32 v ctx)"
  using assms by (simp_all add: table_Win64_def table_Win32_def register_reads)

lemma read_assigned:
  assumes "assign_register b name v ctx = Some ctx'" "fits b name v"
  shows "read_register b ctx' name = Some (ucast v)"
proof (cases "name = ''eflags''")
  case True
  with assms have "unat v < 2 ^ 32" by (simp add: fits_def eflags_bits)
  from ucast_ucast_eflags [OF this] assms True show ?thesis
    by (auto simp: assign_eflags register_reads)
next
  case False
  with assms(1) read_assigned_table [of v ctx] show ?thesis
    by (cases b) (auto simp: assign_register_table list_all_iff dest!: map_of_SomeD)
qed

lemma read_other:
  assumes "assign_register b name v ctx = Some ctx'" "n \<noteq> name" "FindWritableRegister b n \<noteq> None"
  shows "read_register b ctx' n = read_register b ctx n"
proof -
  from assms(3) alias_not_writable [of b] have n: "n \<noteq> ''cip''" "n \<noteq> ''csp''" "n \<noteq> ''cbp''" by auto
  from assms(1,2) read_other_table [OF n, of ctx v] show ?thesis
    by (cases b) (auto simp: assign_register_table list_all_iff dest!: map_of_SomeD)
qed

lemma assignment_valid_iff:
  assumes "n < length as"
  shows "assignment_valid b as n \<longleftrightarrow>
    fits b (ra_name (as ! n)) (ra_value (as ! n)) \<and>
    ra_name (as ! n) \<notin> ra_name ` set (take n as)"
proof -
  have top: "unat v < 2 ^ 64" for v :: u64 using unsigned_less [of v] by simp
  have "4294967296 \<le> v \<longleftrightarrow> \<not> unat v < 4294967296" for v :: u64
    by (simp add: word_le_nat_alt not_less)
  with top show ?thesis
    using wr_bits_cases [of b "ra_name (as ! n)"]
    by (auto simp: assignment_valid_def fits_def Let_def list_ex_iff image_iff split: option.splits)
qed

lemma fits_writable: "fits b name v \<Longrightarrow> FindWritableRegister b name \<noteq> None"
  by (auto simp: fits_def split: option.splits)

definition assignments_ok :: "build \<Rightarrow> RegisterAssignment list \<Rightarrow> bool" where
  "assignments_ok b as \<longleftrightarrow> list_all (\<lambda>a. fits b (ra_name a) (ra_value a)) as \<and> distinct (map ra_name as)"

text \<open>The per-index checks together are one condition on the whole list.\<close>

lemma assignments_ok_valid: "assignments_ok b as \<longleftrightarrow> (\<forall>n < length as. assignment_valid b as n)"
proof
  assume ok: "assignments_ok b as"
  show "\<forall>n < length as. assignment_valid b as n"
  proof (intro allI impI)
    fix n assume n: "n < length as"
    have "ra_name (as ! n) \<notin> ra_name ` set (take n as)"
    proof
      assume "ra_name (as ! n) \<in> ra_name ` set (take n as)"
      then obtain m where "m < n" "ra_name (as ! m) = ra_name (as ! n)"
        using n by (auto simp: in_set_conv_nth)
      with ok n show False
        by (auto simp: assignments_ok_def distinct_conv_nth)
    qed
    with ok n show "assignment_valid b as n"
      by (simp add: assignment_valid_iff assignments_ok_def list_all_length)
  qed
next
  assume v: "\<forall>n < length as. assignment_valid b as n"
  have "ra_name (as ! m) \<noteq> ra_name (as ! n)" if "m < n" "n < length as" for m n
  proof -
    have "as ! m \<in> set (take n as)" using that by (metis in_set_conv_nth length_take min.absorb4 nth_take)
    with v that assignment_valid_iff [OF that(2), of b] show ?thesis by (metis imageI)
  qed
  then have "distinct (map ra_name as)"
    by (auto simp: distinct_conv_nth) (metis nat_neq_iff)
  with v show "assignments_ok b as"
    by (simp add: assignments_ok_def list_all_length assignment_valid_iff)
qed

text \<open>
  What the loop leaves behind from index \<open>n\<close> on: every assignment from there is in place, and
  every writable register it does not name is untouched.
\<close>

lemma ApplyRegisterAssignments_loop_correct:
  assumes "\<forall>i < length as. n \<le> i \<longrightarrow> assignment_valid b as i" "n \<le> length as"
  shows "\<exists>ctx'. ApplyRegisterAssignments_loop b as n ctx = (True, ctx') \<and>
    (\<forall>a \<in> set (drop n as). read_register b ctx' (ra_name a) = Some (ucast (ra_value a))) \<and>
    (\<forall>m. FindWritableRegister b m \<noteq> None \<longrightarrow> m \<notin> ra_name ` set (drop n as) \<longrightarrow>
       read_register b ctx' m = read_register b ctx m)"
  using assms
proof (induction "length as - n" arbitrary: n ctx)
  case 0
  then show ?case by (subst ApplyRegisterAssignments_loop.simps) auto
next
  case (Suc k)
  then have n: "n < length as" by linarith
  let ?a = "as ! n"
  have valid: "assignment_valid b as n" using Suc.prems n by simp
  with n have fit: "fits b (ra_name ?a) (ra_value ?a)" by (simp add: assignment_valid_iff)
  then obtain c1 where c1: "assign_register b (ra_name ?a) (ra_value ?a) ctx = Some c1"
    using assign_register_Some_iff fits_writable by blast
  have "k = length as - Suc n" using Suc.hyps(2) n by linarith
  from Suc.hyps(1) [OF this, of c1] Suc.prems n obtain c2 where c2:
      "ApplyRegisterAssignments_loop b as (Suc n) c1 = (True, c2)"
      "\<forall>a \<in> set (drop (Suc n) as). read_register b c2 (ra_name a) = Some (ucast (ra_value a))"
      "\<And>m. FindWritableRegister b m \<noteq> None \<Longrightarrow> m \<notin> ra_name ` set (drop (Suc n) as) \<Longrightarrow>
         read_register b c2 m = read_register b c1 m"
    by auto
  have fresh: "ra_name ?a \<notin> ra_name ` set (drop (Suc n) as)"
  proof
    assume "ra_name ?a \<in> ra_name ` set (drop (Suc n) as)"
    then obtain i where i: "Suc n + i < length as" "ra_name (as ! (Suc n + i)) = ra_name ?a"
      by (auto simp: in_set_conv_nth less_diff_conv) (metis add.commute add_Suc_right)
    then have "?a \<in> set (take (Suc n + i) as)"
      by (metis in_set_conv_nth length_take less_add_Suc1 min.absorb4 nth_take add_Suc)
    moreover have "assignment_valid b as (Suc n + i)" using Suc.prems(1) i(1) by simp
    ultimately show False using i assignment_valid_iff [OF i(1), of b] by (metis imageI)
  qed
  have a: "read_register b c2 (ra_name ?a) = Some (ucast (ra_value ?a))"
    using c2(3) [OF fits_writable [OF fit] fresh] read_assigned [OF c1 fit] by simp
  have loop: "ApplyRegisterAssignments_loop b as n ctx = (True, c2)"
    using n valid c1 c2(1) by (subst ApplyRegisterAssignments_loop.simps) simp
  have drop: "drop n as = ?a # drop (Suc n) as" using n by (simp add: Cons_nth_drop_Suc)
  show ?case
    unfolding loop drop using a c2(2,3) read_other [OF c1] by (intro exI [of _ c2]) auto
qed

lemma ApplyRegisterAssignments_loop_fails:
  assumes "i < length as" "n \<le> i" "\<not> assignment_valid b as i"
  shows "fst (ApplyRegisterAssignments_loop b as n ctx) = False"
  using assms
proof (induction "i - n" arbitrary: n ctx)
  case 0
  then show ?case by (subst ApplyRegisterAssignments_loop.simps) auto
next
  case (Suc k)
  then have "k = i - Suc n" "Suc n \<le> i" by linarith+
  from Suc.hyps(1) [OF this(1) Suc.prems(1) this(2) Suc.prems(3)] Suc.prems show ?case
    by (subst ApplyRegisterAssignments_loop.simps) (auto split: option.splits)
qed

text \<open>
  Register assignments are applied exactly when there are one to four, each to a writable
  register of the build with a value that fits it, and no register twice; then every assigned
  register reads back the assigned value and every other writable register is unchanged.
\<close>

theorem ApplyRegisterAssignments_correct:
  "fst (ApplyRegisterAssignments b ctx as) =
     (as \<noteq> [] \<and> length as \<le> 4 \<and> assignments_ok b as) \<and>
   (case ApplyRegisterAssignments b ctx as of
      (False, _) \<Rightarrow> True
    | (True, ctx') \<Rightarrow>
        list_all (\<lambda>a. read_register b ctx' (ra_name a) = Some (ucast (ra_value a))) as \<and>
        {m. FindWritableRegister b m \<noteq> None \<and> read_register b ctx' m \<noteq> read_register b ctx m}
          \<subseteq> ra_name ` set as)"
proof (cases "as \<noteq> [] \<and> length as \<le> 4")
  case True
  show ?thesis
  proof (cases "assignments_ok b as")
    case ok: True
    then have "\<forall>i < length as. 0 \<le> i \<longrightarrow> assignment_valid b as i"
      by (simp add: assignments_ok_valid)
    from ApplyRegisterAssignments_loop_correct [OF this, of ctx] obtain ctx' where c:
        "ApplyRegisterAssignments_loop b as 0 ctx = (True, ctx')"
        "\<forall>a \<in> set as. read_register b ctx' (ra_name a) = Some (ucast (ra_value a))"
        "\<forall>m. FindWritableRegister b m \<noteq> None \<longrightarrow> m \<notin> ra_name ` set as \<longrightarrow>
          read_register b ctx' m = read_register b ctx m" by auto
    then have "{m. FindWritableRegister b m \<noteq> None \<and> read_register b ctx' m \<noteq> read_register b ctx m}
        \<subseteq> ra_name ` set as" by blast
    with c(1,2) True ok show ?thesis
      by (simp add: ApplyRegisterAssignments_def list_all_iff)
  next
    case False
    then obtain i where "i < length as" "\<not> assignment_valid b as i"
      by (auto simp: assignments_ok_valid)
    from ApplyRegisterAssignments_loop_fails [OF this(1) _ this(2), of 0 ctx] True False
    show ?thesis
      by (auto simp: ApplyRegisterAssignments_def split: prod.splits bool.splits)
  qed
qed (auto simp: ApplyRegisterAssignments_def)

section \<open>The exception continuation command\<close>

definition mov_command :: "RegisterAssignment \<Rightarrow> string" where
  "mov_command a = ''mov '' @ ra_name a @ '', 0x'' @ to_hex (unat (ra_value a)) @ '';''"

lemma u64_hex_length: "length (to_hex (unat (v :: u64))) \<le> 16"
proof -
  have "unat v < 16 ^ 16" using unsigned_less [of v] by simp
  then show ?thesis unfolding to_hex_def by (intro length_to_chars) auto
qed

lemma BuildExceptionContinueCommand_loop_ok:
  assumes "\<forall>i < length as. assignment_valid b as i" "n \<le> length as"
  shows "BuildExceptionContinueCommand_loop b as n c = Some (c @ concat (map mov_command (drop n as)))"
  using assms
proof (induction "length as - n" arbitrary: n c)
  case 0
  then show ?case by (subst BuildExceptionContinueCommand_loop.simps) simp
next
  case (Suc k)
  then have n: "n < length as" "k = length as - Suc n" by linarith+
  have "drop n as = as ! n # drop (Suc n) as" using n by (simp add: Cons_nth_drop_Suc)
  with Suc.hyps(1) [OF n(2) Suc.prems(1)] Suc.prems n u64_hex_length [of "ra_value (as ! n)"]
  show ?case
    by (subst BuildExceptionContinueCommand_loop.simps) (simp add: Let_def mov_command_def)
qed

lemma BuildExceptionContinueCommand_loop_fails:
  assumes "i < length as" "n \<le> i" "\<not> assignment_valid b as i"
  shows "BuildExceptionContinueCommand_loop b as n c = None"
  using assms
proof (induction "i - n" arbitrary: n c)
  case 0
  then show ?case by (subst BuildExceptionContinueCommand_loop.simps) (auto simp: Let_def)
next
  case (Suc k)
  then have "k = i - Suc n" "Suc n \<le> i" by linarith+
  from Suc.hyps(1) [OF this(1) Suc.prems(1) this(2) Suc.prems(3)] Suc.prems show ?case
    by (subst BuildExceptionContinueCommand_loop.simps) (auto simp: Let_def)
qed

text \<open>
  The continuation command exists exactly for at most four assignments to distinct writable
  registers with values that fit, and is then one \<open>mov\<close> per assignment in the given order,
  followed by the resume command for a handled or an unhandled exception.
\<close>

theorem BuildExceptionContinueCommand_correct:
  "BuildExceptionContinueCommand b as handled =
     (if length as \<le> 4 \<and> assignments_ok b as
      then Some (concat (map mov_command as) @ (if handled then ''serun'' else ''erun'')) else None)"
proof (cases "assignments_ok b as")
  case True
  then have "\<forall>i < length as. assignment_valid b as i" by (simp add: assignments_ok_valid)
  from BuildExceptionContinueCommand_loop_ok [OF this, of 0 "[]"] True show ?thesis
    by (simp add: BuildExceptionContinueCommand_def)
next
  case False
  then obtain i where "i < length as" "\<not> assignment_valid b as i"
    by (auto simp: assignments_ok_valid)
  from BuildExceptionContinueCommand_loop_fails [OF this(1) _ this(2), of 0 "[]"] False show ?thesis
    by (simp add: BuildExceptionContinueCommand_def)
qed

section \<open>Thread contexts\<close>

text \<open>
  The thread list the SDK fills in (\<open>THREADLIST\<close>), with \<open>None\<close> for a null array; handles are
  machine words, null is 0 and \<open>INVALID_HANDLE_VALUE\<close> is -1. A list whose count disagrees with
  its array does not arise from the SDK: \<open>tl_list\<close> has \<open>tl_count\<close> elements.
\<close>

record 'd THREADINFO =
  ti_ThreadId :: u32
  ti_Handle :: 'd
  ti_ThreadCip :: 'd
  ti_ThreadStartAddress :: 'd
  ti_SuspendCount :: u32
  ti_threadName :: string

record 'd THREADLIST =
  tl_count :: int
  tl_list :: "'d THREADINFO list option"
  tl_CurrentThread :: int

datatype ThreadContextStatus = tc_ok | tc_invalidList | tc_missing | tc_unavailable | tc_changed

record 'd CapturedThreadContext =
  ct_registers :: "'d registers"
  ct_threadId :: u32
  ct_activeThreadId :: u32
  ct_current :: bool

definition SelectedThreadId :: "('d :: len) word THREADLIST \<Rightarrow> 'd word \<Rightarrow> u32 option" where
  "SelectedThreadId threads selectedHandle =
     (case tl_list threads of
        None \<Rightarrow> None
      | Some infos \<Rightarrow>
          if tl_count threads \<le> 0 \<or> tl_count threads > 65536 \<or> tl_CurrentThread threads < 0 \<or>
             tl_CurrentThread threads \<ge> tl_count threads
          then None
          else
            let selected = infos ! nat (tl_CurrentThread threads) in
            if ti_ThreadId selected = 0 \<or> ti_Handle selected = 0 \<or> ti_Handle selected = - 1 \<or>
               selectedHandle \<noteq> ti_Handle selected
            then None else Some (ti_ThreadId selected))"

text \<open>The search both functions make: \<open>Inl ()\<close> when a second thread has the same id.\<close>

fun find_thread :: "u32 \<Rightarrow> 'd THREADINFO list \<Rightarrow> nat \<Rightarrow> (nat \<times> 'd THREADINFO) option \<Rightarrow>
    unit + (nat \<times> 'd THREADINFO) option" where
  "find_thread requested [] i found = Inr found"
| "find_thread requested (t # ts) i found =
     (if ti_ThreadId t = requested then
        (if found \<noteq> None then Inl () else find_thread requested ts (i + 1) (Some (i, t)))
      else find_thread requested ts (i + 1) found)"

text \<open>
  \<open>CaptureThreadContext\<close> over what the debugger answers: the thread list and the selected
  handle, the register dump of the selected thread, \<open>GetThreadContext\<close> and the id
  \<open>SelectedThreadId\<close> returns afterwards.
\<close>

definition CaptureThreadContext ::
    "build \<Rightarrow> ('d :: len) word THREADLIST \<Rightarrow> 'd word \<Rightarrow> 'd word registers option \<Rightarrow>
     ('d word \<Rightarrow> 'd word CONTEXT option) \<Rightarrow> u32 option \<Rightarrow> u32 option \<Rightarrow>
     ThreadContextStatus + 'd word CapturedThreadContext" where
  "CaptureThreadContext b threads threadHandle regDump getContext selectedAfter requestedThreadId =
     (if tl_count threads < 0 \<or> tl_count threads > 65536 \<or> (tl_count threads > 0 \<and> tl_list threads = None) \<or>
         tl_CurrentThread threads < 0 \<or> tl_CurrentThread threads \<ge> tl_count threads
      then Inl tc_invalidList
      else
        let infos = the (tl_list threads);
            active = infos ! nat (tl_CurrentThread threads);
            activeBefore = ti_ThreadId active;
            requested = (case requestedThreadId of Some i \<Rightarrow> i | None \<Rightarrow> activeBefore) in
        if activeBefore = 0 \<or> requested = 0 \<or> threadHandle \<noteq> ti_Handle active then Inl tc_changed
        else
          (case find_thread requested infos 0 None of
             Inl _ \<Rightarrow> Inl tc_invalidList
           | Inr None \<Rightarrow> Inl tc_missing
           | Inr (Some (matchIndex, m)) \<Rightarrow>
               if ti_Handle m = 0 \<or> ti_Handle m = - 1 then Inl tc_missing
               else
                 let current = (requested = activeBefore) in
                 if (int matchIndex = tl_CurrentThread threads) \<noteq> current then Inl tc_changed
                 else
                   (case (if current then regDump
                          else map_option (CoreRegisterContext b) (getContext (ti_Handle m))) of
                      None \<Rightarrow> Inl tc_unavailable
                    | Some registers \<Rightarrow>
                        if rg_cip registers \<noteq> ti_ThreadCip m \<or> selectedAfter \<noteq> Some activeBefore
                        then Inl tc_changed
                        else Inr \<lparr>ct_registers = registers, ct_threadId = requested,
                                  ct_activeThreadId = activeBefore, ct_current = current\<rparr>)))"

text \<open>
  The search of \<open>MutateThreadContext\<close> keeps only the handle, so a first match with a null
  handle does not count as found.
\<close>

fun mutate_find :: "u32 \<Rightarrow> ('d :: len) word THREADINFO list \<Rightarrow> 'd word \<Rightarrow> 'd word option" where
  "mutate_find requested [] threadHandle = Some threadHandle"
| "mutate_find requested (t # ts) threadHandle =
     (if ti_ThreadId t = requested then
        (if threadHandle \<noteq> 0 then None else mutate_find requested ts (ti_Handle t))
      else mutate_find requested ts threadHandle)"

text \<open>
  \<open>MutateThreadContext\<close> over a store of thread contexts: \<open>setContext\<close> stands for
  \<open>SetThreadContext\<close>, its result and the store afterwards.
\<close>

definition MutateThreadContext ::
    "build \<Rightarrow> ('d :: len) word THREADLIST \<Rightarrow>
     ('d word \<Rightarrow> 'd word CONTEXT \<Rightarrow> ('d word \<rightharpoonup> 'd word CONTEXT) \<Rightarrow> bool \<times> ('d word \<rightharpoonup> 'd word CONTEXT)) \<Rightarrow>
     ('d word \<rightharpoonup> 'd word CONTEXT) \<Rightarrow> u32 \<Rightarrow> RegisterAssignment list \<Rightarrow>
     ThreadContextStatus \<times> ('d word \<rightharpoonup> 'd word CONTEXT)" where
  "MutateThreadContext b threads setContext store requestedThreadId assignments =
     (if requestedThreadId = 0 \<or> assignments = [] then (tc_missing, store)
      else if tl_count threads < 0 \<or> tl_count threads > 65536 \<or> (tl_count threads > 0 \<and> tl_list threads = None)
      then (tc_invalidList, store)
      else
        (case mutate_find requestedThreadId (case tl_list threads of None \<Rightarrow> [] | Some l \<Rightarrow> l) 0 of
           None \<Rightarrow> (tc_invalidList, store)
         | Some threadHandle \<Rightarrow>
             if threadHandle = 0 \<or> threadHandle = - 1 then (tc_missing, store)
             else
               (case store threadHandle of
                  None \<Rightarrow> (tc_unavailable, store)
                | Some ctx \<Rightarrow>
                    let (applied, ctx') = ApplyRegisterAssignments b ctx assignments in
                    if \<not> applied then (tc_unavailable, store)
                    else
                      let (written, store') = setContext threadHandle ctx' store in
                      if \<not> written then (tc_unavailable, store')
                      else
                        (case store' threadHandle of
                           None \<Rightarrow> (tc_unavailable, store')
                         | Some observed \<Rightarrow>
                             if list_all (\<lambda>a. RegisterValue b (CoreRegisterContext b observed) (ra_name a) =
                                  Some (ucast (ra_value a))) assignments
                             then (tc_ok, store') else (tc_changed, store')))))"

lemma mutate_find_none: "filter (\<lambda>t. ti_ThreadId t = r) infos = [] \<Longrightarrow> mutate_find r infos h = Some h"
  by (induction infos) (auto split: if_splits)

lemma mutate_find_unique:
  "filter (\<lambda>t. ti_ThreadId t = r) infos = [t] \<Longrightarrow> mutate_find r infos 0 = Some (ti_Handle t)"
  by (induction infos) (auto simp: mutate_find_none split: if_splits)

text \<open>
  Writing registers of a thread takes effect: when the thread list names the thread exactly
  once with a usable handle, its context can be read, the assignments are acceptable and
  \<open>SetThreadContext\<close> stores what it is given, the operation reports success, changes no other
  thread, and the thread's registers read back the assigned values with all others unchanged.
\<close>

theorem MutateThreadContext_correct:
  assumes thread: "tl_list threads = Some infos" "tl_count threads = int (length infos)"
      "length infos \<le> 65536" "filter (\<lambda>t. ti_ThreadId t = r) infos = [t]"
      "ti_Handle t \<noteq> 0" "ti_Handle t \<noteq> - 1" "r \<noteq> 0"
    and ctx: "store (ti_Handle t) = Some ctx"
    and set: "\<And>h c s. setContext h c s = (True, s(h \<mapsto> c))"
    and as: "as \<noteq> []" "length as \<le> 4" "assignments_ok b as"
  shows "\<exists>ctx'. MutateThreadContext b threads setContext store r as =
      (tc_ok, store(ti_Handle t \<mapsto> ctx')) \<and>
    list_all (\<lambda>a. read_register b ctx' (ra_name a) = Some (ucast (ra_value a))) as \<and>
    {m. FindWritableRegister b m \<noteq> None \<and> read_register b ctx' m \<noteq> read_register b ctx m}
      \<subseteq> ra_name ` set as"
proof -
  have "\<forall>i < length as. 0 \<le> i \<longrightarrow> assignment_valid b as i"
    using as(3) by (simp add: assignments_ok_valid)
  from ApplyRegisterAssignments_loop_correct [OF this, of ctx] as obtain ctx' where c:
      "ApplyRegisterAssignments b ctx as = (True, ctx')"
      "\<forall>a \<in> set as. read_register b ctx' (ra_name a) = Some (ucast (ra_value a))"
      "\<forall>m. FindWritableRegister b m \<noteq> None \<longrightarrow> m \<notin> ra_name ` set as \<longrightarrow>
        read_register b ctx' m = read_register b ctx m"
    by (auto simp: ApplyRegisterAssignments_def)
  have "MutateThreadContext b threads setContext store r as = (tc_ok, store(ti_Handle t \<mapsto> ctx'))"
    using assms mutate_find_unique [OF thread(4)] c(1,2)
    by (simp add: MutateThreadContext_def list_all_iff read_register_def)
  moreover have "{m. FindWritableRegister b m \<noteq> None \<and> read_register b ctx' m \<noteq> read_register b ctx m}
      \<subseteq> ra_name ` set as" using c(3) by blast
  ultimately show ?thesis using c(2) by (auto simp: list_all_iff)
qed

definition sample_thread :: "u64 THREADINFO" where
  "sample_thread = \<lparr>ti_ThreadId = 7, ti_Handle = 0x44, ti_ThreadCip = 0,
     ti_ThreadStartAddress = 0, ti_SuspendCount = 0, ti_threadName = []\<rparr>"

definition sample_context :: "u64 CONTEXT" where
  "sample_context =
     \<lparr>cx_ax = 1, cx_bx = 2, cx_cx = 3, cx_dx = 4, cx_si = 5, cx_di = 6, cx_bp = 7, cx_sp = 8,
      cx_ip = 9, cx_r8 = 0, cx_r9 = 0, cx_r10 = 0, cx_r11 = 0, cx_r12 = 0, cx_r13 = 0, cx_r14 = 0,
      cx_r15 = 0, cx_EFlags = 0x202\<rparr>"

theorem MutateThreadContext_correct_witness:
  "\<exists>ctx'. MutateThreadContext Win64 \<lparr>tl_count = 1, tl_list = Some [sample_thread], tl_CurrentThread = 0\<rparr>
      (\<lambda>h c s. (True, s(h \<mapsto> c))) [0x44 \<mapsto> sample_context] 7 [\<lparr>ra_name = ''rbx'', ra_value = 0x10\<rparr>] =
      (tc_ok, [0x44 \<mapsto> ctx']) \<and> read_register Win64 ctx' ''rbx'' = Some 0x10"
proof -
  have "assignments_ok Win64 [\<lparr>ra_name = ''rbx'', ra_value = 0x10\<rparr>]"
    by (simp add: assignments_ok_def fits_def FindWritableRegister_def)
  then show ?thesis
    using MutateThreadContext_correct
      [of "\<lparr>tl_count = 1, tl_list = Some [sample_thread], tl_CurrentThread = 0\<rparr>" "[sample_thread]" 7
        sample_thread "[0x44 \<mapsto> sample_context]" sample_context "\<lambda>h c s. (True, s(h \<mapsto> c))"
        "[\<lparr>ra_name = ''rbx'', ra_value = 0x10\<rparr>]" Win64]
    by (auto simp: sample_thread_def)
qed

end
