(* ===== verification/Trace_Policy.thy ===== *)
theory Trace_Policy
  imports Prelude
begin

text \<open>
  \<open>plugin/src/trace_policy.cpp\<close>: the record of one bounded trace (\<open>TracePolicy\<close>) and the
  coordinator that decides when it may be stopped and finalised (\<open>TraceStopCoordinator\<close>), both
  serialised by \<open>Runtime::traceMutex_\<close>, so each method is one atomic step.

  A \<open>steady_clock\<close> time point is an integer of nanoseconds. \<open>reserve\<close> failing for lack of
  memory is not modelled. The step relation at the end has one rule per method, with the
  arguments \<open>runtime.cpp\<close> passes: the supervisor, the cancel tool and the shutdown ask for a
  stop with \<open>timeout\<close>, \<open>cancelled\<close> and \<open>backendShutdown\<close>, a committed pause falls back to
  \<open>breakpoint\<close>, \<open>exception\<close> or \<open>userPause\<close>.
\<close>

type_synonym time_point = int

definition time_max :: time_point where
  "time_max = 2 ^ 63 - 1"

datatype TraceMode = mode_into | mode_over
datatype TraceState = st_starting | st_running | st_completed | st_cancelled | st_timedOut | st_interrupted
datatype TraceReason = rs_none | rs_maxSteps | rs_cancelled | rs_timeout | rs_breakpoint
  | rs_exception | rs_userPause | rs_processExit | rs_backendShutdown | rs_interrupted

record TraceModule =
  tm_base :: u64
  tm_size :: u64
  tm_name :: string

section \<open>\<open>TracePolicy\<close>\<close>

definition kMaxSteps :: nat where "kMaxSteps = 4096"
definition kMaxPoints :: nat where "kMaxPoints = kMaxSteps + 1"

record TracePolicy =
  tp_id :: string
  tp_mode :: TraceMode
  tp_state :: TraceState
  tp_reason :: TraceReason
  tp_pendingReason :: TraceReason
  tp_maxSteps :: nat
  tp_stepsExecuted :: nat
  tp_deadline :: time_point
  tp_points :: "u64 list"
  tp_modules :: "TraceModule list"

definition TracePolicy_init :: TracePolicy where
  "TracePolicy_init =
     \<lparr>tp_id = [], tp_mode = mode_into, tp_state = st_interrupted, tp_reason = rs_none,
      tp_pendingReason = rs_none, tp_maxSteps = 0, tp_stepsExecuted = 0, tp_deadline = 0,
      tp_points = [], tp_modules = []\<rparr>"

definition Active :: "TracePolicy \<Rightarrow> bool" where
  "Active t \<longleftrightarrow> tp_state t = st_starting \<or> tp_state t = st_running"

definition Terminal :: "TracePolicy \<Rightarrow> bool" where
  "Terminal t \<longleftrightarrow> tp_id t \<noteq> [] \<and> \<not> Active t"

definition Matches :: "TracePolicy \<Rightarrow> string \<Rightarrow> bool" where
  "Matches t i \<longleftrightarrow> tp_id t = i"

definition Start :: "TracePolicy \<Rightarrow> string \<Rightarrow> TraceMode \<Rightarrow> nat \<Rightarrow> time_point \<Rightarrow> u64 \<Rightarrow> TraceModule list \<Rightarrow>
    bool \<times> TracePolicy" where
  "Start t i mode maxSteps deadline initialAddress modules =
     (if i = [] \<or> Active t \<or> maxSteps = 0 \<or> maxSteps > kMaxSteps \<or> initialAddress = 0 then (False, t)
      else (True, \<lparr>tp_id = i, tp_mode = mode, tp_state = st_starting, tp_reason = rs_none,
                   tp_pendingReason = rs_none, tp_maxSteps = maxSteps, tp_stepsExecuted = 0,
                   tp_deadline = deadline, tp_points = [initialAddress], tp_modules = modules\<rparr>))"

definition policy_Submitted :: "TracePolicy \<Rightarrow> TracePolicy" where
  "policy_Submitted t = (if tp_state t = st_starting then t\<lparr>tp_state := st_running\<rparr> else t)"

text \<open>The three groups of statements of \<open>OnStep\<close>: the point, the counter, the pending reason.\<close>

definition OnStep_point :: "TracePolicy \<Rightarrow> u64 \<Rightarrow> TracePolicy" where
  "OnStep_point t address =
     (if length (tp_points t) < kMaxPoints \<and> length (tp_points t) < tp_maxSteps t + 1
      then t\<lparr>tp_points := tp_points t @ [address]\<rparr> else t)"

definition OnStep_count :: "TracePolicy \<Rightarrow> TracePolicy" where
  "OnStep_count t =
     (if tp_stepsExecuted t < tp_maxSteps t
      then t\<lparr>tp_stepsExecuted := tp_stepsExecuted t + 1\<rparr> else t)"

definition OnStep_pending :: "TracePolicy \<Rightarrow> bool \<Rightarrow> time_point \<Rightarrow> TracePolicy" where
  "OnStep_pending t nativeStop now =
     (let t = (if tp_pendingReason t = rs_none \<and> now \<ge> tp_deadline t
               then t\<lparr>tp_pendingReason := rs_timeout\<rparr> else t);
          t = (if tp_pendingReason t = rs_none \<and> tp_stepsExecuted t \<ge> tp_maxSteps t
               then t\<lparr>tp_pendingReason := rs_maxSteps\<rparr> else t) in
      if tp_pendingReason t = rs_none \<and> nativeStop
      then t\<lparr>tp_pendingReason := rs_interrupted\<rparr> else t)"

definition OnStep :: "TracePolicy \<Rightarrow> u64 \<Rightarrow> bool \<Rightarrow> time_point \<Rightarrow> bool \<times> TracePolicy" where
  "OnStep t address nativeStop now =
     (if \<not> Active t then (True, t)
      else
        let t = OnStep_point (t\<lparr>tp_state := st_running\<rparr>) address;
            t = OnStep_count t;
            t = OnStep_pending t nativeStop now in
        (tp_pendingReason t \<noteq> rs_none, t))"

definition RequestStop :: "TracePolicy \<Rightarrow> TraceReason \<Rightarrow> bool \<times> TracePolicy" where
  "RequestStop t reason =
     (if \<not> Active t \<or> reason = rs_none then (False, t)
      else (True,
        if tp_pendingReason t = rs_none \<or>
           (tp_pendingReason t = rs_timeout \<and> reason = rs_backendShutdown)
        then t\<lparr>tp_pendingReason := reason\<rparr> else t))"

fun reason_state :: "TraceReason \<Rightarrow> TraceState" where
  "reason_state rs_maxSteps = st_completed"
| "reason_state rs_cancelled = st_cancelled"
| "reason_state rs_timeout = st_timedOut"
| "reason_state _ = st_interrupted"

definition policy_Finalize :: "TracePolicy \<Rightarrow> TraceReason \<Rightarrow> bool \<times> TracePolicy" where
  "policy_Finalize t fallback =
     (if \<not> Active t then (False, t)
      else
        let reason = (if tp_pendingReason t = rs_none then fallback else tp_pendingReason t);
            reason = (if reason = rs_none then rs_interrupted else reason) in
        (True, t\<lparr>tp_reason := reason, tp_state := reason_state reason, tp_pendingReason := rs_none\<rparr>))"

section \<open>\<open>TraceStopCoordinator\<close>\<close>

record Ticket =
  tk_trace :: u64
  tk_process :: u64

definition kCooperativeGrace :: time_point where
  "kCooperativeGrace = 50 * 1000000"

record TraceStopCoordinator =
  ts_ticket :: Ticket
  ts_processId :: u32
  ts_threadId :: u32
  ts_address :: u64
  ts_requestedAt :: time_point
  ts_fallback :: TraceReason
  ts_submitted :: bool
  ts_resumed :: bool
  ts_requested :: bool
  ts_cooperative :: bool
  ts_paused :: bool
  ts_exited :: bool
  ts_interruptInFlight :: bool
  ts_attempted :: bool
  ts_issued :: bool
  ts_consumed :: bool
  ts_issueAbandoned :: bool

definition TraceStopCoordinator_init :: TraceStopCoordinator where
  "TraceStopCoordinator_init =
     \<lparr>ts_ticket = \<lparr>tk_trace = 0, tk_process = 0\<rparr>, ts_processId = 0, ts_threadId = 0, ts_address = 0,
      ts_requestedAt = 0, ts_fallback = rs_interrupted, ts_submitted = False, ts_resumed = False,
      ts_requested = False, ts_cooperative = False, ts_paused = False, ts_exited = False,
      ts_interruptInFlight = False, ts_attempted = False, ts_issued = False, ts_consumed = False,
      ts_issueAbandoned = False\<rparr>"

definition Unresolved :: "TraceStopCoordinator \<Rightarrow> bool" where
  "Unresolved c \<longleftrightarrow> ts_issued c \<and> \<not> ts_consumed c \<and> \<not> ts_exited c"

definition Blocked :: "TraceStopCoordinator \<Rightarrow> bool" where
  "Blocked c \<longleftrightarrow> ts_paused c \<and> Unresolved c"

definition LateResume :: "TraceStopCoordinator \<Rightarrow> bool" where
  "LateResume c \<longleftrightarrow> ts_paused c \<and> \<not> ts_submitted c"

definition Current :: "TraceStopCoordinator \<Rightarrow> Ticket \<Rightarrow> bool" where
  "Current c ticket \<longleftrightarrow> ticket = ts_ticket c \<and> \<not> ts_exited c"

definition Begin :: "TraceStopCoordinator \<Rightarrow> u64 \<Rightarrow> u32 \<Rightarrow> Ticket \<times> TraceStopCoordinator" where
  "Begin c processEpoch processId =
     (let ticket = \<lparr>tk_trace = tk_trace (ts_ticket c) + 1, tk_process = processEpoch\<rparr> in
      (ticket, TraceStopCoordinator_init\<lparr>ts_ticket := ticket, ts_processId := processId\<rparr>))"

definition stop_Finalize :: "TracePolicy \<times> TraceStopCoordinator \<Rightarrow> TracePolicy \<times> TraceStopCoordinator" where
  "stop_Finalize s =
     (let (t, c) = s in
      if ts_submitted c \<and> \<not> ts_interruptInFlight c \<and> (ts_paused c \<or> ts_exited c) \<and> \<not> Unresolved c
      then (snd (policy_Finalize t (ts_fallback c)), c) else (t, c))"

definition stop_Submitted ::
    "TracePolicy \<times> TraceStopCoordinator \<Rightarrow> Ticket \<Rightarrow> bool \<Rightarrow> TracePolicy \<times> TraceStopCoordinator" where
  "stop_Submitted s ticket accepted =
     (let (t, c) = s in
      if ticket \<noteq> ts_ticket c then (t, c)
      else
        let c = c\<lparr>ts_submitted := True\<rparr> in
        if accepted then stop_Finalize (policy_Submitted t, c)
        else if \<not> ts_resumed c then stop_Finalize (t, c\<lparr>ts_paused := True\<rparr>)
        else stop_Finalize (t, c))"

definition Request ::
    "TracePolicy \<times> TraceStopCoordinator \<Rightarrow> TraceReason \<Rightarrow> time_point \<Rightarrow> TracePolicy \<times> TraceStopCoordinator" where
  "Request s reason now =
     (let (t, c) = s; (ok, t') = RequestStop t reason in
      if \<not> ok then (t', c)
      else if \<not> ts_requested c then (t', c\<lparr>ts_requested := True, ts_requestedAt := now\<rparr>)
      else (t', c))"

definition Step ::
    "TracePolicy \<times> TraceStopCoordinator \<Rightarrow> u64 \<Rightarrow> bool \<Rightarrow> time_point \<Rightarrow>
     bool \<times> TracePolicy \<times> TraceStopCoordinator" where
  "Step s address nativeStop now =
     (let (t, c) = s; c = c\<lparr>ts_resumed := True\<rparr>; (stop, t') = OnStep t address nativeStop now in
      if ts_issued c then (nativeStop, t', c)
      else if stop then (stop, t', c\<lparr>ts_cooperative := True\<rparr>)
      else (stop, t', c))"

definition WakeAt :: "TraceStopCoordinator \<Rightarrow> TracePolicy \<Rightarrow> time_point" where
  "WakeAt c t =
     (if \<not> ts_resumed c \<or> ts_attempted c \<or> ts_cooperative c \<or> ts_paused c \<or> ts_exited c then time_max
      else if ts_requested c then ts_requestedAt c + kCooperativeGrace else tp_deadline t)"

definition Reserve ::
    "TracePolicy \<times> TraceStopCoordinator \<Rightarrow> time_point \<Rightarrow>
     Ticket option \<times> TracePolicy \<times> TraceStopCoordinator" where
  "Reserve s now =
     (let (t, c) = s in
      if \<not> Active t \<or> ts_exited c then (None, t, c)
      else
        let (t, c) = (if now \<ge> tp_deadline t then Request (t, c) rs_timeout now else (t, c)) in
        if \<not> ts_requested c \<or> now < WakeAt c t \<or> \<not> ts_resumed c then (None, t, c)
        else (Some (ts_ticket c), t, c\<lparr>ts_attempted := True, ts_interruptInFlight := True\<rparr>))"

definition Issue :: "TraceStopCoordinator \<Rightarrow> Ticket \<Rightarrow> u32 \<Rightarrow> u64 \<Rightarrow> bool \<times> TraceStopCoordinator" where
  "Issue c ticket threadId address =
     (if \<not> Current c ticket \<or> \<not> ts_interruptInFlight c \<or> ts_issued c \<or> ts_issueAbandoned c \<or>
         ts_cooperative c \<or> ts_paused c \<or> threadId = 0 \<or> address = 0
      then (False, c)
      else (True, c\<lparr>ts_threadId := threadId, ts_address := address, ts_issued := True\<rparr>))"

definition AbandonIssue :: "TraceStopCoordinator \<Rightarrow> Ticket \<Rightarrow> TraceStopCoordinator" where
  "AbandonIssue c ticket =
     (if Current c ticket \<and> \<not> ts_issued c then c\<lparr>ts_issueAbandoned := True\<rparr> else c)"

definition FinishInterrupt ::
    "TracePolicy \<times> TraceStopCoordinator \<Rightarrow> Ticket \<Rightarrow> bool \<Rightarrow> TracePolicy \<times> TraceStopCoordinator" where
  "FinishInterrupt s ticket safelyRetired =
     (let (t, c) = s in
      if ticket \<noteq> ts_ticket c \<or> \<not> ts_interruptInFlight c then (t, c)
      else
        let c = c\<lparr>ts_interruptInFlight := False\<rparr>;
            c = (if safelyRetired then c\<lparr>ts_issued := False\<rparr>
                 else if \<not> ts_issued c then c\<lparr>ts_issued := True\<rparr> else c) in
        stop_Finalize (t, c))"

definition ThreadCreated ::
    "TraceStopCoordinator \<Rightarrow> u64 \<Rightarrow> u32 \<Rightarrow> u32 \<Rightarrow> bool \<Rightarrow> u64 \<Rightarrow> bool \<times> TraceStopCoordinator" where
  "ThreadCreated c processEpoch processId threadId rawCreateThread address =
     (if \<not> ts_issued c \<or> ts_consumed c \<or> ts_exited c \<or> tk_process (ts_ticket c) \<noteq> processEpoch \<or>
         ts_processId c \<noteq> processId \<or> ts_threadId c \<noteq> threadId \<or> \<not> rawCreateThread \<or>
         ts_address c \<noteq> address
      then (False, c) else (True, c\<lparr>ts_consumed := True\<rparr>))"

definition Resumed :: "TraceStopCoordinator \<Rightarrow> TraceStopCoordinator" where
  "Resumed c = (if LateResume c then c else c\<lparr>ts_resumed := True, ts_paused := False\<rparr>)"

definition PauseCommitted ::
    "TracePolicy \<times> TraceStopCoordinator \<Rightarrow> TraceReason \<Rightarrow> TracePolicy \<times> TraceStopCoordinator" where
  "PauseCommitted s fallback =
     (let (t, c) = s in
      if ts_exited c then (t, c)
      else stop_Finalize (t, c\<lparr>ts_paused := True, ts_fallback := fallback\<rparr>))"

definition ProcessExited ::
    "TracePolicy \<times> TraceStopCoordinator \<Rightarrow> TracePolicy \<times> TraceStopCoordinator" where
  "ProcessExited s =
     (let (t, c) = s in
      stop_Finalize (t, c\<lparr>ts_exited := True, ts_fallback := rs_processExit\<rparr>))"

definition TraceHelperAllowsMutation :: "string \<Rightarrow> bool" where
  "TraceHelperAllowsMutation m \<longleftrightarrow>
     m = ''debugger.resume'' \<or> m = ''debugger.stop'' \<or> m = ''memory.write'' \<or> m = ''trace.cancel'' \<or>
     m = ''scyllahide.profile''"

section \<open>Names\<close>

fun TraceModeName :: "TraceMode \<Rightarrow> string" where
  "TraceModeName mode_into = ''into''"
| "TraceModeName mode_over = ''over''"

fun TraceStateName :: "TraceState \<Rightarrow> string" where
  "TraceStateName st_starting = ''starting''"
| "TraceStateName st_running = ''running''"
| "TraceStateName st_completed = ''completed''"
| "TraceStateName st_cancelled = ''cancelled''"
| "TraceStateName st_timedOut = ''timed_out''"
| "TraceStateName st_interrupted = ''interrupted''"

fun TraceReasonName :: "TraceReason \<Rightarrow> string" where
  "TraceReasonName rs_none = ''none''"
| "TraceReasonName rs_maxSteps = ''max_steps''"
| "TraceReasonName rs_cancelled = ''cancelled''"
| "TraceReasonName rs_timeout = ''timeout''"
| "TraceReasonName rs_breakpoint = ''breakpoint''"
| "TraceReasonName rs_exception = ''exception''"
| "TraceReasonName rs_userPause = ''user_pause''"
| "TraceReasonName rs_processExit = ''process_exit''"
| "TraceReasonName rs_backendShutdown = ''backend_shutdown''"
| "TraceReasonName rs_interrupted = ''interrupted''"

section \<open>The transition system\<close>

type_synonym trace_system = "TracePolicy \<times> TraceStopCoordinator"

inductive trace_step :: "trace_system \<Rightarrow> trace_system \<Rightarrow> bool" where
  start: "Start t i mode n deadline a ms = (True, t') \<Longrightarrow> Begin c epoch pid = (ticket, c') \<Longrightarrow>
    trace_step (t, c) (t', c')"
| submitted: "stop_Submitted s ticket accepted = s' \<Longrightarrow> trace_step s s'"
| request: "reason \<in> {rs_cancelled, rs_timeout, rs_backendShutdown} \<Longrightarrow> Request s reason now = s' \<Longrightarrow>
    trace_step s s'"
| step: "Step s a native now = (stop, s') \<Longrightarrow> trace_step s s'"
| reserve: "now < time_max \<Longrightarrow> Reserve s now = (got, s') \<Longrightarrow> trace_step s s'"
| issue: "Issue c ticket thread a = (ok, c') \<Longrightarrow> trace_step (t, c) (t, c')"
| abandon: "AbandonIssue c ticket = c' \<Longrightarrow> trace_step (t, c) (t, c')"
| finish: "FinishInterrupt s ticket retired = s' \<Longrightarrow> trace_step s s'"
| created: "ThreadCreated c epoch pid thread raw a = (ok, c') \<Longrightarrow> trace_step (t, c) (t, c')"
| resumed: "Resumed c = c' \<Longrightarrow> trace_step (t, c) (t, c')"
| paused: "fallback \<in> {rs_breakpoint, rs_exception, rs_userPause} \<Longrightarrow> PauseCommitted s fallback = s' \<Longrightarrow>
    trace_step s s'"
| exited: "ProcessExited s = s' \<Longrightarrow> trace_step s s'"

definition trace_init :: "trace_system \<Rightarrow> bool" where
  "trace_init s \<longleftrightarrow> s = (TracePolicy_init, TraceStopCoordinator_init)"

section \<open>The invariant\<close>

definition policy_ok :: "TracePolicy \<Rightarrow> bool" where
  "policy_ok t \<longleftrightarrow>
     (if tp_id t = [] then \<not> Active t
      else length (tp_points t) = tp_stepsExecuted t + 1 \<and> tp_stepsExecuted t \<le> tp_maxSteps t \<and>
        0 < tp_maxSteps t \<and> tp_maxSteps t \<le> kMaxSteps \<and>
        (if Active t
         then tp_reason t = rs_none \<and>
           (tp_pendingReason t = rs_maxSteps \<longrightarrow> tp_stepsExecuted t = tp_maxSteps t)
         else tp_reason t \<noteq> rs_none \<and> tp_state t = reason_state (tp_reason t) \<and>
           (tp_reason t = rs_maxSteps \<longrightarrow> tp_stepsExecuted t = tp_maxSteps t)))"

definition stop_ok :: "TraceStopCoordinator \<Rightarrow> bool" where
  "stop_ok c \<longleftrightarrow> ts_fallback c \<noteq> rs_maxSteps \<and> (ts_interruptInFlight c \<longrightarrow> ts_attempted c) \<and>
     (ts_issued c \<longrightarrow> ts_attempted c)"

definition settled :: "trace_system \<Rightarrow> bool" where
  "settled s \<longleftrightarrow> (Terminal (fst s) \<longrightarrow>
     ts_submitted (snd s) \<and> \<not> ts_interruptInFlight (snd s) \<and> \<not> Unresolved (snd s))"

definition trace_inv :: "trace_system \<Rightarrow> bool" where
  "trace_inv s \<longleftrightarrow> policy_ok (fst s) \<and> stop_ok (snd s) \<and> settled s"

named_theorems trace_ops \<open>definitions of the operations of a trace\<close>

lemmas trace_op_defs [trace_ops] =
  stop_Submitted_def Request_def Step_def Reserve_def Issue_def AbandonIssue_def
  FinishInterrupt_def ThreadCreated_def Resumed_def PauseCommitted_def ProcessExited_def Begin_def

lemma Active_updates [simp]:
  "Active (t\<lparr>tp_pendingReason := r\<rparr>) = Active t"
  "Active (t\<lparr>tp_points := ps\<rparr>) = Active t"
  "Active (t\<lparr>tp_stepsExecuted := n\<rparr>) = Active t"
  "Active (t\<lparr>tp_state := st_running\<rparr>)"
  by (simp_all add: Active_def)

lemma Active_reason_state [simp]: "\<not> Active (t\<lparr>tp_state := reason_state r\<rparr>)"
  by (cases r) (simp_all add: Active_def)

lemma Start_ok: "Start t i mode n deadline a ms = (True, t') \<Longrightarrow> policy_ok t' \<and> Active t' \<and> \<not> Active t"
  by (auto simp: Start_def policy_ok_def Active_def split: if_splits)

lemma policy_Submitted_ok:
  "policy_ok t \<Longrightarrow> policy_ok (policy_Submitted t)" "Terminal (policy_Submitted t) = Terminal t"
proof -
  have "tp_state t = st_starting \<Longrightarrow> Active t" by (simp add: Active_def)
  then show "policy_ok t \<Longrightarrow> policy_ok (policy_Submitted t)"
      "Terminal (policy_Submitted t) = Terminal t"
    by (cases "tp_state t = st_starting";
        simp add: policy_Submitted_def policy_ok_def Terminal_def split: if_splits)+
qed

lemma RequestStop_ok:
  "policy_ok t \<Longrightarrow> r \<noteq> rs_maxSteps \<Longrightarrow> policy_ok (snd (RequestStop t r))"
  "Terminal (snd (RequestStop t r)) = Terminal t"
  by (simp_all add: RequestStop_def policy_ok_def Terminal_def split: if_splits)

lemma policy_Finalize_ok:
  assumes "policy_ok t" "fallback \<noteq> rs_maxSteps"
  shows "policy_ok (snd (policy_Finalize t fallback))"
proof (cases "Active t")
  case True
  define r where "r = (if tp_pendingReason t = rs_none then fallback else tp_pendingReason t)"
  define r' where "r' = (if r = rs_none then rs_interrupted else r)"
  have "r' = rs_maxSteps \<Longrightarrow> tp_pendingReason t = rs_maxSteps"
    using assms(2) by (auto simp: r_def r'_def split: if_splits)
  moreover have "r' \<noteq> rs_none" by (simp add: r'_def)
  moreover have "snd (policy_Finalize t fallback) =
      t\<lparr>tp_reason := r', tp_state := reason_state r', tp_pendingReason := rs_none\<rparr>"
    using True by (simp add: policy_Finalize_def r_def r'_def Let_def)
  ultimately show ?thesis using True assms(1) by (simp add: policy_ok_def split: if_splits)
qed (use assms in \<open>simp add: policy_Finalize_def\<close>)

text \<open>The pending reason after a step that counted up to \<open>n\<close> steps.\<close>

definition next_pending :: "TracePolicy \<Rightarrow> nat \<Rightarrow> bool \<Rightarrow> time_point \<Rightarrow> TraceReason" where
  "next_pending t n native now =
     (if tp_pendingReason t \<noteq> rs_none then tp_pendingReason t
      else if now \<ge> tp_deadline t then rs_timeout
      else if n \<ge> tp_maxSteps t then rs_maxSteps
      else if native then rs_interrupted else rs_none)"

lemma OnStep_pending_eq:
  "OnStep_pending t native now =
   t\<lparr>tp_pendingReason := next_pending t (tp_stepsExecuted t) native now\<rparr>"
  by (simp add: OnStep_pending_def Let_def next_pending_def)

lemma OnStep_Active:
  assumes "Active t" "policy_ok t"
  shows "snd (OnStep t a native now) =
    (if tp_stepsExecuted t < tp_maxSteps t
     then t\<lparr>tp_state := st_running, tp_points := tp_points t @ [a],
            tp_stepsExecuted := tp_stepsExecuted t + 1,
            tp_pendingReason := next_pending t (tp_stepsExecuted t + 1) native now\<rparr>
     else t\<lparr>tp_state := st_running,
            tp_pendingReason := next_pending t (tp_stepsExecuted t) native now\<rparr>)"
proof -
  have "tp_id t \<noteq> []" using assms by (auto simp: policy_ok_def split: if_splits)
  then have len: "length (tp_points t) = tp_stepsExecuted t + 1" "tp_maxSteps t \<le> kMaxSteps"
    using assms by (simp_all add: policy_ok_def)
  then have "length (tp_points t) < kMaxPoints \<and> length (tp_points t) < tp_maxSteps t + 1 \<longleftrightarrow>
      tp_stepsExecuted t < tp_maxSteps t"
    by (auto simp: kMaxPoints_def)
  then have p: "OnStep_point (t\<lparr>tp_state := st_running\<rparr>) a =
      (if tp_stepsExecuted t < tp_maxSteps t
       then t\<lparr>tp_state := st_running, tp_points := tp_points t @ [a]\<rparr>
       else t\<lparr>tp_state := st_running\<rparr>)"
    by (simp add: OnStep_point_def)
  show ?thesis
    using assms(1) unfolding OnStep_def p OnStep_pending_eq OnStep_count_def
    by (simp add: next_pending_def)
qed

lemma OnStep_ok:
  assumes "policy_ok t"
  shows "policy_ok (snd (OnStep t a native now))"
    and "Terminal (snd (OnStep t a native now)) = Terminal t"
proof -
  have "policy_ok (snd (OnStep t a native now)) \<and> Terminal (snd (OnStep t a native now)) = Terminal t"
  proof (cases "Active t")
    case True
    have "tp_id t \<noteq> []" using assms True by (auto simp: policy_ok_def split: if_splits)
    moreover have "next_pending t n native now = rs_maxSteps \<Longrightarrow> n \<le> tp_maxSteps t \<Longrightarrow>
        n = tp_maxSteps t \<or> tp_pendingReason t = rs_maxSteps" for n
      by (auto simp: next_pending_def split: if_splits)
    ultimately show ?thesis using True assms
      unfolding OnStep_Active [OF True assms]
      by (cases "tp_stepsExecuted t < tp_maxSteps t") (fastforce simp: policy_ok_def Terminal_def)+
  qed (use assms in \<open>simp add: OnStep_def\<close>)
  then show "policy_ok (snd (OnStep t a native now))"
    and "Terminal (snd (OnStep t a native now)) = Terminal t" by auto
qed

lemma stop_Finalize_inv:
  assumes "policy_ok t" "stop_ok c" "settled (t, c)"
  shows "trace_inv (stop_Finalize (t, c))"
  using assms policy_Finalize_ok [of t "ts_fallback c"]
  by (auto simp: stop_Finalize_def trace_inv_def settled_def stop_ok_def)

lemma settled_Active: "Active t \<Longrightarrow> settled (t, c)"
  by (simp add: settled_def Terminal_def)

lemma Request_inv:
  assumes "trace_inv s" "r \<noteq> rs_maxSteps"
  shows "trace_inv (Request s r now)"
    and "Active (fst (Request s r now)) = Active (fst s)"
    and "ts_exited (snd (Request s r now)) = ts_exited (snd s)"
proof -
  obtain t c ok t' where s: "s = (t, c)" "RequestStop t r = (ok, t')" by (metis surj_pair)
  have t': "policy_ok t'" "Terminal t' = Terminal t" "Active t' = Active t"
    using RequestStop_ok [of t r] assms s
    by (auto simp: trace_inv_def RequestStop_def split: if_splits)
  have eq: "Request (t, c) r now = (t', if ok \<and> \<not> ts_requested c
      then c\<lparr>ts_requested := True, ts_requestedAt := now\<rparr> else c)"
    using s by (simp add: Request_def)
  show "trace_inv (Request s r now)"
    using assms(1) t' unfolding eq s
    by (cases "ok \<and> \<not> ts_requested c")
      (simp_all add: trace_inv_def stop_ok_def settled_def Unresolved_def)
  show "Active (fst (Request s r now)) = Active (fst s)"
    and "ts_exited (snd (Request s r now)) = ts_exited (snd s)"
    using t'(3) unfolding eq s by simp_all
qed

lemma Submitted_inv: "trace_inv s \<Longrightarrow> trace_inv (stop_Submitted s ticket accepted)"
proof -
  assume inv: "trace_inv s"
  obtain t c where s: "s = (t, c)" by fastforce
  let ?c = "c\<lparr>ts_submitted := True\<rparr>"
  have ok: "policy_ok t" "stop_ok c" "settled (t, c)" using inv s by (auto simp: trace_inv_def)
  then have "policy_ok (policy_Submitted t)" "stop_ok ?c" "stop_ok (?c\<lparr>ts_paused := True\<rparr>)"
    "settled (policy_Submitted t, ?c)" "settled (t, ?c)" "settled (t, ?c\<lparr>ts_paused := True\<rparr>)"
    by (auto simp: policy_Submitted_ok stop_ok_def settled_def Unresolved_def)
  with ok show ?thesis
    unfolding s
    by (auto simp: stop_Submitted_def Let_def trace_inv_def [of "(t, c)"] intro: stop_Finalize_inv)
qed

lemma Step_inv: "trace_inv s \<Longrightarrow> Step s a native now = (stop, s') \<Longrightarrow> trace_inv s'"
proof -
  assume inv: "trace_inv s" and step: "Step s a native now = (stop, s')"
  obtain t c b t' where s: "s = (t, c)" "OnStep t a native now = (b, t')" by (metis surj_pair)
  then have t': "policy_ok t'" "Terminal t' = Terminal t"
    using OnStep_ok [of t a native now] inv by (simp_all add: trace_inv_def)
  have "fst s' = t'" "snd s' = c\<lparr>ts_resumed := True\<rparr> \<or> snd s' = c\<lparr>ts_resumed := True, ts_cooperative := True\<rparr>"
    using step s by (auto simp: Step_def Let_def split: if_splits)
  with t' inv s show ?thesis
    by (cases s') (auto simp: trace_inv_def stop_ok_def settled_def Unresolved_def)
qed

lemma Reserve_inv: "trace_inv s \<Longrightarrow> Reserve s now = (got, s') \<Longrightarrow> trace_inv s'"
proof -
  assume inv: "trace_inv s" and res: "Reserve s now = (got, s')"
  obtain t c where s: "s = (t, c)" by fastforce
  show ?thesis
  proof (cases "\<not> Active t \<or> ts_exited c")
    case True
    with inv res s show ?thesis by (auto simp: Reserve_def)
  next
    case False
    define s1 where "s1 = (if now \<ge> tp_deadline t then Request (t, c) rs_timeout now else (t, c))"
    have s1: "trace_inv s1" "Active (fst s1)"
      using Request_inv(1,2) [of s rs_timeout now] inv s False by (auto simp: s1_def)
    have "s' = s1 \<or> s' = (fst s1, (snd s1)\<lparr>ts_attempted := True, ts_interruptInFlight := True\<rparr>)"
      using res False s by (auto simp: Reserve_def s1_def case_prod_unfold Let_def split: if_splits)
    then show ?thesis
    proof
      assume "s' = (fst s1, (snd s1)\<lparr>ts_attempted := True, ts_interruptInFlight := True\<rparr>)"
      with s1 settled_Active [OF s1(2)] show ?thesis by (simp add: trace_inv_def stop_ok_def)
    qed (use s1 in simp)
  qed
qed

lemma Finish_inv: "trace_inv s \<Longrightarrow> trace_inv (FinishInterrupt s ticket retired)"
proof -
  assume inv: "trace_inv s"
  obtain t c where s: "s = (t, c)" by fastforce
  show ?thesis
  proof (cases "ticket \<noteq> ts_ticket c \<or> \<not> ts_interruptInFlight c")
    case True
    with inv s show ?thesis by (auto simp: FinishInterrupt_def)
  next
    case False
    with inv s have "policy_ok t" "stop_ok c" "ts_attempted c" "\<not> Terminal t"
      by (auto simp: trace_inv_def stop_ok_def settled_def)
    with False s show ?thesis
      by (auto simp: FinishInterrupt_def Let_def stop_ok_def settled_def intro!: stop_Finalize_inv)
  qed
qed

lemma Paused_inv: "trace_inv (t, c) \<Longrightarrow> f \<noteq> rs_maxSteps \<Longrightarrow> trace_inv (PauseCommitted (t, c) f)"
proof -
  assume inv: "trace_inv (t, c)" and f: "f \<noteq> rs_maxSteps"
  then have "policy_ok t" "stop_ok (c\<lparr>ts_paused := True, ts_fallback := f\<rparr>)"
      "settled (t, c\<lparr>ts_paused := True, ts_fallback := f\<rparr>)"
    by (simp_all add: trace_inv_def stop_ok_def settled_def Unresolved_def)
  with inv show ?thesis by (simp add: PauseCommitted_def stop_Finalize_inv)
qed

lemma Exited_inv: "trace_inv (t, c) \<Longrightarrow> trace_inv (ProcessExited (t, c))"
proof -
  assume inv: "trace_inv (t, c)"
  then have "policy_ok t" "stop_ok (c\<lparr>ts_exited := True, ts_fallback := rs_processExit\<rparr>)"
      "settled (t, c\<lparr>ts_exited := True, ts_fallback := rs_processExit\<rparr>)"
    by (simp_all add: trace_inv_def stop_ok_def settled_def Unresolved_def)
  then show ?thesis by (simp add: ProcessExited_def stop_Finalize_inv)
qed

lemma trace_inv_step: "trace_inv s \<Longrightarrow> trace_step s s' \<Longrightarrow> trace_inv s'"
proof (erule trace_step.cases, goal_cases)
  case (1 t i mode n deadline a ms t' c epoch pid ticket c')
  then show ?case
    using Start_ok settled_Active
    by (auto simp: Begin_def trace_inv_def stop_ok_def TraceStopCoordinator_init_def Let_def)
next
  case (6 c ticket thread a ok c' t)
  then have "c' = c \<or> ts_interruptInFlight c \<and>
      c' = c\<lparr>ts_threadId := thread, ts_address := a, ts_issued := True\<rparr>"
    by (auto simp: Issue_def split: if_splits)
  with 6 show ?case by (auto simp: trace_inv_def stop_ok_def settled_def)
next
  case (7 c ticket c' t)
  then have "c' = c \<or> c' = c\<lparr>ts_issueAbandoned := True\<rparr>" by (auto simp: AbandonIssue_def)
  with 7 show ?case by (auto simp: trace_inv_def stop_ok_def settled_def Unresolved_def)
next
  case (9 c epoch pid thread raw a ok c' t)
  then have "c' = c \<or> c' = c\<lparr>ts_consumed := True\<rparr>" by (auto simp: ThreadCreated_def split: if_splits)
  with 9 show ?case by (auto simp: trace_inv_def stop_ok_def settled_def Unresolved_def)
next
  case (10 c c' t)
  then have "c' = c \<or> c' = c\<lparr>ts_resumed := True, ts_paused := False\<rparr>" by (auto simp: Resumed_def)
  with 10 show ?case by (auto simp: trace_inv_def stop_ok_def settled_def Unresolved_def)
next
  case (11 fallback s s')
  then show ?case using Paused_inv by (cases s) auto
next
  case (12 s s')
  then show ?case using Exited_inv by (cases s) auto
next
  case (3 reason s now s')
  then have "reason \<noteq> rs_maxSteps" by auto
  with 3 Request_inv(1) show ?case by blast
qed (use Submitted_inv Step_inv Reserve_inv Finish_inv in blast)+

lemma trace_inv_init: "trace_init s \<Longrightarrow> trace_inv s"
  by (simp add: trace_init_def trace_inv_def policy_ok_def stop_ok_def settled_def Active_def
      Terminal_def TracePolicy_init_def TraceStopCoordinator_init_def)

interpretation trace: invariant_system trace_init trace_step trace_inv
  by unfold_locales (fact trace_inv_init, fact trace_inv_step)

text \<open>
  C1. A trace is only reported terminal when nothing native is left behind: in every reachable
  state a terminal trace was submitted, has no interrupt in flight and no interrupt thread whose
  fate is unknown, and its state agrees with the reason it stopped; it is \<open>completed\<close> only
  after exactly the requested number of steps.
\<close>

theorem terminal_trace_settled:
  assumes "trace_init s0" "reaches trace_step s0 (t, c)" "Terminal t"
  shows "ts_submitted c \<and> \<not> ts_interruptInFlight c \<and> \<not> Unresolved c \<and>
    tp_reason t \<noteq> rs_none \<and> tp_state t = reason_state (tp_reason t) \<and>
    (if tp_state t = st_completed then tp_stepsExecuted t = tp_maxSteps t else True)"
proof -
  have inv: "trace_inv (t, c)" using trace.inv_reachable [OF assms(1,2)] .
  have "tp_state t = st_completed \<Longrightarrow> reason_state (tp_reason t) = st_completed \<Longrightarrow>
      tp_reason t = rs_maxSteps"
    by (cases "tp_reason t") auto
  with inv assms(3) show ?thesis
    by (auto simp: trace_inv_def settled_def policy_ok_def Terminal_def split: if_splits)
qed

text \<open>A short run: start, submission, one step that reaches the limit, the pause.\<close>

definition sample_trace :: trace_system where
  "sample_trace =
     (let t = snd (Start TracePolicy_init ''t'' mode_into 1 1000 0x1000 []);
          (k, c) = Begin TraceStopCoordinator_init 1 7;
          s = stop_Submitted (t, c) k True;
          s = snd (Step s 0x1004 False 10) in
      PauseCommitted s rs_userPause)"

lemma sample_trace_reachable:
  "reaches trace_step (TracePolicy_init, TraceStopCoordinator_init) sample_trace"
proof -
  let ?t = "snd (Start TracePolicy_init ''t'' mode_into 1 1000 0x1000 [])"
  let ?b = "Begin TraceStopCoordinator_init 1 7"
  let ?s1 = "(?t, snd ?b)"
  let ?s2 = "stop_Submitted ?s1 (fst ?b) True"
  let ?s3 = "snd (Step ?s2 0x1004 False 10)"
  have "Start TracePolicy_init ''t'' mode_into 1 1000 0x1000 [] = (True, ?t)"
    by (simp add: Start_def TracePolicy_init_def Active_def kMaxSteps_def)
  then have "trace_step (TracePolicy_init, TraceStopCoordinator_init) ?s1"
    by (rule trace_step.start) (rule prod.collapse [symmetric])
  then have "reaches trace_step (TracePolicy_init, TraceStopCoordinator_init) ?s1"
    using reaches_refl reaches_step by metis
  then have "reaches trace_step (TracePolicy_init, TraceStopCoordinator_init) ?s2"
    by (rule reaches_step) (rule trace_step.submitted [OF refl])
  then have "reaches trace_step (TracePolicy_init, TraceStopCoordinator_init) ?s3"
    by (rule reaches_step) (rule trace_step.step [OF prod.collapse [symmetric]])
  then have "reaches trace_step (TracePolicy_init, TraceStopCoordinator_init) (PauseCommitted ?s3 rs_userPause)"
    by (rule reaches_step) (rule trace_step.paused [OF _ refl], simp)
  then show ?thesis by (simp add: sample_trace_def Let_def case_prod_unfold)
qed

theorem terminal_trace_settled_witness:
  "tp_state (fst sample_trace) = st_completed \<and> \<not> Unresolved (snd sample_trace) \<and>
   tp_stepsExecuted (fst sample_trace) = tp_maxSteps (fst sample_trace)"
proof -
  have i: "trace_init (TracePolicy_init, TraceStopCoordinator_init)" by (simp add: trace_init_def)
  have r: "reaches trace_step (TracePolicy_init, TraceStopCoordinator_init)
      (fst sample_trace, snd sample_trace)"
    using sample_trace_reachable by simp
  have t: "Terminal (fst sample_trace)" by code_simp
  have s: "tp_state (fst sample_trace) = st_completed" by code_simp
  from terminal_trace_settled [OF i r t] s show ?thesis by simp
qed

text \<open>
  C28. The recorded trace is bounded and consistent with its counter: in every reachable state
  there is one point more than steps executed, never more steps than requested, and never more
  than 4096 requested.
\<close>

theorem trace_points_bounded:
  assumes "trace_init s0" "reaches trace_step s0 (t, c)" "tp_id t \<noteq> []"
  shows "length (tp_points t) = tp_stepsExecuted t + 1 \<and> tp_stepsExecuted t \<le> tp_maxSteps t \<and>
    length (tp_points t) \<le> kMaxPoints"
  using trace.inv_reachable [OF assms(1,2)] assms(3)
  by (simp add: trace_inv_def policy_ok_def kMaxPoints_def)

theorem trace_points_bounded_witness: "length (tp_points (fst sample_trace)) = 2"
proof -
  have i: "trace_init (TracePolicy_init, TraceStopCoordinator_init)" by (simp add: trace_init_def)
  have r: "reaches trace_step (TracePolicy_init, TraceStopCoordinator_init)
      (fst sample_trace, snd sample_trace)"
    using sample_trace_reachable by simp
  have t: "tp_id (fst sample_trace) \<noteq> []" by code_simp
  have s: "tp_stepsExecuted (fst sample_trace) = 1" by code_simp
  from trace_points_bounded [OF i r t] s show ?thesis by simp
qed

section \<open>Interrupts\<close>

definition same_trace_step :: "trace_system \<Rightarrow> trace_system \<Rightarrow> bool" where
  "same_trace_step s s' \<longleftrightarrow> trace_step s s' \<and> ts_ticket (snd s') = ts_ticket (snd s)"

lemma stop_Finalize_snd [simp]: "snd (stop_Finalize s) = snd s"
  by (cases s) (simp add: stop_Finalize_def)

lemma Request_attempted [simp]: "ts_attempted (snd (Request s r now)) = ts_attempted (snd s)"
  by (cases s) (auto simp: Request_def split: prod.splits)

lemma attempted_kept:
  assumes "trace_step s s'" "ts_ticket (snd s') = ts_ticket (snd s)" "ts_attempted (snd s)"
  shows "ts_attempted (snd s')"
  using assms
proof cases
  case (start t i mode n deadline a ms t' c epoch pid ticket c')
  then have "tk_trace (ts_ticket c') = tk_trace (ts_ticket c) + 1" by (auto simp: Begin_def Let_def)
  with start assms(2) show ?thesis by simp
qed (auto simp: trace_ops Let_def split: if_splits prod.splits)

lemma attempted_forever: "reaches same_trace_step s s' \<Longrightarrow> ts_attempted (snd s) \<Longrightarrow> ts_attempted (snd s')"
  by (induction rule: reaches.induct) (auto simp: same_trace_step_def dest: attempted_kept)

lemma Reserve_attempted:
  assumes "now < time_max" "Reserve (t, c) now = (Some k, s')"
  shows "\<not> ts_attempted c \<and> ts_attempted (snd s') \<and> ts_ticket (snd s') = k \<and>
    k = ts_ticket c \<and> ts_interruptInFlight (snd s')"
proof -
  define s1 where "s1 = (if now \<ge> tp_deadline t then Request (t, c) rs_timeout now else (t, c))"
  have s1: "ts_attempted (snd s1) = ts_attempted c" "ts_ticket (snd s1) = ts_ticket c"
    by (auto simp: s1_def Request_def split: prod.splits)
  have "\<not> now < WakeAt (snd s1) (fst s1)" "k = ts_ticket (snd s1)"
    "s' = (fst s1, (snd s1)\<lparr>ts_attempted := True, ts_interruptInFlight := True\<rparr>)"
    using assms(2)
    by (auto simp: Reserve_def s1_def Let_def case_prod_unfold split: if_splits)
  moreover from this(1) assms(1) have "\<not> ts_attempted (snd s1)"
    by (auto simp: WakeAt_def split: if_splits)
  ultimately show ?thesis using s1 by simp
qed

text \<open>
  C27. One interrupt per trace: once the supervisor was given the ticket of a trace, every later
  attempt to reserve it in the same trace is refused, so no second interrupt thread is created.
\<close>

theorem Reserve_once:
  assumes "now < time_max" "Reserve s now = (Some k, s1)" "reaches same_trace_step s1 s2"
    "now' < time_max"
  shows "fst (Reserve s2 now') = None"
proof (rule ccontr)
  assume "fst (Reserve s2 now') \<noteq> None"
  then obtain k' s3 where "Reserve (fst s2, snd s2) now' = (Some k', s3)"
    by (metis eq_fst_iff not_None_eq prod.collapse)
  from Reserve_attempted [OF assms(4) this] have "\<not> ts_attempted (snd s2)" by blast
  moreover have "ts_attempted (snd s1)"
    using Reserve_attempted [OF assms(1), of "fst s" "snd s" k s1] assms(2) by simp
  ultimately show False using attempted_forever [OF assms(3)] by blast
qed

text \<open>
  A running trace past its deadline is not left alone: when neither a step nor a pause has
  stopped it cooperatively, the first check after the deadline records the timeout and a check
  50 ms later hands out the ticket for the interrupt.
\<close>

theorem Reserve_after_grace:
  assumes "Active t" "ts_resumed c" "\<not> ts_attempted c" "\<not> ts_cooperative c" "\<not> ts_paused c"
    "\<not> ts_exited c" "\<not> ts_requested c" "tp_deadline t \<le> now" "now + kCooperativeGrace \<le> later"
    "later < time_max"
  shows "\<exists>s1. Reserve (t, c) now = (None, s1) \<and> fst (Reserve s1 later) = Some (ts_ticket c)"
proof -
  obtain ok t' where t': "RequestStop t rs_timeout = (ok, t')" by (metis surj_pair)
  with assms(1) have ok: "ok" "Active t'" "tp_deadline t' = tp_deadline t"
    by (auto simp: RequestStop_def split: if_splits)
  let ?c = "c\<lparr>ts_requested := True, ts_requestedAt := now\<rparr>"
  have req: "Request (t, c) rs_timeout now = (t', ?c)"
    using assms t' ok by (simp add: Request_def)
  have grace: "0 < kCooperativeGrace" by (simp add: kCooperativeGrace_def)
  have first: "Reserve (t, c) now = (None, t', ?c)"
    using assms req grace by (simp add: Reserve_def WakeAt_def)
  obtain ok2 t2 where t2: "RequestStop t' rs_timeout = (ok2, t2)" by (metis surj_pair)
  have "Request (t', ?c) rs_timeout later = (t2, ?c)" using t2 by (simp add: Request_def)
  then have "fst (Reserve (t', ?c) later) = Some (ts_ticket c)"
    using assms ok grace by (simp add: Reserve_def WakeAt_def)
  with first show ?thesis by blast
qed

definition sample_running :: trace_system where
  "sample_running =
     (let t = snd (Start TracePolicy_init ''t'' mode_into 9 1000 0x1000 []);
          (k, c) = Begin TraceStopCoordinator_init 1 7 in
      snd (Step (stop_Submitted (t, c) k True) 0x1004 False 10))"

theorem Reserve_after_grace_witness:
  "\<exists>s1. Reserve sample_running 1000 = (None, s1) \<and>
     fst (Reserve s1 60000000) = Some \<lparr>tk_trace = 1, tk_process = 1\<rparr>"
proof -
  have "Active (fst sample_running)" "ts_resumed (snd sample_running)"
    "\<not> ts_attempted (snd sample_running)" "\<not> ts_cooperative (snd sample_running)"
    "\<not> ts_paused (snd sample_running)" "\<not> ts_exited (snd sample_running)"
    "\<not> ts_requested (snd sample_running)" "tp_deadline (fst sample_running) \<le> 1000"
    "1000 + kCooperativeGrace \<le> 60000000" "60000000 < time_max"
    by code_simp+
  from Reserve_after_grace [OF this] have "\<exists>s1. Reserve sample_running 1000 = (None, s1) \<and>
      fst (Reserve s1 60000000) = Some (ts_ticket (snd sample_running))" by simp
  moreover have "ts_ticket (snd sample_running) = \<lparr>tk_trace = 1, tk_process = 1\<rparr>" by code_simp
  ultimately show ?thesis by simp
qed

theorem Reserve_once_witness:
  "fst (Reserve (snd (Reserve (snd (Reserve sample_running 1000)) 60000000)) 90000000) = None"
proof -
  let ?s = "snd (Reserve sample_running 1000)"
  have a: "(60000000 :: int) < time_max" "(90000000 :: int) < time_max"
    by (simp_all add: time_max_def)
  have "fst (Reserve ?s 60000000) = Some \<lparr>tk_trace = 1, tk_process = 1\<rparr>" by code_simp
  then have r: "Reserve ?s 60000000 = (Some \<lparr>tk_trace = 1, tk_process = 1\<rparr>, snd (Reserve ?s 60000000))"
    by (metis prod.collapse)
  from Reserve_once [OF a(1) r reaches_refl a(2)] show ?thesis .
qed

text \<open>
  Tickets fence stale work: an answer to a submission, an issued or abandoned interrupt and
  its retirement that carry the ticket of an earlier trace change nothing, and every new trace
  gets a ticket different from the last one.
\<close>

theorem stale_ticket_ignored:
  assumes "k \<noteq> ts_ticket c"
  shows "stop_Submitted (t, c) k accepted = (t, c) \<and> Issue c k thread a = (False, c) \<and>
    AbandonIssue c k = c \<and> FinishInterrupt (t, c) k retired = (t, c) \<and>
    fst (Begin c epoch pid) \<noteq> ts_ticket c"
proof -
  have "tk_trace (fst (Begin c epoch pid)) = tk_trace (ts_ticket c) + 1"
    by (simp add: Begin_def Let_def)
  then have "fst (Begin c epoch pid) \<noteq> ts_ticket c" by (metis add_cancel_right_right zero_neq_one)
  with assms show ?thesis
    by (simp add: stop_Submitted_def Issue_def AbandonIssue_def FinishInterrupt_def Current_def)
qed

theorem stale_ticket_ignored_witness:
  "stop_Submitted (TracePolicy_init, TraceStopCoordinator_init) \<lparr>tk_trace = 9, tk_process = 1\<rparr> True =
   (TracePolicy_init, TraceStopCoordinator_init)"
  using stale_ticket_ignored
    [of "\<lparr>tk_trace = 9, tk_process = 1\<rparr>" TraceStopCoordinator_init TracePolicy_init True 0 0 True 0 0]
  by (simp add: TraceStopCoordinator_init_def)

end
