(* ===== verification/Command_Fence.thy ===== *)
theory Command_Fence
  imports Prelude
begin

text \<open>
  \<open>plugin/src/command_fence.cpp\<close>: one pending token at a time, completed by the command loop and
  awaited by the operation that armed it. Every method holds the mutex, so it is one atomic step;
  \<open>Wait\<close> is the step in which it returns, when its predicate holds or its deadline has passed.
\<close>

record CommandFence =
  cf_pending :: "u64 option"
  cf_accepting :: bool
  cf_completed :: bool

datatype CommandFenceWait = fw_completed | fw_timedOut | fw_stopped

definition CommandFence_init :: CommandFence where
  "CommandFence_init = \<lparr>cf_pending = None, cf_accepting = False, cf_completed = False\<rparr>"

definition fence_Start :: "CommandFence \<Rightarrow> bool \<times> CommandFence" where
  "fence_Start f =
     (if cf_accepting f \<or> cf_pending f \<noteq> None then (False, f)
      else (True, f\<lparr>cf_accepting := True, cf_completed := False\<rparr>))"

definition fence_Stop :: "CommandFence \<Rightarrow> CommandFence" where
  "fence_Stop f = f\<lparr>cf_accepting := False, cf_pending := None, cf_completed := False\<rparr>"

definition fence_Arm :: "CommandFence \<Rightarrow> u64 \<Rightarrow> bool \<times> CommandFence" where
  "fence_Arm f token =
     (if \<not> cf_accepting f \<or> token = 0 \<or> cf_pending f \<noteq> None then (False, f)
      else (True, f\<lparr>cf_pending := Some token, cf_completed := False\<rparr>))"

definition fence_Signal :: "CommandFence \<Rightarrow> u64 \<Rightarrow> bool \<times> CommandFence" where
  "fence_Signal f token =
     (if \<not> cf_accepting f \<or> cf_pending f \<noteq> Some token then (False, f)
      else (True, f\<lparr>cf_completed := True\<rparr>))"

definition fence_Cancel :: "CommandFence \<Rightarrow> u64 \<Rightarrow> CommandFence" where
  "fence_Cancel f token =
     (if cf_pending f \<noteq> Some token then f else f\<lparr>cf_pending := None, cf_completed := False\<rparr>)"

definition fence_Wait :: "CommandFence \<Rightarrow> u64 \<Rightarrow> CommandFenceWait \<times> CommandFence" where
  "fence_Wait f token =
     (let observed = (\<not> cf_accepting f \<or> (cf_pending f = Some token \<and> cf_completed f)) in
      if \<not> cf_accepting f then (fw_stopped, f)
      else if \<not> observed \<or> cf_pending f \<noteq> Some token \<or> \<not> cf_completed f then
        (fw_timedOut,
         (if cf_pending f = Some token then f\<lparr>cf_pending := None\<rparr> else f)\<lparr>cf_completed := False\<rparr>)
      else (fw_completed, f\<lparr>cf_pending := None, cf_completed := False\<rparr>))"

section \<open>Sequences of calls\<close>

datatype fence_call = Call_Start | Call_Stop | Call_Arm u64 | Call_Signal u64 | Call_Cancel u64
  | Call_Wait u64

fun fence_apply :: "CommandFence \<Rightarrow> fence_call \<Rightarrow> CommandFence" where
  "fence_apply f Call_Start = snd (fence_Start f)"
| "fence_apply f Call_Stop = fence_Stop f"
| "fence_apply f (Call_Arm t) = snd (fence_Arm f t)"
| "fence_apply f (Call_Signal t) = snd (fence_Signal f t)"
| "fence_apply f (Call_Cancel t) = fence_Cancel f t"
| "fence_apply f (Call_Wait t) = snd (fence_Wait f t)"

definition fence_run :: "fence_call list \<Rightarrow> CommandFence" where
  "fence_run calls = foldl fence_apply CommandFence_init calls"

text \<open>Calls that leave a token \<open>t\<close> pending.\<close>

definition keeps :: "u64 \<Rightarrow> fence_call list \<Rightarrow> bool" where
  "keeps t calls \<longleftrightarrow> Call_Stop \<notin> set calls \<and> Call_Cancel t \<notin> set calls \<and> Call_Wait t \<notin> set calls"

definition armed_by :: "fence_call list \<Rightarrow> u64 \<Rightarrow> bool" where
  "armed_by calls t \<longleftrightarrow> (\<exists>a b. calls = a @ Call_Arm t # b \<and> keeps t b)"

definition signalled_by :: "fence_call list \<Rightarrow> u64 \<Rightarrow> bool" where
  "signalled_by calls t \<longleftrightarrow>
     (\<exists>a b c. calls = a @ Call_Arm t # b @ Call_Signal t # c \<and> keeps t (b @ c))"

lemma armed_by_snoc: "armed_by calls t \<Longrightarrow> keeps t [x] \<Longrightarrow> armed_by (calls @ [x]) t"
proof -
  assume "armed_by calls t" "keeps t [x]"
  then obtain a b where "calls = a @ Call_Arm t # b" "keeps t b" by (auto simp: armed_by_def)
  with \<open>keeps t [x]\<close> show ?thesis
    unfolding armed_by_def by (intro exI [of _ a] exI [of _ "b @ [x]"]) (auto simp: keeps_def)
qed

lemma signalled_by_snoc: "signalled_by calls t \<Longrightarrow> keeps t [x] \<Longrightarrow> signalled_by (calls @ [x]) t"
proof -
  assume "signalled_by calls t" "keeps t [x]"
  then obtain a b c where "calls = a @ Call_Arm t # b @ Call_Signal t # c" "keeps t (b @ c)"
    by (auto simp: signalled_by_def)
  with \<open>keeps t [x]\<close> show ?thesis
    unfolding signalled_by_def
    by (intro exI [of _ a] exI [of _ b] exI [of _ "c @ [x]"]) (auto simp: keeps_def)
qed

lemma armed_by_Arm: "armed_by (calls @ [Call_Arm t]) t"
  unfolding armed_by_def by (intro exI [of _ calls] exI [of _ "[]"]) (simp add: keeps_def)

lemma signalled_by_Signal: "armed_by calls t \<Longrightarrow> signalled_by (calls @ [Call_Signal t]) t"
proof -
  assume "armed_by calls t"
  then obtain a b where "calls = a @ Call_Arm t # b" "keeps t b" by (auto simp: armed_by_def)
  then show ?thesis
    unfolding signalled_by_def
    by (intro exI [of _ a] exI [of _ b] exI [of _ "[]"]) (auto simp: keeps_def)
qed

text \<open>What the state says about the calls that led to it.\<close>

definition fence_inv :: "fence_call list \<Rightarrow> CommandFence \<Rightarrow> bool" where
  "fence_inv calls f \<longleftrightarrow> pred_option (armed_by calls) (cf_pending f) \<and>
     (cf_completed f \<longrightarrow> (\<exists>t. cf_pending f = Some t \<and> signalled_by calls t)) \<and>
     (cf_pending f \<noteq> None \<longrightarrow> cf_accepting f)"

lemma fence_inv_keep:
  "fence_inv calls f \<Longrightarrow> cf_pending f' = cf_pending f \<Longrightarrow> cf_completed f' \<longrightarrow> cf_completed f \<Longrightarrow>
   cf_accepting f \<longrightarrow> cf_accepting f' \<Longrightarrow>
   pred_option (\<lambda>t. keeps t [x]) (cf_pending f) \<Longrightarrow> fence_inv (calls @ [x]) f'"
  by (cases "cf_pending f") (auto simp: fence_inv_def armed_by_snoc signalled_by_snoc)

lemma fence_inv_clear:
  "cf_pending f' = None \<Longrightarrow> \<not> cf_completed f' \<Longrightarrow> fence_inv (calls @ [x]) f'"
  by (simp add: fence_inv_def)

lemma fence_inv_step: "fence_inv calls f \<Longrightarrow> fence_inv (calls @ [x]) (fence_apply f x)"
proof (cases x)
  case Call_Start
  assume "fence_inv calls f"
  with Call_Start show ?thesis
    by (auto intro!: fence_inv_keep simp: fence_Start_def keeps_def pred_option_def)
next
  case Call_Stop
  then show ?thesis by (simp add: fence_inv_clear fence_Stop_def)
next
  case (Call_Arm t)
  assume "fence_inv calls f"
  with Call_Arm show ?thesis
    by (auto intro: fence_inv_keep simp: fence_Arm_def keeps_def pred_option_def)
      (simp add: fence_inv_def armed_by_Arm)
next
  case (Call_Signal t)
  assume inv: "fence_inv calls f"
  show ?thesis
  proof (cases "cf_accepting f \<and> cf_pending f = Some t")
    case True
    with inv have "armed_by calls t" by (simp add: fence_inv_def)
    with True Call_Signal show ?thesis
      by (simp add: fence_Signal_def fence_inv_def signalled_by_Signal armed_by_snoc keeps_def)
  next
    case False
    with inv Call_Signal show ?thesis
      by (auto intro!: fence_inv_keep simp: fence_Signal_def keeps_def pred_option_def)
  qed
next
  case (Call_Cancel t)
  assume "fence_inv calls f"
  with Call_Cancel show ?thesis
    by (auto intro: fence_inv_keep fence_inv_clear simp: fence_Cancel_def keeps_def pred_option_def)
next
  case (Call_Wait t)
  assume inv: "fence_inv calls f"
  show ?thesis
  proof (cases "cf_pending f = Some t")
    case True
    with inv Call_Wait show ?thesis
      by (auto simp: fence_Wait_def Let_def fence_inv_clear fence_inv_def [of calls])
  next
    case False
    with inv Call_Wait show ?thesis
      by (auto intro!: fence_inv_keep simp: fence_Wait_def Let_def keeps_def pred_option_def)
  qed
qed

lemma fence_inv_run: "fence_inv calls (fence_run calls)"
proof (induction calls rule: rev_induct)
  case Nil
  then show ?case by (simp add: fence_run_def CommandFence_init_def fence_inv_def)
next
  case (snoc x calls)
  from fence_inv_step [OF this, of x] show ?case by (simp add: fence_run_def)
qed

text \<open>
  C26. No stale completion: after any sequence of calls, a wait reports \<open>completed\<close> only for a
  token that was armed and then signalled, with no stop, no cancellation and no earlier wait of
  that token in between.
\<close>

theorem fence_Wait_not_stale:
  assumes "fst (fence_Wait (fence_run calls) t) = fw_completed"
  shows "\<exists>a b c. calls = a @ Call_Arm t # b @ Call_Signal t # c \<and> keeps t (b @ c)"
  using assms fence_inv_run [of calls]
  by (auto simp: fence_Wait_def fence_inv_def signalled_by_def Let_def split: if_splits)

theorem fence_Wait_not_stale_witness:
  "\<exists>a b c. [Call_Start, Call_Arm 7, Call_Signal 7] = a @ Call_Arm 7 # b @ Call_Signal 7 # c \<and> keeps 7 (b @ c)"
  by (rule fence_Wait_not_stale) code_simp

text \<open>
  The fence is usable again after every wait: while it is accepting, waiting for the token
  that was armed always leaves no token pending, and the next token can be armed; and when the
  token was signalled the wait does report \<open>completed\<close>.
\<close>

theorem fence_Wait_releases:
  assumes "cf_accepting f" "cf_pending f = Some t" "u \<noteq> 0"
  shows "fst (fence_Arm (snd (fence_Wait f t)) u) \<and>
    fst (fence_Wait (snd (fence_Signal f t)) t) = fw_completed"
  using assms by (auto simp: fence_Wait_def fence_Arm_def fence_Signal_def Let_def)

theorem fence_Wait_releases_witness:
  "fst (fence_Arm (snd (fence_Wait (fence_run [Call_Start, Call_Arm 7]) 7)) 8) \<and>
   fst (fence_Wait (snd (fence_Signal (fence_run [Call_Start, Call_Arm 7]) 7)) 7) = fw_completed"
  by (rule fence_Wait_releases) code_simp+

end
