(* ===== verification/Debugger_Executor.thy ===== *)
theory Debugger_Executor
  imports Prelude
begin

text \<open>
  \<open>plugin/src/debugger_executor.cpp\<close>: clients queue operations with a deadline, one worker thread
  runs them. The clients, the worker and \<open>Stop\<close> interleave, so the model is a step relation
  whose steps are the critical sections and the single accesses to the atomic flags, in the order
  the code performs them:
  \<^item> \<open>Execute\<close> submits under the mutex, then waits; it ends either because the promise was
    fulfilled, or it stores \<open>cancelled\<close> and afterwards loads \<open>started\<close>;
  \<^item> \<open>Worker\<close> pops under the mutex, loads \<open>cancelled\<close>, stores \<open>started\<close>, runs the operation
    and fulfils the promise;
  \<^item> \<open>Stop\<close> closes the queue and cancels what is in it, and after the worker has returned
    clears the rest.

  A unit of work is named by a number; a client's own progress and the operations that ran are
  recorded in the state. The payload of an operation plays no role.
\<close>

definition kCapacity :: nat where "kCapacity = 32"

datatype ExecutionStatus = ex_completed | ex_busy | ex_timedOutQueued | ex_timedOutStarted | ex_stopped

text \<open>Where a client is: not called yet, waiting, cancelling after its deadline, or returned.\<close>

datatype client = Absent | Waiting | Cancelling | Returned ExecutionStatus

text \<open>Where the worker is; the number is the work it holds.\<close>

datatype worker = NoThread | Idle | Popped nat | Checked nat | Running nat | Finished

record executor =
  dx_queue :: "nat list"
  dx_accepting :: bool
  dx_stopping :: bool
  dx_worker :: worker
  dx_started :: "nat \<Rightarrow> bool"
  dx_cancelled :: "nat \<Rightarrow> bool"
  dx_done :: "nat \<Rightarrow> bool"
  dx_client :: "nat \<Rightarrow> client"
  dx_runs :: "nat list"

definition executor_init :: executor where
  "executor_init =
     \<lparr>dx_queue = [], dx_accepting = False, dx_stopping = False, dx_worker = NoThread,
      dx_started = (\<lambda>_. False), dx_cancelled = (\<lambda>_. False), dx_done = (\<lambda>_. False),
      dx_client = (\<lambda>_. Absent), dx_runs = []\<rparr>"

text \<open>\<open>Start\<close>: the thread is joinable while there is a worker.\<close>

definition executor_Start :: "executor \<Rightarrow> bool \<times> executor" where
  "executor_Start s =
     (if dx_accepting s \<or> dx_worker s \<noteq> NoThread then (False, s)
      else (True, s\<lparr>dx_stopping := False, dx_accepting := True, dx_worker := Idle\<rparr>))"

text \<open>The critical section of \<open>Execute\<close>.\<close>

definition Execute_submit :: "executor \<Rightarrow> nat \<Rightarrow> executor" where
  "Execute_submit s w =
     (if \<not> dx_accepting s then s\<lparr>dx_client := (dx_client s)(w := Returned ex_stopped)\<rparr>
      else if length (dx_queue s) \<ge> kCapacity
      then s\<lparr>dx_client := (dx_client s)(w := Returned ex_busy)\<rparr>
      else s\<lparr>dx_queue := dx_queue s @ [w], dx_client := (dx_client s)(w := Waiting)\<rparr>)"

definition Execute_ready :: "executor \<Rightarrow> nat \<Rightarrow> executor" where
  "Execute_ready s w = s\<lparr>dx_client := (dx_client s)(w := Returned ex_completed)\<rparr>"

definition Execute_cancel :: "executor \<Rightarrow> nat \<Rightarrow> executor" where
  "Execute_cancel s w =
     s\<lparr>dx_cancelled := (dx_cancelled s)(w := True), dx_client := (dx_client s)(w := Cancelling)\<rparr>"

definition Execute_report :: "executor \<Rightarrow> nat \<Rightarrow> executor" where
  "Execute_report s w =
     s\<lparr>dx_client := (dx_client s)
         (w := Returned (if dx_started s w then ex_timedOutStarted else ex_timedOutQueued))\<rparr>"

text \<open>One step of \<open>Worker\<close>, \<open>None\<close> while it has to wait.\<close>

definition Worker_step :: "executor \<Rightarrow> executor option" where
  "Worker_step s =
     (case dx_worker s of
        Idle \<Rightarrow>
          (case dx_queue s of
             w # q \<Rightarrow> Some (s\<lparr>dx_queue := q, dx_worker := Popped w\<rparr>)
           | [] \<Rightarrow> if dx_stopping s then Some (s\<lparr>dx_worker := Finished\<rparr>) else None)
      | Popped w \<Rightarrow>
          if dx_cancelled s w then Some (s\<lparr>dx_done := (dx_done s)(w := True), dx_worker := Idle\<rparr>)
          else Some (s\<lparr>dx_worker := Checked w\<rparr>)
      | Checked w \<Rightarrow> Some (s\<lparr>dx_started := (dx_started s)(w := True), dx_worker := Running w\<rparr>)
      | Running w \<Rightarrow>
          Some (s\<lparr>dx_runs := dx_runs s @ [w], dx_done := (dx_done s)(w := True), dx_worker := Idle\<rparr>)
      | NoThread \<Rightarrow> None
      | Finished \<Rightarrow> None)"

definition Stop_request :: "executor \<Rightarrow> executor" where
  "Stop_request s =
     s\<lparr>dx_accepting := False, dx_stopping := True,
       dx_cancelled := (\<lambda>w. dx_cancelled s w \<or> w \<in> set (dx_queue s))\<rparr>"

text \<open>The part of \<open>Stop\<close> behind the join: the thread has returned or was never started.\<close>

definition Stop_joined :: "executor \<Rightarrow> executor" where
  "Stop_joined s = s\<lparr>dx_queue := [], dx_stopping := False, dx_worker := NoThread\<rparr>"

inductive executor_step :: "executor \<Rightarrow> executor \<Rightarrow> bool" where
  start: "executor_Start s = (ok, s') \<Longrightarrow> executor_step s s'"
| submit: "dx_client s w = Absent \<Longrightarrow> executor_step s (Execute_submit s w)"
| ready: "dx_client s w = Waiting \<Longrightarrow> dx_done s w \<Longrightarrow> executor_step s (Execute_ready s w)"
| cancel: "dx_client s w = Waiting \<Longrightarrow> executor_step s (Execute_cancel s w)"
| report: "dx_client s w = Cancelling \<Longrightarrow> executor_step s (Execute_report s w)"
| worker: "Worker_step s = Some s' \<Longrightarrow> executor_step s s'"
| stop: "executor_step s (Stop_request s)"
| joined: "\<not> dx_accepting s \<Longrightarrow> dx_worker s \<in> {Finished, NoThread} \<Longrightarrow> executor_step s (Stop_joined s)"

inductive_cases executor_stepE: "executor_step s s'"

definition executor_initial :: "executor \<Rightarrow> bool" where
  "executor_initial s \<longleftrightarrow> s = executor_init"

section \<open>The invariant\<close>

text \<open>The work the worker holds.\<close>

definition held :: "executor \<Rightarrow> nat list" where
  "held s = (case dx_worker s of Popped w \<Rightarrow> [w] | Checked w \<Rightarrow> [w] | Running w \<Rightarrow> [w] | _ \<Rightarrow> [])"

definition accepted :: "executor \<Rightarrow> nat \<Rightarrow> bool" where
  "accepted s w \<longleftrightarrow> dx_client s w \<notin> {Absent, Returned ex_busy, Returned ex_stopped}"

definition executor_inv :: "executor \<Rightarrow> bool" where
  "executor_inv s \<longleftrightarrow>
     length (dx_queue s) \<le> kCapacity \<and>
     distinct (dx_runs s @ held s @ dx_queue s) \<and>
     (\<forall>w. accepted s w \<longleftrightarrow> w \<in> set (held s @ dx_queue s) \<or> dx_done s w) \<and>
     (\<forall>w. dx_done s w \<longrightarrow> w \<notin> set (held s @ dx_queue s)) \<and>
     (\<forall>w \<in> set (dx_runs s). dx_done s w \<and> dx_started s w) \<and>
     (\<forall>w. dx_client s w = Returned ex_completed \<longrightarrow> dx_done s w) \<and>
     (dx_worker s \<in> {NoThread, Finished} \<longrightarrow> dx_queue s = [] \<and> \<not> dx_accepting s) \<and>
     (dx_stopping s \<longrightarrow> \<not> dx_accepting s) \<and>
     (\<forall>w. dx_started s w \<longrightarrow> accepted s w) \<and>
     (\<forall>w. dx_worker s = Running w \<longrightarrow> dx_started s w)"

lemma accepted_client [simp]:
  "accepted (s\<lparr>dx_client := (dx_client s)(w := c)\<rparr>) v =
   (if v = w then c \<notin> {Absent, Returned ex_busy, Returned ex_stopped} else accepted s v)"
  "accepted (s\<lparr>dx_queue := q, dx_client := (dx_client s)(w := c)\<rparr>) v =
   (if v = w then c \<notin> {Absent, Returned ex_busy, Returned ex_stopped} else accepted s v)"
  by (simp_all add: accepted_def)

lemma held_frame:
  "held (s\<lparr>dx_client := a\<rparr>) = held s" "held (s\<lparr>dx_cancelled := b\<rparr>) = held s"
  "held (s\<lparr>dx_queue := q\<rparr>) = held s" "held (s\<lparr>dx_accepting := x\<rparr>) = held s"
  "held (s\<lparr>dx_stopping := y\<rparr>) = held s" "held (s\<lparr>dx_done := d\<rparr>) = held s"
  by (simp_all add: held_def)

lemma accepted_frame:
  "accepted (s\<lparr>dx_cancelled := b\<rparr>) = accepted s" "accepted (s\<lparr>dx_queue := q\<rparr>) = accepted s"
  "accepted (s\<lparr>dx_accepting := x\<rparr>) = accepted s" "accepted (s\<lparr>dx_stopping := y\<rparr>) = accepted s"
  "accepted (s\<lparr>dx_worker := w\<rparr>) = accepted s" "accepted (s\<lparr>dx_done := d\<rparr>) = accepted s"
  "accepted (s\<lparr>dx_started := e\<rparr>) = accepted s" "accepted (s\<lparr>dx_runs := r\<rparr>) = accepted s"
  by (simp_all add: accepted_def fun_eq_iff)

lemmas frames [simp] = held_frame accepted_frame

lemma inv_start: "executor_inv s \<Longrightarrow> executor_Start s = (ok, s') \<Longrightarrow> executor_inv s'"
  by (auto simp: executor_Start_def executor_inv_def held_def split: if_splits)

lemma inv_submit:
  assumes "executor_inv s" "dx_client s w = Absent"
  shows "executor_inv (Execute_submit s w)"
proof -
  have na: "\<not> accepted s w" using assms(2) by (simp add: accepted_def)
  with assms have fresh: "w \<notin> set (held s @ dx_queue s)" "\<not> dx_done s w" "\<not> dx_started s w"
    "w \<notin> set (dx_runs s)"
    unfolding executor_inv_def by blast+
  show ?thesis
  proof (cases "dx_accepting s \<and> length (dx_queue s) < kCapacity")
    case True
    then have eq: "Execute_submit s w = s\<lparr>dx_queue := dx_queue s @ [w], dx_client := (dx_client s)(w := Waiting)\<rparr>"
      by (simp add: Execute_submit_def)
    show ?thesis using assms(1) fresh True unfolding eq executor_inv_def by auto
  next
    case False
    then obtain c where eq: "Execute_submit s w = s\<lparr>dx_client := (dx_client s)(w := c)\<rparr>"
        "c = Returned ex_stopped \<or> c = Returned ex_busy"
      by (cases "dx_accepting s") (simp_all add: Execute_submit_def)
    show ?thesis using assms(1) fresh eq(2) na unfolding eq(1) executor_inv_def by auto
  qed
qed

lemma inv_client:
  assumes "executor_inv s" "accepted s w" "c \<notin> {Absent, Returned ex_busy, Returned ex_stopped}"
    "c = Returned ex_completed \<longrightarrow> dx_done s w"
  shows "executor_inv (s\<lparr>dx_client := (dx_client s)(w := c)\<rparr>)"
  using assms unfolding executor_inv_def by auto

lemma inv_cancelled: "executor_inv s \<Longrightarrow> executor_inv (s\<lparr>dx_cancelled := b\<rparr>)"
  by (auto simp: executor_inv_def)

lemma inv_stop: "executor_inv s \<Longrightarrow> executor_inv (Stop_request s)"
  unfolding Stop_request_def executor_inv_def by auto

lemma inv_joined:
  "executor_inv s \<Longrightarrow> dx_worker s \<in> {Finished, NoThread} \<Longrightarrow> executor_inv (Stop_joined s)"
  unfolding Stop_joined_def executor_inv_def held_def by auto

lemma inv_worker:
  assumes inv: "executor_inv s" and step: "Worker_step s = Some s'"
  shows "executor_inv s'"
proof (cases "dx_worker s")
  case Idle
  show ?thesis
  proof (cases "dx_queue s")
    case Nil
    with step Idle have "s' = s\<lparr>dx_worker := Finished\<rparr>" "dx_stopping s"
      by (auto simp: Worker_step_def split: if_splits)
    with inv Idle Nil show ?thesis by (auto simp: executor_inv_def held_def)
  next
    case (Cons w q)
    with step Idle have "s' = s\<lparr>dx_queue := q, dx_worker := Popped w\<rparr>" by (simp add: Worker_step_def)
    with inv Idle Cons show ?thesis by (auto simp: executor_inv_def held_def)
  qed
next
  case (Popped w)
  with step have "s' = (if dx_cancelled s w
      then s\<lparr>dx_done := (dx_done s)(w := True), dx_worker := Idle\<rparr> else s\<lparr>dx_worker := Checked w\<rparr>)"
    by (auto simp: Worker_step_def)
  with inv Popped show ?thesis by (auto simp: executor_inv_def held_def)
next
  case (Checked w)
  with step have "s' = s\<lparr>dx_started := (dx_started s)(w := True), dx_worker := Running w\<rparr>"
    by (simp add: Worker_step_def)
  with inv Checked show ?thesis by (auto simp: executor_inv_def held_def)
next
  case (Running w)
  with step have "s' = s\<lparr>dx_runs := dx_runs s @ [w], dx_done := (dx_done s)(w := True), dx_worker := Idle\<rparr>"
    by (simp add: Worker_step_def)
  with inv Running show ?thesis by (auto simp: executor_inv_def held_def)
qed (use step in \<open>simp_all add: Worker_step_def\<close>)

lemma executor_inv_step: "executor_inv s \<Longrightarrow> executor_step s s' \<Longrightarrow> executor_inv s'"
proof (erule executor_stepE, goal_cases)
  case (3 w)
  then show ?case by (auto simp: Execute_ready_def accepted_def intro!: inv_client)
next
  case (4 w)
  let ?s = "s\<lparr>dx_cancelled := (dx_cancelled s)(w := True)\<rparr>"
  from 4 have "executor_inv ?s" "accepted ?s w" using inv_cancelled by (auto simp: accepted_def)
  from inv_client [OF this, of Cancelling] 4 show ?case by (simp add: Execute_cancel_def)
next
  case (5 w)
  then show ?case by (auto simp: Execute_report_def accepted_def intro!: inv_client)
qed (use inv_start inv_submit inv_worker inv_stop inv_joined in blast)+

lemma executor_inv_init: "executor_initial s \<Longrightarrow> executor_inv s"
  by (simp add: executor_initial_def executor_init_def executor_inv_def held_def accepted_def)

interpretation executor: invariant_system executor_initial executor_step executor_inv
  by unfold_locales (fact executor_inv_init, fact executor_inv_step)

text \<open>
  C4. The executor is bounded and runs nothing twice: in every reachable state at most 32
  operations are queued, no operation ran twice, none that was refused as busy or stopped ran or
  is queued, and a client is told \<open>completed\<close> only after its promise was fulfilled.
\<close>

theorem executor_safe:
  assumes "executor_initial s0" "reaches executor_step s0 s"
  shows "length (dx_queue s) \<le> kCapacity \<and> distinct (dx_runs s) \<and>
    {w. dx_client s w \<in> {Absent, Returned ex_busy, Returned ex_stopped}} \<inter>
      (set (dx_runs s) \<union> set (dx_queue s)) = {} \<and>
    {w. dx_client s w = Returned ex_completed} \<subseteq> {w. dx_done s w}"
proof -
  have inv: "executor_inv s" using executor.inv_reachable [OF assms] .
  have "accepted s w" if "w \<in> set (dx_runs s) \<union> set (dx_queue s)" for w
    using inv that unfolding executor_inv_def by auto
  with inv show ?thesis by (auto simp: executor_inv_def accepted_def)
qed

text \<open>A run of the executor as a list of steps, for concrete schedules.\<close>

datatype action = A_start | A_submit nat | A_ready nat | A_cancel nat | A_report nat | A_worker
  | A_stop | A_joined

fun act :: "executor \<Rightarrow> action \<Rightarrow> executor option" where
  "act s A_start = Some (snd (executor_Start s))"
| "act s (A_submit w) = (if dx_client s w = Absent then Some (Execute_submit s w) else None)"
| "act s (A_ready w) = (if dx_client s w = Waiting \<and> dx_done s w then Some (Execute_ready s w) else None)"
| "act s (A_cancel w) = (if dx_client s w = Waiting then Some (Execute_cancel s w) else None)"
| "act s (A_report w) = (if dx_client s w = Cancelling then Some (Execute_report s w) else None)"
| "act s A_worker = Worker_step s"
| "act s A_stop = Some (Stop_request s)"
| "act s A_joined = (if \<not> dx_accepting s \<and> dx_worker s \<in> {Finished, NoThread} then Some (Stop_joined s) else None)"

fun acts :: "executor \<Rightarrow> action list \<Rightarrow> executor option" where
  "acts s [] = Some s"
| "acts s (a # as) = (case act s a of None \<Rightarrow> None | Some s' \<Rightarrow> acts s' as)"

lemma act_step: "act s a = Some s' \<Longrightarrow> executor_step s s'"
  by (cases a) (auto split: if_splits intro: executor_step.intros prod.collapse [symmetric])

lemma acts_reaches: "acts s as = Some s' \<Longrightarrow> reaches executor_step r s \<Longrightarrow> reaches executor_step r s'"
  by (induction as arbitrary: s) (auto split: option.splits dest: act_step intro: reaches_step)

theorem executor_safe_witness:
  "\<exists>s. acts executor_init [A_start, A_submit 1, A_worker, A_worker, A_worker, A_worker, A_ready 1] = Some s \<and>
     distinct (dx_runs s) \<and> dx_done s 1"
proof -
  let ?as = "[A_start, A_submit 1, A_worker, A_worker, A_worker, A_worker, A_ready 1]"
  have i: "executor_initial executor_init" by (simp add: executor_initial_def)
  have a: "\<exists>s. acts executor_init ?as = Some s \<and> dx_client s 1 = Returned ex_completed"
    by (simp add: executor_init_def executor_Start_def Execute_submit_def Worker_step_def
        Execute_ready_def kCapacity_def)
  then obtain s where s: "acts executor_init ?as = Some s" "dx_client s 1 = Returned ex_completed"
    by blast
  from executor_safe [OF i acts_reaches [OF s(1) reaches_refl]] s show ?thesis by auto
qed



text \<open>
  C39. A client that is told its operation expired in the queue cannot rely on it: there is a
  reachable state in which \<open>Execute\<close> returned \<open>timedOutQueued\<close> and the operation ran all the
  same. The worker loads \<open>cancelled\<close> before it stores \<open>started\<close>, and the client's store and
  load fit in between.
\<close>

theorem timedOutQueued_may_run:
  "\<exists>s w. reaches executor_step executor_init s \<and> dx_client s w = Returned ex_timedOutQueued \<and>
     w \<in> set (dx_runs s)"
proof -
  let ?as = "[A_start, A_submit 1, A_worker, A_worker, A_cancel 1, A_report 1, A_worker, A_worker]"
  have "\<exists>s. acts executor_init ?as = Some s \<and> dx_client s 1 = Returned ex_timedOutQueued \<and>
      1 \<in> set (dx_runs s)"
    by (simp add: executor_init_def executor_Start_def Execute_submit_def Worker_step_def
        Execute_cancel_def Execute_report_def kCapacity_def)
  then show ?thesis using acts_reaches [OF _ reaches_refl] by blast
qed

end
