(* ===== verification/Events.thy ===== *)
theory Events
  imports Utf8 Cpp_Text
begin

text \<open>
  Debugger events: \<open>EventKind\<close> and \<open>EventRecord\<close> of \<open>event_stream.h\<close>, their wire names and
  their JSON form of \<open>runtime.cpp\<close>. The array \<open>sessionId\<close> is the list of its 80 bytes; its
  \<open>data()\<close> passed to \<open>JsonString\<close> is the C string in it.
\<close>

datatype EventKind = ev_debugInitialized | ev_processCreated | ev_systemBreakpoint | ev_breakpoint
  | ev_exception | ev_paused | ev_stepped | ev_resumed | ev_attached | ev_detached | ev_stopping
  | ev_processExited | ev_debugStopped | ev_threadCreated | ev_threadExited | ev_dllLoaded
  | ev_dllUnloaded | ev_debugString | ev_rip

record EventRecord =
  er_sessionId :: string
  er_timestampUnixMs :: u64
  er_sequence :: u64
  er_generation :: u64
  er_kind :: EventKind
  er_processId :: u32
  er_threadId :: u32
  er_address :: u64
  er_code :: u64
  er_auxiliary :: u32
  er_breakpointType :: u8
  er_hasProcessId :: bool
  er_hasThreadId :: bool
  er_hasAddress :: bool
  er_hasCode :: bool
  er_firstChance :: bool

definition empty_event :: EventRecord where
  "empty_event =
     \<lparr>er_sessionId = replicate 80 (CHR 0x00), er_timestampUnixMs = 0, er_sequence = 0,
      er_generation = 0, er_kind = ev_debugInitialized, er_processId = 0, er_threadId = 0,
      er_address = 0, er_code = 0, er_auxiliary = 0, er_breakpointType = 0,
      er_hasProcessId = False, er_hasThreadId = False, er_hasAddress = False,
      er_hasCode = False, er_firstChance = False\<rparr>"

fun EventKindName :: "EventKind \<Rightarrow> string" where
  "EventKindName ev_debugInitialized = ''debug_initialized''"
| "EventKindName ev_processCreated = ''process_created''"
| "EventKindName ev_systemBreakpoint = ''system_breakpoint''"
| "EventKindName ev_breakpoint = ''breakpoint''"
| "EventKindName ev_exception = ''exception''"
| "EventKindName ev_paused = ''paused''"
| "EventKindName ev_stepped = ''stepped''"
| "EventKindName ev_resumed = ''resumed''"
| "EventKindName ev_attached = ''attached''"
| "EventKindName ev_detached = ''detached''"
| "EventKindName ev_stopping = ''stopping''"
| "EventKindName ev_processExited = ''process_exited''"
| "EventKindName ev_debugStopped = ''debug_stopped''"
| "EventKindName ev_threadCreated = ''thread_created''"
| "EventKindName ev_threadExited = ''thread_exited''"
| "EventKindName ev_dllLoaded = ''dll_loaded''"
| "EventKindName ev_dllUnloaded = ''dll_unloaded''"
| "EventKindName ev_debugString = ''debug_string''"
| "EventKindName ev_rip = ''rip''"

definition ParseEventKind_values :: "EventKind list" where
  "ParseEventKind_values =
     [ev_debugInitialized, ev_processCreated, ev_systemBreakpoint, ev_breakpoint, ev_exception,
      ev_paused, ev_stepped, ev_resumed, ev_attached, ev_detached, ev_stopping, ev_processExited,
      ev_debugStopped, ev_threadCreated, ev_threadExited, ev_dllLoaded, ev_dllUnloaded,
      ev_debugString, ev_rip]"

primrec first_named :: "('e \<Rightarrow> string) \<Rightarrow> 'e list \<Rightarrow> string \<Rightarrow> 'e option" where
  "first_named name [] v = None"
| "first_named name (k # ks) v = (if v = name k then Some k else first_named name ks v)"

definition ParseEventKind :: "string \<Rightarrow> EventKind option" where
  "ParseEventKind v = first_named EventKindName ParseEventKind_values v"

definition HexValue :: "u64 \<Rightarrow> string" where
  "HexValue v = ''0x'' @ to_hex (unat v)"

definition breakpoint_type_name :: "u8 \<Rightarrow> string" where
  "breakpoint_type_name t =
     (if t = 1 then ''software'' else if t = 2 then ''hardware'' else if t = 4 then ''memory''
      else if t = 8 then ''dll'' else if t = 16 then ''exception'' else ''unknown'')"

text \<open>The JSON text \<open>"key":\<close> of the literals in the source.\<close>

definition json_key :: "string \<Rightarrow> string" where
  "json_key k = CHR 0x22 # k @ [CHR 0x22, CHR '':'']"

text \<open>The part of the text that depends on the kind of the event.\<close>

definition event_details :: "EventRecord \<Rightarrow> string" where
  "event_details event =
     (if er_kind event = ev_breakpoint then
        '','' @ json_key ''breakpoint_type'' @
        JsonString (breakpoint_type_name (er_breakpointType event)) @
        '','' @ json_key ''hit_count'' @ to_string (unat (er_auxiliary event))
      else if er_kind event = ev_exception then
        '','' @ json_key ''first_chance'' @
        (if er_firstChance event then ''true'' else ''false'')
      else if er_kind event = ev_threadExited \<or> er_kind event = ev_processExited \<or>
              er_kind event = ev_rip then
        '','' @ json_key ''status'' @ JsonString (HexValue (ucast (er_auxiliary event)))
      else if er_kind event = ev_debugString then
        '','' @ json_key ''length'' @ to_string (unat (er_auxiliary event)) @
        '','' @ json_key ''unicode'' @ (if er_firstChance event then ''true'' else ''false'')
      else [])"

definition BuildEventJson :: "EventRecord \<Rightarrow> string" where
  "BuildEventJson event =
     ''{'' @ json_key ''sequence'' @ to_string (unat (er_sequence event)) @
     '','' @ json_key ''session_id'' @ JsonString (c_field (er_sessionId event)) @
     '','' @ json_key ''timestamp_unix_ms'' @ to_string (unat (er_timestampUnixMs event)) @
     '','' @ json_key ''type'' @ JsonString (EventKindName (er_kind event)) @
     '','' @ json_key ''state_generation'' @ to_string (unat (er_generation event)) @
     (if er_hasProcessId event
      then '','' @ json_key ''process_id'' @ JsonString (HexValue (ucast (er_processId event)))
      else []) @
     (if er_hasThreadId event
      then '','' @ json_key ''thread_id'' @ JsonString (HexValue (ucast (er_threadId event)))
      else []) @
     (if er_hasAddress event
      then '','' @ json_key ''address'' @ JsonString (HexValue (er_address event)) else []) @
     (if er_hasCode event
      then '','' @ json_key ''code'' @ JsonString (HexValue (er_code event)) else []) @
     event_details event @ ''}''"

section \<open>Wire names\<close>

lemma first_named_SomeD: "first_named name ks v = Some k \<Longrightarrow> name k = v"
  by (induction ks) (auto split: if_splits)

interpretation event_kind: wire_enum EventKindName ParseEventKind
proof
  show "ParseEventKind (EventKindName e) = Some e" for e
    by (cases e) (simp_all add: ParseEventKind_def ParseEventKind_values_def)
qed (auto simp: ParseEventKind_def dest: first_named_SomeD)

section \<open>Bounds of the JSON form\<close>

lemma length_json_piece: "length (json_piece s) \<le> 6"
proof -
  have "length (json_escape c) \<le> 6" for c
    by (simp add: json_escape_def AppendAsciiJsonEscape_def)
  moreover have "seq_len s \<le> 4" by (simp add: seq_len_def)
  ultimately show ?thesis by (simp add: json_piece_def kReplacement_def min_le_iff_disj)
qed

lemma length_json_pieces: "length (concat (json_pieces s)) \<le> 6 * length s"
proof (induction s rule: json_pieces.induct)
  case (1 s)
  show ?case
  proof (cases "s = []")
    case True
    then show ?thesis by (subst json_pieces.simps) simp
  next
    case False
    have "1 \<le> json_advance s" by (simp add: json_advance_def)
    with False have "length (drop (json_advance s) s) + 1 \<le> length s"
      by (cases s) auto
    moreover have "length (concat (json_pieces s)) =
        length (json_piece s) + length (concat (json_pieces (drop (json_advance s) s)))"
      using False by (subst json_pieces.simps) simp
    ultimately show ?thesis using "1" [OF False] length_json_piece [of s] by linarith
  qed
qed

lemma length_JsonString: "length (JsonString s) \<le> 6 * length s + 2"
  using length_json_pieces [of s] by (simp add: JsonString_def JsonString_loop_pieces)

lemma length_to_string: "n < 10 ^ k \<Longrightarrow> 0 < k \<Longrightarrow> length (to_string n) \<le> k"
  by (simp add: to_string_def length_to_chars)

lemma length_HexValue: "length (HexValue v) \<le> 18"
proof -
  have "unat v < 16 ^ 16" using unsigned_less [of v] by simp
  then have "length (to_hex (unat v)) \<le> 16" by (simp add: to_hex_def length_to_chars)
  then show ?thesis by (simp add: HexValue_def)
qed

lemma length_JsonString_le: "length s \<le> n \<Longrightarrow> length (JsonString s) \<le> 6 * n + 2"
  using length_JsonString [of s] by linarith

lemma length_word_text: "length (to_string (unat (w :: u64))) \<le> 20"
  "length (to_string (unat (v :: u32))) \<le> 10"
proof -
  have "unat w < 10 ^ 20" "unat v < 10 ^ 10"
    using unsigned_less [of w, where 'a = nat] unsigned_less [of v, where 'a = nat] by simp_all
  then show "length (to_string (unat w)) \<le> 20" "length (to_string (unat v)) \<le> 10"
    by (auto intro: length_to_string)
qed

text \<open>An event always fits a frame: \<open>WriteFrame\<close> never refuses it for its size.\<close>

lemma BuildEventJson_bounded:
  assumes "length (er_sessionId e) \<le> 80"
  shows "0 < length (BuildEventJson e)" "length (BuildEventJson e) \<le> 2048"
proof -
  have "length (c_field (er_sessionId e)) \<le> 80"
    unfolding c_field_def using assms length_takeWhile_le le_trans by blast
  then have session: "length (JsonString (c_field (er_sessionId e))) \<le> 482"
    using length_JsonString_le by fastforce
  have "length (EventKindName k) \<le> 17" for k by (cases k) simp_all
  then have kind: "length (JsonString (EventKindName k)) \<le> 104" for k
    using length_JsonString_le by fastforce
  have "length (breakpoint_type_name t) \<le> 9" for t by (simp add: breakpoint_type_name_def)
  then have type: "length (JsonString (breakpoint_type_name t)) \<le> 56" for t
    using length_JsonString_le by fastforce
  have hex: "length (JsonString (HexValue v)) \<le> 110" for v
    using length_JsonString_le [OF length_HexValue] by simp
  note bounds = session kind [of "er_kind e"] type [of "er_breakpointType e"]
    hex [of "ucast (er_processId e)"] hex [of "ucast (er_threadId e)"] hex [of "er_address e"]
    hex [of "er_code e"] hex [of "ucast (er_auxiliary e)"]
    length_word_text(1) [of "er_sequence e"] length_word_text(1) [of "er_timestampUnixMs e"]
    length_word_text(1) [of "er_generation e"] length_word_text(2) [of "er_auxiliary e"]
  show "0 < length (BuildEventJson e)" by (simp add: BuildEventJson_def)
  have "length (event_details e) \<le> 240"
    using bounds by (simp add: event_details_def json_key_def)
  moreover have opt: "length (if b then x else []) \<le> n" if "length x \<le> n" for b x n
    using that by simp
  have "length (if er_hasProcessId e
      then '','' @ json_key ''process_id'' @ JsonString (HexValue (ucast (er_processId e)))
      else []) \<le> 130"
    using bounds by (intro opt) (simp add: json_key_def)
  moreover have "length (if er_hasThreadId e
      then '','' @ json_key ''thread_id'' @ JsonString (HexValue (ucast (er_threadId e)))
      else []) \<le> 130"
    using bounds by (intro opt) (simp add: json_key_def)
  moreover have "length (if er_hasAddress e
      then '','' @ json_key ''address'' @ JsonString (HexValue (er_address e)) else []) \<le> 130"
    using bounds by (intro opt) (simp add: json_key_def)
  moreover have "length (if er_hasCode e
      then '','' @ json_key ''code'' @ JsonString (HexValue (er_code e)) else []) \<le> 130"
    using bounds by (intro opt) (simp add: json_key_def)
  moreover have "length (json_key k) = length k + 3" for k by (simp add: json_key_def)
  ultimately show "length (BuildEventJson e) \<le> 2048"
    unfolding BuildEventJson_def length_append using bounds by (simp del: if_split)
qed

end
