(* ===== verification/Frames.thy ===== *)
theory Frames
  imports Cpp_Text
begin

text \<open>
  The frames on the pipes: \<open>WriteAll\<close>, \<open>ReadAll\<close>, \<open>WriteFrame\<close> and \<open>ReadFrame\<close> of
  \<open>runtime.cpp\<close>, which \<open>event_stream.cpp\<close> repeats. A frame is its length as a little-endian
  \<open>DWORD\<close> and the payload. \<open>ReadFile\<close> and \<open>WriteFile\<close> may transfer fewer bytes than asked for;
  they are parameters, \<open>None\<close> for the result \<open>FALSE\<close>, and \<open>pipe_ok\<close> states what Windows
  documents for a connected byte-mode pipe.
\<close>

definition kMaxFrameBytes :: nat where
  "kMaxFrameBytes = 1024 * 1024"

function WriteAll :: "('p \<Rightarrow> string \<Rightarrow> (nat \<times> 'p) option) \<Rightarrow> 'p \<Rightarrow> string \<Rightarrow> bool \<times> 'p" where
  "WriteAll writeFile pipe bytes =
     (if bytes = [] then (True, pipe)
      else
        (case writeFile pipe bytes of
           None \<Rightarrow> (False, pipe)
         | Some (written, pipe') \<Rightarrow>
             if written = 0 then (False, pipe') else WriteAll writeFile pipe' (drop written bytes)))"
  by pat_completeness auto
termination
  by (relation "measure (\<lambda>(w, p, bytes). length bytes)") (auto split: if_splits)

declare WriteAll.simps [simp del]

function ReadAll :: "('p \<Rightarrow> nat \<Rightarrow> (string \<times> 'p) option) \<Rightarrow> 'p \<Rightarrow> nat \<Rightarrow> string option \<times> 'p" where
  "ReadAll readFile pipe sz =
     (if sz = 0 then (Some [], pipe)
      else
        (case readFile pipe sz of
           None \<Rightarrow> (None, pipe)
         | Some (bytes, pipe') \<Rightarrow>
             if bytes = [] then (None, pipe')
             else
               let (rest, pipe'') = ReadAll readFile pipe' (sz - length bytes) in
               (map_option (\<lambda>r. bytes @ r) rest, pipe'')))"
  by pat_completeness auto
termination
  by (relation "measure (\<lambda>(r, p, sz). sz)") (auto split: if_splits)

declare ReadAll.simps [simp del]

text \<open>The bytes of a \<open>DWORD\<close> in memory.\<close>

definition dword_bytes :: "nat \<Rightarrow> string" where
  "dword_bytes n = map (\<lambda>i. char_of (n div 256 ^ i mod 256)) [0, 1, 2, 3]"

definition dword_value :: "string \<Rightarrow> nat" where
  "dword_value s = foldr (\<lambda>c n. char_code c + 256 * n) s 0"

definition WriteFrame :: "('p \<Rightarrow> string \<Rightarrow> (nat \<times> 'p) option) \<Rightarrow> 'p \<Rightarrow> string \<Rightarrow> bool \<times> 'p" where
  "WriteFrame writeFile pipe payload =
     (if payload = [] \<or> length payload > kMaxFrameBytes \<or> length payload > 4294967295
      then (False, pipe)
      else
        let (ok, pipe') = WriteAll writeFile pipe (dword_bytes (length payload)) in
        if \<not> ok then (False, pipe') else WriteAll writeFile pipe' payload)"

definition ReadFrame :: "('p \<Rightarrow> nat \<Rightarrow> (string \<times> 'p) option) \<Rightarrow> 'p \<Rightarrow> string option \<times> 'p" where
  "ReadFrame readFile pipe =
     (case ReadAll readFile pipe 4 of
        (None, pipe') \<Rightarrow> (None, pipe')
      | (Some header, pipe') \<Rightarrow>
          let len = dword_value header in
          if len = 0 \<or> len > kMaxFrameBytes then (None, pipe')
          else ReadAll readFile pipe' len)"

section \<open>Frames survive partial transfers\<close>

text \<open>
  \<open>contents\<close> gives the bytes in the pipe. A read takes a non-empty prefix of at most the size
  asked for while there are bytes, a write appends a non-empty prefix of its data.
\<close>

definition pipe_ok ::
    "('p \<Rightarrow> nat \<Rightarrow> (string \<times> 'p) option) \<Rightarrow> ('p \<Rightarrow> string \<Rightarrow> (nat \<times> 'p) option) \<Rightarrow> ('p \<Rightarrow> string) \<Rightarrow> bool" where
  "pipe_ok readFile writeFile contents \<longleftrightarrow>
     (\<forall>p n. 0 < n \<longrightarrow> contents p \<noteq> [] \<longrightarrow>
        (\<exists>d p'. readFile p n = Some (d, p') \<and> d \<noteq> [] \<and> length d \<le> n \<and> contents p = d @ contents p')) \<and>
     (\<forall>p s. s \<noteq> [] \<longrightarrow>
        (\<exists>k p'. writeFile p s = Some (k, p') \<and> 0 < k \<and> k \<le> length s \<and>
           contents p' = contents p @ take k s))"

lemma dword_roundtrip: "n < 2 ^ 32 \<Longrightarrow> dword_value (dword_bytes n) = n"
proof -
  assume "n < 2 ^ 32"
  then have "n div 16777216 < 256" by simp
  moreover have "n mod 256 + 256 * (n div 256 mod 256 + 256 * (n div 65536 mod 256 +
      256 * (n div 16777216))) = n"
  proof -
    have "n div 65536 = n div 256 div 256" "n div 16777216 = n div 65536 div 256"
      by (simp_all add: div_mult2_eq [symmetric])
    then have "n div 65536 mod 256 + 256 * (n div 16777216) = n div 65536"
      "n div 256 mod 256 + 256 * (n div 65536) = n div 256" by simp_all
    then show ?thesis by simp
  qed
  ultimately show ?thesis
    by (simp add: dword_value_def dword_bytes_def char_code_def)
qed

lemma WriteAll_appends:
  assumes ok: "pipe_ok readFile writeFile contents"
  shows "\<exists>p'. WriteAll writeFile p s = (True, p') \<and> contents p' = contents p @ s"
proof (induction "length s" arbitrary: p s rule: less_induct)
  case less
  show ?case
  proof (cases "s = []")
    case True
    then show ?thesis by (subst WriteAll.simps) simp
  next
    case False
    with ok obtain k p1 where k: "writeFile p s = Some (k, p1)" "0 < k" "k \<le> length s"
        "contents p1 = contents p @ take k s"
      unfolding pipe_ok_def by meson
    with False have "length (drop k s) < length s" by simp
    from less [OF this, of p1] obtain p2 where "WriteAll writeFile p1 (drop k s) = (True, p2)"
        "contents p2 = contents p1 @ drop k s" by blast
    with k False show ?thesis by (subst WriteAll.simps) simp
  qed
qed

lemma ReadAll_takes:
  assumes ok: "pipe_ok readFile writeFile contents" and "contents p = s @ rest"
  shows "\<exists>p'. ReadAll readFile p (length s) = (Some s, p') \<and> contents p' = rest"
  using assms(2)
proof (induction "length s" arbitrary: p s rule: less_induct)
  case less
  show ?case
  proof (cases "s = []")
    case True
    with less.prems show ?thesis by (subst ReadAll.simps) simp
  next
    case False
    then have "0 < length s" "contents p \<noteq> []" using less.prems by auto
    with ok obtain d p1 where d: "readFile p (length s) = Some (d, p1)" "d \<noteq> []"
        "length d \<le> length s" "contents p = d @ contents p1"
      unfolding pipe_ok_def by meson
    obtain s' where s': "s = d @ s'" "contents p1 = s' @ rest"
    proof -
      from d(4) less.prems have "d @ contents p1 = s @ rest" by simp
      with d(3) have "take (length d) s = d" "contents p1 = drop (length d) s @ rest"
        by (simp_all add: append_eq_append_conv_if)
      then show thesis
        by (metis that append_take_drop_id)
    qed
    have "length s' < length s" using s'(1) d(2) by simp
    from less.hyps [OF this s'(2)] obtain p2 where
      "ReadAll readFile p1 (length s') = (Some s', p2)" "contents p2 = rest" by blast
    with d(1,2) s' False show ?thesis by (subst ReadAll.simps) simp
  qed
qed

text \<open>
  C7. Frames survive the pipe: whatever portions \<open>ReadFile\<close> and \<open>WriteFile\<close> transfer, a payload
  of 1 byte to 1 MiB written as a frame is read back exactly, and the frames behind it are left
  in the pipe.
\<close>

theorem frame_roundtrip:
  assumes ok: "pipe_ok readFile writeFile contents"
    and "contents p = []" and "0 < length s" "length s \<le> kMaxFrameBytes"
    and "0 < length s'" "length s' \<le> kMaxFrameBytes"
  shows "\<exists>p1 p2 p3 p4. WriteFrame writeFile p s = (True, p1) \<and> WriteFrame writeFile p1 s' = (True, p2) \<and>
    ReadFrame readFile p2 = (Some s, p3) \<and> ReadFrame readFile p3 = (Some s', p4) \<and> contents p4 = []"
proof -
  have put: "\<exists>q'. WriteFrame writeFile q x = (True, q') \<and>
      contents q' = contents q @ dword_bytes (length x) @ x"
    if "0 < length x" "length x \<le> kMaxFrameBytes" for q x
  proof -
    obtain q1 where q1: "WriteAll writeFile q (dword_bytes (length x)) = (True, q1)"
        "contents q1 = contents q @ dword_bytes (length x)"
      using WriteAll_appends [OF ok] by blast
    obtain q2 where "WriteAll writeFile q1 x = (True, q2)" "contents q2 = contents q1 @ x"
      using WriteAll_appends [OF ok] by blast
    with q1 that show ?thesis by (auto simp: WriteFrame_def kMaxFrameBytes_def)
  qed
  have got: "\<exists>q'. ReadFrame readFile q = (Some x, q') \<and> contents q' = rest"
    if "0 < length x" "length x \<le> kMaxFrameBytes" "contents q = dword_bytes (length x) @ x @ rest" for q x rest
  proof -
    note frame = that
    have "length (dword_bytes (length x)) = 4" by (simp add: dword_bytes_def)
    then obtain q1 where "ReadAll readFile q 4 = (Some (dword_bytes (length x)), q1)"
        "contents q1 = x @ rest"
      using ReadAll_takes [OF ok frame(3)] by auto
    moreover obtain q2 where "ReadAll readFile q1 (length x) = (Some x, q2)" "contents q2 = rest"
      using ReadAll_takes [OF ok calculation(2)] by blast
    moreover have "dword_value (dword_bytes (length x)) = length x"
      using frame(2) by (intro dword_roundtrip) (simp add: kMaxFrameBytes_def)
    ultimately show ?thesis using frame by (auto simp: ReadFrame_def)
  qed
  obtain p1 where p1: "WriteFrame writeFile p s = (True, p1)"
      "contents p1 = dword_bytes (length s) @ s"
    using put [of s p] assms by auto
  obtain p2 where p2: "WriteFrame writeFile p1 s' = (True, p2)"
      "contents p2 = dword_bytes (length s) @ s @ dword_bytes (length s') @ s'"
    using put [of s' p1] assms p1 by auto
  obtain p3 where p3: "ReadFrame readFile p2 = (Some s, p3)"
      "contents p3 = dword_bytes (length s') @ s' @ []"
    using got [OF _ _ p2(2)] assms by auto
  obtain p4 where "ReadFrame readFile p3 = (Some s', p4)" "contents p4 = []"
    using got [OF _ _ p3(2)] assms by auto
  with p1 p2 p3 show ?thesis by blast
qed

text \<open>A pipe that transfers one byte at a time.\<close>

definition byte_read :: "string \<Rightarrow> nat \<Rightarrow> (string \<times> string) option" where
  "byte_read p n = (case p of [] \<Rightarrow> None | c # p' \<Rightarrow> Some ([c], p'))"

definition byte_write :: "string \<Rightarrow> string \<Rightarrow> (nat \<times> string) option" where
  "byte_write p s = (case s of [] \<Rightarrow> None | c # _ \<Rightarrow> Some (1, p @ [c]))"

theorem frame_roundtrip_witness:
  "\<exists>p1 p2 p3 p4. WriteFrame byte_write [] ''ab'' = (True, p1) \<and> WriteFrame byte_write p1 ''c'' = (True, p2) \<and>
    ReadFrame byte_read p2 = (Some ''ab'', p3) \<and> ReadFrame byte_read p3 = (Some ''c'', p4) \<and> p4 = []"
proof -
  have "pipe_ok byte_read byte_write (\<lambda>p. p)"
    by (auto simp: pipe_ok_def byte_read_def byte_write_def neq_Nil_conv)
  from frame_roundtrip [OF this, of "[]" "''ab''" "''c''"] show ?thesis
    by (simp add: kMaxFrameBytes_def)
qed

end
