(* ===== verification/Jansson.thy ===== *)
theory Jansson
  imports Prelude
begin

text \<open>
  The interface of the jansson library, which is not part of the sources: the functions the
  plugin calls, as a parameter. A \<open>json_t*\<close> that may be null is an option; the \<open>json_is_\<close>
  macros are false on null. \<open>json_loadb\<close> is the call with \<open>JSON_REJECT_DUPLICATES\<close>. jansson
  rejects NUL characters in strings unless told otherwise, so \<open>json_string_value\<close> and
  \<open>json_string_length\<close> describe the same string.

  \<open>json_value\<close> is a concrete document type on which the interface can be evaluated.
\<close>

datatype json_kind = JSON_OBJECT | JSON_ARRAY | JSON_STRING | JSON_INTEGER | JSON_REAL
  | JSON_TRUE | JSON_FALSE | JSON_NULL

record 'j jansson =
  json_loadb :: "string \<Rightarrow> 'j option"
  json_typeof :: "'j \<Rightarrow> json_kind"
  json_object_size :: "'j \<Rightarrow> nat"
  json_object_get :: "'j \<Rightarrow> string \<Rightarrow> 'j option"
  json_array_size :: "'j \<Rightarrow> nat"
  json_array_get :: "'j \<Rightarrow> nat \<Rightarrow> 'j option"
  json_string_value :: "'j \<Rightarrow> string"
  json_integer_value :: "'j \<Rightarrow> int"

definition json_is :: "'j jansson \<Rightarrow> json_kind \<Rightarrow> 'j option \<Rightarrow> bool" where
  "json_is J k p = (case p of None \<Rightarrow> False | Some v \<Rightarrow> json_typeof J v = k)"

definition json_is_boolean :: "'j jansson \<Rightarrow> 'j option \<Rightarrow> bool" where
  "json_is_boolean J p \<longleftrightarrow> json_is J JSON_TRUE p \<or> json_is J JSON_FALSE p"

lemma json_is_simps [simp]:
  "json_is J k None = False" "json_is J k (Some v) \<longleftrightarrow> json_typeof J v = k"
  by (simp_all add: json_is_def)

lemma json_is_Some_iff: "json_is J k p \<longleftrightarrow> (\<exists>v. p = Some v \<and> json_typeof J v = k)"
  by (cases p) auto

text \<open>The string, integer and truth value of a pointer that was tested to be one.\<close>

definition str_of :: "'j jansson \<Rightarrow> 'j option \<Rightarrow> string" where
  "str_of J p = (case p of None \<Rightarrow> [] | Some v \<Rightarrow> json_string_value J v)"

definition int_of :: "'j jansson \<Rightarrow> 'j option \<Rightarrow> int" where
  "int_of J p = (case p of None \<Rightarrow> 0 | Some v \<Rightarrow> json_integer_value J v)"

definition is_true :: "'j jansson \<Rightarrow> 'j option \<Rightarrow> bool" where
  "is_true J p = json_is J JSON_TRUE p"

lemma str_of_simps [simp]: "str_of J (Some v) = json_string_value J v" "str_of J None = []"
  by (simp_all add: str_of_def)

lemma int_of_simps [simp]: "int_of J (Some v) = json_integer_value J v" "int_of J None = 0"
  by (simp_all add: int_of_def)

section \<open>A concrete instance\<close>

datatype json_value = J_obj "(string \<times> json_value) list" | J_arr "json_value list" | J_str string
  | J_int int | J_real | J_true | J_false | J_null

fun kind_of :: "json_value \<Rightarrow> json_kind" where
  "kind_of (J_obj _) = JSON_OBJECT"
| "kind_of (J_arr _) = JSON_ARRAY"
| "kind_of (J_str _) = JSON_STRING"
| "kind_of (J_int _) = JSON_INTEGER"
| "kind_of J_real = JSON_REAL"
| "kind_of J_true = JSON_TRUE"
| "kind_of J_false = JSON_FALSE"
| "kind_of J_null = JSON_NULL"

fun object_of :: "json_value \<Rightarrow> (string \<times> json_value) list" where
  "object_of (J_obj fs) = fs" | "object_of _ = []"

fun array_of :: "json_value \<Rightarrow> json_value list" where
  "array_of (J_arr vs) = vs" | "array_of _ = []"

fun string_of :: "json_value \<Rightarrow> string" where
  "string_of (J_str s) = s" | "string_of _ = []"

fun integer_of :: "json_value \<Rightarrow> int" where
  "integer_of (J_int i) = i" | "integer_of _ = 0"

text \<open>The instance that has already loaded the document \<open>d\<close>, whatever the bytes.\<close>

definition loaded :: "json_value \<Rightarrow> json_value jansson" where
  "loaded d =
     \<lparr>json_loadb = (\<lambda>_. Some d), json_typeof = kind_of,
      json_object_size = (\<lambda>v. length (object_of v)),
      json_object_get = (\<lambda>v k. map_of (object_of v) k),
      json_array_size = (\<lambda>v. length (array_of v)),
      json_array_get = (\<lambda>v i. if i < length (array_of v) then Some (array_of v ! i) else None),
      json_string_value = string_of, json_integer_value = integer_of\<rparr>"

end
