(* ===== verification/Event_Stream.thy ===== *)
theory Event_Stream
  imports Events Frames Jansson "HOL-Library.Sublist"
begin

text \<open>
  \<open>plugin/src/event_stream.cpp\<close>: the queue of debugger events and the worker that sends them to
  the sidecar over the event pipe.

  Every section of the source under \<open>mutex_\<close> is one definition on the members; the worker is
  the place where it is between two sections, with the event or the gap it is writing. What
  the pipe does (a client connects, a frame is read or not, a write succeeds or not) and
  whether an allocation throws are arguments of the steps. A system state adds the history of
  what was accepted and written, in which the properties are stated; no step reads it.
\<close>

definition kMaxQueuedEvents :: nat where
  "kMaxQueuedEvents = 4096"

record EventStream =
  es_queue :: "EventRecord list"
  es_nonce :: string
  es_instanceId :: string
  es_dropped :: u64
  es_stopping :: bool

datatype stream_worker = ws_connect
  | ws_hello string
  | ws_ready
  | ws_event EventRecord
  | ws_gap u64
  | ws_returned

definition ValidHello :: "'j jansson \<Rightarrow> string \<Rightarrow> string \<Rightarrow> string \<Rightarrow> bool" where
  "ValidHello J bytes nonce instanceId =
     (case json_loadb J bytes of
        None \<Rightarrow> False
      | Some root \<Rightarrow>
          if json_typeof J root \<noteq> JSON_OBJECT \<or> json_object_size J root \<noteq> 3 then False
          else
            let type = json_object_get J root ''type'';
                suppliedNonce = json_object_get J root ''nonce'';
                suppliedInstance = json_object_get J root ''instance_id'' in
            json_is J JSON_STRING type \<and> str_of J type = ''HELLO'' \<and>
            json_is J JSON_STRING suppliedNonce \<and> str_of J suppliedNonce = nonce \<and>
            json_is J JSON_STRING suppliedInstance \<and> str_of J suppliedInstance = instanceId)"

text \<open>The members after a \<open>Start\<close> that created the pipe and the thread.\<close>

definition stream_Start :: "string \<Rightarrow> EventStream" where
  "stream_Start nonce =
     \<lparr>es_queue = [], es_nonce = nonce, es_instanceId = [], es_dropped = 0, es_stopping = False\<rparr>"

definition SetInstanceId :: "bool \<Rightarrow> string \<Rightarrow> EventStream \<Rightarrow> EventStream" where
  "SetInstanceId throws instanceId s =
     (if throws then s\<lparr>es_stopping := True\<rparr> else s\<lparr>es_instanceId := instanceId\<rparr>)"

definition Enqueue :: "bool \<Rightarrow> EventRecord \<Rightarrow> EventStream \<Rightarrow> EventStream" where
  "Enqueue throws event s =
     (if es_stopping s then s
      else
        let s = (if length (es_queue s) = kMaxQueuedEvents
                 then s\<lparr>es_queue := tl (es_queue s), es_dropped := es_dropped s + 1\<rparr> else s) in
        if throws then s\<lparr>es_dropped := es_dropped s + 1\<rparr>
        else s\<lparr>es_queue := es_queue s @ [event]\<rparr>)"

text \<open>
  The worker. \<open>Worker_connect\<close> is from \<open>ConnectNamedPipe\<close> to the end of the hello frame
  (\<open>connected\<close>, and the frame if one was read in time), \<open>Worker_hello\<close> the check of it
  once the wait for an instance id is over (\<open>None\<close> while it is not), \<open>Worker_take\<close> the
  section that takes the next thing to send (\<open>lost\<close>: the poll saw the client gone),
  \<open>Worker_written\<close> what follows the write, \<open>Worker_throws\<close> the handler at the end.
\<close>

definition Worker_connect :: "bool \<Rightarrow> string option \<Rightarrow> stream_worker" where
  "Worker_connect connected hello =
     (if \<not> connected then ws_returned
      else (case hello of None \<Rightarrow> ws_connect | Some bytes \<Rightarrow> ws_hello bytes))"

definition Worker_hello :: "'j jansson \<Rightarrow> bool \<Rightarrow> string \<Rightarrow> EventStream \<Rightarrow> stream_worker option" where
  "Worker_hello J written hello s =
     (if es_stopping s then Some ws_returned
      else if es_instanceId s = [] then None
      else if \<not> ValidHello J hello (es_nonce s) (es_instanceId s) \<or> \<not> written then Some ws_connect
      else Some ws_ready)"

definition Worker_take :: "bool \<Rightarrow> EventStream \<Rightarrow> (stream_worker \<times> EventStream) option" where
  "Worker_take lost s =
     (if es_stopping s then Some (ws_returned, s)
      else if lost then Some (ws_connect, s)
      else if es_dropped s \<noteq> 0 then Some (ws_gap (es_dropped s), s\<lparr>es_dropped := 0\<rparr>)
      else (case es_queue s of
              [] \<Rightarrow> None
            | event # q \<Rightarrow> Some (ws_event event, s\<lparr>es_queue := q\<rparr>)))"

definition Worker_written ::
    "bool \<Rightarrow> bool \<Rightarrow> stream_worker \<Rightarrow> EventStream \<Rightarrow> stream_worker \<times> EventStream" where
  "Worker_written written throws w s =
     (if written then (ws_ready, s)
      else
        (ws_connect,
         (case w of
            ws_event event \<Rightarrow>
              if throws then s\<lparr>es_dropped := es_dropped s + 1\<rparr>
              else s\<lparr>es_queue := event # es_queue s\<rparr>
          | ws_gap dropped \<Rightarrow> s\<lparr>es_dropped := es_dropped s + dropped\<rparr>
          | _ \<Rightarrow> s)))"

definition Worker_throws :: "EventStream \<Rightarrow> EventStream" where
  "Worker_throws s =
     s\<lparr>es_dropped := es_dropped s + of_nat (length (es_queue s)), es_queue := []\<rparr>"

definition stream_Stop_request :: "EventStream \<Rightarrow> EventStream" where
  "stream_Stop_request s = s\<lparr>es_stopping := True\<rparr>"

definition stream_Stop_joined :: "EventStream \<Rightarrow> EventStream" where
  "stream_Stop_joined s =
     s\<lparr>es_queue := [], es_dropped := 0, es_nonce := [], es_instanceId := []\<rparr>"

section \<open>The stream as a transition system\<close>

record stream_system =
  ss_members :: EventStream
  ss_worker :: stream_worker
  ss_accepted :: "EventRecord list"
  ss_sent :: "EventRecord list"
  ss_gaps :: u64
  ss_lost :: u64

definition stream_init :: "string \<Rightarrow> stream_system" where
  "stream_init nonce =
     \<lparr>ss_members = stream_Start nonce, ss_worker = ws_connect, ss_accepted = [], ss_sent = [],
      ss_gaps = 0, ss_lost = 0\<rparr>"

text \<open>What the worker holds between taking it and the end of the write.\<close>

fun carried_events :: "stream_worker \<Rightarrow> EventRecord list" where
  "carried_events (ws_event e) = [e]" | "carried_events _ = []"

fun carried_gap :: "stream_worker \<Rightarrow> u64" where
  "carried_gap (ws_gap d) = d" | "carried_gap _ = 0"

text \<open>
  The steps up to \<open>Stop\<close>. An exception that ends the worker while an event or a gap is in its
  hands (\<open>EventJson\<close> allocates) loses that one without counting it: \<open>ss_lost\<close>.
\<close>

inductive stream_step :: "'j jansson \<Rightarrow> stream_system \<Rightarrow> stream_system \<Rightarrow> bool" for J where
  step_enqueue: "\<not> es_stopping (ss_members x) \<Longrightarrow>
    stream_step J x (x\<lparr>ss_members := Enqueue throws event (ss_members x),
      ss_accepted := ss_accepted x @ [event]\<rparr>)"
| step_instance: "stream_step J x (x\<lparr>ss_members := SetInstanceId throws i (ss_members x)\<rparr>)"
| step_connect: "ss_worker x = ws_connect \<Longrightarrow>
    stream_step J x (x\<lparr>ss_worker := Worker_connect connected hello\<rparr>)"
| step_hello: "ss_worker x = ws_hello hello \<Longrightarrow>
    Worker_hello J written hello (ss_members x) = Some w \<Longrightarrow>
    stream_step J x (x\<lparr>ss_worker := w\<rparr>)"
| step_take: "ss_worker x = ws_ready \<Longrightarrow> Worker_take lost (ss_members x) = Some (w, m) \<Longrightarrow>
    stream_step J x (x\<lparr>ss_worker := w, ss_members := m\<rparr>)"
| step_event: "ss_worker x = ws_event event \<Longrightarrow>
    Worker_written written throws (ws_event event) (ss_members x) = (w, m) \<Longrightarrow>
    stream_step J x (x\<lparr>ss_worker := w, ss_members := m,
      ss_sent := ss_sent x @ (if written then [event] else [])\<rparr>)"
| step_gap: "ss_worker x = ws_gap dropped \<Longrightarrow>
    Worker_written written throws (ws_gap dropped) (ss_members x) = (w, m) \<Longrightarrow>
    stream_step J x (x\<lparr>ss_worker := w, ss_members := m,
      ss_gaps := ss_gaps x + (if written then dropped else 0)\<rparr>)"
| step_throw: "ss_worker x \<noteq> ws_returned \<Longrightarrow>
    stream_step J x (x\<lparr>ss_worker := ws_returned, ss_members := Worker_throws (ss_members x),
      ss_lost := ss_lost x + carried_gap (ss_worker x) +
        of_nat (length (carried_events (ss_worker x)))\<rparr>)"
| step_stop: "stream_step J x (x\<lparr>ss_members := stream_Stop_request (ss_members x)\<rparr>)"




lemmas stream_defs = Enqueue_def SetInstanceId_def Worker_connect_def Worker_hello_def
  Worker_take_def Worker_written_def Worker_throws_def stream_Stop_request_def













definition example_hello :: json_value where
  "example_hello = J_obj [(''type'', J_str ''HELLO''), (''nonce'', J_str ''n''),
     (''instance_id'', J_str ''i'')]"



section \<open>The bound of the queue\<close>

text \<open>
  While the client reads, the queue stays within its bound. A failed write however puts its
  event back without looking at the size; if \<open>Enqueue\<close> filled the queue meanwhile, its size
  passes the only value \<open>Enqueue\<close> tests for.
\<close>

lemma Enqueue_grows:
  "\<not> es_stopping s \<Longrightarrow> length (es_queue s) \<noteq> kMaxQueuedEvents \<Longrightarrow>
   Enqueue False e s = s\<lparr>es_queue := es_queue s @ [e]\<rparr>"
  by (simp add: Enqueue_def Let_def)

lemma Enqueue_many:
  assumes "\<not> es_stopping (ss_members x)"
    and "\<forall>j < k. length (es_queue (ss_members x)) + j \<noteq> kMaxQueuedEvents"
  shows "\<exists>q a. reaches (stream_step J) x
    (x\<lparr>ss_members := (ss_members x)\<lparr>es_queue := q\<rparr>, ss_accepted := a\<rparr>) \<and>
    length q = length (es_queue (ss_members x)) + k"
  using assms(2)
proof (induction k)
  case 0
  then show ?case
    by (intro exI [of _ "es_queue (ss_members x)"] exI [of _ "ss_accepted x"])
      (simp add: reaches_refl)
next
  case (Suc k)
  then obtain q a where r: "reaches (stream_step J) x
      (x\<lparr>ss_members := (ss_members x)\<lparr>es_queue := q\<rparr>, ss_accepted := a\<rparr>)"
    and q: "length q = length (es_queue (ss_members x)) + k" by auto
  let ?y = "x\<lparr>ss_members := (ss_members x)\<lparr>es_queue := q\<rparr>, ss_accepted := a\<rparr>"
  have "stream_step J ?y (x\<lparr>ss_members := (ss_members x)\<lparr>es_queue := q @ [empty_event]\<rparr>,
      ss_accepted := a @ [empty_event]\<rparr>)"
    using step_enqueue [of ?y J empty_event False] assms(1) q Suc.prems
    by (simp add: Enqueue_grows)
  from reaches_step [OF r this] q show ?case by fastforce
qed

text \<open>
  C40. The bound of the event queue can be lost: for every size there is a run (one event in the
  worker's hands, 4096 more enqueued, the write fails) after which the queue has at least that
  many events and nothing was dropped, although \<open>Enqueue\<close> means to keep at most 4096.
\<close>

theorem queue_bound_lost:
  assumes "ValidHello J hello nonce i" "i \<noteq> []"
  shows "\<exists>x. reaches (stream_step J) (stream_init nonce) x \<and>
    n \<le> length (es_queue (ss_members x)) \<and> es_dropped (ss_members x) = 0"
proof -
  let ?sys = "\<lambda>w q a. \<lparr>ss_members = \<lparr>es_queue = q, es_nonce = nonce, es_instanceId = i,
    es_dropped = 0, es_stopping = False\<rparr>, ss_worker = w, ss_accepted = a, ss_sent = [],
    ss_gaps = 0, ss_lost = 0\<rparr>"
  have "reaches (stream_step J) (stream_init nonce) (?sys ws_connect [] [])"
    using step_instance [of J "stream_init nonce" False i]
    by (auto intro!: reaches_step [OF reaches_refl]
        simp: SetInstanceId_def stream_init_def stream_Start_def)
  moreover have "stream_step J (?sys ws_connect [] []) (?sys (ws_hello hello) [] [])"
    using step_connect [of "?sys ws_connect [] []" J True "Some hello"]
    by (simp add: Worker_connect_def)
  moreover have "stream_step J (?sys (ws_hello hello) [] []) (?sys ws_ready [] [])"
    using step_hello [of "?sys (ws_hello hello) [] []" hello J True ws_ready] assms
    by (simp add: Worker_hello_def stream_Start_def)
  moreover have "stream_step J (?sys ws_ready [] []) (?sys ws_ready [empty_event] [empty_event])"
    using step_enqueue [of "?sys ws_ready [] []" J empty_event False]
    by (simp add: Enqueue_def stream_Start_def kMaxQueuedEvents_def)
  moreover have "stream_step J (?sys ws_ready [empty_event] [empty_event])
      (?sys (ws_event empty_event) [] [empty_event])"
    using step_take [of "?sys ws_ready [empty_event] [empty_event]" False "ws_event empty_event" _ J]
    by (simp add: Worker_take_def stream_Start_def)
  ultimately have taken: "reaches (stream_step J) (stream_init nonce)
      (?sys (ws_event empty_event) [] [empty_event])"
    by (meson reaches_step)
  obtain q a where full: "reaches (stream_step J) (stream_init nonce) (?sys (ws_event empty_event) q a)"
      "length q = kMaxQueuedEvents"
    using Enqueue_many [of "?sys (ws_event empty_event) [] [empty_event]" kMaxQueuedEvents J]
      reaches_trans [OF _ taken]
    by (auto simp: stream_Start_def)
  have "stream_step J (?sys (ws_event empty_event) q a) (?sys ws_connect (empty_event # q) a)"
    using step_event [of "?sys (ws_event empty_event) q a" empty_event False False ws_connect _ J]
    by (simp add: Worker_written_def)
  with full(1) have over: "reaches (stream_step J) (stream_init nonce) (?sys ws_connect (empty_event # q) a)"
    by (rule reaches_step)
  obtain q' a' where "reaches (stream_step J) (stream_init nonce) (?sys ws_connect q' a')"
      "length q' = Suc kMaxQueuedEvents + n"
    using Enqueue_many [of "?sys ws_connect (empty_event # q) a" n J] reaches_trans [OF _ over] full(2)
    by (auto simp: stream_Start_def)
  then show ?thesis by (intro exI [of _ "?sys ws_connect q' a'"]) (simp add: stream_Start_def)
qed

theorem queue_bound_lost_witness:
  "\<exists>x. reaches (stream_step (loaded example_hello)) (stream_init ''n'') x \<and>
    1000000 \<le> length (es_queue (ss_members x)) \<and> es_dropped (ss_members x) = 0"
proof -
  have "ValidHello (loaded example_hello) [] ''n'' ''i''"
    by (simp add: ValidHello_def loaded_def example_hello_def)
  from queue_bound_lost [OF this] show ?thesis by simp
qed

end
