(* ===== verification/Monad_Logic.thy ===== *)
theory Monad_Logic
  imports Main "HOL-Library.State_Monad"
begin

text \<open>
  Computations of the library's state monad that may return early with an error, as the tools of
  the plugin and the commands of the controller are written, and the two judgements about them
  that do not look at the errors: \<open>wp\<close>, the weakest precondition, and \<open>maintains\<close>, a computation
  that never ends a property of the state.
\<close>

named_theorems wp_simps \<open>weakest preconditions of the constructs of the state monad\<close>
named_theorems maintains_rules \<open>introduction rules for maintains\<close>

section \<open>Early returns\<close>

definition answer :: "'a \<Rightarrow> ('s, 'e + 'a) state" where
  "answer a = State_Monad.return (Inr a)"

text \<open>A part of a computation that may return early by itself.\<close>

definition attempt :: "('s, 'e + 'a) state \<Rightarrow> ('a \<Rightarrow> ('s, 'e + 'b) state) \<Rightarrow>
    ('s, 'e + 'b) state" where
  "attempt m f = do { x \<leftarrow> m; (case x of Inl e \<Rightarrow> State_Monad.return (Inl e) | Inr a \<Rightarrow> f a) }"

section \<open>Weakest preconditions\<close>

definition wp :: "('s, 'a) state \<Rightarrow> ('a \<Rightarrow> 's \<Rightarrow> bool) \<Rightarrow> 's \<Rightarrow> bool" where
  "wp m Q s \<longleftrightarrow> (case run_state m s of (a, s') \<Rightarrow> Q a s')"

lemma wp_iff: "wp m Q s \<longleftrightarrow> (\<forall>a s'. run_state m s = (a, s') \<longrightarrow> Q a s')"
  by (simp add: wp_def split: prod.split)

lemma wpD: "wp m Q s \<Longrightarrow> run_state m s = (a, s') \<Longrightarrow> Q a s'"
  by (simp add: wp_iff)

lemma wp_mono: "wp m Q s \<Longrightarrow> (\<And>a s'. Q a s' \<Longrightarrow> R a s') \<Longrightarrow> wp m R s"
  by (simp add: wp_iff)

lemma wp_return [wp_simps]: "wp (State_Monad.return a) Q = Q a"
  by (simp add: wp_def fun_eq_iff)

lemma wp_bind [wp_simps]: "wp (State_Monad.bind m f) Q = wp m (\<lambda>a. wp (f a) Q)"
  by (simp add: wp_def fun_eq_iff split: prod.split)

lemma wp_bindI: "wp m (\<lambda>a. wp (f a) Q) s \<Longrightarrow> wp (State_Monad.bind m f) Q s"
  by (simp add: wp_bind)

lemma wp_get [wp_simps]: "wp State_Monad.get Q = (\<lambda>s. Q s s)"
  by (simp add: wp_def fun_eq_iff)

lemma wp_set [wp_simps]: "wp (State_Monad.set s') Q = (\<lambda>_. Q () s')"
  by (simp add: wp_def fun_eq_iff)

lemma wp_if [wp_simps]: "wp (if c then m else n) Q = (if c then wp m Q else wp n Q)"
  by simp

lemma wp_case_sum [wp_simps]:
  "wp (case x of Inl e \<Rightarrow> f e | Inr a \<Rightarrow> g a) Q = (case x of Inl e \<Rightarrow> wp (f e) Q | Inr a \<Rightarrow> wp (g a) Q)"
  by (simp split: sum.split)

lemma wp_case_option [wp_simps]:
  "wp (case x of None \<Rightarrow> m | Some a \<Rightarrow> g a) Q = (case x of None \<Rightarrow> wp m Q | Some a \<Rightarrow> wp (g a) Q)"
  by (simp split: option.split)

lemma wp_answer [wp_simps]: "wp (answer a) Q = Q (Inr a)"
  by (simp add: answer_def wp_simps)

lemma wp_attempt [wp_simps]:
  "wp (attempt m f) Q = wp m (\<lambda>x. case x of Inl e \<Rightarrow> Q (Inl e) | Inr a \<Rightarrow> wp (f a) Q)"
  by (simp add: attempt_def wp_simps cong: sum.case_cong)

section \<open>Calls that keep a property\<close>

lemma run_bindE:
  assumes "run_state (State_Monad.bind m f) s = (b, t)"
  obtains a s' where "run_state m s = (a, s')" "run_state (f a) s' = (b, t)"
  using assms by (auto split: prod.splits)

definition maintains :: "('s \<Rightarrow> bool) \<Rightarrow> ('s, 'a) state \<Rightarrow> bool" where
  "maintains P m \<longleftrightarrow> (\<forall>s a s'. P s \<longrightarrow> run_state m s = (a, s') \<longrightarrow> P s')"

lemma maintainsD: "maintains P m \<Longrightarrow> P s \<Longrightarrow> run_state m s = (a, s') \<Longrightarrow> P s'"
  by (auto simp: maintains_def)

lemma maintains_return [maintains_rules]: "maintains P (State_Monad.return a)"
  by (simp add: maintains_def)

lemma maintains_answer [maintains_rules]: "maintains P (answer a)"
  by (simp add: maintains_def answer_def)

lemma maintains_bind [maintains_rules]: "maintains P m \<Longrightarrow> (\<And>a. maintains P (f a)) \<Longrightarrow> maintains P (State_Monad.bind m f)"
  unfolding maintains_def by (metis run_bindE)

lemma maintains_if [maintains_rules]:
  "(c \<Longrightarrow> maintains P m) \<Longrightarrow> (\<not> c \<Longrightarrow> maintains P n) \<Longrightarrow> maintains P (if c then m else n)"
  by simp

lemma maintains_case_option [maintains_rules]:
  "(x = None \<Longrightarrow> maintains P m) \<Longrightarrow> (\<And>a. x = Some a \<Longrightarrow> maintains P (f a)) \<Longrightarrow>
   maintains P (case x of None \<Rightarrow> m | Some a \<Rightarrow> f a)"
  by (simp split: option.split)

lemma maintains_case_sum [maintains_rules]:
  "(\<And>e. x = Inl e \<Longrightarrow> maintains P (f e)) \<Longrightarrow> (\<And>a. x = Inr a \<Longrightarrow> maintains P (g a)) \<Longrightarrow>
   maintains P (case x of Inl e \<Rightarrow> f e | Inr a \<Rightarrow> g a)"
  by (simp split: sum.split)

lemma maintains_case_prod [maintains_rules]:
  "(\<And>a b. x = (a, b) \<Longrightarrow> maintains P (f a b)) \<Longrightarrow> maintains P (case x of (a, b) \<Rightarrow> f a b)"
  by (simp split: prod.split)

lemma maintains_Let [maintains_rules]: "(\<And>x. x = t \<Longrightarrow> maintains P (f x)) \<Longrightarrow> maintains P (let x = t in f x)"
  by simp

lemma maintains_attempt [maintains_rules]: "maintains P m \<Longrightarrow> (\<And>a. maintains P (f a)) \<Longrightarrow> maintains P (attempt m f)"
  unfolding attempt_def by (intro maintains_rules)

lemma maintains_get [maintains_rules]: "maintains P State_Monad.get"
  by (simp add: maintains_def)

lemma wp_maintains: "maintains P m \<Longrightarrow> P s \<Longrightarrow> (\<And>a s'. P s' \<Longrightarrow> Q a s') \<Longrightarrow> wp m Q s"
  by (auto simp: wp_iff maintains_def)

end
