(* ===== verification/Event_Transport.thy ===== *)
theory Event_Transport
  imports Event_Stream Frames Monad_Logic
begin

text \<open>
  The greeting on the event pipe: \<open>ReadFrameBounded\<close> of \<open>event_stream.cpp\<close>, which polls the pipe instead of
  blocking in it, so that a client that connects and stays silent does not hold the worker. The clock
  (in milliseconds), \<open>PeekNamedPipe\<close>, \<open>Sleep\<close> and \<open>ReadFile\<close> are the parameter \<open>greeting_pipe\<close>. The result of a loop that
  has used up its \<open>polls\<close> is \<open>None\<close>.
\<close>

record 's greeting_pipe =
  gp_now :: "('s, nat) state"
  gp_peek :: "('s, nat option) state"
  gp_sleep :: "nat \<Rightarrow> ('s, unit) state"
  gp_readFile :: "'s \<Rightarrow> nat \<Rightarrow> (string \<times> 's) option"

primrec waitForBytes :: "'s greeting_pipe \<Rightarrow> nat \<Rightarrow> nat \<Rightarrow> nat \<Rightarrow> ('s, bool option) state" where
  "waitForBytes G deadline required 0 = State_Monad.return None"
| "waitForBytes G deadline required (Suc polls) = do {
     available \<leftarrow> gp_peek G;
     (case available of
        None \<Rightarrow> State_Monad.return (Some False)
      | Some n \<Rightarrow>
          if n \<ge> required then State_Monad.return (Some True)
          else do {
            now \<leftarrow> gp_now G;
            if now \<ge> deadline then State_Monad.return (Some False)
            else do { gp_sleep G 10; waitForBytes G deadline required polls }
          })
   }"

definition frame_length :: "'s greeting_pipe \<Rightarrow> ('s, nat option) state" where
  "frame_length G = do {
     header \<leftarrow> State (\<lambda>s. ReadAll (gp_readFile G) s 4);
     State_Monad.return (case header of
         None \<Rightarrow> None
       | Some bytes \<Rightarrow>
           let len = dword_value bytes in if len = 0 \<or> len > kMaxFrameBytes then None else Some len)
   }"

text \<open>The outer option is the end of the fuel, the inner one the frame.\<close>

definition ReadFrameBounded :: "'s greeting_pipe \<Rightarrow> nat \<Rightarrow> nat \<Rightarrow> ('s, string option option) state" where
  "ReadFrameBounded G timeoutMs polls = do {
     now \<leftarrow> gp_now G;
     (let deadline = now + timeoutMs in do {
       ready \<leftarrow> waitForBytes G deadline 4 polls;
       (case ready of
          None \<Rightarrow> State_Monad.return None
        | Some False \<Rightarrow> State_Monad.return (Some None)
        | Some True \<Rightarrow> do {
            len \<leftarrow> frame_length G;
            (case len of
               None \<Rightarrow> State_Monad.return (Some None)
             | Some n \<Rightarrow> do {
                 ready \<leftarrow> waitForBytes G deadline n polls;
                 (case ready of
                    None \<Rightarrow> State_Monad.return None
                  | Some False \<Rightarrow> State_Monad.return (Some None)
                  | Some True \<Rightarrow> do {
                      payload \<leftarrow> State (\<lambda>s. ReadAll (gp_readFile G) s n);
                      State_Monad.return (Some payload)
                    })
               })
          })
     })
   }"

section \<open>A silent client is given up\<close>

text \<open>
  The clock never runs backwards and a sleep of some milliseconds moves it on: a \<open>Sleep\<close> shorter than the
  resolution of the system clock lasts until the next tick.
\<close>

definition greeting_clock :: "('s \<Rightarrow> nat) \<Rightarrow> 's greeting_pipe \<Rightarrow> bool" where
  "greeting_clock clock G \<longleftrightarrow>
     (\<forall>s. fst (run_state (gp_now G) s) = clock s) \<and>
     (\<forall>s. clock s \<le> clock (snd (run_state (gp_now G) s))) \<and>
     (\<forall>s. clock s \<le> clock (snd (run_state (gp_peek G) s))) \<and>
     (\<forall>s n. 0 < n \<longrightarrow> clock s < clock (snd (run_state (gp_sleep G n) s))) \<and>
     (\<forall>s n. clock s \<le> clock (snd (ReadAll (gp_readFile G) s n)))"

lemma greeting_clock_wp:
  assumes "greeting_clock clock G"
  shows "(\<And>s'. clock s \<le> clock s' \<Longrightarrow> Q (clock s) s') \<Longrightarrow> wp (gp_now G) Q s"
    and "(\<And>n s'. clock s \<le> clock s' \<Longrightarrow> R n s') \<Longrightarrow> wp (gp_peek G) R s"
    and "0 < n \<Longrightarrow> (\<And>s'. clock s < clock s' \<Longrightarrow> S s') \<Longrightarrow> wp (gp_sleep G n) (\<lambda>_. S) s"
    and "(\<And>r s'. clock s \<le> clock s' \<Longrightarrow> T r s') \<Longrightarrow> wp (State (\<lambda>s. ReadAll (gp_readFile G) s n)) T s"
  using assms unfolding greeting_clock_def by (simp_all add: wp_def case_prod_beta)

lemma waitForBytes_ends:
  assumes G: "greeting_clock clock G"
  shows "deadline \<le> clock s + polls \<Longrightarrow>
    (\<And>r s'. clock s \<le> clock s' \<Longrightarrow> Q (Some r) s') \<Longrightarrow>
    wp (waitForBytes G deadline required (Suc polls)) Q s"
proof (induction polls arbitrary: s)
  case 0
  then show ?case
    unfolding waitForBytes.simps
    by (intro wp_bindI greeting_clock_wp [OF G])
      (auto simp: wp_simps split: option.split intro!: wp_bindI greeting_clock_wp [OF G])
next
  case (Suc polls)
  note step = waitForBytes.simps(2) [of G deadline required "Suc polls"]
  show ?case
    unfolding step
  proof (intro wp_bindI greeting_clock_wp(2) [OF G], goal_cases)
    case (1 n s1)
    then show ?case
      using Suc.prems
      by (auto simp del: waitForBytes.simps simp: wp_simps split: option.split
        intro!: wp_bindI greeting_clock_wp(1,3) [OF G] Suc.IH)
  qed
qed

lemma frame_length_clock:
  assumes G: "greeting_clock clock G"
    and "\<And>len s'. clock s \<le> clock s' \<Longrightarrow> Q len s'"
  shows "wp (frame_length G) Q s"
  unfolding frame_length_def using assms(2) by (auto simp: wp_simps intro!: wp_bindI greeting_clock_wp(4) [OF G])

text \<open>The worker is back after at most \<open>timeoutMs + 1\<close> polls for the length and as many for the payload.\<close>

lemma ReadFrameBounded_ends:
  assumes G: "greeting_clock clock G"
  shows "fst (run_state (ReadFrameBounded G timeoutMs (Suc timeoutMs)) s) \<noteq> None"
proof -
  have "wp (ReadFrameBounded G timeoutMs (Suc timeoutMs)) (\<lambda>r _. r \<noteq> None) s"
    unfolding ReadFrameBounded_def Let_def
    by (intro wp_bindI greeting_clock_wp(1) [OF G] waitForBytes_ends [OF G];
      auto simp del: waitForBytes.simps simp: wp_simps split: bool.split option.split
        intro!: wp_bindI frame_length_clock [OF G] waitForBytes_ends [OF G] greeting_clock_wp(4) [OF G])
  then show ?thesis by (auto simp: wp_def split: prod.splits)
qed

end
