(* ===== verification/Cursor.thy ===== *)
theory Cursor
  imports Cpp_Text Trace_Policy
begin

text \<open>
  The page cursors of \<open>runtime.cpp\<close>: versions \<open>v1\<close> (pages), \<open>v2\<close> (discovery), \<open>v3\<close>
  (patches) and \<open>v4\<close> (traces), their printers, and the fingerprints that bind a cursor to the
  request it continues.

  A parser writes through references. It is a function of the values of these variables before
  the call that returns the answer and their values afterwards, because callers pass
  \<open>cursorIndex\<close>, which a failed parse may have changed. \<open>std::size_t\<close> has the width of the
  build, \<open>'w\<close>.
\<close>

definition IsUuid :: "string \<Rightarrow> bool" where
  "IsUuid v =
     (if length v \<noteq> 36 then False
      else list_all (\<lambda>i. if i = 8 \<or> i = 13 \<or> i = 18 \<or> i = 23 then v ! i = CHR ''-''
                         else is_lower_hex (v ! i)) [0..<length v])"

definition ParseCursor :: "string \<Rightarrow> u64 \<Rightarrow> ('w :: len) word \<Rightarrow> bool \<times> u64 \<times> 'w word" where
  "ParseCursor cursor generation index =
     (if \<not> starts_with cursor ''v1:'' \<or> length cursor > 64 then (False, generation, index)
      else
        (case find_from (CHR '':'') cursor 3 of
           None \<Rightarrow> (False, generation, index)
         | Some separator \<Rightarrow>
             let generationText = slice 3 separator cursor;
                 indexText = slice (separator + 1) (length cursor) cursor;
                 generationResult = from_chars 10 generationText generation;
                 indexResult = from_chars 10 indexText index in
             (parsed_all generationText generationResult \<and> parsed_all indexText indexResult,
              parsed_value generationResult, parsed_value indexResult)))"

definition ParseDiscoveryCursor ::
    "string \<Rightarrow> u64 \<Rightarrow> u64 \<Rightarrow> ('w :: len) word \<Rightarrow> bool \<times> u64 \<times> u64 \<times> 'w word" where
  "ParseDiscoveryCursor cursor generation fingerprint index =
     (if \<not> starts_with cursor ''v2:'' \<or> length cursor > 128
      then (False, generation, fingerprint, index)
      else
        (case find_from (CHR '':'') cursor 3 of
           None \<Rightarrow> (False, generation, fingerprint, index)
         | Some fst_sep \<Rightarrow>
        (case find_from (CHR '':'') cursor (fst_sep + 1) of
           None \<Rightarrow> (False, generation, fingerprint, index)
         | Some snd_sep \<Rightarrow>
             let generationText = slice 3 fst_sep cursor;
                 fingerprintText = slice (fst_sep + 1) snd_sep cursor;
                 indexText = slice (snd_sep + 1) (length cursor) cursor;
                 generationResult = from_chars 10 generationText generation;
                 fingerprintResult = from_chars 16 fingerprintText fingerprint;
                 indexResult = from_chars 10 indexText index in
             (parsed_all generationText generationResult \<and>
              parsed_all fingerprintText fingerprintResult \<and> parsed_all indexText indexResult,
              parsed_value generationResult, parsed_value fingerprintResult,
              parsed_value indexResult))))"

definition ParsePatchCursor ::
    "string \<Rightarrow> u64 \<Rightarrow> u64 \<Rightarrow> u64 \<Rightarrow> ('w :: len) word \<Rightarrow> bool \<times> u64 \<times> u64 \<times> u64 \<times> 'w word" where
  "ParsePatchCursor cursor generation filterFingerprint snapshotFingerprint index =
     (if \<not> starts_with cursor ''v3:'' \<or> length cursor > 160
      then (False, generation, filterFingerprint, snapshotFingerprint, index)
      else
        (case find_from (CHR '':'') cursor 3 of
           None \<Rightarrow> (False, generation, filterFingerprint, snapshotFingerprint, index)
         | Some fst_sep \<Rightarrow>
        (case find_from (CHR '':'') cursor (fst_sep + 1) of
           None \<Rightarrow> (False, generation, filterFingerprint, snapshotFingerprint, index)
         | Some snd_sep \<Rightarrow>
        (case find_from (CHR '':'') cursor (snd_sep + 1) of
           None \<Rightarrow> (False, generation, filterFingerprint, snapshotFingerprint, index)
         | Some third_sep \<Rightarrow>
             let generationText = slice 3 fst_sep cursor;
                 filterText = slice (fst_sep + 1) snd_sep cursor;
                 snapshotText = slice (snd_sep + 1) third_sep cursor;
                 indexText = slice (third_sep + 1) (length cursor) cursor;
                 generationResult = from_chars 10 generationText generation;
                 filterResult = from_chars 16 filterText filterFingerprint;
                 snapshotResult = from_chars 16 snapshotText snapshotFingerprint;
                 indexResult = from_chars 10 indexText index in
             (parsed_all generationText generationResult \<and> parsed_all filterText filterResult \<and>
              parsed_all snapshotText snapshotResult \<and> parsed_all indexText indexResult,
              parsed_value generationResult, parsed_value filterResult,
              parsed_value snapshotResult, parsed_value indexResult)))))"

definition ParseTraceCursor ::
    "string \<Rightarrow> string \<Rightarrow> u64 \<Rightarrow> ('w :: len) word \<Rightarrow> bool \<times> string \<times> u64 \<times> 'w word" where
  "ParseTraceCursor cursor traceId fingerprint index =
     (if \<not> starts_with cursor ''v4:'' \<or> length cursor > 160
      then (False, traceId, fingerprint, index)
      else
        (case find_from (CHR '':'') cursor 3 of
           None \<Rightarrow> (False, traceId, fingerprint, index)
         | Some fst_sep \<Rightarrow>
        (case find_from (CHR '':'') cursor (fst_sep + 1) of
           None \<Rightarrow> (False, traceId, fingerprint, index)
         | Some snd_sep \<Rightarrow>
             let traceId = slice 3 fst_sep cursor;
                 fingerprintText = slice (fst_sep + 1) snd_sep cursor;
                 indexText = slice (snd_sep + 1) (length cursor) cursor;
                 fingerprintResult = from_chars 16 fingerprintText fingerprint;
                 indexResult = from_chars 10 indexText index in
             (IsUuid traceId \<and> parsed_all fingerprintText fingerprintResult \<and>
              parsed_all indexText indexResult,
              traceId, parsed_value fingerprintResult, parsed_value indexResult))))"

section \<open>Printers\<close>

text \<open>
  The \<open>v1\<close> cursor is printed in three handlers. \<open>DiscoveryCursor\<close> and \<open>PatchCursor\<close> read
  \<open>request.cursorFingerprint.value_or(0)\<close>, which is their first argument here.
\<close>

definition PageCursor :: "u64 \<Rightarrow> ('w :: len) word \<Rightarrow> string" where
  "PageCursor generation index =
     ''v1:'' @ to_string (unat generation) @ '':'' @ to_string (unat index)"

definition DiscoveryCursor :: "u64 option \<Rightarrow> u64 \<Rightarrow> ('w :: len) word \<Rightarrow> string" where
  "DiscoveryCursor cursorFingerprint generation index =
     ''v2:'' @ to_string (unat generation) @ '':'' @
     to_hex (unat (case_option 0 id cursorFingerprint)) @ '':'' @ to_string (unat index)"

definition PatchCursor :: "u64 option \<Rightarrow> u64 \<Rightarrow> u64 \<Rightarrow> ('w :: len) word \<Rightarrow> string" where
  "PatchCursor cursorFingerprint generation snapshotFingerprint index =
     ''v3:'' @ to_string (unat generation) @ '':'' @
     to_hex (unat (case_option 0 id cursorFingerprint)) @ '':'' @
     to_hex (unat snapshotFingerprint) @ '':'' @ to_string (unat index)"

definition TraceCursor :: "string \<Rightarrow> u64 \<Rightarrow> ('w :: len) word \<Rightarrow> string" where
  "TraceCursor traceId fingerprint index =
     ''v4:'' @ traceId @ '':'' @ to_hex (unat fingerprint) @ '':'' @ to_string (unat index)"

section \<open>Fingerprints\<close>

definition fingerprint_add :: "u64 \<Rightarrow> string \<Rightarrow> u64" where
  "fingerprint_add hash part = fnv_add (fnv_bytes hash part) 0xff"

definition DiscoveryFingerprint ::
    "string \<Rightarrow> string \<Rightarrow> string \<Rightarrow> string \<Rightarrow> nat \<Rightarrow> nat \<Rightarrow> u64" where
  "DiscoveryFingerprint method module query encoding minLength contextBytes =
     foldl fingerprint_add fnv_offset
       [method, module, query, encoding, to_string minLength, to_string contextBytes]"

fun trace_mode_code :: "TraceMode \<Rightarrow> u8" where
  "trace_mode_code mode_into = 0" | "trace_mode_code mode_over = 1"

definition TraceFingerprint :: "TracePolicy \<Rightarrow> u64" where
  "TraceFingerprint t =
     (let hash = fnv_bytes fnv_offset (tp_id t);
          hash = fnv_add hash (trace_mode_code (tp_mode t)) in
      foldl (\<lambda>hash point. foldl (\<lambda>h i. fnv_add h (ucast (drop_bit (8 * i) point))) hash [0..<8])
        hash (tp_points t))"

section \<open>Reading back\<close>

lemma IsUuid_syntax: "IsUuid v = uuid_syntax v"
  unfolding IsUuid_def uuid_syntax_def uuid_char_def uuid_separator_def list_all_iff
  by (cases "length v = 36") (simp_all only: set_upt atLeastLessThan_iff Ball_def, auto)

lemma find_from_append:
  "c \<notin> set x \<Longrightarrow> n = length p \<Longrightarrow> find_from c (p @ x @ c # r) n = Some (n + length x)"
  by (simp add: find_from_def)

lemma slice_middle: "a = length p \<Longrightarrow> b = a + length x \<Longrightarrow> slice a b (p @ x @ r) = x"
  by (simp add: slice_def)

text \<open>
  A codec: a printer and a parser of which the parser reads back what was printed, on the
  values in \<open>valid\<close>.
\<close>

locale codec =
  fixes print :: "'a \<Rightarrow> string"
    and parse :: "string \<Rightarrow> 'a option"
    and valid :: "'a \<Rightarrow> bool"
  assumes parse_print: "valid a \<Longrightarrow> parse (print a) = Some a"
begin

lemma print_inject: "valid a \<Longrightarrow> valid b \<Longrightarrow> print a = print b \<Longrightarrow> a = b"
  by (metis option.inject parse_print)

lemma print_eq_iff: "valid a \<Longrightarrow> valid b \<Longrightarrow> print a = print b \<longleftrightarrow> a = b"
  using print_inject by blast

end

text \<open>
  The shape all cursors share: a version prefix of three characters and fields without a colon.
  The separators are found where they were printed, the slices between them are the fields.
\<close>

lemma second_field:
  assumes "length v = 3" "CHR '':'' \<notin> set a"
  shows "find_from (CHR '':'') (v @ a @ CHR '':'' # r) 3 = Some (3 + length a)"
    and "slice 3 (3 + length a) (v @ a @ CHR '':'' # r) = a"
  using assms find_from_append [of "CHR '':''" a 3 v r] slice_middle [of 3 v "3 + length a" a]
  by simp_all

lemma next_field:
  assumes "n = length p" "CHR '':'' \<notin> set a"
  shows "find_from (CHR '':'') (p @ CHR '':'' # a @ CHR '':'' # r) (Suc n) = Some (Suc n + length a)"
    and "slice (Suc n) (Suc n + length a) (p @ CHR '':'' # a @ CHR '':'' # r) = a"
  using assms find_from_append [of "CHR '':''" a "Suc n" "p @ [CHR '':'']" r]
    slice_middle [of "Suc n" "p @ [CHR '':'']" "Suc n + length a" a]
  by simp_all

lemma last_field:
  assumes "n = length p" "m = Suc n + length a"
  shows "slice (Suc n) m (p @ CHR '':'' # a) = a"
  using assms slice_middle [of "Suc n" "p @ [CHR '':'']" "Suc n + length a" a "[]"] by simp

lemma three_fields:
  fixes v a b c :: string
  assumes "length v = 3" "CHR '':'' \<notin> set a" "CHR '':'' \<notin> set b"
  defines "s \<equiv> v @ a @ CHR '':'' # b @ CHR '':'' # c"
  shows "find_from (CHR '':'') s 3 = Some (3 + length a)"
    and "find_from (CHR '':'') s (Suc (3 + length a)) = Some (4 + length a + length b)"
    and "slice 3 (3 + length a) s = a"
    and "slice (Suc (3 + length a)) (4 + length a + length b) s = b"
    and "slice (Suc (4 + length a + length b)) (length s) s = c"
  using assms(1-3) second_field [of v a "b @ CHR '':'' # c"] next_field [of "3 + length a" "v @ a" b c]
    last_field [of "4 + length a + length b" "v @ a @ CHR '':'' # b" "length s" c]
  by (simp_all add: s_def eval_nat_numeral add.assoc)

lemma four_fields:
  fixes v a b c d :: string
  assumes "length v = 3" "CHR '':'' \<notin> set a" "CHR '':'' \<notin> set b" "CHR '':'' \<notin> set c"
  defines "s \<equiv> v @ a @ CHR '':'' # b @ CHR '':'' # c @ CHR '':'' # d"
  shows "find_from (CHR '':'') s 3 = Some (3 + length a)"
    and "find_from (CHR '':'') s (Suc (3 + length a)) = Some (4 + length a + length b)"
    and "find_from (CHR '':'') s (Suc (4 + length a + length b)) =
      Some (5 + length a + length b + length c)"
    and "slice 3 (3 + length a) s = a"
    and "slice (Suc (3 + length a)) (4 + length a + length b) s = b"
    and "slice (Suc (4 + length a + length b)) (5 + length a + length b + length c) s = c"
    and "slice (Suc (5 + length a + length b + length c)) (length s) s = d"
  using assms(1-4) second_field [of v a "b @ CHR '':'' # c @ CHR '':'' # d"]
    next_field [of "3 + length a" "v @ a" b "c @ CHR '':'' # d"]
    next_field [of "4 + length a + length b" "v @ a @ CHR '':'' # b" c d]
    last_field [of "5 + length a + length b + length c" "v @ a @ CHR '':'' # b @ CHR '':'' # c"
      "length s" d]
  by (simp_all add: s_def eval_nat_numeral add.assoc)

lemma colon_not_in_text [simp]: "CHR '':'' \<notin> set (to_string n)" "CHR '':'' \<notin> set (to_hex n)"
  by (simp_all add: to_string_def to_hex_def)

lemma from_chars_text [simp]:
  "from_chars 10 (to_string (unat w)) v = (errc_ok, length (to_string (unat w)), w)"
  "from_chars 16 (to_hex (unat w)) v = (errc_ok, length (to_hex (unat w)), w)"
  by (simp_all add: to_string_def to_hex_def)

text \<open>The fields fit the length limits when \<open>std::size_t\<close> has at most 64 bits.\<close>

lemma field_lengths:
  "length (to_string (unat (g :: u64))) \<le> 20" "length (to_hex (unat g)) \<le> 16"
  "LENGTH('w :: len) \<le> 64 \<Longrightarrow> length (to_string (unat (i :: 'w word))) \<le> 20"
proof -
  have g: "unat g < 2 ^ 64" using unsigned_less [of g, where 'a = nat] by simp
  then show "length (to_string (unat g)) \<le> 20" "length (to_hex (unat g)) \<le> 16"
    by (simp_all add: to_string_def to_hex_def length_to_chars)
  assume "LENGTH('w) \<le> 64"
  then have "(2 :: nat) ^ LENGTH('w) \<le> 2 ^ 64" by (rule power_increasing) simp
  then have "unat i < 2 ^ 64" using unsigned_less [of i, where 'a = nat] by linarith
  then show "length (to_string (unat i)) \<le> 20"
    by (simp add: to_string_def length_to_chars)
qed

lemma starts_with_version [simp]: "starts_with (CHR ''v'' # d # CHR '':'' # s) [CHR ''v'', e, CHR '':''] \<longleftrightarrow> d = e"
  by (simp add: starts_with_def)

lemma parsed_simps [simp]: "parsed_all s (errc_ok, length s, w)" "parsed_value (e, n, w) = w"
  by (simp_all add: parsed_all_def parsed_value_def)

lemma ParseCursor_PageCursor:
  assumes "LENGTH('w :: len) \<le> 64"
  shows "ParseCursor (PageCursor g (i :: 'w word)) g0 i0 = (True, g, i)"
proof -
  let ?s = "''v1:'' @ to_string (unat g) @ CHR '':'' # to_string (unat i)"
  have "length ?s \<le> 64" using field_lengths [of g] field_lengths(3) [OF assms, of i] by simp
  moreover have "find_from (CHR '':'') ?s 3 = Some (3 + length (to_string (unat g)))"
    and "slice 3 (3 + length (to_string (unat g))) ?s = to_string (unat g)"
    by (rule second_field; simp)+
  moreover have "slice (Suc (3 + length (to_string (unat g)))) (length ?s) ?s = to_string (unat i)"
    using last_field [of "3 + length (to_string (unat g))" "''v1:'' @ to_string (unat g)" "length ?s"
      "to_string (unat i)"]
    by (simp add: eval_nat_numeral)
  ultimately show ?thesis by (simp add: ParseCursor_def PageCursor_def Let_def)
qed

lemma ParseDiscoveryCursor_DiscoveryCursor:
  assumes "LENGTH('w :: len) \<le> 64"
  shows "ParseDiscoveryCursor (DiscoveryCursor (Some f) g (i :: 'w word)) g0 f0 i0 = (True, g, f, i)"
proof -
  let ?s = "''v2:'' @ to_string (unat g) @ CHR '':'' # to_hex (unat f) @ CHR '':'' # to_string (unat i)"
  have "length ?s \<le> 128"
    using field_lengths [of g] field_lengths [of f] field_lengths(3) [OF assms, of i] by simp
  moreover note three_fields [of "''v2:''" "to_string (unat g)" "to_hex (unat f)" "to_string (unat i)"]
  ultimately show ?thesis by (simp add: ParseDiscoveryCursor_def DiscoveryCursor_def Let_def)
qed

lemma ParsePatchCursor_PatchCursor:
  assumes "LENGTH('w :: len) \<le> 64"
  shows "ParsePatchCursor (PatchCursor (Some f) g h (i :: 'w word)) g0 f0 h0 i0 = (True, g, f, h, i)"
proof -
  let ?s = "''v3:'' @ to_string (unat g) @ CHR '':'' # to_hex (unat f) @ CHR '':'' #
    to_hex (unat h) @ CHR '':'' # to_string (unat i)"
  have "length ?s \<le> 160"
    using field_lengths [of g] field_lengths [of f] field_lengths [of h]
      field_lengths(3) [OF assms, of i] by simp
  moreover note four_fields [of "''v3:''" "to_string (unat g)" "to_hex (unat f)" "to_hex (unat h)"
      "to_string (unat i)"]
  ultimately show ?thesis by (simp add: ParsePatchCursor_def PatchCursor_def Let_def)
qed

lemma ParseTraceCursor_TraceCursor:
  assumes "LENGTH('w :: len) \<le> 64" "IsUuid t"
  shows "ParseTraceCursor (TraceCursor t f (i :: 'w word)) t0 f0 i0 = (True, t, f, i)"
proof -
  let ?s = "''v4:'' @ t @ CHR '':'' # to_hex (unat f) @ CHR '':'' # to_string (unat i)"
  have t: "length t = 36" "CHR '':'' \<notin> set t"
    using assms(2) by (simp_all add: IsUuid_syntax uuid_no_colon) (simp add: uuid_syntax_def)
  then have "length ?s \<le> 160"
    using field_lengths [of f] field_lengths(3) [OF assms(1), of i] by simp
  moreover note three_fields [of "''v4:''" t "to_hex (unat f)" "to_string (unat i)"]
  ultimately show ?thesis using t assms(2) by (simp add: ParseTraceCursor_def TraceCursor_def Let_def)
qed

text \<open>The four codecs, for both widths of \<open>std::size_t\<close>; a failed parse is \<open>None\<close>.\<close>

definition answered :: "bool \<times> 'a \<Rightarrow> 'a option" where
  "answered r = (if fst r then Some (snd r) else None)"

interpretation page_cursor: codec "\<lambda>(g, i). PageCursor g i"
  "\<lambda>s. answered (ParseCursor s 0 (0 :: ('w :: len) word))" "\<lambda>_. LENGTH('w) \<le> 64"
  by unfold_locales (auto simp: answered_def ParseCursor_PageCursor)

interpretation discovery_cursor: codec "\<lambda>(g, f, i). DiscoveryCursor (Some f) g i"
  "\<lambda>s. answered (ParseDiscoveryCursor s 0 0 (0 :: ('w :: len) word))" "\<lambda>_. LENGTH('w) \<le> 64"
  by unfold_locales (auto simp: answered_def ParseDiscoveryCursor_DiscoveryCursor)

interpretation patch_cursor: codec "\<lambda>(g, f, h, i). PatchCursor (Some f) g h i"
  "\<lambda>s. answered (ParsePatchCursor s 0 0 0 (0 :: ('w :: len) word))" "\<lambda>_. LENGTH('w) \<le> 64"
  by unfold_locales (auto simp: answered_def ParsePatchCursor_PatchCursor)

interpretation trace_cursor: codec "\<lambda>(t, f, i). TraceCursor t f i"
  "\<lambda>s. answered (ParseTraceCursor s [] 0 (0 :: ('w :: len) word))"
  "\<lambda>(t, _, _). LENGTH('w) \<le> 64 \<and> IsUuid t"
  by unfold_locales (auto simp: answered_def ParseTraceCursor_TraceCursor)

text \<open>
  C9. Cursors survive the round trip through the client: in both builds each of the four cursor
  versions that a handler prints is parsed back to exactly its generation, fingerprints and
  index, and two printed cursors of one version are the same text only when they carry the
  same values.
\<close>

theorem cursors_roundtrip:
  fixes i j :: "('w :: len) word"
  assumes "LENGTH('w) \<in> {32, 64}" "IsUuid t"
  shows "answered (ParseCursor (PageCursor g i) 0 0) = Some (g, i) \<and>
    answered (ParseDiscoveryCursor (DiscoveryCursor (Some f) g i) 0 0 0) = Some (g, f, i) \<and>
    answered (ParsePatchCursor (PatchCursor (Some f) g h i) 0 0 0 0) = Some (g, f, h, i) \<and>
    answered (ParseTraceCursor (TraceCursor t f i) [] 0 0) = Some (t, f, i) \<and>
    (DiscoveryCursor (Some f) g i = DiscoveryCursor (Some f') g' j \<longleftrightarrow> (g, f, i) = (g', f', j))"
proof -
  have len: "LENGTH('w) \<le> 64" using assms(1) by auto
  show ?thesis
    using len assms(2) page_cursor.parse_print [OF len, of "(g, i)"]
      discovery_cursor.parse_print [OF len, of "(g, f, i)"]
      patch_cursor.parse_print [OF len, of "(g, f, h, i)"]
      trace_cursor.parse_print [of "(t, f, i)"]
      discovery_cursor.print_eq_iff [OF len len, of "(g, f, i)" "(g', f', j)"]
    by simp
qed

theorem cursors_roundtrip_witness:
  "answered (ParseTraceCursor (TraceCursor ''0f8fad5b-d9cb-469f-a165-70867728950e'' 255 (7 :: u32)) [] 0 0) =
     Some (''0f8fad5b-d9cb-469f-a165-70867728950e'', 255, 7 :: u32)"
proof -
  have "IsUuid ''0f8fad5b-d9cb-469f-a165-70867728950e''" by code_simp
  moreover have "LENGTH(32) \<in> {32, 64}" by simp
  ultimately show ?thesis using cursors_roundtrip by blast
qed

end
