(* ===== verification/Request_Values.thy ===== *)
theory Request_Values
  imports Events Cursor Jansson
begin

text \<open>
  The values of a request: \<open>AddressReference\<close>, the readers of single JSON values
  (\<open>IsCanonicalHex\<close> to \<open>CanonicalUtf8Path\<close> of \<open>runtime.cpp\<close>) and the tests that
  \<open>ParseRequest\<close> writes out again and again: a field that may be absent, an integer between
  bounds, a thread id, an array of distinct names.

  The width \<open>'w\<close> is that of \<open>duint\<close> and \<open>std::size_t\<close>, 32 or 64. A \<open>std::size_t\<close> that was
  read from a bounded JSON integer is a \<^typ>\<open>nat\<close>.
\<close>

datatype AddressReferenceKind = ref_absolute | ref_moduleRva

record 'd AddressReference =
  ar_kind :: AddressReferenceKind
  ar_absolute :: 'd
  ar_module :: string
  ar_rva :: 'd
  ar_pointerWidthValid :: bool

definition AddressReference_init :: "('w :: len) word AddressReference" where
  "AddressReference_init =
     \<lparr>ar_kind = ref_absolute, ar_absolute = 0, ar_module = [], ar_rva = 0,
      ar_pointerWidthValid = True\<rparr>"

definition IsCanonicalHex :: "'j jansson \<Rightarrow> 'j option \<Rightarrow> bool" where
  "IsCanonicalHex J p =
     (if \<not> json_is J JSON_STRING p then False
      else
        let txt = str_of J p in
        if \<not> starts_with txt ''0x'' \<or> length txt < 3 \<or> length txt > 34 then False
        else list_all is_lower_hex (drop 2 txt))"

text \<open>
  The readers of numbers return the answer and the value of the output variable, which a text
  that does not fit the width leaves as it was.
\<close>

definition ParseCanonicalHex :: "'j jansson \<Rightarrow> 'j option \<Rightarrow> ('w :: len) word \<Rightarrow> bool \<times> 'w word" where
  "ParseCanonicalHex J p out =
     (if \<not> IsCanonicalHex J p \<or> length (str_of J p) > LENGTH('w) div 8 * 2 + 2 then (False, out)
      else
        let digits = drop 2 (str_of J p); conversion = from_chars 16 digits out in
        (parsed_all digits conversion, parsed_value conversion))"

definition ParseCanonicalHex64 :: "'j jansson \<Rightarrow> 'j option \<Rightarrow> u64 option" where
  "ParseCanonicalHex64 J p =
     (if \<not> IsCanonicalHex J p \<or> length (str_of J p) > 18 then None
      else
        let digits = drop 2 (str_of J p); conversion = from_chars 16 digits (0 :: u64) in
        if parsed_all digits conversion then Some (parsed_value conversion) else None)"

definition IsBoundedModuleName :: "'j jansson \<Rightarrow> 'j option \<Rightarrow> bool" where
  "IsBoundedModuleName J p =
     (if \<not> json_is J JSON_STRING p \<or> length (str_of J p) = 0 \<or> length (str_of J p) > 260 then False
      else \<not> list_ex (\<lambda>c. is_control c \<or> c = CHR ''/'' \<or> c = CHR 0x5C) (str_of J p))"

definition ParseAddressReference :: "'j jansson \<Rightarrow> 'j option \<Rightarrow> ('w :: len) word AddressReference option" where
  "ParseAddressReference J p =
     (if IsCanonicalHex J p then
        let (valid, absolute) = ParseCanonicalHex J p 0 in
        Some \<lparr>ar_kind = ref_absolute, ar_absolute = absolute, ar_module = [], ar_rva = 0,
              ar_pointerWidthValid = valid\<rparr>
      else
        case p of
          None \<Rightarrow> None
        | Some v \<Rightarrow>
            if json_typeof J v \<noteq> JSON_OBJECT then None
            else if json_object_size J v = 1 then
              let absoluteValue = json_object_get J v ''absolute'' in
              if absoluteValue \<noteq> None \<and> IsCanonicalHex J absoluteValue then
                let (valid, absolute) = ParseCanonicalHex J absoluteValue 0 in
                Some \<lparr>ar_kind = ref_absolute, ar_absolute = absolute, ar_module = [], ar_rva = 0,
                      ar_pointerWidthValid = valid\<rparr>
              else None
            else if json_object_size J v \<noteq> 2 then None
            else
              let module = json_object_get J v ''module''; rvaValue = json_object_get J v ''rva'' in
              if \<not> IsBoundedModuleName J module \<or> \<not> IsCanonicalHex J rvaValue then None
              else
                let (valid, rva) = ParseCanonicalHex J rvaValue 0 in
                Some \<lparr>ar_kind = ref_moduleRva, ar_absolute = 0, ar_module = str_of J module,
                      ar_rva = rva, ar_pointerWidthValid = valid\<rparr>)"

definition IsBoundedPathString :: "'j jansson \<Rightarrow> 'j option \<Rightarrow> bool" where
  "IsBoundedPathString J p =
     (if \<not> json_is J JSON_STRING p \<or> length (str_of J p) < 3 \<or> length (str_of J p) > 32767 then False
      else \<not> list_ex is_control (str_of J p))"

text \<open>
  \<open>std::filesystem\<close> is a parameter: \<open>canonical\<close> gives the canonical path of an absolute path
  that exists, as UTF-8, with what the path is.
\<close>

datatype file_kind = regular_file | directory_file | other_file

definition CanonicalUtf8Path ::
    "(string \<Rightarrow> bool) \<Rightarrow> (string \<Rightarrow> (string \<times> file_kind) option) \<Rightarrow> string \<Rightarrow> bool \<Rightarrow> string option" where
  "CanonicalUtf8Path is_absolute canonical input requireDirectory = do {
     require (is_absolute input);
     (result, kind) \<leftarrow> canonical input;
     require (if requireDirectory then kind = directory_file else kind = regular_file);
     require (\<not> (result = [] \<or> CHR 0x22 \<in> set result \<or> list_ex is_control result));
     Some (map (\<lambda>c. if c = CHR 0x5C then CHR ''/'' else c) result)
   }"

section \<open>Recurring tests of \<open>ParseRequest\<close>\<close>

text \<open>The number of optional fields that are there: \<open>(a ? 1U : 0U) + (b ? 1U : 0U) + \<dots>\<close>\<close>

definition present :: "'j option list \<Rightarrow> nat" where
  "present ps = length (filter (\<lambda>p. p \<noteq> None) ps)"

text \<open>A test that is made only when the field is there.\<close>

definition when_present :: "'j option \<Rightarrow> bool \<Rightarrow> bool" where
  "when_present p test \<longleftrightarrow> p = None \<or> test"

definition int_between :: "'j jansson \<Rightarrow> 'j option \<Rightarrow> int \<Rightarrow> int \<Rightarrow> bool" where
  "int_between J p lo hi \<longleftrightarrow> json_is J JSON_INTEGER p \<and> lo \<le> int_of J p \<and> int_of J p \<le> hi"

definition string_between :: "'j jansson \<Rightarrow> 'j option \<Rightarrow> nat \<Rightarrow> nat \<Rightarrow> bool" where
  "string_between J p lo hi \<longleftrightarrow>
     json_is J JSON_STRING p \<and> lo \<le> length (str_of J p) \<and> length (str_of J p) \<le> hi"

definition array_between :: "'j jansson \<Rightarrow> 'j option \<Rightarrow> nat \<Rightarrow> nat \<Rightarrow> bool" where
  "array_between J p lo hi = (case p of None \<Rightarrow> False | Some v \<Rightarrow>
     json_typeof J v = JSON_ARRAY \<and> lo \<le> json_array_size J v \<and> json_array_size J v \<le> hi)"

text \<open>The elements a loop over \<open>json_array_get\<close> visits.\<close>

definition elements :: "'j jansson \<Rightarrow> 'j option \<Rightarrow> 'j option list" where
  "elements J p = (case p of None \<Rightarrow> [] | Some v \<Rightarrow>
     map (json_array_get J v) [0..<json_array_size J v])"

text \<open>An integer field with bounds, or the default when it is absent.\<close>

definition opt_int :: "'j jansson \<Rightarrow> 'j option \<Rightarrow> int \<Rightarrow> int \<Rightarrow> nat \<Rightarrow> nat option" where
  "opt_int J p lo hi dflt =
     (if p = None then Some dflt
      else do { require (int_between J p lo hi); Some (nat (int_of J p)) })"

definition no_control :: "string \<Rightarrow> bool" where
  "no_control s \<longleftrightarrow> \<not> list_ex is_control s"

text \<open>The optional \<open>thread_id\<close>: a non-zero 32-bit number in canonical hexadecimal.\<close>

definition opt_thread :: "'j jansson \<Rightarrow> 'j option \<Rightarrow> u32 option option" where
  "opt_thread J p =
     (if p = None then Some None
      else do {
        parsedThread \<leftarrow> ParseCanonicalHex64 J p;
        require (parsedThread \<noteq> 0 \<and> parsedThread \<le> 0xffffffff);
        Some (Some (ucast parsedThread))
      })"

text \<open>The loops that collect distinct values.\<close>

primrec collect_kinds :: "'j jansson \<Rightarrow> 'j option list \<Rightarrow> EventKind list \<Rightarrow> EventKind list option" where
  "collect_kinds J [] acc = Some acc"
| "collect_kinds J (p # ps) acc =
     (if \<not> json_is J JSON_STRING p then None
      else
        (case ParseEventKind (str_of J p) of
           None \<Rightarrow> None
         | Some kind \<Rightarrow> if kind \<in> set acc then None else collect_kinds J ps (acc @ [kind])))"

primrec collect_names :: "'j jansson \<Rightarrow> 'j option list \<Rightarrow> string list \<Rightarrow> string list option" where
  "collect_names J [] acc = Some acc"
| "collect_names J (p # ps) acc =
     (if \<not> string_between J p 1 32 then None
      else if str_of J p \<in> set acc then None
      else collect_names J ps (acc @ [str_of J p]))"

section \<open>What the readers accept\<close>

lemma opt_int_bounds:
  "opt_int J p lo hi d = Some n \<Longrightarrow> n \<le> max d (nat hi) \<and> min d (nat lo) \<le> n"
  by (auto simp: opt_int_def int_between_def monad_simps split: if_splits)

lemma int_between_nat: "int_between J p lo hi \<Longrightarrow> nat lo \<le> nat (int_of J p) \<and> nat (int_of J p) \<le> nat hi"
  by (auto simp: int_between_def)

lemma collect_kinds_distinct:
  "collect_kinds J ps acc = Some ks \<Longrightarrow> distinct acc \<Longrightarrow>
   distinct ks \<and> length ks = length acc + length ps"
proof (induction ps arbitrary: acc)
  case (Cons p ps)
  from Cons.prems(1) obtain k where k: "k \<notin> set acc" "collect_kinds J ps (acc @ [k]) = Some ks"
    by (auto split: if_splits option.splits)
  then show ?case using Cons.IH [OF k(2)] Cons.prems(2) by simp
qed simp

lemma collect_names_distinct:
  "collect_names J ps acc = Some ns \<Longrightarrow> distinct acc \<Longrightarrow>
   list_all (\<lambda>s. 1 \<le> length s \<and> length s \<le> 32) acc \<Longrightarrow>
   distinct ns \<and> length ns = length acc + length ps \<and>
   list_all (\<lambda>s. 1 \<le> length s \<and> length s \<le> 32) ns"
proof (induction ps arbitrary: acc)
  case (Cons p ps)
  from Cons.prems(1) have k: "str_of J p \<notin> set acc" "string_between J p 1 32"
      "collect_names J ps (acc @ [str_of J p]) = Some ns"
    by (auto split: if_splits)
  then show ?case using Cons.IH [OF k(3)] Cons.prems(2,3) by (simp add: string_between_def)
qed simp

lemma length_elements: "array_between J p lo hi \<Longrightarrow> length (elements J p) \<le> hi"
  by (cases p) (auto simp: array_between_def elements_def)

lemma length_elements_present:
  "when_present p (array_between J p lo hi) \<Longrightarrow> length (elements J p) \<le> hi"
  by (auto simp: when_present_def length_elements) (simp add: elements_def)

lemma opt_thread_nonzero: "opt_thread J p = Some (Some t) \<Longrightarrow> t \<noteq> 0"
proof -
  have "(ucast w :: u32) \<noteq> 0" if "w \<noteq> 0" "w \<le> 0xffffffff" for w :: u64
  proof -
    have "unat w < 2 ^ 32" using that(2) by (simp add: word_le_nat_alt)
    then have "unat (ucast w :: u32) = unat w"
      by (simp add: unsigned_ucast_eq take_bit_nat_eq_self_iff)
    with that(1) show ?thesis by (metis unat_0 unsigned_word_eqI word_eq_iff_unsigned)
  qed
  then show "opt_thread J p = Some (Some t) \<Longrightarrow> t \<noteq> 0"
    by (auto simp: opt_thread_def monad_simps split: if_splits)
qed

section \<open>Printed numbers are read back\<close>

lemma to_hex_lower: "list_all is_lower_hex (to_hex n)"
  using to_chars_digits [of 16 n] by (auto simp: list_all_iff to_hex_def)

lemma IsCanonicalHex_HexValue:
  assumes "json_is J JSON_STRING p" "str_of J p = HexValue v"
  shows "IsCanonicalHex J p"
proof -
  have "length (to_hex (unat v)) \<le> 16" "to_hex (unat v) \<noteq> []"
    using field_lengths(2) [of v] by (simp_all add: to_hex_def)
  with assms to_hex_lower [of "unat v"] show ?thesis
    by (cases "to_hex (unat v)") (simp_all add: IsCanonicalHex_def HexValue_def Let_def starts_with_def)
qed

lemma ParseCanonicalHex64_HexValue:
  assumes "json_is J JSON_STRING p" "str_of J p = HexValue v"
  shows "ParseCanonicalHex64 J p = Some v"
  using assms IsCanonicalHex_HexValue [OF assms] field_lengths(2) [of v]
  by (simp add: ParseCanonicalHex64_def HexValue_def Let_def)

lemma ParseCanonicalHex_HexValue:
  fixes a :: "('w :: len) word"
  assumes "json_is J JSON_STRING p" "str_of J p = HexValue (ucast a)" "LENGTH('w) \<in> {32, 64}"
  shows "ParseCanonicalHex J p (w :: 'w word) = (True, a)"
proof -
  have le: "LENGTH('w) \<le> 64" using assms(3) by auto
  have a: "unat (ucast a :: u64) = unat a"
    using le by (simp add: unat_ucast_le)
  have "(2 :: nat) ^ LENGTH('w) = 16 ^ (LENGTH('w) div 4)" using assms(3) by auto
  then have "unat a < 16 ^ (LENGTH('w) div 4)" by (metis unsigned_less)
  then have "length (to_hex (unat a)) \<le> LENGTH('w) div 4"
    using assms(3) by (auto simp: to_hex_def intro!: length_to_chars)
  moreover have "LENGTH('w) div 4 = LENGTH('w) div 8 * 2" using assms(3) by auto
  ultimately show ?thesis
    using assms IsCanonicalHex_HexValue [OF assms(1,2)]
    by (simp add: ParseCanonicalHex_def HexValue_def Let_def a)
qed

lemma ParseAddressReference_HexValue:
  fixes a :: "('w :: len) word"
  assumes "json_is J JSON_STRING p" "str_of J p = HexValue (ucast a)" "LENGTH('w) \<in> {32, 64}"
  shows "ParseAddressReference J p =
    Some \<lparr>ar_kind = ref_absolute, ar_absolute = a, ar_module = [], ar_rva = 0,
          ar_pointerWidthValid = True\<rparr>"
  using IsCanonicalHex_HexValue [OF assms(1,2)] ParseCanonicalHex_HexValue [OF assms, of 0]
  by (simp add: ParseAddressReference_def)

end
