(* ===== verification/Request.thy ===== *)
theory Request
  imports Request_Values Breakpoint_Policy Patch_Policy Register_Policy Launch_Arguments
begin

text \<open>
  \<open>ParseRequest\<close> of \<open>runtime.cpp\<close>, the only way a request of the sidecar enters the plugin.

  The local variables of the function are the members of the \<open>Request\<close> it returns, so its
  state is a \<open>Request\<close> that starts with the initial values, and each branch of the long
  \<open>if\<close> chain is a definition that takes the payload and that \<open>Request\<close> and returns the
  changed one, or \<open>None\<close> for \<open>return std::nullopt\<close>. \<open>J\<close> is the JSON library, \<open>k\<close> the
  SDK's constants, \<open>b\<close> the build and \<open>wide\<close> the Windows UTF-8 decoder.
\<close>

record 'd Request =
  rq_requestId :: string
  rq_method :: string
  rq_deadlineUnixMs :: u64
  rq_mutation :: bool
  rq_expression :: string
  rq_path :: string
  rq_workingDirectory :: string
  rq_launchArguments :: "string list"
  rq_targetProcessId :: u32
  rq_address :: "'d AddressReference"
  rq_length :: nat
  rq_registerNames :: "string list"
  rq_pageLimit :: nat
  rq_cursorGeneration :: "u64 option"
  rq_cursorIndex :: 'd
  rq_instructionCount :: nat
  rq_writeBytes :: "u8 list"
  rq_afterGeneration :: u64
  rq_waitTimeoutMs :: nat
  rq_module :: string
  rq_query :: string
  rq_stringEncoding :: string
  rq_minStringLength :: nat
  rq_stringContextBytes :: nat
  rq_cursorFingerprint :: "u64 option"
  rq_discoveryCursorInvalid :: bool
  rq_committedOnly :: bool
  rq_executableOnly :: bool
  rq_compact :: bool
  rq_registerName :: string
  rq_registerWriteValue :: u64
  rq_breakpointKind :: string
  rq_breakpointAccess :: string
  rq_breakpointSize :: nat
  rq_instruction :: string
  rq_expectedBytes :: "u8 list"
  rq_expectedOriginalBytes :: "u8 list"
  rq_fillNop :: bool
  rq_addressProvided :: bool
  rq_targetThreadId :: "u32 option"
  rq_symbolName :: string
  rq_cursorSnapshotFingerprint :: "u64 option"
  rq_eventCursor :: string
  rq_eventTypes :: "EventKind list"
  rq_operationId :: string
  rq_runToTimeoutMs :: nat
  rq_memorySearchModuleScope :: bool
  rq_memoryPattern :: memory_pattern
  rq_exceptionCode :: u32
  rq_exceptionChance :: string
  rq_managedBreakpointId :: string
  rq_conditionalSpec :: ConditionalSpec
  rq_conditionalExpression :: string
  rq_conditionalInvalid :: bool
  rq_traceId :: string
  rq_traceMode :: string
  rq_traceMaxSteps :: nat
  rq_traceTimeoutMs :: nat
  rq_traceCursorInvalid :: bool
  rq_expressions :: "string list"
  rq_callingConvention :: string
  rq_argumentCount :: nat
  rq_scyllaAction :: string
  rq_scyllaProfile :: string
  rq_expectedConfigGeneration :: string
  rq_exceptionDisposition :: string
  rq_exceptionRegisterOverrides :: "RegisterAssignment list"
  rq_overwrite :: bool

definition Request_init :: "string \<Rightarrow> string \<Rightarrow> u64 \<Rightarrow> bool \<Rightarrow> string \<Rightarrow> ('w :: len) word Request" where
  "Request_init requestId method deadline mutation operationId =
     \<lparr>rq_requestId = requestId, rq_method = method, rq_deadlineUnixMs = deadline,
      rq_mutation = mutation, rq_expression = [], rq_path = [], rq_workingDirectory = [],
      rq_launchArguments = [], rq_targetProcessId = 0, rq_address = AddressReference_init,
      rq_length = 0, rq_registerNames = [], rq_pageLimit = 100, rq_cursorGeneration = None,
      rq_cursorIndex = 0, rq_instructionCount = 32, rq_writeBytes = [], rq_afterGeneration = 0,
      rq_waitTimeoutMs = 5000, rq_module = [], rq_query = [], rq_stringEncoding = ''both'',
      rq_minStringLength = 4, rq_stringContextBytes = 64, rq_cursorFingerprint = None,
      rq_discoveryCursorInvalid = False, rq_committedOnly = False, rq_executableOnly = False,
      rq_compact = False, rq_registerName = [], rq_registerWriteValue = 0,
      rq_breakpointKind = [], rq_breakpointAccess = [], rq_breakpointSize = 0,
      rq_instruction = [], rq_expectedBytes = [], rq_expectedOriginalBytes = [],
      rq_fillNop = False, rq_addressProvided = False, rq_targetThreadId = None,
      rq_symbolName = [], rq_cursorSnapshotFingerprint = None, rq_eventCursor = [],
      rq_eventTypes = [], rq_operationId = operationId, rq_runToTimeoutMs = 9000,
      rq_memorySearchModuleScope = False, rq_memoryPattern = \<lparr>mp_bytes = [], mp_exact = []\<rparr>,
      rq_exceptionCode = 0, rq_exceptionChance = [], rq_managedBreakpointId = [],
      rq_conditionalSpec = \<lparr>cs_mode = mode_all, cs_predicates = []\<rparr>,
      rq_conditionalExpression = [], rq_conditionalInvalid = False, rq_traceId = [],
      rq_traceMode = [], rq_traceMaxSteps = 0, rq_traceTimeoutMs = 0,
      rq_traceCursorInvalid = False, rq_expressions = [], rq_callingConvention = ''auto'',
      rq_argumentCount = 8, rq_scyllaAction = [], rq_scyllaProfile = [],
      rq_expectedConfigGeneration = [], rq_exceptionDisposition = [],
      rq_exceptionRegisterOverrides = [], rq_overwrite = False\<rparr>"

section \<open>Methods\<close>

definition mutation_methods :: "string list" where
  "mutation_methods =
     [''debugger.pause'', ''debugger.resume'', ''debugger.continue_exception'',
      ''debugger.step_into'', ''debugger.step_over'', ''debugger.step_out'',
      ''debugger.run_to_address'', ''registers.write'', ''debugger.stop'', ''memory.write'',
      ''memory.dump'', ''breakpoints.set'', ''breakpoints.remove'', ''breakpoints.hardware.set'',
      ''breakpoints.hardware.remove'', ''breakpoints.memory.set'', ''breakpoints.memory.remove'',
      ''breakpoints.exception.set'', ''breakpoints.exception.remove'',
      ''breakpoints.conditional.set'', ''breakpoints.conditional.remove'', ''breakpoints.enable'',
      ''breakpoints.disable'', ''assembly.patch'', ''patches.restore'', ''debuggee.launch'',
      ''debuggee.launch_dll'', ''debuggee.attach'', ''debuggee.detach'', ''analysis.function'',
      ''trace.start'', ''trace.cancel'']"

definition IsMutation :: "string \<Rightarrow> bool" where
  "IsMutation method \<longleftrightarrow> List.member mutation_methods method"

definition IsPageMethod :: "string \<Rightarrow> bool" where
  "IsPageMethod method \<longleftrightarrow>
     List.member [''modules.list'', ''threads.list'', ''breakpoints.list''] method"

definition IsDiscoveryMethod :: "string \<Rightarrow> bool" where
  "IsDiscoveryMethod method \<longleftrightarrow>
     List.member [''symbols.search'', ''functions.list'', ''strings.search'', ''references.to'',
       ''imports.list'', ''exports.list'', ''sections.list''] method"

definition has_operation_id :: "'j jansson \<Rightarrow> 'j \<Rightarrow> bool" where
  "has_operation_id J payload \<longleftrightarrow> json_is J JSON_STRING (json_object_get J payload ''operation_id'')"

section \<open>Session and event methods\<close>

definition parse_scyllahide ::
    "'j jansson \<Rightarrow> 'j \<Rightarrow> ('w :: len) word Request \<Rightarrow> 'w word Request option" where
  "parse_scyllahide J payload r = do {
     let action = json_object_get J payload ''action'';
     require (json_is J JSON_STRING action);
     let scyllaAction = str_of J action;
     if scyllaAction = ''get'' then do {
       require (json_object_size J payload = 1);
       Some (r\<lparr>rq_scyllaAction := scyllaAction\<rparr>)
     } else if scyllaAction = ''set'' then do {
       let profile = json_object_get J payload ''profile'';
       let generation = json_object_get J payload ''expected_config_generation'';
       require (json_object_size J payload = 4 \<and> json_is J JSON_STRING profile \<and>
         json_is J JSON_STRING generation \<and> has_operation_id J payload \<and>
         1 \<le> length (str_of J profile) \<and> length (str_of J profile) \<le> 128 \<and>
         length (str_of J generation) = 71);
       require (starts_with (str_of J generation) ''sha256:'' \<and>
         list_all is_lower_hex (drop 7 (str_of J generation)));
       Some (r\<lparr>rq_scyllaAction := scyllaAction, rq_scyllaProfile := str_of J profile,
               rq_expectedConfigGeneration := str_of J generation\<rparr>)
     } else None
   }"

definition parse_no_fields ::
    "'j jansson \<Rightarrow> 'j \<Rightarrow> ('w :: len) word Request \<Rightarrow> 'w word Request option" where
  "parse_no_fields J payload r = do {
     require (json_object_size J payload = 0);
     Some r
   }"

definition parse_events_list ::
    "'j jansson \<Rightarrow> 'j \<Rightarrow> ('w :: len) word Request \<Rightarrow> 'w word Request option" where
  "parse_events_list J payload r = do {
     let cursor = json_object_get J payload ''cursor'';
     let types = json_object_get J payload ''types'';
     let limit = json_object_get J payload ''limit'';
     require (json_object_size J payload = present [cursor, types, limit]);
     require (when_present cursor (string_between J cursor 1 512));
     require (when_present types (array_between J types 1 19));
     eventTypes \<leftarrow> collect_kinds J (elements J types) [];
     pageLimit \<leftarrow> opt_int J limit 1 256 (rq_pageLimit r);
     Some (r\<lparr>rq_eventCursor := str_of J cursor, rq_eventTypes := eventTypes,
             rq_pageLimit := pageLimit\<rparr>)
   }"

definition parse_events_wait ::
    "'j jansson \<Rightarrow> 'j \<Rightarrow> ('w :: len) word Request \<Rightarrow> 'w word Request option" where
  "parse_events_wait J payload r = do {
     let types = json_object_get J payload ''types'';
     let timeout = json_object_get J payload ''timeout_ms'';
     require (json_object_size J payload = present [timeout, types] \<and>
       when_present types (array_between J types 1 19));
     eventTypes \<leftarrow> collect_kinds J (elements J types) [];
     waitTimeoutMs \<leftarrow> opt_int J timeout 1 9000 (rq_waitTimeoutMs r);
     Some (r\<lparr>rq_eventTypes := eventTypes, rq_waitTimeoutMs := waitTimeoutMs\<rparr>)
   }"

definition parse_snapshot ::
    "'j jansson \<Rightarrow> 'j \<Rightarrow> ('w :: len) word Request \<Rightarrow> 'w word Request option" where
  "parse_snapshot J payload r = do {
     let regs = json_object_get J payload ''registers'';
     let count = json_object_get J payload ''disassembly_count'';
     let thread = json_object_get J payload ''thread_id'';
     require (json_object_size J payload = present [regs, count, thread]);
     require (when_present regs (array_between J regs 1 16));
     registerNames \<leftarrow> collect_names J (elements J regs) [];
     instructionCount \<leftarrow> opt_int J count 0 64 8;
     targetThreadId \<leftarrow> opt_thread J thread;
     Some (r\<lparr>rq_registerNames := registerNames, rq_instructionCount := instructionCount,
             rq_targetThreadId := targetThreadId\<rparr>)
   }"

definition parse_wait_for_pause ::
    "'j jansson \<Rightarrow> 'j \<Rightarrow> ('w :: len) word Request \<Rightarrow> 'w word Request option" where
  "parse_wait_for_pause J payload r = do {
     let after = json_object_get J payload ''after_generation'';
     let timeout = json_object_get J payload ''timeout_ms'';
     require (json_object_size J payload = (if timeout = None then 1 else 2) \<and>
       int_between J after 0 9007199254740991);
     waitTimeoutMs \<leftarrow> opt_int J timeout 1 9000 (rq_waitTimeoutMs r);
     Some (r\<lparr>rq_afterGeneration := word_of_int (int_of J after),
             rq_waitTimeoutMs := waitTimeoutMs\<rparr>)
   }"

section \<open>Debuggee lifecycle\<close>

text \<open>
  The loop over the arguments. \<open>kMaxLaunchArgumentTotalBytes - totalBytes\<close> cannot wrap,
  since the test keeps the total below the limit.
\<close>

primrec collect_arguments ::
    "'j jansson \<Rightarrow> (string \<Rightarrow> u16 list option) \<Rightarrow> 'j option list \<Rightarrow> nat \<Rightarrow> string list \<Rightarrow>
     string list option" where
  "collect_arguments J wide [] totalBytes acc = Some acc"
| "collect_arguments J wide (p # ps) totalBytes acc =
     (if \<not> json_is J JSON_STRING p then None
      else if \<not> ValidLaunchArgument wide (str_of J p) \<or>
              length (str_of J p) > kMaxLaunchArgumentTotalBytes - totalBytes then None
      else collect_arguments J wide ps (totalBytes + length (str_of J p)) (acc @ [str_of J p]))"

definition parse_launch ::
    "'j jansson \<Rightarrow> (string \<Rightarrow> u16 list option) \<Rightarrow> 'j \<Rightarrow> ('w :: len) word Request \<Rightarrow>
     'w word Request option" where
  "parse_launch J wide payload r = do {
     let pathValue = json_object_get J payload ''path'';
     let directoryValue = json_object_get J payload ''working_directory'';
     let argumentsValue = json_object_get J payload ''arguments'';
     require (json_object_size J payload = 2 + present [directoryValue, argumentsValue] \<and>
       has_operation_id J payload \<and> IsBoundedPathString J pathValue \<and>
       when_present directoryValue (IsBoundedPathString J directoryValue));
     require (when_present argumentsValue (array_between J argumentsValue 0 kMaxLaunchArguments));
     launchArguments \<leftarrow> collect_arguments J wide (elements J argumentsValue) 0 [];
     Some (r\<lparr>rq_path := str_of J pathValue, rq_workingDirectory := str_of J directoryValue,
             rq_launchArguments := launchArguments\<rparr>)
   }"

definition parse_launch_dll ::
    "'j jansson \<Rightarrow> 'j \<Rightarrow> ('w :: len) word Request \<Rightarrow> 'w word Request option" where
  "parse_launch_dll J payload r = do {
     let pathValue = json_object_get J payload ''path'';
     let directoryValue = json_object_get J payload ''working_directory'';
     require (json_object_size J payload = 2 + present [directoryValue] \<and>
       has_operation_id J payload \<and> IsBoundedPathString J pathValue \<and>
       when_present directoryValue (IsBoundedPathString J directoryValue));
     Some (r\<lparr>rq_path := str_of J pathValue, rq_workingDirectory := str_of J directoryValue\<rparr>)
   }"

definition parse_attach ::
    "'j jansson \<Rightarrow> 'j \<Rightarrow> ('w :: len) word Request \<Rightarrow> 'w word Request option" where
  "parse_attach J payload r = do {
     let process = json_object_get J payload ''process_id'';
     require (json_object_size J payload = 2 \<and> has_operation_id J payload \<and>
       int_between J process 1 4294967295);
     Some (r\<lparr>rq_targetProcessId := word_of_int (int_of J process)\<rparr>)
   }"

definition parse_detach ::
    "'j jansson \<Rightarrow> 'j \<Rightarrow> ('w :: len) word Request \<Rightarrow> 'w word Request option" where
  "parse_detach J payload r = do {
     require (json_object_size J payload = 1 \<and> has_operation_id J payload);
     Some r
   }"

section \<open>Traces\<close>

definition parse_trace_start ::
    "'j jansson \<Rightarrow> 'j \<Rightarrow> ('w :: len) word Request \<Rightarrow> 'w word Request option" where
  "parse_trace_start J payload r = do {
     let mode = json_object_get J payload ''mode'';
     let maxSteps = json_object_get J payload ''max_steps'';
     let timeout = json_object_get J payload ''timeout_ms'';
     require (json_object_size J payload = 4 \<and> has_operation_id J payload \<and>
       json_is J JSON_STRING mode \<and> int_between J maxSteps 1 4096 \<and> int_between J timeout 100 30000);
     require (str_of J mode = ''into'' \<or> str_of J mode = ''over'');
     Some (r\<lparr>rq_traceMode := str_of J mode, rq_traceMaxSteps := nat (int_of J maxSteps),
             rq_traceTimeoutMs := nat (int_of J timeout)\<rparr>)
   }"

definition parse_trace_status ::
    "'j jansson \<Rightarrow> 'j \<Rightarrow> ('w :: len) word Request \<Rightarrow> 'w word Request option" where
  "parse_trace_status J payload r = do {
     let traceId = json_object_get J payload ''trace_id'';
     require (json_object_size J payload = 1 \<and> json_is J JSON_STRING traceId);
     require (IsUuid (str_of J traceId));
     Some (r\<lparr>rq_traceId := str_of J traceId\<rparr>)
   }"

definition parse_trace_cancel ::
    "'j jansson \<Rightarrow> 'j \<Rightarrow> ('w :: len) word Request \<Rightarrow> 'w word Request option" where
  "parse_trace_cancel J payload r = do {
     let traceId = json_object_get J payload ''trace_id'';
     require (json_object_size J payload = 2 \<and> has_operation_id J payload \<and>
       json_is J JSON_STRING traceId);
     require (IsUuid (str_of J traceId));
     Some (r\<lparr>rq_traceId := str_of J traceId\<rparr>)
   }"

text \<open>
  The cursor of \<open>trace.results\<close>. \<open>ParseTraceCursor\<close> writes \<open>cursorIndex\<close> itself, so the
  index is taken over even when the cursor is then marked invalid.
\<close>

definition resume_trace :: "string \<Rightarrow> ('w :: len) word Request \<Rightarrow> 'w word Request" where
  "resume_trace cursor r =
     (let (valid, cursorTraceId, fingerprint, index) = ParseTraceCursor cursor [] 0 (rq_cursorIndex r);
          r = r\<lparr>rq_cursorIndex := index\<rparr> in
      if \<not> valid \<or> cursorTraceId \<noteq> rq_traceId r then r\<lparr>rq_traceCursorInvalid := True\<rparr>
      else r\<lparr>rq_cursorSnapshotFingerprint := Some fingerprint\<rparr>)"

definition parse_trace_results ::
    "'j jansson \<Rightarrow> 'j \<Rightarrow> ('w :: len) word Request \<Rightarrow> 'w word Request option" where
  "parse_trace_results J payload r = do {
     let traceId = json_object_get J payload ''trace_id'';
     let limit = json_object_get J payload ''limit'';
     let cursor = json_object_get J payload ''cursor'';
     require (json_object_size J payload = 1 + present [limit, cursor] \<and>
       json_is J JSON_STRING traceId);
     require (IsUuid (str_of J traceId));
     pageLimit \<leftarrow> opt_int J limit 1 256 (rq_pageLimit r);
     let r = r\<lparr>rq_traceId := str_of J traceId, rq_pageLimit := pageLimit\<rparr>;
     if cursor = None then Some r
     else do {
       require (json_is J JSON_STRING cursor);
       Some (resume_trace (str_of J cursor) r)
     }
   }"

section \<open>Expressions and inspection\<close>

definition parse_evaluate ::
    "'j jansson \<Rightarrow> 'j \<Rightarrow> ('w :: len) word Request \<Rightarrow> 'w word Request option" where
  "parse_evaluate J payload r = do {
     let v = json_object_get J payload ''expression'';
     require (json_object_size J payload = 1 \<and> string_between J v 1 1024);
     require (no_control (str_of J v));
     Some (r\<lparr>rq_expression := str_of J v\<rparr>)
   }"

primrec collect_expressions ::
    "'j jansson \<Rightarrow> 'j option list \<Rightarrow> nat \<Rightarrow> string list \<Rightarrow> string list option" where
  "collect_expressions J [] totalBytes acc = Some acc"
| "collect_expressions J (p # ps) totalBytes acc =
     (if \<not> string_between J p 1 1024 then None
      else if \<not> no_control (str_of J p) \<or> length (str_of J p) > 8192 - totalBytes then None
      else collect_expressions J ps (totalBytes + length (str_of J p)) (acc @ [str_of J p]))"

definition parse_evaluate_batch ::
    "'j jansson \<Rightarrow> 'j \<Rightarrow> ('w :: len) word Request \<Rightarrow> 'w word Request option" where
  "parse_evaluate_batch J payload r = do {
     let values = json_object_get J payload ''expressions'';
     require (json_object_size J payload = 1 \<and> array_between J values 1 32);
     expressions \<leftarrow> collect_expressions J (elements J values) 0 [];
     Some (r\<lparr>rq_expressions := expressions\<rparr>)
   }"

definition parse_arguments ::
    "'j jansson \<Rightarrow> 'j \<Rightarrow> ('w :: len) word Request \<Rightarrow> 'w word Request option" where
  "parse_arguments J payload r = do {
     let count = json_object_get J payload ''count'';
     let convention = json_object_get J payload ''calling_convention'';
     let thread = json_object_get J payload ''thread_id'';
     require (json_object_size J payload = present [count, convention, thread]);
     argumentCount \<leftarrow> opt_int J count 1 16 (rq_argumentCount r);
     require (when_present convention (json_is J JSON_STRING convention \<and>
       List.member [''auto'', ''windows_x64'', ''cdecl'', ''stdcall'', ''fastcall'', ''thiscall'']
         (str_of J convention)));
     targetThreadId \<leftarrow> opt_thread J thread;
     Some (r\<lparr>rq_argumentCount := argumentCount,
             rq_callingConvention :=
               (if convention = None then rq_callingConvention r else str_of J convention),
             rq_targetThreadId := targetThreadId\<rparr>)
   }"

definition parse_address_only ::
    "'j jansson \<Rightarrow> 'j \<Rightarrow> ('w :: len) word Request \<Rightarrow> 'w word Request option" where
  "parse_address_only J payload r = do {
     require (json_object_size J payload = 1);
     address \<leftarrow> ParseAddressReference J (json_object_get J payload ''address'');
     Some (r\<lparr>rq_address := address, rq_addressProvided := True\<rparr>)
   }"

definition parse_symbols_resolve ::
    "'j jansson \<Rightarrow> 'j \<Rightarrow> ('w :: len) word Request \<Rightarrow> 'w word Request option" where
  "parse_symbols_resolve J payload r = do {
     let address = json_object_get J payload ''address'';
     let module = json_object_get J payload ''module'';
     let name = json_object_get J payload ''name'';
     if address \<noteq> None then do {
       require (json_object_size J payload = 1 \<and> module = None \<and> name = None);
       ref \<leftarrow> ParseAddressReference J address;
       Some (r\<lparr>rq_address := ref, rq_addressProvided := True\<rparr>)
     } else do {
       require (json_object_size J payload = 2 \<and> IsBoundedModuleName J module \<and>
         string_between J name 1 256);
       require (no_control (str_of J name));
       Some (r\<lparr>rq_module := str_of J module, rq_symbolName := str_of J name\<rparr>)
     }
   }"

text \<open>\<open>analysis.function\<close>, \<open>breakpoints.set\<close> and \<open>breakpoints.remove\<close>.\<close>

definition parse_operation_address ::
    "'j jansson \<Rightarrow> 'j \<Rightarrow> ('w :: len) word Request \<Rightarrow> 'w word Request option" where
  "parse_operation_address J payload r = do {
     require (json_object_size J payload = 2 \<and> has_operation_id J payload);
     address \<leftarrow> ParseAddressReference J (json_object_get J payload ''address'');
     Some (r\<lparr>rq_address := address\<rparr>)
   }"

section \<open>Memory and registers\<close>

definition parse_memory_dump ::
    "'j jansson \<Rightarrow> 'j \<Rightarrow> ('w :: len) word Request \<Rightarrow> 'w word Request option" where
  "parse_memory_dump J payload r = do {
     let destination = json_object_get J payload ''path'';
     let len = json_object_get J payload ''length'';
     let replace = json_object_get J payload ''overwrite'';
     require (json_object_size J payload = (if replace \<noteq> None then 5 else 4));
     address \<leftarrow> ParseAddressReference J (json_object_get J payload ''address'');
     require (int_between J len 1 67108864 \<and> string_between J destination 3 8192 \<and>
       when_present replace (json_is_boolean J replace));
     Some (r\<lparr>rq_address := address, rq_path := str_of J destination,
             rq_length := nat (int_of J len), rq_overwrite := is_true J replace\<rparr>)
   }"

definition parse_memory_read ::
    "'j jansson \<Rightarrow> 'j \<Rightarrow> ('w :: len) word Request \<Rightarrow> 'w word Request option" where
  "parse_memory_read J payload r = do {
     let len = json_object_get J payload ''length'';
     require (json_object_size J payload = 2);
     address \<leftarrow> ParseAddressReference J (json_object_get J payload ''address'');
     require (int_between J len 1 65536);
     Some (r\<lparr>rq_address := address, rq_length := nat (int_of J len)\<rparr>)
   }"

definition parse_registers_read ::
    "'j jansson \<Rightarrow> 'j \<Rightarrow> ('w :: len) word Request \<Rightarrow> 'w word Request option" where
  "parse_registers_read J payload r = do {
     let names = json_object_get J payload ''names'';
     let thread = json_object_get J payload ''thread_id'';
     require (json_object_size J payload = present [names, thread]);
     require (when_present names (array_between J names 0 64));
     registerNames \<leftarrow> collect_names J (elements J names) [];
     targetThreadId \<leftarrow> opt_thread J thread;
     Some (r\<lparr>rq_registerNames := registerNames, rq_targetThreadId := targetThreadId\<rparr>)
   }"

definition parse_registers_write ::
    "'j jansson \<Rightarrow> 'j \<Rightarrow> ('w :: len) word Request \<Rightarrow> 'w word Request option" where
  "parse_registers_write J payload r = do {
     let name = json_object_get J payload ''name'';
     let thread = json_object_get J payload ''thread_id'';
     require (json_object_size J payload = (if thread = None then 3 else 4) \<and>
       has_operation_id J payload \<and> string_between J name 2 6);
     v \<leftarrow> ParseCanonicalHex64 J (json_object_get J payload ''value'');
     targetThreadId \<leftarrow> opt_thread J thread;
     Some (r\<lparr>rq_registerName := str_of J name, rq_registerWriteValue := v,
             rq_targetThreadId := targetThreadId\<rparr>)
   }"

text \<open>
  The end of the branches with a \<open>v2\<close> cursor: the fingerprint of the filters goes into the
  request, a cursor that does not parse or carries another fingerprint marks it invalid.
\<close>

definition resume_discovery ::
    "'j jansson \<Rightarrow> 'j option \<Rightarrow> u64 \<Rightarrow> ('w :: len) word Request \<Rightarrow> 'w word Request option" where
  "resume_discovery J cursor expectedFingerprint r = do {
     let r = r\<lparr>rq_cursorFingerprint := Some expectedFingerprint\<rparr>;
     if cursor = None then Some r
     else do {
       require (json_is J JSON_STRING cursor);
       let (valid, generation, fingerprint, index) =
         ParseDiscoveryCursor (str_of J cursor) 0 0 (rq_cursorIndex r);
       let r = r\<lparr>rq_cursorIndex := index\<rparr>;
       Some (if \<not> valid then r\<lparr>rq_discoveryCursorInvalid := True\<rparr>
             else r\<lparr>rq_cursorGeneration := Some generation,
                    rq_discoveryCursorInvalid := fingerprint \<noteq> expectedFingerprint\<rparr>)
     }
   }"

definition bit_text :: "bool \<Rightarrow> string" where
  "bit_text v = (if v then ''1'' else ''0'')"

definition parse_memory_map ::
    "'j jansson \<Rightarrow> 'j \<Rightarrow> ('w :: len) word Request \<Rightarrow> 'w word Request option" where
  "parse_memory_map J payload r = do {
     let module = json_object_get J payload ''module'';
     let committed = json_object_get J payload ''committed_only'';
     let executable = json_object_get J payload ''executable_only'';
     let compactValue = json_object_get J payload ''compact'';
     let limit = json_object_get J payload ''limit'';
     let cursor = json_object_get J payload ''cursor'';
     require (json_object_size J payload =
         present [module, committed, executable, compactValue, limit, cursor] \<and>
       when_present module (IsBoundedModuleName J module) \<and>
       when_present committed (json_is_boolean J committed) \<and>
       when_present executable (json_is_boolean J executable) \<and>
       when_present compactValue (json_is_boolean J compactValue));
     pageLimit \<leftarrow> opt_int J limit 1 256 (rq_pageLimit r);
     let r = r\<lparr>rq_module := str_of J module, rq_committedOnly := is_true J committed,
               rq_executableOnly := is_true J executable, rq_compact := is_true J compactValue,
               rq_pageLimit := pageLimit\<rparr>;
     resume_discovery J cursor
       (DiscoveryFingerprint (rq_method r) (rq_module r) (bit_text (rq_committedOnly r))
         (bit_text (rq_executableOnly r)) (if rq_compact r then 1 else 0) 0) r
   }"

definition scope_key :: "('w :: len) word Request \<Rightarrow> string" where
  "scope_key r =
     (if rq_memorySearchModuleScope r then ''module:'' @ rq_module r
      else if ar_kind (rq_address r) = ref_absolute then
        ''absolute:'' @ to_string (unat (ar_absolute (rq_address r))) @ '':'' @
        to_string (rq_length r)
      else
        ''module_rva:'' @ ar_module (rq_address r) @ '':'' @
        to_string (unat (ar_rva (rq_address r))) @ '':'' @ to_string (rq_length r))"

definition parse_search_scope ::
    "'j jansson \<Rightarrow> 'j \<Rightarrow> ('w :: len) word Request \<Rightarrow> 'w word Request option" where
  "parse_search_scope J scope r = do {
     let module = json_object_get J scope ''module'';
     let len = json_object_get J scope ''length'';
     if module \<noteq> None then do {
       require (json_object_size J scope = 1 \<and> IsBoundedModuleName J module);
       Some (r\<lparr>rq_memorySearchModuleScope := True, rq_module := str_of J module\<rparr>)
     } else do {
       require (json_object_size J scope = 2);
       address \<leftarrow> ParseAddressReference J (json_object_get J scope ''start'');
       require (int_between J len 1 (16 * 1024 * 1024));
       Some (r\<lparr>rq_address := address, rq_length := nat (int_of J len)\<rparr>)
     }
   }"

definition parse_memory_search ::
    "'j jansson \<Rightarrow> 'j \<Rightarrow> ('w :: len) word Request \<Rightarrow> 'w word Request option" where
  "parse_memory_search J payload r = do {
     let patternValue = json_object_get J payload ''pattern_hex'';
     let maskValue = json_object_get J payload ''mask'';
     let limit = json_object_get J payload ''limit'';
     let cursor = json_object_get J payload ''cursor'';
     scope \<leftarrow> json_object_get J payload ''scope'';
     require (json_object_size J payload = 3 + present [limit, cursor] \<and>
       json_typeof J scope = JSON_OBJECT \<and> json_is J JSON_STRING patternValue \<and>
       json_is J JSON_STRING maskValue);
     r \<leftarrow> parse_search_scope J scope r;
     memoryPattern \<leftarrow> ParseMemoryPattern (str_of J patternValue) (str_of J maskValue);
     pageLimit \<leftarrow> opt_int J limit 1 256 (rq_pageLimit r);
     let r = r\<lparr>rq_memoryPattern := memoryPattern, rq_pageLimit := pageLimit\<rparr>;
     resume_discovery J cursor
       (DiscoveryFingerprint (rq_method r) (scope_key r) (str_of J patternValue)
         (str_of J maskValue) (rq_pageLimit r) 0) r
   }"

definition parse_callstack ::
    "'j jansson \<Rightarrow> 'j \<Rightarrow> ('w :: len) word Request \<Rightarrow> 'w word Request option" where
  "parse_callstack J payload r = do {
     let thread = json_object_get J payload ''thread_id'';
     let limit = json_object_get J payload ''limit'';
     require (json_object_size J payload = present [thread, limit]);
     targetThreadId \<leftarrow> opt_thread J thread;
     pageLimit \<leftarrow> opt_int J limit 1 50 32;
     Some (r\<lparr>rq_targetThreadId := targetThreadId, rq_pageLimit := pageLimit\<rparr>)
   }"

section \<open>Discovery\<close>

definition parse_patches_list ::
    "'j jansson \<Rightarrow> 'j \<Rightarrow> ('w :: len) word Request \<Rightarrow> 'w word Request option" where
  "parse_patches_list J payload r = do {
     let module = json_object_get J payload ''module'';
     let limit = json_object_get J payload ''limit'';
     let cursor = json_object_get J payload ''cursor'';
     require (json_object_size J payload = present [module, limit, cursor] \<and>
       when_present module (IsBoundedModuleName J module));
     pageLimit \<leftarrow> opt_int J limit 1 256 (rq_pageLimit r);
     let expectedFingerprint =
       DiscoveryFingerprint (rq_method r) (str_of J module) [] [] 0 0;
     let r = r\<lparr>rq_module := str_of J module, rq_pageLimit := pageLimit,
               rq_cursorFingerprint := Some expectedFingerprint\<rparr>;
     if cursor = None then Some r
     else do {
       require (string_between J cursor 1 512);
       let (valid, generation, filterFingerprint, snapshotFingerprint, index) =
         ParsePatchCursor (str_of J cursor) 0 0 0 (rq_cursorIndex r);
       let r = r\<lparr>rq_cursorIndex := index\<rparr>;
       Some (if \<not> valid then r\<lparr>rq_discoveryCursorInvalid := True\<rparr>
             else r\<lparr>rq_cursorGeneration := Some generation,
                    rq_cursorSnapshotFingerprint := Some snapshotFingerprint,
                    rq_discoveryCursorInvalid := filterFingerprint \<noteq> expectedFingerprint\<rparr>)
     }
   }"

definition query_limit :: "string \<Rightarrow> nat" where
  "query_limit method =
     (if method = ''imports.list'' \<or> method = ''exports.list'' \<or> method = ''sections.list''
      then 128 else 256)"

definition parse_discovery ::
    "'j jansson \<Rightarrow> 'j \<Rightarrow> ('w :: len) word Request \<Rightarrow> 'w word Request option" where
  "parse_discovery J payload r = do {
     let module = json_object_get J payload ''module'';
     let queryValue = json_object_get J payload ''query'';
     let encoding = json_object_get J payload ''encoding'';
     let minimum = json_object_get J payload ''min_length'';
     let contextValue = json_object_get J payload ''context_bytes'';
     let limit = json_object_get J payload ''limit'';
     let cursor = json_object_get J payload ''cursor'';
     let address = json_object_get J payload ''address'';
     let references = (rq_method r = ''references.to'');
     require (json_object_size J payload =
         1 + present [queryValue, encoding, minimum, contextValue, limit, cursor]);
     addressValue \<leftarrow> (if references then ParseAddressReference J address
                      else do { require (IsBoundedModuleName J module); Some (rq_address r) });
     require (\<not> (references \<and> module \<noteq> None) \<and> \<not> (\<not> references \<and> address \<noteq> None) \<and>
       \<not> (references \<and> queryValue \<noteq> None) \<and>
       \<not> (rq_method r \<noteq> ''strings.search'' \<and>
           (encoding \<noteq> None \<or> minimum \<noteq> None \<or> contextValue \<noteq> None)) \<and>
       \<not> (contextValue \<noteq> None \<and> queryValue = None));
     require (when_present queryValue (string_between J queryValue 1 (query_limit (rq_method r)) \<and>
       no_control (str_of J queryValue)));
     require (when_present encoding (json_is J JSON_STRING encoding \<and>
       List.member [''ascii_utf8'', ''utf16le'', ''both''] (str_of J encoding)));
     minStringLength \<leftarrow> opt_int J minimum 4 256 (rq_minStringLength r);
     stringContextBytes \<leftarrow> opt_int J contextValue 0 128 (rq_stringContextBytes r);
     pageLimit \<leftarrow> opt_int J limit 1 256 (rq_pageLimit r);
     let r = r\<lparr>rq_address := addressValue,
               rq_module := (if references then rq_module r else str_of J module),
               rq_query := str_of J queryValue,
               rq_stringEncoding :=
                 (if encoding = None then rq_stringEncoding r else str_of J encoding),
               rq_minStringLength := minStringLength, rq_stringContextBytes := stringContextBytes,
               rq_pageLimit := pageLimit\<rparr>;
     resume_discovery J cursor
       (DiscoveryFingerprint (rq_method r) (rq_module r) (rq_query r) (rq_stringEncoding r)
         (rq_minStringLength r) (if rq_query r = [] then 0 else rq_stringContextBytes r)) r
   }"

definition parse_page ::
    "'j jansson \<Rightarrow> 'j \<Rightarrow> ('w :: len) word Request \<Rightarrow> 'w word Request option" where
  "parse_page J payload r = do {
     let limit = json_object_get J payload ''limit'';
     let cursor = json_object_get J payload ''cursor'';
     require (json_object_size J payload = present [limit, cursor]);
     pageLimit \<leftarrow> opt_int J limit 1 256 (rq_pageLimit r);
     let r = r\<lparr>rq_pageLimit := pageLimit\<rparr>;
     if cursor = None then Some r
     else do {
       require (string_between J cursor 1 64);
       let (valid, generation, index) = ParseCursor (str_of J cursor) 0 (rq_cursorIndex r);
       require valid;
       Some (r\<lparr>rq_cursorIndex := index, rq_cursorGeneration := Some generation\<rparr>)
     }
   }"

section \<open>Code and patches\<close>

definition parse_disassembly ::
    "'j jansson \<Rightarrow> 'j \<Rightarrow> ('w :: len) word Request \<Rightarrow> 'w word Request option" where
  "parse_disassembly J payload r = do {
     let count = json_object_get J payload ''count'';
     require (json_object_size J payload = (if count = None then 1 else 2));
     address \<leftarrow> ParseAddressReference J (json_object_get J payload ''address'');
     instructionCount \<leftarrow> opt_int J count 1 256 (rq_instructionCount r);
     Some (r\<lparr>rq_address := address, rq_instructionCount := instructionCount\<rparr>)
   }"

definition parse_assembly ::
    "'j jansson \<Rightarrow> 'j \<Rightarrow> ('w :: len) word Request \<Rightarrow> 'w word Request option" where
  "parse_assembly J payload r = do {
     let instructionValue = json_object_get J payload ''instruction'';
     let patch = (rq_method r = ''assembly.patch'');
     require (json_object_size J payload = (if patch then 5 else 2));
     address \<leftarrow> ParseAddressReference J (json_object_get J payload ''address'');
     require (json_is J JSON_STRING instructionValue);
     require (SafeInstruction (str_of J instructionValue));
     let r = r\<lparr>rq_address := address, rq_instruction := str_of J instructionValue\<rparr>;
     if patch then do {
       let expected = json_object_get J payload ''expected_bytes_hex'';
       let fill = json_object_get J payload ''fill_nop'';
       require (has_operation_id J payload \<and> json_is J JSON_STRING expected \<and>
         json_is_boolean J fill);
       expectedBytes \<leftarrow> ParsePatchBytes (str_of J expected);
       Some (r\<lparr>rq_expectedBytes := expectedBytes, rq_fillNop := is_true J fill\<rparr>)
     } else Some r
   }"

definition parse_patches_restore ::
    "'j jansson \<Rightarrow> 'j \<Rightarrow> ('w :: len) word Request \<Rightarrow> 'w word Request option" where
  "parse_patches_restore J payload r = do {
     let patched = json_object_get J payload ''expected_patched_bytes_hex'';
     let original = json_object_get J payload ''expected_original_bytes_hex'';
     require (json_object_size J payload = 4 \<and> has_operation_id J payload);
     address \<leftarrow> ParseAddressReference J (json_object_get J payload ''address'');
     require (json_is J JSON_STRING patched \<and> json_is J JSON_STRING original);
     parsedPatched \<leftarrow> ParsePatchBytes (str_of J patched);
     parsedOriginal \<leftarrow> ParsePatchBytes (str_of J original);
     require (length parsedPatched = length parsedOriginal \<and> parsedPatched \<noteq> parsedOriginal);
     Some (r\<lparr>rq_address := address, rq_expectedBytes := parsedPatched,
             rq_expectedOriginalBytes := parsedOriginal\<rparr>)
   }"

definition parse_memory_write ::
    "'j jansson \<Rightarrow> 'j \<Rightarrow> ('w :: len) word Request \<Rightarrow> 'w word Request option" where
  "parse_memory_write J payload r = do {
     let data = json_object_get J payload ''data_hex'';
     require (json_object_size J payload = 3 \<and> has_operation_id J payload);
     address \<leftarrow> ParseAddressReference J (json_object_get J payload ''address'');
     require (string_between J data 2 8192 \<and> length (str_of J data) mod 2 = 0);
     writeBytes \<leftarrow> WriteBytes_loop (str_of J data);
     Some (r\<lparr>rq_address := address, rq_writeBytes := writeBytes\<rparr>)
   }"

section \<open>Execution control\<close>

definition parse_run_to_address ::
    "'j jansson \<Rightarrow> 'j \<Rightarrow> ('w :: len) word Request \<Rightarrow> 'w word Request option" where
  "parse_run_to_address J payload r = do {
     let timeout = json_object_get J payload ''timeout_ms'';
     require (json_object_size J payload = (if timeout = None then 2 else 3) \<and>
       has_operation_id J payload);
     address \<leftarrow> ParseAddressReference J (json_object_get J payload ''address'');
     runToTimeoutMs \<leftarrow> opt_int J timeout 100 20000 (rq_runToTimeoutMs r);
     Some (r\<lparr>rq_address := address, rq_runToTimeoutMs := runToTimeoutMs\<rparr>)
   }"

primrec collect_overrides ::
    "'j jansson \<Rightarrow> 'j option list \<Rightarrow> RegisterAssignment list \<Rightarrow> RegisterAssignment list option" where
  "collect_overrides J [] acc = Some acc"
| "collect_overrides J (p # ps) acc =
     (case p of
        None \<Rightarrow> None
      | Some overrideValue \<Rightarrow>
          let name = json_object_get J overrideValue ''name'' in
          if json_typeof J overrideValue \<noteq> JSON_OBJECT \<or>
             json_object_size J overrideValue \<noteq> 2 \<or> \<not> string_between J name 2 6 then None
          else
            (case ParseCanonicalHex64 J (json_object_get J overrideValue ''value'') of
               None \<Rightarrow> None
             | Some v \<Rightarrow>
                 if list_ex (\<lambda>item. ra_name item = str_of J name) acc then None
                 else collect_overrides J ps
                        (acc @ [\<lparr>ra_name = str_of J name, ra_value = v\<rparr>])))"

definition parse_continue_exception ::
    "'j jansson \<Rightarrow> 'j \<Rightarrow> ('w :: len) word Request \<Rightarrow> 'w word Request option" where
  "parse_continue_exception J payload r = do {
     let disposition = json_object_get J payload ''disposition'';
     let overrides = json_object_get J payload ''register_overrides'';
     require (json_object_size J payload = (if overrides = None then 2 else 3) \<and>
       has_operation_id J payload \<and> json_is J JSON_STRING disposition \<and>
       when_present overrides (array_between J overrides 1 4));
     require (str_of J disposition = ''handled'' \<or> str_of J disposition = ''not_handled'');
     registerOverrides \<leftarrow> collect_overrides J (elements J overrides) [];
     Some (r\<lparr>rq_exceptionDisposition := str_of J disposition,
             rq_exceptionRegisterOverrides := registerOverrides\<rparr>)
   }"

definition parse_control ::
    "'j jansson \<Rightarrow> 'j \<Rightarrow> ('w :: len) word Request \<Rightarrow> 'w word Request option" where
  "parse_control J payload r = do {
     let thread = json_object_get J payload ''thread_id'';
     let supportsThread =
       (rq_method r = ''debugger.step_into'' \<or> rq_method r = ''debugger.step_over'');
     require (json_object_size J payload = (if supportsThread \<and> thread \<noteq> None then 2 else 1) \<and>
       has_operation_id J payload);
     require (when_present thread supportsThread);
     targetThreadId \<leftarrow> opt_thread J thread;
     Some (r\<lparr>rq_targetThreadId := targetThreadId\<rparr>)
   }"

section \<open>Breakpoints\<close>

text \<open>Access and size, in the selector of a toggle and in the set and remove methods.\<close>

definition access_and_size :: "'j jansson \<Rightarrow> 'j \<Rightarrow> bool" where
  "access_and_size J v \<longleftrightarrow>
     string_between J (json_object_get J v ''access'') 4 10 \<and>
     int_between J (json_object_get J v ''size'') 1 65536"

definition parse_selector ::
    "'j jansson \<Rightarrow> 'j \<Rightarrow> ('w :: len) word Request \<Rightarrow> 'w word Request option" where
  "parse_selector J selector r =
     (if rq_breakpointKind r = ''software'' then do {
        require (json_object_size J selector = 2);
        address \<leftarrow> ParseAddressReference J (json_object_get J selector ''address'');
        Some (r\<lparr>rq_address := address\<rparr>)
      } else if rq_breakpointKind r = ''hardware'' \<or> rq_breakpointKind r = ''memory'' then do {
        let access = str_of J (json_object_get J selector ''access'');
        let sz = nat (int_of J (json_object_get J selector ''size''));
        require (json_object_size J selector = 4);
        address \<leftarrow> ParseAddressReference J (json_object_get J selector ''address'');
        require (access_and_size J selector);
        require (\<not> (rq_breakpointKind r = ''hardware'' \<and>
                    (ParseHardwareAccess access = None \<or> sz > 8)) \<and>
                 \<not> (rq_breakpointKind r = ''memory'' \<and> ParseMemoryAccess access = None));
        Some (r\<lparr>rq_address := address, rq_breakpointAccess := access, rq_breakpointSize := sz\<rparr>)
      } else if rq_breakpointKind r = ''conditional'' then do {
        let managed = json_object_get J selector ''managed_id'';
        require (json_object_size J selector = 3);
        address \<leftarrow> ParseAddressReference J (json_object_get J selector ''address'');
        require (json_is J JSON_STRING managed);
        require (ManagedBreakpointName ''conditional'' (str_of J managed) \<noteq> []);
        Some (r\<lparr>rq_address := address, rq_managedBreakpointId := str_of J managed\<rparr>)
      } else if rq_breakpointKind r = ''exception'' then do {
        let chance = json_object_get J selector ''chance'';
        let managed = json_object_get J selector ''managed_id'';
        require (json_object_size J selector = 4);
        parsedCode \<leftarrow> ParseCanonicalHex64 J (json_object_get J selector ''code'');
        require (parsedCode \<le> 0xffffffff \<and> json_is J JSON_STRING chance \<and>
          json_is J JSON_STRING managed);
        require (ParseExceptionChance (str_of J chance) \<noteq> None \<and>
          ManagedBreakpointName ''exception'' (str_of J managed) \<noteq> []);
        Some (r\<lparr>rq_exceptionCode := ucast parsedCode, rq_exceptionChance := str_of J chance,
                rq_managedBreakpointId := str_of J managed\<rparr>)
      } else None)"

definition parse_toggle ::
    "'j jansson \<Rightarrow> 'j \<Rightarrow> ('w :: len) word Request \<Rightarrow> 'w word Request option" where
  "parse_toggle J payload r = do {
     selector \<leftarrow> json_object_get J payload ''selector'';
     require (json_object_size J payload = 2 \<and> has_operation_id J payload \<and>
       json_typeof J selector = JSON_OBJECT);
     let kind = json_object_get J selector ''kind'';
     require (json_is J JSON_STRING kind);
     parse_selector J selector (r\<lparr>rq_breakpointKind := str_of J kind\<rparr>)
   }"

definition parse_access_breakpoint ::
    "'j jansson \<Rightarrow> 'j \<Rightarrow> ('w :: len) word Request \<Rightarrow> 'w word Request option" where
  "parse_access_breakpoint J payload r = do {
     require (json_object_size J payload = 4 \<and> has_operation_id J payload);
     address \<leftarrow> ParseAddressReference J (json_object_get J payload ''address'');
     require (access_and_size J payload);
     Some (r\<lparr>rq_address := address,
             rq_breakpointAccess := str_of J (json_object_get J payload ''access''),
             rq_breakpointSize := nat (int_of J (json_object_get J payload ''size''))\<rparr>)
   }"

definition parse_exception_breakpoint ::
    "'j jansson \<Rightarrow> 'j \<Rightarrow> ('w :: len) word Request \<Rightarrow> 'w word Request option" where
  "parse_exception_breakpoint J payload r = do {
     let removing = (rq_method r = ''breakpoints.exception.remove'');
     let chance = json_object_get J payload ''chance'';
     let managed = json_object_get J payload ''managed_id'';
     require (json_object_size J payload = (if removing then 4 else 3) \<and>
       has_operation_id J payload);
     parsedCode \<leftarrow> ParseCanonicalHex64 J (json_object_get J payload ''code'');
     require (parsedCode \<le> 0xffffffff \<and> json_is J JSON_STRING chance \<and>
       \<not> (removing \<and> \<not> json_is J JSON_STRING managed) \<and> \<not> (\<not> removing \<and> managed \<noteq> None));
     require (ParseExceptionChance (str_of J chance) \<noteq> None);
     require (removing \<longrightarrow> ManagedBreakpointName ''exception'' (str_of J managed) \<noteq> []);
     Some (r\<lparr>rq_exceptionCode := ucast parsedCode, rq_exceptionChance := str_of J chance,
             rq_managedBreakpointId :=
               (if removing then str_of J managed else rq_operationId r)\<rparr>)
   }"

definition parse_predicate :: "'j jansson \<Rightarrow> 'j option \<Rightarrow> ConditionalPredicate option" where
  "parse_predicate J p = do {
     v \<leftarrow> p;
     require (json_typeof J v = JSON_OBJECT);
     let sourceValue = json_object_get J v ''source'';
     let operatorValue = json_object_get J v ''operator'';
     let numberValue = json_object_get J v ''value'';
     require (json_is J JSON_STRING sourceValue \<and> json_is J JSON_STRING operatorValue);
     operation \<leftarrow> ParseConditionalOperator (str_of J operatorValue);
     if str_of J sourceValue = ''register'' then do {
       let regValue = json_object_get J v ''register'';
       require (json_object_size J v = 4 \<and> json_is J JSON_STRING regValue);
       parsedValue \<leftarrow> ParseCanonicalHex64 J numberValue;
       Some \<lparr>cp_source = registerValue, cp_operation = operation,
             cp_registerName = str_of J regValue, cp_value = parsedValue\<rparr>
     } else if str_of J sourceValue = ''thread_id'' then do {
       require (json_object_size J v = 3);
       parsedValue \<leftarrow> ParseCanonicalHex64 J numberValue;
       Some \<lparr>cp_source = threadId, cp_operation = operation, cp_registerName = [],
             cp_value = parsedValue\<rparr>
     } else if str_of J sourceValue = ''hit_count'' then do {
       require (json_object_size J v = 3 \<and> int_between J numberValue 1 4294967295);
       Some \<lparr>cp_source = hitCount, cp_operation = operation, cp_registerName = [],
             cp_value = word_of_int (int_of J numberValue)\<rparr>
     } else None
   }"

primrec collect_predicates ::
    "'j jansson \<Rightarrow> 'j option list \<Rightarrow> ConditionalPredicate list option" where
  "collect_predicates J [] = Some []"
| "collect_predicates J (p # ps) =
     (case parse_predicate J p of
        None \<Rightarrow> None
      | Some c \<Rightarrow> map_option ((#) c) (collect_predicates J ps))"

definition parse_condition :: "'j jansson \<Rightarrow> 'j option \<Rightarrow> ConditionalSpec option" where
  "parse_condition J p = do {
     condition \<leftarrow> p;
     require (json_typeof J condition = JSON_OBJECT);
     let mode = json_object_get J condition ''mode'';
     let predicates = json_object_get J condition ''predicates'';
     require (json_object_size J condition = 2 \<and> json_is J JSON_STRING mode \<and>
       array_between J predicates 1 4);
     mode \<leftarrow> (if str_of J mode = ''all'' then Some mode_all
              else if str_of J mode = ''any'' then Some mode_any else None);
     parsed \<leftarrow> collect_predicates J (elements J predicates);
     Some \<lparr>cs_mode = mode, cs_predicates = parsed\<rparr>
   }"

definition parse_conditional_breakpoint ::
    "'j jansson \<Rightarrow> sdk \<Rightarrow> build \<Rightarrow> 'j \<Rightarrow> ('w :: len) word Request \<Rightarrow> 'w word Request option" where
  "parse_conditional_breakpoint J k b payload r = do {
     let removing = (rq_method r = ''breakpoints.conditional.remove'');
     let managed = json_object_get J payload ''managed_id'';
     require (json_object_size J payload = 3 \<and> has_operation_id J payload);
     address \<leftarrow> ParseAddressReference J (json_object_get J payload ''address'');
     require (\<not> (removing \<and> \<not> json_is J JSON_STRING managed) \<and> \<not> (\<not> removing \<and> managed \<noteq> None));
     let r = r\<lparr>rq_address := address\<rparr>;
     if removing then do {
       require (ManagedBreakpointName ''conditional'' (str_of J managed) \<noteq> []);
       Some (r\<lparr>rq_managedBreakpointId := str_of J managed\<rparr>)
     } else do {
       spec \<leftarrow> parse_condition J (json_object_get J payload ''condition'');
       let r = r\<lparr>rq_conditionalSpec := spec, rq_managedBreakpointId := rq_operationId r\<rparr>;
       Some (case CompileConditionalExpression k b spec of
               Some compiled \<Rightarrow> r\<lparr>rq_conditionalExpression := compiled\<rparr>
             | None \<Rightarrow> r\<lparr>rq_conditionalInvalid := True\<rparr>)
     }
   }"

section \<open>ParseRequest\<close>

text \<open>
  The \<open>if\<close> chain over the method. A method that no branch knows leaves the payload unread.
\<close>

definition parse_payload ::
    "'j jansson \<Rightarrow> sdk \<Rightarrow> build \<Rightarrow> (string \<Rightarrow> u16 list option) \<Rightarrow> 'j \<Rightarrow> ('w :: len) word Request \<Rightarrow>
     'w word Request option" where
  "parse_payload J k b wide payload r =
     (let m = rq_method r in
      if m = ''scyllahide.profile'' then parse_scyllahide J payload r
      else if m = ''debugger.state'' then parse_no_fields J payload r
      else if m = ''events.list'' then parse_events_list J payload r
      else if m = ''events.wait'' then parse_events_wait J payload r
      else if m = ''debugger.snapshot'' then parse_snapshot J payload r
      else if m = ''debugger.wait_for_pause'' then parse_wait_for_pause J payload r
      else if m = ''debuggee.launch'' then parse_launch J wide payload r
      else if m = ''debuggee.launch_dll'' then parse_launch_dll J payload r
      else if m = ''debuggee.attach'' then parse_attach J payload r
      else if m = ''debuggee.detach'' then parse_detach J payload r
      else if m = ''trace.start'' then parse_trace_start J payload r
      else if m = ''trace.status'' then parse_trace_status J payload r
      else if m = ''trace.cancel'' then parse_trace_cancel J payload r
      else if m = ''trace.results'' then parse_trace_results J payload r
      else if m = ''expression.evaluate'' then parse_evaluate J payload r
      else if m = ''expressions.evaluate_batch'' then parse_evaluate_batch J payload r
      else if m = ''process.peb'' then parse_no_fields J payload r
      else if m = ''context.arguments'' then parse_arguments J payload r
      else if m = ''address.resolve'' then parse_address_only J payload r
      else if m = ''functions.at'' then parse_address_only J payload r
      else if m = ''symbols.resolve'' then parse_symbols_resolve J payload r
      else if m = ''analysis.function'' then parse_operation_address J payload r
      else if m = ''memory.dump'' then parse_memory_dump J payload r
      else if m = ''memory.read'' then parse_memory_read J payload r
      else if m = ''registers.read'' then parse_registers_read J payload r
      else if m = ''registers.write'' then parse_registers_write J payload r
      else if m = ''memory.map'' then parse_memory_map J payload r
      else if m = ''memory.search'' then parse_memory_search J payload r
      else if m = ''callstack.read'' then parse_callstack J payload r
      else if m = ''patches.list'' then parse_patches_list J payload r
      else if IsDiscoveryMethod m then parse_discovery J payload r
      else if IsPageMethod m then parse_page J payload r
      else if m = ''disassembly.read'' then parse_disassembly J payload r
      else if m = ''assembly.preview'' \<or> m = ''assembly.patch'' then parse_assembly J payload r
      else if m = ''patches.restore'' then parse_patches_restore J payload r
      else if m = ''debugger.run_to_address'' then parse_run_to_address J payload r
      else if m = ''debugger.continue_exception'' then parse_continue_exception J payload r
      else if m = ''debugger.pause'' \<or> m = ''debugger.resume'' \<or> m = ''debugger.step_into'' \<or>
              m = ''debugger.step_over'' \<or> m = ''debugger.step_out'' \<or> m = ''debugger.stop''
        then parse_control J payload r
      else if m = ''breakpoints.enable'' \<or> m = ''breakpoints.disable'' then parse_toggle J payload r
      else if m = ''breakpoints.hardware.set'' \<or> m = ''breakpoints.hardware.remove'' \<or>
              m = ''breakpoints.memory.set'' \<or> m = ''breakpoints.memory.remove''
        then parse_access_breakpoint J payload r
      else if m = ''breakpoints.set'' \<or> m = ''breakpoints.remove''
        then parse_operation_address J payload r
      else if m = ''breakpoints.exception.set'' \<or> m = ''breakpoints.exception.remove''
        then parse_exception_breakpoint J payload r
      else if m = ''breakpoints.conditional.set'' \<or> m = ''breakpoints.conditional.remove''
        then parse_conditional_breakpoint J k b payload r
      else if m = ''memory.write'' then parse_memory_write J payload r
      else Some r)"

text \<open>The head of the function: the envelope and the agreement of method and operation id.\<close>

definition request_mutation :: "'j jansson \<Rightarrow> 'j \<Rightarrow> string \<Rightarrow> bool" where
  "request_mutation J payload method =
     (if method = ''scyllahide.profile'' then
        json_is J JSON_STRING (json_object_get J payload ''action'') \<and>
        str_of J (json_object_get J payload ''action'') = ''set''
      else IsMutation method)"

definition parse_envelope :: "'j jansson \<Rightarrow> 'j \<Rightarrow> ('j \<times> ('w :: len) word Request) option" where
  "parse_envelope J root = do {
     require (json_typeof J root = JSON_OBJECT \<and> json_object_size J root = 5);
     let requestId = json_object_get J root ''request_id'';
     let deadline = json_object_get J root ''deadline_unix_ms'';
     let operationId = json_object_get J root ''operation_id'';
     let method = json_object_get J root ''method'';
     payload \<leftarrow> json_object_get J root ''payload'';
     require (json_is J JSON_STRING requestId \<and> json_is J JSON_INTEGER deadline \<and>
       (json_is J JSON_NULL operationId \<or> json_is J JSON_STRING operationId) \<and>
       json_is J JSON_STRING method \<and> json_typeof J payload = JSON_OBJECT);
     require (IsUuid (str_of J requestId) \<and> str_of J method \<noteq> [] \<and>
       length (str_of J method) \<le> 64 \<and> 0 < int_of J deadline);
     let mutation = request_mutation J payload (str_of J method);
     require (json_is J JSON_STRING operationId \<longrightarrow> IsUuid (str_of J operationId));
     require (mutation = json_is J JSON_STRING operationId);
     Some (payload,
       Request_init (str_of J requestId) (str_of J method) (word_of_int (int_of J deadline)) mutation
         (if json_is J JSON_STRING operationId then str_of J operationId else []))
   }"

definition ParseRequest ::
    "'j jansson \<Rightarrow> sdk \<Rightarrow> build \<Rightarrow> (string \<Rightarrow> u16 list option) \<Rightarrow> string \<Rightarrow>
     ('w :: len) word Request option" where
  "ParseRequest J k b wide bytes = do {
     root \<leftarrow> json_loadb J bytes;
     (payload, r) \<leftarrow> parse_envelope J root;
     r \<leftarrow> parse_payload J k b wide payload r;
     require (rq_mutation r \<longrightarrow>
       has_operation_id J payload \<and>
       str_of J (json_object_get J payload ''operation_id'') = rq_operationId r);
     Some r
   }"

section \<open>The handshake\<close>

definition IsCanonicalUuid :: "string \<Rightarrow> bool" where
  "IsCanonicalUuid v =
     (if length v \<noteq> 36 then False
      else list_all (\<lambda>i. if i = 8 \<or> i = 13 \<or> i = 18 \<or> i = 23 then v ! i = CHR ''-''
                         else is_lower_hex (v ! i)) [0..<length v])"

definition AcceptedHandshakeInstanceId :: "'j jansson \<Rightarrow> string \<Rightarrow> string option" where
  "AcceptedHandshakeInstanceId J bytes = do {
     root \<leftarrow> json_loadb J bytes;
     require (json_typeof J root = JSON_OBJECT \<and> json_object_size J root = 5);
     let major = json_object_get J root ''protocol_major'';
     let minor = json_object_get J root ''protocol_minor'';
     let accepted = json_object_get J root ''accepted'';
     let errorCode = json_object_get J root ''error_code'';
     let instanceId = json_object_get J root ''instance_id'';
     require (json_is J JSON_INTEGER major \<and> int_of J major = 1 \<and>
       json_is J JSON_INTEGER minor \<and> int_of J minor = 1 \<and> is_true J accepted \<and>
       json_is J JSON_NULL errorCode \<and> json_is J JSON_STRING instanceId);
     require (IsCanonicalUuid (str_of J instanceId));
     Some (str_of J instanceId)
   }"

end
