(* ===== verification/Request_Properties.thy ===== *)
theory Request_Properties
  imports Request
begin

text \<open>
  What a request that \<open>ParseRequest\<close> returned is known to satisfy. Every branch of the parser
  keeps the envelope it was given and the bounds in \<open>request_ok\<close>, which the initial values
  have; the handlers of \<open>runtime.cpp\<close> use these bounds without testing them again.
\<close>

named_theorems branch_keeps \<open>what every branch of ParseRequest keeps\<close>

definition total_length :: "string list \<Rightarrow> nat" where
  "total_length ss = sum_list (map length ss)"

definition pages_ok :: "('w :: len) word Request \<Rightarrow> bool" where
  "pages_ok r \<longleftrightarrow>
     1 \<le> rq_pageLimit r \<and> rq_pageLimit r \<le> 256 \<and> rq_instructionCount r \<le> 256 \<and>
     4 \<le> rq_minStringLength r \<and> rq_minStringLength r \<le> 256 \<and> rq_stringContextBytes r \<le> 128 \<and>
     1 \<le> rq_argumentCount r \<and> rq_argumentCount r \<le> 16"

definition times_ok :: "('w :: len) word Request \<Rightarrow> bool" where
  "times_ok r \<longleftrightarrow>
     1 \<le> rq_waitTimeoutMs r \<and> rq_waitTimeoutMs r \<le> 9000 \<and>
     100 \<le> rq_runToTimeoutMs r \<and> rq_runToTimeoutMs r \<le> 20000 \<and>
     rq_traceMaxSteps r \<le> kMaxSteps \<and> rq_traceTimeoutMs r \<le> 30000 \<and>
     rq_afterGeneration r \<le> 9007199254740991"

definition lists_ok :: "('w :: len) word Request \<Rightarrow> bool" where
  "lists_ok r \<longleftrightarrow>
     distinct (rq_registerNames r) \<and> length (rq_registerNames r) \<le> 64 \<and>
     distinct (rq_eventTypes r) \<and>
     length (rq_launchArguments r) \<le> kMaxLaunchArguments \<and>
     total_length (rq_launchArguments r) \<le> kMaxLaunchArgumentTotalBytes \<and>
     length (rq_expressions r) \<le> 32 \<and> total_length (rq_expressions r) \<le> 8192 \<and>
     length (rq_exceptionRegisterOverrides r) \<le> 4 \<and>
     distinct (map ra_name (rq_exceptionRegisterOverrides r)) \<and>
     length (cs_predicates (rq_conditionalSpec r)) \<le> 4"

definition memory_ok :: "('w :: len) word Request \<Rightarrow> bool" where
  "memory_ok r \<longleftrightarrow>
     rq_length r \<le> 67108864 \<and> length (rq_writeBytes r) \<le> 4096 \<and>
     length (rq_expectedBytes r) \<le> 16 \<and> length (rq_expectedOriginalBytes r) \<le> 16 \<and>
     rq_breakpointSize r \<le> 65536 \<and> rq_targetThreadId r \<noteq> Some 0"

definition request_ok :: "('w :: len) word Request \<Rightarrow> bool" where
  "request_ok r \<longleftrightarrow> pages_ok r \<and> times_ok r \<and> lists_ok r \<and> memory_ok r"

lemmas request_ok_defs = request_ok_def pages_ok_def times_ok_def lists_ok_def memory_ok_def
  kMaxSteps_def

definition envelope :: "('w :: len) word Request \<Rightarrow> string \<times> string \<times> u64 \<times> bool \<times> string" where
  "envelope r = (rq_requestId r, rq_method r, rq_deadlineUnixMs r, rq_mutation r, rq_operationId r)"

text \<open>
  \<open>keeps e m\<close>: if the computation \<open>m\<close> returns a request, it is within the bounds and has the
  envelope \<open>e\<close>. The rules below take a branch apart statement by statement; the rules for the
  readers hand their bounds to what follows.
\<close>

definition keeps :: "string \<times> string \<times> u64 \<times> bool \<times> string \<Rightarrow> ('w :: len) word Request option \<Rightarrow> bool" where
  "keeps e m \<longleftrightarrow> (\<forall>r. m = Some r \<longrightarrow> request_ok r \<and> envelope r = e)"


lemma keeps_Some: "request_ok r \<Longrightarrow> envelope r = e \<Longrightarrow> keeps e (Some r)"
  by (simp add: keeps_def)

lemma keeps_None: "keeps e None"
  by (simp add: keeps_def)

lemma keeps_require: "(test \<Longrightarrow> keeps e (f ())) \<Longrightarrow> keeps e (require test \<bind> f)"
  by (simp add: keeps_def require_def)

lemma keeps_bind: "(\<And>v. m = Some v \<Longrightarrow> keeps e (f v)) \<Longrightarrow> keeps e (m \<bind> f)"
  by (cases m) (simp_all add: keeps_def)

lemma keeps_let: "keeps e (f v) \<Longrightarrow> keeps e (Let v f)"
  by simp

lemma keeps_if: "(c \<Longrightarrow> keeps e m) \<Longrightarrow> (\<not> c \<Longrightarrow> keeps e m') \<Longrightarrow> keeps e (if c then m else m')"
  by simp

lemma keeps_prod: "(\<And>a b. v = (a, b) \<Longrightarrow> keeps e (f a b)) \<Longrightarrow> keeps e (case v of (a, b) \<Rightarrow> f a b)"
  by (cases v) simp

lemma keeps_Some_if:
  "(c \<Longrightarrow> keeps e (Some r)) \<Longrightarrow> (\<not> c \<Longrightarrow> keeps e (Some r')) \<Longrightarrow> keeps e (Some (if c then r else r'))"
  by simp

lemma keeps_Some_option:
  "keeps e (Some r) \<Longrightarrow> (\<And>v. keeps e (Some (f v))) \<Longrightarrow>
   keeps e (Some (case v of None \<Rightarrow> r | Some v \<Rightarrow> f v))"
  by (cases v) simp_all

section \<open>The collecting loops\<close>

lemma collect_arguments_total:
  "collect_arguments J wide ps n acc = Some as \<Longrightarrow> total_length acc = n \<Longrightarrow>
   n \<le> kMaxLaunchArgumentTotalBytes \<Longrightarrow>
   total_length as \<le> kMaxLaunchArgumentTotalBytes \<and> length as = length acc + length ps"
proof (induction ps arbitrary: n acc)
  case (Cons p ps)
  from Cons.prems(1) have "length (str_of J p) \<le> kMaxLaunchArgumentTotalBytes - n"
    "collect_arguments J wide ps (n + length (str_of J p)) (acc @ [str_of J p]) = Some as"
    by (auto split: if_splits)
  with Cons show ?case by (fastforce simp: total_length_def)
qed simp

lemma collect_expressions_total:
  "collect_expressions J ps n acc = Some es \<Longrightarrow> total_length acc = n \<Longrightarrow> n \<le> 8192 \<Longrightarrow>
   total_length es \<le> 8192 \<and> length es = length acc + length ps"
proof (induction ps arbitrary: n acc)
  case (Cons p ps)
  from Cons.prems(1) have "length (str_of J p) \<le> 8192 - n"
    "collect_expressions J ps (n + length (str_of J p)) (acc @ [str_of J p]) = Some es"
    by (auto split: if_splits)
  with Cons show ?case by (fastforce simp: total_length_def)
qed simp

lemma collect_overrides_distinct:
  "collect_overrides J ps acc = Some os \<Longrightarrow> distinct (map ra_name acc) \<Longrightarrow>
   distinct (map ra_name os) \<and> length os = length acc + length ps"
proof (induction ps arbitrary: acc)
  case (Cons p ps)
  from Cons.prems(1) obtain n v where n: "n \<notin> set (map ra_name acc)"
    "collect_overrides J ps (acc @ [\<lparr>ra_name = n, ra_value = v\<rparr>]) = Some os"
    by (force simp: Let_def list_ex_iff split: option.splits if_splits)
  with Cons show ?case by fastforce
qed simp

lemma collect_predicates_length: "collect_predicates J ps = Some cs \<Longrightarrow> length cs = length ps"
  by (induction ps arbitrary: cs) (auto split: option.splits)

text \<open>The loops as the branches call them, with nothing collected yet.\<close>

lemma collected:
  "collect_kinds J ps [] = Some ks \<Longrightarrow> distinct ks \<and> length ks = length ps"
  "collect_names J ps [] = Some ns \<Longrightarrow> distinct ns \<and> length ns = length ps"
  "collect_arguments J wide ps 0 [] = Some as \<Longrightarrow>
     total_length as \<le> kMaxLaunchArgumentTotalBytes \<and> length as = length ps"
  "collect_expressions J ps 0 [] = Some es \<Longrightarrow> total_length es \<le> 8192 \<and> length es = length ps"
  "collect_overrides J ps [] = Some os \<Longrightarrow> distinct (map ra_name os) \<and> length os = length ps"
  using collect_kinds_distinct [of J ps "[]" ks] collect_names_distinct [of J ps "[]" ns]
    collect_arguments_total [of J wide ps 0 "[]" as] collect_expressions_total [of J ps 0 "[]" es]
    collect_overrides_distinct [of J ps "[]" os]
  by (simp_all add: total_length_def)

lemma opt_thread_bound: "opt_thread J p = Some t \<Longrightarrow> t \<noteq> Some 0"
  using opt_thread_nonzero by (cases t) auto

lemma int_bounds:
  "int_between J p lo hi \<Longrightarrow>
   nat lo \<le> nat (int_of J p) \<and> nat (int_of J p) \<le> nat hi \<and>
   (0 \<le> lo \<longrightarrow> hi \<le> 9007199254740991 \<longrightarrow> (word_of_int (int_of J p) :: u64) \<le> 9007199254740991)"
  by (auto simp: int_between_def word_le_def uint_word_of_int)

lemmas bounds_dest = int_bounds length_elements_present length_elements

lemma keeps_opt_int:
  "(\<And>n. n \<le> max d (nat hi) \<Longrightarrow> min d (nat lo) \<le> n \<Longrightarrow> keeps e (f n)) \<Longrightarrow>
   keeps e (opt_int J p lo hi d \<bind> f)"
  by (rule keeps_bind) (use opt_int_bounds in blast)

lemma keeps_opt_thread:
  "(\<And>t. t \<noteq> Some 0 \<Longrightarrow> keeps e (f t)) \<Longrightarrow> keeps e (opt_thread J p \<bind> f)"
  by (rule keeps_bind) (use opt_thread_bound in blast)

lemma keeps_collect:
  "(\<And>v. distinct v \<Longrightarrow> length v = length ps \<Longrightarrow> keeps e (f v)) \<Longrightarrow> keeps e (collect_kinds J ps [] \<bind> f)"
  "(\<And>v. distinct v \<Longrightarrow> length v = length ps \<Longrightarrow> keeps e (g v)) \<Longrightarrow> keeps e (collect_names J ps [] \<bind> g)"
  "(\<And>v. total_length v \<le> kMaxLaunchArgumentTotalBytes \<Longrightarrow> length v = length ps \<Longrightarrow> keeps e (g v)) \<Longrightarrow>
   keeps e (collect_arguments J wide ps 0 [] \<bind> g)"
  "(\<And>v. total_length v \<le> 8192 \<Longrightarrow> length v = length ps \<Longrightarrow> keeps e (g v)) \<Longrightarrow>
   keeps e (collect_expressions J ps 0 [] \<bind> g)"
  "(\<And>v. distinct (map ra_name v) \<Longrightarrow> length v = length ps \<Longrightarrow> keeps e (h v)) \<Longrightarrow>
   keeps e (collect_overrides J ps [] \<bind> h)"
  by (rule keeps_bind, use collected in blast)+

lemma keeps_patch_bytes:
  "(\<And>v. length v \<le> 16 \<Longrightarrow> keeps e (f v)) \<Longrightarrow> keeps e (ParsePatchBytes s \<bind> f)"
  by (rule keeps_bind) (use ParsePatchBytes_length in blast)

text \<open>What the shared ends of the branches change.\<close>

lemma resume_discovery_update:
  "resume_discovery J c f r = Some r' \<Longrightarrow>
   \<exists>i g v. r' = r\<lparr>rq_cursorFingerprint := Some f, rq_cursorIndex := i, rq_cursorGeneration := g,
     rq_discoveryCursorInvalid := v\<rparr>"
proof -
  assume parsed: "resume_discovery J c f r = Some r'"
  obtain v g h i where p: "ParseDiscoveryCursor (str_of J c) 0 0 (rq_cursorIndex r) = (v, g, h, i)"
    by (metis prod_cases4)
  consider "c = None" | "c \<noteq> None" "\<not> v" | "c \<noteq> None" v by blast
  then show ?thesis
  proof cases
    case 1
    with parsed have "r' = r\<lparr>rq_cursorFingerprint := Some f, rq_cursorIndex := rq_cursorIndex r,
        rq_cursorGeneration := rq_cursorGeneration r,
        rq_discoveryCursorInvalid := rq_discoveryCursorInvalid r\<rparr>"
      by (auto simp: resume_discovery_def)
    then show ?thesis by blast
  next
    case 2
    with parsed have "r' = r\<lparr>rq_cursorFingerprint := Some f, rq_cursorIndex := i,
        rq_cursorGeneration := rq_cursorGeneration r, rq_discoveryCursorInvalid := True\<rparr>"
      by (simp add: resume_discovery_def p monad_simps Let_def)
    then show ?thesis by blast
  next
    case 3
    with parsed have "r' = r\<lparr>rq_cursorFingerprint := Some f, rq_cursorIndex := i,
        rq_cursorGeneration := Some g, rq_discoveryCursorInvalid := (h \<noteq> f)\<rparr>"
      by (simp add: resume_discovery_def p monad_simps Let_def)
    then show ?thesis by blast
  qed
qed

lemma resume_trace_update:
  "\<exists>i v h. resume_trace c r = r\<lparr>rq_cursorIndex := i, rq_traceCursorInvalid := v,
     rq_cursorSnapshotFingerprint := h\<rparr>"
proof -
  obtain v t f i where p: "ParseTraceCursor c [] 0 (rq_cursorIndex r) = (v, t, f, i)"
    by (metis prod_cases4)
  show ?thesis
  proof (cases "\<not> v \<or> t \<noteq> rq_traceId r")
    case True
    then have "resume_trace c r = r\<lparr>rq_cursorIndex := i, rq_traceCursorInvalid := True,
        rq_cursorSnapshotFingerprint := rq_cursorSnapshotFingerprint r\<rparr>"
      by (auto simp: resume_trace_def p Let_def)
    then show ?thesis by blast
  next
    case False
    then have "resume_trace c r = r\<lparr>rq_cursorIndex := i, rq_traceCursorInvalid := rq_traceCursorInvalid r,
        rq_cursorSnapshotFingerprint := Some f\<rparr>"
      by (auto simp: resume_trace_def p Let_def)
    then show ?thesis by blast
  qed
qed

lemma keeps_resume_discovery:
  "request_ok r \<Longrightarrow> envelope r = e \<Longrightarrow> keeps e (resume_discovery J c f r)"
  by (auto simp: keeps_def request_ok_defs envelope_def dest!: resume_discovery_update)

lemma keeps_resume_trace:
  "request_ok r \<Longrightarrow> envelope r = e \<Longrightarrow> keeps e (Some (resume_trace c r))"
  using resume_trace_update [of c r] by (auto simp: keeps_def request_ok_defs envelope_def)

lemmas keeps_rules = keeps_let keeps_None keeps_require keeps_opt_int keeps_opt_thread keeps_collect
  keeps_patch_bytes keeps_bind keeps_if keeps_prod keeps_resume_discovery keeps_resume_trace
  keeps_Some_if keeps_Some_option keeps_Some

section \<open>Branches\<close>

lemma parse_scyllahide_keeps [branch_keeps]:
  "request_ok r \<Longrightarrow> keeps (envelope r) (parse_scyllahide J payload r)"
  unfolding parse_scyllahide_def
  by (rule keeps_rules | clarsimp simp: request_ok_defs envelope_def dest!: bounds_dest)+

lemma parse_no_fields_keeps [branch_keeps]:
  "request_ok r \<Longrightarrow> keeps (envelope r) (parse_no_fields J payload r)"
  unfolding parse_no_fields_def
  by (rule keeps_rules | clarsimp simp: request_ok_defs envelope_def dest!: bounds_dest)+

lemma parse_events_list_keeps [branch_keeps]:
  "request_ok r \<Longrightarrow> keeps (envelope r) (parse_events_list J payload r)"
  unfolding parse_events_list_def
  by (rule keeps_rules | clarsimp simp: request_ok_defs envelope_def dest!: bounds_dest)+

lemma parse_events_wait_keeps [branch_keeps]:
  "request_ok r \<Longrightarrow> keeps (envelope r) (parse_events_wait J payload r)"
  unfolding parse_events_wait_def
  by (rule keeps_rules | clarsimp simp: request_ok_defs envelope_def dest!: bounds_dest)+

lemma parse_snapshot_keeps [branch_keeps]:
  "request_ok r \<Longrightarrow> keeps (envelope r) (parse_snapshot J payload r)"
  unfolding parse_snapshot_def
  by (rule keeps_rules | clarsimp simp: request_ok_defs envelope_def dest!: bounds_dest)+

lemma parse_wait_for_pause_keeps [branch_keeps]:
  "request_ok r \<Longrightarrow> keeps (envelope r) (parse_wait_for_pause J payload r)"
  unfolding parse_wait_for_pause_def
  by (rule keeps_rules | clarsimp simp: request_ok_defs envelope_def dest!: bounds_dest)+

lemma parse_launch_keeps [branch_keeps]:
  "request_ok r \<Longrightarrow> keeps (envelope r) (parse_launch J wide payload r)"
  unfolding parse_launch_def
  by (rule keeps_rules | clarsimp simp: request_ok_defs envelope_def dest!: bounds_dest)+

lemma parse_launch_dll_keeps [branch_keeps]:
  "request_ok r \<Longrightarrow> keeps (envelope r) (parse_launch_dll J payload r)"
  unfolding parse_launch_dll_def
  by (rule keeps_rules | clarsimp simp: request_ok_defs envelope_def dest!: bounds_dest)+

lemma parse_attach_keeps [branch_keeps]:
  "request_ok r \<Longrightarrow> keeps (envelope r) (parse_attach J payload r)"
  unfolding parse_attach_def
  by (rule keeps_rules | clarsimp simp: request_ok_defs envelope_def dest!: bounds_dest)+

lemma parse_detach_keeps [branch_keeps]:
  "request_ok r \<Longrightarrow> keeps (envelope r) (parse_detach J payload r)"
  unfolding parse_detach_def
  by (rule keeps_rules | clarsimp simp: request_ok_defs envelope_def dest!: bounds_dest)+

lemma parse_trace_start_keeps [branch_keeps]:
  "request_ok r \<Longrightarrow> keeps (envelope r) (parse_trace_start J payload r)"
  unfolding parse_trace_start_def
  by (rule keeps_rules | clarsimp simp: request_ok_defs envelope_def dest!: bounds_dest)+

lemma parse_trace_status_keeps [branch_keeps]:
  "request_ok r \<Longrightarrow> keeps (envelope r) (parse_trace_status J payload r)"
  unfolding parse_trace_status_def
  by (rule keeps_rules | clarsimp simp: request_ok_defs envelope_def dest!: bounds_dest)+

lemma parse_trace_cancel_keeps [branch_keeps]:
  "request_ok r \<Longrightarrow> keeps (envelope r) (parse_trace_cancel J payload r)"
  unfolding parse_trace_cancel_def
  by (rule keeps_rules | clarsimp simp: request_ok_defs envelope_def dest!: bounds_dest)+

lemma parse_trace_results_keeps [branch_keeps]:
  "request_ok r \<Longrightarrow> keeps (envelope r) (parse_trace_results J payload r)"
  unfolding parse_trace_results_def
  by (rule keeps_rules | clarsimp simp: request_ok_defs envelope_def dest!: bounds_dest)+

lemma parse_evaluate_keeps [branch_keeps]:
  "request_ok r \<Longrightarrow> keeps (envelope r) (parse_evaluate J payload r)"
  unfolding parse_evaluate_def
  by (rule keeps_rules | clarsimp simp: request_ok_defs envelope_def dest!: bounds_dest)+

lemma parse_evaluate_batch_keeps [branch_keeps]:
  "request_ok r \<Longrightarrow> keeps (envelope r) (parse_evaluate_batch J payload r)"
  unfolding parse_evaluate_batch_def
  by (rule keeps_rules | clarsimp simp: request_ok_defs envelope_def dest!: bounds_dest)+

lemma parse_arguments_keeps [branch_keeps]:
  "request_ok r \<Longrightarrow> keeps (envelope r) (parse_arguments J payload r)"
  unfolding parse_arguments_def
  by (rule keeps_rules | clarsimp simp: request_ok_defs envelope_def dest!: bounds_dest)+

lemma parse_address_only_keeps [branch_keeps]:
  "request_ok r \<Longrightarrow> keeps (envelope r) (parse_address_only J payload r)"
  unfolding parse_address_only_def
  by (rule keeps_rules | clarsimp simp: request_ok_defs envelope_def dest!: bounds_dest)+

lemma parse_symbols_resolve_keeps [branch_keeps]:
  "request_ok r \<Longrightarrow> keeps (envelope r) (parse_symbols_resolve J payload r)"
  unfolding parse_symbols_resolve_def
  by (rule keeps_rules | clarsimp simp: request_ok_defs envelope_def dest!: bounds_dest)+

lemma parse_operation_address_keeps [branch_keeps]:
  "request_ok r \<Longrightarrow> keeps (envelope r) (parse_operation_address J payload r)"
  unfolding parse_operation_address_def
  by (rule keeps_rules | clarsimp simp: request_ok_defs envelope_def dest!: bounds_dest)+

lemma parse_memory_dump_keeps [branch_keeps]:
  "request_ok r \<Longrightarrow> keeps (envelope r) (parse_memory_dump J payload r)"
  unfolding parse_memory_dump_def
  by (rule keeps_rules | clarsimp simp: request_ok_defs envelope_def dest!: bounds_dest)+

lemma parse_memory_read_keeps [branch_keeps]:
  "request_ok r \<Longrightarrow> keeps (envelope r) (parse_memory_read J payload r)"
  unfolding parse_memory_read_def
  by (rule keeps_rules | clarsimp simp: request_ok_defs envelope_def dest!: bounds_dest)+

lemma parse_registers_read_keeps [branch_keeps]:
  "request_ok r \<Longrightarrow> keeps (envelope r) (parse_registers_read J payload r)"
  unfolding parse_registers_read_def
  by (rule keeps_rules | clarsimp simp: request_ok_defs envelope_def dest!: bounds_dest)+

lemma parse_registers_write_keeps [branch_keeps]:
  "request_ok r \<Longrightarrow> keeps (envelope r) (parse_registers_write J payload r)"
  unfolding parse_registers_write_def
  by (rule keeps_rules | clarsimp simp: request_ok_defs envelope_def dest!: bounds_dest)+

lemma parse_memory_map_keeps [branch_keeps]:
  "request_ok r \<Longrightarrow> keeps (envelope r) (parse_memory_map J payload r)"
  unfolding parse_memory_map_def
  by (rule keeps_rules | clarsimp simp: request_ok_defs envelope_def dest!: bounds_dest)+

lemma parse_search_scope_bounds:
  "parse_search_scope J scope r = Some r' \<Longrightarrow>
   \<exists>m n q a. r' = r\<lparr>rq_memorySearchModuleScope := m, rq_module := n, rq_address := a, rq_length := q\<rparr> \<and>
     (rq_length r \<le> 67108864 \<longrightarrow> q \<le> 67108864)"
proof -
  assume parsed: "parse_search_scope J scope r = Some r'"
  show ?thesis
  proof (cases "json_object_get J scope ''module''")
    case None
    with parsed obtain a where "r' = r\<lparr>rq_memorySearchModuleScope := rq_memorySearchModuleScope r,
        rq_module := rq_module r, rq_address := a,
        rq_length := nat (int_of J (json_object_get J scope ''length''))\<rparr>"
      "int_between J (json_object_get J scope ''length'') 1 16777216"
      by (auto simp: parse_search_scope_def monad_simps Let_def)
    moreover from this(2) have "nat (int_of J (json_object_get J scope ''length'')) \<le> 67108864"
      by (auto dest!: int_bounds)
    ultimately show ?thesis by blast
  next
    case (Some m)
    with parsed have "r' = r\<lparr>rq_memorySearchModuleScope := True,
        rq_module := str_of J (json_object_get J scope ''module''), rq_address := rq_address r,
        rq_length := rq_length r\<rparr>"
      by (auto simp: parse_search_scope_def monad_simps Let_def)
    then show ?thesis by blast
  qed
qed

lemma parse_memory_search_keeps [branch_keeps]:
  "request_ok r \<Longrightarrow> keeps (envelope r) (parse_memory_search J payload r)"
  unfolding parse_memory_search_def
  by (rule keeps_rules | clarsimp simp: request_ok_defs envelope_def
      dest!: parse_search_scope_bounds)+

lemma parse_callstack_keeps [branch_keeps]:
  "request_ok r \<Longrightarrow> keeps (envelope r) (parse_callstack J payload r)"
  unfolding parse_callstack_def
  by (rule keeps_rules | clarsimp simp: request_ok_defs envelope_def dest!: bounds_dest)+

lemma parse_patches_list_keeps [branch_keeps]:
  "request_ok r \<Longrightarrow> keeps (envelope r) (parse_patches_list J payload r)"
  unfolding parse_patches_list_def
  by (rule keeps_rules | clarsimp simp: request_ok_defs envelope_def dest!: bounds_dest)+

lemma parse_discovery_keeps [branch_keeps]:
  "request_ok r \<Longrightarrow> keeps (envelope r) (parse_discovery J payload r)"
  unfolding parse_discovery_def
  by (rule keeps_rules | clarsimp simp: request_ok_defs envelope_def dest!: bounds_dest)+

lemma parse_page_keeps [branch_keeps]:
  "request_ok r \<Longrightarrow> keeps (envelope r) (parse_page J payload r)"
  unfolding parse_page_def
  by (rule keeps_rules | clarsimp simp: request_ok_defs envelope_def dest!: bounds_dest)+

lemma parse_disassembly_keeps [branch_keeps]:
  "request_ok r \<Longrightarrow> keeps (envelope r) (parse_disassembly J payload r)"
  unfolding parse_disassembly_def
  by (rule keeps_rules | clarsimp simp: request_ok_defs envelope_def dest!: bounds_dest)+

lemma parse_assembly_keeps [branch_keeps]:
  "request_ok r \<Longrightarrow> keeps (envelope r) (parse_assembly J payload r)"
  unfolding parse_assembly_def
  by (rule keeps_rules | clarsimp simp: request_ok_defs envelope_def dest!: bounds_dest)+

lemma parse_patches_restore_keeps [branch_keeps]:
  "request_ok r \<Longrightarrow> keeps (envelope r) (parse_patches_restore J payload r)"
  unfolding parse_patches_restore_def
  by (rule keeps_rules | clarsimp simp: request_ok_defs envelope_def dest!: bounds_dest)+

lemma parse_memory_write_keeps [branch_keeps]:
  "request_ok r \<Longrightarrow> keeps (envelope r) (parse_memory_write J payload r)"
  unfolding parse_memory_write_def
  by (rule keeps_rules | clarsimp simp: request_ok_defs envelope_def string_between_def
      dest!: WriteBytes_loop_length)+

lemma parse_run_to_address_keeps [branch_keeps]:
  "request_ok r \<Longrightarrow> keeps (envelope r) (parse_run_to_address J payload r)"
  unfolding parse_run_to_address_def
  by (rule keeps_rules | clarsimp simp: request_ok_defs envelope_def dest!: bounds_dest)+

lemma parse_continue_exception_keeps [branch_keeps]:
  "request_ok r \<Longrightarrow> keeps (envelope r) (parse_continue_exception J payload r)"
  unfolding parse_continue_exception_def
  by (rule keeps_rules | clarsimp simp: request_ok_defs envelope_def dest!: bounds_dest)+

lemma parse_control_keeps [branch_keeps]:
  "request_ok r \<Longrightarrow> keeps (envelope r) (parse_control J payload r)"
  unfolding parse_control_def
  by (rule keeps_rules | clarsimp simp: request_ok_defs envelope_def dest!: bounds_dest)+

lemma parse_toggle_keeps [branch_keeps]:
  "request_ok r \<Longrightarrow> keeps (envelope r) (parse_toggle J payload r)"
  unfolding parse_toggle_def parse_selector_def
  by (rule keeps_rules | clarsimp simp: request_ok_defs envelope_def access_and_size_def
      dest!: bounds_dest)+

lemma parse_access_breakpoint_keeps [branch_keeps]:
  "request_ok r \<Longrightarrow> keeps (envelope r) (parse_access_breakpoint J payload r)"
  unfolding parse_access_breakpoint_def
  by (rule keeps_rules | clarsimp simp: request_ok_defs envelope_def access_and_size_def
      dest!: bounds_dest)+

lemma parse_exception_breakpoint_keeps [branch_keeps]:
  "request_ok r \<Longrightarrow> keeps (envelope r) (parse_exception_breakpoint J payload r)"
  unfolding parse_exception_breakpoint_def
  by (rule keeps_rules | clarsimp simp: request_ok_defs envelope_def dest!: bounds_dest)+

lemma parse_condition_length:
  "parse_condition J p = Some spec \<Longrightarrow> length (cs_predicates spec) \<le> 4"
  by (auto simp: parse_condition_def monad_simps Let_def
      dest!: collect_predicates_length length_elements split: if_splits)

lemma parse_conditional_breakpoint_keeps [branch_keeps]:
  "request_ok r \<Longrightarrow> keeps (envelope r) (parse_conditional_breakpoint J k b payload r)"
  unfolding parse_conditional_breakpoint_def
  by (rule keeps_rules | clarsimp simp: request_ok_defs envelope_def
      dest!: parse_condition_length)+





definition example_request :: "string \<Rightarrow> json_value \<Rightarrow> json_value" where
  "example_request method payload =
     J_obj [(''request_id'', J_str ''0f8fad5b-d9cb-469f-a165-70867728950e''),
       (''deadline_unix_ms'', J_int 1000), (''operation_id'', J_null), (''method'', J_str method),
       (''payload'', payload)]"



section \<open>Continuation\<close>

lemma resume_discovery_printed:
  fixes r :: "('w :: len) word Request"
  assumes "LENGTH('w) \<le> 64" "json_is J JSON_STRING c" "str_of J c = DiscoveryCursor (Some f) g i"
  shows "resume_discovery J c expected r =
    Some (r\<lparr>rq_cursorFingerprint := Some expected, rq_cursorIndex := i,
            rq_cursorGeneration := Some g, rq_discoveryCursorInvalid := (f \<noteq> expected)\<rparr>)"
proof -
  have "c \<noteq> None" using assms(2) by (cases c) simp_all
  with assms show ?thesis
    by (auto simp: resume_discovery_def ParseDiscoveryCursor_DiscoveryCursor require_bind Let_def)
qed

text \<open>
  C10. A discovery cursor resumes its own search and no other: when a client returns the cursor
  that the handler of a request with fingerprint \<open>f\<close> printed, the next request starts at exactly
  the index and generation of that cursor, and is marked invalid exactly when its own filters
  have another fingerprint.
\<close>

theorem discovery_cursor_resumes:
  fixes r :: "('w :: len) word Request"
  assumes "LENGTH('w) \<in> {32, 64}" "resume_discovery J None f q = Some q'"
    and "json_is J JSON_STRING c" "str_of J c = DiscoveryCursor (rq_cursorFingerprint q') g i"
  shows "resume_discovery J c expected r =
    Some (r\<lparr>rq_cursorFingerprint := Some expected, rq_cursorIndex := i,
            rq_cursorGeneration := Some g, rq_discoveryCursorInvalid := (f \<noteq> expected)\<rparr>)"
proof -
  have "rq_cursorFingerprint q' = Some f"
    using resume_discovery_update [OF assms(2)] by auto
  with assms show ?thesis by (intro resume_discovery_printed) auto
qed

theorem discovery_cursor_resumes_witness:
  "\<exists>(q :: 32 word Request) (r :: 32 word Request).
     resume_discovery (loaded J_null) None 5 (Request_init [] [] 0 False []) = Some q \<and>
     resume_discovery (loaded J_null) (Some (J_str (DiscoveryCursor (rq_cursorFingerprint q) 7 (9 :: u32))))
       5 (Request_init [] [] 0 False []) = Some r \<and>
     rq_cursorIndex r = 9 \<and> \<not> rq_discoveryCursorInvalid r"
proof -
  let ?q = "(Request_init [] [] 0 False [])\<lparr>rq_cursorFingerprint := Some 5\<rparr> :: 32 word Request"
  have q: "resume_discovery (loaded J_null) None 5 (Request_init [] [] 0 False []) = Some ?q"
    by (simp add: resume_discovery_def)
  have len: "LENGTH(32) \<in> {32, 64}" by simp
  have c: "json_is (loaded J_null) JSON_STRING (Some (J_str s))"
    "str_of (loaded J_null) (Some (J_str s)) = s" for s
    by (simp_all add: loaded_def)
  show ?thesis
    using discovery_cursor_resumes [OF len q c(1) c(2), of 7 9 5 "Request_init [] [] 0 False []"] q
    by - (rule exI [of _ ?q], simp)
qed

text \<open>
  The fingerprint of \<open>references.to\<close> does not contain the address: it is the same for every
  target, since module and query are empty and the other filters are not allowed.
\<close>

definition references_request :: "string \<Rightarrow> (string \<times> json_value) list \<Rightarrow> json_value" where
  "references_request address rest =
     example_request ''references.to'' (J_obj ((''address'', J_str address) # rest))"

definition parse64 :: "json_value \<Rightarrow> 64 word Request option" where
  "parse64 d = ParseRequest (loaded d) sample_sdk Win64 (\<lambda>_. None) []"

lemma loaded_simps [simp]:
  "json_loadb (loaded d) s = Some d" "json_typeof (loaded d) = kind_of"
  "json_object_size (loaded d) v = length (object_of v)"
  "json_object_get (loaded d) v key = map_of (object_of v) key"
  "json_string_value (loaded d) = string_of" "json_integer_value (loaded d) = integer_of"
  by (simp_all add: loaded_def)

text \<open>How a value is read does not depend on the document that was loaded.\<close>

lemma loaded_address: "ParseAddressReference (loaded d) p = ParseAddressReference (loaded d') p"
proof -
  have 1: "json_is (loaded d) = json_is (loaded d')" "str_of (loaded d) = str_of (loaded d')"
    by (auto simp: fun_eq_iff json_is_def str_of_def split: option.splits)
  have 2: "IsCanonicalHex (loaded d) = IsCanonicalHex (loaded d')"
    "IsBoundedModuleName (loaded d) = IsBoundedModuleName (loaded d')"
    by (simp_all only: fun_eq_iff IsCanonicalHex_def IsBoundedModuleName_def 1 simp_thms)
  have 3: "ParseCanonicalHex (loaded d) q w = ParseCanonicalHex (loaded d') q w" for q and w :: "'a word"
    by (simp only: ParseCanonicalHex_def 1 2)
  show ?thesis by (simp only: ParseAddressReference_def 1 2 3 loaded_simps)
qed

lemma parse_payload_references:
  "rq_method r = ''references.to'' \<Longrightarrow> parse_payload J k b wide payload r = parse_discovery J payload r"
  by (simp add: parse_payload_def IsDiscoveryMethod_def)

lemma parse_discovery_references:
  assumes "rq_method r = ''references.to''" "rest = [] \<or> rest = [(''cursor'', J_str c)]"
    and "ParseAddressReference (loaded d) (Some (J_str a)) = Some ref"
    and "rq_module r = []" "rq_stringEncoding r = ''both''" "rq_minStringLength r = 4"
    and "rq_stringContextBytes r = 64" "rq_query r = []" "rq_pageLimit r = 100"
  shows "parse_discovery (loaded d) (J_obj ((''address'', J_str a) # rest)) r =
    resume_discovery (loaded d) (map_of rest ''cursor'')
      (DiscoveryFingerprint ''references.to'' [] [] ''both'' 4 0) (r\<lparr>rq_address := ref\<rparr>)"
  using assms
  by (cases r; elim disjE) (simp_all add: parse_discovery_def Let_def require_bind present_def
      when_present_def opt_int_def)

lemma bind_require_id:
  "(\<And>r. m = Some r \<Longrightarrow> test r) \<Longrightarrow> (m \<bind> (\<lambda>r. require (test r) \<bind> (\<lambda>_. Some r))) = m"
  by (cases m) (simp_all add: require_def)

lemma parse_references:
  assumes "rest = [] \<or> rest = [(''cursor'', J_str c)]"
    and "ParseAddressReference (loaded (references_request a rest)) (Some (J_str a)) = Some ref"
  shows "parse64 (references_request a rest) =
    resume_discovery (loaded (references_request a rest)) (map_of rest ''cursor'')
      (DiscoveryFingerprint ''references.to'' [] [] ''both'' 4 0)
      ((Request_init ''0f8fad5b-d9cb-469f-a165-70867728950e'' ''references.to'' 1000 False [])
        \<lparr>rq_address := ref\<rparr>)"
proof -
  let ?d = "references_request a rest" and ?payload = "J_obj ((''address'', J_str a) # rest)"
  let ?r = "Request_init ''0f8fad5b-d9cb-469f-a165-70867728950e'' ''references.to'' 1000 False []
    :: 64 word Request"
  have "IsUuid ''0f8fad5b-d9cb-469f-a165-70867728950e''" by code_simp
  moreover have "\<not> IsMutation ''references.to''" by code_simp
  ultimately have "parse_envelope (loaded ?d) ?d = Some (?payload, ?r)"
    by (simp add: parse_envelope_def references_request_def example_request_def require_bind Let_def
        request_mutation_def)
  moreover have "parse_payload (loaded ?d) k b wide ?payload ?r =
      resume_discovery (loaded ?d) (map_of rest ''cursor'')
        (DiscoveryFingerprint ''references.to'' [] [] ''both'' 4 0) (?r\<lparr>rq_address := ref\<rparr>)" for k b wide
    using assms by (subst parse_payload_references, simp add: Request_init_def)
      (rule parse_discovery_references; simp add: Request_init_def)
  moreover have "rq_mutation r = False" if "resume_discovery (loaded ?d) cur f (?r\<lparr>rq_address := ref\<rparr>) = Some r" for cur f r
    using resume_discovery_update [OF that] by (auto simp: Request_init_def)
  ultimately show ?thesis
    unfolding parse64_def ParseRequest_def
    by (simp add: bind_require_id)
qed

text \<open>
  C36. A cursor of \<open>references.to\<close> is accepted for another target: the cursor printed for the
  references to one address continues, unnoticed, the references to a different address at the
  index of the first.
\<close>

theorem references_cursor_not_bound:
  "\<exists>r1 r2. parse64 (references_request ''0x401000'' []) = Some r1 \<and>
     parse64 (references_request ''0x402000''
       [(''cursor'', J_str (DiscoveryCursor (rq_cursorFingerprint r1) 7 (100 :: u64)))]) = Some r2 \<and>
     ar_absolute (rq_address r1) \<noteq> ar_absolute (rq_address r2) \<and>
     rq_cursorIndex r2 = 100 \<and> \<not> rq_discoveryCursorInvalid r2"
proof -
  let ?r = "\<lambda>ref. (Request_init ''0f8fad5b-d9cb-469f-a165-70867728950e'' ''references.to'' 1000 False [])
    \<lparr>rq_address := ref\<rparr> :: 64 word Request"
  let ?f = "DiscoveryFingerprint ''references.to'' [] [] ''both'' 4 0"
  let ?rest = "[(''cursor'', J_str (DiscoveryCursor (Some ?f) 7 (100 :: u64)))]"
  obtain a1 a2 :: "64 word AddressReference" where
    a1: "ParseAddressReference (loaded d) (Some (J_str ''0x401000'')) = Some a1" and
    a2: "ParseAddressReference (loaded d) (Some (J_str ''0x402000'')) = Some a2" and
    distinct: "ar_absolute a1 \<noteq> ar_absolute a2" for d
  proof -
    let ?a = "\<lambda>v. \<lparr>ar_kind = ref_absolute, ar_absolute = v, ar_module = [], ar_rva = 0,
      ar_pointerWidthValid = True\<rparr> :: 64 word AddressReference"
    have "ParseAddressReference (loaded J_null) (Some (J_str ''0x401000'')) = Some (?a 0x401000)"
      "ParseAddressReference (loaded J_null) (Some (J_str ''0x402000'')) = Some (?a 0x402000)"
      by code_simp+
    then have "ParseAddressReference (loaded d) (Some (J_str ''0x401000'')) = Some (?a 0x401000)"
      "ParseAddressReference (loaded d) (Some (J_str ''0x402000'')) = Some (?a 0x402000)" for d
      by (simp_all add: loaded_address [of d _ J_null])
    then show thesis by (rule that) simp
  qed
  have 1: "parse64 (references_request ''0x401000'' []) =
      Some ((?r a1)\<lparr>rq_cursorFingerprint := Some ?f\<rparr>)"
    using parse_references [OF disjI1 [OF refl] a1] by (simp add: resume_discovery_def)
  have 2: "parse64 (references_request ''0x402000'' ?rest) =
      Some ((?r a2)\<lparr>rq_cursorFingerprint := Some ?f, rq_cursorIndex := 100,
        rq_cursorGeneration := Some 7, rq_discoveryCursorInvalid := False\<rparr>)"
    using parse_references [OF disjI2 [OF refl] a2]
    by (simp add: resume_discovery_printed [where f = ?f and g = 7 and i = 100])
  show ?thesis
    using distinct by - (rule exI [of _ "(?r a1)\<lparr>rq_cursorFingerprint := Some ?f\<rparr>"], simp add: 1 2)
qed

section \<open>A write request, end to end\<close>

definition write_request :: "string \<Rightarrow> string \<Rightarrow> int \<Rightarrow> string \<Rightarrow> string \<Rightarrow> json_value" where
  "write_request requestId operationId deadline address data =
     J_obj [(''request_id'', J_str requestId), (''deadline_unix_ms'', J_int deadline),
       (''operation_id'', J_str operationId), (''method'', J_str ''memory.write''),
       (''payload'', J_obj [(''operation_id'', J_str operationId), (''address'', J_str address),
         (''data_hex'', J_str data)])]"

lemma parse_payload_write:
  "rq_method r = ''memory.write'' \<Longrightarrow> parse_payload J k b wide payload r = parse_memory_write J payload r"
  by (simp add: parse_payload_def IsDiscoveryMethod_def IsPageMethod_def)

text \<open>
  A write reaches the plugin unchanged: for every address of the build and every 1 to 4096
  bytes, the \<open>memory.write\<close> request with the address printed as the plugin prints addresses and
  the bytes printed by \<open>Hex\<close> is accepted as a mutation with exactly this address, these
  bytes and this operation id.
\<close>

theorem write_request_exact:
  fixes a :: "('w :: len) word"
  assumes "LENGTH('w) \<in> {32, 64}" "IsUuid requestId" "IsUuid operationId" "0 < deadline"
    and "1 \<le> length bs" "length bs \<le> 4096"
  shows "ParseRequest (loaded (write_request requestId operationId deadline (HexValue (ucast a)) (Hex bs)))
      k b wide bytes =
    Some ((Request_init requestId ''memory.write'' (word_of_int deadline) True operationId)
      \<lparr>rq_address := \<lparr>ar_kind = ref_absolute, ar_absolute = a, ar_module = [], ar_rva = 0,
         ar_pointerWidthValid = True\<rparr>, rq_writeBytes := bs\<rparr>)"
proof -
  let ?d = "write_request requestId operationId deadline (HexValue (ucast a)) (Hex bs)"
  let ?payload = "J_obj [(''operation_id'', J_str operationId), (''address'', J_str (HexValue (ucast a))),
    (''data_hex'', J_str (Hex bs))]"
  let ?r = "Request_init requestId ''memory.write'' (word_of_int deadline) True operationId
    :: 'w word Request"
  have "IsMutation ''memory.write''" by code_simp
  with assms have "parse_envelope (loaded ?d) ?d = Some (?payload, ?r)"
    by (simp add: parse_envelope_def write_request_def require_bind Let_def request_mutation_def)
  moreover have "ParseAddressReference (loaded ?d) (Some (J_str (HexValue (ucast a)))) =
      Some \<lparr>ar_kind = ref_absolute, ar_absolute = a, ar_module = [], ar_rva = 0,
        ar_pointerWidthValid = True\<rparr>"
    using assms(1) by (intro ParseAddressReference_HexValue) simp_all
  moreover have "rq_method ?r = ''memory.write''" by (simp add: Request_init_def)
  ultimately show ?thesis using assms(5,6)
    by (simp add: ParseRequest_def parse_payload_write parse_memory_write_def require_bind Let_def
        has_operation_id_def string_between_def Request_init_def)
qed

theorem write_request_exact_witness:
  "map_option rq_writeBytes (ParseRequest (loaded (write_request
      ''0f8fad5b-d9cb-469f-a165-70867728950e'' ''7c9e6679-7425-40de-944b-e07fc1f90ae7'' 1000
      (HexValue (ucast (0x401000 :: u32))) (Hex [0x90, 0xc3])))
      sample_sdk Win32 (\<lambda>_. None) [] :: 32 word Request option) = Some [0x90, 0xc3]"
proof -
  have ids: "IsUuid ''0f8fad5b-d9cb-469f-a165-70867728950e''" "IsUuid ''7c9e6679-7425-40de-944b-e07fc1f90ae7''"
    by code_simp+
  have len: "LENGTH(32) \<in> {32, 64}" by simp
  from write_request_exact [OF len ids, of 1000 "[0x90, 0xc3]" "0x401000"] show ?thesis by simp
qed

end
