(* ===== verification/Runtime_State.thy ===== *)
theory Runtime_State
  imports Trace_Policy Event_Stream
begin

text \<open>
  The members of \<open>mcp::Runtime\<close> (\<open>runtime.h\<close>) that describe the debugged process, the trace and
  the event history, and the operations of \<open>runtime.cpp\<close> that read them: snapshots, wait
  predicates and the recording of an event.

  A \<open>HANDLE\<close> is a number, a null handle is \<open>None\<close>. Everything the code asks of Windows and of
  the debugger at one moment (clocks, whether a handle is signalled, process and thread ids
  of handles, \<open>DbgIsDebugging\<close>, whether an allocation throws) is the record \<open>surroundings\<close>,
  an argument of the operations. The counters are 64-bit words, as in the source.
\<close>

type_synonym handle = nat

datatype PluginState = pl_starting | pl_ready | pl_draining | pl_stopped
datatype DebuggeeState = ds_absent | ds_starting | ds_paused | ds_running | ds_stopping | ds_exited
datatype SessionOrigin = so_none | so_launched | so_attached
datatype PauseReasonKind = pk_unknown | pk_processCreated | pk_systemBreakpoint | pk_breakpoint
  | pk_exception | pk_step | pk_userPause

record PauseObservation =
  po_generation :: u64
  po_kind :: PauseReasonKind
  po_address :: u64
  po_exceptionCode :: u64
  po_hitCount :: u32
  po_threadId :: u32
  po_breakpointType :: u8
  po_hasAddress :: bool
  po_hasExceptionCode :: bool
  po_firstChance :: bool
  po_hasThreadId :: bool

definition no_pause :: PauseObservation where
  "no_pause =
     \<lparr>po_generation = 0, po_kind = pk_unknown, po_address = 0, po_exceptionCode = 0, po_hitCount = 0,
      po_threadId = 0, po_breakpointType = 0, po_hasAddress = False, po_hasExceptionCode = False,
      po_firstChance = False, po_hasThreadId = False\<rparr>"

record PendingExceptionObservation =
  px_processId :: u32
  px_threadId :: u32
  px_code :: u32
  px_address :: u64
  px_firstChance :: bool
  px_valid :: bool

record Runtime =
  rt_pluginState :: PluginState
  rt_debuggeeState :: DebuggeeState
  rt_sessionOrigin :: SessionOrigin
  rt_generation :: u64
  rt_pausedGeneration :: u64
  rt_runningGeneration :: u64
  rt_absentGeneration :: u64
  rt_processId :: u32
  rt_activeThreadId :: u32
  rt_attachProcessId :: u32
  rt_attachGeneration :: u64
  rt_detachProcessId :: u32
  rt_detachGeneration :: u64
  rt_pauseInterruptPending :: bool
  rt_ownedPauseException :: bool
  rt_ownedPauseSelectedThreadId :: u32
  rt_trace :: TracePolicy
  rt_traceStop :: TraceStopCoordinator
  rt_processEpoch :: u64
  rt_rawEventSequence :: u64
  rt_nativePauseEvent :: "u64 option"
  rt_pendingTraceThread :: "EventRecord option"
  rt_traceAdmissionEvent :: u64
  rt_traceAdmissionGeneration :: u64
  rt_traceProcess :: "handle option"
  rt_traceInterruptThread :: "handle option"
  rt_traceInterruptAddress :: u64
  rt_tracePauseCallbackInFlight :: bool
  rt_traceSupervisorStopping :: bool
  rt_latestPause :: PauseObservation
  rt_pendingException :: PendingExceptionObservation
  rt_eventHistory :: "EventRecord list"
  rt_candidateEvents :: "EventRecord list"
  rt_eventHistoryOffset :: u64
  rt_candidateHistoryOffset :: u64
  rt_eventSessionEpoch :: u64
  rt_eventSessionCounter :: u64
  rt_candidateEventSession :: "u64 option"
  rt_eventSessionEstablished :: bool
  rt_historyComplete :: bool
  rt_candidateHistoryComplete :: bool
  rt_nextEventSequence :: u64
  rt_eventStream :: EventStream
  rt_instanceId :: string

definition kMaxEventHistory :: nat where
  "kMaxEventHistory = 65536"

text \<open>The default member initialisers; the event stream is as its \<open>Start\<close> leaves it.\<close>

definition Runtime_init :: "string \<Rightarrow> Runtime" where
  "Runtime_init nonce =
     \<lparr>rt_pluginState = pl_stopped, rt_debuggeeState = ds_absent, rt_sessionOrigin = so_none,
      rt_generation = 0, rt_pausedGeneration = 0, rt_runningGeneration = 0, rt_absentGeneration = 0,
      rt_processId = 0, rt_activeThreadId = 0, rt_attachProcessId = 0, rt_attachGeneration = 0,
      rt_detachProcessId = 0, rt_detachGeneration = 0, rt_pauseInterruptPending = False,
      rt_ownedPauseException = False, rt_ownedPauseSelectedThreadId = 0,
      rt_trace = TracePolicy_init, rt_traceStop = TraceStopCoordinator_init, rt_processEpoch = 0,
      rt_rawEventSequence = 0, rt_nativePauseEvent = None, rt_pendingTraceThread = None,
      rt_traceAdmissionEvent = 0, rt_traceAdmissionGeneration = 0, rt_traceProcess = None,
      rt_traceInterruptThread = None, rt_traceInterruptAddress = 0,
      rt_tracePauseCallbackInFlight = False, rt_traceSupervisorStopping = False,
      rt_latestPause = no_pause,
      rt_pendingException = \<lparr>px_processId = 0, px_threadId = 0, px_code = 0, px_address = 0,
        px_firstChance = False, px_valid = False\<rparr>,
      rt_eventHistory = [], rt_candidateEvents = [], rt_eventHistoryOffset = 0,
      rt_candidateHistoryOffset = 0, rt_eventSessionEpoch = 0, rt_eventSessionCounter = 0,
      rt_candidateEventSession = None, rt_eventSessionEstablished = False,
      rt_historyComplete = True, rt_candidateHistoryComplete = True, rt_nextEventSequence = 1,
      rt_eventStream = stream_Start nonce, rt_instanceId = []\<rparr>"

record surroundings =
  su_unixMs :: u64
  su_steady :: time_point
  su_enqueueThrows :: bool
  su_pushThrows :: bool
  su_debugging :: bool
  su_processId :: "handle \<Rightarrow> u32"
  su_threadId :: "handle \<Rightarrow> u32"
  su_signalled :: "handle \<Rightarrow> bool"

section \<open>Snapshots and wait predicates\<close>

definition IsReady :: "Runtime \<Rightarrow> bool" where
  "IsReady r \<longleftrightarrow> rt_pluginState r = pl_ready"

definition BeginPausedSnapshot :: "Runtime \<Rightarrow> u64 option" where
  "BeginPausedSnapshot r =
     (if rt_pluginState r \<noteq> pl_ready \<or> rt_debuggeeState r \<noteq> ds_paused then None
      else Some (rt_generation r))"

definition BeginActiveSnapshot :: "Runtime \<Rightarrow> u64 option" where
  "BeginActiveSnapshot r =
     (if rt_pluginState r \<noteq> pl_ready \<or>
         (rt_debuggeeState r \<noteq> ds_paused \<and> rt_debuggeeState r \<noteq> ds_running) then None
      else Some (rt_generation r))"

definition PausedSnapshotCurrent :: "Runtime \<Rightarrow> u64 \<Rightarrow> bool" where
  "PausedSnapshotCurrent r generation \<longleftrightarrow>
     rt_pluginState r = pl_ready \<and> rt_debuggeeState r = ds_paused \<and> rt_generation r = generation"

definition ActiveSnapshotCurrent :: "Runtime \<Rightarrow> u64 \<Rightarrow> bool" where
  "ActiveSnapshotCurrent r generation \<longleftrightarrow>
     rt_pluginState r = pl_ready \<and>
     (rt_debuggeeState r = ds_paused \<or> rt_debuggeeState r = ds_running) \<and>
     rt_generation r = generation"

definition PauseObservationCurrent :: "Runtime \<Rightarrow> u64 \<Rightarrow> u64 \<Rightarrow> bool" where
  "PauseObservationCurrent r generation pauseGeneration \<longleftrightarrow>
     rt_pluginState r = pl_ready \<and> rt_debuggeeState r = ds_paused \<and>
     rt_generation r = generation \<and> rt_pausedGeneration r = pauseGeneration"

fun ObservedGeneration :: "Runtime \<Rightarrow> DebuggeeState \<Rightarrow> u64" where
  "ObservedGeneration r ds_paused = rt_pausedGeneration r"
| "ObservedGeneration r ds_running = rt_runningGeneration r"
| "ObservedGeneration r ds_absent = rt_absentGeneration r"
| "ObservedGeneration r _ = 0"

text \<open>
  The waits: the condition of \<open>wait_until\<close> holds (or the wait timed out) and the test after it is
  made under the same lock, so a wait returns true exactly when this holds where it ends.
\<close>

definition WaitForState :: "Runtime \<Rightarrow> DebuggeeState \<Rightarrow> u64 \<Rightarrow> bool" where
  "WaitForState r expected afterGeneration \<longleftrightarrow>
     rt_pluginState r = pl_ready \<and> ObservedGeneration r expected > afterGeneration"

definition WaitForPauseReason :: "Runtime \<Rightarrow> PauseReasonKind \<Rightarrow> u64 \<Rightarrow> bool" where
  "WaitForPauseReason r reason afterGeneration \<longleftrightarrow>
     rt_pluginState r = pl_ready \<and> rt_pausedGeneration r > afterGeneration \<and>
     po_kind (rt_latestPause r) = reason"

definition WaitForActionableLaunchPause :: "Runtime \<Rightarrow> u64 \<Rightarrow> bool" where
  "WaitForActionableLaunchPause r afterGeneration \<longleftrightarrow>
     rt_pluginState r = pl_ready \<and> rt_pausedGeneration r > afterGeneration \<and>
     po_kind (rt_latestPause r) \<noteq> pk_processCreated"

definition WaitForAttachPause :: "Runtime \<Rightarrow> u32 \<Rightarrow> u64 \<Rightarrow> bool" where
  "WaitForAttachPause r pid afterGeneration \<longleftrightarrow>
     rt_pluginState r = pl_ready \<and> rt_attachGeneration r > afterGeneration \<and>
     rt_attachProcessId r = pid \<and> rt_pausedGeneration r > rt_attachGeneration r \<and>
     rt_debuggeeState r = ds_paused \<and> rt_processId r = pid"

definition WaitForDetach :: "Runtime \<Rightarrow> u32 \<Rightarrow> u64 \<Rightarrow> bool" where
  "WaitForDetach r pid afterGeneration \<longleftrightarrow>
     rt_pluginState r = pl_ready \<and> rt_detachGeneration r > afterGeneration \<and>
     rt_detachProcessId r = pid \<and> rt_absentGeneration r > rt_detachGeneration r \<and>
     rt_debuggeeState r = ds_absent"

definition TracePauseCommittedLocked :: "Runtime \<Rightarrow> bool" where
  "TracePauseCommittedLocked r \<longleftrightarrow>
     rt_debuggeeState r = ds_paused \<and> rt_nativePauseEvent r = Some (rt_rawEventSequence r)"

definition TraceHelperRejectsMutation :: "surroundings \<Rightarrow> Runtime \<Rightarrow> string \<Rightarrow> bool" where
  "TraceHelperRejectsMutation u r method \<longleftrightarrow>
     (rt_tracePauseCallbackInFlight r \<or>
      (case rt_traceInterruptThread r of None \<Rightarrow> False
       | Some h \<Rightarrow> rt_activeThreadId r = su_threadId u h)) \<and>
     \<not> TraceHelperAllowsMutation method"

section \<open>Recording an event\<close>

definition kMaxJsonSafeInteger :: u64 where
  "kMaxJsonSafeInteger = 9007199254740991"

text \<open>\<open>snprintf(buffer, 80, "%s:%llu", instanceId, epoch)\<close>\<close>

definition print_session :: "string \<Rightarrow> string \<Rightarrow> u64 \<Rightarrow> string" where
  "print_session buffer instanceId epoch =
     (let out = take (length buffer - 1) (c_field instanceId @ '':'' @ to_string (unat epoch)) in
      out @ [CHR 0x00] @ drop (length out + 1) buffer)"

text \<open>
  \<open>RecordEventLocked\<close>: the references \<open>complete\<close>, \<open>history\<close> and \<open>offset\<close> select the candidate
  session while there is one; \<open>append_event\<close> is the push with its drop of the oldest event.
\<close>

definition append_event ::
    "bool \<Rightarrow> EventRecord \<Rightarrow> EventRecord list \<times> u64 \<times> bool \<Rightarrow> EventRecord list \<times> u64 \<times> bool" where
  "append_event throws event h =
     (let (history, offset, complete) = h;
          (history, offset, complete) =
            (if length history = kMaxEventHistory then (tl history, offset + 1, False)
             else (history, offset, complete)) in
      if throws then (history, offset, False) else (history @ [event], offset, complete))"

definition RecordEventLocked :: "surroundings \<Rightarrow> EventRecord \<Rightarrow> Runtime \<Rightarrow> Runtime" where
  "RecordEventLocked u event r =
     (if rt_nextEventSequence r > kMaxJsonSafeInteger then
        (if rt_candidateEventSession r \<noteq> None then r\<lparr>rt_candidateHistoryComplete := False\<rparr>
         else r\<lparr>rt_historyComplete := False\<rparr>)
      else
        let epoch = (case rt_candidateEventSession r of None \<Rightarrow> rt_eventSessionEpoch r
                     | Some session \<Rightarrow> session);
            event = event\<lparr>er_sequence := rt_nextEventSequence r,
                          er_sessionId := print_session (er_sessionId event) (rt_instanceId r) epoch,
                          er_timestampUnixMs := su_unixMs u\<rparr>;
            r = r\<lparr>rt_nextEventSequence := rt_nextEventSequence r + 1,
                  rt_eventStream := Enqueue (su_enqueueThrows u) event (rt_eventStream r)\<rparr> in
        if rt_candidateEventSession r \<noteq> None then
          let (history, offset, complete) = append_event (su_pushThrows u) event
                (rt_candidateEvents r, rt_candidateHistoryOffset r, rt_candidateHistoryComplete r) in
          r\<lparr>rt_candidateEvents := history, rt_candidateHistoryOffset := offset,
            rt_candidateHistoryComplete := complete\<rparr>
        else
          let (history, offset, complete) = append_event (su_pushThrows u) event
                (rt_eventHistory r, rt_eventHistoryOffset r, rt_historyComplete r) in
          r\<lparr>rt_eventHistory := history, rt_eventHistoryOffset := offset,
            rt_historyComplete := complete\<rparr>)"

section \<open>JSON of the pause\<close>

fun pause_kind_name :: "PauseReasonKind \<Rightarrow> string" where
  "pause_kind_name pk_processCreated = ''process_created''"
| "pause_kind_name pk_systemBreakpoint = ''system_breakpoint''"
| "pause_kind_name pk_breakpoint = ''breakpoint''"
| "pause_kind_name pk_exception = ''exception''"
| "pause_kind_name pk_step = ''step''"
| "pause_kind_name pk_userPause = ''user_pause''"
| "pause_kind_name pk_unknown = ''unknown''"

definition PauseReasonJson :: "PauseObservation \<Rightarrow> string" where
  "PauseReasonJson p =
     ''{'' @ json_key ''kind'' @ JsonString (pause_kind_name (po_kind p)) @
     (if po_hasAddress p
      then '','' @ json_key ''address'' @ JsonString (HexValue (po_address p)) else []) @
     (if po_kind p = pk_breakpoint
      then '','' @ json_key ''breakpoint_type'' @
        JsonString (breakpoint_type_name (po_breakpointType p)) @
        '','' @ json_key ''hit_count'' @ to_string (unat (po_hitCount p)) else []) @
     (if po_kind p = pk_exception \<and> po_hasExceptionCode p
      then '','' @ json_key ''code'' @ JsonString (HexValue (po_exceptionCode p)) @
        '','' @ json_key ''first_chance'' @ (if po_firstChance p then ''true'' else ''false'')
      else []) @ ''}''"

end
