(* ===== verification/Runtime_Events.thy ===== *)
theory Runtime_Events
  imports Runtime_State
begin

text \<open>
  \<open>Runtime::OnDebuggerEvent\<close> and the other sections of \<open>runtime.cpp\<close> that change the runtime
  state. A callback of the debugger is classified without a lock (\<open>classify\<close>, the \<open>switch\<close>)
  and then committed under \<open>stateMutex_\<close> (\<open>commit\<close>), so the two are separate operations; the raw
  debug events, trace steps and thread creations have sections of their own.

  The value of a callback is the SDK's callback type with the fields of its info structure the
  code reads, \<open>None\<close> for a null pointer in it. \<open>bp_exception\<close> is the SDK's enumerator.
\<close>

datatype callback = CB_INITDEBUG
  | CB_CREATEPROCESS "(u32 \<times> u32) option"
  | CB_SYSTEMBREAKPOINT
  | CB_BREAKPOINT "(u64 \<times> u32 \<times> u32) option"
  | CB_EXCEPTION "(u32 \<times> u64 \<times> u32) option"
  | CB_PAUSEDEBUG
  | CB_STEPPED
  | CB_RESUMEDEBUG
  | CB_ATTACH "u32 option"
  | CB_DETACH "u32 option"
  | CB_STOPPINGDEBUG
  | CB_EXITPROCESS "u32 option"
  | CB_STOPDEBUG

fun is_CREATEPROCESS :: "callback \<Rightarrow> bool" where
  "is_CREATEPROCESS (CB_CREATEPROCESS _) = True"
| "is_CREATEPROCESS _ = False"

fun is_ATTACH :: "callback \<Rightarrow> bool" where
  "is_ATTACH (CB_ATTACH _) = True"
| "is_ATTACH _ = False"

fun is_EXITPROCESS :: "callback \<Rightarrow> bool" where
  "is_EXITPROCESS (CB_EXITPROCESS _) = True"
| "is_EXITPROCESS _ = False"

text \<open>The callbacks that refine a pause: stepped, breakpoint, exception, system breakpoint.\<close>

fun refines_pause :: "callback \<Rightarrow> bool" where
  "refines_pause CB_STEPPED = True"
| "refines_pause (CB_BREAKPOINT _) = True"
| "refines_pause (CB_EXCEPTION _) = True"
| "refines_pause CB_SYSTEMBREAKPOINT = True"
| "refines_pause _ = False"

section \<open>Classification\<close>

text \<open>The local variables that the \<open>switch\<close> fills.\<close>

record classified =
  cl_next :: DebuggeeState
  cl_pause :: PauseObservation
  cl_processId :: "u32 option"
  cl_threadId :: "u32 option"
  cl_clearProcess :: bool
  cl_hasPauseReason :: bool
  cl_refineCurrentPause :: bool
  cl_resetOrigin :: bool
  cl_markLaunched :: bool
  cl_markAttached :: bool
  cl_markDetaching :: bool
  cl_exceptionBreakpointCallback :: bool
  cl_clearPendingException :: bool
  cl_event :: EventRecord

definition unclassified :: "DebuggeeState \<Rightarrow> classified" where
  "unclassified next =
     \<lparr>cl_next = next, cl_pause = no_pause, cl_processId = None, cl_threadId = None,
      cl_clearProcess = False, cl_hasPauseReason = False, cl_refineCurrentPause = False,
      cl_resetOrigin = False, cl_markLaunched = False, cl_markAttached = False,
      cl_markDetaching = False, cl_exceptionBreakpointCallback = False,
      cl_clearPendingException = False, cl_event = empty_event\<rparr>"

text \<open>A callback that pauses the debuggee: the event and the pause reason.\<close>

definition pausing :: "EventKind \<Rightarrow> PauseReasonKind \<Rightarrow> classified" where
  "pausing kind reason =
     (unclassified ds_paused)
       \<lparr>cl_pause := no_pause\<lparr>po_kind := reason\<rparr>, cl_hasPauseReason := True,
        cl_event := empty_event\<lparr>er_kind := kind\<rparr>\<rparr>"

definition moving :: "EventKind \<Rightarrow> DebuggeeState \<Rightarrow> classified" where
  "moving kind next = (unclassified next)\<lparr>cl_event := empty_event\<lparr>er_kind := kind\<rparr>\<rparr>"

definition EXCEPTION_BREAKPOINT :: u64 where
  "EXCEPTION_BREAKPOINT = 0x80000003"

definition classify_breakpoint :: "u32 \<Rightarrow> (u64 \<times> u32 \<times> u32) option \<Rightarrow> classified" where
  "classify_breakpoint bp_exception info =
     (let c = (pausing ev_breakpoint pk_breakpoint)\<lparr>cl_refineCurrentPause := True\<rparr> in
      case info of
        None \<Rightarrow> c
      | Some (address, type, hits) \<Rightarrow>
          c\<lparr>cl_pause := (cl_pause c)\<lparr>po_address := address, po_hasAddress := True,
                po_breakpointType := ucast type, po_hitCount := hits\<rparr>,
            cl_event := (cl_event c)\<lparr>er_address := address, er_hasAddress := True,
                er_breakpointType := ucast type, er_auxiliary := hits\<rparr>,
            cl_exceptionBreakpointCallback := (type = bp_exception)\<rparr>)"

definition classify_exception ::
    "(u32 \<times> u64 \<times> u32) option \<Rightarrow> Runtime \<Rightarrow> classified \<times> Runtime" where
  "classify_exception info r =
     (let c = (pausing ev_exception pk_exception)\<lparr>cl_refineCurrentPause := True\<rparr>;
          c = (case info of
                 None \<Rightarrow> c
               | Some (code, address, chance) \<Rightarrow>
                   c\<lparr>cl_pause := (cl_pause c)\<lparr>po_exceptionCode := ucast code,
                        po_hasExceptionCode := True, po_address := address, po_hasAddress := True,
                        po_firstChance := (chance \<noteq> 0)\<rparr>,
                     cl_event := (cl_event c)\<lparr>er_code := ucast code, er_address := address,
                        er_hasCode := True, er_hasAddress := True,
                        er_firstChance := (chance \<noteq> 0)\<rparr>\<rparr>);
          (c, r) =
            (if (rt_pauseInterruptPending r \<or> rt_ownedPauseException r) \<and>
                po_hasExceptionCode (cl_pause c) \<and>
                po_exceptionCode (cl_pause c) = EXCEPTION_BREAKPOINT
             then
               (c\<lparr>cl_pause := (cl_pause c)\<lparr>po_kind := pk_userPause, po_hasAddress := False,
                      po_hasExceptionCode := False, po_firstChance := False\<rparr>,
                  cl_event := (cl_event c)\<lparr>er_kind := ev_paused, er_hasAddress := False,
                      er_hasCode := False, er_firstChance := False\<rparr>\<rparr>,
                r\<lparr>rt_pauseInterruptPending := False, rt_ownedPauseException := True\<rparr>)
             else (c, r)) in
      (c\<lparr>cl_clearPendingException := True\<rparr>, r))"

fun classify :: "u32 \<Rightarrow> callback \<Rightarrow> Runtime \<Rightarrow> classified \<times> Runtime" where
  "classify bpx CB_INITDEBUG r = ((moving ev_debugInitialized ds_starting)\<lparr>cl_resetOrigin := True\<rparr>, r)"
| "classify bpx (CB_CREATEPROCESS info) r =
     (let c = (pausing ev_processCreated pk_processCreated)\<lparr>cl_markLaunched := True\<rparr> in
      (case info of
         None \<Rightarrow> c
       | Some (pid, tid) \<Rightarrow>
           c\<lparr>cl_processId := Some pid, cl_threadId := Some tid,
             cl_event := (cl_event c)\<lparr>er_processId := pid, er_threadId := tid,
                er_hasProcessId := True, er_hasThreadId := True\<rparr>\<rparr>, r))"
| "classify bpx CB_SYSTEMBREAKPOINT r =
     ((pausing ev_systemBreakpoint pk_systemBreakpoint)\<lparr>cl_refineCurrentPause := True\<rparr>, r)"
| "classify bpx (CB_BREAKPOINT info) r = (classify_breakpoint bpx info, r)"
| "classify bpx (CB_EXCEPTION info) r = classify_exception info r"
| "classify bpx CB_PAUSEDEBUG r =
     (pausing ev_paused pk_userPause,
      if rt_pauseInterruptPending r
      then r\<lparr>rt_pauseInterruptPending := False, rt_ownedPauseException := True\<rparr> else r)"
| "classify bpx CB_STEPPED r = (pausing ev_stepped pk_step, r)"
| "classify bpx CB_RESUMEDEBUG r =
     ((moving ev_resumed ds_running)\<lparr>cl_clearPendingException := True\<rparr>, r)"
| "classify bpx (CB_ATTACH info) r =
     ((moving ev_attached ds_starting)\<lparr>cl_markAttached := True,
        cl_processId := (if info = Some 0 then None else info)\<rparr>, r)"
| "classify bpx (CB_DETACH info) r =
     ((moving ev_detached ds_stopping)\<lparr>cl_markDetaching := True, cl_processId := info\<rparr>, r)"
| "classify bpx CB_STOPPINGDEBUG r = (moving ev_stopping ds_stopping, r)"
| "classify bpx (CB_EXITPROCESS info) r =
     (let c = moving ev_processExited ds_exited in
      (case info of None \<Rightarrow> c
       | Some code \<Rightarrow> c\<lparr>cl_event := (cl_event c)\<lparr>er_auxiliary := code\<rparr>\<rparr>, r))"
| "classify bpx CB_STOPDEBUG r =
     ((moving ev_debugStopped ds_absent)\<lparr>cl_clearProcess := True, cl_resetOrigin := True\<rparr>, r)"

section \<open>Sections of the commit\<close>

text \<open>The event sessions: a candidate session until \<open>CB_CREATEPROCESS\<close> establishes it.\<close>

definition open_candidate :: "callback \<Rightarrow> Runtime \<Rightarrow> Runtime" where
  "open_candidate cb r =
     (if cb = CB_INITDEBUG \<or> (is_ATTACH cb \<and> rt_candidateEventSession r = None)
      then r\<lparr>rt_candidateEvents := [], rt_candidateHistoryOffset := 0,
             rt_candidateHistoryComplete := True,
             rt_eventSessionCounter := rt_eventSessionCounter r + 1,
             rt_candidateEventSession := Some (rt_eventSessionCounter r + 1),
             rt_eventSessionEstablished := False\<rparr>
      else r)"

definition establish_session :: "callback \<Rightarrow> Runtime \<Rightarrow> Runtime" where
  "establish_session cb r =
     (if is_CREATEPROCESS cb \<and> \<not> rt_eventSessionEstablished r
      then r\<lparr>rt_eventSessionCounter := rt_eventSessionCounter r + 1,
             rt_eventSessionEpoch :=
               (case rt_candidateEventSession r of
                  None \<Rightarrow> rt_eventSessionCounter r + 1 | Some session \<Rightarrow> session),
             rt_eventHistory := rt_candidateEvents r,
             rt_eventHistoryOffset := rt_candidateHistoryOffset r,
             rt_candidateEvents := [], rt_candidateHistoryOffset := 0,
             rt_historyComplete := rt_candidateHistoryComplete r,
             rt_candidateEventSession := None, rt_eventSessionEstablished := True\<rparr>
      else r)"

definition trace_rejects :: "callback \<Rightarrow> Runtime \<Rightarrow> bool" where
  "trace_rejects cb r \<longleftrightarrow>
     (cb = CB_RESUMEDEBUG \<and> Active (rt_trace r) \<and> LateResume (rt_traceStop r)) \<or>
     (Active (rt_trace r) \<and> rt_rawEventSequence r \<le> rt_traceAdmissionEvent r \<and> refines_pause cb)"

definition reset_ownership :: "callback \<Rightarrow> classified \<Rightarrow> Runtime \<Rightarrow> Runtime" where
  "reset_ownership cb c r =
     (let r = (if cb = CB_RESUMEDEBUG
               then r\<lparr>rt_ownedPauseException := False, rt_ownedPauseSelectedThreadId := 0\<rparr> else r) in
      if cl_next c \<noteq> ds_paused \<or> cl_markAttached c \<or> cl_markLaunched c
      then r\<lparr>rt_nativePauseEvent := None\<rparr> else r)"

definition correlate_exception :: "classified \<Rightarrow> Runtime \<Rightarrow> classified \<times> Runtime" where
  "correlate_exception c r =
     (let x = rt_pendingException r; p = cl_pause c in
      if cl_exceptionBreakpointCallback c \<and> px_valid x \<and> po_hasAddress p \<and>
         ucast (px_code x) = po_address p \<and>
         (px_processId x = 0 \<or> px_processId x = rt_processId r) \<and>
         (px_threadId x = 0 \<or> px_threadId x = rt_activeThreadId r)
      then
        (c\<lparr>cl_pause := p\<lparr>po_kind := pk_exception, po_exceptionCode := ucast (px_code x),
               po_hasExceptionCode := True, po_address := px_address x,
               po_hasAddress := (px_address x \<noteq> 0), po_firstChance := px_firstChance x\<rparr>,
           cl_event := (cl_event c)\<lparr>er_kind := ev_exception, er_code := ucast (px_code x),
               er_hasCode := True, er_address := px_address x,
               er_hasAddress := (px_address x \<noteq> 0), er_firstChance := px_firstChance x\<rparr>\<rparr>,
         r\<lparr>rt_pendingException := x\<lparr>px_valid := False\<rparr>\<rparr>)
      else if cl_clearPendingException c
      then (c, r\<lparr>rt_pendingException := x\<lparr>px_valid := False\<rparr>\<rparr>)
      else (c, r))"

definition commit_origin :: "classified \<Rightarrow> Runtime \<Rightarrow> Runtime" where
  "commit_origin c r =
     (let r = (if cl_resetOrigin c then r\<lparr>rt_sessionOrigin := so_none\<rparr> else r);
          r = (if cl_markAttached c then r\<lparr>rt_sessionOrigin := so_attached\<rparr> else r);
          r = (if cl_markAttached c \<or> cl_markLaunched c
               then r\<lparr>rt_processEpoch := rt_processEpoch r + 1\<rparr> else r) in
      if cl_markLaunched c \<and> rt_sessionOrigin r \<noteq> so_attached
      then r\<lparr>rt_sessionOrigin := so_launched\<rparr> else r)"

definition event_ids :: "Runtime \<Rightarrow> EventRecord \<Rightarrow> EventRecord" where
  "event_ids r e =
     e\<lparr>er_processId := rt_processId r, er_threadId := rt_activeThreadId r,
       er_hasProcessId := (rt_processId r \<noteq> 0), er_hasThreadId := (rt_activeThreadId r \<noteq> 0)\<rparr>"

definition commit_process :: "classified \<Rightarrow> Runtime \<Rightarrow> classified \<times> Runtime" where
  "commit_process c r =
     (let (c, r) =
        (if cl_clearProcess c
         then (c\<lparr>cl_event := event_ids r (cl_event c)\<rparr>,
               r\<lparr>rt_processId := 0, rt_activeThreadId := 0\<rparr>)
         else
           let r = (case cl_processId c of None \<Rightarrow> r | Some pid \<Rightarrow> r\<lparr>rt_processId := pid\<rparr>);
               r = (case cl_threadId c of None \<Rightarrow> r | Some tid \<Rightarrow> r\<lparr>rt_activeThreadId := tid\<rparr>) in
           (c\<lparr>cl_event := event_ids r (cl_event c)\<rparr>, r));
        c = (if cl_next c = ds_paused \<and> rt_activeThreadId r \<noteq> 0
             then c\<lparr>cl_pause := (cl_pause c)\<lparr>po_threadId := rt_activeThreadId r,
                                              po_hasThreadId := True\<rparr>\<rparr>
             else c);
        r = (if cl_clearProcess c
             then r\<lparr>rt_pauseInterruptPending := False, rt_ownedPauseException := False,
                    rt_ownedPauseSelectedThreadId := 0\<rparr>
             else r) in
      (c, r))"

text \<open>\<open>CommitTraceEventLocked\<close>; \<open>set_trace\<close> stores the two members a method of the trace returns.\<close>

definition set_trace :: "Runtime \<Rightarrow> TracePolicy \<times> TraceStopCoordinator \<Rightarrow> Runtime" where
  "set_trace r s = r\<lparr>rt_trace := fst s, rt_traceStop := snd s\<rparr>"

definition trace_of :: "Runtime \<Rightarrow> TracePolicy \<times> TraceStopCoordinator" where
  "trace_of r = (rt_trace r, rt_traceStop r)"

definition pause_fallback :: "PauseReasonKind \<Rightarrow> TraceReason" where
  "pause_fallback kind =
     (if kind = pk_breakpoint then rs_breakpoint
      else if kind = pk_exception then rs_exception else rs_userPause)"

definition exit_observed :: "surroundings \<Rightarrow> callback \<Rightarrow> Runtime \<Rightarrow> bool" where
  "exit_observed u cb r \<longleftrightarrow>
     (is_EXITPROCESS cb \<and> tk_process (ts_ticket (rt_traceStop r)) = rt_processEpoch r \<and>
      (case rt_traceProcess r of None \<Rightarrow> True | Some h \<Rightarrow> su_processId u h = rt_processId r)) \<or>
     (cb = CB_STOPDEBUG \<and>
      ((\<not> Unresolved (rt_traceStop r) \<and> \<not> ts_interruptInFlight (rt_traceStop r)) \<or>
       (case rt_traceProcess r of None \<Rightarrow> False | Some h \<Rightarrow> su_signalled u h)))"

definition CommitTraceEventLocked :: "surroundings \<Rightarrow> callback \<Rightarrow> Runtime \<Rightarrow> Runtime" where
  "CommitTraceEventLocked u cb r =
     (let r = (if cb = CB_PAUSEDEBUG
               then r\<lparr>rt_nativePauseEvent := Some (rt_rawEventSequence r)\<rparr> else r);
          r = (if cb = CB_RESUMEDEBUG \<and> Active (rt_trace r)
               then r\<lparr>rt_traceStop := Resumed (rt_traceStop r)\<rparr> else r);
          r = (if cb = CB_PAUSEDEBUG \<and> Active (rt_trace r)
               then set_trace r
                 (PauseCommitted (trace_of r) (pause_fallback (po_kind (rt_latestPause r))))
               else r) in
      if exit_observed u cb r then set_trace r (ProcessExited (trace_of r)) else r)"

text \<open>A pause that refines the one already observed.\<close>

definition refine_pause :: "surroundings \<Rightarrow> classified \<Rightarrow> Runtime \<Rightarrow> Runtime" where
  "refine_pause u c r =
     (let observed = rt_generation r + 1;
          r = r\<lparr>rt_generation := observed, rt_pausedGeneration := observed,
                rt_latestPause := (cl_pause c)\<lparr>po_generation := observed\<rparr>\<rparr> in
      RecordEventLocked u ((cl_event c)\<lparr>er_generation := observed\<rparr>) r)"

definition commit_state :: "surroundings \<Rightarrow> callback \<Rightarrow> classified \<Rightarrow> Runtime \<Rightarrow> Runtime" where
  "commit_state u cb c r =
     (let observed = rt_generation r + 1;
          r = r\<lparr>rt_debuggeeState := cl_next c, rt_generation := observed\<rparr>;
          r = (if cl_markAttached c
               then r\<lparr>rt_attachProcessId := (case cl_processId c of None \<Rightarrow> 0 | Some pid \<Rightarrow> pid),
                      rt_attachGeneration := observed\<rparr> else r);
          r = (if cl_markDetaching c
               then r\<lparr>rt_detachProcessId :=
                        (case cl_processId c of None \<Rightarrow> rt_processId r | Some pid \<Rightarrow> pid),
                      rt_detachGeneration := observed\<rparr> else r);
          r = (case cl_next c of
                 ds_paused \<Rightarrow>
                   let pause = (cl_pause c)\<lparr>po_generation := observed\<rparr>;
                       pause = (if cl_hasPauseReason c then pause
                                else pause\<lparr>po_kind := pk_unknown\<rparr>) in
                   r\<lparr>rt_pausedGeneration := observed, rt_latestPause := pause\<rparr>
               | ds_running \<Rightarrow> r\<lparr>rt_runningGeneration := observed\<rparr>
               | ds_absent \<Rightarrow> r\<lparr>rt_absentGeneration := observed\<rparr>
               | _ \<Rightarrow> r);
          r = RecordEventLocked u ((cl_event c)\<lparr>er_generation := observed\<rparr>) r;
          r = (if cl_clearProcess c
               then r\<lparr>rt_candidateEvents := [], rt_candidateHistoryOffset := 0,
                      rt_candidateEventSession := None, rt_eventSessionEstablished := False\<rparr>
               else r) in
      CommitTraceEventLocked u cb r)"

text \<open>Everything \<open>OnDebuggerEvent\<close> does under \<open>stateMutex_\<close> after the \<open>switch\<close>.\<close>

definition commit_pause_or_state :: "surroundings \<Rightarrow> callback \<Rightarrow> classified \<Rightarrow> Runtime \<Rightarrow> Runtime" where
  "commit_pause_or_state u cb c r =
     (let newTracePause = (cb = CB_PAUSEDEBUG \<and> Active (rt_trace r) \<and>
            po_generation (rt_latestPause r) \<le> rt_traceAdmissionGeneration r) in
      if cl_next c = ds_paused \<and> rt_debuggeeState r = ds_paused \<and> \<not> newTracePause then
        if cb = CB_PAUSEDEBUG \<or>
           (po_kind (cl_pause c) = pk_userPause \<and> po_kind (rt_latestPause r) = pk_userPause)
        then CommitTraceEventLocked u cb r
        else if cl_refineCurrentPause c \<or>
                (cb = CB_STEPPED \<and> po_kind (rt_latestPause r) = pk_userPause)
        then refine_pause u c r
        else commit_state u cb c r
      else commit_state u cb c r)"

definition commit :: "surroundings \<Rightarrow> callback \<Rightarrow> classified \<Rightarrow> Runtime \<Rightarrow> Runtime" where
  "commit u cb c r =
     (let r = establish_session cb (open_candidate cb r) in
      if trace_rejects cb r then r
      else
        let r = reset_ownership cb c r;
            (c, r) = correlate_exception c r;
            r = commit_origin c r;
            (c, r) = commit_process c r in
        commit_pause_or_state u cb c r)"

definition OnDebuggerEvent :: "surroundings \<Rightarrow> u32 \<Rightarrow> callback \<Rightarrow> Runtime \<Rightarrow> Runtime" where
  "OnDebuggerEvent u bpx cb r = (let (c, r) = classify bpx cb r in commit u cb c r)"

section \<open>Raw debug events\<close>

datatype debug_event_info = EXCEPTION_DEBUG_EVENT u32 u64 u32
  | CREATE_THREAD_DEBUG_EVENT u64
  | EXIT_THREAD_DEBUG_EVENT u32
  | LOAD_DLL_DEBUG_EVENT u64
  | UNLOAD_DLL_DEBUG_EVENT u64
  | OUTPUT_DEBUG_STRING_EVENT u64 u16 u16
  | RIP_EVENT u32 u32
  | other_DEBUG_EVENT

record debug_event =
  de_processId :: u32
  de_threadId :: u32
  de_info :: debug_event_info

definition at_address :: "EventKind \<Rightarrow> u64 \<Rightarrow> EventRecord \<Rightarrow> EventRecord" where
  "at_address kind a e = e\<lparr>er_kind := kind, er_address := a, er_hasAddress := (a \<noteq> 0)\<rparr>"

definition debug_event_commit :: "surroundings \<Rightarrow> debug_event \<Rightarrow> Runtime \<Rightarrow> Runtime" where
  "debug_event_commit u e r =
     (let observed = rt_generation r + 1;
          r = r\<lparr>rt_rawEventSequence := rt_rawEventSequence r + 1, rt_nativePauseEvent := None,
                rt_pendingTraceThread := None, rt_processId := de_processId e,
                rt_activeThreadId := de_threadId e, rt_generation := observed\<rparr>;
          generic = empty_event\<lparr>er_generation := observed, er_processId := de_processId e,
                er_threadId := de_threadId e, er_hasProcessId := True, er_hasThreadId := True\<rparr> in
      case de_info e of
        EXCEPTION_DEBUG_EVENT code a chance \<Rightarrow>
          r\<lparr>rt_pendingException := \<lparr>px_processId = de_processId e, px_threadId = de_threadId e,
              px_code = code, px_address = a, px_firstChance = (chance \<noteq> 0), px_valid = True\<rparr>\<rparr>
      | CREATE_THREAD_DEBUG_EVENT a \<Rightarrow>
          let generic = at_address ev_threadCreated a generic in
          RecordEventLocked u generic (r\<lparr>rt_pendingTraceThread := Some generic\<rparr>)
      | EXIT_THREAD_DEBUG_EVENT code \<Rightarrow>
          RecordEventLocked u (generic\<lparr>er_kind := ev_threadExited, er_auxiliary := code\<rparr>) r
      | LOAD_DLL_DEBUG_EVENT a \<Rightarrow> RecordEventLocked u (at_address ev_dllLoaded a generic) r
      | UNLOAD_DLL_DEBUG_EVENT a \<Rightarrow> RecordEventLocked u (at_address ev_dllUnloaded a generic) r
      | OUTPUT_DEBUG_STRING_EVENT a len unicode \<Rightarrow>
          RecordEventLocked u ((at_address ev_debugString a generic)
            \<lparr>er_auxiliary := ucast len, er_firstChance := (unicode \<noteq> 0)\<rparr>) r
      | RIP_EVENT error type \<Rightarrow>
          RecordEventLocked u (generic\<lparr>er_kind := ev_rip, er_auxiliary := error,
            er_code := ucast type, er_hasCode := True\<rparr>) r
      | other_DEBUG_EVENT \<Rightarrow> r)"

section \<open>Trace callbacks\<close>

text \<open>\<open>CB_TRACEEXECUTE\<close>: the answer is the new value of \<open>info->stop\<close>.\<close>

definition trace_execute :: "surroundings \<Rightarrow> u64 \<Rightarrow> bool \<Rightarrow> Runtime \<Rightarrow> bool \<times> Runtime" where
  "trace_execute u cip stop r =
     (if Active (rt_trace r) \<and> tk_process (ts_ticket (rt_traceStop r)) = rt_processEpoch r
      then let (stop, s) = Step (trace_of r) cip stop (su_steady u) in (stop, set_trace r s)
      else (stop, r))"

text \<open>
  \<open>CB_CREATETHREAD\<close>. The first section compares the raw event; then, under \<open>traceMutex_\<close>, the
  callback may have to wait for the supervisor to publish the helper's handle
  (\<open>create_thread_waits\<close>), after which it gives the issue up (the wait timed out or ended without a
  handle) or consumes it, and asks the debugger to pause (\<open>True\<close>).
\<close>

definition create_thread_raw :: "u32 \<Rightarrow> u64 \<Rightarrow> Runtime \<Rightarrow> EventRecord option" where
  "create_thread_raw tid entry r = do {
     raw \<leftarrow> rt_pendingTraceThread r;
     require (er_threadId raw = tid \<and> er_address raw = entry);
     Some raw
   }"

definition create_thread_waits :: "u64 \<Rightarrow> Runtime \<Rightarrow> bool" where
  "create_thread_waits entry r \<longleftrightarrow>
     Active (rt_trace r) \<and> ts_interruptInFlight (rt_traceStop r) \<and>
     rt_traceInterruptThread r = None \<and> entry = rt_traceInterruptAddress r"

definition create_thread_abandon :: "Ticket \<Rightarrow> Runtime \<Rightarrow> Runtime" where
  "create_thread_abandon ticket r = r\<lparr>rt_traceStop := AbandonIssue (rt_traceStop r) ticket\<rparr>"

definition create_thread_consume :: "EventRecord \<Rightarrow> u32 \<Rightarrow> u64 \<Rightarrow> Runtime \<Rightarrow> bool \<times> Runtime" where
  "create_thread_consume raw tid entry r =
     (if \<not> Active (rt_trace r) then (False, r)
      else
        let (consumed, c) = ThreadCreated (rt_traceStop r) (rt_processEpoch r) (er_processId raw) tid
              (er_kind raw = ev_threadCreated) entry in
        if \<not> consumed then (False, r\<lparr>rt_traceStop := c\<rparr>)
        else (True, r\<lparr>rt_traceStop := c, rt_tracePauseCallbackInFlight := True\<rparr>))"

definition create_thread_done :: "Runtime \<Rightarrow> Runtime" where
  "create_thread_done r = r\<lparr>rt_tracePauseCallbackInFlight := False\<rparr>"

section \<open>Process exit and liveness\<close>

definition ReconcileTraceProcessExit :: "surroundings \<Rightarrow> Runtime \<Rightarrow> Runtime" where
  "ReconcileTraceProcessExit u r =
     (case rt_traceProcess r of
        None \<Rightarrow> r
      | Some h \<Rightarrow>
          if \<not> su_signalled u h then r
          else
            let r = (if tk_process (ts_ticket (rt_traceStop r)) = rt_processEpoch r \<and>
                        rt_processId r = su_processId u h
                     then r\<lparr>rt_debuggeeState := ds_exited, rt_processId := 0, rt_activeThreadId := 0,
                            rt_nativePauseEvent := None, rt_latestPause := no_pause,
                            rt_generation := rt_generation r + 1\<rparr>
                     else r);
                r = set_trace r (ProcessExited (trace_of r)) in
            if \<not> ts_interruptInFlight (rt_traceStop r) \<and> \<not> rt_tracePauseCallbackInFlight r
            then r\<lparr>rt_traceInterruptThread := None, rt_traceProcess := None,
                   rt_traceInterruptAddress := 0\<rparr>
            else r)"

definition CanUnload :: "surroundings \<Rightarrow> Runtime \<Rightarrow> bool \<times> Runtime" where
  "CanUnload u r =
     (let r = ReconcileTraceProcessExit u r in
      (\<not> Active (rt_trace r) \<and> \<not> Unresolved (rt_traceStop r) \<and>
       \<not> ts_interruptInFlight (rt_traceStop r) \<and> \<not> rt_tracePauseCallbackInFlight r \<and>
       (case rt_traceInterruptThread r of None \<Rightarrow> True | Some h \<Rightarrow> su_signalled u h), r))"

text \<open>
  \<open>ReconcileDebuggerLiveness\<close> under the lock: \<open>earlier\<close> and \<open>observed\<close> are the generation and the
  state it read before, when the debugger was found not to be debugging.
\<close>

definition ReconcileDebuggerLiveness :: "surroundings \<Rightarrow> u64 \<Rightarrow> DebuggeeState \<Rightarrow> Runtime \<Rightarrow> Runtime" where
  "ReconcileDebuggerLiveness u earlier observed r =
     (if observed = ds_starting \<or> su_debugging u then r
      else if rt_generation r \<noteq> earlier then r
      else if observed = ds_absent then CommitTraceEventLocked u CB_STOPDEBUG r
      else
        let r = r\<lparr>rt_debuggeeState := ds_absent, rt_sessionOrigin := so_none, rt_processId := 0,
                  rt_activeThreadId := 0, rt_pauseInterruptPending := False,
                  rt_ownedPauseException := False, rt_nativePauseEvent := None,
                  rt_ownedPauseSelectedThreadId := 0, rt_latestPause := no_pause,
                  rt_generation := rt_generation r + 1\<rparr>;
            r = r\<lparr>rt_absentGeneration := rt_generation r\<rparr> in
        CommitTraceEventLocked u CB_STOPDEBUG r)"

end
