(* ===== verification/Runtime_Responses.thy ===== *)
theory Runtime_Responses
  imports Runtime_Events Request Debugger_Executor
begin

text \<open>
  The tools of \<open>runtime.cpp\<close> that answer from the runtime state alone: the events, the trace, the
  pause and the state of the debuggee, and the error answers they share. A tool that fails gives \<open>Inl\<close> of the error of \<open>ErrorResponse\<close>, one
  that succeeds the value its JSON text is printed from.
\<close>

section \<open>Errors\<close>

record tool_error =
  te_code :: string
  te_message :: string
  te_retryable :: bool
  te_unknown :: bool
  te_details :: "string option"

definition failure :: "string \<Rightarrow> string \<Rightarrow> bool \<Rightarrow> bool \<Rightarrow> tool_error + 'a" where
  "failure code message retryable unknown =
     Inl \<lparr>te_code = code, te_message = message, te_retryable = retryable, te_unknown = unknown,
       te_details = None\<rparr>"

definition json_bool :: "bool \<Rightarrow> string" where
  "json_bool b = (if b then ''true'' else ''false'')"

text \<open>\<open>te_details\<close> is the text of an error that is sent with details of its own.\<close>

definition ErrorResponseWithDetails ::
    "string \<Rightarrow> string \<Rightarrow> string \<Rightarrow> bool \<Rightarrow> string \<Rightarrow> string" where
  "ErrorResponseWithDetails requestId code message retryable details =
     ''{'' @ json_key ''request_id'' @ JsonString requestId @
     '','' @ json_key ''state_generation'' @ ''0,'' @ json_key ''status'' @ JsonString ''error'' @
     '','' @ json_key ''error'' @ ''{'' @ json_key ''code'' @ JsonString code @
     '','' @ json_key ''message'' @ JsonString message @
     '','' @ json_key ''retryable'' @ json_bool retryable @
     '','' @ json_key ''details'' @ details @ ''}}''"

definition ErrorResponseForId :: "string \<Rightarrow> tool_error \<Rightarrow> string" where
  "ErrorResponseForId requestId e =
     ErrorResponseWithDetails requestId (te_code e) (te_message e) (te_retryable e)
       (case te_details e of
          Some details \<Rightarrow> details
        | None \<Rightarrow> if te_unknown e then ''{'' @ json_key ''outcome'' @ JsonString ''unknown'' @ ''}'' else ''{}'')"

definition ErrorResponse :: "('w :: len) word Request \<Rightarrow> tool_error \<Rightarrow> string" where
  "ErrorResponse q e = ErrorResponseForId (rq_requestId q) e"

definition ok_response :: "string \<Rightarrow> u64 \<Rightarrow> string \<Rightarrow> string" where
  "ok_response requestId generation result =
     ''{'' @ json_key ''request_id'' @ JsonString requestId @
     '','' @ json_key ''state_generation'' @ to_string (unat generation) @
     '','' @ json_key ''status'' @ JsonString ''ok'' @ '','' @ json_key ''result'' @ result @ ''}''"

definition json_array :: "string list \<Rightarrow> string" where
  "json_array items = ''['' @ concat (map (\<lambda>i. (if i = 0 then [] else '','') @ items ! i)
     [0..<length items]) @ '']''"

text \<open>The answer to the result of the executor.\<close>

fun execution_error :: "('w :: len) word Request \<Rightarrow> ExecutionStatus \<Rightarrow> tool_error + unit" where
  "execution_error q ex_completed = Inr ()"
| "execution_error q ex_busy = failure ''BUSY'' ''debugger queue is full'' True False"
| "execution_error q ex_timedOutQueued =
     failure ''TIMEOUT'' ''operation expired in queue'' (\<not> rq_mutation q) False"
| "execution_error q ex_timedOutStarted =
     failure ''TIMEOUT'' ''started operation exceeded deadline'' (\<not> rq_mutation q) (rq_mutation q)"
| "execution_error q ex_stopped = failure ''CANCELLED'' ''plugin is draining'' True False"

definition execution_response :: "('w :: len) word Request \<Rightarrow> ExecutionStatus \<Rightarrow> string \<Rightarrow> string" where
  "execution_response q status v =
     (case execution_error q status of Inl e \<Rightarrow> ErrorResponse q e | Inr _ \<Rightarrow> v)"

text \<open>The rejections before a mutation runs: by the helper thread of a trace and by a trace.\<close>

definition helper_rejection :: "surroundings \<Rightarrow> Runtime \<Rightarrow> ('w :: len) word Request \<Rightarrow> tool_error + unit" where
  "helper_rejection u r q =
     (if rq_mutation q \<and> TraceHelperRejectsMutation u r (rq_method q)
      then failure ''INVALID_DEBUGGER_STATE''
        ''trace helper pause permits only memory.write, trace.cancel, debugger.resume/stop and profile configuration; prearm breakpoints before trace.start or reach an application pause''
        False False
      else Inr ())"

definition changes_run_state :: "('w :: len) word Request \<Rightarrow> bool" where
  "changes_run_state q \<longleftrightarrow>
     rq_mutation q \<and> rq_method q \<noteq> ''trace.cancel'' \<and> rq_method q \<noteq> ''debugger.stop'' \<and>
     (starts_with (rq_method q) ''debugger.'' \<or> starts_with (rq_method q) ''debuggee.'' \<or>
      rq_method q = ''trace.start'')"

definition trace_rejection :: "Runtime \<Rightarrow> ('w :: len) word Request \<Rightarrow> tool_error + unit" where
  "trace_rejection r q =
     (if \<not> changes_run_state q then Inr ()
      else if Unresolved (rt_traceStop r) \<or> ts_interruptInFlight (rt_traceStop r)
      then failure ''OUTCOME_UNKNOWN''
        ''trace stop ownership is not yet resolved; stop or process exit can recover'' False True
      else if Active (rt_trace r)
      then failure ''BUSY'' ''a trace is active; cancel it before changing run state'' True False
      else Inr ())"

section \<open>Events\<close>

record event_page =
  ep_session :: string
  ep_latest :: u64
  ep_complete :: bool
  ep_next :: "string option"
  ep_items :: "EventRecord list"

fun event_kind_code :: "EventKind \<Rightarrow> nat" where
  "event_kind_code ev_debugInitialized = 0"
| "event_kind_code ev_processCreated = 1"
| "event_kind_code ev_systemBreakpoint = 2"
| "event_kind_code ev_breakpoint = 3"
| "event_kind_code ev_exception = 4"
| "event_kind_code ev_paused = 5"
| "event_kind_code ev_stepped = 6"
| "event_kind_code ev_resumed = 7"
| "event_kind_code ev_attached = 8"
| "event_kind_code ev_detached = 9"
| "event_kind_code ev_stopping = 10"
| "event_kind_code ev_processExited = 11"
| "event_kind_code ev_debugStopped = 12"
| "event_kind_code ev_threadCreated = 13"
| "event_kind_code ev_threadExited = 14"
| "event_kind_code ev_dllLoaded = 15"
| "event_kind_code ev_dllUnloaded = 16"
| "event_kind_code ev_debugString = 17"
| "event_kind_code ev_rip = 18"

definition event_filter :: "EventKind list \<Rightarrow> u32" where
  "event_filter kinds =
     (let filter_bits = foldl (\<lambda>f k. f OR push_bit (event_kind_code k) 1) 0 kinds in
      if filter_bits = 0 then push_bit 19 1 - 1 else filter_bits)"

definition in_filter :: "u32 \<Rightarrow> EventRecord \<Rightarrow> bool" where
  "in_filter f e \<longleftrightarrow> f AND push_bit (event_kind_code (er_kind e)) 1 \<noteq> 0"

definition session_name :: "Runtime \<Rightarrow> string" where
  "session_name r = rt_instanceId r @ '':'' @ to_string (unat (rt_eventSessionEpoch r))"

definition event_prefix :: "Runtime \<Rightarrow> u32 \<Rightarrow> string" where
  "event_prefix r f = ''ev1:'' @ session_name r @ '':'' @ to_string (unat f) @ '':''"

definition latest_sequence :: "Runtime \<Rightarrow> u64" where
  "latest_sequence r = (if rt_eventHistory r = [] then 0 else er_sequence (last (rt_eventHistory r)))"

text \<open>
  The offset of a request: the beginning of the history or the one in the cursor. The second
  component says whether it is accepted.
\<close>

definition event_offset :: "Runtime \<Rightarrow> u32 \<Rightarrow> string \<Rightarrow> tool_error + u64" where
  "event_offset r f cursor =
     (if cursor = [] then Inr (rt_eventHistoryOffset r)
      else if \<not> starts_with cursor (event_prefix r f)
      then failure ''INVALID_ARGUMENT'' ''stale or filter-mismatched event cursor'' False False
      else
        let digits = drop (length (event_prefix r f)) cursor;
            conversion = from_chars 10 digits (rt_eventHistoryOffset r);
            offset = parsed_value conversion in
        if \<not> parsed_all digits conversion \<or> offset < rt_eventHistoryOffset r \<or>
           unat (offset - rt_eventHistoryOffset r) > length (rt_eventHistory r)
        then failure ''INVALID_ARGUMENT'' ''invalid event cursor offset'' False False
        else Inr offset)"

text \<open>The loop over the history from an index on; \<open>expired i\<close> is the deadline test at index \<open>i\<close>.\<close>

primrec event_page_loop ::
    "(nat \<Rightarrow> bool) \<Rightarrow> u32 \<Rightarrow> nat \<Rightarrow> EventRecord list \<Rightarrow> nat \<Rightarrow> u64 \<Rightarrow> EventRecord list \<Rightarrow>
     tool_error + EventRecord list \<times> u64 option" where
  "event_page_loop expired f limit [] index offset copied = Inr (copied, None)"
| "event_page_loop expired f limit (e # es) index offset copied =
     (if expired index then failure ''TIMEOUT'' ''event page deadline expired'' True False
      else if \<not> in_filter f e
      then event_page_loop expired f limit es (Suc index) (offset + 1) copied
      else if length copied < limit
      then event_page_loop expired f limit es (Suc index) (offset + 1) (copied @ [e])
      else Inr (copied, Some offset))"

definition events_list ::
    "(nat \<Rightarrow> bool) \<Rightarrow> ('w :: len) word Request \<Rightarrow> Runtime \<Rightarrow> tool_error + event_page" where
  "events_list expired q r =
     (let f = event_filter (rq_eventTypes q) in
      case event_offset r f (rq_eventCursor q) of
        Inl e \<Rightarrow> Inl e
      | Inr offset \<Rightarrow>
          let index = unat (offset - rt_eventHistoryOffset r) in
          (case event_page_loop expired f (rq_pageLimit q) (drop index (rt_eventHistory r)) index offset [] of
             Inl e \<Rightarrow> Inl e
           | Inr (copied, next) \<Rightarrow>
               Inr \<lparr>ep_session = session_name r, ep_latest = latest_sequence r,
                    ep_complete = rt_historyComplete r,
                    ep_next = map_option (\<lambda>offset. event_prefix r f @ to_string (unat offset)) next,
                    ep_items = copied\<rparr>))"

definition events_list_response :: "('w :: len) word Request \<Rightarrow> u64 \<Rightarrow> event_page \<Rightarrow> string" where
  "events_list_response q generation p =
     ok_response (rq_requestId q) generation
       (''{'' @ json_key ''session_id'' @ JsonString (ep_session p) @
        '','' @ json_key ''latest_sequence'' @ to_string (unat (ep_latest p)) @
        '','' @ json_key ''history_complete'' @ json_bool (ep_complete p) @
        '','' @ json_key ''storage_error'' @
        (if ep_complete p then ''null'' else JsonString ''event history is incomplete'') @
        '','' @ json_key ''next_cursor'' @
        (case ep_next p of None \<Rightarrow> ''null'' | Some c \<Rightarrow> JsonString c) @
        '','' @ json_key ''items'' @ json_array (map BuildEventJson (ep_items p)) @ ''}'')"

text \<open>
  \<open>events.wait\<close>: the wait is armed in one state, \<open>findMatch\<close> is evaluated in that state and in
  those in which the condition variable wakes up, the last one included.
\<close>

record event_wait =
  ew_changed :: bool
  ew_latest :: u64
  ew_matched :: "EventRecord option"

definition wanted_kind :: "EventKind list \<Rightarrow> EventRecord \<Rightarrow> bool" where
  "wanted_kind kinds e \<longleftrightarrow> kinds = [] \<or> er_kind e \<in> set kinds"

definition findMatch ::
    "('w :: len) word Request \<Rightarrow> u64 \<Rightarrow> u64 \<Rightarrow> Runtime \<Rightarrow> event_wait \<Rightarrow> bool \<times> event_wait" where
  "findMatch q epoch armedSequence r w =
     (let w = w\<lparr>ew_changed := (epoch \<noteq> rt_eventSessionEpoch r)\<rparr> in
      if ew_changed w \<or> ew_matched w \<noteq> None then (True, w)
      else
        let w = w\<lparr>ew_latest := latest_sequence r\<rparr> in
        case find (\<lambda>e. er_sequence e > armedSequence \<and> wanted_kind (rq_eventTypes q) e)
               (rt_eventHistory r) of
          Some e \<Rightarrow> (True, w\<lparr>ew_matched := Some e\<rparr>)
        | None \<Rightarrow> (rt_pluginState r \<noteq> pl_ready, w))"

primrec events_wait_loop ::
    "('w :: len) word Request \<Rightarrow> u64 \<Rightarrow> u64 \<Rightarrow> Runtime list \<Rightarrow> event_wait \<Rightarrow> event_wait" where
  "events_wait_loop q epoch armedSequence [] w = w"
| "events_wait_loop q epoch armedSequence (r # rs) w =
     events_wait_loop q epoch armedSequence rs (snd (findMatch q epoch armedSequence r w))"

text \<open>
  \<open>woken\<close> are the states in which the wait evaluates the condition, and the last one again after
  it; \<open>final\<close> is the plugin state read after the wait.
\<close>

definition events_wait ::
    "('w :: len) word Request \<Rightarrow> Runtime \<Rightarrow> Runtime list \<Rightarrow> PluginState \<Rightarrow>
     tool_error + string \<times> u64 \<times> EventRecord" where
  "events_wait q r woken final =
     (let (stop, w) = findMatch q (rt_eventSessionEpoch r) (latest_sequence r) r
            \<lparr>ew_changed = False, ew_latest = 0, ew_matched = None\<rparr>;
          w = (if stop then w
               else events_wait_loop q (rt_eventSessionEpoch r) (latest_sequence r) woken w) in
      if ew_changed w \<or> final \<noteq> pl_ready
      then failure ''CANCELLED'' ''event session changed or plugin is draining'' True False
      else
        case ew_matched w of
          None \<Rightarrow> failure ''TIMEOUT'' ''no matching debugger event was observed'' True False
        | Some e \<Rightarrow> Inr (session_name r, ew_latest w, e))"

definition events_wait_response :: "('w :: len) word Request \<Rightarrow> string \<times> u64 \<times> EventRecord \<Rightarrow> string" where
  "events_wait_response q a =
     (let (session, latest, e) = a in
      ok_response (rq_requestId q) (er_generation e)
        (''{'' @ json_key ''session_id'' @ JsonString session @
         '','' @ json_key ''latest_sequence'' @ to_string (unat latest) @
         '','' @ json_key ''event'' @ BuildEventJson e @ ''}''))"

section \<open>Traces\<close>

definition TraceStatusJson :: "TracePolicy \<Rightarrow> u64 \<Rightarrow> string" where
  "TraceStatusJson t generation =
     ''{'' @ json_key ''trace_id'' @ JsonString (tp_id t) @
     '','' @ json_key ''mode'' @ JsonString (TraceModeName (tp_mode t)) @
     '','' @ json_key ''state'' @ JsonString (TraceStateName (tp_state t)) @
     '','' @ json_key ''reason'' @
     (if Active t then ''null'' else JsonString (TraceReasonName (tp_reason t))) @
     '','' @ json_key ''max_steps'' @ to_string (tp_maxSteps t) @
     '','' @ json_key ''steps_executed'' @ to_string (tp_stepsExecuted t) @
     '','' @ json_key ''points_retained'' @ to_string (length (tp_points t)) @
     '','' @ json_key ''state_generation'' @ to_string (unat generation) @ ''}''"

definition trace_status :: "('w :: len) word Request \<Rightarrow> Runtime \<Rightarrow> tool_error + TracePolicy" where
  "trace_status q r =
     (if \<not> Matches (rt_trace r) (rq_traceId q)
      then failure ''NOT_FOUND'' ''trace_id is not retained'' False False
      else if Blocked (rt_traceStop r)
      then failure ''OUTCOME_UNKNOWN''
        ''debuggee paused with a trace interrupt still pending; stop or process exit required''
        False True
      else Inr (rt_trace r))"

definition trace_status_response :: "('w :: len) word Request \<Rightarrow> u64 \<Rightarrow> TracePolicy \<Rightarrow> string" where
  "trace_status_response q generation t =
     ok_response (rq_requestId q) generation (TraceStatusJson t generation)"

text \<open>The module of an address: the only one that contains it.\<close>

primrec unique_module :: "u64 \<Rightarrow> TraceModule list \<Rightarrow> TraceModule option \<Rightarrow> TraceModule option" where
  "unique_module address [] found = found"
| "unique_module address (m # ms) found =
     (if tm_base m \<le> address \<and> address - tm_base m < tm_size m
      then (if found \<noteq> None then None else unique_module address ms (Some m))
      else unique_module address ms found)"

record trace_page =
  tq_trace :: TracePolicy
  tq_first :: nat
  tq_points :: "u64 list"
  tq_next :: "string option"

definition trace_results :: "('w :: len) word Request \<Rightarrow> Runtime \<Rightarrow> tool_error + trace_page" where
  "trace_results q r =
     (let t = rt_trace r; fingerprint = TraceFingerprint t in
      if \<not> Matches t (rq_traceId q)
      then failure ''NOT_FOUND'' ''trace_id is not retained'' False False
      else if \<not> Terminal t
      then failure ''INVALID_DEBUGGER_STATE'' ''trace results require a terminal session'' False False
      else if rq_traceCursorInvalid q \<or>
        (case rq_cursorSnapshotFingerprint q of None \<Rightarrow> False | Some f \<Rightarrow> f \<noteq> fingerprint)
      then failure ''STALE_CURSOR'' ''trace result cursor does not match this snapshot'' False False
      else if unat (rq_cursorIndex q) > length (tp_points t)
      then failure ''STALE_CURSOR'' ''trace result cursor is outside this snapshot'' False False
      else
        let end' = min (length (tp_points t)) (unat (rq_cursorIndex q + of_nat (rq_pageLimit q))) in
        Inr \<lparr>tq_trace = t, tq_first = unat (rq_cursorIndex q),
             tq_points = slice (unat (rq_cursorIndex q)) end' (tp_points t),
             tq_next = (if end' < length (tp_points t)
                        then Some (TraceCursor (tp_id t) fingerprint (of_nat end' :: 'w word))
                        else None)\<rparr>)"

definition trace_point_json :: "TraceModule list \<Rightarrow> nat \<Rightarrow> u64 \<Rightarrow> string" where
  "trace_point_json modules index address =
     (let match = unique_module address modules None in
      ''{'' @ json_key ''sequence'' @ to_string index @
      '','' @ json_key ''address'' @ JsonString (HexValue address) @
      '','' @ json_key ''module'' @
      (case match of None \<Rightarrow> ''null'' | Some m \<Rightarrow> JsonString (tm_name m)) @
      '','' @ json_key ''rva'' @
      (case match of None \<Rightarrow> ''null'' | Some m \<Rightarrow> JsonString (HexValue (address - tm_base m))) @ ''}'')"

definition trace_results_response :: "('w :: len) word Request \<Rightarrow> u64 \<Rightarrow> trace_page \<Rightarrow> string" where
  "trace_results_response q generation p =
     ok_response (rq_requestId q) generation
       (''{'' @ json_key ''trace'' @ TraceStatusJson (tq_trace p) generation @
        '','' @ json_key ''items'' @
        json_array (map (\<lambda>i. trace_point_json (tp_modules (tq_trace p)) (tq_first p + i) (tq_points p ! i))
          [0..<length (tq_points p)]) @
        '','' @ json_key ''next_cursor'' @
        (case tq_next p of None \<Rightarrow> ''null'' | Some c \<Rightarrow> JsonString c) @ ''}'')"

text \<open>\<open>trace.cancel\<close> after the wait: \<open>terminal\<close> is the result of \<open>wait_until\<close>.\<close>

definition trace_cancel_result ::
    "('w :: len) word Request \<Rightarrow> bool \<Rightarrow> Runtime \<Rightarrow> tool_error + TracePolicy" where
  "trace_cancel_result q terminal r =
     (if Blocked (rt_traceStop r)
      then failure ''OUTCOME_UNKNOWN'' ''another pause won while the trace interrupt remains pending''
        False True
      else if \<not> terminal \<or> \<not> Matches (rt_trace r) (rq_traceId q) \<or> \<not> Terminal (rt_trace r)
      then failure ''TIMEOUT'' ''trace cancellation outcome is unknown'' False True
      else Inr (rt_trace r))"

section \<open>The pause and the state\<close>

text \<open>
  \<open>debugger.wait_for_pause\<close>: the test before the wait, the section after it (\<open>observed\<close> is the
  result of \<open>wait_until\<close>), and the check once the registers are read.
\<close>

definition wait_for_pause_admit :: "Runtime \<Rightarrow> tool_error + unit" where
  "wait_for_pause_admit r =
     (if rt_debuggeeState r = ds_absent \<or> rt_debuggeeState r = ds_exited
      then failure ''NO_DEBUGGEE'' ''there is no active debuggee'' False False else Inr ())"

definition wait_for_pause_observe ::
    "('w :: len) word Request \<Rightarrow> bool \<Rightarrow> Runtime \<Rightarrow> tool_error + PauseObservation \<times> u64" where
  "wait_for_pause_observe q observed r =
     (if rt_pluginState r \<noteq> pl_ready
      then failure ''CANCELLED'' ''plugin is draining'' True False
      else if rt_debuggeeState r = ds_absent \<or> rt_debuggeeState r = ds_exited \<or>
              rt_debuggeeState r = ds_stopping
      then failure ''NO_DEBUGGEE'' ''debuggee stopped while waiting'' False False
      else if \<not> observed \<or> rt_pausedGeneration r \<le> rq_afterGeneration q
      then failure ''TIMEOUT'' ''no newer pause was observed'' True False
      else if po_generation (rt_latestPause r) = 0 \<or>
              po_generation (rt_latestPause r) \<le> rq_afterGeneration q
      then failure ''BUSY'' ''pause observation changed before capture'' True False
      else Inr (rt_latestPause r, rt_generation r))"

text \<open>\<open>dump\<close> is the result of \<open>DbgGetRegDumpEx\<close>, the instruction pointer.\<close>

definition wait_for_pause_confirm ::
    "surroundings \<Rightarrow> u64 option \<Rightarrow> PauseObservation \<times> u64 \<Rightarrow> Runtime \<Rightarrow> Runtime \<Rightarrow> tool_error + u64" where
  "wait_for_pause_confirm u dump observation r r' =
     (if \<not> su_debugging u \<or> rt_debuggeeState r \<noteq> ds_paused
      then failure ''BUSY'' ''debuggee resumed before snapshot capture'' True False
      else
        case dump of
          None \<Rightarrow> failure ''INTERNAL'' ''paused register snapshot is unavailable'' True False
        | Some cip \<Rightarrow>
            if \<not> PauseObservationCurrent r' (snd observation) (po_generation (fst observation))
            then failure ''BUSY'' ''pause changed during snapshot capture'' True False
            else Inr cip)"

definition hex_or_null :: "u32 \<Rightarrow> string" where
  "hex_or_null v = (if v = 0 then ''null'' else JsonString (HexValue (ucast v)))"

definition wait_for_pause_response ::
    "('w :: len) word Request \<Rightarrow> PauseObservation \<times> u64 \<Rightarrow> u64 \<Rightarrow> u32 \<Rightarrow> string" where
  "wait_for_pause_response q observation cip tid =
     ok_response (rq_requestId q) (snd observation)
       (''{'' @ json_key ''debuggee_state'' @ JsonString ''paused'' @
        '','' @ json_key ''state_generation'' @ to_string (unat (snd observation)) @
        '','' @ json_key ''instruction_pointer'' @ JsonString (HexValue cip) @
        '','' @ json_key ''active_thread_id'' @ hex_or_null tid @
        '','' @ json_key ''pause_reason'' @ PauseReasonJson (fst observation) @ ''}'')"

fun state_name :: "DebuggeeState \<Rightarrow> string" where
  "state_name ds_starting = ''starting''"
| "state_name ds_paused = ''paused''"
| "state_name ds_running = ''running''"
| "state_name ds_stopping = ''stopping''"
| "state_name ds_exited = ''exited''"
| "state_name ds_absent = ''absent''"

text \<open>
  \<open>StateResponse\<close> from the state of the first section (\<open>r\<close>, after the liveness check), the
  registers read after it and the state of the second section (\<open>r'\<close>).
\<close>

definition state_check :: "surroundings \<Rightarrow> u64 option \<Rightarrow> Runtime \<Rightarrow> Runtime \<Rightarrow> tool_error + u64 option" where
  "state_check u dump r r' =
     (let reads = (rt_debuggeeState r = ds_paused \<and> su_debugging u) in
      if reads \<and> dump = None
      then failure ''INTERNAL'' ''paused register snapshot is unavailable'' True False
      else if rt_pluginState r' \<noteq> pl_ready \<or> rt_generation r' \<noteq> rt_generation r \<or>
              rt_debuggeeState r' \<noteq> rt_debuggeeState r
      then failure ''BUSY'' ''debugger state changed during snapshot capture'' True False
      else Inr (if reads then dump else None))"

definition state_json :: "build \<Rightarrow> Runtime \<Rightarrow> u64 option \<Rightarrow> string" where
  "state_json b r cip =
     (let gone = (rt_debuggeeState r = ds_absent \<or> rt_debuggeeState r = ds_exited) in
      ''{'' @ json_key ''instance_id'' @ JsonString (rt_instanceId r) @
      '','' @ json_key ''backend'' @ JsonString (if b = Win64 then ''x64dbg'' else ''x32dbg'') @
      '','' @ json_key ''architecture'' @ JsonString (if b = Win64 then ''x86_64'' else ''x86'') @
      '','' @ json_key ''plugin_state'' @ JsonString ''ready'' @
      '','' @ json_key ''debuggee_state'' @ JsonString (state_name (rt_debuggeeState r)) @
      '','' @ json_key ''session_origin'' @
      (case rt_sessionOrigin r of so_launched \<Rightarrow> JsonString ''launched''
       | so_attached \<Rightarrow> JsonString ''attached'' | so_none \<Rightarrow> ''null'') @
      '','' @ json_key ''process_id'' @ hex_or_null (rt_processId r) @
      '','' @ json_key ''active_thread_id'' @ hex_or_null (rt_activeThreadId r) @
      '','' @ json_key ''instruction_pointer'' @
      (case cip of None \<Rightarrow> ''null'' | Some v \<Rightarrow> JsonString (HexValue v)) @
      '','' @ json_key ''pause_reason'' @
      (if rt_debuggeeState r = ds_paused then PauseReasonJson (rt_latestPause r) else ''null'') @
      '','' @ json_key ''diagnostic_code'' @ (if gone then JsonString ''NO_DEBUGGEE'' else ''null'') @
      '','' @ json_key ''next_actions'' @
      (if gone
       then ''[{'' @ json_key ''code'' @ JsonString ''CALL_DEBUGGEE_LAUNCH'' @
         '','' @ json_key ''tool'' @ JsonString ''debuggee.launch'' @ ''},{'' @
         json_key ''code'' @ JsonString ''CALL_DEBUGGEE_ATTACH'' @
         '','' @ json_key ''tool'' @ JsonString ''debuggee.attach'' @ ''}]''
       else ''[]'') @
      '','' @ json_key ''state_generation'' @ to_string (unat (rt_generation r)) @ ''}'')"

definition StateResponse ::
    "build \<Rightarrow> surroundings \<Rightarrow> string \<Rightarrow> u64 option \<Rightarrow> Runtime \<Rightarrow> Runtime \<Rightarrow> string" where
  "StateResponse b u requestId dump r r' =
     (case state_check u dump r r' of
        Inl e \<Rightarrow> ErrorResponseForId requestId e
      | Inr cip \<Rightarrow> ok_response requestId (rt_generation r) (state_json b r cip))"

end
