(* ===== verification/Runtime_Steps.thy ===== *)
theory Runtime_Steps
  imports Runtime_Events
begin

text \<open>
  The sections of the other threads of the plugin that change the runtime state (start and stop,
  the handshake, the admission and the cancellation of a trace, the trace supervisor, the flags
  of an owned pause), and the system in which all of them run interleaved with the
  callbacks: a list of \<open>action\<close>s, each one critical section, performed on the runtime and the
  callbacks that are classified and not yet committed.
\<close>

section \<open>Start, handshake and stop\<close>

definition runtime_Start :: "surroundings \<Rightarrow> Runtime \<Rightarrow> bool \<times> Runtime" where
  "runtime_Start u r =
     (let r = ReconcileTraceProcessExit u r in
      if Active (rt_trace r) \<or> Unresolved (rt_traceStop r) \<or> ts_interruptInFlight (rt_traceStop r) \<or>
         rt_tracePauseCallbackInFlight r then (False, r)
      else if rt_pluginState r \<noteq> pl_stopped then (False, r)
      else (True, r\<lparr>rt_pluginState := pl_starting\<rparr>))"

definition supervisor_started :: "Runtime \<Rightarrow> Runtime" where
  "supervisor_started r = r\<lparr>rt_traceSupervisorStopping := False\<rparr>"

definition handshake_accepted :: "bool \<Rightarrow> string \<Rightarrow> Runtime \<Rightarrow> Runtime" where
  "handshake_accepted throws instanceId r =
     r\<lparr>rt_instanceId := instanceId,
       rt_eventStream := SetInstanceId throws instanceId (rt_eventStream r),
       rt_pluginState := pl_ready, rt_generation := rt_generation r + 1\<rparr>"

text \<open>The end of \<open>Worker\<close>: the exchange and the increment are two steps.\<close>

definition disconnected :: "Runtime \<Rightarrow> bool \<times> Runtime" where
  "disconnected r =
     (if rt_pluginState r = pl_ready then (True, r\<lparr>rt_pluginState := pl_starting\<rparr>) else (False, r))"

definition disconnected_generation :: "Runtime \<Rightarrow> Runtime" where
  "disconnected_generation r = r\<lparr>rt_generation := rt_generation r + 1\<rparr>"

text \<open>\<open>Stop\<close>, before and after the waits of its three parts.\<close>

definition runtime_Stop_begin :: "surroundings \<Rightarrow> Runtime \<Rightarrow> bool \<times> Runtime" where
  "runtime_Stop_begin u r =
     (if rt_pluginState r = pl_stopped then (False, r)
      else
        let r = r\<lparr>rt_pluginState := pl_draining\<rparr> in
        (True, if Active (rt_trace r)
               then set_trace r (Trace_Policy.Request (trace_of r) rs_backendShutdown (su_steady u))
               else r))"

definition runtime_Stop_supervisor :: "Runtime \<Rightarrow> Runtime" where
  "runtime_Stop_supervisor r = r\<lparr>rt_traceSupervisorStopping := True\<rparr>"

definition runtime_Stop_end :: "Runtime \<Rightarrow> Runtime" where
  "runtime_Stop_end r = r\<lparr>rt_instanceId := [], rt_pluginState := pl_stopped\<rparr>"

section \<open>Traces\<close>

text \<open>What \<open>trace.start\<close> captured before it asks for admission.\<close>

record trace_request =
  tr_processEpoch :: u64
  tr_processId :: u32
  tr_snapshot :: u64
  tr_id :: string
  tr_mode :: TraceMode
  tr_maxSteps :: nat
  tr_deadline :: time_point
  tr_cip :: u64
  tr_modules :: "TraceModule list"
  tr_process :: handle
  tr_remoteBreak :: u64

definition trace_admit :: "trace_request \<Rightarrow> Runtime \<Rightarrow> Ticket option \<times> Runtime" where
  "trace_admit q r =
     (if tr_processEpoch q \<noteq> rt_processEpoch r \<or> tr_processId q \<noteq> rt_processId r \<or>
         rt_generation r \<noteq> tr_snapshot q \<or> \<not> TracePauseCommittedLocked r
      then (None, r)
      else
        let (started, t) = Start (rt_trace r) (tr_id q) (tr_mode q) (tr_maxSteps q) (tr_deadline q)
              (tr_cip q) (tr_modules q) in
        if \<not> started then (None, r\<lparr>rt_trace := t\<rparr>)
        else
          let (ticket, c) = Begin (rt_traceStop r) (tr_processEpoch q) (tr_processId q) in
          (Some ticket,
           r\<lparr>rt_trace := t, rt_traceProcess := Some (tr_process q), rt_traceInterruptThread := None,
             rt_traceInterruptAddress := tr_remoteBreak q + 1,
             rt_traceAdmissionEvent := rt_rawEventSequence r,
             rt_traceAdmissionGeneration := tr_snapshot q, rt_traceStop := c\<rparr>))"

definition trace_still_current :: "string \<Rightarrow> Ticket \<Rightarrow> Runtime \<Rightarrow> bool" where
  "trace_still_current i ticket r \<longleftrightarrow>
     Matches (rt_trace r) i \<and> Current (rt_traceStop r) ticket \<and>
     rt_processEpoch r = tk_process ticket \<and> TracePauseCommittedLocked r"

definition trace_submitted :: "Ticket \<Rightarrow> bool \<Rightarrow> Runtime \<Rightarrow> Runtime" where
  "trace_submitted ticket accepted r = set_trace r (stop_Submitted (trace_of r) ticket accepted)"

datatype cancel_answer = cancel_not_found | cancel_terminal TracePolicy | cancel_requested

definition trace_cancel :: "surroundings \<Rightarrow> string \<Rightarrow> Runtime \<Rightarrow> cancel_answer \<times> Runtime" where
  "trace_cancel u i r =
     (if \<not> Matches (rt_trace r) i then (cancel_not_found, r)
      else if Terminal (rt_trace r) then (cancel_terminal (rt_trace r), r)
      else (cancel_requested,
            set_trace r (Trace_Policy.Request (trace_of r) rs_cancelled (su_steady u))))"

text \<open>\<open>TraceSupervisor\<close>: the reservation, the publication of the helper thread, the end.\<close>

definition supervisor_reserve :: "surroundings \<Rightarrow> Runtime \<Rightarrow> Ticket option \<times> Runtime" where
  "supervisor_reserve u r =
     (if rt_traceSupervisorStopping r \<or> \<not> Active (rt_trace r) then (None, r)
      else let (ticket, s) = Reserve (trace_of r) (su_steady u) in (ticket, set_trace r s))"

definition supervisor_publish :: "Ticket \<Rightarrow> handle option \<Rightarrow> u32 \<Rightarrow> u64 \<Rightarrow> Runtime \<Rightarrow> bool \<times> Runtime" where
  "supervisor_publish ticket thread tid address r =
     (let r = r\<lparr>rt_traceInterruptThread := thread\<rparr> in
      if thread = None then (False, r)
      else let (issue, c) = Issue (rt_traceStop r) ticket tid address in
           (issue, r\<lparr>rt_traceStop := c\<rparr>))"

definition supervisor_finish :: "Ticket \<Rightarrow> bool \<Rightarrow> Runtime \<Rightarrow> Runtime" where
  "supervisor_finish ticket retired r = set_trace r (FinishInterrupt (trace_of r) ticket retired)"

section \<open>The flags of an owned pause\<close>

definition pause_begin :: "Runtime \<Rightarrow> bool \<times> Runtime" where
  "pause_begin r = (\<not> rt_pauseInterruptPending r, r\<lparr>rt_pauseInterruptPending := True\<rparr>)"

definition pause_select :: "u32 \<Rightarrow> Runtime \<Rightarrow> Runtime" where
  "pause_select tid r = r\<lparr>rt_ownedPauseSelectedThreadId := tid\<rparr>"

definition pause_failed :: "Runtime \<Rightarrow> Runtime" where
  "pause_failed r = r\<lparr>rt_pauseInterruptPending := False, rt_ownedPauseSelectedThreadId := 0\<rparr>"

definition pause_confirmed :: "Runtime \<Rightarrow> Runtime" where
  "pause_confirmed r = r\<lparr>rt_pauseInterruptPending := False\<rparr>"

definition resume_take_thread :: "Runtime \<Rightarrow> u32 \<times> Runtime" where
  "resume_take_thread r =
     (rt_ownedPauseSelectedThreadId r, r\<lparr>rt_ownedPauseSelectedThreadId := 0\<rparr>)"

section \<open>The system\<close>

text \<open>
  \<open>Stream_worker\<close> is a section of the event stream's own threads (its start, its worker, which
  the theory of the event stream models): it leaves some members of the stream behind, which the
  runtime never reads.
\<close>

record runtime_system =
  sy_runtime :: Runtime
  sy_pending :: "(callback \<times> classified) list"

datatype action = Classify u32 callback
  | Commit surroundings nat
  | Debug_event surroundings debug_event
  | Trace_execute surroundings u64 bool
  | Thread_abandon Ticket
  | Thread_consume EventRecord u32 u64
  | Thread_done
  | Reconcile_exit surroundings
  | Liveness surroundings u64 DebuggeeState
  | Start_plugin surroundings
  | Start_supervisor
  | Handshake bool string
  | Disconnect
  | Disconnect_generation
  | Stop_begin surroundings
  | Stop_supervisor
  | Stop_event_stream
  | Stop_event_stream_joined
  | Stream_worker EventStream
  | Stop_end
  | Trace_admit trace_request
  | Trace_submitted Ticket bool
  | Trace_cancel surroundings string
  | Supervisor_reserve surroundings
  | Supervisor_publish Ticket "handle option" u32 u64
  | Supervisor_finish Ticket bool
  | Pause_begin
  | Pause_select u32
  | Pause_failed
  | Pause_confirmed
  | Resume_take_thread

text \<open>The actions that do not touch the pending callbacks.\<close>

fun perform_runtime :: "action \<Rightarrow> Runtime \<Rightarrow> Runtime" where
  "perform_runtime (Debug_event u e) r = debug_event_commit u e r"
| "perform_runtime (Trace_execute u cip stop) r = snd (trace_execute u cip stop r)"
| "perform_runtime (Thread_abandon ticket) r = create_thread_abandon ticket r"
| "perform_runtime (Thread_consume raw tid entry) r = snd (create_thread_consume raw tid entry r)"
| "perform_runtime Thread_done r = create_thread_done r"
| "perform_runtime (Reconcile_exit u) r = ReconcileTraceProcessExit u r"
| "perform_runtime (Liveness u earlier observed) r = ReconcileDebuggerLiveness u earlier observed r"
| "perform_runtime (Start_plugin u) r = snd (runtime_Start u r)"
| "perform_runtime Start_supervisor r = supervisor_started r"
| "perform_runtime (Handshake throws i) r = handshake_accepted throws i r"
| "perform_runtime Disconnect r = snd (disconnected r)"
| "perform_runtime Disconnect_generation r = disconnected_generation r"
| "perform_runtime (Stop_begin u) r = snd (runtime_Stop_begin u r)"
| "perform_runtime Stop_supervisor r = runtime_Stop_supervisor r"
| "perform_runtime Stop_event_stream r =
     r\<lparr>rt_eventStream := stream_Stop_request (rt_eventStream r)\<rparr>"
| "perform_runtime Stop_event_stream_joined r =
     r\<lparr>rt_eventStream := stream_Stop_joined (rt_eventStream r)\<rparr>"
| "perform_runtime (Stream_worker members) r = r\<lparr>rt_eventStream := members\<rparr>"
| "perform_runtime Stop_end r = runtime_Stop_end r"
| "perform_runtime (Trace_admit q) r = snd (trace_admit q r)"
| "perform_runtime (Trace_submitted ticket accepted) r = trace_submitted ticket accepted r"
| "perform_runtime (Trace_cancel u i) r = snd (trace_cancel u i r)"
| "perform_runtime (Supervisor_reserve u) r = snd (supervisor_reserve u r)"
| "perform_runtime (Supervisor_publish ticket thread tid a) r =
     snd (supervisor_publish ticket thread tid a r)"
| "perform_runtime (Supervisor_finish ticket retired) r = supervisor_finish ticket retired r"
| "perform_runtime Pause_begin r = snd (pause_begin r)"
| "perform_runtime (Pause_select tid) r = pause_select tid r"
| "perform_runtime Pause_failed r = pause_failed r"
| "perform_runtime Pause_confirmed r = pause_confirmed r"
| "perform_runtime Resume_take_thread r = snd (resume_take_thread r)"
| "perform_runtime (Classify bpx cb) r = r"
| "perform_runtime (Commit u i) r = r"

definition perform :: "runtime_system \<Rightarrow> action \<Rightarrow> runtime_system" where
  "perform s a =
     (case a of
        Classify bpx cb \<Rightarrow>
          let (c, r) = classify bpx cb (sy_runtime s) in
          \<lparr>sy_runtime = r, sy_pending = sy_pending s @ [(cb, c)]\<rparr>
      | Commit u i \<Rightarrow>
          if i < length (sy_pending s) then
            let (cb, c) = sy_pending s ! i in
            \<lparr>sy_runtime = commit u cb c (sy_runtime s),
             sy_pending = take i (sy_pending s) @ drop (Suc i) (sy_pending s)\<rparr>
          else s
      | _ \<Rightarrow> s\<lparr>sy_runtime := perform_runtime a (sy_runtime s)\<rparr>)"

definition run :: "runtime_system \<Rightarrow> action list \<Rightarrow> runtime_system" where
  "run s as = foldl perform s as"

definition system_init :: "string \<Rightarrow> runtime_system" where
  "system_init nonce = \<lparr>sy_runtime = Runtime_init nonce, sy_pending = []\<rparr>"

lemma run_simps [simp]: "run s [] = s" "run s (a # as) = run (perform s a) as"
  "run s (as @ bs) = run (run s as) bs"
  by (simp_all add: run_def)

end
