(* ===== verification/Runtime_Snapshots.thy ===== *)
theory Runtime_Snapshots
  imports Runtime_Steps
begin

text \<open>
  What a generation number promises. The tools read the debugger between \<open>BeginPausedSnapshot\<close>
  and \<open>PausedSnapshotCurrent\<close> without holding a lock, so an unchanged generation has to mean
  that nothing they rely on changed in between.
\<close>

section \<open>What the state shows\<close>

text \<open>The members a snapshot vouches for.\<close>

definition view ::
    "Runtime \<Rightarrow> DebuggeeState \<times> PauseObservation \<times> u64 \<times> u32 \<times> u32 \<times> SessionOrigin \<times> u64" where
  "view r = (rt_debuggeeState r, rt_latestPause r, rt_pausedGeneration r, rt_processId r,
     rt_activeThreadId r, rt_sessionOrigin r, rt_processEpoch r)"

text \<open>Either nothing of it changed or the generation moved on by one.\<close>

definition same :: "Runtime \<Rightarrow> Runtime \<Rightarrow> bool" where
  "same r r' \<longleftrightarrow> rt_generation r' = rt_generation r \<and> view r' = view r"

definition advances :: "Runtime \<Rightarrow> Runtime \<Rightarrow> bool" where
  "advances r r' \<longleftrightarrow> same r r' \<or> rt_generation r' = rt_generation r + 1"

lemma same_refl [simp]: "same r r"
  by (simp add: same_def)

lemma same_trans: "same r s \<Longrightarrow> same s t \<Longrightarrow> same r t"
  by (simp add: same_def)

lemma same_advances: "same r s \<Longrightarrow> advances s t \<Longrightarrow> advances r t"
  by (auto simp: same_def advances_def)

lemma advances_same: "advances r s \<Longrightarrow> same s t \<Longrightarrow> advances r t"
  by (auto simp: same_def advances_def)

lemma advances_generation: "rt_generation r' = rt_generation r + 1 \<Longrightarrow> advances r r'"
  by (simp add: advances_def)

lemma advances_of_same [intro]: "same r r' \<Longrightarrow> advances r r'"
  by (simp add: advances_def)

text \<open>Updates of the members outside the view.\<close>

lemma same_updates [simp]:
  "same r (r'\<lparr>rt_pluginState := v1\<rparr>) = same r r'"
  "same r (r'\<lparr>rt_runningGeneration := g\<rparr>) = same r r'"
  "same r (r'\<lparr>rt_absentGeneration := g\<rparr>) = same r r'"
  "same r (r'\<lparr>rt_pauseInterruptPending := b\<rparr>) = same r r'"
  "same r (r'\<lparr>rt_ownedPauseException := b\<rparr>) = same r r'"
  "same r (r'\<lparr>rt_ownedPauseSelectedThreadId := i\<rparr>) = same r r'"
  "same r (r'\<lparr>rt_trace := t\<rparr>) = same r r'"
  "same r (r'\<lparr>rt_traceStop := c\<rparr>) = same r r'"
  "same r (r'\<lparr>rt_rawEventSequence := g\<rparr>) = same r r'"
  "same r (r'\<lparr>rt_nativePauseEvent := n\<rparr>) = same r r'"
  "same r (r'\<lparr>rt_traceAdmissionEvent := g\<rparr>) = same r r'"
  "same r (r'\<lparr>rt_traceAdmissionGeneration := g\<rparr>) = same r r'"
  "same r (r'\<lparr>rt_traceProcess := h\<rparr>) = same r r'"
  "same r (r'\<lparr>rt_traceInterruptThread := h\<rparr>) = same r r'"
  "same r (r'\<lparr>rt_traceInterruptAddress := g\<rparr>) = same r r'"
  "same r (r'\<lparr>rt_tracePauseCallbackInFlight := b\<rparr>) = same r r'"
  "same r (r'\<lparr>rt_traceSupervisorStopping := b\<rparr>) = same r r'"
  "same r (r'\<lparr>rt_pendingException := x\<rparr>) = same r r'"
  "same r (r'\<lparr>rt_eventHistory := es\<rparr>) = same r r'"
  "same r (r'\<lparr>rt_candidateEvents := es\<rparr>) = same r r'"
  "same r (r'\<lparr>rt_eventHistoryOffset := g\<rparr>) = same r r'"
  "same r (r'\<lparr>rt_candidateHistoryOffset := g\<rparr>) = same r r'"
  "same r (r'\<lparr>rt_eventSessionEpoch := g\<rparr>) = same r r'"
  "same r (r'\<lparr>rt_eventSessionCounter := g\<rparr>) = same r r'"
  "same r (r'\<lparr>rt_candidateEventSession := n\<rparr>) = same r r'"
  "same r (r'\<lparr>rt_eventSessionEstablished := b\<rparr>) = same r r'"
  "same r (r'\<lparr>rt_historyComplete := b\<rparr>) = same r r'"
  "same r (r'\<lparr>rt_candidateHistoryComplete := b\<rparr>) = same r r'"
  "same r (r'\<lparr>rt_nextEventSequence := g\<rparr>) = same r r'"
  "same r (r'\<lparr>rt_eventStream := st\<rparr>) = same r r'"
  "same r (r'\<lparr>rt_instanceId := str\<rparr>) = same r r'"
  by (simp_all add: same_def view_def)

lemma same_set_trace [simp]: "same r (set_trace r' s) = same r r'"
  by (simp add: set_trace_def)

lemma same_RecordEventLocked [simp]: "same r (RecordEventLocked u e r') = same r r'"
  by (simp add: RecordEventLocked_def Let_def split: prod.splits)

lemma same_CommitTraceEventLocked [simp]: "same r (CommitTraceEventLocked u cb r') = same r r'"
  by (simp add: CommitTraceEventLocked_def Let_def)

lemma generation_RecordEventLocked [simp]:
  "rt_generation (RecordEventLocked u e r) = rt_generation r"
  by (simp add: RecordEventLocked_def Let_def split: prod.splits)

lemma generation_CommitTraceEventLocked [simp]:
  "rt_generation (CommitTraceEventLocked u cb r) = rt_generation r"
  by (simp add: CommitTraceEventLocked_def Let_def set_trace_def)

section \<open>The sections of a commit\<close>

lemma same_open_candidate [simp]: "same r (open_candidate cb r') = same r r'"
  by (simp add: open_candidate_def)

lemma same_establish_session [simp]: "same r (establish_session cb r') = same r r'"
  by (simp add: establish_session_def)

lemma same_reset_ownership [simp]: "same r (reset_ownership cb c r') = same r r'"
  by (simp add: reset_ownership_def Let_def)

lemma same_correlate_exception [simp]: "same r (snd (correlate_exception c r')) = same r r'"
  by (simp add: correlate_exception_def Let_def)

lemma generation_commit_origin [simp]: "rt_generation (commit_origin c r) = rt_generation r"
  by (simp add: commit_origin_def Let_def)

lemma generation_commit_process [simp]: "rt_generation (snd (commit_process c r)) = rt_generation r"
  by (simp add: commit_process_def Let_def split: option.splits)

lemma generation_refine_pause: "rt_generation (refine_pause u c r) = rt_generation r + 1"
  by (simp add: refine_pause_def Let_def)

lemma generation_commit_state: "rt_generation (commit_state u cb c r) = rt_generation r + 1"
  by (simp add: commit_state_def Let_def split: DebuggeeState.splits)

text \<open>
  What the \<open>switch\<close> sets for a callback: only \<open>CB_CREATEPROCESS\<close> moves to a pause and touches the
  process, and it never refines a pause.
\<close>

definition wf_classified :: "callback \<Rightarrow> classified \<Rightarrow> bool" where
  "wf_classified cb c \<longleftrightarrow> cl_next c = ds_paused \<longrightarrow>
     \<not> cl_clearProcess c \<and> \<not> cl_resetOrigin c \<and> \<not> cl_markAttached c \<and>
     (if is_CREATEPROCESS cb
      then po_kind (cl_pause c) = pk_processCreated \<and> \<not> cl_refineCurrentPause c \<and>
        \<not> cl_exceptionBreakpointCallback c
      else \<not> cl_markLaunched c \<and> cl_processId c = None \<and> cl_threadId c = None)"

lemmas classified_defs = unclassified_def pausing_def moving_def classify_breakpoint_def
  classify_exception_def

lemma wf_classify: "wf_classified cb (fst (classify bpx cb r))"
  by (cases cb) (auto simp: wf_classified_def classified_defs Let_def no_pause_def split: option.splits)

lemma same_classify: "same r (snd (classify bpx cb r))"
  by (cases cb) (auto simp: classified_defs Let_def split: option.splits)

lemma correlate_exception_flags [simp]:
  "cl_next (fst (correlate_exception c r)) = cl_next c"
  "cl_clearProcess (fst (correlate_exception c r)) = cl_clearProcess c"
  "cl_resetOrigin (fst (correlate_exception c r)) = cl_resetOrigin c"
  "cl_markAttached (fst (correlate_exception c r)) = cl_markAttached c"
  "cl_markLaunched (fst (correlate_exception c r)) = cl_markLaunched c"
  "cl_processId (fst (correlate_exception c r)) = cl_processId c"
  "cl_threadId (fst (correlate_exception c r)) = cl_threadId c"
  "cl_refineCurrentPause (fst (correlate_exception c r)) = cl_refineCurrentPause c"
  "cl_exceptionBreakpointCallback (fst (correlate_exception c r)) = cl_exceptionBreakpointCallback c"
  "\<not> cl_exceptionBreakpointCallback c \<Longrightarrow> fst (correlate_exception c r) = c"
  by (simp_all add: correlate_exception_def Let_def)

lemma wf_correlate_exception:
  "wf_classified cb c \<Longrightarrow> wf_classified cb (fst (correlate_exception c r))"
  by (auto simp: wf_classified_def)

lemma commit_process_flags [simp]:
  "cl_next (fst (commit_process c r)) = cl_next c"
  "cl_refineCurrentPause (fst (commit_process c r)) = cl_refineCurrentPause c"
  "po_kind (cl_pause (fst (commit_process c r))) = po_kind (cl_pause c)"
  by (simp_all add: commit_process_def Let_def split: option.splits)

lemma same_commit_origin:
  "\<not> cl_resetOrigin c \<Longrightarrow> \<not> cl_markAttached c \<Longrightarrow> \<not> cl_markLaunched c \<Longrightarrow> commit_origin c r = r"
  by (simp add: commit_origin_def)

lemma same_commit_process:
  "\<not> cl_clearProcess c \<Longrightarrow> cl_processId c = None \<Longrightarrow> cl_threadId c = None \<Longrightarrow>
   snd (commit_process c r) = r"
  by (simp add: commit_process_def Let_def)

lemma commit_pause_or_state_cases:
  "rt_generation (commit_pause_or_state u cb c r) = rt_generation r + 1 \<or>
   (cl_next c = ds_paused \<and> \<not> (is_CREATEPROCESS cb \<and> po_kind (cl_pause c) = pk_processCreated) \<and>
    same r (commit_pause_or_state u cb c r))"
  by (cases cb) (simp_all add: commit_pause_or_state_def Let_def generation_refine_pause
      generation_commit_state)

lemma commit_advances:
  assumes "wf_classified cb c"
  shows "advances r (commit u cb c r)"
proof -
  let ?r1 = "establish_session cb (open_candidate cb r)"
  let ?r2 = "reset_ownership cb c ?r1"
  let ?c3 = "fst (correlate_exception c ?r2)" and ?r3 = "snd (correlate_exception c ?r2)"
  let ?r4 = "commit_origin ?c3 ?r3"
  let ?c5 = "fst (commit_process ?c3 ?r4)" and ?r5 = "snd (commit_process ?c3 ?r4)"
  let ?r6 = "commit_pause_or_state u cb ?c5 ?r5"
  have wf: "wf_classified cb ?c3" using assms by (rule wf_correlate_exception)
  have s3: "same r ?r3" by simp
  have "advances ?r3 ?r6"
  proof (cases "rt_generation ?r6 = rt_generation ?r5 + 1")
    case False
    with commit_pause_or_state_cases [of u cb ?c5 ?r5]
    have p: "cl_next ?c3 = ds_paused" "same ?r5 ?r6"
      "\<not> (is_CREATEPROCESS cb \<and> po_kind (cl_pause ?c3) = pk_processCreated)"
      by simp_all
    with wf have "\<not> is_CREATEPROCESS cb" by (auto simp: wf_classified_def)
    with wf p(1) have "?r4 = ?r3" "?r5 = ?r4"
      by (auto simp: wf_classified_def intro!: same_commit_origin same_commit_process)
    with p(2) show ?thesis by auto
  qed (simp add: advances_def)
  with s3 have "advances r ?r6" by (rule same_advances)
  moreover have "same r ?r1" by simp
  ultimately show ?thesis
    unfolding commit_def Let_def by (simp add: advances_of_same split_beta)
qed

section \<open>Every action\<close>

lemma perform_runtime_advances: "advances r (perform_runtime a r)"
proof (cases a)
  case (Debug_event u e)
  then show ?thesis
    by (cases "de_info e") (simp_all add: advances_generation debug_event_commit_def Let_def)
next
  case (Trace_execute u cip stop)
  then show ?thesis by (simp add: trace_execute_def advances_of_same split: prod.splits)
next
  case (Thread_consume raw tid entry)
  then show ?thesis by (simp add: create_thread_consume_def advances_of_same split: prod.splits)
next
  case (Reconcile_exit u)
  then show ?thesis
    by (simp add: ReconcileTraceProcessExit_def Let_def advances_of_same advances_generation
        set_trace_def split: option.splits)
next
  case (Liveness u earlier observed)
  then show ?thesis
    by (simp add: ReconcileDebuggerLiveness_def Let_def advances_of_same advances_generation)
next
  case (Start_plugin u)
  have "advances r (ReconcileTraceProcessExit u r)"
    by (simp add: ReconcileTraceProcessExit_def Let_def advances_of_same advances_generation
        set_trace_def split: option.splits)
  then show ?thesis
    using Start_plugin by (auto simp: runtime_Start_def Let_def intro: advances_same)
next
  case (Trace_admit q)
  then show ?thesis by (simp add: trace_admit_def advances_of_same split: prod.splits)
next
  case (Supervisor_reserve u)
  then show ?thesis by (simp add: supervisor_reserve_def advances_of_same split: prod.splits)
next
  case (Supervisor_publish ticket thread tid x)
  then show ?thesis
    by (simp add: supervisor_publish_def Let_def advances_of_same split: prod.splits)
next
  case (Trace_cancel u i)
  then show ?thesis by (simp add: trace_cancel_def advances_of_same)
next
  case (Stop_begin u)
  then show ?thesis by (simp add: runtime_Stop_begin_def Let_def advances_of_same)
qed (simp_all add: advances_of_same advances_generation create_thread_abandon_def
    create_thread_done_def supervisor_started_def handshake_accepted_def disconnected_def
    disconnected_generation_def runtime_Stop_supervisor_def runtime_Stop_end_def
    trace_submitted_def supervisor_finish_def pause_begin_def pause_select_def pause_failed_def
    pause_confirmed_def resume_take_thread_def)

text \<open>
  The interface the properties of runs use: a relation that every section \<open>ok\<close> allows keeps, with the facts
  about all runs that follow. The callbacks in flight come from \<open>classify\<close>.
\<close>

definition pending_ok :: "runtime_system \<Rightarrow> bool" where
  "pending_ok s \<longleftrightarrow> (\<forall>(cb, c) \<in> set (sy_pending s). wf_classified cb c)"

lemma perform_pending_ok: "pending_ok s \<Longrightarrow> pending_ok (perform s a)"
proof (cases a)
  case (Classify bpx cb)
  assume "pending_ok s"
  with Classify wf_classify [of cb bpx "sy_runtime s"] show ?thesis
    by (auto simp: perform_def pending_ok_def split: prod.splits)
qed (auto simp: perform_def pending_ok_def split: prod.splits dest: in_set_takeD in_set_dropD)

lemma pending_ok_run: "pending_ok s \<Longrightarrow> pending_ok (run s as)"
  by (induction as arbitrary: s) (auto intro: perform_pending_ok)

lemma pending_ok_init [simp]: "pending_ok (system_init nonce)"
  by (simp add: pending_ok_def system_init_def)

locale section_relation =
  fixes ok :: "action \<Rightarrow> bool"
    and rel :: "Runtime \<Rightarrow> Runtime \<Rightarrow> bool"
  assumes rel_classify: "rel r (snd (classify bpx cb r))"
    and rel_commit: "wf_classified cb c \<Longrightarrow> rel r (commit u cb c r)"
    and rel_refl: "rel r r"
    and rel_section: "ok a \<Longrightarrow> rel r (perform_runtime a r)"
begin

lemma rel_perform:
  assumes "pending_ok s" "ok a"
  shows "rel (sy_runtime s) (sy_runtime (perform s a))"
proof (cases a)
  case (Classify bpx cb)
  then show ?thesis using rel_classify [of "sy_runtime s" bpx cb]
    by (auto simp: perform_def split: prod.splits)
next
  case (Commit u i)
  show ?thesis
  proof (cases "i < length (sy_pending s)")
    case True
    obtain cb c where p: "sy_pending s ! i = (cb, c)" by fastforce
    with True assms(1) have "wf_classified cb c"
      unfolding pending_ok_def by (metis (mono_tags, lifting) case_prodD nth_mem)
    with True p Commit show ?thesis by (simp add: perform_def rel_commit)
  qed (simp add: Commit perform_def rel_refl)
qed (use rel_section [OF assms(2), of "sy_runtime s"] in \<open>simp add: perform_def\<close>)+

end

locale section_preorder = section_relation +
  assumes rel_trans: "rel r s \<Longrightarrow> rel s t \<Longrightarrow> rel r t"
begin

lemma rel_run: "pending_ok s \<Longrightarrow> list_all ok as \<Longrightarrow> rel (sy_runtime s) (sy_runtime (run s as))"
proof (induction as arbitrary: s)
  case (Cons a as)
  from rel_perform [OF Cons.prems(1)] Cons.IH [OF perform_pending_ok [OF Cons.prems(1)]] Cons.prems(2)
  show ?case by (auto intro: rel_trans)
qed (simp add: rel_refl)

end

interpretation advancing: section_relation "\<lambda>_. True" advances
  by unfold_locales (auto intro: same_classify commit_advances perform_runtime_advances)

lemma run_advances:
  "pending_ok s \<Longrightarrow> \<exists>n \<le> length as.
     rt_generation (sy_runtime (run s as)) = rt_generation (sy_runtime s) + of_nat n \<and>
     (n = 0 \<longrightarrow> same (sy_runtime s) (sy_runtime (run s as)))"
proof (induction as arbitrary: s)
  case (Cons a as)
  let ?t = "perform s a"
  obtain n where n: "n \<le> length as"
    "rt_generation (sy_runtime (run ?t as)) = rt_generation (sy_runtime ?t) + of_nat n"
    "n = 0 \<longrightarrow> same (sy_runtime ?t) (sy_runtime (run ?t as))"
    using Cons.IH [OF perform_pending_ok [OF Cons.prems]] by blast
  from advancing.rel_perform [OF Cons.prems TrueI, of a]
  consider "same (sy_runtime s) (sy_runtime ?t)"
    | "rt_generation (sy_runtime ?t) = rt_generation (sy_runtime s) + 1"
    by (auto simp: advances_def)
  then show ?case
  proof cases
    case 1
    with n show ?thesis by (intro exI [of _ n]) (auto simp: same_def)
  next
    case 2
    with n show ?thesis by (intro exI [of _ "Suc n"]) auto
  qed
qed auto

text \<open>
  C2. A snapshot is consistent: when a tool takes the generation \<open>g\<close> of a paused debuggee and finds
  it current again after any interleaving of fewer than \<open>2^64\<close> critical sections of callbacks, other
  tools, the supervisor and the plugin's start and stop, then the debuggee was not
  resumed, replaced, exited or paused anew in between: state, pause observation, process,
  thread, origin and process epoch are those at the start.
\<close>

theorem paused_snapshot_consistent:
  assumes "s = run (system_init nonce) before_snapshot"
    and "BeginPausedSnapshot (sy_runtime s) = Some g"
    and "length during < 2 ^ 64"
    and "PausedSnapshotCurrent (sy_runtime (run s during)) g"
  shows "view (sy_runtime (run s during)) = view (sy_runtime s)"
proof -
  have "pending_ok s" by (simp add: assms(1) pending_ok_run)
  then obtain n where n: "n \<le> length during"
    "rt_generation (sy_runtime (run s during)) = rt_generation (sy_runtime s) + of_nat n"
    "n = 0 \<longrightarrow> same (sy_runtime s) (sy_runtime (run s during))"
    using run_advances by blast
  from assms(2,4) n(2) have "of_nat n = (0 :: u64)"
    by (auto simp: BeginPausedSnapshot_def PausedSnapshotCurrent_def split: if_splits)
  moreover have "n < 2 ^ LENGTH(64)" using n(1) assms(3) by simp
  ultimately have "n = 0" by (simp add: word_of_nat_eq_0_iff nat_dvd_not_less) (meson gr_zeroI nat_dvd_not_less)
  with n(3) show ?thesis by (simp add: same_def)
qed

definition quiet :: surroundings where
  "quiet = \<lparr>su_unixMs = 1000, su_steady = 1, su_enqueueThrows = False, su_pushThrows = False,
     su_debugging = True, su_processId = (\<lambda>_. 0), su_threadId = (\<lambda>_. 0), su_signalled = (\<lambda>_. False)\<rparr>"

definition paused_run :: "action list" where
  "paused_run = [Handshake False ''id'', Classify 16 CB_PAUSEDEBUG, Commit quiet 0]"

definition paused_again :: "action list" where
  "paused_again = [Classify 16 CB_PAUSEDEBUG, Pause_select 3, Commit quiet 0]"

theorem paused_snapshot_consistent_witness:
  "view (sy_runtime (run (run (system_init ''nonce'') paused_run) paused_again)) =
   view (sy_runtime (run (system_init ''nonce'') paused_run))"
proof (rule paused_snapshot_consistent [OF refl])
  show "BeginPausedSnapshot (sy_runtime (run (system_init ''nonce'') paused_run)) = Some 2"
    by code_simp
  show "length paused_again < 2 ^ 64" by (simp add: paused_again_def)
  show "PausedSnapshotCurrent
      (sy_runtime (run (run (system_init ''nonce'') paused_run) paused_again)) 2"
    by code_simp
qed

end
