(* ===== verification/Runtime_Histories.thy ===== *)
theory Runtime_Histories
  imports Runtime_Snapshots
begin

text \<open>
  The event history of the runtime: its size, the order of its sequence numbers, and what the
  flag \<open>historyComplete_\<close> and the event sessions promise to the client that pages through it.
\<close>

section \<open>The members of the histories\<close>

definition sessions ::
    "Runtime \<Rightarrow> (EventRecord list \<times> u64 \<times> bool) \<times> (EventRecord list \<times> u64 \<times> bool) \<times>
     u64 option \<times> u64 \<times> u64" where
  "sessions r = ((rt_eventHistory r, rt_eventHistoryOffset r, rt_historyComplete r),
     (rt_candidateEvents r, rt_candidateHistoryOffset r, rt_candidateHistoryComplete r),
     rt_candidateEventSession r, rt_eventSessionEpoch r, rt_nextEventSequence r)"

lemma sessions_updates [simp]:
  "sessions (r\<lparr>rt_pluginState := v0\<rparr>) = sessions r"
  "sessions (r\<lparr>rt_debuggeeState := v1\<rparr>) = sessions r"
  "sessions (r\<lparr>rt_sessionOrigin := v2\<rparr>) = sessions r"
  "sessions (r\<lparr>rt_generation := v3\<rparr>) = sessions r"
  "sessions (r\<lparr>rt_pausedGeneration := v4\<rparr>) = sessions r"
  "sessions (r\<lparr>rt_runningGeneration := v5\<rparr>) = sessions r"
  "sessions (r\<lparr>rt_absentGeneration := v6\<rparr>) = sessions r"
  "sessions (r\<lparr>rt_processId := v7\<rparr>) = sessions r"
  "sessions (r\<lparr>rt_activeThreadId := v8\<rparr>) = sessions r"
  "sessions (r\<lparr>rt_attachProcessId := v9\<rparr>) = sessions r"
  "sessions (r\<lparr>rt_attachGeneration := v10\<rparr>) = sessions r"
  "sessions (r\<lparr>rt_detachProcessId := v11\<rparr>) = sessions r"
  "sessions (r\<lparr>rt_detachGeneration := v12\<rparr>) = sessions r"
  "sessions (r\<lparr>rt_pauseInterruptPending := v13\<rparr>) = sessions r"
  "sessions (r\<lparr>rt_ownedPauseException := v14\<rparr>) = sessions r"
  "sessions (r\<lparr>rt_ownedPauseSelectedThreadId := v15\<rparr>) = sessions r"
  "sessions (r\<lparr>rt_trace := v16\<rparr>) = sessions r"
  "sessions (r\<lparr>rt_traceStop := v17\<rparr>) = sessions r"
  "sessions (r\<lparr>rt_processEpoch := v18\<rparr>) = sessions r"
  "sessions (r\<lparr>rt_rawEventSequence := v19\<rparr>) = sessions r"
  "sessions (r\<lparr>rt_nativePauseEvent := v20\<rparr>) = sessions r"
  "sessions (r\<lparr>rt_pendingTraceThread := v21\<rparr>) = sessions r"
  "sessions (r\<lparr>rt_traceAdmissionEvent := v22\<rparr>) = sessions r"
  "sessions (r\<lparr>rt_traceAdmissionGeneration := v23\<rparr>) = sessions r"
  "sessions (r\<lparr>rt_traceProcess := v24\<rparr>) = sessions r"
  "sessions (r\<lparr>rt_traceInterruptThread := v25\<rparr>) = sessions r"
  "sessions (r\<lparr>rt_traceInterruptAddress := v26\<rparr>) = sessions r"
  "sessions (r\<lparr>rt_tracePauseCallbackInFlight := v27\<rparr>) = sessions r"
  "sessions (r\<lparr>rt_traceSupervisorStopping := v28\<rparr>) = sessions r"
  "sessions (r\<lparr>rt_latestPause := v29\<rparr>) = sessions r"
  "sessions (r\<lparr>rt_pendingException := v30\<rparr>) = sessions r"
  "sessions (r\<lparr>rt_eventSessionCounter := v31\<rparr>) = sessions r"
  "sessions (r\<lparr>rt_eventSessionEstablished := v32\<rparr>) = sessions r"
  "sessions (r\<lparr>rt_eventStream := v33\<rparr>) = sessions r"
  "sessions (r\<lparr>rt_instanceId := v34\<rparr>) = sessions r"
  by (simp_all add: sessions_def)

lemma sessions_set_trace [simp]: "sessions (set_trace r s) = sessions r"
  by (simp add: set_trace_def)

lemma sessions_if [simp]: "sessions (if b then r else r') = (if b then sessions r else sessions r')"
  by simp

lemma sessions_CommitTraceEventLocked [simp]: "sessions (CommitTraceEventLocked u cb r) = sessions r"
  by (simp add: CommitTraceEventLocked_def Let_def)

lemma sessions_classify: "sessions (snd (classify bpx cb r)) = sessions r"
  by (cases cb) (auto simp: classified_defs Let_def split: option.splits)

lemma sessions_commit_sections [simp]:
  "sessions (reset_ownership cb c r) = sessions r"
  "sessions (snd (correlate_exception c r)) = sessions r"
  "sessions (commit_origin c r) = sessions r"
  "sessions (snd (commit_process c r)) = sessions r"
  by (simp_all add: reset_ownership_def correlate_exception_def commit_origin_def commit_process_def
      Let_def split: option.splits)

lemma sessions_ReconcileTraceProcessExit [simp]:
  "sessions (ReconcileTraceProcessExit u r) = sessions r"
  by (simp add: ReconcileTraceProcessExit_def Let_def split: option.splits)

text \<open>A section that touches the histories does so through \<open>RecordEventLocked\<close> alone.\<close>

definition records :: "Runtime \<Rightarrow> Runtime \<Rightarrow> bool" where
  "records r r' \<longleftrightarrow> sessions r' = sessions r \<or>
     (\<exists>u e r0. sessions r0 = sessions r \<and> sessions r' = sessions (RecordEventLocked u e r0))"

lemma records_same: "sessions r' = sessions r \<Longrightarrow> records r r'"
  by (simp add: records_def)

lemma records_event: "sessions r0 = sessions r \<Longrightarrow> sessions r' = sessions (RecordEventLocked u e r0) \<Longrightarrow>
    records r r'"
  unfolding records_def by blast

lemma records_debug_event: "records r (debug_event_commit u e r)"
  by (cases "de_info e")
     (auto simp: debug_event_commit_def Let_def intro: records_same records_event [OF _ refl])

lemma records_section: "records r (perform_runtime a r)"
  by (cases a) (auto simp: trace_execute_def create_thread_abandon_def create_thread_consume_def
      create_thread_done_def ReconcileDebuggerLiveness_def runtime_Start_def supervisor_started_def
      handshake_accepted_def disconnected_def disconnected_generation_def runtime_Stop_begin_def
      runtime_Stop_supervisor_def runtime_Stop_end_def trace_admit_def trace_submitted_def
      trace_cancel_def supervisor_reserve_def supervisor_publish_def supervisor_finish_def
      pause_begin_def pause_select_def pause_failed_def pause_confirmed_def resume_take_thread_def
      Let_def intro: records_debug_event records_same split: prod.splits)

lemma records_refine_pause: "records r (refine_pause u c r)"
  unfolding refine_pause_def Let_def by (rule records_event [OF _ refl]) simp

text \<open>The state a commit records the event in, and what it does to the candidate afterwards.\<close>

definition close_candidate :: "bool \<Rightarrow> Runtime \<Rightarrow> Runtime" where
  "close_candidate clear r =
     (if clear then r\<lparr>rt_candidateEvents := [], rt_candidateHistoryOffset := 0,
                      rt_candidateEventSession := None, rt_eventSessionEstablished := False\<rparr> else r)"

lemma sessions_commit_state:
  "\<exists>u e r0. sessions r0 = sessions r \<and> sessions (commit_state u' cb c r) =
     sessions (close_candidate (cl_clearProcess c) (RecordEventLocked u e r0))"
  unfolding commit_state_def Let_def close_candidate_def sessions_CommitTraceEventLocked
  by (intro exI conjI) (rule_tac [2] refl, simp split: DebuggeeState.splits)

section \<open>The invariant of the histories\<close>

definition history_ok :: "EventRecord list \<times> u64 \<times> bool \<Rightarrow> u64 \<Rightarrow> bool" where
  "history_ok h n =
     (let (events, offset, complete) = h in
      length events \<le> kMaxEventHistory \<and> sorted_wrt (<) (map er_sequence events) \<and>
      (\<forall>e \<in> set events. er_sequence e < n) \<and> unat offset + length events < unat n \<and>
      (complete \<longrightarrow> offset = 0))"

definition histories_ok :: "Runtime \<Rightarrow> bool" where
  "histories_ok r =
     (let (h, c, _, _, n) = sessions r in
      history_ok h n \<and> history_ok c n \<and> 0 < n \<and> n \<le> kMaxJsonSafeInteger + 1)"

lemma histories_ok_sessions: "sessions r = sessions r' \<Longrightarrow> histories_ok r = histories_ok r'"
  by (simp add: histories_ok_def)

lemma next_sequence:
  assumes "n \<le> kMaxJsonSafeInteger"
  shows "unat (n + 1) = unat n + 1" "n < n + 1"
proof -
  have "unat n \<le> 9007199254740991"
    using assms by (simp add: kMaxJsonSafeInteger_def word_le_nat_alt)
  then show u: "unat (n + 1) = unat n + 1" by (simp add: unat_word_ariths)
  then show "n < n + 1" by (simp add: word_less_nat_alt)
qed

lemma history_ok_next: "history_ok h n \<Longrightarrow> n \<le> kMaxJsonSafeInteger \<Longrightarrow> history_ok h (n + 1)"
  using next_sequence [of n] by (fastforce simp: history_ok_def Let_def split: prod.splits)

lemma history_ok_empty: "0 < n \<Longrightarrow> history_ok ([], 0, b) n"
  by (simp add: history_ok_def word_greater_zero_iff unat_gt_0)

lemma history_ok_append:
  assumes "history_ok h n" "n \<le> kMaxJsonSafeInteger" "er_sequence e = n"
  shows "history_ok (append_event throws e h) (n + 1)"
proof -
  obtain es off b where h: "h = (es, off, b)" by (metis prod_cases3)
  note n = next_sequence [OF assms(2)]
  have off: "es \<noteq> [] \<Longrightarrow> unat (off + 1) = unat off + 1"
  proof -
    assume "es \<noteq> []"
    have "unat n \<le> unat kMaxJsonSafeInteger" using assms(2) by (simp add: word_le_nat_alt)
    with assms(1) have "unat off < 2 ^ 53"
      by (simp add: h history_ok_def kMaxJsonSafeInteger_def)
    then show ?thesis by (intro next_sequence) (simp add: kMaxJsonSafeInteger_def word_le_nat_alt)
  qed
  show ?thesis
    using assms(1,3) n off
    by (cases es) (auto simp: h history_ok_def append_event_def kMaxEventHistory_def sorted_wrt_append
        intro: less_trans)
qed

text \<open>What recording an event does to the histories.\<close>

lemma sessions_RecordEventLocked:
  assumes "sessions r = ((hs, ho, hc), (cs, co, cc), cand, epoch, n)"
  shows "\<exists>e'. er_sequence e' = n \<and> sessions (RecordEventLocked u e r) =
    (if n > kMaxJsonSafeInteger
     then (if cand \<noteq> None then ((hs, ho, hc), (cs, co, False), cand, epoch, n)
           else ((hs, ho, False), (cs, co, cc), cand, epoch, n))
     else (if cand \<noteq> None
           then ((hs, ho, hc), append_event (su_pushThrows u) e' (cs, co, cc), cand, epoch, n + 1)
           else (append_event (su_pushThrows u) e' (hs, ho, hc), (cs, co, cc), cand, epoch, n + 1)))"
proof -
  let ?e = "e\<lparr>er_sequence := rt_nextEventSequence r,
    er_sessionId := print_session (er_sessionId e) (rt_instanceId r)
      (case rt_candidateEventSession r of None \<Rightarrow> rt_eventSessionEpoch r | Some session \<Rightarrow> session),
    er_timestampUnixMs := su_unixMs u\<rparr>"
  have "er_sequence ?e = n" using assms by (simp add: sessions_def)
  then show ?thesis
    using assms by (intro exI [of _ ?e])
      (simp add: sessions_def RecordEventLocked_def Let_def split: prod.splits)
qed

lemma histories_ok_RecordEventLocked:
  assumes "histories_ok r"
  shows "histories_ok (RecordEventLocked u e r)"
proof -
  obtain hs ho hc cs co cc cand epoch n where
    s: "sessions r = ((hs, ho, hc), (cs, co, cc), cand, epoch, n)" by (metis prod_cases3 surj_pair)
  obtain e' where e': "er_sequence e' = n" "sessions (RecordEventLocked u e r) =
    (if n > kMaxJsonSafeInteger
     then (if cand \<noteq> None then ((hs, ho, hc), (cs, co, False), cand, epoch, n)
           else ((hs, ho, False), (cs, co, cc), cand, epoch, n))
     else (if cand \<noteq> None
           then ((hs, ho, hc), append_event (su_pushThrows u) e' (cs, co, cc), cand, epoch, n + 1)
           else (append_event (su_pushThrows u) e' (hs, ho, hc), (cs, co, cc), cand, epoch, n + 1)))"
    using sessions_RecordEventLocked [OF s] by metis
  have ok: "history_ok (hs, ho, hc) n" "history_ok (cs, co, cc) n" "0 < n" "n \<le> kMaxJsonSafeInteger + 1"
    using assms by (simp_all add: histories_ok_def s)
  show ?thesis
  proof (cases "n > kMaxJsonSafeInteger")
    case True
    have "history_ok (es, o', False) n" if "history_ok (es, o', b) n" for es o' b
      using that by (simp add: history_ok_def)
    with ok True show ?thesis by (simp add: histories_ok_def e'(2))
  next
    case False
    then have n: "n \<le> kMaxJsonSafeInteger" by simp
    have "n + 1 \<le> kMaxJsonSafeInteger + 1"
      using n next_sequence(1) [OF n] next_sequence(1) [of kMaxJsonSafeInteger]
      by (simp add: word_le_nat_alt)
    moreover have "0 < n + 1" using next_sequence(2) [OF n] by (meson less_trans ok(3))
    ultimately show ?thesis
      using False ok n history_ok_next [OF ok(1) n] history_ok_next [OF ok(2) n]
        history_ok_append [OF ok(1) n e'(1)] history_ok_append [OF ok(2) n e'(1)]
      by (simp add: histories_ok_def e'(2))
  qed
qed

lemma histories_ok_records: "records r r' \<Longrightarrow> histories_ok r \<Longrightarrow> histories_ok r'"
  unfolding records_def using histories_ok_RecordEventLocked histories_ok_sessions by metis

lemma histories_ok_open_candidate: "histories_ok r \<Longrightarrow> histories_ok (open_candidate cb r)"
  by (auto simp: histories_ok_def sessions_def open_candidate_def history_ok_empty)

lemma histories_ok_establish_session: "histories_ok r \<Longrightarrow> histories_ok (establish_session cb r)"
  by (auto simp: histories_ok_def sessions_def establish_session_def history_ok_empty)

lemma histories_ok_close_candidate: "histories_ok r \<Longrightarrow> histories_ok (close_candidate b r)"
  by (auto simp: histories_ok_def sessions_def close_candidate_def history_ok_empty)

lemma histories_ok_commit_state: "histories_ok r \<Longrightarrow> histories_ok (commit_state u cb c r)"
  using sessions_commit_state [of r u cb c] histories_ok_close_candidate histories_ok_RecordEventLocked
    histories_ok_sessions by metis

lemma histories_ok_commit_pause_or_state:
  "histories_ok r \<Longrightarrow> histories_ok (commit_pause_or_state u cb c r)"
  using histories_ok_records [OF records_same, of "CommitTraceEventLocked u cb r" r]
    histories_ok_records [OF records_refine_pause, of r u c]
  by (auto simp: commit_pause_or_state_def Let_def intro: histories_ok_commit_state)

lemma histories_ok_commit:
  assumes "histories_ok r"
  shows "histories_ok (commit u cb c r)"
proof -
  let ?r1 = "establish_session cb (open_candidate cb r)"
  have "histories_ok ?r1"
    using assms by (intro histories_ok_establish_session histories_ok_open_candidate)
  then have "histories_ok (commit_pause_or_state u cb c' r')" if "sessions r' = sessions ?r1" for c' r'
    using that histories_ok_commit_pause_or_state histories_ok_sessions by metis
  with \<open>histories_ok ?r1\<close> show ?thesis unfolding commit_def Let_def by (simp add: split_beta)
qed

interpretation histories: section_preorder "\<lambda>_. True" "\<lambda>r r'. histories_ok r \<longrightarrow> histories_ok r'"
  by unfold_locales (auto intro: histories_ok_commit histories_ok_records [OF records_section]
      simp: histories_ok_sessions [OF sessions_classify])

lemma histories_ok_run: "histories_ok (sy_runtime (run (system_init nonce) as))"
proof -
  have "histories_ok (Runtime_init nonce)"
    by (simp add: histories_ok_def sessions_def Runtime_init_def history_ok_def kMaxJsonSafeInteger_def)
  with histories.rel_run [OF pending_ok_init, of as nonce] show ?thesis
    by (simp add: system_init_def list_all_iff)
qed

lemma history_offset_bound:
  fixes nonce :: string and as :: "action list"
  defines "r \<equiv> sy_runtime (run (system_init nonce) as)"
  shows "unat (rt_eventHistoryOffset r) + length (rt_eventHistory r) < 2 ^ 54"
proof -
  define n where "n = rt_nextEventSequence r"
  have ok: "history_ok (rt_eventHistory r, rt_eventHistoryOffset r, rt_historyComplete r) n"
      "n \<le> kMaxJsonSafeInteger + 1"
    using histories_ok_run [of nonce as] by (simp_all add: r_def n_def histories_ok_def sessions_def)
  have "unat n \<le> 2 ^ 53"
    using ok(2) next_sequence(1) [of kMaxJsonSafeInteger]
    by (simp add: word_le_nat_alt kMaxJsonSafeInteger_def)
  with ok(1) show ?thesis by (simp add: history_ok_def)
qed

text \<open>
  C13. The event history is bounded and ordered: in every reachable state it has at most 65536
  events, their sequence numbers strictly increase and stay within the integers JSON can represent
  exactly, no offset of an event ever wraps, and a history that is reported complete has not
  lost its beginning.
\<close>

theorem event_history_ordered:
  fixes nonce :: string and as :: "action list"
  defines "r \<equiv> sy_runtime (run (system_init nonce) as)"
  shows "length (rt_eventHistory r) \<le> kMaxEventHistory \<and>
    sorted_wrt (<) (map er_sequence (rt_eventHistory r)) \<and>
    {e \<in> set (rt_eventHistory r). er_sequence e > kMaxJsonSafeInteger} = {} \<and>
    unat (rt_eventHistoryOffset r) + length (rt_eventHistory r) < 2 ^ 54 \<and>
    (if rt_historyComplete r then rt_eventHistoryOffset r = 0 else True)"
proof -
  define n where "n = rt_nextEventSequence r"
  have ok: "history_ok (rt_eventHistory r, rt_eventHistoryOffset r, rt_historyComplete r) n"
      "n \<le> kMaxJsonSafeInteger + 1"
    using histories_ok_run [of nonce as] by (simp_all add: r_def n_def histories_ok_def sessions_def)
  have bound: "x \<le> kMaxJsonSafeInteger" if "x < n" for x
    using that ok(2) by (simp add: word_le_nat_alt word_less_nat_alt kMaxJsonSafeInteger_def)
  have "er_sequence e \<le> kMaxJsonSafeInteger" if "e \<in> set (rt_eventHistory r)" for e
    using that ok(1) bound by (simp add: history_ok_def)
  then have "{e \<in> set (rt_eventHistory r). er_sequence e > kMaxJsonSafeInteger} = {}"
    by (metis (mono_tags, lifting) empty_Collect_eq leD)
  with history_offset_bound [of nonce as] show ?thesis using ok(1) by (simp add: history_ok_def r_def)
qed


section \<open>Attempts that fail\<close>

text \<open>The session a client pages through.\<close>

definition session_of :: "Runtime \<Rightarrow> EventRecord list \<times> u64 \<times> bool \<times> u64" where
  "session_of r = (rt_eventHistory r, rt_eventHistoryOffset r, rt_historyComplete r,
     rt_eventSessionEpoch r)"

lemma session_of_sessions:
  "sessions r = sessions r' \<Longrightarrow> session_of r = session_of r' \<and>
     rt_candidateEventSession r = rt_candidateEventSession r'"
  by (simp add: sessions_def session_of_def)

text \<open>While there is a candidate session the events go there.\<close>

lemma RecordEventLocked_candidate:
  assumes "rt_candidateEventSession r \<noteq> None"
  shows "session_of (RecordEventLocked u e r) = session_of r"
    and "rt_candidateEventSession (RecordEventLocked u e r) = rt_candidateEventSession r"
  using assms by (auto simp: session_of_def RecordEventLocked_def Let_def split: prod.splits)

definition kept :: "Runtime \<Rightarrow> Runtime \<Rightarrow> bool" where
  "kept r r' \<longleftrightarrow> rt_candidateEventSession r \<noteq> None \<longrightarrow>
     session_of r' = session_of r \<and> rt_candidateEventSession r' \<noteq> None"

lemma kept_sessions: "sessions r' = sessions r \<Longrightarrow> kept r r'"
  using session_of_sessions [of r' r] by (simp add: kept_def)

lemma kept_trans: "kept r s \<Longrightarrow> kept s t \<Longrightarrow> kept r t"
  by (auto simp: kept_def)

lemma kept_records: "records r r' \<Longrightarrow> kept r r'"
  unfolding records_def kept_def using session_of_sessions RecordEventLocked_candidate by metis

lemma kept_open_candidate: "kept r (open_candidate cb r)"
  by (simp add: kept_def open_candidate_def session_of_def)

lemma establish_session_other: "\<not> is_CREATEPROCESS cb \<Longrightarrow> establish_session cb r = r"
  by (simp add: establish_session_def)

lemma session_of_commit_state:
  assumes "rt_candidateEventSession r \<noteq> None"
  shows "session_of (commit_state u cb c r) = session_of r"
    and "\<not> cl_clearProcess c \<Longrightarrow> rt_candidateEventSession (commit_state u cb c r) \<noteq> None"
proof -
  obtain u' e r0 where r0: "sessions r0 = sessions r" "sessions (commit_state u cb c r) =
     sessions (close_candidate (cl_clearProcess c) (RecordEventLocked u' e r0))"
    using sessions_commit_state by blast
  from session_of_sessions [OF r0(1)] assms have c0: "rt_candidateEventSession r0 \<noteq> None"
    "session_of r0 = session_of r" by simp_all
  have "session_of (close_candidate b r') = session_of r'" for b r'
    by (simp add: close_candidate_def session_of_def)
  with session_of_sessions [OF r0(2)] RecordEventLocked_candidate [OF c0(1)] c0
  show "session_of (commit_state u cb c r) = session_of r" by simp
  show "rt_candidateEventSession (commit_state u cb c r) \<noteq> None" if "\<not> cl_clearProcess c"
    using that session_of_sessions [OF r0(2)] RecordEventLocked_candidate [OF c0(1)] c0
    by (simp add: close_candidate_def)
qed

lemma session_of_commit:
  assumes "rt_candidateEventSession r \<noteq> None" "\<not> is_CREATEPROCESS cb"
  shows "session_of (commit u cb c r) = session_of r"
    and "\<not> cl_clearProcess c \<Longrightarrow> rt_candidateEventSession (commit u cb c r) \<noteq> None"
proof -
  let ?r1 = "open_candidate cb r"
  have r1: "session_of ?r1 = session_of r" "rt_candidateEventSession ?r1 \<noteq> None"
    using kept_open_candidate [of r cb] assms(1) by (simp_all add: kept_def)
  have *: "session_of (commit_pause_or_state u cb c' r') = session_of r \<and>
      (cl_clearProcess c' \<or> rt_candidateEventSession (commit_pause_or_state u cb c' r') \<noteq> None)"
    if "sessions r' = sessions ?r1" for c' r'
  proof -
    from session_of_sessions [OF that] r1
    have r': "session_of r' = session_of r" "rt_candidateEventSession r' \<noteq> None" by simp_all
    have "kept r' (CommitTraceEventLocked u cb r')" by (rule kept_sessions) simp
    moreover have "kept r' (refine_pause u c' r')" by (rule kept_records) (rule records_refine_pause)
    ultimately show ?thesis
      using r' session_of_commit_state(1) [OF r'(2), of u cb c'] session_of_commit_state(2) [OF r'(2), of c' u cb]
      by (auto simp: commit_pause_or_state_def Let_def kept_def)
  qed
  have clear: "cl_clearProcess (fst (commit_process c' r')) = cl_clearProcess c'" for c' r'
    by (simp add: commit_process_def Let_def split: option.splits)
  let ?r2 = "reset_ownership cb c ?r1"
  let ?c3 = "fst (correlate_exception c ?r2)" and ?r3 = "snd (correlate_exception c ?r2)"
  let ?r4 = "commit_origin ?c3 ?r3"
  let ?c5 = "fst (commit_process ?c3 ?r4)" and ?r5 = "snd (commit_process ?c3 ?r4)"
  have "commit u cb c r = (if trace_rejects cb ?r1 then ?r1 else commit_pause_or_state u cb ?c5 ?r5)"
    by (simp add: commit_def Let_def split_beta establish_session_other [OF assms(2)])
  then show "session_of (commit u cb c r) = session_of r"
    and "\<not> cl_clearProcess c \<Longrightarrow> rt_candidateEventSession (commit u cb c r) \<noteq> None"
    using * [of ?r5 ?c5] r1 by (simp_all add: clear)
qed

text \<open>The callbacks that a run commits, in order.\<close>

fun committed :: "runtime_system \<Rightarrow> action list \<Rightarrow> callback list" where
  "committed s [] = []"
| "committed s (a # as) =
     (case a of Commit u i \<Rightarrow> if i < length (sy_pending s) then [fst (sy_pending s ! i)] else []
      | _ \<Rightarrow> []) @ committed (perform s a) as"

definition attempt :: "callback \<Rightarrow> bool" where
  "attempt cb \<longleftrightarrow> \<not> is_CREATEPROCESS cb \<and> cb \<noteq> CB_STOPDEBUG"

definition clears_only_stop :: "runtime_system \<Rightarrow> bool" where
  "clears_only_stop s \<longleftrightarrow> (\<forall>(cb, c) \<in> set (sy_pending s). cl_clearProcess c \<longrightarrow> cb = CB_STOPDEBUG)"

lemma clear_classify: "cl_clearProcess (fst (classify bpx cb r)) = (cb = CB_STOPDEBUG)"
  by (cases cb) (simp_all add: classified_defs Let_def split: option.splits prod.splits)

lemma clears_only_stop_perform: "clears_only_stop s \<Longrightarrow> clears_only_stop (perform s a)"
proof (cases a)
  case (Classify bpx cb)
  obtain c r where c: "classify bpx cb (sy_runtime s) = (c, r)" by fastforce
  have "cl_clearProcess c = (cb = CB_STOPDEBUG)" using clear_classify [of bpx cb "sy_runtime s"] c by simp
  moreover assume "clears_only_stop s"
  ultimately show ?thesis using Classify c by (simp add: perform_def clears_only_stop_def)
qed (auto simp: perform_def clears_only_stop_def split: prod.splits dest: in_set_takeD in_set_dropD)

lemma clears_only_stop_run: "clears_only_stop s \<Longrightarrow> clears_only_stop (run s as)"
  by (induction as arbitrary: s) (auto intro: clears_only_stop_perform)

lemma clears_only_stop_init [simp]: "clears_only_stop (system_init nonce)"
  by (simp add: clears_only_stop_def system_init_def)

lemma perform_attempt:
  assumes "clears_only_stop s" "list_all attempt (committed s [a])"
  shows "kept (sy_runtime s) (sy_runtime (perform s a))"
proof (cases a)
  case (Classify bpx cb)
  then show ?thesis using kept_sessions [OF sessions_classify [of bpx cb "sy_runtime s"]]
    by (auto simp: perform_def split: prod.splits)
next
  case (Commit u i)
  show ?thesis
  proof (cases "i < length (sy_pending s)")
    case True
    obtain cb c where p: "sy_pending s ! i = (cb, c)" by fastforce
    with True assms(1) have "cl_clearProcess c \<longrightarrow> cb = CB_STOPDEBUG"
      unfolding clears_only_stop_def by (metis (mono_tags, lifting) case_prodD nth_mem)
    moreover have "attempt cb" using assms(2) True p Commit by simp
    ultimately show ?thesis
      using True p Commit session_of_commit(1) [of "sy_runtime s" cb u c] session_of_commit(2) [of "sy_runtime s" cb c u]
      by (auto simp: perform_def kept_def attempt_def)
  qed (simp add: Commit perform_def kept_def)
qed (use kept_records [OF records_section, of "sy_runtime s" a] in \<open>simp add: perform_def\<close>)+

lemma run_attempt:
  assumes "clears_only_stop s" "list_all attempt (committed s as)"
  shows "kept (sy_runtime s) (sy_runtime (run s as))"
  using assms
proof (induction as arbitrary: s)
  case (Cons a as)
  then have "list_all attempt (committed s [a])" "list_all attempt (committed (perform s a) as)"
    by simp_all
  with Cons perform_attempt clears_only_stop_perform show ?case
    by (metis kept_trans run_simps(2))
qed (simp add: kept_def)

text \<open>
  C12. A failed attempt costs no history: from the moment a launch or attach attempt has opened a
  candidate session until the debugger stops without having created a process, whatever
  runs in between, the events, offsets, completeness and epoch of the established session stay as
  they were, so every cursor handed out before stays good.
\<close>

theorem failed_attempt_keeps_history:
  assumes "s = run (system_init nonce) earlier"
    and "rt_candidateEventSession (sy_runtime s) \<noteq> None"
    and "list_all attempt (committed s as)"
    and "i < length (sy_pending (run s as))" "fst (sy_pending (run s as) ! i) = CB_STOPDEBUG"
  shows "session_of (sy_runtime (run s as)) = session_of (sy_runtime s) \<and>
    session_of (sy_runtime (run s (as @ [Commit u i]))) = session_of (sy_runtime s)"
proof -
  have "clears_only_stop s" by (simp add: assms(1) clears_only_stop_run)
  from run_attempt [OF this assms(3)] assms(2)
  have k: "session_of (sy_runtime (run s as)) = session_of (sy_runtime s)"
    "rt_candidateEventSession (sy_runtime (run s as)) \<noteq> None" by (simp_all add: kept_def)
  obtain c where "sy_pending (run s as) ! i = (CB_STOPDEBUG, c)" using assms(5) by (metis prod.collapse)
  with assms(4) k session_of_commit(1) [OF k(2), of CB_STOPDEBUG u c] show ?thesis
    by (simp add: perform_def)
qed

definition attempt_run :: "action list" where
  "attempt_run = [Debug_event quiet \<lparr>de_processId = 7, de_threadId = 8,
       de_info = LOAD_DLL_DEBUG_EVENT 0x400000\<rparr>,
     Classify 16 CB_INITDEBUG, Commit quiet 0]"

theorem failed_attempt_keeps_history_witness:
  "session_of (sy_runtime (run (run (system_init ''nonce'') attempt_run) ([Classify 16 CB_STOPDEBUG] @ [Commit quiet 0]))) =
   session_of (sy_runtime (run (system_init ''nonce'') attempt_run)) \<and>
   length (rt_eventHistory (sy_runtime (run (system_init ''nonce'') attempt_run))) = 1"
proof (rule conjI, rule failed_attempt_keeps_history [OF refl, THEN conjunct2])
  show "rt_candidateEventSession (sy_runtime (run (system_init ''nonce'') attempt_run)) \<noteq> None"
    by code_simp
  show "list_all attempt (committed (run (system_init ''nonce'') attempt_run) [Classify 16 CB_STOPDEBUG])"
    by code_simp
  show "0 < length (sy_pending (run (run (system_init ''nonce'') attempt_run) [Classify 16 CB_STOPDEBUG]))"
    by code_simp
  show "fst (sy_pending (run (run (system_init ''nonce'') attempt_run) [Classify 16 CB_STOPDEBUG]) ! 0) = CB_STOPDEBUG"
    by code_simp
  show "length (rt_eventHistory (sy_runtime (run (system_init ''nonce'') attempt_run))) = 1"
    by code_simp
qed

end
