(* ===== verification/Runtime_Traces.thy ===== *)
theory Runtime_Traces
  imports Runtime_Snapshots
begin

text \<open>
  The trace inside the runtime: whatever the callbacks, tools and threads of the plugin do, the two
  members \<open>trace_\<close> and \<open>traceStop_\<close> go through steps of the trace system of \<open>Trace_Policy\<close> only,
  so its invariants hold of the running plugin.
\<close>

definition traced :: "Runtime \<Rightarrow> Runtime \<Rightarrow> bool" where
  "traced r r' \<longleftrightarrow> reaches trace_step (trace_of r) (trace_of r')"

lemma traced_refl [simp]: "traced r r"
  by (simp add: traced_def reaches_refl)

lemma traced_trans: "traced r s \<Longrightarrow> traced s t \<Longrightarrow> traced r t"
  unfolding traced_def by (rule reaches_trans)

lemma traced_same: "trace_of r' = trace_of r \<Longrightarrow> traced r r'"
  by (simp add: traced_def reaches_refl)

lemma traced_step: "trace_step (trace_of r) s \<Longrightarrow> traced r (set_trace r s)"
  by (cases s) (auto simp: traced_def trace_of_def set_trace_def intro: reaches_step [OF reaches_refl])

lemma traced_then: "traced r s \<Longrightarrow> trace_of t = trace_of s \<Longrightarrow> traced r t"
  by (simp add: traced_def)

text \<open>The clock is below the largest time point, as every value of \<open>steady_clock::now()\<close> is.\<close>

fun clock_ok :: "action \<Rightarrow> bool" where
  "clock_ok (Supervisor_reserve u) = (su_steady u < time_max)"
| "clock_ok _ = True"

lemma trace_of_updates [simp]:
  "trace_of (r\<lparr>rt_debuggeeState := v0\<rparr>) = trace_of r"
  "trace_of (r\<lparr>rt_sessionOrigin := v1\<rparr>) = trace_of r"
  "trace_of (r\<lparr>rt_generation := v2\<rparr>) = trace_of r"
  "trace_of (r\<lparr>rt_pausedGeneration := v3\<rparr>) = trace_of r"
  "trace_of (r\<lparr>rt_runningGeneration := v4\<rparr>) = trace_of r"
  "trace_of (r\<lparr>rt_absentGeneration := v5\<rparr>) = trace_of r"
  "trace_of (r\<lparr>rt_processId := v6\<rparr>) = trace_of r"
  "trace_of (r\<lparr>rt_activeThreadId := v7\<rparr>) = trace_of r"
  "trace_of (r\<lparr>rt_attachProcessId := v8\<rparr>) = trace_of r"
  "trace_of (r\<lparr>rt_attachGeneration := v9\<rparr>) = trace_of r"
  "trace_of (r\<lparr>rt_detachProcessId := v10\<rparr>) = trace_of r"
  "trace_of (r\<lparr>rt_detachGeneration := v11\<rparr>) = trace_of r"
  "trace_of (r\<lparr>rt_pauseInterruptPending := v12\<rparr>) = trace_of r"
  "trace_of (r\<lparr>rt_ownedPauseException := v13\<rparr>) = trace_of r"
  "trace_of (r\<lparr>rt_ownedPauseSelectedThreadId := v14\<rparr>) = trace_of r"
  "trace_of (r\<lparr>rt_processEpoch := v15\<rparr>) = trace_of r"
  "trace_of (r\<lparr>rt_rawEventSequence := v16\<rparr>) = trace_of r"
  "trace_of (r\<lparr>rt_nativePauseEvent := v17\<rparr>) = trace_of r"
  "trace_of (r\<lparr>rt_pendingTraceThread := v18\<rparr>) = trace_of r"
  "trace_of (r\<lparr>rt_traceAdmissionEvent := v19\<rparr>) = trace_of r"
  "trace_of (r\<lparr>rt_traceAdmissionGeneration := v20\<rparr>) = trace_of r"
  "trace_of (r\<lparr>rt_traceProcess := v21\<rparr>) = trace_of r"
  "trace_of (r\<lparr>rt_traceInterruptThread := v22\<rparr>) = trace_of r"
  "trace_of (r\<lparr>rt_traceInterruptAddress := v23\<rparr>) = trace_of r"
  "trace_of (r\<lparr>rt_tracePauseCallbackInFlight := v24\<rparr>) = trace_of r"
  "trace_of (r\<lparr>rt_traceSupervisorStopping := v25\<rparr>) = trace_of r"
  "trace_of (r\<lparr>rt_latestPause := v26\<rparr>) = trace_of r"
  "trace_of (r\<lparr>rt_pendingException := v27\<rparr>) = trace_of r"
  "trace_of (r\<lparr>rt_eventHistory := v28\<rparr>) = trace_of r"
  "trace_of (r\<lparr>rt_candidateEvents := v29\<rparr>) = trace_of r"
  "trace_of (r\<lparr>rt_eventHistoryOffset := v30\<rparr>) = trace_of r"
  "trace_of (r\<lparr>rt_candidateHistoryOffset := v31\<rparr>) = trace_of r"
  "trace_of (r\<lparr>rt_eventSessionEpoch := v32\<rparr>) = trace_of r"
  "trace_of (r\<lparr>rt_eventSessionCounter := v33\<rparr>) = trace_of r"
  "trace_of (r\<lparr>rt_candidateEventSession := v34\<rparr>) = trace_of r"
  "trace_of (r\<lparr>rt_eventSessionEstablished := v35\<rparr>) = trace_of r"
  "trace_of (r\<lparr>rt_historyComplete := v36\<rparr>) = trace_of r"
  "trace_of (r\<lparr>rt_candidateHistoryComplete := v37\<rparr>) = trace_of r"
  "trace_of (r\<lparr>rt_nextEventSequence := v38\<rparr>) = trace_of r"
  "trace_of (r\<lparr>rt_eventStream := v39\<rparr>) = trace_of r"
  "trace_of (r\<lparr>rt_instanceId := v40\<rparr>) = trace_of r"
  "trace_of (r\<lparr>rt_pluginState := v41\<rparr>) = trace_of r"
  by (simp_all add: trace_of_def)

lemma trace_of_if [simp]: "trace_of (if b then r else r') = (if b then trace_of r else trace_of r')"
  by simp

lemma trace_of_RecordEventLocked [simp]: "trace_of (RecordEventLocked u e r) = trace_of r"
  by (simp add: RecordEventLocked_def Let_def split: prod.splits)

lemma trace_of_simps [simp]:
  "trace_of (set_trace r s) = s"
  "trace_of (open_candidate cb r) = trace_of r"
  "trace_of (establish_session cb r) = trace_of r"
  "trace_of (reset_ownership cb c r) = trace_of r"
  "trace_of (snd (correlate_exception c r)) = trace_of r"
  "trace_of (commit_origin c r) = trace_of r"
  "trace_of (snd (commit_process c r)) = trace_of r"
  "trace_of (refine_pause u c r) = trace_of r"
  by (simp_all add: open_candidate_def establish_session_def reset_ownership_def
      correlate_exception_def commit_origin_def commit_process_def refine_pause_def Let_def
      split: option.splits)
     (simp add: trace_of_def set_trace_def)

lemma trace_of_classify: "trace_of (snd (classify bpx cb r)) = trace_of r"
  by (cases cb) (auto simp: trace_of_def classified_defs Let_def split: option.splits)

lemma pause_fallback_cases: "pause_fallback k \<in> {rs_breakpoint, rs_exception, rs_userPause}"
  by (simp add: pause_fallback_def)

lemma traced_exit: "traced r (set_trace r (ProcessExited (trace_of r)))"
  by (rule traced_step) (rule trace_step.exited, rule refl)

lemma traced_if: "traced r s \<Longrightarrow> traced r (if b then s else r)"
  by simp

lemma traced_CommitTraceEventLocked: "traced r (CommitTraceEventLocked u cb r)"
proof -
  define r1 where
    "r1 = (if cb = CB_PAUSEDEBUG then r\<lparr>rt_nativePauseEvent := Some (rt_rawEventSequence r)\<rparr> else r)"
  define r2 where
    "r2 = (if cb = CB_RESUMEDEBUG \<and> Active (rt_trace r1)
           then r1\<lparr>rt_traceStop := Resumed (rt_traceStop r1)\<rparr> else r1)"
  define r3 where
    "r3 = (if cb = CB_PAUSEDEBUG \<and> Active (rt_trace r2)
           then set_trace r2 (PauseCommitted (trace_of r2) (pause_fallback (po_kind (rt_latestPause r2))))
           else r2)"
  have 1: "traced r r1" unfolding r1_def by (intro traced_if traced_same) simp
  have "r1\<lparr>rt_traceStop := Resumed (rt_traceStop r1)\<rparr> =
      set_trace r1 (rt_trace r1, Resumed (rt_traceStop r1))"
    by (simp add: set_trace_def)
  moreover have "trace_step (trace_of r1) (rt_trace r1, Resumed (rt_traceStop r1))"
    unfolding trace_of_def by (rule trace_step.resumed [OF refl])
  ultimately have 2: "traced r1 r2" unfolding r2_def by (simp add: traced_step traced_if)
  have 3: "traced r2 r3"
    unfolding r3_def
    by (intro traced_if traced_step) (rule trace_step.paused [OF pause_fallback_cases refl])
  have "CommitTraceEventLocked u cb r =
      (if exit_observed u cb r3 then set_trace r3 (ProcessExited (trace_of r3)) else r3)"
    by (simp only: CommitTraceEventLocked_def Let_def r1_def r2_def r3_def)
  then have "traced r3 (CommitTraceEventLocked u cb r)" by (simp add: traced_exit)
  with 1 2 3 show ?thesis by (meson traced_trans)
qed

lemma traced_Commit_after: "trace_of r' = trace_of r \<Longrightarrow> traced r (CommitTraceEventLocked u cb r')"
  using traced_CommitTraceEventLocked [of r' u cb] by (simp add: traced_def)

lemma traced_commit_state: "traced r (commit_state u cb c r)"
  unfolding commit_state_def Let_def
  by (rule traced_Commit_after) (simp split: DebuggeeState.splits)

lemma traced_commit_pause_or_state: "traced r (commit_pause_or_state u cb c r)"
  by (simp add: commit_pause_or_state_def Let_def traced_CommitTraceEventLocked
      traced_commit_state traced_same)

lemma traced_commit: "traced r (commit u cb c r)"
proof -
  let ?r1 = "establish_session cb (open_candidate cb r)"
  have "traced r ?r1" by (rule traced_same) simp
  moreover have "traced r (commit_pause_or_state u cb c' r')" if "trace_of r' = trace_of r" for c' r'
    using that traced_commit_pause_or_state traced_same traced_trans by metis
  ultimately show ?thesis unfolding commit_def Let_def by (simp add: split_beta)
qed

lemma traced_ReconcileTraceProcessExit: "traced r (ReconcileTraceProcessExit u r)"
proof (cases "rt_traceProcess r")
  case (Some h)
  let ?r1 = "if tk_process (ts_ticket (rt_traceStop r)) = rt_processEpoch r \<and>
      rt_processId r = su_processId u h
    then r\<lparr>rt_debuggeeState := ds_exited, rt_processId := 0, rt_activeThreadId := 0,
           rt_nativePauseEvent := None, rt_latestPause := no_pause,
           rt_generation := rt_generation r + 1\<rparr> else r"
  have "traced r ?r1" by (rule traced_same) (simp add: trace_of_def)
  moreover have "traced ?r1 (set_trace ?r1 (ProcessExited (trace_of ?r1)))" by (rule traced_exit)
  ultimately have "traced r (set_trace ?r1 (ProcessExited (trace_of ?r1)))" by (rule traced_trans)
  then show ?thesis
    using Some unfolding ReconcileTraceProcessExit_def Let_def
    by (auto elim: traced_then simp: trace_of_def simp del: trace_of_simps(1))
qed (simp add: ReconcileTraceProcessExit_def)

lemma traced_stop_update:
  "trace_step (rt_trace r, rt_traceStop r) (rt_trace r, c) \<Longrightarrow> traced r (r\<lparr>rt_traceStop := c\<rparr>)"
  using traced_step [of r "(rt_trace r, c)"] by (simp add: trace_of_def set_trace_def)

lemma traced_admit: "traced r (snd (trace_admit q r))"
proof -
  obtain ok t where st: "Start (rt_trace r) (tr_id q) (tr_mode q) (tr_maxSteps q) (tr_deadline q)
      (tr_cip q) (tr_modules q) = (ok, t)" by fastforce
  obtain k c where bg: "Begin (rt_traceStop r) (tr_processEpoch q) (tr_processId q) = (k, c)" by fastforce
  have "\<not> ok \<Longrightarrow> t = rt_trace r" using st by (auto simp: Start_def split: if_splits)
  moreover have "ok \<Longrightarrow> trace_step (trace_of r) (t, c)"
    using st bg unfolding trace_of_def by (auto intro: trace_step.start)
  ultimately show ?thesis
    using st bg unfolding traced_def
    by (auto simp: trace_admit_def reaches_refl trace_of_def intro: reaches_step [OF reaches_refl])
qed

lemma traced_section: "clock_ok a \<Longrightarrow> traced r (perform_runtime a r)"
proof (cases a)
  case (Debug_event u e)
  then show ?thesis
    by (cases "de_info e") (simp_all add: traced_same debug_event_commit_def Let_def)
next
  case (Trace_execute u cip stop)
  obtain b s where "Step (trace_of r) cip stop (su_steady u) = (b, s)" by (metis surj_pair)
  with trace_step.step [OF this] Trace_execute show ?thesis
    by (simp add: trace_execute_def traced_step)
next
  case (Thread_abandon ticket)
  then show ?thesis
    by (simp add: create_thread_abandon_def traced_stop_update trace_step.abandon [OF refl])
next
  case (Thread_consume raw tid entry)
  obtain b c where "ThreadCreated (rt_traceStop r) (rt_processEpoch r) (er_processId raw) tid
      (er_kind raw = ev_threadCreated) entry = (b, c)" by fastforce
  with trace_step.created [OF this, of "rt_trace r"] Thread_consume show ?thesis
    by (auto simp: create_thread_consume_def intro: traced_stop_update traced_then)
next
  case (Reconcile_exit u)
  then show ?thesis by (simp add: traced_ReconcileTraceProcessExit)
next
  case (Liveness u earlier observed)
  then show ?thesis by (simp add: ReconcileDebuggerLiveness_def Let_def traced_Commit_after)
next
  case (Start_plugin u)
  then show ?thesis
    using traced_ReconcileTraceProcessExit [of r u]
    by (auto simp: runtime_Start_def Let_def intro: traced_then)
next
  case (Stop_begin u)
  have "traced r' (set_trace r' (Trace_Policy.Request (trace_of r') rs_backendShutdown now))" for r' now
    by (intro traced_step trace_step.request [OF _ refl]) simp
  from this [of "r\<lparr>rt_pluginState := pl_draining\<rparr>"] Stop_begin show ?thesis
    by (simp add: runtime_Stop_begin_def Let_def traced_def reaches_refl)
next
  case (Trace_admit q)
  then show ?thesis by (simp add: traced_admit)
next
  case (Trace_submitted ticket accepted)
  then show ?thesis
    by (simp add: trace_submitted_def traced_step trace_step.submitted [OF refl])
next
  case (Trace_cancel u i)
  have "traced r (set_trace r (Trace_Policy.Request (trace_of r) rs_cancelled now))" for now
    by (intro traced_step trace_step.request [OF _ refl]) simp
  with Trace_cancel show ?thesis by (simp add: trace_cancel_def)
next
  case (Supervisor_reserve u)
  obtain k s where k: "Reserve (trace_of r) (su_steady u) = (k, s)" by (metis surj_pair)
  assume "clock_ok a"
  with Supervisor_reserve trace_step.reserve [OF _ k] k show ?thesis
    by (simp add: supervisor_reserve_def traced_step)
next
  case (Supervisor_publish ticket thread tid x)
  obtain b c where bc: "Issue (rt_traceStop r) ticket tid x = (b, c)" by fastforce
  have "traced r (r\<lparr>rt_traceStop := c\<rparr>)"
    by (rule traced_stop_update) (rule trace_step.issue [OF bc])
  with bc Supervisor_publish show ?thesis
    by (auto simp: supervisor_publish_def Let_def traced_def trace_of_def reaches_refl)
next
  case (Supervisor_finish ticket retired)
  then show ?thesis by (simp add: supervisor_finish_def traced_step trace_step.finish [OF refl])
qed (simp_all add: traced_same create_thread_done_def supervisor_started_def handshake_accepted_def
    disconnected_def disconnected_generation_def runtime_Stop_supervisor_def runtime_Stop_end_def
    pause_begin_def pause_select_def pause_failed_def pause_confirmed_def resume_take_thread_def)

interpretation tracing: section_preorder clock_ok traced
proof
  show "traced r (snd (classify bpx cb r))" for r bpx cb
    by (rule traced_same) (rule trace_of_classify)
qed (auto intro: traced_commit traced_section traced_trans)

text \<open>
  C3. The runtime implements the trace system: in every state the plugin can reach, by
  any interleaving of callbacks, tools, the supervisor, start and stop, the trace and its stop
  coordinator are in a state that the methods of \<open>TracePolicy\<close> and \<open>TraceStopCoordinator\<close> reach
  from their initial values. In particular a trace that is terminal was submitted, has no
  interrupt in flight or unresolved and a state that agrees with its reason.
\<close>

theorem runtime_refines_trace:
  assumes "list_all clock_ok as" "r = sy_runtime (run (system_init nonce) as)"
  shows "reaches trace_step (TracePolicy_init, TraceStopCoordinator_init) (rt_trace r, rt_traceStop r) \<and>
    (if Terminal (rt_trace r)
     then ts_submitted (rt_traceStop r) \<and> \<not> ts_interruptInFlight (rt_traceStop r) \<and>
       \<not> Unresolved (rt_traceStop r) \<and> tp_state (rt_trace r) = reason_state (tp_reason (rt_trace r))
     else True)"
proof -
  have "traced (Runtime_init nonce) r"
    using tracing.rel_run [OF pending_ok_init assms(1)] assms(2) by (simp add: system_init_def)
  then have reach: "reaches trace_step (TracePolicy_init, TraceStopCoordinator_init)
      (rt_trace r, rt_traceStop r)"
    by (simp add: traced_def trace_of_def Runtime_init_def)
  have "trace_inv (rt_trace r, rt_traceStop r)"
    by (rule trace.inv_reachable [OF _ reach]) (simp add: trace_init_def)
  with reach show ?thesis
    by (auto simp: trace_inv_def settled_def policy_ok_def Terminal_def split: if_splits)
qed

definition traced_run :: "action list" where
  "traced_run = paused_run @
    [Trace_admit \<lparr>tr_processEpoch = 0, tr_processId = 0, tr_snapshot = 2, tr_id = ''t'', tr_mode = mode_into,
       tr_maxSteps = 1, tr_deadline = 1000, tr_cip = 0x1000, tr_modules = [], tr_process = 5,
       tr_remoteBreak = 0x7000\<rparr>,
     Trace_submitted \<lparr>tk_trace = 1, tk_process = 0\<rparr> True, Trace_execute quiet 0x1004 False,
     Classify 16 CB_PAUSEDEBUG, Commit quiet 0]"

theorem runtime_refines_trace_witness:
  "Terminal (rt_trace (sy_runtime (run (system_init ''nonce'') traced_run))) \<and>
   ts_submitted (rt_traceStop (sy_runtime (run (system_init ''nonce'') traced_run)))"
proof -
  have t: "Terminal (rt_trace (sy_runtime (run (system_init ''nonce'') traced_run)))" by code_simp
  have "list_all clock_ok traced_run" by (simp add: traced_run_def paused_run_def)
  from runtime_refines_trace [OF this refl, of "''nonce''"] t show ?thesis by simp
qed

end
