(* ===== verification/Runtime_Pages.thy ===== *)
theory Runtime_Pages
  imports Runtime_Responses Runtime_Histories Runtime_Traces
begin

text \<open>
  Paging: what a client that follows the cursors of \<open>events.list\<close> and \<open>trace.results\<close> gets to see.
\<close>

section \<open>The event filter\<close>

lemma event_kind_code_inject [simp]: "event_kind_code a = event_kind_code b \<longleftrightarrow> a = b"
  by (cases a; cases b) simp_all

lemma event_kind_code_less [simp]: "event_kind_code k < 19" "event_kind_code k < 32"
  by (cases k, simp_all)+

lemma bit_push_one: "bit (push_bit n 1 :: u32) m \<longleftrightarrow> n = m \<and> m < 32"
  by (auto simp: bit_exp_iff)

lemma bit_foldl_kinds:
  "bit (foldl (\<lambda>f k. f OR push_bit (event_kind_code k) 1) f kinds :: u32) m \<longleftrightarrow>
     bit f m \<or> m \<in> event_kind_code ` set kinds"
proof (induction kinds arbitrary: f)
  case (Cons k ks)
  have "bit (push_bit (event_kind_code k) 1 :: u32) m \<longleftrightarrow> m = event_kind_code k"
    by (auto simp only: bit_push_one event_kind_code_less)
  with Cons show ?case by (auto simp: bit_or_iff)
qed simp

lemma in_filter_bit: "in_filter f e \<longleftrightarrow> bit f (event_kind_code (er_kind e))"
proof -
  let ?n = "event_kind_code (er_kind e)"
  have "f AND push_bit ?n 1 = (if bit f ?n then push_bit ?n 1 else 0)"
    by (rule bit_word_eqI) (auto simp only: bit_and_iff bit_push_one bit_0_eq bot_apply bot_bool_def
        split: if_splits)
  moreover have "bit (push_bit ?n 1 :: u32) ?n" by (simp only: bit_push_one event_kind_code_less)
  then have "push_bit ?n 1 \<noteq> (0 :: u32)" by (metis bit_0_eq bot_apply bot_bool_def)
  ultimately show ?thesis by (simp add: in_filter_def)
qed

lemma in_filter_wanted: "in_filter (event_filter kinds) e \<longleftrightarrow> wanted_kind kinds e"
proof (cases "kinds = []")
  case True
  have "event_filter [] = mask 19" by (simp add: event_filter_def mask_eq_exp_minus_1)
  then have "in_filter (event_filter []) e \<longleftrightarrow> bit (mask 19 :: u32) (event_kind_code (er_kind e))"
    by (simp only: in_filter_bit)
  also have "\<dots>" by (simp only: bit_mask_iff event_kind_code_less possible_bit_word) simp
  finally show ?thesis using True by (simp add: wanted_kind_def)
next
  case False
  let ?f = "foldl (\<lambda>f k. f OR push_bit (event_kind_code k) 1) (0 :: u32) kinds"
  have "bit ?f (event_kind_code (hd kinds))" unfolding bit_foldl_kinds using False by simp
  then have "?f \<noteq> 0" by auto
  then show ?thesis
    using False bit_foldl_kinds [of 0 kinds "event_kind_code (er_kind e)"]
    by (auto simp: event_filter_def in_filter_bit wanted_kind_def Let_def)
qed

section \<open>The pages of the event history\<close>

lemma event_page_loop_all:
  assumes "length copied \<le> limit"
  shows "length copied + length (filter (in_filter f) es) \<le> limit \<and>
      event_page_loop (\<lambda>_. False) f limit es index offset copied =
        Inr (copied @ filter (in_filter f) es, None) \<or>
    (\<exists>k < length es. in_filter f (es ! k) \<and>
      length copied + length (filter (in_filter f) (take k es)) = limit \<and>
      event_page_loop (\<lambda>_. False) f limit es index offset copied =
        Inr (copied @ filter (in_filter f) (take k es), Some (offset + of_nat k)))"
  using assms
proof (induction es arbitrary: index offset copied)
  case (Cons e es)
  show ?case
  proof (cases "in_filter f e \<and> length copied = limit")
    case True
    then show ?thesis by (intro disjI2 exI [of _ 0]) simp
  next
    case False
    define copied' where "copied' = (if in_filter f e then copied @ [e] else copied)"
    have l: "length copied' \<le> limit" using False Cons.prems by (auto simp: copied'_def)
    have step: "event_page_loop (\<lambda>_. False) f limit (e # es) index offset copied =
        event_page_loop (\<lambda>_. False) f limit es (Suc index) (offset + 1) copied'"
      using False Cons.prems by (auto simp: copied'_def)
    have f: "copied @ filter (in_filter f) (e # xs) = copied' @ filter (in_filter f) xs" for xs
      by (simp add: copied'_def)
    have len: "length copied + length (filter (in_filter f) (e # xs)) =
        length copied' + length (filter (in_filter f) xs)" for xs
      by (simp add: copied'_def)
    from Cons.IH [OF l, of "Suc index" "offset + 1"] show ?thesis
    proof (elim disjE exE conjE)
      fix k assume k: "k < length es" "in_filter f (es ! k)"
        "length copied' + length (filter (in_filter f) (take k es)) = limit"
        "event_page_loop (\<lambda>_. False) f limit es (Suc index) (offset + 1) copied' =
          Inr (copied' @ filter (in_filter f) (take k es), Some (offset + 1 + of_nat k))"
      have "offset + 1 + of_nat k = offset + of_nat (Suc k)" by simp
      with k show ?thesis
        by (intro disjI2 exI [of _ "Suc k"]) (simp only: step f len take_Suc_Cons nth_Cons_Suc, simp)
    qed (simp only: step f len, simp)
  qed
qed simp

lemma event_offset_cursor:
  assumes "unat (rt_eventHistoryOffset r) \<le> n"
    "n \<le> unat (rt_eventHistoryOffset r) + length (rt_eventHistory r)" "n < 2 ^ 64"
  shows "event_offset r f (event_prefix r f @ to_string n) = Inr (of_nat n)"
proof -
  have u: "unat (of_nat n :: u64) = n" using assms(3) by (simp add: unat_of_nat take_bit_nat_eq_self)
  then have "from_chars 10 (to_string n) v = (errc_ok, length (to_string n), (of_nat n :: u64))" for v
    by (metis from_chars_text(1))
  moreover have "\<not> of_nat n < rt_eventHistoryOffset r"
    using assms(1) u by (simp add: word_less_nat_alt)
  moreover have "unat (of_nat n - rt_eventHistoryOffset r) = n - unat (rt_eventHistoryOffset r)"
    using assms(1) u by (simp add: unat_sub word_le_nat_alt)
  moreover have "event_prefix r f \<noteq> []" by (simp add: event_prefix_def)
  moreover have "\<not> length (rt_eventHistory r) < n - unat (rt_eventHistoryOffset r)" using assms(2) by simp
  ultimately show ?thesis by (simp add: event_offset_def)
qed

text \<open>
  C11. Paging through the events loses and repeats nothing: in every reachable state, a request for
  the events from absolute position \<open>n\<close> on (the position of a cursor of this session and
  filter, or the beginning of the history when it has none) is answered with exactly the first
  \<open>limit\<close> events of the wanted kinds from there, and the next cursor stands for a later position
  from which exactly the remaining ones follow; there is none when none remain.
\<close>

theorem events_list_pages:
  fixes q :: "('w :: len) word Request"
  assumes "r = sy_runtime (run (system_init nonce) as)"
    and "unat (rt_eventHistoryOffset r) \<le> n"
    and "n \<le> unat (rt_eventHistoryOffset r) + length (rt_eventHistory r)"
    and "rq_eventCursor q = event_prefix r (event_filter (rq_eventTypes q)) @ to_string n \<or>
      rq_eventCursor q = [] \<and> n = unat (rt_eventHistoryOffset r)"
    and "0 < rq_pageLimit q"
  defines "rest \<equiv> \<lambda>m. filter (wanted_kind (rq_eventTypes q))
      (drop (m - unat (rt_eventHistoryOffset r)) (rt_eventHistory r))"
  shows "\<exists>p. events_list (\<lambda>_. False) q r = Inr p \<and> ep_items p = take (rq_pageLimit q) (rest n) \<and>
    (case ep_next p of
       None \<Rightarrow> length (rest n) \<le> rq_pageLimit q
     | Some c \<Rightarrow> \<exists>m > n. c = event_prefix r (event_filter (rq_eventTypes q)) @ to_string m \<and>
         m \<le> unat (rt_eventHistoryOffset r) + length (rt_eventHistory r) \<and>
         rest m = drop (rq_pageLimit q) (rest n))"
proof -
  define f where "f = event_filter (rq_eventTypes q)"
  define off where "off = unat (rt_eventHistoryOffset r)"
  define es where "es = drop (n - off) (rt_eventHistory r)"
  have in_f: "in_filter f = wanted_kind (rq_eventTypes q)" by (rule ext) (simp add: f_def in_filter_wanted)
  have bound: "off + length (rt_eventHistory r) < 2 ^ 54"
    using history_offset_bound [of nonce as] by (simp add: assms(1) off_def)
  then have n64: "n < 2 ^ 64" using assms(3) by (simp add: off_def)
  have un: "unat (of_nat n :: u64) = n" using n64 by (simp add: unat_of_nat take_bit_nat_eq_self)
  have "event_offset r f [] = Inr (of_nat (unat (rt_eventHistoryOffset r)))"
    by (simp add: event_offset_def)
  then have offset: "event_offset r f (rq_eventCursor q) = Inr (of_nat n)"
    using assms(4) event_offset_cursor [OF assms(2,3) n64, of f] unfolding f_def [symmetric] by metis
  have index: "unat (of_nat n - rt_eventHistoryOffset r) = n - off"
    using assms(2) un by (simp add: unat_sub word_le_nat_alt off_def)
  have rest_n: "rest n = filter (in_filter f) es" by (simp add: rest_def in_f es_def off_def)
  from event_page_loop_all [of "[]" "rq_pageLimit q" f es "n - off" "of_nat n"]
  consider "length (rest n) \<le> rq_pageLimit q"
      "event_page_loop (\<lambda>_. False) f (rq_pageLimit q) es (n - off) (of_nat n) [] = Inr (rest n, None)"
    | k where "k < length es" "in_filter f (es ! k)"
      "length (filter (in_filter f) (take k es)) = rq_pageLimit q"
      "event_page_loop (\<lambda>_. False) f (rq_pageLimit q) es (n - off) (of_nat n) [] =
        Inr (filter (in_filter f) (take k es), Some (of_nat n + of_nat k))"
    by (auto simp: rest_n)
  then show ?thesis
  proof cases
    case 1
    then show ?thesis using offset index by (simp add: events_list_def f_def [symmetric] es_def [symmetric])
  next
    case 2
    have split: "rest n = filter (in_filter f) (take k es) @ filter (in_filter f) (drop k es)"
      unfolding rest_n by (metis append_take_drop_id filter_append)
    have nk: "n + k \<le> off + length (rt_eventHistory r)"
      using 2(1) assms(2) by (simp add: es_def off_def)
    then have "unat (of_nat n + of_nat k :: u64) = n + k"
      using bound by (simp flip: of_nat_add add: unat_of_nat take_bit_nat_eq_self)
    moreover have "rest (n + k) = drop (rq_pageLimit q) (rest n)"
      using 2(3) assms(2) by (simp add: split) (simp add: rest_def in_f es_def off_def add.commute)
    moreover have "0 < k" using 2(3) assms(5) by (cases k) auto
    ultimately show ?thesis
      using offset index 2 nk split
      by (auto simp: events_list_def f_def [symmetric] es_def [symmetric] off_def [symmetric]
          intro!: exI [of _ "n + k"])
  qed
qed

definition example_event_request :: "64 word Request" where
  "example_event_request = Request_init ''r'' ''events.list'' 1 False []"

definition one_event_run :: "action list" where
  "one_event_run = [Debug_event quiet \<lparr>de_processId = 7, de_threadId = 8,
     de_info = LOAD_DLL_DEBUG_EVENT 0x400000\<rparr>]"

theorem events_list_pages_witness:
  "\<exists>p. events_list (\<lambda>_. False) example_event_request
      (sy_runtime (run (system_init ''n'') one_event_run)) = Inr p \<and> length (ep_items p) = 1"
proof -
  let ?r = "sy_runtime (run (system_init ''n'') one_event_run)" and ?q = example_event_request
  have q: "rq_eventTypes ?q = []" "rq_eventCursor ?q = []" "rq_pageLimit ?q = 100"
    by (simp_all add: example_event_request_def Request_init_def)
  have o: "rt_eventHistoryOffset ?r = 0" by code_simp
  have l: "length (rt_eventHistory ?r) = 1" by code_simp
  have "\<exists>p. events_list (\<lambda>_. False) ?q ?r = Inr p \<and> ep_items p = take (rq_pageLimit ?q)
      (filter (wanted_kind (rq_eventTypes ?q))
        (drop (0 - unat (rt_eventHistoryOffset ?r)) (rt_eventHistory ?r)))"
    using events_list_pages [OF refl, of "''n''" one_event_run 0 ?q] q o by auto
  then show ?thesis using o l q by (auto simp: wanted_kind_def)
qed

section \<open>The pages of a trace\<close>

text \<open>The retained points of a reachable trace are few, so indexes do not wrap in either build.\<close>

lemma reachable_points:
  assumes "list_all clock_ok as" "r = sy_runtime (run (system_init nonce) as)" "tp_id (rt_trace r) \<noteq> []"
  shows "length (tp_points (rt_trace r)) \<le> 4097"
proof -
  have "traced (Runtime_init nonce) r"
    using tracing.rel_run [OF pending_ok_init assms(1)] assms(2) by (simp add: system_init_def)
  then have "reaches trace_step (TracePolicy_init, TraceStopCoordinator_init) (rt_trace r, rt_traceStop r)"
    by (simp add: traced_def trace_of_def Runtime_init_def)
  then have "trace_inv (rt_trace r, rt_traceStop r)"
    by (rule trace.inv_reachable [rotated]) (simp add: trace_init_def)
  with assms(3) show ?thesis by (simp add: trace_inv_def policy_ok_def kMaxSteps_def)
qed

lemma unat_small_add:
  fixes i :: "('w :: len) word"
  assumes "32 \<le> LENGTH('w)" "unat i \<le> 4097" "n \<le> 256"
  shows "unat (i + of_nat n) = unat i + n"
proof -
  have "(2 :: nat) ^ 32 \<le> 2 ^ LENGTH('w)" using assms(1) by (intro power_increasing) simp_all
  then have b: "unat i + n < 2 ^ LENGTH('w)" using assms(2,3) by simp
  then have "unat (of_nat n :: 'w word) = n" by (simp add: unat_of_nat take_bit_nat_eq_self)
  with b show ?thesis by (simp add: unat_word_ariths)
qed

text \<open>
  C24. A trace is read back completely: in both builds, for a terminal trace of any reachable state, a
  request at an index within the trace is answered with exactly the next \<open>limit\<close> points, and when
  there are more, the printed cursor given to the next request makes the parser resume at the first
  point not yet returned, with a fingerprint that this trace accepts.
\<close>

theorem trace_results_pages:
  fixes q q' :: "('w :: len) word Request"
  assumes "LENGTH('w) \<in> {32, 64}" "list_all clock_ok as" "r = sy_runtime (run (system_init nonce) as)"
    and "Terminal (rt_trace r)" "IsUuid (tp_id (rt_trace r))"
    and "rq_traceId q = tp_id (rt_trace r)" "\<not> rq_traceCursorInvalid q"
    and "rq_cursorSnapshotFingerprint q \<in> {None, Some (TraceFingerprint (rt_trace r))}"
    and "unat (rq_cursorIndex q) \<le> length (tp_points (rt_trace r))"
    and "0 < rq_pageLimit q" "rq_pageLimit q \<le> 256" "rq_traceId q' = rq_traceId q"
  defines "n \<equiv> unat (rq_cursorIndex q)" and "ps \<equiv> tp_points (rt_trace r)"
  shows "\<exists>p. trace_results q r = Inr p \<and> tq_points p = take (rq_pageLimit q) (drop n ps) \<and>
    (case tq_next p of
       None \<Rightarrow> length ps \<le> n + rq_pageLimit q
     | Some c \<Rightarrow> n + rq_pageLimit q < length ps \<and>
         resume_trace c q' = q'\<lparr>rq_cursorIndex := of_nat (n + rq_pageLimit q),
           rq_cursorSnapshotFingerprint := Some (TraceFingerprint (rt_trace r))\<rparr>)"
proof -
  have len: "length ps \<le> 4097"
    using reachable_points [OF assms(2,3)] assms(4) by (simp add: ps_def Terminal_def)
  have w: "32 \<le> LENGTH('w)" "LENGTH('w) \<le> 64" using assms(1) by auto
  have e: "unat (rq_cursorIndex q + of_nat (rq_pageLimit q)) = n + rq_pageLimit q"
    using unat_small_add [OF w(1), of "rq_cursorIndex q" "rq_pageLimit q"] assms(9,11) len
    by (simp add: n_def ps_def)
  define end' where "end' = min (length ps) (n + rq_pageLimit q)"
  have "trace_results q r = Inr \<lparr>tq_trace = rt_trace r, tq_first = n,
      tq_points = take (rq_pageLimit q) (drop n ps),
      tq_next = (if end' < length ps
        then Some (TraceCursor (tp_id (rt_trace r)) (TraceFingerprint (rt_trace r)) (of_nat end' :: 'w word))
        else None)\<rparr>"
    using assms(4,6-9)
    by (auto simp: trace_results_def Matches_def Let_def e Prelude.slice_def end'_def n_def ps_def min_def)
  moreover have "resume_trace (TraceCursor (tp_id (rt_trace r)) (TraceFingerprint (rt_trace r)) (j :: 'w word)) q' =
      q'\<lparr>rq_cursorIndex := j, rq_cursorSnapshotFingerprint := Some (TraceFingerprint (rt_trace r))\<rparr>" for j
    using ParseTraceCursor_TraceCursor [OF w(2) assms(5)] assms(6,12)
    by (simp add: resume_trace_def)
  ultimately show ?thesis by (auto simp: end'_def min_def)
qed

definition example_trace_id :: string where
  "example_trace_id = ''0f8fad5b-d9cb-469f-a165-70867728950e''"

definition example_trace_run :: "action list" where
  "example_trace_run = paused_run @
    [Trace_admit \<lparr>tr_processEpoch = 0, tr_processId = 0, tr_snapshot = 2, tr_id = example_trace_id,
       tr_mode = mode_into, tr_maxSteps = 1, tr_deadline = 1000, tr_cip = 0x1000, tr_modules = [],
       tr_process = 5, tr_remoteBreak = 0x7000\<rparr>,
     Trace_submitted \<lparr>tk_trace = 1, tk_process = 0\<rparr> True, Trace_execute quiet 0x1004 False,
     Classify 16 CB_PAUSEDEBUG, Commit quiet 0]"

definition example_trace_request :: "64 word Request" where
  "example_trace_request =
     (Request_init ''r'' ''trace.results'' 1 False [])\<lparr>rq_traceId := example_trace_id, rq_pageLimit := 1\<rparr>"

theorem trace_results_pages_witness:
  "\<exists>p. trace_results example_trace_request
      (sy_runtime (run (system_init ''nonce'') example_trace_run)) = Inr p \<and> length (tq_points p) = 1"
proof -
  let ?r = "sy_runtime (run (system_init ''nonce'') example_trace_run)" and ?q = example_trace_request
  have t: "Terminal (rt_trace ?r)" by code_simp
  have i: "tp_id (rt_trace ?r) = example_trace_id" by code_simp
  have u: "IsUuid (tp_id (rt_trace ?r))" unfolding i by code_simp
  have l: "length (tp_points (rt_trace ?r)) = 2" by code_simp
  have q: "rq_traceId ?q = example_trace_id" "\<not> rq_traceCursorInvalid ?q" "rq_pageLimit ?q = 1"
    "rq_cursorSnapshotFingerprint ?q = None" "rq_cursorIndex ?q = 0"
    by (simp_all add: example_trace_request_def Request_init_def)
  have c: "list_all clock_ok example_trace_run" by (simp add: example_trace_run_def paused_run_def)
  have "\<exists>p. trace_results ?q ?r = Inr p \<and>
      tq_points p = take (rq_pageLimit ?q) (drop (unat (rq_cursorIndex ?q)) (tp_points (rt_trace ?r)))"
    using trace_results_pages [OF _ c refl t u, of ?q ?q] q i by auto
  then show ?thesis using q l by auto
qed

end
