(* ===== verification/Profile_Tool.thy ===== *)
theory Profile_Tool
  imports Control_Policy Hex_Bytes Events
begin

text \<open>
  \<open>ScyllaHideProfileResponse\<close> of \<open>runtime.cpp\<close>: reading and selecting the profile of the ScyllaHide
  configuration. The tool is written over the two functions it uses the file through: \<open>read_config\<close> is
  \<open>ReadScyllaHideConfig\<close> and \<open>replace_config\<close> is \<open>AtomicReplaceScyllaHideConfig\<close> on a state of the file
  system, both of which are in \<open>Config_File\<close>; a parameter is
  \<open>digest\<close>, the SHA-256 of the system library. An error is its code, message, whether it is
  retryable, and the details text.
\<close>

record profile_answer =
  pa_changed :: bool
  pa_generation :: string
  pa_config :: ScyllaHideConfig

type_synonym profile_error = "string \<times> string \<times> bool \<times> string"

definition ConfigGeneration :: "(string \<Rightarrow> u8 list option) \<Rightarrow> string \<Rightarrow> string option" where
  "ConfigGeneration digest s = map_option (\<lambda>d. ''sha256:'' @ Hex d) (digest s)"

definition outcome_unknown :: string where
  "outcome_unknown = ''{'' @ json_key ''outcome'' @ JsonString ''unknown'' @ ''}''"

definition generation_details :: "string \<Rightarrow> string \<Rightarrow> string" where
  "generation_details expected current =
     ''{'' @ json_key ''expected_config_generation'' @ JsonString expected @
     '','' @ json_key ''current_config_generation'' @ JsonString current @ ''}''"

text \<open>The verification after an update: the file is read again and has to carry the profile.\<close>

definition profile_verify ::
    "('f \<Rightarrow> string option) \<Rightarrow> (string \<Rightarrow> u8 list option) \<Rightarrow> bool \<Rightarrow> string \<Rightarrow> 'f \<Rightarrow>
     profile_error + profile_answer" where
  "profile_verify read_config digest changed canonical fs =
     (case read_config fs of
        None \<Rightarrow> Inl (''PROFILE_WRITE_FAILED'', ''ScyllaHide config could not be verified'', True,
          outcome_unknown)
      | Some verified \<Rightarrow>
          let current = (case ConfigGeneration digest verified of None \<Rightarrow> [] | Some g \<Rightarrow> g);
              failed = Inl (''PROFILE_WRITE_FAILED'', ''ScyllaHide config verification failed'', True,
                outcome_unknown) in
          (case ParseScyllaHideConfig verified of
             Inl _ \<Rightarrow> failed
           | Inr config \<Rightarrow>
               if current = [] \<or> sh_currentProfile config \<noteq> canonical then failed
               else Inr \<lparr>pa_changed = changed, pa_generation = current, pa_config = config\<rparr>))"

definition profile_set ::
    "('f \<Rightarrow> string option) \<Rightarrow> ('f \<Rightarrow> string \<Rightarrow> bool \<times> 'f) \<Rightarrow> (string \<Rightarrow> u8 list option) \<Rightarrow>
     string \<Rightarrow> string \<Rightarrow> string \<Rightarrow> string \<Rightarrow> 'f \<Rightarrow> (profile_error + profile_answer) \<times> 'f" where
  "profile_set read_config replace_config digest original generation profile expected fs =
     (if expected \<noteq> generation
      then (Inl (''CONFIG_GENERATION_MISMATCH'', ''ScyllaHide config changed since it was read'', False,
              generation_details expected generation), fs)
      else
        case SetScyllaHideProfile original profile of
          Inl e \<Rightarrow> (Inl (''PROFILE_NOT_FOUND'', e, False, ''{}''), fs)
        | Inr update \<Rightarrow>
            let changed = (pu_text update \<noteq> original);
                (written, fs) = (if changed then replace_config fs (pu_text update) else (True, fs)) in
            if \<not> written
            then (Inl (''PROFILE_WRITE_FAILED'', ''ScyllaHide config replacement failed'', True,
                    outcome_unknown), fs)
            else (profile_verify read_config digest changed (pu_canonicalProfile update) fs, fs))"

definition ScyllaHideProfile ::
    "('f \<Rightarrow> string option) \<Rightarrow> ('f \<Rightarrow> string \<Rightarrow> bool \<times> 'f) \<Rightarrow> (string \<Rightarrow> u8 list option) \<Rightarrow>
     string \<Rightarrow> string \<Rightarrow> string \<Rightarrow> 'f \<Rightarrow> (profile_error + profile_answer) \<times> 'f" where
  "ScyllaHideProfile read_config replace_config digest action profile expected fs =
     (case read_config fs of
        None \<Rightarrow> (Inl (''SCYLLAHIDE_NOT_INSTALLED'', ''plugins/scylla_hide.ini is unavailable'', False,
              ''{}''), fs)
      | Some original \<Rightarrow>
          (case ConfigGeneration digest original of
             None \<Rightarrow> (Inl (''INTERNAL'', ''ScyllaHide config could not be hashed'', False, ''{}''), fs)
           | Some generation \<Rightarrow>
               (case ParseScyllaHideConfig original of
                  Inl e \<Rightarrow> (Inl (''SCYLLAHIDE_CONFIG_INVALID'', e, False, ''{}''), fs)
                | Inr config \<Rightarrow>
                    if action = ''set''
                    then profile_set read_config replace_config digest original generation profile
                      expected fs
                    else (Inr \<lparr>pa_changed = False, pa_generation = generation, pa_config = config\<rparr>, fs))))"

definition profile_json ::
    "build \<Rightarrow> string \<Rightarrow> string \<Rightarrow> string \<Rightarrow> string \<Rightarrow> profile_answer \<Rightarrow> string" where
  "profile_json b startupGeneration startupProfile action operationId a =
     (let restartRequired = (startupGeneration \<noteq> pa_generation a);
          names = map JsonString (sh_availableProfiles (pa_config a)) in
      ''{'' @ json_key ''backend'' @ JsonString (if b = Win64 then ''x64dbg'' else ''x32dbg'') @
      '','' @ json_key ''action'' @ JsonString action @
      (if operationId = [] then [] else '','' @ json_key ''operation_id'' @ JsonString operationId) @
      '','' @ json_key ''configured_profile'' @ JsonString (sh_currentProfile (pa_config a)) @
      '','' @ json_key ''startup_observed_profile'' @
      (if startupProfile = [] then ''null'' else JsonString startupProfile) @
      '','' @ json_key ''available_profiles'' @
      ''['' @ (if names = [] then [] else hd names @ concat (map (\<lambda>n. CHR '','' # n) (tl names))) @ '']'' @
      '','' @ json_key ''config_generation'' @ JsonString (pa_generation a) @
      '','' @ json_key ''changed'' @ (if pa_changed a then ''true'' else ''false'') @
      '','' @ json_key ''restart_required'' @ (if restartRequired then ''true'' else ''false'') @
      '','' @ json_key ''next_actions'' @
      (if restartRequired
       then ''[{'' @ json_key ''code'' @ JsonString ''RESTART_DEBUGGER_TO_APPLY'' @
         '','' @ json_key ''tool'' @ JsonString ''gateway.debugger_restart'' @
         '','' @ json_key ''reason'' @
         JsonString ''The config file differs from the version observed when x64dbg started.'' @ ''}]''
       else ''[]'') @ ''}'')"

definition ScyllaHideProfileResponse ::
    "('f \<Rightarrow> string option) \<Rightarrow> ('f \<Rightarrow> string \<Rightarrow> bool \<times> 'f) \<Rightarrow> (string \<Rightarrow> u8 list option) \<Rightarrow>
     build \<Rightarrow> string \<Rightarrow> string \<Rightarrow> string \<Rightarrow> string \<Rightarrow> string \<Rightarrow> string \<Rightarrow> string \<Rightarrow> 'f \<Rightarrow> string \<times> 'f" where
  "ScyllaHideProfileResponse read_config replace_config digest b startupGeneration startupProfile
     requestId operationId action profile expected fs =
     (let (result, fs) = ScyllaHideProfile read_config replace_config digest action profile expected fs;
          head = ''{'' @ json_key ''request_id'' @ JsonString requestId @ '','' @
            json_key ''state_generation'' @ ''0,'' @ json_key ''status'' in
      (case result of
         Inl (code, message, retryable, details) \<Rightarrow>
           head @ JsonString ''error'' @ '','' @ json_key ''error'' @ ''{'' @
           json_key ''code'' @ JsonString code @ '','' @ json_key ''message'' @ JsonString message @
           '','' @ json_key ''retryable'' @ (if retryable then ''true'' else ''false'') @
           '','' @ json_key ''details'' @ details @ ''}}''
       | Inr a \<Rightarrow>
           head @ JsonString ''ok'' @ '','' @ json_key ''result'' @
           profile_json b startupGeneration startupProfile action operationId a @ ''}'', fs))"

section \<open>No update is lost\<close>

text \<open>
  What \<open>MoveFileExW\<close> with write-through promises: a replacement that succeeded is what is read
  next (if it is of a size \<open>ReadScyllaHideConfig\<close> accepts), one that failed left the file.
\<close>

definition file_ok :: "('f \<Rightarrow> string option) \<Rightarrow> ('f \<Rightarrow> string \<Rightarrow> bool \<times> 'f) \<Rightarrow> bool" where
  "file_ok read_config replace_config \<longleftrightarrow>
     (\<forall>fs s fs'. replace_config fs s = (True, fs') \<longrightarrow>
        read_config fs' = (if s = [] \<or> length s > 1024 * 1024 then None else Some s)) \<and>
     (\<forall>fs s fs'. replace_config fs s = (False, fs') \<longrightarrow> read_config fs' = read_config fs)"

text \<open>
  Selecting a profile is a compare-and-swap on the configuration file: the file changes only for
  the action \<open>set\<close> with the generation of the contents that were there, and then to exactly these
  contents with the profile selected; and a successful answer reports the generation and the
  configuration that the file has when it is given, with the selected profile after a \<open>set\<close>.
\<close>

theorem profile_compare_and_swap:
  assumes "file_ok read_config replace_config"
    and "ScyllaHideProfile read_config replace_config digest action profile expected fs = (result, fs')"
  shows "(if read_config fs' = read_config fs then True
      else action = ''set'' \<and>
        (\<exists>original update. read_config fs = Some original \<and>
          ConfigGeneration digest original = Some expected \<and>
          SetScyllaHideProfile original profile = Inr update \<and>
          read_config fs' = (if pu_text update = [] \<or> length (pu_text update) > 1024 * 1024
            then None else Some (pu_text update)))) \<and>
    (case result of
       Inl _ \<Rightarrow> True
     | Inr a \<Rightarrow> \<exists>contents. read_config fs' = Some contents \<and>
         ConfigGeneration digest contents = Some (pa_generation a) \<and>
         ParseScyllaHideConfig contents = Inr (pa_config a) \<and>
         (if action = ''set'' then \<exists>original update. read_config fs = Some original \<and>
            SetScyllaHideProfile original profile = Inr update \<and>
            sh_currentProfile (pa_config a) = pu_canonicalProfile update else True))"
proof -
  have verify: "\<exists>contents. read_config g = Some contents \<and>
      ConfigGeneration digest contents = Some (pa_generation a) \<and>
      ParseScyllaHideConfig contents = Inr (pa_config a) \<and> sh_currentProfile (pa_config a) = canonical"
    if "profile_verify read_config digest changed canonical g = Inr a" for g changed canonical a
    using that by (auto simp: profile_verify_def Let_def split: option.splits sum.splits if_splits)
  show ?thesis
  proof (cases "\<exists>original config update. read_config fs = Some original \<and> action = ''set'' \<and>
      ConfigGeneration digest original = Some expected \<and> ParseScyllaHideConfig original = Inr config \<and>
      SetScyllaHideProfile original profile = Inr update")
    case True
    then obtain original config update where o: "read_config fs = Some original" "action = ''set''"
      "ConfigGeneration digest original = Some expected" "ParseScyllaHideConfig original = Inr config"
      "SetScyllaHideProfile original profile = Inr update" by blast
    define changed where "changed = (pu_text update \<noteq> original)"
    obtain written g where w: "(if changed then replace_config fs (pu_text update) else (True, fs)) =
      (written, g)" by fastforce
    have g: "fs' = g" "result = (if written
        then profile_verify read_config digest changed (pu_canonicalProfile update) g
        else Inl (''PROFILE_WRITE_FAILED'', ''ScyllaHide config replacement failed'', True, outcome_unknown))"
      using assms(2) o w by (cases written; auto simp: ScyllaHideProfile_def profile_set_def changed_def [symmetric] Let_def)+
    have "read_config g = (if changed \<and> written
        then (if pu_text update = [] \<or> length (pu_text update) > 1024 * 1024 then None
              else Some (pu_text update)) else read_config fs)"
      using assms(1) w unfolding file_ok_def by (cases changed; cases written) auto
    then show ?thesis
      using o g verify [of changed "pu_canonicalProfile update" g]
      by (auto split: sum.splits)
  next
    case False
    then have "fs' = fs" "case result of Inl _ \<Rightarrow> True | Inr a \<Rightarrow> action \<noteq> ''set'' \<and>
        (\<exists>contents. read_config fs = Some contents \<and>
         ConfigGeneration digest contents = Some (pa_generation a) \<and>
         ParseScyllaHideConfig contents = Inr (pa_config a))"
      using assms(2)
      by (auto simp: ScyllaHideProfile_def profile_set_def split: option.splits sum.splits if_splits)
    then show ?thesis by (auto split: sum.splits)
  qed
qed

definition example_file :: "string option \<Rightarrow> string option" where
  "example_file fs = (case fs of None \<Rightarrow> None
     | Some s \<Rightarrow> if s = [] \<or> length s > 1024 * 1024 then None else Some s)"

definition example_replace :: "string option \<Rightarrow> string \<Rightarrow> bool \<times> string option" where
  "example_replace fs s = (True, Some s)"

definition example_select :: "(profile_error + profile_answer) \<times> string option" where
  "example_select = ScyllaHideProfile example_file example_replace (\<lambda>_. Some [0]) ''set'' ''bC''
     ''sha256:00'' (Some sample_config)"

theorem profile_compare_and_swap_witness:
  "\<exists>a contents. fst example_select = Inr a \<and> example_file (snd example_select) = Some contents \<and>
     ParseScyllaHideConfig contents = Inr (pa_config a)"
proof -
  have "file_ok example_file example_replace"
    by (simp add: file_ok_def example_file_def example_replace_def)
  from profile_compare_and_swap [OF this, of "\<lambda>_. Some [0]" "''set''" "''bC''" "''sha256:00''"
      "Some sample_config" "fst example_select" "snd example_select"]
  have "case fst example_select of Inl _ \<Rightarrow> True | Inr a \<Rightarrow>
      \<exists>contents. example_file (snd example_select) = Some contents \<and>
        ParseScyllaHideConfig contents = Inr (pa_config a)"
    by (auto simp: example_select_def split: sum.splits)
  moreover have "\<not> isl (fst example_select)" by code_simp
  ultimately show ?thesis by (cases "fst example_select") auto
qed

end
