(* ===== verification/Fenced_Commands.thy ===== *)
theory Fenced_Commands
  imports Command_Fence Cpp_Text
begin

text \<open>
  The use of the command fence: \<open>submitFencedCommand\<close> of \<open>runtime.cpp\<close> queues a debugger command
  and behind it the private fence command with a random token, whose callback in \<open>plugin.cpp\<close>
  signals the fence. The random source and \<open>DbgCmdExec\<close> are parameters.
\<close>

text \<open>Four attempts at a random token; a failed draw gives zero.\<close>

primrec fence_token :: "nat \<Rightarrow> (nat \<Rightarrow> u64 option) \<Rightarrow> nat \<Rightarrow> u64" where
  "fence_token 0 draw attempt = 0"
| "fence_token (Suc n) draw attempt =
     (let token = (case draw attempt of None \<Rightarrow> 0 | Some t \<Rightarrow> t) in
      if token \<noteq> 0 then token else fence_token n draw (Suc attempt))"

definition fence_text :: "u64 \<Rightarrow> string" where
  "fence_text token =
     ''x64dbg_mcp_fence_internal '' @
     replicate (16 - length (to_hex (unat token))) (CHR ''0'') @ to_hex (unat token)"

text \<open>
  \<open>exec\<close> is \<open>DbgCmdExec\<close>, \<open>meanwhile\<close> the calls other threads make on the fence until the wait
  ends.
\<close>

definition submitFencedCommand ::
    "(nat \<Rightarrow> u64 option) \<Rightarrow> (string \<Rightarrow> bool) \<Rightarrow> fence_call list \<Rightarrow> string \<Rightarrow> CommandFence \<Rightarrow>
     nat \<times> CommandFence" where
  "submitFencedCommand draw exec meanwhile command f =
     (let token = fence_token 4 draw 0 in
      if token = 0 then (1, f)
      else
        let (armed, f) = fence_Arm f token in
        if \<not> armed then (1, f)
        else if \<not> exec command then (1, fence_Cancel f token)
        else if \<not> exec (fence_text token) then (2, fence_Cancel f token)
        else
          let (w, f) = fence_Wait (foldl fence_apply f meanwhile) token in
          (if w = fw_completed then 0 else 2, f))"

text \<open>\<open>CommandFenceCallback\<close> of \<open>plugin.cpp\<close> on the argument of the fence command.\<close>

definition CommandFenceCallback :: "string list \<Rightarrow> CommandFence \<Rightarrow> bool \<times> CommandFence" where
  "CommandFenceCallback argv f =
     (if length argv \<noteq> 2 then (False, f)
      else
        let encoded = argv ! 1 in
        if length encoded \<noteq> 16 then (False, f)
        else
          let parsed = from_chars 16 encoded (0 :: u64) in
          if \<not> parsed_all encoded parsed \<or> parsed_value parsed = 0 then (False, f)
          else fence_Signal f (parsed_value parsed))"

section \<open>The token through the command queue\<close>

definition fence_argument :: "u64 \<Rightarrow> string" where
  "fence_argument token =
     replicate (16 - length (to_hex (unat token))) (CHR ''0'') @ to_hex (unat token)"

lemma fence_text_argument: "fence_text token = ''x64dbg_mcp_fence_internal '' @ fence_argument token"
  by (simp add: fence_text_def fence_argument_def)

lemma digits_value_zeros: "digits_value 16 (replicate k (CHR ''0'') @ s) = digits_value 16 s"
proof -
  have "the (digit_value (CHR ''0'')) = 0" by (simp add: digit_value_def is_decimal_def char_code_def)
  then have "foldl (\<lambda>n c. n * 16 + the (digit_value c)) 0 (replicate k (CHR ''0'')) = (0 :: nat)"
    by (induction k) simp_all
  then show ?thesis by (simp add: digits_value_def)
qed

lemma fence_argument_reads:
  "length (fence_argument token) = 16"
  "from_chars 16 (fence_argument token) (v :: u64) = (errc_ok, 16, token)"
proof -
  have "unat token < 16 ^ 16" using unsigned_less [of token, where 'a = nat] by simp
  then have "length (to_hex (unat token)) \<le> 16" unfolding to_hex_def by (intro length_to_chars) simp_all
  then show l: "length (fence_argument token) = 16" by (simp add: fence_argument_def)
  have "is_digit 16 (CHR ''0'')"
    by (simp add: is_digit_def digit_value_def is_decimal_def char_code_def)
  then have "list_all (is_digit 16) (fence_argument token)"
    using to_chars_list_all [of 16 "unat token"]
    by (auto simp: fence_argument_def to_hex_def list_all_iff)
  moreover have "digits_value 16 (fence_argument token) = unat token"
    by (simp add: fence_argument_def digits_value_zeros to_hex_def)
  moreover have "fence_argument token \<noteq> []" using l by auto
  moreover have "unat token < 2 ^ LENGTH(64)" by (rule unsigned_less)
  ultimately show "from_chars 16 (fence_argument token) (v :: u64) = (errc_ok, 16, token)"
    using from_chars_list_all [of 16 "fence_argument token" v] l by simp
qed

lemma CommandFenceCallback_argument:
  "token \<noteq> 0 \<Longrightarrow> CommandFenceCallback [name, fence_argument token] f = fence_Signal f token"
  by (simp add: CommandFenceCallback_def fence_argument_reads parsed_all_def parsed_value_def Let_def)

lemma fence_unsignalled:
  assumes "Call_Signal t \<notin> set calls" "\<not> (cf_pending f = Some t \<and> cf_completed f)"
  shows "\<not> (cf_pending (foldl fence_apply f calls) = Some t \<and> cf_completed (foldl fence_apply f calls))"
  using assms
proof (induction calls arbitrary: f)
  case (Cons c calls)
  have "\<not> (cf_pending (fence_apply f c) = Some t \<and> cf_completed (fence_apply f c))"
    using Cons.prems
    by (cases c) (auto simp: fence_Start_def fence_Stop_def fence_Arm_def fence_Signal_def
        fence_Cancel_def fence_Wait_def Let_def split: if_splits)
  with Cons show ?case by simp
qed simp

text \<open>
  C25. A fenced command that is reported done was executed: when \<open>submitFencedCommand\<close> returns 0, the
  debugger took the command and the fence command, and, whatever other threads did
  with the fence, the fence was signalled with the fresh token since; that signal is what the
  callback makes of the printed fence command, and of no other argument.
\<close>

theorem fenced_command_confirmed:
  assumes "fst (submitFencedCommand draw exec meanwhile command f) = 0"
  shows "\<exists>token. token = fence_token 4 draw 0 \<and> token \<noteq> 0 \<and> exec command \<and> exec (fence_text token) \<and>
    Call_Signal token \<in> set meanwhile \<and>
    fence_text token = ''x64dbg_mcp_fence_internal '' @ fence_argument token \<and>
    CommandFenceCallback [name, fence_argument token] g = fence_Signal g token"
proof -
  define token where "token = fence_token 4 draw 0"
  obtain armed f1 where arm: "fence_Arm f token = (armed, f1)" by fastforce
  obtain w f2 where wait: "fence_Wait (foldl fence_apply f1 meanwhile) token = (w, f2)" by fastforce
  have ok: "token \<noteq> 0" "armed" "exec command" "exec (fence_text token)" "w = fw_completed"
    using assms arm wait
    by (auto simp: submitFencedCommand_def token_def [symmetric] Let_def split: if_splits)
  have "\<not> (cf_pending f1 = Some token \<and> cf_completed f1)"
    using arm ok(2) by (auto simp: fence_Arm_def split: if_splits)
  then have "Call_Signal token \<in> set meanwhile"
    using fence_unsignalled [of token meanwhile f1] wait ok(5)
    by (auto simp: fence_Wait_def Let_def split: if_splits)
  with ok show ?thesis
    by (auto simp: token_def fence_text_argument CommandFenceCallback_argument)
qed

theorem fenced_command_confirmed_witness:
  "\<exists>token. token = fence_token 4 (\<lambda>_. Some 7) 0 \<and> token \<noteq> 0 \<and> True \<and> True \<and>
    Call_Signal token \<in> set [Call_Signal 7] \<and>
    fence_text token = ''x64dbg_mcp_fence_internal '' @ fence_argument token \<and>
    CommandFenceCallback [[], fence_argument token] CommandFence_init = fence_Signal CommandFence_init token"
  by (rule fenced_command_confirmed [of "\<lambda>_. Some 7" "\<lambda>_. True" "[Call_Signal 7]" "''run''"
        "snd (fence_Start CommandFence_init)"]) code_simp

end
