(* ===== verification/Debugger_World.thy ===== *)
theory Debugger_World
  imports Runtime_Responses Fenced_Commands Monad_Logic
begin

text \<open>
  What the tools of \<open>Worker\<close> in \<open>runtime.cpp\<close> run against: the plugin's own state, the command
  fence, and the debugger behind the x64dbg SDK.

  The SDK is not part of the sources. It is the parameter \<open>debugger\<close>, a record with one
  operation per SDK function the tools call; an operation is a computation of the library's state
  monad over the \<open>world\<close> and may change all of it, since other threads run while the call is under
  way. The debugger's own state is the type parameter \<open>'g\<close>. \<open>dbg_others\<close> stands for the steps
  other threads make before a tool takes a lock or loads an atomic, and while it waits.
  \<open>dbg_expired\<close> is the test \<open>steady_clock::now() >= requestDeadline\<close>. \<open>DbgFunctions()\<close> is the
  table \<open>dbg_functions\<close>, \<open>None\<close> where a pointer is null. A \<open>char\<close> array of an SDK structure is
  the list of its elements, read up to the first null by \<open>c_field\<close>.
\<close>

section \<open>The world and its calls\<close>

record 'g world =
  w_runtime :: Runtime
  w_fence :: CommandFence
  w_debugger :: 'g

type_synonym ('g, 'a) call = "('g world, 'a) state"
type_synonym ('g, 'a) tool = "('g world, tool_error + 'a) state"

text \<open>\<open>ListInfo\<close> of the SDK, with the size of an element.\<close>

record 'a ListInfo =
  li_count :: int
  li_size :: nat
  li_sizeof :: nat
  li_data :: "'a list option"

record 'd ModuleInfo =
  mi_base :: 'd
  mi_size :: 'd
  mi_entry :: 'd
  mi_sectionCount :: int
  mi_name :: string
  mi_path :: string

record DISASM_INSTR =
  di_instr_size :: int
  di_instruction :: string

record 'd FunctionInfo =
  fi_mod :: string
  fi_rvaStart :: 'd
  fi_rvaEnd :: 'd
  fi_manual :: bool
  fi_instructioncount :: 'd

datatype SymbolType = sym_Function | sym_Import | sym_Export

record 'd SymbolInfo =
  sy_mod :: string
  sy_rva :: 'd
  sy_name :: string
  sy_manual :: bool
  sy_type :: SymbolType

record 'd ModuleSectionInfo =
  se_addr :: 'd
  se_size :: 'd
  se_name :: string

record 'd ModuleImport =
  im_iatRva :: 'd
  im_iatVa :: 'd
  im_ordinal :: 'd
  im_name :: string
  im_undecoratedName :: string

record 'd ModuleExport =
  xp_ordinal :: 'd
  xp_rva :: 'd
  xp_va :: 'd
  xp_forwarded :: bool
  xp_forwardName :: string
  xp_name :: string
  xp_undecoratedName :: string

record 'd MEMPAGE =
  pg_BaseAddress :: 'd
  pg_AllocationBase :: 'd
  pg_RegionSize :: 'd
  pg_State :: u32
  pg_Protect :: u32
  pg_Type :: u32
  pg_info :: string

datatype XREFTYPE = XREF_NONE | XREF_DATA | XREF_JMP | XREF_CALL

record 'd XREF_RECORD =
  xr_addr :: 'd
  xr_type :: XREFTYPE

record 'd DBGCALLSTACKENTRY =
  ce_addr :: 'd
  ce_from :: 'd
  ce_to :: 'd

record 'd native_patch = "'d DBGPATCHINFO" +
  np_mod :: string

type_synonym BP_REF = u64

datatype BP_FIELD = bpf_name | bpf_breakcondition | bpf_fastresume

record ('g, 'd) DBGFUNCTIONS =
  fn_Assemble :: "('d \<Rightarrow> string \<Rightarrow> ('g, bool \<times> u8 list \<times> int \<times> string) call) option"
  fn_PatchInRange :: "('d \<Rightarrow> 'd \<Rightarrow> ('g, bool) call) option"
  fn_PatchGetEx :: "('d \<Rightarrow> ('g, 'd DBGPATCHINFO option) call) option"
  fn_MemPatch :: "('d \<Rightarrow> u8 list \<Rightarrow> ('g, bool) call) option"
  fn_PatchRestoreRange :: "('d \<Rightarrow> 'd \<Rightarrow> ('g, unit) call) option"
  fn_GetBridgeBp :: "(BPXTYPE \<Rightarrow> 'd \<Rightarrow> ('g, 'd bridgebp option) call) option"
  fn_BpRefVa :: "(BPXTYPE \<Rightarrow> 'd \<Rightarrow> ('g, BP_REF option) call) option"
  fn_BpRefException :: "(u32 \<Rightarrow> ('g, BP_REF) call) option"
  fn_BpRefExists :: "(BP_REF \<Rightarrow> ('g, bool) call) option"
  fn_BpSetFieldText :: "(BP_REF \<Rightarrow> BP_FIELD \<Rightarrow> string \<Rightarrow> ('g, bool) call) option"
  fn_BpSetFieldNumber :: "(BP_REF \<Rightarrow> BP_FIELD \<Rightarrow> 'd \<Rightarrow> ('g, bool) call) option"
  fn_MemBpSize :: "('d \<Rightarrow> ('g, 'd) call) option"
  fn_SetCmdline :: "(string \<Rightarrow> ('g, bool) call) option"
  fn_PatchEnum :: "(('g, nat) call \<times> (nat \<Rightarrow> ('g, bool \<times> 'd native_patch list \<times> nat) call)) option"
  fn_GetCallStackByThread :: "('d \<Rightarrow> ('g, int \<times> 'd DBGCALLSTACKENTRY list option) call) option"

record ('g, 'd) debugger =
  dbg_others :: "('g, unit) call"
  dbg_expired :: "('g, bool) call"
  dbg_IsDebugging :: "('g, bool) call"
  dbg_ModuleList :: "('g, 'd ModuleInfo ListInfo option) call"
  dbg_MemRead :: "'d \<Rightarrow> nat \<Rightarrow> ('g, u8 list option) call"
  dbg_MemWrite :: "'d \<Rightarrow> u8 list \<Rightarrow> ('g, bool) call"
  dbg_MemFindBaseAddr :: "'d \<Rightarrow> ('g, 'd \<times> 'd) call"
  dbg_DisasmAt :: "'d \<Rightarrow> ('g, DISASM_INSTR) call"
  dbg_RegDump :: "('g, 'd registers option) call"
  dbg_ThreadList :: "('g, 'd THREADLIST) call"
  dbg_ThreadHandle :: "('g, 'd) call"
  dbg_ThreadId :: "('g, u32) call"
  dbg_GetThreadContext :: "'d \<Rightarrow> ('g, 'd CONTEXT option) call"
  dbg_SetThreadContext :: "'d \<Rightarrow> 'd CONTEXT \<Rightarrow> ('g, bool) call"
  dbg_SetRegister :: "RegisterEnum \<Rightarrow> 'd \<Rightarrow> ('g, bool) call"
  dbg_SoftwareBpAt :: "'d \<Rightarrow> ('g, bool) call"
  dbg_BpList :: "BPXTYPE \<Rightarrow> ('g, int \<times> int \<times> 'd bridgebp list option) call"
  dbg_CmdExec :: "string \<Rightarrow> ('g, bool) call"
  dbg_CmdExecDirect :: "string \<Rightarrow> ('g, bool) call"
  dbg_random :: "('g, u64 option) call"
  dbg_FunctionInfo :: "'d \<Rightarrow> ('g, 'd FunctionInfo option) call"
  dbg_FunctionList :: "('g, 'd FunctionInfo ListInfo option) call"
  dbg_SymbolList :: "('g, 'd SymbolInfo ListInfo option) call"
  dbg_InfoFromAddr :: "'d \<Rightarrow> ('g, 'd ModuleInfo option) call"
  dbg_SectionList :: "'d \<Rightarrow> ('g, 'd ModuleSectionInfo ListInfo option) call"
  dbg_Imports :: "'d ModuleInfo \<Rightarrow> ('g, 'd ModuleImport ListInfo option) call"
  dbg_Exports :: "'d ModuleInfo \<Rightarrow> ('g, 'd ModuleExport ListInfo option) call"
  dbg_MemMap :: "('g, (int \<times> 'd MEMPAGE list option) option) call"
  dbg_XrefCount :: "'d \<Rightarrow> ('g, nat) call"
  dbg_XrefGet :: "'d \<Rightarrow> ('g, (nat \<times> 'd XREF_RECORD list option) option) call"
  dbg_ValFromString :: "string \<Rightarrow> ('g, 'd option) call"
  dbg_ProcessId :: "('g, u32) call"
  dbg_PebAddress :: "u32 \<Rightarrow> ('g, 'd) call"
  dbg_surroundings :: "('g, surroundings) call"
  dbg_ProcessHandle :: "('g, 'd) call"
  dbg_RemoteBreakPoint :: "'d \<Rightarrow> ('g, bool) call"
  dbg_functions :: "('g, 'd) DBGFUNCTIONS option"

text \<open>The Windows text functions, which have no effect.\<close>

record winapi =
  wa_convert :: "string \<Rightarrow> u16 list"
  wa_compareOrdinal :: "u16 list \<Rightarrow> u16 list \<Rightarrow> bool"
  wa_findNls :: "u16 list \<Rightarrow> u16 list \<Rightarrow> int \<times> int"
  wa_utf8_size :: "u16 list \<Rightarrow> int"

definition same_name :: "winapi \<Rightarrow> string \<Rightarrow> string \<Rightarrow> bool" where
  "same_name W a b = Utf8OrdinalEqualsIgnoreCase (wa_convert W) (wa_compareOrdinal W) a b"

definition contains_name :: "winapi \<Rightarrow> string \<Rightarrow> string \<Rightarrow> bool" where
  "contains_name W a b =
     Utf8OrdinalContainsIgnoreCase (wa_convert W) (wa_findNls W) (wa_utf8_size W) a b"

section \<open>Early returns\<close>

definition refuse :: "string \<Rightarrow> string \<Rightarrow> bool \<Rightarrow> bool \<Rightarrow> ('s, tool_error + 'a) state" where
  "refuse code message retryable unknown = State_Monad.return (failure code message retryable unknown)"

text \<open>\<open>if (!c) return ErrorResponse(...);\<close> in front of the rest of a tool.\<close>

definition ensure :: "bool \<Rightarrow> string \<Rightarrow> string \<Rightarrow> bool \<Rightarrow> bool \<Rightarrow> ('s, tool_error + 'a) state \<Rightarrow>
    ('s, tool_error + 'a) state" where
  "ensure c code message retryable unknown rest =
     (if c then rest else refuse code message retryable unknown)"

text \<open>A critical section that reads the plugin's state, and one that changes it.\<close>

definition observe :: "('g, 'd) debugger \<Rightarrow> (Runtime \<Rightarrow> 'a) \<Rightarrow> ('g, 'a) call" where
  "observe D f = do { dbg_others D; w \<leftarrow> State_Monad.get; State_Monad.return (f (w_runtime w)) }"

definition critical :: "('g, 'd) debugger \<Rightarrow> (Runtime \<Rightarrow> 'a \<times> Runtime) \<Rightarrow> ('g, 'a) call" where
  "critical D f = do {
     dbg_others D;
     w \<leftarrow> State_Monad.get;
     let (a, r) = f (w_runtime w);
     State_Monad.set (w\<lparr>w_runtime := r\<rparr>);
     State_Monad.return a
   }"

definition still_paused :: "('g, 'd) debugger \<Rightarrow> u64 \<Rightarrow> ('g, bool) call" where
  "still_paused D g = observe D (\<lambda>r. PausedSnapshotCurrent r g)"

section \<open>Fenced commands\<close>

text \<open>The four attempts at a token.\<close>

primrec draw_token :: "('g, 'd) debugger \<Rightarrow> nat \<Rightarrow> ('g, u64) call" where
  "draw_token D 0 = State_Monad.return 0"
| "draw_token D (Suc n) = do {
     t \<leftarrow> dbg_random D;
     let token = (case t of None \<Rightarrow> 0 | Some v \<Rightarrow> v);
     if token \<noteq> 0 then State_Monad.return token else draw_token D n
   }"

definition on_fence :: "(CommandFence \<Rightarrow> 'a \<times> CommandFence) \<Rightarrow> ('g, 'a) call" where
  "on_fence f = do {
     w \<leftarrow> State_Monad.get;
     let (a, c) = f (w_fence w);
     State_Monad.set (w\<lparr>w_fence := c\<rparr>);
     State_Monad.return a
   }"

text \<open>
  \<open>submitFencedCommand\<close> with what became of the command. The lambda of that name tells only
  three outcomes apart; two tools write the same steps out with an answer for each.
\<close>

datatype fence_phase = fp_no_fence | fp_command_rejected | fp_fence_rejected | fp_unconfirmed | fp_confirmed

definition fence_phases :: "('g, 'd) debugger \<Rightarrow> string \<Rightarrow> ('g, fence_phase) call" where
  "fence_phases D command = do {
     token \<leftarrow> draw_token D 4;
     if token = 0 then State_Monad.return fp_no_fence else do {
       armed \<leftarrow> on_fence (\<lambda>f. fence_Arm f token);
       if \<not> armed then State_Monad.return fp_no_fence else do {
         taken \<leftarrow> dbg_CmdExec D command;
         if \<not> taken then do {
           on_fence (\<lambda>f. ((), fence_Cancel f token));
           State_Monad.return fp_command_rejected
         } else do {
           fence \<leftarrow> dbg_CmdExec D (fence_text token);
           if \<not> fence then do {
             on_fence (\<lambda>f. ((), fence_Cancel f token));
             State_Monad.return fp_fence_rejected
           } else do {
             dbg_others D;
             waited \<leftarrow> on_fence (\<lambda>f. fence_Wait f token);
             State_Monad.return (if waited = fw_completed then fp_confirmed else fp_unconfirmed)
           }
         }
       }
     }
   }"

definition fenced :: "('g, 'd) debugger \<Rightarrow> string \<Rightarrow> ('g, nat) call" where
  "fenced D command = do {
     p \<leftarrow> fence_phases D command;
     State_Monad.return (case p of fp_confirmed \<Rightarrow> 0 | fp_no_fence \<Rightarrow> 1 | fp_command_rejected \<Rightarrow> 1 | _ \<Rightarrow> 2)
   }"

section \<open>Lists of the SDK\<close>

text \<open>The test on a \<open>ListInfo\<close> before its elements are read.\<close>

definition list_valid :: "int \<Rightarrow> 'a ListInfo \<Rightarrow> bool" where
  "list_valid most l \<longleftrightarrow>
     \<not> (li_count l < 0 \<or> li_count l > most \<or> (li_count l > 0 \<and> li_data l = None) \<or>
        li_size l \<noteq> nat (li_count l) * li_sizeof l)"

definition array_valid :: "int \<Rightarrow> 'a list option \<Rightarrow> bool" where
  "array_valid n data \<longleftrightarrow> \<not> (n < 0 \<or> (n > 0 \<and> data = None) \<or> n > 65536)"

definition array_items :: "int \<Rightarrow> 'a list option \<Rightarrow> 'a list" where
  "array_items n data = (case data of None \<Rightarrow> [] | Some xs \<Rightarrow> take (nat n) xs)"

definition list_items :: "'a ListInfo \<Rightarrow> 'a list" where
  "list_items l = array_items (li_count l) (li_data l)"

section \<open>Printing\<close>

definition json_object :: "(string \<times> string) list \<Rightarrow> string" where
  "json_object ms = ''{'' @ concat (map (\<lambda>i. (if i = 0 then [] else '','') @
     json_key (fst (ms ! i)) @ snd (ms ! i)) [0..<length ms]) @ ''}''"

definition hex :: "('d :: len) word \<Rightarrow> string" where
  "hex v = JsonString (HexValue (ucast v))"

definition dec :: "('d :: len) word \<Rightarrow> string" where
  "dec v = to_string (unat v)"

definition or_null :: "string option \<Rightarrow> string" where
  "or_null v = (case v of None \<Rightarrow> ''null'' | Some s \<Rightarrow> s)"

text \<open>The text a tool sends: its generation and its printed result, or its error.\<close>

definition tool_response :: "('w :: len) word Request \<Rightarrow> tool_error + u64 \<times> string \<Rightarrow> string" where
  "tool_response q v =
     (case v of Inl e \<Rightarrow> ErrorResponse q e | Inr (g, s) \<Rightarrow> ok_response (rq_requestId q) g s)"

end
