(* ===== verification/Address_Tools.thy ===== *)
theory Address_Tools
  imports Debugger_World
begin

text \<open>
  Addresses and modules in \<open>runtime.cpp\<close>: \<open>ResolveAddress\<close>, \<open>CaptureModuleRecords\<close>,
  \<open>UniqueModule\<close>, \<open>LocationFromModules\<close> and the resolution in front of every tool that takes an
  address.
\<close>

section \<open>Modules and locations\<close>

record 'd ResolvedLocation =
  rl_address :: 'd
  rl_module :: "string option"
  rl_moduleBase :: "'d option"
  rl_rva :: "'d option"

record 'd ModuleRecord =
  mr_base :: 'd
  mr_size :: 'd
  mr_name :: string

definition bare_location :: "'d \<Rightarrow> 'd ResolvedLocation" where
  "bare_location a = \<lparr>rl_address = a, rl_module = None, rl_moduleBase = None, rl_rva = None\<rparr>"

definition module_location :: "('d :: len) word \<Rightarrow> string \<Rightarrow> 'd word \<Rightarrow> 'd word ResolvedLocation" where
  "module_location a name base =
     \<lparr>rl_address = a, rl_module = Some name, rl_moduleBase = Some base, rl_rva = Some (a - base)\<rparr>"

definition in_module :: "('d :: len) word \<Rightarrow> 'd word \<Rightarrow> 'd word \<Rightarrow> bool" where
  "in_module a base sz \<longleftrightarrow> a \<ge> base \<and> a - base < sz"

definition reference_hit ::
    "winapi \<Rightarrow> ('d :: len) word AddressReference \<Rightarrow> 'd word ModuleInfo \<Rightarrow> bool" where
  "reference_hit W reference m \<longleftrightarrow>
     (if ar_kind reference = ref_moduleRva then same_name W (c_field (mi_name m)) (ar_module reference)
      else in_module (ar_absolute reference) (mi_base m) (mi_size m))"

text \<open>The scan of the module list keeps the last match and counts the matches.\<close>

primrec resolve_scan ::
    "winapi \<Rightarrow> ('d :: len) word AddressReference \<Rightarrow> 'd word ModuleInfo list \<Rightarrow>
     'd word ModuleInfo option \<times> nat \<Rightarrow> 'd word ModuleInfo option \<times> nat" where
  "resolve_scan W reference [] found = found"
| "resolve_scan W reference (m # ms) found =
     resolve_scan W reference ms
       (if reference_hit W reference m then (Some m, snd found + 1) else found)"

definition ResolveAddress ::
    "winapi \<Rightarrow> ('d :: len) word AddressReference \<Rightarrow> 'd word ModuleInfo ListInfo option \<Rightarrow>
     tool_error + 'd word ResolvedLocation" where
  "ResolveAddress W reference modules =
     (let absolute = (ar_kind reference = ref_absolute);
          bare = Inr (bare_location (ar_absolute reference)) in
      if \<not> ar_pointerWidthValid reference
      then failure ''INVALID_ARGUMENT'' ''address exceeds debugger pointer width'' False False
      else
        (case modules of
           None \<Rightarrow> if absolute then bare
             else failure ''INTERNAL'' ''module list is unavailable'' True False
         | Some l \<Rightarrow>
             if \<not> list_valid 65536 l
             then (if absolute then bare
               else failure ''INTERNAL'' ''module list is invalid'' False False)
             else
               let (found, matches) = resolve_scan W reference (list_items l) (None, 0) in
               if absolute then
                 (if matches \<noteq> 1 then bare
                  else case found of
                      None \<Rightarrow> bare
                    | Some m \<Rightarrow> Inr (module_location (ar_absolute reference) (c_field (mi_name m)) (mi_base m)))
               else if matches = 0
               then failure ''INVALID_ARGUMENT'' ''module is not loaded'' False False
               else if matches \<noteq> 1
               then failure ''INVALID_ARGUMENT'' ''module name is ambiguous'' False False
               else
                 (case found of
                    None \<Rightarrow> failure ''INVALID_ARGUMENT'' ''rva is outside the module'' False False
                  | Some m \<Rightarrow>
                      if ar_rva reference \<ge> mi_size m
                      then failure ''INVALID_ARGUMENT'' ''rva is outside the module'' False False
                      else if mi_base m > - 1 - ar_rva reference
                      then failure ''INVALID_ARGUMENT'' ''module-relative address overflows'' False False
                      else Inr (module_location (mi_base m + ar_rva reference) (c_field (mi_name m))
                        (mi_base m)))))"

definition LocationJson :: "('d :: len) word ResolvedLocation \<Rightarrow> u64 \<Rightarrow> string" where
  "LocationJson l generation = json_object
     [(''address'', hex (rl_address l)),
      (''module'', or_null (map_option JsonString (rl_module l))),
      (''module_base'', or_null (map_option hex (rl_moduleBase l))),
      (''rva'', or_null (map_option hex (rl_rva l))),
      (''state_generation'', dec generation)]"

definition module_record :: "'d ModuleInfo \<Rightarrow> 'd ModuleRecord" where
  "module_record m = \<lparr>mr_base = mi_base m, mr_size = mi_size m, mr_name = c_field (mi_name m)\<rparr>"

definition CaptureModuleRecords :: "('g, 'd) debugger \<Rightarrow> ('g, 'd ModuleRecord list option) call" where
  "CaptureModuleRecords D = do {
     l \<leftarrow> dbg_ModuleList D;
     State_Monad.return (case l of
         None \<Rightarrow> None
       | Some l \<Rightarrow> if list_valid 65536 l then Some (map module_record (list_items l)) else None)
   }"

primrec unique_scan :: "('m \<Rightarrow> bool) \<Rightarrow> 'm list \<Rightarrow> 'm option \<Rightarrow> 'm option" where
  "unique_scan hit [] found = found"
| "unique_scan hit (m # ms) found =
     (if hit m then (if found \<noteq> None then None else unique_scan hit ms (Some m))
      else unique_scan hit ms found)"

definition UniqueModule :: "winapi \<Rightarrow> 'd ModuleRecord list \<Rightarrow> string \<Rightarrow> 'd ModuleRecord option" where
  "UniqueModule W modules name = unique_scan (\<lambda>m. same_name W (mr_name m) name) modules None"

definition LocationFromModules ::
    "('d :: len) word \<Rightarrow> 'd word ModuleRecord list \<Rightarrow> 'd word ResolvedLocation" where
  "LocationFromModules address modules =
     (case unique_scan (\<lambda>m. in_module address (mr_base m) (mr_size m)) modules None of
        None \<Rightarrow> bare_location address
      | Some m \<Rightarrow> module_location address (mr_name m) (mr_base m))"

definition location_json :: "('d :: len) word \<Rightarrow> 'd word ModuleRecord list \<Rightarrow> u64 \<Rightarrow> string" where
  "location_json address modules generation = LocationJson (LocationFromModules address modules) generation"

section \<open>Before a tool reads\<close>

definition paused_snapshot :: "('g, 'd) debugger \<Rightarrow> string \<Rightarrow> (u64 \<Rightarrow> ('g, 'a) tool) \<Rightarrow> ('g, 'a) tool" where
  "paused_snapshot D message rest = do {
     snapshot \<leftarrow> observe D BeginPausedSnapshot;
     (case snapshot of
        None \<Rightarrow> refuse ''INVALID_DEBUGGER_STATE'' message False False
      | Some g \<Rightarrow> do {
          debugging \<leftarrow> dbg_IsDebugging D;
          ensure debugging ''INVALID_DEBUGGER_STATE'' message False False (rest g)
        })
   }"

definition requires_pause :: string where
  "requires_pause = ''operation requires a paused debuggee''"

definition captured_modules ::
    "('g, 'd) debugger \<Rightarrow> ('d ModuleRecord list \<Rightarrow> ('g, 'a) tool) \<Rightarrow> ('g, 'a) tool" where
  "captured_modules D rest = do {
     modules \<leftarrow> CaptureModuleRecords D;
     (case modules of
        None \<Rightarrow> refuse ''INTERNAL'' ''module snapshot is invalid'' True False
      | Some ms \<Rightarrow> rest ms)
   }"

definition address_methods :: "string list" where
  "address_methods =
     [''address.resolve'', ''functions.at'', ''analysis.function'', ''debugger.run_to_address'',
      ''memory.read'', ''memory.dump'', ''memory.write'', ''breakpoints.set'', ''breakpoints.remove'',
      ''breakpoints.hardware.set'', ''breakpoints.hardware.remove'', ''breakpoints.memory.set'',
      ''breakpoints.memory.remove'', ''breakpoints.conditional.set'', ''breakpoints.conditional.remove'',
      ''assembly.preview'', ''assembly.patch'', ''patches.restore'', ''disassembly.read'',
      ''references.to'']"

definition addressMethod :: "('w :: len) word Request \<Rightarrow> bool" where
  "addressMethod q \<longleftrightarrow>
     rq_method q \<in> set address_methods \<or>
     (rq_method q = ''symbols.resolve'' \<and> rq_addressProvided q) \<or>
     (rq_method q \<in> {''breakpoints.enable'', ''breakpoints.disable''} \<and>
      rq_breakpointKind q \<noteq> ''exception'')"

text \<open>The location and the generation it was resolved in.\<close>

definition resolved_address ::
    "('g, ('w :: len) word) debugger \<Rightarrow> winapi \<Rightarrow> 'w word Request \<Rightarrow>
     ('g, 'w word ResolvedLocation \<times> u64) tool" where
  "resolved_address D W q = paused_snapshot D requires_pause (\<lambda>g. do {
     modules \<leftarrow> (if ar_pointerWidthValid (rq_address q) then dbg_ModuleList D
       else State_Monad.return None);
     (case ResolveAddress W (rq_address q) modules of
        Inl e \<Rightarrow> State_Monad.return (Inl e)
      | Inr loc \<Rightarrow> do {
          ok \<leftarrow> still_paused D g;
          ensure ok ''BUSY'' ''debugger changed during address resolution'' True False (answer (loc, g))
        })
   })"

end
