(* ===== verification/Tool_Logic.thy ===== *)
theory Tool_Logic
  imports Address_Tools
begin

text \<open>
  Reasoning about tools. For what the error answers promise there are two more judgements over any
  property \<open>P\<close> of the world beside \<open>maintains\<close>: \<open>marked\<close>, a computation whose every error
  says that the outcome is unknown; and \<open>harmless\<close>, a computation that maintains \<open>P\<close> whenever it
  returns an error without that mark. A tool is harmless when it makes only queries until its one
  mutation, refuses without the mark only if the mutation was rejected, and is marked behind it.
\<close>

named_theorems marked_rules \<open>introduction rules for marked\<close>
named_theorems harmless_rules \<open>introduction rules for harmless\<close>

section \<open>Weakest preconditions\<close>

lemma wp_refuse [wp_simps]: "wp (refuse c m r u) Q = Q (failure c m r u)"
  by (simp add: refuse_def wp_simps)

lemma wp_ensure [wp_simps]:
  "wp (ensure b c m r u rest) Q = (if b then wp rest Q else Q (failure c m r u))"
  by (simp add: ensure_def wp_simps)

lemma wp_observe [wp_simps]: "wp (observe D f) Q = wp (dbg_others D) (\<lambda>_ w. Q (f (w_runtime w)) w)"
  by (simp add: observe_def wp_simps)

section \<open>Calls that keep a property\<close>

lemma maintains_refuse [maintains_rules]: "maintains P (refuse c m r u)"
  by (simp add: maintains_def refuse_def)

lemma maintains_ensure [maintains_rules]: "(b \<Longrightarrow> maintains P rest) \<Longrightarrow> maintains P (ensure b c m r u rest)"
  by (simp add: ensure_def maintains_rules)

lemma maintains_observe [maintains_rules]: "maintains P (dbg_others D) \<Longrightarrow> maintains P (observe D f)"
  unfolding observe_def by (intro maintains_rules)

lemma maintains_still_paused [maintains_rules]: "maintains P (dbg_others D) \<Longrightarrow> maintains P (still_paused D g)"
  by (simp add: still_paused_def maintains_observe)

section \<open>Errors that admit an unknown outcome\<close>

definition marked :: "('s, tool_error + 'a) state \<Rightarrow> bool" where
  "marked m \<longleftrightarrow> (\<forall>s e s'. run_state m s = (Inl e, s') \<longrightarrow> te_unknown e)"

lemma marked_answer [marked_rules]: "marked (answer a)"
  by (simp add: marked_def answer_def)

lemma marked_refuse [marked_rules]: "u \<Longrightarrow> marked (refuse c m r u)"
  by (simp add: marked_def refuse_def failure_def)

lemma marked_bind [marked_rules]: "(\<And>a. marked (f a)) \<Longrightarrow> marked (State_Monad.bind m f)"
  unfolding marked_def by (metis run_bindE)

lemma marked_if [marked_rules]:
  "(c \<Longrightarrow> marked m) \<Longrightarrow> (\<not> c \<Longrightarrow> marked n) \<Longrightarrow> marked (if c then m else n)"
  by simp

lemma marked_ensure [marked_rules]: "(\<not> b \<Longrightarrow> u) \<Longrightarrow> (b \<Longrightarrow> marked rest) \<Longrightarrow> marked (ensure b c m r u rest)"
  by (simp add: ensure_def marked_rules)

lemma marked_case_option [marked_rules]:
  "(x = None \<Longrightarrow> marked m) \<Longrightarrow> (\<And>a. x = Some a \<Longrightarrow> marked (f a)) \<Longrightarrow>
   marked (case x of None \<Rightarrow> m | Some a \<Rightarrow> f a)"
  by (simp split: option.split)

lemma marked_case_prod [marked_rules]:
  "(\<And>a b. x = (a, b) \<Longrightarrow> marked (f a b)) \<Longrightarrow> marked (case x of (a, b) \<Rightarrow> f a b)"
  by (simp split: prod.split)

lemma marked_Let [marked_rules]: "(\<And>x. x = t \<Longrightarrow> marked (f x)) \<Longrightarrow> marked (let x = t in f x)"
  by simp

lemma marked_attempt [marked_rules]: "marked m \<Longrightarrow> (\<And>a. marked (f a)) \<Longrightarrow> marked (attempt m f)"
  unfolding marked_def attempt_def by (auto split: prod.splits sum.splits)

section \<open>Errors that leave everything as it was\<close>

definition harmless :: "('s \<Rightarrow> bool) \<Rightarrow> ('s, tool_error + 'a) state \<Rightarrow> bool" where
  "harmless P m \<longleftrightarrow> (\<forall>s e s'. P s \<longrightarrow> run_state m s = (Inl e, s') \<longrightarrow> te_unknown e \<or> P s')"

lemma harmlessD:
  "harmless P m \<Longrightarrow> P s \<Longrightarrow> run_state m s = (Inl e, s') \<Longrightarrow> \<not> te_unknown e \<Longrightarrow> P s'"
  by (auto simp: harmless_def)

lemma harmless_marked: "marked m \<Longrightarrow> harmless P m"
  by (auto simp: marked_def harmless_def)

lemma harmless_keeps: "maintains P m \<Longrightarrow> harmless P m"
  by (auto simp: maintains_def harmless_def)

lemma harmless_answer [harmless_rules]: "harmless P (answer a)"
  by (simp add: harmless_def answer_def)

lemma harmless_refuse [harmless_rules]: "harmless P (refuse c m r u)"
  by (simp add: harmless_def refuse_def)

lemma harmless_return [harmless_rules]: "harmless P (State_Monad.return x)"
  by (simp add: harmless_def)

lemma harmless_bind: "maintains P m \<Longrightarrow> (\<And>a. harmless P (f a)) \<Longrightarrow> harmless P (State_Monad.bind m f)"
  unfolding harmless_def maintains_def by (metis run_bindE)

lemma harmless_if [harmless_rules]:
  "(c \<Longrightarrow> harmless P m) \<Longrightarrow> (\<not> c \<Longrightarrow> harmless P n) \<Longrightarrow> harmless P (if c then m else n)"
  by simp

lemma harmless_ensure [harmless_rules]: "(b \<Longrightarrow> harmless P rest) \<Longrightarrow> harmless P (ensure b c m r u rest)"
  by (simp add: ensure_def harmless_rules)

lemma harmless_case_option [harmless_rules]:
  "(x = None \<Longrightarrow> harmless P m) \<Longrightarrow> (\<And>a. x = Some a \<Longrightarrow> harmless P (f a)) \<Longrightarrow>
   harmless P (case x of None \<Rightarrow> m | Some a \<Rightarrow> f a)"
  by (simp split: option.split)

lemma harmless_case_sum [harmless_rules]:
  "(\<And>e. x = Inl e \<Longrightarrow> harmless P (f e)) \<Longrightarrow> (\<And>a. x = Inr a \<Longrightarrow> harmless P (g a)) \<Longrightarrow>
   harmless P (case x of Inl e \<Rightarrow> f e | Inr a \<Rightarrow> g a)"
  by (simp split: sum.split)

lemma harmless_case_prod [harmless_rules]:
  "(\<And>a b. x = (a, b) \<Longrightarrow> harmless P (f a b)) \<Longrightarrow> harmless P (case x of (a, b) \<Rightarrow> f a b)"
  by (simp split: prod.split)

lemma harmless_Let [harmless_rules]: "(\<And>x. x = t \<Longrightarrow> harmless P (f x)) \<Longrightarrow> harmless P (let x = t in f x)"
  by simp

lemma harmless_attempt: "maintains P m \<Longrightarrow> (\<And>a. harmless P (f a)) \<Longrightarrow> harmless P (attempt m f)"
  unfolding attempt_def by (intro harmless_bind harmless_rules)

text \<open>
  A computation after which, from wherever it starts, an error without the mark means that \<open>P\<close>
  holds: what a clean-up behind a mutation establishes.
\<close>

definition settles :: "('s \<Rightarrow> bool) \<Rightarrow> ('s, tool_error + 'a) state \<Rightarrow> bool" where
  "settles P m \<longleftrightarrow> (\<forall>s e s'. run_state m s = (Inl e, s') \<longrightarrow> te_unknown e \<or> P s')"

lemma settles_marked: "marked m \<Longrightarrow> settles P m"
  by (auto simp: marked_def settles_def)

lemma settles_bind: "(\<And>a. settles P (f a)) \<Longrightarrow> settles P (State_Monad.bind m f)"
  unfolding settles_def by (metis run_bindE)

lemma settles_if: "(c \<Longrightarrow> settles P m) \<Longrightarrow> (\<not> c \<Longrightarrow> settles P n) \<Longrightarrow> settles P (if c then m else n)"
  by simp

lemma settles_ensure_marked: "u \<Longrightarrow> settles P rest \<Longrightarrow> settles P (ensure b c m r u rest)"
  by (simp add: ensure_def settles_def refuse_def failure_def)

lemmas settles_rules = settles_if settles_ensure_marked

text \<open>A mutation that maintains \<open>P\<close> when it is rejected.\<close>

definition tentative :: "('s \<Rightarrow> bool) \<Rightarrow> ('s, bool) state \<Rightarrow> bool" where
  "tentative P m \<longleftrightarrow> (\<forall>s s'. P s \<longrightarrow> run_state m s = (False, s') \<longrightarrow> P s')"

lemma harmless_tentative:
  "tentative P m \<Longrightarrow> marked (f True) \<Longrightarrow> harmless P (f False) \<Longrightarrow> harmless P (State_Monad.bind m f)"
  unfolding harmless_def tentative_def marked_def by (metis (full_types) run_bindE)

lemma harmless_mutation:
  "tentative P m \<Longrightarrow> marked rest \<Longrightarrow>
   harmless P (State_Monad.bind m (\<lambda>taken. ensure taken c t r u rest))"
  by (rule harmless_tentative) (simp_all add: ensure_def harmless_rules)

section \<open>What the SDK promises\<close>

text \<open>
  A property the debugger's queries keep: no query and no other thread ends it, and it does not
  speak about the command fence. \<open>rejections_keep\<close>: a memory write, a patch or a queued command
  that is reported as rejected leaves it, too.
\<close>

definition optionally :: "('f \<Rightarrow> bool) \<Rightarrow> 'f option \<Rightarrow> bool" where
  "optionally p x \<longleftrightarrow> (\<forall>f. x = Some f \<longrightarrow> p f)"

definition table_queries_keep :: "('g world \<Rightarrow> bool) \<Rightarrow> ('g, 'd) DBGFUNCTIONS \<Rightarrow> bool" where
  "table_queries_keep P fs \<longleftrightarrow>
     optionally (\<lambda>f. \<forall>a t. maintains P (f a t)) (fn_Assemble fs) \<and>
     optionally (\<lambda>f. \<forall>a b. maintains P (f a b)) (fn_PatchInRange fs) \<and>
     optionally (\<lambda>f. \<forall>a. maintains P (f a)) (fn_PatchGetEx fs) \<and>
     optionally (\<lambda>f. \<forall>t a. maintains P (f t a)) (fn_GetBridgeBp fs) \<and>
     optionally (\<lambda>f. \<forall>a. maintains P (f a)) (fn_MemBpSize fs)"

definition queries_keep :: "('g world \<Rightarrow> bool) \<Rightarrow> ('g, 'd) debugger \<Rightarrow> bool" where
  "queries_keep P D \<longleftrightarrow>
     maintains P (dbg_others D) \<and> maintains P (dbg_expired D) \<and> maintains P (dbg_IsDebugging D) \<and>
     maintains P (dbg_ModuleList D) \<and> (\<forall>a n. maintains P (dbg_MemRead D a n)) \<and>
     (\<forall>a. maintains P (dbg_MemFindBaseAddr D a)) \<and> (\<forall>a. maintains P (dbg_DisasmAt D a)) \<and>
     maintains P (dbg_RegDump D) \<and> maintains P (dbg_ThreadList D) \<and> maintains P (dbg_ThreadHandle D) \<and>
     maintains P (dbg_ThreadId D) \<and> (\<forall>h. maintains P (dbg_GetThreadContext D h)) \<and>
     (\<forall>a. maintains P (dbg_SoftwareBpAt D a)) \<and> (\<forall>t. maintains P (dbg_BpList D t)) \<and>
     maintains P (dbg_random D) \<and> optionally (table_queries_keep P) (dbg_functions D) \<and>
     (\<forall>w f. P (w\<lparr>w_fence := f\<rparr>) = P w)"

definition rejections_keep :: "('g world \<Rightarrow> bool) \<Rightarrow> ('g, 'd) debugger \<Rightarrow> bool" where
  "rejections_keep P D \<longleftrightarrow>
     (\<forall>a bs. tentative P (dbg_MemWrite D a bs)) \<and> (\<forall>c. tentative P (dbg_CmdExec D c)) \<and>
     optionally (\<lambda>fs. optionally (\<lambda>f. \<forall>a bs. tentative P (f a bs)) (fn_MemPatch fs)) (dbg_functions D)"

lemma queries_keepD:
  assumes "queries_keep P D"
  shows "maintains P (dbg_others D)" "maintains P (dbg_expired D)" "maintains P (dbg_IsDebugging D)"
    "maintains P (dbg_ModuleList D)" "maintains P (dbg_MemRead D a n)" "maintains P (dbg_MemFindBaseAddr D a)"
    "maintains P (dbg_DisasmAt D a)" "maintains P (dbg_RegDump D)" "maintains P (dbg_ThreadList D)"
    "maintains P (dbg_ThreadHandle D)" "maintains P (dbg_ThreadId D)" "maintains P (dbg_GetThreadContext D a)"
    "maintains P (dbg_SoftwareBpAt D a)" "maintains P (dbg_BpList D t)" "maintains P (dbg_random D)"
    "P (w\<lparr>w_fence := f\<rparr>) = P w"
  using assms by (simp_all add: queries_keep_def)

lemma table_queries_keepD:
  assumes "queries_keep P D" "dbg_functions D = Some fs"
  shows "fn_Assemble fs \<noteq> None \<Longrightarrow> maintains P (the (fn_Assemble fs) a s)"
    "fn_PatchInRange fs \<noteq> None \<Longrightarrow> maintains P (the (fn_PatchInRange fs) a b)"
    "fn_PatchGetEx fs \<noteq> None \<Longrightarrow> maintains P (the (fn_PatchGetEx fs) a)"
    "fn_GetBridgeBp fs \<noteq> None \<Longrightarrow> maintains P (the (fn_GetBridgeBp fs) t a)"
    "fn_MemBpSize fs \<noteq> None \<Longrightarrow> maintains P (the (fn_MemBpSize fs) a)"
  using assms by (auto simp: queries_keep_def table_queries_keep_def optionally_def)

lemma rejections_keepD:
  assumes "rejections_keep P D"
  shows "tentative P (dbg_MemWrite D a bs)" "tentative P (dbg_CmdExec D c)"
    "dbg_functions D = Some fs \<Longrightarrow> fn_MemPatch fs \<noteq> None \<Longrightarrow> tentative P (the (fn_MemPatch fs) a bs)"
  using assms by (auto simp: rejections_keep_def optionally_def)

lemma maintains_on_fence: "queries_keep P D \<Longrightarrow> maintains P (on_fence f)"
  by (auto simp: on_fence_def maintains_def queries_keepD(16) split: prod.splits)

lemma maintains_draw_token: "queries_keep P D \<Longrightarrow> maintains P (draw_token D n)"
  by (induction n) (auto intro!: maintains_rules queries_keepD(15))

lemma maintains_CaptureModuleRecords: "queries_keep P D \<Longrightarrow> maintains P (CaptureModuleRecords D)"
  unfolding CaptureModuleRecords_def by (intro maintains_rules queries_keepD)

lemma harmless_paused_snapshot:
  "queries_keep P D \<Longrightarrow> (\<And>g. harmless P (rest g)) \<Longrightarrow> harmless P (paused_snapshot D m rest)"
  unfolding paused_snapshot_def by (intro harmless_bind harmless_rules maintains_rules queries_keepD)

lemma maintains_resolved_address: "queries_keep P D \<Longrightarrow> maintains P (resolved_address D W q)"
  unfolding resolved_address_def paused_snapshot_def by (intro maintains_rules queries_keepD)

text \<open>A fenced command that is not admitted.\<close>

lemma fence_phases_not_admitted:
  assumes q: "queries_keep P D" and r: "rejections_keep P D" and "P w"
    "run_state (fence_phases D c) w = (p, w')" "p \<in> {fp_no_fence, fp_command_rejected}"
  shows "P w'"
proof -
  obtain token w1 where t: "run_state (draw_token D 4) w = (token, w1)" by fastforce
  then have p1: "P w1" using maintains_draw_token [OF q] \<open>P w\<close> by (rule maintainsD [rotated 2])
  show ?thesis
  proof (cases "token = 0")
    case True
    with assms(4) t p1 show ?thesis by (simp add: fence_phases_def)
  next
    case False
    obtain armed w2 where a: "run_state (on_fence (\<lambda>f. fence_Arm f token)) w1 = (armed, w2)" by fastforce
    then have p2: "P w2" using maintains_on_fence [OF q] p1 by (rule maintainsD [rotated 2])
    show ?thesis
    proof (cases armed)
      case False
      with assms(4) t a p2 \<open>token \<noteq> 0\<close> show ?thesis by (simp add: fence_phases_def)
    next
      case True
      obtain taken w3 where c: "run_state (dbg_CmdExec D c) w2 = (taken, w3)" by fastforce
      have "\<not> taken" using assms(4,5) t a c \<open>token \<noteq> 0\<close> True
        by (auto simp: fence_phases_def on_fence_def split: if_splits prod.splits)
      with rejections_keepD(2) [OF r, of c] p2 c have p3: "P w3" by (auto simp: tentative_def)
      with assms(4) t a c \<open>token \<noteq> 0\<close> \<open>\<not> taken\<close> True show ?thesis
        by (auto simp: fence_phases_def on_fence_def queries_keepD(16) [OF q])
    qed
  qed
qed

lemma harmless_fence_phases:
  assumes q: "queries_keep P D" and r: "rejections_keep P D"
    and f: "harmless P (f fp_no_fence)" "harmless P (f fp_command_rejected)"
      "\<And>p. p \<notin> {fp_no_fence, fp_command_rejected} \<Longrightarrow> settles P (f p)"
  shows "harmless P (State_Monad.bind (fence_phases D c) f)"
proof -
  have "te_unknown e \<or> P s'" if "P s" "run_state (State_Monad.bind (fence_phases D c) f) s = (Inl e, s')" for s e s'
  proof -
    from that(2) obtain p s1 where p: "run_state (fence_phases D c) s = (p, s1)" "run_state (f p) s1 = (Inl e, s')"
      by (rule run_bindE)
    show ?thesis
    proof (cases "p \<in> {fp_no_fence, fp_command_rejected}")
      case True
      with p fence_phases_not_admitted [OF q r that(1) p(1)] f(1,2) show ?thesis by (auto simp: harmless_def)
    next
      case False
      with p(2) f(3) show ?thesis by (auto simp: settles_def)
    qed
  qed
  then show ?thesis by (auto simp: harmless_def)
qed

lemma harmless_fenced:
  assumes "queries_keep P D" "rejections_keep P D" "harmless P (f 1)" "\<And>n. n \<noteq> 1 \<Longrightarrow> settles P (f n)"
  shows "harmless P (State_Monad.bind (fenced D c) f)"
  unfolding fenced_def bind_assoc bind_left_identity
  using assms by (intro harmless_fence_phases) (auto split: fence_phase.split)

end
