(* ===== verification/Patch_Tools.thy ===== *)
theory Patch_Tools
  imports Tool_Logic Patch_Policy
begin

text \<open>
  The tools that write memory: \<open>memory.write\<close>, \<open>assembly.preview\<close>, \<open>assembly.patch\<close> and
  \<open>patches.restore\<close> of \<open>runtime.cpp\<close>. Each starts from the location \<open>loc\<close> and the generation
  \<open>g\<close> that \<open>resolved_address\<close> gave.
\<close>

definition BoundedNativeError :: "string \<Rightarrow> string" where
  "BoundedNativeError bytes =
     map (\<lambda>c. if 32 \<le> char_code c \<and> char_code c \<le> 126 then c else CHR ''?'') (take 256 (c_field bytes))"

section \<open>memory.write\<close>

definition memory_write ::
    "('g, ('w :: len) word) debugger \<Rightarrow> 'w word Request \<Rightarrow> 'w word ResolvedLocation \<Rightarrow> u64 \<Rightarrow>
     ('g, u64 \<times> string) tool" where
  "memory_write D q loc g = do {
     ok \<leftarrow> still_paused D g;
     ensure ok ''BUSY'' ''debugger changed after address resolution'' True False (do {
       written \<leftarrow> dbg_MemWrite D (rl_address loc) (rq_writeBytes q);
       ensure written ''ACCESS_DENIED'' ''memory write failed'' False False (do {
         verified \<leftarrow> dbg_MemRead D (rl_address loc) (length (rq_writeBytes q));
         ensure (verified = Some (rq_writeBytes q)) ''INTERNAL'' ''memory write could not be verified'' False True (do {
           generation \<leftarrow> observe D rt_generation;
           answer (generation, json_object
             [(''address'', hex (rl_address loc)), (''location'', LocationJson loc g),
              (''bytes_written'', to_string (length (rq_writeBytes q))), (''verified'', ''true'')])
         })
       })
     })
   }"

section \<open>Assembling\<close>

definition assemble ::
    "('g, ('w :: len) word) DBGFUNCTIONS \<Rightarrow> 'w word \<Rightarrow> string \<Rightarrow> ('g, u8 list) tool" where
  "assemble fs address instruction = do {
     (ok, bytes, assembledSize, nativeError) \<leftarrow> the (fn_Assemble fs) address instruction;
     (let boundedError = BoundedNativeError nativeError in
      if \<not> ok \<or> assembledSize < 1 \<or> assembledSize > 16
      then refuse ''INVALID_ARGUMENT''
        (if boundedError = [] then ''instruction could not be assembled''
         else ''instruction could not be assembled: '' @ boundedError) False False
      else answer (take (nat assembledSize) bytes))
   }"

definition assembly_preview ::
    "('g, ('w :: len) word) debugger \<Rightarrow> ('g, 'w word) DBGFUNCTIONS \<Rightarrow> 'w word Request \<Rightarrow>
     'w word ResolvedLocation \<Rightarrow> u64 \<Rightarrow> ('g, u64 \<times> string) tool" where
  "assembly_preview D fs q loc g = attempt (assemble fs (rl_address loc) (rq_instruction q)) (\<lambda>bytes. do {
     ok \<leftarrow> still_paused D g;
     ensure ok ''BUSY'' ''debugger changed during assembly preview'' True False (answer (g, json_object
       [(''address'', hex (rl_address loc)), (''location'', LocationJson loc g),
        (''instruction'', JsonString (rq_instruction q)), (''bytes_hex'', JsonString (Hex bytes)),
        (''byte_count'', to_string (length bytes)), (''state_generation'', dec g)]))
   })"

section \<open>Tracked patches\<close>

text \<open>
  The loop over the patch records of a span: a byte that differs must have exactly its record, a
  byte that does not must have none. The result is the number of bytes that differ. The two
  callers refuse with different words and marks.
\<close>

primrec check_records ::
    "('g, ('w :: len) word) DBGFUNCTIONS \<Rightarrow> string \<Rightarrow> string \<Rightarrow> string \<Rightarrow> bool \<Rightarrow>
     ('w word \<times> u8 \<times> u8) list \<Rightarrow> nat \<Rightarrow> ('g, nat) tool" where
  "check_records fs code mismatch unexpected unknown [] changed = answer changed"
| "check_records fs code mismatch unexpected unknown (b # bs) changed = (case b of (address, original, patched) \<Rightarrow> do {
     r \<leftarrow> the (fn_PatchGetEx fs) address;
     if patched \<noteq> original
     then ensure (case r of None \<Rightarrow> False | Some r \<Rightarrow> PatchRecordMatches r address original patched)
       code mismatch False unknown (check_records fs code mismatch unexpected unknown bs (changed + 1))
     else ensure (r = None) code unexpected False unknown
       (check_records fs code mismatch unexpected unknown bs changed)
   })"

definition span_bytes :: "('w :: len) word \<Rightarrow> nat \<Rightarrow> u8 list \<Rightarrow> u8 list \<Rightarrow> ('w word \<times> u8 \<times> u8) list" where
  "span_bytes address span original patched =
     map (\<lambda>i. (address + of_nat i, original ! i, patched ! i)) [0..<span]"

definition patch_applied ::
    "('g, ('w :: len) word) debugger \<Rightarrow> ('g, 'w word) DBGFUNCTIONS \<Rightarrow> 'w word Request \<Rightarrow>
     'w word ResolvedLocation \<Rightarrow> u64 \<Rightarrow> 'w word \<Rightarrow> u8 list \<Rightarrow> u8 list \<Rightarrow> ('g, u64 \<times> string) tool" where
  "patch_applied D fs q loc g stop instructionBytes finalBytes = (
     let address = rl_address loc; expected = rq_expectedBytes q; span = length expected in do {
       verified \<leftarrow> dbg_MemRead D address span;
       ensure (verified = Some finalBytes) ''INTERNAL'' ''tracked patch read-back did not match'' False True
         (attempt (check_records fs ''INTERNAL'' ''tracked patch metadata did not match''
           ''unexpected patch metadata appeared'' True (span_bytes address span expected finalBytes) 0) (\<lambda>changed. do {
             inRange \<leftarrow> the (fn_PatchInRange fs) address stop;
             ok \<leftarrow> (if inRange then still_paused D g else State_Monad.return False);
             ensure ok ''INTERNAL'' ''tracked patch postcondition was not stable'' False True (answer (g, json_object
               [(''address'', hex address), (''location'', LocationJson loc g),
                (''instruction'', JsonString (rq_instruction q)),
                (''original_bytes_hex'', JsonString (Hex expected)),
                (''assembled_bytes_hex'', JsonString (Hex instructionBytes)),
                (''patched_bytes_hex'', JsonString (Hex finalBytes)),
                (''assembled_length'', to_string (length instructionBytes)),
                (''span_length'', to_string span),
                (''nop_padding'', to_string (span - length instructionBytes)),
                (''changed_bytes'', to_string changed), (''patch_tracked'', ''true''),
                (''state_generation'', dec g)]))
           }))
     })"

definition assembly_patch ::
    "('g, ('w :: len) word) debugger \<Rightarrow> ('g, 'w word) DBGFUNCTIONS \<Rightarrow> 'w word Request \<Rightarrow>
     'w word ResolvedLocation \<Rightarrow> u64 \<Rightarrow> 'w word \<Rightarrow> u8 list \<Rightarrow> u8 list \<Rightarrow> ('g, u64 \<times> string) tool" where
  "assembly_patch D fs q loc g stop bytes instructionBytes = (
     let address = rl_address loc; expected = rq_expectedBytes q in do {
       tracked \<leftarrow> the (fn_PatchInRange fs) address stop;
       ensure (\<not> tracked) ''CONFLICT'' ''patch span already contains tracked patches'' False False (
       ensure (bytes = expected) ''CONFLICT'' ''current memory does not match expected bytes'' False False (
       case PreparePatchBytes instructionBytes expected (rq_fillNop q) of
         None \<Rightarrow> refuse ''INVALID_ARGUMENT''
           ''assembled instruction does not fit the expected span or requires fill_nop'' False False
       | Some finalBytes \<Rightarrow>
           ensure (finalBytes \<noteq> expected) ''CONFLICT'' ''assembled patch would not change memory'' False False (do {
             patched \<leftarrow> the (fn_MemPatch fs) address finalBytes;
             ensure patched ''ACCESS_DENIED'' ''x64dbg rejected the tracked patch'' False False
               (patch_applied D fs q loc g stop instructionBytes finalBytes)
           })))
     })"

definition patches_restore ::
    "('g, ('w :: len) word) debugger \<Rightarrow> ('g, 'w word) DBGFUNCTIONS \<Rightarrow> 'w word Request \<Rightarrow>
     'w word ResolvedLocation \<Rightarrow> u64 \<Rightarrow> 'w word \<Rightarrow> u8 list \<Rightarrow> ('g, u64 \<times> string) tool" where
  "patches_restore D fs q loc g stop bytes = (
     let address = rl_address loc; expected = rq_expectedBytes q; original = rq_expectedOriginalBytes q in
     ensure (bytes = expected) ''CONFLICT'' ''current memory does not match expected patched bytes'' False False
       (attempt (check_records fs ''CONFLICT'' ''patch metadata does not match expected bytes''
         ''patch span contains unexpected metadata'' False (span_bytes address (length expected) original expected) 0) (\<lambda>_. do {
           the (fn_PatchRestoreRange fs) address stop;
           restored \<leftarrow> dbg_MemRead D address (length expected);
           ok \<leftarrow> (if restored \<noteq> Some original then State_Monad.return False else do {
             tracked \<leftarrow> the (fn_PatchInRange fs) address stop;
             if tracked then State_Monad.return False else still_paused D g
           });
           ensure ok ''INTERNAL'' ''patch restore postcondition did not match'' False True (answer (g, json_object
             [(''address'', hex address), (''location'', LocationJson loc g),
              (''restored_bytes_hex'', JsonString (Hex original)),
              (''bytes_restored'', to_string (length expected)), (''patch_tracked'', ''false''),
              (''state_generation'', dec g)]))
         })))"

definition patch_functions_missing :: "('g, 'd) DBGFUNCTIONS \<Rightarrow> string \<Rightarrow> bool" where
  "patch_functions_missing fs method \<longleftrightarrow>
     (let preview = (method = ''assembly.preview''); patch = (method = ''assembly.patch'') in
      (preview \<and> fn_Assemble fs = None) \<or>
      (patch \<and> (fn_Assemble fs = None \<or> fn_PatchInRange fs = None \<or> fn_PatchGetEx fs = None \<or>
         fn_MemPatch fs = None)) \<or>
      (\<not> preview \<and> \<not> patch \<and> (fn_PatchInRange fs = None \<or> fn_PatchGetEx fs = None \<or>
         fn_PatchRestoreRange fs = None)))"

definition patch_tool ::
    "('g, ('w :: len) word) debugger \<Rightarrow> 'w word Request \<Rightarrow> 'w word ResolvedLocation \<Rightarrow> u64 \<Rightarrow>
     ('g, u64 \<times> string) tool" where
  "patch_tool D q loc g = (
     let unavailable = refuse ''INTERNAL'' ''assembler or patch APIs are unavailable'' False False in
     case dbg_functions D of
       None \<Rightarrow> unavailable
     | Some fs \<Rightarrow>
         if patch_functions_missing fs (rq_method q) then unavailable
         else if rq_method q = ''assembly.preview'' then assembly_preview D fs q loc g
         else
           attempt (if rq_method q = ''assembly.patch'' then assemble fs (rl_address loc) (rq_instruction q)
             else answer []) (\<lambda>instructionBytes.
           let span = length (rq_expectedBytes q) in
           ensure (PatchRangeValid (rl_address loc) span) ''INVALID_ARGUMENT''
             ''patch span is invalid for this architecture'' False False (do {
               ok \<leftarrow> still_paused D g;
               ensure ok ''BUSY'' ''debugger changed after patch address resolution'' True False (do {
                 bytes \<leftarrow> dbg_MemRead D (rl_address loc) span;
                 (let stop = rl_address loc + of_nat (span - 1) in
                  case bytes of
                    None \<Rightarrow> refuse ''ACCESS_DENIED'' ''patch span is not fully readable'' False False
                  | Some bytes \<Rightarrow>
                      if rq_method q = ''assembly.patch''
                      then assembly_patch D fs q loc g stop bytes instructionBytes
                      else patches_restore D fs q loc g stop bytes)
               })
             })))"

section \<open>Errors without the mark change nothing\<close>

lemma harmless_memory_write:
  assumes "queries_keep P D" "rejections_keep P D"
  shows "harmless P (memory_write D q loc g)"
  unfolding memory_write_def
  by (intro harmless_mutation [OF rejections_keepD(1) [OF assms(2)]] harmless_bind harmless_rules
      maintains_rules marked_rules queries_keepD [OF assms(1)] TrueI)

lemma marked_check_records: "marked (check_records fs code m1 m2 True bs n)"
  by (induction bs arbitrary: n) (auto intro!: marked_rules split: prod.splits)

lemma maintains_check_records:
  "queries_keep P D \<Longrightarrow> dbg_functions D = Some fs \<Longrightarrow> fn_PatchGetEx fs \<noteq> None \<Longrightarrow>
   maintains P (check_records fs code m1 m2 u bs n)"
  by (induction bs arbitrary: n) (auto intro!: maintains_rules table_queries_keepD split: prod.splits)

lemma maintains_assemble:
  "queries_keep P D \<Longrightarrow> dbg_functions D = Some fs \<Longrightarrow> fn_Assemble fs \<noteq> None \<Longrightarrow>
   maintains P (assemble fs a t)"
  unfolding assemble_def by (intro maintains_rules table_queries_keepD)

lemma marked_patch_applied: "marked (patch_applied D fs q loc g stop ib fb)"
  unfolding patch_applied_def by (intro marked_rules marked_check_records TrueI)

lemma harmless_assembly_patch:
  assumes q: "queries_keep P D" and r: "rejections_keep P D" and fs: "dbg_functions D = Some fs"
    "fn_PatchInRange fs \<noteq> None" "fn_MemPatch fs \<noteq> None"
  shows "harmless P (assembly_patch D fs q loc g stop bytes ib)"
  unfolding assembly_patch_def
  by (intro harmless_mutation [OF rejections_keepD(3) [OF r fs(1,3)] marked_patch_applied] harmless_bind
      harmless_rules maintains_rules table_queries_keepD(2) [OF q fs(1,2)])

lemma harmless_patches_restore:
  assumes q: "queries_keep P D" and fs: "dbg_functions D = Some fs" "fn_PatchGetEx fs \<noteq> None"
  shows "harmless P (patches_restore D fs q loc g stop bytes)"
  unfolding patches_restore_def
  by (intro harmless_rules harmless_attempt maintains_check_records [OF q fs]
      harmless_marked marked_rules TrueI)

lemma harmless_patch_tool:
  assumes q: "queries_keep P D" and r: "rejections_keep P D"
  shows "harmless P (patch_tool D q loc g)"
  unfolding patch_tool_def assembly_preview_def
  by (auto simp: patch_functions_missing_def Let_def
      intro!: harmless_rules harmless_attempt harmless_bind maintains_rules maintains_assemble [OF q]
        queries_keepD [OF q] harmless_assembly_patch [OF q r] harmless_patches_restore [OF q]
      split: if_splits)

end
