(* ===== verification/Thread_Tools.thy ===== *)
theory Thread_Tools
  imports Tool_Logic
begin

text \<open>
  The tools of \<open>runtime.cpp\<close> on threads and registers: \<open>debugger.snapshot\<close>, \<open>registers.read\<close>,
  \<open>registers.write\<close>, \<open>context.arguments\<close> and \<open>callstack.read\<close>. They make the
  debugger calls of \<open>SelectedThreadId\<close>, \<open>CaptureThreadContext\<close> and \<open>MutateThreadContext\<close> one by
  one; \<open>capture_thread_undisturbed\<close> shows that this agrees with the definitions of
  \<open>Register_Policy\<close>, which are about what those calls answer.
\<close>

section \<open>Thread contexts\<close>

definition selected_thread :: "('g, ('w :: len) word) debugger \<Rightarrow> ('g, u32 option) call" where
  "selected_thread D = do {
     threads \<leftarrow> dbg_ThreadList D;
     (case tl_list threads of
        None \<Rightarrow> State_Monad.return None
      | Some infos \<Rightarrow>
          if tl_count threads \<le> 0 \<or> tl_count threads > 65536 \<or> tl_CurrentThread threads < 0 \<or>
             tl_CurrentThread threads \<ge> tl_count threads
          then State_Monad.return None
          else do {
            selectedHandle \<leftarrow> dbg_ThreadHandle D;
            State_Monad.return (SelectedThreadId threads selectedHandle)
          })
   }"

definition thread_registers ::
    "('g, ('w :: len) word) debugger \<Rightarrow> build \<Rightarrow> bool \<Rightarrow> 'w word \<Rightarrow> ('g, 'w word registers option) call" where
  "thread_registers D b selected h =
     (if selected then dbg_RegDump D
      else do {
        c \<leftarrow> dbg_GetThreadContext D h;
        State_Monad.return (map_option (CoreRegisterContext b) c)
      })"

definition capture_thread ::
    "('g, ('w :: len) word) debugger \<Rightarrow> build \<Rightarrow> u32 option \<Rightarrow>
     ('g, ThreadContextStatus + 'w word CapturedThreadContext) call" where
  "capture_thread D b requestedThreadId = do {
     threads \<leftarrow> dbg_ThreadList D;
     if tl_count threads < 0 \<or> tl_count threads > 65536 \<or> (tl_count threads > 0 \<and> tl_list threads = None) \<or>
        tl_CurrentThread threads < 0 \<or> tl_CurrentThread threads \<ge> tl_count threads
     then State_Monad.return (Inl tc_invalidList)
     else
       (let infos = the (tl_list threads);
            active = infos ! nat (tl_CurrentThread threads);
            activeBefore = ti_ThreadId active;
            requested = (case requestedThreadId of Some i \<Rightarrow> i | None \<Rightarrow> activeBefore) in
        if activeBefore = 0 \<or> requested = 0 then State_Monad.return (Inl tc_changed)
        else do {
          h \<leftarrow> dbg_ThreadHandle D;
          if h \<noteq> ti_Handle active then State_Monad.return (Inl tc_changed)
          else
            (case find_thread requested infos 0 None of
               Inl _ \<Rightarrow> State_Monad.return (Inl tc_invalidList)
             | Inr None \<Rightarrow> State_Monad.return (Inl tc_missing)
             | Inr (Some (matchIndex, m)) \<Rightarrow>
                 let selected = (requested = activeBefore) in
                 if ti_Handle m = 0 \<or> ti_Handle m = - 1 then State_Monad.return (Inl tc_missing)
                 else if (int matchIndex = tl_CurrentThread threads) \<noteq> selected
                 then State_Monad.return (Inl tc_changed)
                 else do {
                   registers \<leftarrow> thread_registers D b selected (ti_Handle m);
                   (case registers of
                      None \<Rightarrow> State_Monad.return (Inl tc_unavailable)
                    | Some registers \<Rightarrow>
                        if rg_cip registers \<noteq> ti_ThreadCip m then State_Monad.return (Inl tc_changed)
                        else do {
                          afterwards \<leftarrow> selected_thread D;
                          State_Monad.return (if afterwards \<noteq> Some activeBefore then Inl tc_changed
                            else Inr \<lparr>ct_registers = registers, ct_threadId = requested,
                                      ct_activeThreadId = activeBefore, ct_current = selected\<rparr>)
                        })
                 })
        })
   }"

definition mutate_thread ::
    "('g, ('w :: len) word) debugger \<Rightarrow> build \<Rightarrow> u32 \<Rightarrow> RegisterAssignment list \<Rightarrow>
     ('g, ThreadContextStatus) call" where
  "mutate_thread D b requestedThreadId assignments =
     (if requestedThreadId = 0 \<or> assignments = [] then State_Monad.return tc_missing
      else do {
        threads \<leftarrow> dbg_ThreadList D;
        if tl_count threads < 0 \<or> tl_count threads > 65536 \<or> (tl_count threads > 0 \<and> tl_list threads = None)
        then State_Monad.return tc_invalidList
        else
          (case mutate_find requestedThreadId (case tl_list threads of None \<Rightarrow> [] | Some l \<Rightarrow> l) 0 of
             None \<Rightarrow> State_Monad.return tc_invalidList
           | Some h \<Rightarrow>
               if h = 0 \<or> h = - 1 then State_Monad.return tc_missing
               else do {
                 ctx \<leftarrow> dbg_GetThreadContext D h;
                 (case ctx of
                    None \<Rightarrow> State_Monad.return tc_unavailable
                  | Some ctx \<Rightarrow>
                      let (applied, ctx') = ApplyRegisterAssignments b ctx assignments in
                      if \<not> applied then State_Monad.return tc_unavailable
                      else do {
                        written \<leftarrow> dbg_SetThreadContext D h ctx';
                        if \<not> written then State_Monad.return tc_unavailable
                        else do {
                          observed \<leftarrow> dbg_GetThreadContext D h;
                          State_Monad.return (case observed of
                              None \<Rightarrow> tc_unavailable
                            | Some observed \<Rightarrow>
                                if list_all (\<lambda>a. RegisterValue b (CoreRegisterContext b observed) (ra_name a) =
                                  Some (ucast (ra_value a))) assignments
                                then tc_ok else tc_changed)
                        }
                      })
               })
      })"

fun thread_error :: "('w :: len) word Request \<Rightarrow> ThreadContextStatus \<Rightarrow> tool_error + 'a" where
  "thread_error q tc_invalidList = failure ''INTERNAL'' ''thread snapshot is invalid'' False False"
| "thread_error q tc_missing =
     (if rq_targetThreadId q \<noteq> None
      then failure ''INVALID_ARGUMENT'' ''thread_id is not present in this debuggee'' False False
      else failure ''INVALID_DEBUGGER_STATE'' ''no current debugger thread is available'' False False)"
| "thread_error q tc_unavailable = failure ''ACCESS_DENIED'' ''thread context is unavailable'' False False"
| "thread_error q tc_changed =
     failure ''BUSY'' ''thread selection or context changed during capture'' True False"
| "thread_error q tc_ok = failure ''INTERNAL'' ''thread context status is invalid'' False False"

definition captured ::
    "('g, ('w :: len) word) debugger \<Rightarrow> build \<Rightarrow> 'w word Request \<Rightarrow>
     ('w word CapturedThreadContext \<Rightarrow> ('g, 'a) tool) \<Rightarrow> ('g, 'a) tool" where
  "captured D b q rest = do {
     c \<leftarrow> capture_thread D b (rq_targetThreadId q);
     (case c of Inl status \<Rightarrow> State_Monad.return (thread_error q status) | Inr c \<Rightarrow> rest c)
   }"

text \<open>The requested registers in order, \<open>None\<close> at an unknown name.\<close>

primrec named_registers :: "build \<Rightarrow> ('w :: len) word registers \<Rightarrow> string list \<Rightarrow> (string \<times> string) list option" where
  "named_registers b r [] = Some []"
| "named_registers b r (n # ns) = do {
     v \<leftarrow> RegisterValue b r n;
     rest \<leftarrow> named_registers b r ns;
     Some ((n, hex v) # rest)
   }"

definition registers_json :: "(string \<times> string) list \<Rightarrow> string" where
  "registers_json ms = ''{'' @ concat (map (\<lambda>i. (if i = 0 then [] else '','') @
     JsonString (fst (ms ! i)) @ '':'' @ snd (ms ! i)) [0..<length ms]) @ ''}''"

section \<open>registers.read and registers.write\<close>

definition default_registers :: "build \<Rightarrow> string list" where
  "default_registers b =
     (if b = Win64
      then [''rax'', ''rbx'', ''rcx'', ''rdx'', ''rsp'', ''rbp'', ''rsi'', ''rdi'', ''rip'', ''eflags'']
      else [''eax'', ''ebx'', ''ecx'', ''edx'', ''esp'', ''ebp'', ''esi'', ''edi'', ''eip'', ''eflags''])"

definition registers_read ::
    "('g, ('w :: len) word) debugger \<Rightarrow> build \<Rightarrow> 'w word Request \<Rightarrow> ('g, u64 \<times> string) tool" where
  "registers_read D b q = paused_snapshot D requires_pause (\<lambda>g. captured D b q (\<lambda>c.
     let names = (if rq_registerNames q = [] then default_registers b else rq_registerNames q) in
     case named_registers b (ct_registers c) names of
       None \<Rightarrow> refuse ''INVALID_ARGUMENT'' ''unknown register name'' False False
     | Some registers \<Rightarrow> do {
         ok \<leftarrow> still_paused D g;
         ensure ok ''BUSY'' ''debugger changed during register snapshot'' True False (answer (g, json_object
           [(''thread_id'', hex (ct_threadId c)), (''current'', json_bool (ct_current c)),
            (''registers'', registers_json registers), (''state_generation'', dec g)]))
       }))"

definition register_written ::
    "('g, ('w :: len) word) debugger \<Rightarrow> build \<Rightarrow> 'w word Request \<Rightarrow> u64 \<Rightarrow> 'w word \<Rightarrow> ('g, u64 \<times> string) tool" where
  "register_written D b q g previous = captured D b q (\<lambda>c. do {
     ok \<leftarrow> still_paused D g;
     (let observed = RegisterValue b (ct_registers c) (rq_registerName q) in
      ensure (ok \<and> observed = Some (ucast (rq_registerWriteValue q))) ''TIMEOUT''
        ''register write read-back did not match'' False True (answer (g, json_object
          [(''name'', JsonString (rq_registerName q)), (''previous_value'', hex previous),
           (''value'', hex (the observed)), (''changed'', json_bool (previous \<noteq> the observed)),
           (''thread_id'', hex (ct_threadId c)), (''state_generation'', dec g)])))
   })"

definition register_fits :: "WritableRegister \<Rightarrow> u64 \<Rightarrow> bool" where
  "register_fits spec v \<longleftrightarrow> \<not> (wr_bits spec < 64 \<and> v \<ge> push_bit (wr_bits spec) 1)"

definition registers_write ::
    "('g, ('w :: len) word) debugger \<Rightarrow> build \<Rightarrow> 'w word Request \<Rightarrow> ('g, u64 \<times> string) tool" where
  "registers_write D b q =
     (case FindWritableRegister b (rq_registerName q) of
        None \<Rightarrow> refuse ''INVALID_ARGUMENT'' ''register is not writable on this architecture'' False False
      | Some spec \<Rightarrow>
          ensure (register_fits spec (rq_registerWriteValue q)) ''INVALID_ARGUMENT''
            ''register value exceeds its width'' False False (
          paused_snapshot D ''register write requires a paused debuggee'' (\<lambda>g. captured D b q (\<lambda>c.
            case RegisterValue b (ct_registers c) (rq_registerName q) of
              None \<Rightarrow> refuse ''INTERNAL'' ''register policy has no snapshot mapping'' False False
            | Some previous \<Rightarrow> do {
                ok \<leftarrow> still_paused D g;
                ensure ok ''BUSY'' ''debugger changed before register write'' True False (
                (case rq_targetThreadId q of
                   Some thread \<Rightarrow> do {
                     mutation \<leftarrow> mutate_thread D b thread
                       [\<lparr>ra_name = rq_registerName q, ra_value = rq_registerWriteValue q\<rparr>];
                     if mutation \<noteq> tc_ok then State_Monad.return (thread_error q mutation)
                     else register_written D b q g previous
                   }
                 | None \<Rightarrow> do {
                     written \<leftarrow> dbg_SetRegister D (wr_id spec) (ucast (rq_registerWriteValue q));
                     ensure written ''ACCESS_DENIED'' ''typed register write failed'' False True
                       (register_written D b q g previous)
                   }))
              }))))"

section \<open>debugger.snapshot\<close>

text \<open>
  The disassembly loop, shared with \<open>disassembly.read\<close>: \<open>timed\<close> tells whether the deadline is
  tested before each instruction, and the overflow has its own code in each tool.
\<close>

primrec disassemble ::
    "('g, ('w :: len) word) debugger \<Rightarrow> bool \<Rightarrow> string \<Rightarrow> string \<Rightarrow> nat \<Rightarrow> 'w word \<Rightarrow>
     ('g, ('w word \<times> nat \<times> string) list) tool" where
  "disassemble D timed code overflow 0 address = answer []"
| "disassemble D timed code overflow (Suc n) address = do {
     expired \<leftarrow> (if timed then dbg_expired D else State_Monad.return False);
     ensure (\<not> expired) ''TIMEOUT'' ''compact snapshot exceeded its deadline'' True False (do {
       i \<leftarrow> dbg_DisasmAt D address;
       ensure (\<not> (di_instr_size i \<le> 0 \<or> di_instr_size i > 15)) ''ACCESS_DENIED''
         ''instruction bytes are not decodable'' False False (
       let sz = nat (di_instr_size i) in
       ensure (\<not> address > - 1 - of_nat sz) code overflow False False
         (attempt (disassemble D timed code overflow n (address + of_nat sz)) (\<lambda>rest.
           answer ((address, sz, c_field (di_instruction i)) # rest))))
     })
   }"

definition instruction_json :: "('w :: len) word \<times> nat \<times> string \<Rightarrow> string" where
  "instruction_json i = (case i of (address, sz, t) \<Rightarrow> json_object
     [(''address'', hex address), (''size'', to_string sz), (''text'', JsonString t)])"

definition debugger_snapshot ::
    "('g, ('w :: len) word) debugger \<Rightarrow> build \<Rightarrow> 'w word Request \<Rightarrow> ('g, u64 \<times> string) tool" where
  "debugger_snapshot D b q = paused_snapshot D requires_pause (\<lambda>g. do {
     (generation, state, pause) \<leftarrow> observe D (\<lambda>r. (rt_generation r, rt_debuggeeState r, rt_latestPause r));
     ensure (generation = g \<and> state = ds_paused) ''BUSY'' ''pause changed before snapshot capture'' True False (
     captured D b q (\<lambda>c.
       let names = (if rq_registerNames q = [] then [''cip'', ''csp'', ''cbp'', ''eflags''] else rq_registerNames q);
           ip = rg_cip (ct_registers c) in
       case named_registers b (ct_registers c) names of
         None \<Rightarrow> refuse ''INVALID_ARGUMENT'' ''unknown register name'' False False
       | Some registers \<Rightarrow> captured_modules D (\<lambda>modules.
           attempt (disassemble D True ''INTERNAL'' ''instruction address overflow'' (rq_instructionCount q) ip)
             (\<lambda>instructions. do {
               ok \<leftarrow> still_paused D g;
               ensure ok ''BUSY'' ''debugger changed during compact snapshot'' True False (answer (g, json_object
                 [(''debuggee_state'', JsonString ''paused''), (''state_generation'', dec g),
                  (''pause_reason'', PauseReasonJson pause),
                  (''active_thread_id'', hex (ct_activeThreadId c)), (''thread_id'', hex (ct_threadId c)),
                  (''current'', json_bool (ct_current c)),
                  (''instruction_pointer'', location_json ip modules g),
                  (''registers'', registers_json registers),
                  (''disassembly'', json_array (map instruction_json instructions))]))
             }))))
   })"

section \<open>context.arguments\<close>

definition duint_bytes :: "build \<Rightarrow> nat" where
  "duint_bytes b = (if b = Win64 then 8 else 4)"

definition read_duint ::
    "('g, ('w :: len) word) debugger \<Rightarrow> build \<Rightarrow> 'w word \<Rightarrow> ('g, 'w word option) call" where
  "read_duint D b address = do {
     bytes \<leftarrow> dbg_MemRead D address (duint_bytes b);
     State_Monad.return (map_option (\<lambda>bs. foldr (\<lambda>x v. v * 256 + ucast x) bs 0) bytes)
   }"

definition register_arguments :: "build \<Rightarrow> string \<Rightarrow> nat" where
  "register_arguments b convention =
     (if b = Win64 then 4
      else if convention = ''fastcall'' then 2 else if convention = ''thiscall'' then 1 else 0)"

definition argument_registers :: "build \<Rightarrow> ('w :: len) word registers \<Rightarrow> (string \<times> 'w word) list" where
  "argument_registers b r =
     (if b = Win64 then [(''rcx'', rg_ccx r), (''rdx'', rg_cdx r), (''r8'', rg_r8 r), (''r9'', rg_r9 r)]
      else [(''ecx'', rg_ccx r), (''edx'', rg_cdx r)])"

definition stack_argument :: "build \<Rightarrow> string \<Rightarrow> ('w :: len) word \<Rightarrow> nat \<Rightarrow> 'w word" where
  "stack_argument b convention csp i =
     csp + of_nat (duint_bytes b) +
     of_nat ((if b = Win64 then i else i - register_arguments b convention) * duint_bytes b)"

primrec read_arguments ::
    "('g, ('w :: len) word) debugger \<Rightarrow> build \<Rightarrow> string \<Rightarrow> 'w word registers \<Rightarrow> nat list \<Rightarrow>
     ('g, (nat \<times> 'w word \<times> string \<times> 'w word option) list) tool" where
  "read_arguments D b convention r [] = answer []"
| "read_arguments D b convention r (i # is) = (
     if i < register_arguments b convention
     then attempt (read_arguments D b convention r is) (\<lambda>rest.
       answer ((i, snd (argument_registers b r ! i), fst (argument_registers b r ! i), None) # rest))
     else let address = stack_argument b convention (rg_csp r) i in do {
       v \<leftarrow> read_duint D b address;
       (case v of
          None \<Rightarrow> refuse ''ACCESS_DENIED'' ''one or more stack arguments are unreadable'' False False
        | Some v \<Rightarrow> attempt (read_arguments D b convention r is) (\<lambda>rest.
            answer ((i, v, ''stack'', Some address) # rest)))
     })"

definition argument_json :: "nat \<times> ('w :: len) word \<times> string \<times> 'w word option \<Rightarrow> string" where
  "argument_json a = (case a of (i, v, source, storage) \<Rightarrow> json_object
     [(''index'', to_string i), (''value'', hex v), (''source'', JsonString source),
      (''storage_address'', or_null (map_option hex storage))])"

definition context_arguments ::
    "('g, ('w :: len) word) debugger \<Rightarrow> build \<Rightarrow> 'w word Request \<Rightarrow> ('g, u64 \<times> string) tool" where
  "context_arguments D b q = paused_snapshot D requires_pause (\<lambda>g. captured D b q (\<lambda>c.
     let r = ct_registers c;
         convention = (if rq_callingConvention q = ''auto'' then (if b = Win64 then ''windows_x64'' else ''cdecl'')
           else rq_callingConvention q) in
     ensure ((b = Win64) = (convention = ''windows_x64'')) ''INVALID_ARGUMENT''
       (if b = Win64 then ''x64dbg supports windows_x64 arguments only''
        else ''x32dbg does not support windows_x64 arguments'') False False (do {
         returnAddress \<leftarrow> read_duint D b (rg_csp r);
         (case returnAddress of
            None \<Rightarrow> refuse ''ACCESS_DENIED'' ''stack return address is unreadable'' False False
          | Some returnAddress \<Rightarrow>
              attempt (read_arguments D b convention r [0..<rq_argumentCount q]) (\<lambda>items. do {
                ok \<leftarrow> still_paused D g;
                ensure ok ''BUSY'' ''debugger changed during argument snapshot'' True False (answer (g, json_object
                  [(''thread_id'', hex (ct_threadId c)), (''instruction_pointer'', hex (rg_cip r)),
                   (''stack_pointer'', hex (rg_csp r)), (''return_address'', hex returnAddress),
                   (''calling_convention'', JsonString convention),
                   (''assumption'', JsonString ''paused_at_callee_entry''),
                   (''items'', json_array (map argument_json items)), (''state_generation'', dec g)]))
              }))
       })))"

section \<open>callstack.read\<close>

text \<open>The handle of the first thread with the id.\<close>

definition thread_handle :: "u32 \<Rightarrow> ('w :: len) word THREADINFO list \<Rightarrow> 'w word" where
  "thread_handle t infos = (case filter (\<lambda>i. ti_ThreadId i = t) infos of [] \<Rightarrow> 0 | i # _ \<Rightarrow> ti_Handle i)"

definition frame_json :: "('w :: len) word ModuleRecord list \<Rightarrow> u64 \<Rightarrow> nat \<Rightarrow> 'w word DBGCALLSTACKENTRY \<Rightarrow> string" where
  "frame_json modules g i f = json_object
     [(''index'', to_string i), (''stack_address'', hex (ce_addr f)),
      (''instruction'', location_json (ce_from f) modules g),
      (''return_to'', location_json (ce_to f) modules g)]"

definition callstack_read ::
    "('g, ('w :: len) word) debugger \<Rightarrow> 'w word Request \<Rightarrow> ('g, u64 \<times> string) tool" where
  "callstack_read D q = paused_snapshot D requires_pause (\<lambda>g. do {
     requestedThread \<leftarrow> (case rq_targetThreadId q of
         Some t \<Rightarrow> State_Monad.return (Some t)
       | None \<Rightarrow> selected_thread D);
     (let thread = case_option 0 id requestedThread in
      ensure (thread \<noteq> 0) ''INVALID_DEBUGGER_STATE'' ''no current debugger thread is available'' False False (do {
        threads \<leftarrow> dbg_ThreadList D;
        ensure (array_valid (tl_count threads) (tl_list threads)) ''INTERNAL'' ''thread snapshot is invalid'' False False (
        let h = thread_handle thread (array_items (tl_count threads) (tl_list threads)) in
        ensure (h \<noteq> 0 \<and> h \<noteq> - 1) ''INVALID_ARGUMENT'' ''thread_id is not present in this debuggee'' False False (
        case (case dbg_functions D of None \<Rightarrow> None | Some fs \<Rightarrow> fn_GetCallStackByThread fs) of
          None \<Rightarrow> refuse ''INTERNAL'' ''native call-stack API is unavailable'' False False
        | Some getCallStack \<Rightarrow> do {
            (total, entries) \<leftarrow> getCallStack h;
            ensure (\<not> (total < 0 \<or> total > 50 \<or> (total > 0 \<and> entries = None))) ''INTERNAL''
              ''native call-stack snapshot is invalid'' False False (
            captured_modules D (\<lambda>modules.
              let nativeCount = nat total; emitted = min nativeCount (rq_pageLimit q);
                  frames = take emitted (array_items total entries) in do {
                ok \<leftarrow> still_paused D g;
                ensure ok ''BUSY'' ''debugger changed during call-stack capture'' True False (answer (g, json_object
                  [(''thread_id'', hex thread),
                   (''frames'', json_array (map (\<lambda>i. frame_json modules g i (frames ! i)) [0..<length frames])),
                   (''native_frame_count'', to_string nativeCount),
                   (''truncated'', json_bool (emitted < nativeCount)),
                   (''completeness'', JsonString (if nativeCount = 0 then ''inconclusive'' else ''native_bounded'')),
                   (''state_generation'', dec g)]))
              }))
          }))
      }))
   })"

section \<open>The calls and their answers\<close>

text \<open>
  When the four queries answer without changing anything, \<open>capture_thread\<close> is
  \<open>CaptureThreadContext\<close> on their answers.
\<close>

lemma capture_thread_undisturbed:
  assumes "\<And>w. run_state (dbg_ThreadList D) w = (threads, w)" "\<And>w. run_state (dbg_ThreadHandle D) w = (h, w)"
    "\<And>w. run_state (dbg_RegDump D) w = (dump, w)" "\<And>i w. run_state (dbg_GetThreadContext D i) w = (ctx i, w)"
  shows "run_state (capture_thread D b t) w =
    (CaptureThreadContext b threads h dump ctx (SelectedThreadId threads h) t, w)"
proof -
  have s: "run_state (selected_thread D) w = (SelectedThreadId threads h, w)" for w
    by (auto simp: selected_thread_def assms SelectedThreadId_def split: option.split)
  have r: "run_state (thread_registers D b sel i) w =
      (if sel then dump else map_option (CoreRegisterContext b) (ctx i), w)" for sel i w
    by (simp add: thread_registers_def assms)
  let ?infos = "the (tl_list threads)"
  let ?active = "ti_ThreadId (?infos ! nat (tl_CurrentThread threads))"
  let ?requested = "case t of Some i \<Rightarrow> i | None \<Rightarrow> ?active"
  show ?thesis
  proof (cases "tl_count threads < 0 \<or> tl_count threads > 65536 \<or> (tl_count threads > 0 \<and> tl_list threads = None) \<or>
      tl_CurrentThread threads < 0 \<or> tl_CurrentThread threads \<ge> tl_count threads")
    case True
    then show ?thesis by (simp add: capture_thread_def CaptureThreadContext_def assms)
  next
    case valid: False
    note unfold = capture_thread_def CaptureThreadContext_def assms s r Let_def
    have v: "\<not> tl_count threads < 0" "\<not> tl_count threads > 65536" "tl_count threads > 0" "tl_list threads \<noteq> None"
      "\<not> tl_CurrentThread threads < 0" "\<not> tl_CurrentThread threads \<ge> tl_count threads"
      using valid by auto
    show ?thesis
    proof (cases "find_thread ?requested ?infos 0 None")
      case (Inl u)
      then show ?thesis by (simp add: unfold v)
    next
      case (Inr found)
      show ?thesis
      proof (cases found)
        case None
        with Inr show ?thesis by (simp add: unfold v)
      next
        case (Some f)
        obtain j m where f: "f = (j, m)" by fastforce
        have F: "find_thread ?requested ?infos 0 None = Inr (Some (j, m))" by (simp only: Inr Some f)
        show ?thesis
          by (cases "if ?requested = ?active then dump else map_option (CoreRegisterContext b) (ctx (ti_Handle m))")
            (simp_all add: unfold v F)
      qed
    qed
  qed
qed

end
