(* ===== verification/Breakpoint_Tools.thy ===== *)
theory Breakpoint_Tools
  imports Tool_Logic
begin

text \<open>
  The breakpoint tools of \<open>runtime.cpp\<close>: enabling and disabling a breakpoint of each kind, and
  setting and removing exception, conditional, software, hardware and memory breakpoints. \<open>k\<close> are
  the SDK's constants and \<open>b\<close> is the build.

  Two loops poll until the breakpoint appears or the deadline passes. Their argument \<open>ticks\<close> is
  the number of times the test \<open>now() < requestDeadline\<close> succeeds, a number that time determines
  and that the theorems leave arbitrary.
\<close>

definition GetBridgeBp :: "('g, 'd) DBGFUNCTIONS \<Rightarrow> BPXTYPE \<Rightarrow> 'd \<Rightarrow> ('g, 'd bridgebp option) call" where
  "GetBridgeBp fs t a = the (fn_GetBridgeBp fs) t a"

text \<open>\<open>DbgFunctions()\<close> and the pointers a tool needs.\<close>

definition with_functions ::
    "('g, 'd) debugger \<Rightarrow> (('g, 'd) DBGFUNCTIONS \<Rightarrow> bool) \<Rightarrow> string \<Rightarrow>
     (('g, 'd) DBGFUNCTIONS \<Rightarrow> ('g, 'a) tool) \<Rightarrow> ('g, 'a) tool" where
  "with_functions D available message rest =
     (case dbg_functions D of
        None \<Rightarrow> refuse ''INTERNAL'' message False False
      | Some fs \<Rightarrow> ensure (available fs) ''INTERNAL'' message False False (rest fs))"

text \<open>The answers to the status of a fenced command.\<close>

definition admitted :: "nat \<Rightarrow> string \<Rightarrow> string \<Rightarrow> ('g, 'a) tool \<Rightarrow> ('g, 'a) tool" where
  "admitted status rejected unconfirmed rest =
     ensure (status \<noteq> 1) ''BUSY'' rejected True False
       (ensure (status \<noteq> 2) ''TIMEOUT'' unconfirmed False True rest)"

definition toggle_rejected :: string where
  "toggle_rejected = ''debugger command queue rejected breakpoint transition''"

definition toggle_unconfirmed :: string where
  "toggle_unconfirmed = ''breakpoint transition was admitted without confirmation''"

section \<open>Exception breakpoints\<close>

definition exception_toggle ::
    "('g, ('w :: len) word) debugger \<Rightarrow> sdk \<Rightarrow> 'w word Request \<Rightarrow> ('g, u64 \<times> string) tool" where
  "exception_toggle D k q = paused_snapshot D requires_pause (\<lambda>g.
     let code = ucast (rq_exceptionCode q); missing = ''typed exception breakpoint API is unavailable'' in
     case ParseExceptionChance (rq_exceptionChance q) of
       None \<Rightarrow> refuse ''INTERNAL'' missing False False
     | Some chance \<Rightarrow> with_functions D (\<lambda>fs. fn_GetBridgeBp fs \<noteq> None) missing (\<lambda>fs. do {
         found \<leftarrow> GetBridgeBp fs bp_exception code;
         (case found of
            None \<Rightarrow> refuse ''NOT_FOUND'' ''exception breakpoint does not exist'' False False
          | Some old \<Rightarrow>
              ensure (ExceptionBreakpointOwned k old (rq_exceptionCode q) chance (rq_managedBreakpointId q))
                ''CONFLICT'' ''exception breakpoint is foreign or was modified'' False False (
              let enable = (rq_method q = ''breakpoints.enable''); changed = (bp_enabled old \<noteq> enable) in do {
                status \<leftarrow> (if changed then fenced D (BreakpointToggleCommand kind_exception code enable)
                  else State_Monad.return 0);
                admitted status toggle_rejected toggle_unconfirmed (do {
                  new \<leftarrow> GetBridgeBp fs bp_exception code;
                  ensure (case new of
                      None \<Rightarrow> False
                    | Some new \<Rightarrow> bp_enabled new = enable \<and>
                        ExceptionBreakpointOwned k new (rq_exceptionCode q) chance (rq_managedBreakpointId q) \<and>
                        BreakpointConfigurationUnchanged old new False)
                    ''TIMEOUT'' ''exception breakpoint transition could not be exactly confirmed'' False changed (do {
                      ok \<leftarrow> still_paused D g;
                      ensure ok ''BUSY'' ''debugger changed during breakpoint transition'' False changed
                        (answer (g, json_object
                          [(''kind'', JsonString ''exception''), (''code'', hex (rq_exceptionCode q)),
                           (''chance'', JsonString (ExceptionChanceName chance)),
                           (''managed_id'', JsonString (rq_managedBreakpointId q)),
                           (''enabled'', json_bool enable), (''changed'', json_bool changed)]))
                    })
                })
              }))
       }))"

text \<open>\<open>cleanupCreated\<close>: 0 nothing is left, 1 the breakpoint is not ours, 2 unknown.\<close>

definition exception_cleanup ::
    "('g, ('w :: len) word) debugger \<Rightarrow> ('g, 'w word) DBGFUNCTIONS \<Rightarrow> sdk \<Rightarrow> u32 \<Rightarrow> ExceptionChance \<Rightarrow>
     string \<Rightarrow> ('g, nat) call" where
  "exception_cleanup D fs k code chance ownedName = do {
     found \<leftarrow> GetBridgeBp fs bp_exception (ucast code);
     (case found of
        None \<Rightarrow> State_Monad.return 0
      | Some bp \<Rightarrow>
          let name = c_field (bp_name bp) in
          if length name \<ge> length (bp_name bp) then State_Monad.return 1
          else if bp_type bp \<noteq> bp_exception \<or> bp_addr bp \<noteq> ucast code \<or>
            bp_typeEx bp \<noteq> code_BPEXTYPE k (NativeExceptionChance chance) \<or>
            (name \<noteq> ownedName \<and> name \<noteq> [])
          then State_Monad.return 1
          else do {
            cleanupStatus \<leftarrow> fenced D (''DeleteExceptionBPX '' @ HexValue (ucast code));
            if cleanupStatus \<noteq> 0 then State_Monad.return 2
            else do {
              remaining \<leftarrow> GetBridgeBp fs bp_exception (ucast code);
              State_Monad.return (if remaining \<noteq> None then 2 else 0)
            }
          })
   }"

definition failed_setup :: "('g, nat) call \<Rightarrow> string \<Rightarrow> ('g, 'a) tool" where
  "failed_setup cleaning message = do {
     cleanup \<leftarrow> cleaning;
     refuse (if cleanup = 1 then ''CONFLICT'' else ''INTERNAL'') message False (cleanup = 2)
   }"

definition exception_created ::
    "('g, ('w :: len) word) debugger \<Rightarrow> ('g, 'w word) DBGFUNCTIONS \<Rightarrow> sdk \<Rightarrow> 'w word Request \<Rightarrow>
     ExceptionChance \<Rightarrow> string \<Rightarrow> ('g, 'a) tool \<Rightarrow> ('g, 'a) tool" where
  "exception_created D fs k q chance ownedName rest = (
     let cleaning = exception_cleanup D fs k (rq_exceptionCode q) chance ownedName in do {
       ref \<leftarrow> the (fn_BpRefException fs) (rq_exceptionCode q);
       exists \<leftarrow> the (fn_BpRefExists fs) ref;
       named \<leftarrow> (if exists then the (fn_BpSetFieldText fs) ref bpf_name ownedName else State_Monad.return False);
       if \<not> named then failed_setup cleaning ''exception breakpoint ownership could not be assigned''
       else do {
         installed \<leftarrow> GetBridgeBp fs bp_exception (ucast (rq_exceptionCode q));
         if (case installed of None \<Rightarrow> False | Some bp \<Rightarrow>
             ExceptionBreakpointMatches k bp (rq_exceptionCode q) chance (rq_managedBreakpointId q))
         then rest
         else failed_setup cleaning ''exception breakpoint setup could not be verified''
       }
     })"

definition exception_mutation ::
    "('g, ('w :: len) word) debugger \<Rightarrow> sdk \<Rightarrow> 'w word Request \<Rightarrow> ('g, u64 \<times> string) tool" where
  "exception_mutation D k q = paused_snapshot D requires_pause (\<lambda>g.
     let code = ucast (rq_exceptionCode q); missing = ''typed exception breakpoint API is unavailable'';
         setting = (rq_method q = ''breakpoints.exception.set'');
         ownedName = ManagedBreakpointName ''exception'' (rq_managedBreakpointId q) in
     case ParseExceptionChance (rq_exceptionChance q) of
       None \<Rightarrow> refuse ''INTERNAL'' missing False False
     | Some chance \<Rightarrow> with_functions D (\<lambda>fs. fn_GetBridgeBp fs \<noteq> None \<and> fn_BpRefException fs \<noteq> None \<and>
           fn_BpRefExists fs \<noteq> None \<and> fn_BpSetFieldText fs \<noteq> None) missing (\<lambda>fs. do {
         ok \<leftarrow> still_paused D g;
         ensure ok ''BUSY'' ''debugger changed before exception breakpoint mutation'' True False (do {
           old \<leftarrow> GetBridgeBp fs bp_exception code;
           ensure (setting \<longrightarrow> old = None) ''ALREADY_EXISTS''
             ''an exception breakpoint already exists for this code'' False False (
           ensure (setting \<or> old \<noteq> None) ''NOT_FOUND'' ''exception breakpoint does not exist'' False False (
           ensure (setting \<or> (case old of None \<Rightarrow> False | Some bp \<Rightarrow>
               ExceptionBreakpointMatches k bp (rq_exceptionCode q) chance (rq_managedBreakpointId q)))
             ''CONFLICT'' ''exception breakpoint is foreign or was modified'' False False (do {
               commandStatus \<leftarrow> fenced D (if setting
                 then ''SetExceptionBPX '' @ HexValue (ucast (rq_exceptionCode q)) @ '', '' @ ExceptionChanceCommand chance
                 else ''DeleteExceptionBPX '' @ HexValue (ucast (rq_exceptionCode q)));
               admitted commandStatus ''debugger command queue rejected exception breakpoint mutation''
                 ''exception breakpoint mutation was admitted without confirmation'' (
                 let finish = (do {
                       ok \<leftarrow> still_paused D g;
                       ensure ok ''BUSY'' ''debugger changed during exception breakpoint mutation'' False True
                         (answer (g, json_object
                           [(''code'', hex (rq_exceptionCode q)), (''chance'', JsonString (ExceptionChanceName chance)),
                            (''managed_id'', JsonString (rq_managedBreakpointId q)),
                            (''present'', json_bool setting)]))
                     }) in
                 if setting then exception_created D fs k q chance ownedName finish
                 else do {
                   remaining \<leftarrow> GetBridgeBp fs bp_exception code;
                   ensure (remaining = None) ''TIMEOUT'' ''exception breakpoint removal could not be confirmed''
                     False True finish
                 })
             })))
         })
       }))"

section \<open>Enabling and disabling at an address\<close>

definition native_kind :: "string \<Rightarrow> (BPXTYPE \<times> BreakpointTransitionKind) option" where
  "native_kind kind =
     (if kind = ''software'' then Some (bp_normal, kind_software)
      else if kind = ''conditional'' then Some (bp_normal, kind_conditional)
      else if kind = ''hardware'' then Some (bp_hardware, kind_hardware)
      else if kind = ''memory'' then Some (bp_memory, kind_memory)
      else None)"

text \<open>
  Whether a breakpoint is the one the request selects, before and after the transition. The
  hardware request is checked, and the slot looked at, only on one side.
\<close>

definition selected ::
    "sdk \<Rightarrow> build \<Rightarrow> ('w :: len) word Request \<Rightarrow> 'w word \<Rightarrow> BreakpointTransitionKind \<Rightarrow> 'w word \<Rightarrow>
     bool \<Rightarrow> 'w word bridgebp \<Rightarrow> bool" where
  "selected k b q address kind memorySize enabling bp =
     (case kind of
        kind_software \<Rightarrow> PlainSoftwareBreakpointSelectable bp address
      | kind_conditional \<Rightarrow> ConditionalBreakpointOwned bp address (rq_managedBreakpointId q)
      | kind_hardware \<Rightarrow>
          (case ParseHardwareAccess (rq_breakpointAccess q) of
             None \<Rightarrow> False
           | Some access \<Rightarrow> HardwareBreakpointMatches k b bp access (rq_breakpointSize q) False \<and>
               (\<not> enabling \<or> bp_slot bp < 4))
      | _ \<Rightarrow>
          (case ParseMemoryAccess (rq_breakpointAccess q) of
             None \<Rightarrow> False
           | Some access \<Rightarrow> MemoryBreakpointMatches k bp access (of_nat (rq_breakpointSize q)) memorySize False))"

definition request_aligned ::
    "build \<Rightarrow> ('w :: len) word Request \<Rightarrow> 'w word \<Rightarrow> BreakpointTransitionKind \<Rightarrow> bool" where
  "request_aligned b q address kind =
     (kind = kind_hardware \<longrightarrow>
       (case ParseHardwareAccess (rq_breakpointAccess q) of
          None \<Rightarrow> False
        | Some access \<Rightarrow> HardwareRequestValid b access (rq_breakpointSize q) address))"

definition hardware_too_early :: "u64 \<Rightarrow> Runtime \<Rightarrow> bool" where
  "hardware_too_early g r \<longleftrightarrow>
     rt_generation r = g \<and>
     (po_kind (rt_latestPause r) = pk_processCreated \<or> po_kind (rt_latestPause r) = pk_systemBreakpoint)"

definition not_too_early ::
    "('g, 'd) debugger \<Rightarrow> u64 \<Rightarrow> ('g, 'a) tool \<Rightarrow> ('g, 'a) tool" where
  "not_too_early D g rest = do {
     early \<leftarrow> observe D (hardware_too_early g);
     ensure (\<not> early) ''INVALID_DEBUGGER_STATE''
       ''hardware breakpoints require a pause after process and system-breakpoint initialization''
       False False rest
   }"

definition free_slot ::
    "('g, 'd) debugger \<Rightarrow> string \<Rightarrow> ('g, 'a) tool \<Rightarrow> ('g, 'a) tool" where
  "free_slot D exhausted rest = do {
     (reported, n, bps) \<leftarrow> dbg_BpList D bp_hardware;
     ensure (\<not> (reported < 0 \<or> \<not> array_valid n bps)) ''INTERNAL''
       ''hardware breakpoint slot snapshot is invalid'' False False
       (ensure (\<not> HardwareSlotsExhausted (map_option (take (nat n)) bps)) ''RESOURCE_EXHAUSTED''
         exhausted False False rest)
   }"

definition transition_fields ::
    "build \<Rightarrow> ('w :: len) word Request \<Rightarrow> BreakpointTransitionKind \<Rightarrow> 'w word bridgebp \<Rightarrow>
     (string \<times> string) list" where
  "transition_fields b q kind bp =
     (case kind of
        kind_hardware \<Rightarrow>
          [(''access'', JsonString (case ParseHardwareAccess (rq_breakpointAccess q) of
              None \<Rightarrow> [] | Some a \<Rightarrow> HardwareAccessName a)),
           (''size'', to_string (rq_breakpointSize q)),
           (''slot'', if bp_enabled bp \<and> bp_slot bp < 4 then dec (bp_slot bp) else ''null'')]
      | kind_memory \<Rightarrow>
          [(''access'', JsonString (case ParseMemoryAccess (rq_breakpointAccess q) of
              None \<Rightarrow> [] | Some a \<Rightarrow> MemoryAccessName a)),
           (''size'', to_string (rq_breakpointSize q))]
      | kind_conditional \<Rightarrow>
          [(''managed_id'', JsonString (rq_managedBreakpointId q)),
           (''condition_expression'', JsonString (c_field (bp_breakCondition bp))),
           (''fast_resume'', json_bool (bp_fastResume bp))]
      | _ \<Rightarrow> [])"

definition memory_size ::
    "('g, ('w :: len) word) DBGFUNCTIONS \<Rightarrow> BreakpointTransitionKind \<Rightarrow> 'w word \<Rightarrow> ('g, 'w word) call" where
  "memory_size fs kind address =
     (if kind = kind_memory then the (fn_MemBpSize fs) address else State_Monad.return 0)"

definition transition_confirmed ::
    "('g, ('w :: len) word) debugger \<Rightarrow> ('g, 'w word) DBGFUNCTIONS \<Rightarrow> sdk \<Rightarrow> build \<Rightarrow> 'w word Request \<Rightarrow>
     'w word ResolvedLocation \<Rightarrow> u64 \<Rightarrow> BPXTYPE \<Rightarrow> BreakpointTransitionKind \<Rightarrow> bool \<Rightarrow> bool \<Rightarrow>
     'w word bridgebp \<Rightarrow> ('g, u64 \<times> string) tool" where
  "transition_confirmed D fs k b q loc g nativeType kind enable changed old = (
     let address = rl_address loc in do {
       new \<leftarrow> GetBridgeBp fs nativeType address;
       (case new of
          None \<Rightarrow> refuse ''TIMEOUT'' ''breakpoint transition could not be exactly confirmed'' False changed
        | Some new \<Rightarrow>
            ensure (bp_enabled new = enable \<and> BreakpointConfigurationUnchanged old new (kind = kind_hardware))
              ''TIMEOUT'' ''breakpoint transition could not be exactly confirmed'' False changed (do {
                size' \<leftarrow> memory_size fs kind address;
                ok \<leftarrow> (if selected k b q address kind size' enable new then still_paused D g
                  else State_Monad.return False);
                ensure ok ''TIMEOUT'' ''breakpoint selector or debugger state changed during transition'' False changed
                  (answer (g, json_object
                    ([(''kind'', JsonString (rq_breakpointKind q)), (''address'', hex address),
                      (''location'', LocationJson loc g)] @ transition_fields b q kind new @
                     [(''enabled'', json_bool enable), (''changed'', json_bool changed)])))
              }))
     })"

definition breakpoint_transition ::
    "('g, ('w :: len) word) debugger \<Rightarrow> sdk \<Rightarrow> build \<Rightarrow> 'w word Request \<Rightarrow> 'w word ResolvedLocation \<Rightarrow> u64 \<Rightarrow>
     ('g, u64 \<times> string) tool" where
  "breakpoint_transition D k b q loc g =
     with_functions D (\<lambda>fs. fn_GetBridgeBp fs \<noteq> None) ''typed breakpoint read-back is unavailable'' (\<lambda>fs.
     let address = rl_address loc; enable = (rq_method q = ''breakpoints.enable'') in
     case native_kind (rq_breakpointKind q) of
       None \<Rightarrow> refuse ''INVALID_ARGUMENT'' ''breakpoint selector kind is invalid'' False False
     | Some (nativeType, kind) \<Rightarrow> do {
         ok \<leftarrow> still_paused D g;
         ensure ok ''BUSY'' ''debugger changed before breakpoint transition'' True False (do {
           found \<leftarrow> GetBridgeBp fs nativeType address;
           (case found of
              None \<Rightarrow> refuse ''NOT_FOUND'' ''selected breakpoint does not exist'' False False
            | Some old \<Rightarrow>
                ensure (kind = kind_memory \<longrightarrow> fn_MemBpSize fs \<noteq> None) ''INTERNAL''
                  ''typed memory breakpoint size is unavailable'' False False (do {
                    size' \<leftarrow> memory_size fs kind address;
                    ensure (request_aligned b q address kind \<and> selected k b q address kind size' False old)
                      ''CONFLICT'' ''breakpoint does not exactly match the typed selector'' False False (
                    let changed = (bp_enabled old \<noteq> enable);
                        submit = (do {
                          status \<leftarrow> (if changed then fenced D (BreakpointToggleCommand kind address enable)
                            else State_Monad.return 0);
                          admitted status toggle_rejected toggle_unconfirmed
                            (transition_confirmed D fs k b q loc g nativeType kind enable changed old)
                        }) in
                    if kind = kind_hardware \<and> enable \<and> \<not> bp_enabled old
                    then not_too_early D g
                      (free_slot D ''all four hardware breakpoint slots are occupied'' submit)
                    else submit)
                  }))
         })
       })"

section \<open>Conditional breakpoints\<close>

definition predicate_json :: "ConditionalPredicate \<Rightarrow> string" where
  "predicate_json p = json_object (
     (case cp_source p of
        registerValue \<Rightarrow> [(''source'', JsonString ''register''), (''register'', JsonString (cp_registerName p))]
      | threadId \<Rightarrow> [(''source'', JsonString ''thread_id'')]
      | hitCount \<Rightarrow> [(''source'', JsonString ''hit_count'')]) @
     [(''operator'', JsonString (ConditionalOperatorName (cp_operation p))),
      (''value'', if cp_source p = hitCount then dec (cp_value p) else hex (cp_value p))])"

definition ConditionalSpecJson :: "ConditionalSpec \<Rightarrow> string" where
  "ConditionalSpecJson c = json_object
     [(''mode'', JsonString (if cs_mode c = mode_all then ''all'' else ''any'')),
      (''predicates'', json_array (map predicate_json (cs_predicates c)))]"

definition conditional_cleanup ::
    "('g, ('w :: len) word) debugger \<Rightarrow> ('g, 'w word) DBGFUNCTIONS \<Rightarrow> 'w word Request \<Rightarrow> 'w word \<Rightarrow>
     ('g, nat) call" where
  "conditional_cleanup D fs q address = do {
     found \<leftarrow> GetBridgeBp fs bp_normal address;
     (case found of
        None \<Rightarrow> State_Monad.return 0
      | Some bp \<Rightarrow>
          if \<not> ConditionalBreakpointOwned bp address (rq_managedBreakpointId q) then State_Monad.return 1
          else do {
            cleanupStatus \<leftarrow> fenced D (''bc '' @ HexValue (ucast address));
            if cleanupStatus \<noteq> 0 then State_Monad.return 2
            else do {
              remaining \<leftarrow> GetBridgeBp fs bp_normal address;
              State_Monad.return (if remaining \<noteq> None then 2 else 0)
            }
          })
   }"

text \<open>The chain of \<open>||\<close>: reference, existence, condition, fast resume.\<close>

definition assign_condition ::
    "('g, ('w :: len) word) DBGFUNCTIONS \<Rightarrow> 'w word Request \<Rightarrow> 'w word \<Rightarrow> ('g, bool) call" where
  "assign_condition fs q address = do {
     ref \<leftarrow> the (fn_BpRefVa fs) bp_normal address;
     (case ref of
        None \<Rightarrow> State_Monad.return False
      | Some ref \<Rightarrow> do {
          exists \<leftarrow> the (fn_BpRefExists fs) ref;
          if \<not> exists then State_Monad.return False
          else do {
            condition \<leftarrow> the (fn_BpSetFieldText fs) ref bpf_breakcondition (rq_conditionalExpression q);
            if \<not> condition then State_Monad.return False
            else the (fn_BpSetFieldNumber fs) ref bpf_fastresume 1
          }
        })
   }"

definition conditional_mutation ::
    "('g, ('w :: len) word) debugger \<Rightarrow> 'w word Request \<Rightarrow> 'w word ResolvedLocation \<Rightarrow> u64 \<Rightarrow>
     ('g, u64 \<times> string) tool" where
  "conditional_mutation D q loc g = (
     let address = rl_address loc; setting = (rq_method q = ''breakpoints.conditional.set'');
         ownedName = ManagedBreakpointName ''conditional'' (rq_managedBreakpointId q);
         finish = (do {
           ok \<leftarrow> still_paused D g;
           ensure ok ''BUSY'' ''debugger changed during conditional breakpoint mutation'' False True
             (answer (g, json_object
               ([(''address'', hex address), (''location'', LocationJson loc g),
                 (''managed_id'', JsonString (rq_managedBreakpointId q)), (''present'', json_bool setting)] @
                (if setting then
                   [(''condition'', ConditionalSpecJson (rq_conditionalSpec q)),
                    (''condition_expression'', JsonString (rq_conditionalExpression q)),
                    (''fast_resume'', ''true'')] else []))))
         }) in
     ensure (\<not> rq_conditionalInvalid q) ''INVALID_ARGUMENT''
       ''conditional breakpoint value is invalid for this architecture'' False False (
     with_functions D (\<lambda>fs. fn_GetBridgeBp fs \<noteq> None \<and> fn_BpRefVa fs \<noteq> None \<and> fn_BpRefExists fs \<noteq> None \<and>
         fn_BpSetFieldText fs \<noteq> None \<and> fn_BpSetFieldNumber fs \<noteq> None)
       ''typed conditional breakpoint API is unavailable'' (\<lambda>fs. do {
         ok \<leftarrow> still_paused D g;
         ensure ok ''BUSY'' ''debugger changed before conditional breakpoint mutation'' True False (do {
           old \<leftarrow> GetBridgeBp fs bp_normal address;
           ensure (setting \<longrightarrow> old = None) ''ALREADY_EXISTS''
             ''a software breakpoint already exists at this address'' False False (
           ensure (setting \<or> old \<noteq> None) ''NOT_FOUND'' ''conditional breakpoint does not exist'' False False (
           ensure (setting \<or> (case old of None \<Rightarrow> False | Some bp \<Rightarrow>
               ConditionalBreakpointOwned bp address (rq_managedBreakpointId q)))
             ''CONFLICT'' ''conditional breakpoint is foreign or was renamed'' False False (do {
               commandStatus \<leftarrow> fenced D (if setting
                 then ''bp '' @ HexValue (ucast address) @ '', '' @ [CHR 0x22] @ ownedName @ [CHR 0x22]
                 else ''bc '' @ HexValue (ucast address));
               admitted commandStatus ''debugger command queue rejected conditional breakpoint mutation''
                 ''conditional breakpoint mutation was admitted without confirmation'' (
                 if setting then do {
                   assigned \<leftarrow> assign_condition fs q address;
                   if \<not> assigned then failed_setup (conditional_cleanup D fs q address)
                     ''conditional breakpoint fields could not be assigned''
                   else do {
                     installed \<leftarrow> GetBridgeBp fs bp_normal address;
                     if (case installed of None \<Rightarrow> False | Some bp \<Rightarrow>
                         ConditionalBreakpointMatches bp address (rq_managedBreakpointId q)
                           (rq_conditionalExpression q))
                     then finish
                     else failed_setup (conditional_cleanup D fs q address)
                       ''conditional breakpoint setup could not be verified''
                   }
                 }
                 else do {
                   remaining \<leftarrow> GetBridgeBp fs bp_normal address;
                   ensure (remaining = None) ''TIMEOUT'' ''conditional breakpoint removal could not be confirmed''
                     False True finish
                 })
             })))
         })
       })))"

section \<open>Software breakpoints\<close>

definition software_mutation ::
    "('g, ('w :: len) word) debugger \<Rightarrow> 'w word Request \<Rightarrow> 'w word ResolvedLocation \<Rightarrow> u64 \<Rightarrow>
     ('g, u64 \<times> string) tool" where
  "software_mutation D q loc g = (
     let address = rl_address loc; setting = (rq_method q = ''breakpoints.set'') in do {
       ok \<leftarrow> still_paused D g;
       ensure ok ''BUSY'' ''debugger changed after address resolution'' True False (do {
         alreadyAbsent \<leftarrow> (if setting then State_Monad.return False
           else do { exists \<leftarrow> dbg_SoftwareBpAt D address; State_Monad.return (\<not> exists) });
         done \<leftarrow> (if alreadyAbsent then State_Monad.return True
           else dbg_CmdExecDirect D ((if setting then ''bp '' else ''bc '') @ HexValue (ucast address)));
         ensure done ''OUTCOME_UNKNOWN''
           ''native breakpoint command failed; an internal step breakpoint may own the address'' False True (do {
             exists \<leftarrow> dbg_SoftwareBpAt D address;
             ensure (exists = setting) ''OUTCOME_UNKNOWN''
               ''native breakpoint command returned without the requested user breakpoint state'' False True (do {
                 generation \<leftarrow> observe D rt_generation;
                 answer (generation, json_object
                   [(''address'', hex address), (''location'', LocationJson loc g),
                    (''present'', json_bool setting)])
               })
           })
       })
     })"

section \<open>Hardware breakpoints\<close>

text \<open>Polling: \<open>Some slot\<close> once the outcome is observed.\<close>

primrec await_hardware ::
    "('g, ('w :: len) word) debugger \<Rightarrow> ('g, 'w word) DBGFUNCTIONS \<Rightarrow> sdk \<Rightarrow> build \<Rightarrow> HardwareAccess \<Rightarrow> nat \<Rightarrow>
     'w word \<Rightarrow> bool \<Rightarrow> u16 \<Rightarrow> nat \<Rightarrow> ('g, u16 option) call" where
  "await_hardware D fs k b access sz address setting slot 0 = State_Monad.return None"
| "await_hardware D fs k b access sz address setting slot (Suc ticks) = do {
     ready \<leftarrow> observe D (\<lambda>r. rt_pluginState r = pl_ready);
     if \<not> ready then State_Monad.return None
     else do {
       found \<leftarrow> GetBridgeBp fs bp_hardware address;
       (case found of
          None \<Rightarrow> if \<not> setting then State_Monad.return (Some slot)
            else await_hardware D fs k b access sz address setting slot ticks
        | Some bp \<Rightarrow> if setting \<and> HardwareBreakpointMatches k b bp access sz True
            then State_Monad.return (Some (bp_slot bp))
            else await_hardware D fs k b access sz address setting slot ticks)
     }
   }"

definition hardware_command :: "bool \<Rightarrow> HardwareAccess \<Rightarrow> nat \<Rightarrow> ('w :: len) word \<Rightarrow> string" where
  "hardware_command setting access sz address =
     (if setting
      then ''bphws '' @ HexValue (ucast address) @ '', '' @ [HardwareAccessCommand access] @ '', '' @ to_string sz
      else ''bphwc '' @ HexValue (ucast address))"

definition hardware_mutation ::
    "('g, ('w :: len) word) debugger \<Rightarrow> sdk \<Rightarrow> build \<Rightarrow> nat \<Rightarrow> 'w word Request \<Rightarrow> 'w word ResolvedLocation \<Rightarrow> u64 \<Rightarrow>
     ('g, u64 \<times> string) tool" where
  "hardware_mutation D k b ticks q loc g = (
     let address = rl_address loc; sz = rq_breakpointSize q;
         setting = (rq_method q = ''breakpoints.hardware.set'');
         invalid = refuse ''INVALID_ARGUMENT''
           ''hardware breakpoint access, size, or alignment is invalid for this architecture'' False False in
     case ParseHardwareAccess (rq_breakpointAccess q) of
       None \<Rightarrow> invalid
     | Some access \<Rightarrow>
         if \<not> HardwareRequestValid b access sz address then invalid
         else not_too_early D g (
           with_functions D (\<lambda>fs. fn_GetBridgeBp fs \<noteq> None) ''typed breakpoint read-back is unavailable'' (\<lambda>fs. do {
             ok \<leftarrow> still_paused D g;
             ensure ok ''BUSY'' ''debugger changed after address resolution'' True False (do {
               old \<leftarrow> GetBridgeBp fs bp_hardware address;
               (let slot = (case old of None \<Rightarrow> 0 | Some bp \<Rightarrow> bp_slot bp);
                    submit = (do {
                      taken \<leftarrow> dbg_CmdExec D (hardware_command setting access sz address);
                      ensure taken ''BUSY'' ''debugger command queue rejected the operation'' True False (do {
                        observed \<leftarrow> await_hardware D fs k b access sz address setting slot ticks;
                        ok \<leftarrow> (if observed = None then State_Monad.return False else still_paused D g);
                        ensure ok ''TIMEOUT'' ''hardware breakpoint outcome could not be exactly confirmed'' False True
                          (answer (g, json_object
                            [(''address'', hex address), (''location'', LocationJson loc g),
                             (''type'', JsonString ''hardware''), (''access'', JsonString (HardwareAccessName access)),
                             (''size'', to_string sz), (''slot'', dec (the observed)),
                             (''present'', json_bool setting)]))
                      })
                    }) in
                if setting
                then ensure (old = None) ''ALREADY_EXISTS''
                  ''a hardware breakpoint already exists at this address'' False False
                  (free_slot D ''all four hardware breakpoint slots are represented'' submit)
                else
                  (case old of
                     None \<Rightarrow> refuse ''NOT_FOUND'' ''no hardware breakpoint exists at this address'' False False
                   | Some bp \<Rightarrow> ensure (HardwareBreakpointMatches k b bp access sz False) ''CONFLICT''
                       ''hardware breakpoint does not match access and size'' False False submit))
             })
           })))"

section \<open>Memory breakpoints\<close>

primrec await_memory ::
    "('g, ('w :: len) word) debugger \<Rightarrow> ('g, 'w word) DBGFUNCTIONS \<Rightarrow> sdk \<Rightarrow> MemoryAccess \<Rightarrow> 'w word \<Rightarrow>
     'w word \<Rightarrow> bool \<Rightarrow> nat \<Rightarrow> ('g, bool) call" where
  "await_memory D fs k access sz address setting 0 = State_Monad.return False"
| "await_memory D fs k access sz address setting (Suc ticks) = do {
     ready \<leftarrow> observe D (\<lambda>r. rt_pluginState r = pl_ready);
     if \<not> ready then State_Monad.return False
     else do {
       found \<leftarrow> GetBridgeBp fs bp_memory address;
       (case found of
          None \<Rightarrow> if \<not> setting then State_Monad.return True
            else await_memory D fs k access sz address setting ticks
        | Some bp \<Rightarrow>
            if setting then do {
              size' \<leftarrow> the (fn_MemBpSize fs) address;
              if MemoryBreakpointMatches k bp access sz size' True then State_Monad.return True
              else await_memory D fs k access sz address setting ticks
            }
            else await_memory D fs k access sz address setting ticks)
     }
   }"

definition memory_command :: "bool \<Rightarrow> MemoryAccess \<Rightarrow> ('w :: len) word \<Rightarrow> 'w word \<Rightarrow> string" where
  "memory_command setting access sz address =
     (if setting
      then ''bpmrange '' @ HexValue (ucast address) @ '', '' @ HexValue (ucast sz) @ '', '' @ [MemoryAccessCommand access]
      else ''bpmc '' @ HexValue (ucast address))"

definition memory_bp_mutation ::
    "('g, ('w :: len) word) debugger \<Rightarrow> sdk \<Rightarrow> nat \<Rightarrow> 'w word Request \<Rightarrow> 'w word ResolvedLocation \<Rightarrow> u64 \<Rightarrow>
     ('g, u64 \<times> string) tool" where
  "memory_bp_mutation D k ticks q loc g = (
     let address = rl_address loc; sz = of_nat (rq_breakpointSize q);
         setting = (rq_method q = ''breakpoints.memory.set'') in
     case ParseMemoryAccess (rq_breakpointAccess q) of
       None \<Rightarrow> refuse ''INVALID_ARGUMENT'' ''memory breakpoint access is invalid'' False False
     | Some access \<Rightarrow>
         with_functions D (\<lambda>fs. fn_GetBridgeBp fs \<noteq> None \<and> fn_MemBpSize fs \<noteq> None)
           ''typed memory breakpoint read-back is unavailable'' (\<lambda>fs. do {
             ok \<leftarrow> still_paused D g;
             ensure ok ''BUSY'' ''debugger changed after address resolution'' True False (do {
               contained \<leftarrow> (if setting then do {
                   (regionBase, regionSize) \<leftarrow> dbg_MemFindBaseAddr D address;
                   State_Monad.return (MemoryRangeContained address sz regionBase regionSize)
                 } else State_Monad.return True);
               ensure contained ''INVALID_ARGUMENT''
                 ''memory breakpoint range must fit in one current memory region'' False False (do {
                   old \<leftarrow> GetBridgeBp fs bp_memory address;
                   ensure (setting \<longrightarrow> old = None) ''ALREADY_EXISTS''
                     ''a memory breakpoint already exists at this address'' False False (
                   ensure (setting \<or> old \<noteq> None) ''NOT_FOUND''
                     ''no memory breakpoint exists at this address'' False False (do {
                       exact \<leftarrow> (if setting then State_Monad.return True
                         else do {
                           observedSize \<leftarrow> the (fn_MemBpSize fs) address;
                           State_Monad.return (case old of None \<Rightarrow> False
                             | Some bp \<Rightarrow> MemoryBreakpointMatches k bp access sz observedSize False)
                         });
                       ensure exact ''CONFLICT'' ''memory breakpoint does not match access and size'' False False (do {
                         taken \<leftarrow> dbg_CmdExec D (memory_command setting access sz address);
                         ensure taken ''BUSY'' ''debugger command queue rejected the operation'' True False (do {
                           observed \<leftarrow> await_memory D fs k access sz address setting ticks;
                           ok \<leftarrow> (if observed then still_paused D g else State_Monad.return False);
                           ensure ok ''TIMEOUT'' ''memory breakpoint outcome could not be exactly confirmed'' False True
                             (answer (g, json_object
                               [(''address'', hex address), (''location'', LocationJson loc g),
                                (''type'', JsonString ''memory''), (''access'', JsonString (MemoryAccessName access)),
                                (''size'', to_string (rq_breakpointSize q)), (''present'', json_bool setting)]))
                         })
                       })
                     }))
                 })
             })
           }))"

section \<open>Errors without the mark change nothing\<close>

lemma maintains_GetBridgeBp:
  "queries_keep P D \<Longrightarrow> dbg_functions D = Some fs \<Longrightarrow> fn_GetBridgeBp fs \<noteq> None \<Longrightarrow> maintains P (GetBridgeBp fs t a)"
  unfolding GetBridgeBp_def by (rule table_queries_keepD)

lemma harmless_with_functions:
  "(\<And>fs. dbg_functions D = Some fs \<Longrightarrow> available fs \<Longrightarrow> harmless P (rest fs)) \<Longrightarrow>
   harmless P (with_functions D available m rest)"
  by (simp add: with_functions_def ensure_def harmless_rules split: option.split)

lemma harmless_not_too_early: "queries_keep P D \<Longrightarrow> harmless P rest \<Longrightarrow> harmless P (not_too_early D g rest)"
  unfolding not_too_early_def by (intro harmless_bind harmless_rules maintains_rules queries_keepD)

lemma harmless_free_slot: "queries_keep P D \<Longrightarrow> harmless P rest \<Longrightarrow> harmless P (free_slot D m rest)"
  unfolding free_slot_def by (intro harmless_bind harmless_rules maintains_rules queries_keepD)

lemma maintains_memory_size:
  "queries_keep P D \<Longrightarrow> dbg_functions D = Some fs \<Longrightarrow> (kind = kind_memory \<Longrightarrow> fn_MemBpSize fs \<noteq> None) \<Longrightarrow>
   maintains P (memory_size fs kind a)"
  unfolding memory_size_def by (auto intro!: maintains_rules table_queries_keepD)

lemma harmless_admitted:
  assumes "queries_keep P D" "rejections_keep P D" "settles P rest"
  shows "harmless P (State_Monad.bind (fenced D command) (\<lambda>status. admitted status r u rest))"
  using assms by (intro harmless_fenced)
    (auto simp: admitted_def ensure_def settles_marked marked_rules intro: harmless_rules)

lemma harmless_toggle:
  assumes "queries_keep P D" "rejections_keep P D" "c \<Longrightarrow> marked rest" "\<not> c \<Longrightarrow> harmless P rest"
  shows "harmless P (State_Monad.bind (if c then fenced D command else State_Monad.return 0)
    (\<lambda>status. admitted status r u rest))"
proof (cases c)
  case True
  with assms show ?thesis by (simp add: harmless_admitted settles_marked)
qed (use assms in \<open>simp add: admitted_def ensure_def\<close>)

lemma transition_confirmed_judgements:
  "changed \<Longrightarrow> marked (transition_confirmed D fs k b q loc g t kind enable changed old)"
  "queries_keep P D \<Longrightarrow> dbg_functions D = Some fs \<Longrightarrow> fn_GetBridgeBp fs \<noteq> None \<Longrightarrow>
   (kind = kind_memory \<Longrightarrow> fn_MemBpSize fs \<noteq> None) \<Longrightarrow>
   maintains P (transition_confirmed D fs k b q loc g t kind enable changed old)"
  unfolding transition_confirmed_def
  by (intro marked_rules, assumption+)
     (intro maintains_rules maintains_GetBridgeBp maintains_memory_size queries_keepD; assumption)

lemma harmless_exception_toggle:
  assumes q: "queries_keep P D" and r: "rejections_keep P D"
  shows "harmless P (exception_toggle D k q)"
  unfolding exception_toggle_def Let_def
  apply (intro harmless_toggle [OF q r] harmless_paused_snapshot [OF q] harmless_with_functions harmless_bind
      harmless_rules maintains_rules maintains_GetBridgeBp [OF q] queries_keepD [OF q] marked_rules)
  apply assumption+
  done

lemma harmless_transition_submit:
  assumes "queries_keep P D" "rejections_keep P D" "dbg_functions D = Some fs" "fn_GetBridgeBp fs \<noteq> None"
    "kind = kind_memory \<longrightarrow> fn_MemBpSize fs \<noteq> None"
  shows "harmless P (State_Monad.bind (if changed then fenced D c else State_Monad.return 0)
    (\<lambda>status. admitted status m n (transition_confirmed D fs k b q loc g t kind enable changed old)))"
  using assms by (intro harmless_toggle harmless_keeps transition_confirmed_judgements) auto

lemma harmless_breakpoint_transition:
  assumes q: "queries_keep P D" and r: "rejections_keep P D"
  shows "harmless P (breakpoint_transition D k b q loc g)"
  unfolding breakpoint_transition_def Let_def
  by (intro harmless_transition_submit [OF q r] harmless_with_functions harmless_not_too_early [OF q]
      harmless_free_slot [OF q] harmless_bind harmless_rules maintains_rules maintains_GetBridgeBp [OF q]
      maintains_memory_size [OF q] queries_keepD [OF q]) simp_all

lemma harmless_software_mutation:
  assumes q: "queries_keep P D"
  shows "harmless P (software_mutation D q loc g)"
  unfolding software_mutation_def Let_def
  apply (rule harmless_bind, intro maintains_rules queries_keepD [OF q])
  apply (intro harmless_rules harmless_bind [of _ "if _ then State_Monad.return False else _"]
      maintains_rules queries_keepD [OF q] harmless_marked marked_rules TrueI)
  done

lemma harmless_hardware_mutation:
  assumes q: "queries_keep P D" and r: "rejections_keep P D"
  shows "harmless P (hardware_mutation D k b ticks q loc g)"
  unfolding hardware_mutation_def Let_def
  by (intro harmless_mutation [OF rejections_keepD(2) [OF r]] harmless_with_functions
      harmless_not_too_early [OF q] harmless_free_slot [OF q] harmless_bind harmless_rules maintains_rules
      maintains_GetBridgeBp [OF q] queries_keepD [OF q] marked_rules TrueI) simp_all

lemma harmless_memory_bp_mutation:
  assumes q: "queries_keep P D" and r: "rejections_keep P D"
  shows "harmless P (memory_bp_mutation D k ticks q loc g)"
  unfolding memory_bp_mutation_def Let_def
  by (intro harmless_mutation [OF rejections_keepD(2) [OF r]] harmless_with_functions
      harmless_bind harmless_rules maintains_rules maintains_GetBridgeBp [OF q] table_queries_keepD [OF q]
      queries_keepD [OF q] marked_rules TrueI) simp_all

section \<open>A failed setup leaves no breakpoint of ours\<close>

text \<open>
  \<open>P\<close> says that the breakpoint the debugger lists is not ours, and the debugger's answers agree
  with it.
\<close>

definition reports :: "('g world \<Rightarrow> bool) \<Rightarrow> ('d bridgebp \<Rightarrow> bool) \<Rightarrow> ('g, 'd bridgebp option) call \<Rightarrow> bool" where
  "reports P ours m \<longleftrightarrow>
     (\<forall>w bp w'. run_state m w = (bp, w') \<longrightarrow> (P w' \<longleftrightarrow> (case bp of None \<Rightarrow> True | Some bp \<Rightarrow> \<not> ours bp)))"

definition exception_ours ::
    "sdk \<Rightarrow> ('w :: len) word Request \<Rightarrow> ExceptionChance \<Rightarrow> 'w word bridgebp \<Rightarrow> bool" where
  "exception_ours k q chance bp \<longleftrightarrow>
     length (c_field (bp_name bp)) < length (bp_name bp) \<and> bp_type bp = bp_exception \<and>
     bp_addr bp = ucast (rq_exceptionCode q) \<and> bp_typeEx bp = code_BPEXTYPE k (NativeExceptionChance chance) \<and>
     c_field (bp_name bp) \<in> {[], ManagedBreakpointName ''exception'' (rq_managedBreakpointId q)}"

lemma settles_failed_setup:
  assumes "\<And>w n w'. run_state cleaning w = (n, w') \<Longrightarrow> n = 2 \<or> P w'"
  shows "settles P (failed_setup cleaning m)"
proof -
  have "te_unknown e \<or> P s'" if "run_state (failed_setup cleaning m) s = (Inl e, s')" for s e s'
    using that assms [of s] by (auto simp: failed_setup_def refuse_def failure_def split: prod.splits)
  then show ?thesis by (auto simp: settles_def)
qed

lemma conditional_cleanup_settles:
  assumes "reports P (\<lambda>bp. ConditionalBreakpointOwned bp a (rq_managedBreakpointId q)) (GetBridgeBp fs bp_normal a)"
    "run_state (conditional_cleanup D fs q a) w = (n, w')"
  shows "n = 2 \<or> P w'"
  using assms by (auto simp: conditional_cleanup_def reports_def split: prod.splits option.splits if_splits)

lemma exception_cleanup_settles:
  assumes "reports P (exception_ours k q chance) (GetBridgeBp fs bp_exception (ucast (rq_exceptionCode q)))"
    "run_state (exception_cleanup D fs k (rq_exceptionCode q) chance
      (ManagedBreakpointName ''exception'' (rq_managedBreakpointId q))) w = (n, w')"
  shows "n = 2 \<or> P w'"
  using assms
  by (auto simp: exception_cleanup_def reports_def exception_ours_def Let_def
      split: prod.splits option.splits if_splits)

lemma harmless_conditional_mutation:
  assumes q: "queries_keep P D" and r: "rejections_keep P D"
    and "\<And>fs. dbg_functions D = Some fs \<Longrightarrow> reports P
      (\<lambda>bp. ConditionalBreakpointOwned bp (rl_address loc) (rq_managedBreakpointId q))
      (GetBridgeBp fs bp_normal (rl_address loc))"
  shows "harmless P (conditional_mutation D q loc g)"
  unfolding conditional_mutation_def Let_def
  by (intro harmless_admitted [OF q r] harmless_with_functions harmless_bind harmless_rules
      maintains_rules maintains_GetBridgeBp [OF q] queries_keepD [OF q] settles_rules settles_bind
      settles_failed_setup [OF conditional_cleanup_settles [OF assms(3)]])
    (auto intro!: settles_marked marked_rules)

lemma harmless_exception_mutation:
  assumes q: "queries_keep P D" and r: "rejections_keep P D"
    and "\<And>fs chance. dbg_functions D = Some fs \<Longrightarrow> ParseExceptionChance (rq_exceptionChance q) = Some chance \<Longrightarrow>
      reports P (exception_ours k q chance) (GetBridgeBp fs bp_exception (ucast (rq_exceptionCode q)))"
  shows "harmless P (exception_mutation D k q)"
  unfolding exception_mutation_def exception_created_def Let_def
  by (intro harmless_admitted [OF q r] harmless_paused_snapshot [OF q] harmless_with_functions harmless_bind
      harmless_rules maintains_rules maintains_GetBridgeBp [OF q] queries_keepD [OF q] settles_rules settles_bind
      settles_failed_setup [OF exception_cleanup_settles [OF assms(3)]])
    (auto intro!: settles_marked marked_rules)

end
