(* ===== verification/Run_Tools.thy ===== *)
theory Run_Tools
  imports Thread_Tools Breakpoint_Tools Runtime_Steps Pe_Policy
begin

text \<open>
  The tools of \<open>runtime.cpp\<close> that let the debuggee run, or start and end it: \<open>debugger.pause\<close>,
  \<open>resume\<close>, \<open>continue_exception\<close>, \<open>step_into\<close>, \<open>step_over\<close>, \<open>stop\<close> and \<open>step_out\<close>,
  \<open>debuggee.attach\<close>, \<open>detach\<close>, \<open>launch\<close> and \<open>launch_dll\<close>.

  A wait on the condition variable is one \<open>observe\<close>: other threads run, and the condition is
  tested where the wait ends.
\<close>

section \<open>Pause, resume, step and stop\<close>

definition reconcile :: "('g, 'd) debugger \<Rightarrow> ('g, unit) call" where
  "reconcile D = do {
     (earlier, observed) \<leftarrow> observe D (\<lambda>r. (rt_generation r, rt_debuggeeState r));
     if observed = ds_starting then State_Monad.return ()
     else do {
       debugging \<leftarrow> dbg_IsDebugging D;
       u \<leftarrow> dbg_surroundings D;
       critical D (\<lambda>r. ((), ReconcileDebuggerLiveness (u\<lparr>su_debugging := debugging\<rparr>) earlier observed r))
     }
   }"

record run_plan =
  rp_command :: string
  rp_expected :: DebuggeeState
  rp_valid :: bool
  rp_stepThread :: "u32 option"
  rp_overrideThread :: "u32 option"

definition override_writable :: "build \<Rightarrow> RegisterAssignment \<Rightarrow> bool" where
  "override_writable b a =
     (case FindWritableRegister b (ra_name a) of None \<Rightarrow> False | Some spec \<Rightarrow> register_fits spec (ra_value a))"

definition exception_plan ::
    "('g, ('w :: len) word) debugger \<Rightarrow> build \<Rightarrow> 'w word Request \<Rightarrow> DebuggeeState \<Rightarrow> ('g, run_plan) tool" where
  "exception_plan D b q state = do {
     pause \<leftarrow> observe D rt_latestPause;
     (let overrides = rq_exceptionRegisterOverrides q; handled = (rq_exceptionDisposition q = ''handled'') in
      ensure (list_all (override_writable b) overrides) ''INVALID_ARGUMENT''
        ''register override is not writable on this architecture'' False False (
      ensure (overrides = [] \<or> po_hasThreadId pause) ''INVALID_DEBUGGER_STATE''
        ''exception pause has no correlated thread'' False False (answer
          \<lparr>rp_command = (if handled then ''serun'' else ''erun''), rp_expected = ds_running,
           rp_valid = (state = ds_paused \<and> po_kind pause = pk_exception \<and> po_hasExceptionCode pause \<and>
             (handled \<or> po_firstChance pause)),
           rp_stepThread = None, rp_overrideThread = (if overrides = [] then None else Some (po_threadId pause))\<rparr>)))
   }"

definition plan_run ::
    "('g, ('w :: len) word) debugger \<Rightarrow> build \<Rightarrow> 'w word Request \<Rightarrow> DebuggeeState \<Rightarrow> ('g, run_plan) tool" where
  "plan_run D b q state =
     (if rq_method q = ''debugger.pause''
      then answer \<lparr>rp_command = [], rp_expected = ds_paused, rp_valid = (state = ds_running),
        rp_stepThread = None, rp_overrideThread = None\<rparr>
      else if rq_method q = ''debugger.resume''
      then do {
        owned \<leftarrow> observe D rt_ownedPauseException;
        answer \<lparr>rp_command = (if owned then ''serun'' else ''run''), rp_expected = ds_running,
          rp_valid = (state = ds_paused), rp_stepThread = None, rp_overrideThread = None\<rparr>
      }
      else if rq_method q = ''debugger.continue_exception'' then exception_plan D b q state
      else if rq_method q = ''debugger.step_into'' \<or> rq_method q = ''debugger.step_over''
      then do {
        thread \<leftarrow> dbg_ThreadId D;
        answer \<lparr>rp_command = (if rq_method q = ''debugger.step_into'' then ''sti'' else ''sto''),
          rp_expected = ds_paused, rp_valid = (state = ds_paused), rp_stepThread = Some thread,
          rp_overrideThread = None\<rparr>
      }
      else do {
        origin \<leftarrow> observe D rt_sessionOrigin;
        answer \<lparr>rp_command = ''stop'', rp_expected = ds_absent,
          rp_valid = (state \<in> {ds_starting, ds_running, ds_paused} \<and> origin \<noteq> so_attached),
          rp_stepThread = None, rp_overrideThread = None\<rparr>
      })"

text \<open>The interrupt of \<open>debugger.pause\<close>: a remote thread that enters \<open>DbgBreakPoint\<close>.\<close>

definition submit_interrupt :: "('g, ('w :: len) word) debugger \<Rightarrow> ('g, bool) tool" where
  "submit_interrupt D = do {
     begun \<leftarrow> critical D pause_begin;
     ensure begun ''BUSY'' ''a debugger interrupt is already pending'' True False (do {
       h \<leftarrow> dbg_ProcessHandle D;
       selected \<leftarrow> selected_thread D;
       thread \<leftarrow> dbg_ThreadId D;
       critical D (\<lambda>r. ((), pause_select (case selected of Some t \<Rightarrow> t | None \<Rightarrow> thread) r));
       submitted \<leftarrow> (if h \<noteq> 0 \<and> h \<noteq> - 1 then dbg_RemoteBreakPoint D h else State_Monad.return False);
       (if submitted then State_Monad.return () else critical D (\<lambda>r. ((), pause_failed r)));
       answer submitted
     })
   }"

definition restore_selection :: "('g, 'd) debugger \<Rightarrow> ('g, unit) call" where
  "restore_selection D = do {
     owned \<leftarrow> observe D rt_ownedPauseException;
     if \<not> owned then State_Monad.return ()
     else do {
       thread \<leftarrow> critical D resume_take_thread;
       if thread = 0 then State_Monad.return ()
       else do {
         dbg_CmdExecDirect D (''switchthread '' @ HexValue (ucast thread) @ '', silent'');
         State_Monad.return ()
       }
     }
   }"

definition submit_run ::
    "('g, ('w :: len) word) debugger \<Rightarrow> 'w word Request \<Rightarrow> run_plan \<Rightarrow> ('g, bool) tool" where
  "submit_run D q plan =
     (if rq_method q = ''debugger.pause'' then submit_interrupt D
      else if rp_stepThread plan \<noteq> None
      then do { submitted \<leftarrow> dbg_CmdExecDirect D (rp_command plan); answer submitted }
      else do {
        (if rq_method q = ''debugger.resume'' then restore_selection D else State_Monad.return ());
        submitted \<leftarrow> dbg_CmdExec D (rp_command plan);
        answer submitted
      })"

definition run_confirmed :: "('w :: len) word Request \<Rightarrow> run_plan \<Rightarrow> u64 \<Rightarrow> Runtime \<Rightarrow> bool" where
  "run_confirmed q plan earlier r =
     (if rp_stepThread plan \<noteq> None then WaitForPauseReason r pk_step earlier
      else if rq_method q = ''debugger.pause'' then WaitForPauseReason r pk_userPause earlier
      else WaitForState r (rp_expected plan) earlier)"

definition step_answer ::
    "('g, ('w :: len) word) debugger \<Rightarrow> 'w word Request \<Rightarrow> u32 \<Rightarrow> u64 \<Rightarrow> ('g, u64 \<times> string) tool" where
  "step_answer D q thread confirmed = do {
     stepPause \<leftarrow> observe D rt_latestPause;
     ensure (po_hasThreadId stepPause \<and> po_threadId stepPause = thread) ''TIMEOUT''
       ''step paused a different or uncorrelated thread'' False True (do {
         dump \<leftarrow> dbg_RegDump D;
         (case dump of
            None \<Rightarrow> refuse ''INTERNAL'' ''step register snapshot is unavailable'' True False
          | Some registers \<Rightarrow> do {
              (generation, state, pause, active) \<leftarrow>
                observe D (\<lambda>r. (rt_generation r, rt_debuggeeState r, rt_latestPause r, rt_activeThreadId r));
              ensure (generation = confirmed \<and> state = ds_paused) ''BUSY''
                ''debugger changed after the confirmed step'' True False (answer (confirmed, json_object
                  [(''debuggee_state'', JsonString ''paused''),
                   (''active_thread_id'', if active = 0 then ''null'' else hex active),
                   (''instruction_pointer'', hex (rg_cip registers)),
                   (''pause_reason'', PauseReasonJson pause), (''state_generation'', dec confirmed)]))
            })
       })
   }"

definition run_submitted ::
    "('g, ('w :: len) word) debugger \<Rightarrow> 'w word Request \<Rightarrow> run_plan \<Rightarrow> ('g, u64 \<times> string) tool" where
  "run_submitted D q plan = do {
     earlier \<leftarrow> observe D rt_generation;
     attempt (submit_run D q plan) (\<lambda>submitted.
       ensure submitted ''BUSY''
         (if rq_method q = ''debugger.pause'' then ''debugger interrupt request failed''
          else ''debugger command queue rejected the operation'') True False (do {
           outcomeConfirmed \<leftarrow> observe D (run_confirmed q plan earlier);
           ensure outcomeConfirmed ''TIMEOUT'' ''mutation outcome was not callback-confirmed'' False True (do {
             (if rq_method q = ''debugger.pause'' then critical D (\<lambda>r. ((), pause_confirmed r))
              else State_Monad.return ());
             confirmed \<leftarrow> observe D (\<lambda>r. ObservedGeneration r (rp_expected plan));
             (case rp_stepThread plan of
                Some thread \<Rightarrow> step_answer D q thread confirmed
              | None \<Rightarrow> answer (confirmed, json_object
                  [(''debuggee_state'', JsonString (if rp_expected plan = ds_paused then ''paused''
                      else if rp_expected plan = ds_running then ''running'' else ''absent'')),
                   (''state_generation'', dec confirmed)]))
           })
         }))
   }"

definition run_control ::
    "('g, ('w :: len) word) debugger \<Rightarrow> build \<Rightarrow> 'w word Request \<Rightarrow> ('g, u64 \<times> string) tool" where
  "run_control D b q = do {
     reconcile D;
     state \<leftarrow> observe D rt_debuggeeState;
     attempt (plan_run D b q state) (\<lambda>plan. do {
       debugging \<leftarrow> (if rp_valid plan then dbg_IsDebugging D else State_Monad.return False);
       if \<not> debugging then do {
         attached \<leftarrow> (if rq_method q = ''debugger.stop'' then observe D (\<lambda>r. rt_sessionOrigin r = so_attached)
           else State_Monad.return False);
         refuse ''INVALID_DEBUGGER_STATE''
           (if attached then ''stop is unsafe for an attached session; use debuggee.detach''
            else ''operation is not valid in the current debugger state'') False False
       }
       else
         ensure (rp_stepThread plan \<noteq> Some 0) ''INVALID_DEBUGGER_STATE''
           ''no debug-event thread is available'' False False (
         ensure (rp_stepThread plan = None \<or> rq_targetThreadId q = None \<or>
             rq_targetThreadId q = rp_stepThread plan) ''INVALID_ARGUMENT''
           ''thread_id must match x64dbg's current debug-event thread'' False False (
         case rp_overrideThread plan of
           None \<Rightarrow> run_submitted D q plan
         | Some thread \<Rightarrow> do {
             mutation \<leftarrow> mutate_thread D b thread (rq_exceptionRegisterOverrides q);
             if mutation \<noteq> tc_ok then State_Monad.return (thread_error q mutation)
             else run_submitted D q plan
           }))
     })
   }"

section \<open>debugger.step_out\<close>

definition step_out ::
    "('g, ('w :: len) word) debugger \<Rightarrow> 'w word Request \<Rightarrow> ('g, u64 \<times> string) tool" where
  "step_out D q = paused_snapshot D ''step out requires a paused debuggee'' (\<lambda>g. do {
     beforeDump \<leftarrow> dbg_RegDump D;
     (case beforeDump of
        None \<Rightarrow> refuse ''INTERNAL'' ''initial register snapshot is unavailable'' True False
      | Some initial \<Rightarrow> do {
          ok \<leftarrow> still_paused D g;
          ensure ok ''BUSY'' ''debugger changed before step out submission'' True False (do {
            taken \<leftarrow> dbg_CmdExec D ''rtr'';
            ensure taken ''BUSY'' ''debugger command queue rejected step out'' True False (do {
              paused \<leftarrow> observe D (\<lambda>r. WaitForState r ds_paused g);
              ensure paused ''TIMEOUT'' ''step out produced no callback-confirmed pause'' False True (do {
                (confirmed, pause) \<leftarrow> observe D (\<lambda>r. (rt_pausedGeneration r, rt_latestPause r));
                afterDump \<leftarrow> dbg_RegDump D;
                (case afterDump of
                   None \<Rightarrow> refuse ''TIMEOUT'' ''step out paused but its register snapshot is unavailable'' False True
                 | Some registers \<Rightarrow> do {
                     i \<leftarrow> dbg_DisasmAt D (rg_cip registers);
                     stable \<leftarrow> observe D (\<lambda>r. PauseObservationCurrent r confirmed confirmed);
                     ensure stable ''TIMEOUT'' ''debugger changed during step out confirmation'' False True (
                     let t = c_field (di_instruction i);
                         completed = (di_instr_size i > 0 \<and> di_instr_size i \<le> 15 \<and> IsReturnInstruction t \<and>
                           rg_csp registers \<ge> rg_csp initial) in
                     answer (confirmed, json_object
                       [(''completed'', json_bool completed), (''debuggee_state'', JsonString ''paused''),
                        (''pause_reason'', PauseReasonJson pause),
                        (''instruction_pointer'', hex (rg_cip registers)),
                        (''stack_pointer'', hex (rg_csp registers)),
                        (''initial_stack_pointer'', hex (rg_csp initial)),
                        (''instruction'', json_object
                           [(''size'', to_string (nat (di_instr_size i))), (''text'', JsonString t)]),
                        (''state_generation'', dec confirmed)]))
                   })
              })
            })
          })
        })
   })"

section \<open>debuggee.attach and debuggee.detach\<close>

definition attach_diagnostic :: "u32 \<Rightarrow> Runtime \<Rightarrow> string" where
  "attach_diagnostic target r =
     ''attach confirmation mismatch: requested='' @ HexValue (ucast target) @
     '', callback='' @ HexValue (ucast (rt_attachProcessId r)) @
     '', current='' @ HexValue (ucast (rt_processId r)) @
     '', attach_generation='' @ dec (rt_attachGeneration r) @
     '', pause_generation='' @ dec (rt_pausedGeneration r)"

definition no_debuggee ::
    "('g, 'd) debugger \<Rightarrow> string \<Rightarrow> ('g, 'a) tool \<Rightarrow> ('g, 'a) tool" where
  "no_debuggee D message rest = do {
     reconcile D;
     state \<leftarrow> observe D rt_debuggeeState;
     debugging \<leftarrow> (if state \<noteq> ds_absent then State_Monad.return True else dbg_IsDebugging D);
     ensure (\<not> debugging) ''INVALID_DEBUGGER_STATE'' message False False rest
   }"

text \<open>\<open>host\<close> and \<open>sidecar\<close> are the process ids of the debugger and of its sidecar, 0 for none.\<close>

definition debuggee_attach ::
    "('g, ('w :: len) word) debugger \<Rightarrow> u32 \<Rightarrow> u32 \<Rightarrow> 'w word Request \<Rightarrow> ('g, u64 \<times> string) tool" where
  "debuggee_attach D host sidecar q =
     no_debuggee D ''attach requires no current debuggee'' (
     let target = rq_targetProcessId q in
     ensure (\<not> (target = host \<or> (sidecar \<noteq> 0 \<and> target = sidecar))) ''INVALID_ARGUMENT''
       ''cannot attach to the debugger host or its owned sidecar'' False False (do {
         earlier \<leftarrow> observe D rt_generation;
         taken \<leftarrow> dbg_CmdExec D (''attach '' @ HexValue (ucast target));
         ensure taken ''BUSY'' ''debugger command queue rejected attach'' True False (do {
           attached \<leftarrow> observe D (\<lambda>r. WaitForAttachPause r target earlier);
           if \<not> attached then do {
             diagnostic \<leftarrow> observe D (attach_diagnostic target);
             refuse ''TIMEOUT'' diagnostic False True
           }
           else do {
             confirmed \<leftarrow> observe D (\<lambda>r. ObservedGeneration r ds_paused);
             answer (confirmed, json_object
               [(''debuggee_state'', JsonString ''paused''), (''session_origin'', JsonString ''attached''),
                (''process_id'', hex target), (''state_generation'', dec confirmed)])
           }
         })
       }))"

definition debuggee_detach ::
    "('g, ('w :: len) word) debugger \<Rightarrow> 'w word Request \<Rightarrow> ('g, u64 \<times> string) tool" where
  "debuggee_detach D q = do {
     state \<leftarrow> observe D rt_debuggeeState;
     process \<leftarrow> observe D rt_processId;
     origin \<leftarrow> observe D rt_sessionOrigin;
     debugging \<leftarrow> (if origin \<noteq> so_attached \<or> (state \<noteq> ds_paused \<and> state \<noteq> ds_running) \<or> process = 0
       then State_Monad.return False else dbg_IsDebugging D);
     ensure debugging ''INVALID_DEBUGGER_STATE'' ''detach requires an active attached session'' False False (do {
       earlier \<leftarrow> observe D rt_generation;
       taken \<leftarrow> dbg_CmdExec D ''detach'';
       ensure taken ''BUSY'' ''debugger command queue rejected detach'' True False (do {
         detached \<leftarrow> observe D (\<lambda>r. WaitForDetach r process earlier);
         ensure detached ''TIMEOUT'' ''detach outcome was not callback-confirmed'' False True (do {
           confirmed \<leftarrow> observe D (\<lambda>r. ObservedGeneration r ds_absent);
           answer (confirmed, json_object
             [(''debuggee_state'', JsonString ''absent''), (''session_origin'', ''null''),
              (''detached_process_id'', hex process), (''state_generation'', dec confirmed)])
         })
       })
     })
   }"

section \<open>debuggee.launch and debuggee.launch_dll\<close>

text \<open>
  The file system and the conversion to UTF-16 are parameters; \<open>le_parent\<close> and \<open>le_filename\<close> are
  \<open>parent_path\<close> and \<open>filename\<close>, \<open>le_pe\<close> is \<open>ReadPeIdentity\<close> of a path, \<open>le_loader\<close> whether
  \<open>loaddll.exe\<close> is a regular file.
\<close>

record launch_env =
  le_is_absolute :: "string \<Rightarrow> bool"
  le_canonical :: "string \<Rightarrow> (string \<times> file_kind) option"
  le_parent :: "string \<Rightarrow> string"
  le_filename :: "string \<Rightarrow> string"
  le_pe :: "string \<Rightarrow> pe_identity option"
  le_loader :: bool
  le_wide :: "string \<Rightarrow> u16 list option"

definition wide_length :: "launch_env \<Rightarrow> string \<Rightarrow> nat" where
  "wide_length L s = (case le_wide L s of None \<Rightarrow> 0 | Some u \<Rightarrow> length u)"

record launch_plan =
  lp_executable :: string
  lp_directory :: string
  lp_entryRva :: u32
  lp_commandLine :: string
  lp_command :: string

text \<open>Everything before the command is submitted; it has no effect.\<close>

definition plan_launch :: "launch_env \<Rightarrow> build \<Rightarrow> ('w :: len) word Request \<Rightarrow> tool_error + launch_plan" where
  "plan_launch L b q = (
     let dllLaunch = (rq_method q = ''debuggee.launch_dll'') in
     case CanonicalUtf8Path (le_is_absolute L) (le_canonical L) (rq_path q) False of
       None \<Rightarrow> failure ''INVALID_ARGUMENT'' ''path must name an existing absolute regular file'' False False
     | Some executable \<Rightarrow>
         (case le_pe L executable of
            None \<Rightarrow> failure ''INVALID_ARGUMENT''
              (if dllLaunch then ''path must name an architecture-matched PE DLL''
               else ''path must name an architecture-matched PE executable'') False False
          | Some pe \<Rightarrow>
              if \<not> PeMatchesBackend b pe dllLaunch
              then failure ''INVALID_ARGUMENT''
                (if dllLaunch then ''path must name an architecture-matched PE DLL''
                 else ''path must name an architecture-matched PE executable'') False False
              else if dllLaunch \<and> (wide_length L executable = 0 \<or> wide_length L executable \<ge> 512)
              then failure ''INVALID_ARGUMENT'' ''DLL path exceeds the x64dbg loader mapping bound'' False False
              else if dllLaunch \<and> \<not> le_loader L
              then failure ''INVALID_DEBUGGER_STATE'' ''x64dbg loaddll.exe is unavailable'' False False
              else
                let requestedDirectory = (if rq_workingDirectory q = [] then le_parent L executable
                      else rq_workingDirectory q) in
                case CanonicalUtf8Path (le_is_absolute L) (le_canonical L) requestedDirectory True of
                  None \<Rightarrow> failure ''INVALID_ARGUMENT''
                    ''working_directory must name an existing absolute directory'' False False
                | Some directory \<Rightarrow>
                    (case (if dllLaunch then Some [] else RenderWindowsArguments (le_wide L) (rq_launchArguments q)) of
                       None \<Rightarrow> failure ''INVALID_ARGUMENT'' ''arguments exceed native quoting bounds'' False False
                     | Some rendered \<Rightarrow>
                         let line = QuoteWindowsArgument executable @ (if rendered = [] then [] else '' '' @ rendered) in
                         if wide_length L line = 0 \<or> wide_length L line > 32766
                         then failure ''INVALID_ARGUMENT''
                           ''rendered Windows command line is invalid or too long'' False False
                         else
                           (case BuildInitCommand executable [] directory of
                              None \<Rightarrow> failure ''INVALID_ARGUMENT''
                                ''launch does not fit the x64dbg command buffer'' False False
                            | Some command \<Rightarrow> Inr
                                \<lparr>lp_executable = executable, lp_directory = directory, lp_entryRva = entryRva pe,
                                 lp_commandLine = line, lp_command = command\<rparr>))))"

text \<open>The loader among the modules: \<open>Inl ()\<close> when a second one is found.\<close>

definition loader_prefix :: "build \<Rightarrow> string" where
  "loader_prefix b = (if b = Win64 then ''dllloader64_'' else ''dllloader32_'')"

definition is_loader :: "build \<Rightarrow> string \<Rightarrow> bool" where
  "is_loader b name \<longleftrightarrow>
     (let lowered = map tolower name in
      starts_with lowered (loader_prefix b) \<and> starts_with (rev lowered) (rev ''.exe''))"

primrec find_loader :: "build \<Rightarrow> 'd ModuleRecord list \<Rightarrow> string option \<Rightarrow> unit + string option" where
  "find_loader b [] found = Inr found"
| "find_loader b (m # ms) found =
     (if is_loader b (mr_name m)
      then (if found \<noteq> None then Inl () else find_loader b ms (Some (mr_name m)))
      else find_loader b ms found)"

definition launched_dll ::
    "('g, ('w :: len) word) debugger \<Rightarrow> winapi \<Rightarrow> launch_env \<Rightarrow> build \<Rightarrow> launch_plan \<Rightarrow> u64 \<Rightarrow>
     ('g, u64 \<times> string) tool" where
  "launched_dll D W L b plan confirmed = (
     let unverified = refuse ''OUTCOME_UNKNOWN'' ''initial DLL loader pause could not be verified'' False True in do {
       modules \<leftarrow> CaptureModuleRecords D;
       (case modules of
          None \<Rightarrow> unverified
        | Some modules \<Rightarrow>
            (case find_loader b modules None of
               Inl _ \<Rightarrow> refuse ''OUTCOME_UNKNOWN'' ''DLL loader identity is ambiguous'' False True
             | Inr None \<Rightarrow> unverified
             | Inr (Some loader) \<Rightarrow>
                 if UniqueModule W modules (le_filename L (lp_executable plan)) \<noteq> None then unverified
                 else answer (confirmed, json_object
                   [(''debuggee_state'', JsonString ''paused''), (''target_kind'', JsonString ''dll''),
                    (''path'', JsonString (lp_executable plan)),
                    (''working_directory'', JsonString (lp_directory plan)),
                    (''loader_module'', JsonString loader), (''target_loaded'', ''false''),
                    (''entry_rva'', hex (lp_entryRva plan)), (''state_generation'', dec confirmed)])))
     })"

definition launched_executable ::
    "('g, ('w :: len) word) debugger \<Rightarrow> 'w word Request \<Rightarrow> launch_plan \<Rightarrow> u64 \<Rightarrow> ('g, u64 \<times> string) tool" where
  "launched_executable D q plan confirmed = do {
     committed \<leftarrow> (case (case dbg_functions D of None \<Rightarrow> None | Some fs \<Rightarrow> fn_SetCmdline fs) of
         None \<Rightarrow> State_Monad.return False
       | Some setCmdline \<Rightarrow> setCmdline (lp_commandLine plan));
     ensure committed ''OUTCOME_UNKNOWN'' ''debuggee launched but its command line could not be committed'' False True
       (answer (confirmed, json_object
         [(''debuggee_state'', JsonString ''paused''), (''path'', JsonString (lp_executable plan)),
          (''working_directory'', JsonString (lp_directory plan)),
          (''arguments'', json_array (map JsonString (rq_launchArguments q))),
          (''state_generation'', dec confirmed)]))
   }"

definition launch_timeout :: "build \<Rightarrow> ('w :: len) word Request \<Rightarrow> string \<Rightarrow> string" where
  "launch_timeout b q executable =
     (if b = Win32 \<and> rq_method q \<noteq> ''debuggee.launch_dll'' \<and> HasPifExtension executable
      then ''x32dbg handles .PIF with ResolveShortcut before CreateProcessW; rename a hash-identical analysis copy to .exe, record its provenance, and try again''
      else ''x64dbg accepted the launch command, but no debug session or actionable pause was observed before the deadline; inspect the x64dbg log for native loader diagnostics'')"

definition debuggee_launch ::
    "('g, ('w :: len) word) debugger \<Rightarrow> winapi \<Rightarrow> launch_env \<Rightarrow> build \<Rightarrow> 'w word Request \<Rightarrow> ('g, u64 \<times> string) tool" where
  "debuggee_launch D W L b q = no_debuggee D ''launch requires no current debuggee'' (
     case plan_launch L b q of
       Inl e \<Rightarrow> State_Monad.return (Inl e)
     | Inr plan \<Rightarrow> do {
         earlier \<leftarrow> observe D rt_generation;
         taken \<leftarrow> dbg_CmdExec D (lp_command plan);
         ensure taken ''BUSY'' ''debugger command queue rejected the launch'' True False (do {
           paused \<leftarrow> observe D (\<lambda>r. WaitForActionableLaunchPause r earlier);
           ensure paused ''TIMEOUT'' (launch_timeout b q (lp_executable plan)) False True (do {
             confirmed \<leftarrow> observe D (\<lambda>r. ObservedGeneration r ds_paused);
             if rq_method q = ''debuggee.launch_dll'' then launched_dll D W L b plan confirmed
             else launched_executable D q plan confirmed
           })
         })
       })"

end
