(* ===== verification/Run_To.thy ===== *)
theory Run_To
  imports Run_Tools Patch_Tools
begin

text \<open>
  \<open>debugger.run_to_address\<close> of \<open>runtime.cpp\<close>: a single-shot breakpoint with a name of its own is
  set behind the command fence, the debuggee runs until it pauses, exits or the time is over, and
  the breakpoint is removed again. \<open>ticks\<close> bounds the polling of the clean-up as in
  \<open>Breakpoint_Tools\<close>.
\<close>

section \<open>Cleaning up\<close>

definition breakpoint_gone :: "('g, 'd) debugger \<Rightarrow> 'd \<Rightarrow> ('g, nat) call" where
  "breakpoint_gone D target = do {
     exists \<leftarrow> dbg_SoftwareBpAt D target;
     State_Monad.return (if \<not> exists then 0 else 2)
   }"

primrec await_removed ::
    "('g, 'd) debugger \<Rightarrow> ('g, 'd) DBGFUNCTIONS \<Rightarrow> 'd \<Rightarrow> string \<Rightarrow> nat \<Rightarrow> ('g, nat) call" where
  "await_removed D fs target name 0 = State_Monad.return 2"
| "await_removed D fs target name (Suc ticks) = do {
     ready \<leftarrow> observe D (\<lambda>r. rt_pluginState r = pl_ready);
     if \<not> ready then State_Monad.return 2
     else do {
       found \<leftarrow> GetBridgeBp fs bp_normal target;
       (case found of
          None \<Rightarrow> breakpoint_gone D target
        | Some bp \<Rightarrow>
            if \<not> RunToBreakpointOwned bp target name then State_Monad.return 1
            else await_removed D fs target name ticks)
     }
   }"

definition cleanup_owned ::
    "('g, ('w :: len) word) debugger \<Rightarrow> ('g, 'w word) DBGFUNCTIONS \<Rightarrow> 'w word \<Rightarrow> string \<Rightarrow> nat \<Rightarrow> ('g, nat) call" where
  "cleanup_owned D fs target name ticks = do {
     found \<leftarrow> GetBridgeBp fs bp_normal target;
     (case found of
        None \<Rightarrow> breakpoint_gone D target
      | Some bp \<Rightarrow>
          if \<not> RunToBreakpointOwned bp target name then State_Monad.return 1
          else do {
            taken \<leftarrow> dbg_CmdExec D (''bc '' @ HexValue (ucast target));
            if \<not> taken then State_Monad.return 2 else await_removed D fs target name ticks
          })
   }"

section \<open>Running\<close>

record run_outcome =
  ro_drained :: bool
  ro_exited :: bool
  ro_timedOut :: bool
  ro_pause :: PauseObservation
  ro_generation :: u64

text \<open>What the section after the wait reads, with 0 and an empty observation where it reads no pause.\<close>

definition run_to_observe :: "u64 \<Rightarrow> Runtime \<Rightarrow> run_outcome" where
  "run_to_observe beforeRun r = (
     let terminal = (rt_pluginState r \<noteq> pl_ready \<or> rt_pausedGeneration r > beforeRun \<or>
           rt_absentGeneration r > beforeRun \<or> rt_debuggeeState r = ds_exited);
         exited = (rt_absentGeneration r > beforeRun \<or> rt_debuggeeState r = ds_absent \<or>
           rt_debuggeeState r = ds_exited);
         paused = (rt_pausedGeneration r > beforeRun) in
     \<lparr>ro_drained = (rt_pluginState r \<noteq> pl_ready), ro_exited = exited,
      ro_timedOut = (\<not> paused \<and> \<not> exited \<and> \<not> terminal),
      ro_pause = (if paused then rt_latestPause r else no_pause),
      ro_generation = (if paused then rt_pausedGeneration r else 0)\<rparr>)"

definition run_to_json ::
    "bool \<Rightarrow> bool \<Rightarrow> string \<Rightarrow> string \<Rightarrow> string \<Rightarrow> string \<Rightarrow> string \<Rightarrow> u64 \<Rightarrow> string" where
  "run_to_json completed resumed target state pause ip interruption g = json_object
     [(''completed'', json_bool completed), (''resumed'', json_bool resumed), (''target'', target),
      (''debuggee_state'', JsonString state), (''pause_reason'', pause), (''instruction_pointer'', ip),
      (''interruption'', interruption), (''temporary_breakpoint_cleaned'', ''true''),
      (''state_generation'', dec g)]"

fun interruption_name :: "PauseReasonKind \<Rightarrow> string" where
  "interruption_name pk_breakpoint = ''breakpoint''"
| "interruption_name pk_exception = ''exception''"
| "interruption_name pk_step = ''step''"
| "interruption_name pk_userPause = ''user_pause''"
| "interruption_name _ = ''unknown''"

definition run_to_exited ::
    "('g, ('w :: len) word) debugger \<Rightarrow> 'w word ResolvedLocation \<Rightarrow> u64 \<Rightarrow> u64 \<Rightarrow> ('g, u64 \<times> string) tool" where
  "run_to_exited D loc g beforeRun = do {
     waited \<leftarrow> observe D (\<lambda>r. WaitForState r ds_absent beforeRun);
     absent \<leftarrow> (if waited then State_Monad.return True else observe D (\<lambda>r. rt_debuggeeState r = ds_absent));
     ensure absent ''TIMEOUT'' ''debuggee exited before run-to cleanup was confirmed'' False True (do {
       stopped \<leftarrow> observe D rt_absentGeneration;
       answer (stopped, run_to_json False True (LocationJson loc g) ''absent'' ''null'' ''null''
         (JsonString ''process_exited'') stopped)
     })
   }"

text \<open>\<open>bp_normal\<close> is the value 1 of a pause's breakpoint type.\<close>

definition run_to_paused ::
    "('g, ('w :: len) word) debugger \<Rightarrow> ('g, 'w word) DBGFUNCTIONS \<Rightarrow> nat \<Rightarrow> 'w word Request \<Rightarrow>
     'w word ResolvedLocation \<Rightarrow> u64 \<Rightarrow> bool \<Rightarrow> PauseObservation \<Rightarrow> u64 \<Rightarrow> ('g, u64 \<times> string) tool" where
  "run_to_paused D fs ticks q loc g timedOut pause generation = (
     let target = rl_address loc; ownedName = RunToBreakpointName (rq_operationId q) in do {
       paused \<leftarrow> observe D (\<lambda>r. rt_debuggeeState r = ds_paused);
       ensure (generation \<noteq> 0 \<and> paused) ''TIMEOUT'' ''run-to outcome was not callback-confirmed'' False True (
       let completed = (\<not> timedOut \<and> po_kind pause = pk_breakpoint \<and> po_hasAddress pause \<and>
             po_address pause = ucast target \<and> po_breakpointType pause = 1) in do {
         cleanup \<leftarrow> cleanup_owned D fs target ownedName ticks;
         ensure (cleanup = 0) (if cleanup = 1 then ''CONFLICT'' else ''TIMEOUT'')
           (if cleanup = 1 then ''run-to target breakpoint ownership changed''
            else ''run-to temporary breakpoint cleanup was not confirmed'') False True (do {
             dump \<leftarrow> dbg_RegDump D;
             stable \<leftarrow> (if dump = None then State_Monad.return False
               else observe D (\<lambda>r. PauseObservationCurrent r generation (po_generation pause)));
             ensure stable ''BUSY'' ''debugger changed after run-to cleanup'' True False (
               answer (generation, run_to_json completed True (LocationJson loc g) ''paused''
                 (PauseReasonJson pause) (hex (rg_cip (the dump)))
                 (if completed then ''null''
                  else JsonString (if timedOut then ''timeout'' else interruption_name (po_kind pause)))
                 generation))
           })
       })
     })"

definition run_to_running ::
    "('g, ('w :: len) word) debugger \<Rightarrow> ('g, 'w word) DBGFUNCTIONS \<Rightarrow> nat \<Rightarrow> 'w word Request \<Rightarrow>
     'w word ResolvedLocation \<Rightarrow> u64 \<Rightarrow> u64 \<Rightarrow> ('g, u64 \<times> string) tool" where
  "run_to_running D fs ticks q loc g beforeRun = do {
     outcome \<leftarrow> observe D (run_to_observe beforeRun);
     ensure (\<not> ro_drained outcome) ''CANCELLED'' ''plugin drained during run-to'' True True (
     if ro_exited outcome then run_to_exited D loc g beforeRun
     else if ro_timedOut outcome then do {
       beforePause \<leftarrow> observe D rt_generation;
       taken \<leftarrow> dbg_CmdExec D ''pause'';
       paused \<leftarrow> (if taken then observe D (\<lambda>r. WaitForState r ds_paused beforePause) else State_Monad.return False);
       ensure paused ''TIMEOUT'' ''run-to timeout could not be paused for cleanup'' False True (do {
         (pause, generation) \<leftarrow> observe D (\<lambda>r. (rt_latestPause r, rt_pausedGeneration r));
         run_to_paused D fs ticks q loc g True pause generation
       })
     }
     else run_to_paused D fs ticks q loc g False (ro_pause outcome) (ro_generation outcome))
   }"

section \<open>Setting up\<close>

definition setup_details :: "'w bridgebp option \<Rightarrow> (BPXTYPE \<Rightarrow> nat) \<Rightarrow> nat \<Rightarrow> string" where
  "setup_details installed code cleanup = json_object (
     [(''phase'', JsonString ''setup_readback''), (''present'', json_bool (installed \<noteq> None)),
      (''name'', or_null (map_option (\<lambda>bp. JsonString (BoundedNativeError (bp_name bp))) installed)),
      (''type'', to_string (case installed of None \<Rightarrow> code bp_none | Some bp \<Rightarrow> code (bp_type bp))),
      (''enabled'', json_bool (case installed of None \<Rightarrow> False | Some bp \<Rightarrow> bp_enabled bp)),
      (''active'', json_bool (case installed of None \<Rightarrow> False | Some bp \<Rightarrow> bp_active bp)),
      (''singleshoot'', json_bool (case installed of None \<Rightarrow> False | Some bp \<Rightarrow> bp_singleshoot bp)),
      (''cleanup'', to_string cleanup)] @
     (if cleanup = 2 then [(''outcome'', JsonString ''unknown'')] else []))"

definition run_to_setup_failed ::
    "('g, ('w :: len) word) debugger \<Rightarrow> ('g, 'w word) DBGFUNCTIONS \<Rightarrow> (BPXTYPE \<Rightarrow> nat) \<Rightarrow> nat \<Rightarrow> 'w word \<Rightarrow> string \<Rightarrow>
     'w word bridgebp option \<Rightarrow> ('g, 'a) tool" where
  "run_to_setup_failed D fs code ticks target ownedName installed = do {
     cleanup \<leftarrow> cleanup_owned D fs target ownedName ticks;
     State_Monad.return (Inl
       \<lparr>te_code = (if cleanup = 1 then ''CONFLICT'' else ''INTERNAL''),
        te_message = ''run-to breakpoint setup could not be verified'', te_retryable = False,
        te_unknown = (cleanup = 2), te_details = Some (setup_details installed code cleanup)\<rparr>)
   }"

definition run_to_armed ::
    "('g, ('w :: len) word) debugger \<Rightarrow> ('g, 'w word) DBGFUNCTIONS \<Rightarrow> (BPXTYPE \<Rightarrow> nat) \<Rightarrow> nat \<Rightarrow> 'w word Request \<Rightarrow>
     'w word ResolvedLocation \<Rightarrow> u64 \<Rightarrow> ('g, u64 \<times> string) tool" where
  "run_to_armed D fs code ticks q loc g = (
     let target = rl_address loc; ownedName = RunToBreakpointName (rq_operationId q) in do {
       installed \<leftarrow> GetBridgeBp fs bp_normal target;
       if \<not> (case installed of None \<Rightarrow> False
           | Some bp \<Rightarrow> RunToBreakpointOwned bp target ownedName \<and> bp_enabled bp \<and> bp_active bp)
       then run_to_setup_failed D fs code ticks target ownedName installed
       else do {
         ok \<leftarrow> still_paused D g;
         if \<not> ok then do {
           cleanup \<leftarrow> cleanup_owned D fs target ownedName ticks;
           refuse ''BUSY'' ''debugger changed during run-to setup'' False (cleanup \<noteq> 0)
         }
         else do {
           beforeRun \<leftarrow> observe D rt_generation;
           taken \<leftarrow> dbg_CmdExec D ''run'';
           if \<not> taken then do {
             cleanup \<leftarrow> cleanup_owned D fs target ownedName ticks;
             refuse ''BUSY'' ''debugger command queue rejected run-to execution'' False (cleanup \<noteq> 0)
           }
           else run_to_running D fs ticks q loc g beforeRun
         }
       }
     })"

definition run_to_address ::
    "('g, ('w :: len) word) debugger \<Rightarrow> (BPXTYPE \<Rightarrow> nat) \<Rightarrow> nat \<Rightarrow> 'w word Request \<Rightarrow> 'w word ResolvedLocation \<Rightarrow>
     u64 \<Rightarrow> ('g, u64 \<times> string) tool" where
  "run_to_address D code ticks q loc g = (
     let target = rl_address loc in do {
       ok \<leftarrow> still_paused D g;
       ensure ok ''BUSY'' ''debugger changed before run-to validation'' True False (do {
         initial \<leftarrow> dbg_RegDump D;
         (case initial of
            None \<Rightarrow> refuse ''INTERNAL'' ''register snapshot is unavailable'' True False
          | Some registers \<Rightarrow> do {
              i \<leftarrow> dbg_DisasmAt D target;
              ensure (\<not> (di_instr_size i \<le> 0 \<or> di_instr_size i > 15)) ''ACCESS_DENIED''
                ''run-to target is not decodable'' False False (do {
                  exists \<leftarrow> dbg_SoftwareBpAt D target;
                  ensure (\<not> exists) ''CONFLICT'' ''run-to target already has a software breakpoint'' False False (
                  if rg_cip registers = target then do {
                    pause \<leftarrow> observe D rt_latestPause;
                    answer (g, run_to_json True False (LocationJson loc g) ''paused'' (PauseReasonJson pause)
                      (hex target) ''null'' g)
                  }
                  else with_functions D (\<lambda>fs. fn_GetBridgeBp fs \<noteq> None)
                    ''software breakpoint read-back is unavailable'' (\<lambda>fs. do {
                      phase \<leftarrow> fence_phases D
                        (RunToBreakpointSetCommand target (RunToBreakpointName (rq_operationId q)));
                      (case phase of
                         fp_no_fence \<Rightarrow> refuse ''BUSY'' ''run-to command fence is unavailable'' True False
                       | fp_command_rejected \<Rightarrow>
                           refuse ''BUSY'' ''debugger command queue rejected run-to setup'' True False
                       | fp_fence_rejected \<Rightarrow>
                           refuse ''TIMEOUT'' ''run-to setup was admitted without a completion fence'' False True
                       | fp_unconfirmed \<Rightarrow>
                           refuse ''TIMEOUT'' ''run-to setup was not command-queue confirmed'' False True
                       | fp_confirmed \<Rightarrow> run_to_armed D fs code ticks q loc g)
                    }))
                })
            })
       })
     })"

end
