(* ===== verification/Reading_Tools.thy ===== *)
theory Reading_Tools
  imports Thread_Tools Cursor Hex_Bytes
begin

text \<open>
  The tools of \<open>runtime.cpp\<close> that read at one address or evaluate an expression: \<open>address.resolve\<close>,
  \<open>functions.at\<close>, \<open>memory.read\<close>, \<open>disassembly.read\<close>, \<open>expression.evaluate\<close> and its batch form, and
  \<open>process.peb\<close>.
\<close>

section \<open>Reading in pieces\<close>

text \<open>The offsets and lengths of the reads of \<open>for (offset = 0; offset < n; offset += step)\<close>.\<close>

definition pieces :: "nat \<Rightarrow> nat \<Rightarrow> (nat \<times> nat) list" where
  "pieces step n = map (\<lambda>k. (k * step, min step (n - k * step))) [0..<(n + step - 1) div step]"

section \<open>At one address\<close>

definition address_resolve ::
    "('w :: len) word ResolvedLocation \<Rightarrow> u64 \<Rightarrow> ('g, u64 \<times> string) tool" where
  "address_resolve loc g = answer (g, LocationJson loc g)"

definition function_json ::
    "('w :: len) word FunctionInfo \<Rightarrow> 'w word \<Rightarrow> 'w word ModuleRecord list \<Rightarrow> u64 \<Rightarrow> string" where
  "function_json f base modules g = json_object
     [(''start'', location_json (base + fi_rvaStart f) modules g),
      (''end_inclusive'', location_json (base + fi_rvaEnd f) modules g),
      (''instruction_count'', dec (fi_instructioncount f)), (''manual'', json_bool (fi_manual f)),
      (''contains_query'', ''true'')]"

definition functions_at ::
    "('g, ('w :: len) word) debugger \<Rightarrow> winapi \<Rightarrow> 'w word ResolvedLocation \<Rightarrow> u64 \<Rightarrow> ('g, u64 \<times> string) tool" where
  "functions_at D W loc g = captured_modules D (\<lambda>modules. do {
     found \<leftarrow> dbg_FunctionInfo D (rl_address loc);
     (let finish = (\<lambda>functionJson. do {
            ok \<leftarrow> still_paused D g;
            ensure ok ''BUSY'' ''debugger changed during function lookup'' True False (answer (g, json_object
              [(''query'', LocationJson loc g), (''found'', json_bool (found \<noteq> None)),
               (''function'', functionJson), (''completeness'', JsonString ''known_only''),
               (''state_generation'', dec g)]))
          }) in
      case found of
        None \<Rightarrow> finish ''null''
      | Some f \<Rightarrow>
          (case UniqueModule W modules (c_field (fi_mod f)) of
             None \<Rightarrow> refuse ''INTERNAL'' ''function record is outside its module'' False False
           | Some owner \<Rightarrow>
               ensure (\<not> (fi_rvaStart f > fi_rvaEnd f \<or> fi_rvaEnd f \<ge> mr_size owner \<or>
                   mr_base owner > - 1 - fi_rvaEnd f)) ''INTERNAL''
                 ''function record is outside its module'' False False (
               ensure (\<not> (rl_address loc < mr_base owner + fi_rvaStart f \<or>
                   rl_address loc > mr_base owner + fi_rvaEnd f)) ''INTERNAL''
                 ''function record does not contain the query'' False False
                 (finish (function_json f (mr_base owner) modules g)))))
   })"

definition memory_read ::
    "('g, ('w :: len) word) debugger \<Rightarrow> 'w word Request \<Rightarrow> 'w word ResolvedLocation \<Rightarrow> u64 \<Rightarrow>
     ('g, u64 \<times> string) tool" where
  "memory_read D q loc g = do {
     bytes \<leftarrow> dbg_MemRead D (rl_address loc) (rq_length q);
     (case bytes of
        None \<Rightarrow> refuse ''ACCESS_DENIED'' ''memory range is not fully readable'' False False
      | Some bytes \<Rightarrow> do {
          ok \<leftarrow> still_paused D g;
          ensure ok ''BUSY'' ''debugger changed during memory snapshot'' True False (answer (g, json_object
            [(''address'', hex (rl_address loc)), (''location'', LocationJson loc g),
             (''data_hex'', JsonString (Hex bytes)), (''bytes_read'', to_string (length bytes)),
             (''complete'', ''true''), (''state_generation'', dec g)]))
        })
   }"

definition disassembly_read ::
    "('g, ('w :: len) word) debugger \<Rightarrow> 'w word Request \<Rightarrow> 'w word ResolvedLocation \<Rightarrow> u64 \<Rightarrow>
     ('g, u64 \<times> string) tool" where
  "disassembly_read D q loc g =
     attempt (disassemble D False ''INVALID_ARGUMENT'' ''disassembly address overflow'' (rq_instructionCount q)
       (rl_address loc)) (\<lambda>instructions. do {
         ok \<leftarrow> still_paused D g;
         ensure ok ''BUSY'' ''debugger changed during disassembly snapshot'' True False (answer (g, json_object
           [(''location'', LocationJson loc g), (''items'', json_array (map instruction_json instructions)),
            (''state_generation'', dec g)]))
       })"

section \<open>Expressions\<close>

definition expression_evaluate ::
    "('g, ('w :: len) word) debugger \<Rightarrow> 'w word Request \<Rightarrow> ('g, u64 \<times> string) tool" where
  "expression_evaluate D q = paused_snapshot D requires_pause (\<lambda>g. do {
     v \<leftarrow> dbg_ValFromString D (rq_expression q);
     (case v of
        None \<Rightarrow> refuse ''INVALID_ARGUMENT'' ''expression could not be evaluated'' False False
      | Some v \<Rightarrow> do {
          ok \<leftarrow> still_paused D g;
          ensure ok ''BUSY'' ''debugger changed during expression evaluation'' True False (answer (g, json_object
            [(''expression'', JsonString (rq_expression q)), (''value'', hex v), (''state_generation'', dec g)]))
        })
   })"

primrec evaluate_all ::
    "('g, ('w :: len) word) debugger \<Rightarrow> string list \<Rightarrow> ('g, (string \<times> 'w word option) list) call" where
  "evaluate_all D [] = State_Monad.return []"
| "evaluate_all D (e # es) = do {
     v \<leftarrow> dbg_ValFromString D e;
     rest \<leftarrow> evaluate_all D es;
     State_Monad.return ((e, v) # rest)
   }"

definition evaluated_json :: "string \<times> ('w :: len) word option \<Rightarrow> string" where
  "evaluated_json ev = (case ev of (e, v) \<Rightarrow> json_object
     ([(''expression'', JsonString e), (''success'', json_bool (v \<noteq> None))] @
      (case v of
         Some v \<Rightarrow> [(''value'', hex v), (''error'', ''null'')]
       | None \<Rightarrow> [(''value'', ''null''), (''error'', json_object
           [(''code'', JsonString ''INVALID_EXPRESSION''),
            (''message'', JsonString ''expression could not be evaluated'')])])))"

definition expressions_evaluate_batch ::
    "('g, ('w :: len) word) debugger \<Rightarrow> 'w word Request \<Rightarrow> ('g, u64 \<times> string) tool" where
  "expressions_evaluate_batch D q = paused_snapshot D requires_pause (\<lambda>g. do {
     items \<leftarrow> evaluate_all D (rq_expressions q);
     ok \<leftarrow> still_paused D g;
     ensure ok ''BUSY'' ''debugger changed during expression evaluation'' True False (answer (g, json_object
       [(''items'', json_array (map evaluated_json items)),
        (''requested_count'', to_string (length (rq_expressions q))),
        (''success_count'', to_string (length (filter (\<lambda>i. snd i \<noteq> None) items))),
        (''state_generation'', dec g)]))
   })"

section \<open>process.peb\<close>

definition peb_offsets :: "build \<Rightarrow> nat list" where
  "peb_offsets b = (if b = Win64 then [0x10, 0x18, 0x20, 0x30, 0xbc] else [0x08, 0x0c, 0x10, 0x18, 0x68])"

definition bytes_value :: "u8 list \<Rightarrow> ('w :: len) word" where
  "bytes_value bs = foldr (\<lambda>x v. v * 256 + ucast x) bs 0"

text \<open>The chain of reads; \<open>None\<close> from the first that fails.\<close>

primrec read_fields ::
    "('g, ('w :: len) word) debugger \<Rightarrow> ('w word \<times> nat) list \<Rightarrow> ('g, 'w word list option) call" where
  "read_fields D [] = State_Monad.return (Some [])"
| "read_fields D (f # fs) = do {
     bytes \<leftarrow> dbg_MemRead D (fst f) (snd f);
     (case bytes of
        None \<Rightarrow> State_Monad.return None
      | Some bytes \<Rightarrow> do {
          rest \<leftarrow> read_fields D fs;
          State_Monad.return (map_option (\<lambda>vs. bytes_value bytes # vs) rest)
        })
   }"

definition peb_fields :: "build \<Rightarrow> ('w :: len) word \<Rightarrow> ('w word \<times> nat) list" where
  "peb_fields b peb = (peb + 2, 1) #
     map (\<lambda>i. (peb + of_nat (peb_offsets b ! i), if i = 4 then 4 else duint_bytes b)) [0..<5]"

definition process_peb ::
    "('g, ('w :: len) word) debugger \<Rightarrow> build \<Rightarrow> ('g, u64 \<times> string) tool" where
  "process_peb D b = paused_snapshot D requires_pause (\<lambda>g. do {
     process \<leftarrow> dbg_ProcessId D;
     peb \<leftarrow> dbg_PebAddress D process;
     ensure (\<not> (process = 0 \<or> peb = 0)) ''INTERNAL'' ''PEB address is unavailable'' True False (do {
       values \<leftarrow> read_fields D (peb_fields b peb);
       (case values of
          None \<Rightarrow> refuse ''ACCESS_DENIED'' ''one or more PEB fields are unreadable'' False False
        | Some vs \<Rightarrow> do {
            ok \<leftarrow> still_paused D g;
            ensure ok ''BUSY'' ''debugger changed during PEB snapshot'' True False (answer (g, json_object
              [(''architecture'', JsonString (if b = Win64 then ''x86_64'' else ''x86'')),
               (''process_id'', dec process), (''address'', hex peb),
               (''being_debugged'', json_bool (vs ! 0 \<noteq> 0)), (''being_debugged_raw'', hex (vs ! 0)),
               (''nt_global_flag'', hex (vs ! 5)), (''image_base'', hex (vs ! 1)),
               (''loader_data'', hex (vs ! 2)), (''process_parameters'', hex (vs ! 3)),
               (''process_heap'', hex (vs ! 4)), (''state_generation'', dec g)]))
          })
     })
   })"

end
