(* ===== verification/Paging.thy ===== *)
theory Paging
  imports Tool_Logic
begin

text \<open>
  Paged lists. A page is what a tool returns from an index on, with the index its cursor names, and
  \<open>follow\<close> is the client that asks again with each cursor. The locale \<open>pager\<close> is the contract: a
  page is a prefix of what is left, and a cursor makes progress. Its lemma, that following the
  cursors ends and returns everything once and in order, holds for the plain lists, for the
  filtered ones and for the memory search.
\<close>

type_synonym 'a page = "'a list \<times> nat option"

primrec follow :: "(nat \<Rightarrow> 'a page) \<Rightarrow> nat \<Rightarrow> nat \<Rightarrow> 'a list \<times> bool" where
  "follow page 0 i = ([], False)"
| "follow page (Suc requests) i =
     (case page i of
        (ys, None) \<Rightarrow> (ys, True)
      | (ys, Some j) \<Rightarrow> (case follow page requests j of (zs, ended) \<Rightarrow> (ys @ zs, ended)))"

locale pager =
  fixes page :: "nat \<Rightarrow> 'a page" and remaining :: "nat \<Rightarrow> 'a list" and total :: nat
  assumes last_page: "i \<le> total \<Longrightarrow> page i = (ys, None) \<Longrightarrow> remaining i = ys"
    and more_pages: "i \<le> total \<Longrightarrow> page i = (ys, Some j) \<Longrightarrow> i < j \<and> j \<le> total \<and> remaining i = ys @ remaining j"
begin

lemma follow_complete:
  assumes "i \<le> total" "total - i < requests"
  shows "follow page requests i = (remaining i, True)"
  using assms
proof (induction requests arbitrary: i)
  case (Suc requests)
  obtain ys next' where p: "page i = (ys, next')" by fastforce
  show ?case
  proof (cases next')
    case None
    with p last_page [OF Suc.prems(1)] show ?thesis by simp
  next
    case (Some j)
    with p more_pages [OF Suc.prems(1)] have "i < j" "j \<le> total" "remaining i = ys @ remaining j" by auto
    with Suc p Some show ?thesis by simp
  qed
qed simp

end

section \<open>Plain pages\<close>

text \<open>\<open>end = min(count, cursorIndex + pageLimit)\<close>, and a cursor when something is left.\<close>

definition plain_page :: "nat \<Rightarrow> 'a list \<Rightarrow> nat \<Rightarrow> 'a page" where
  "plain_page limit xs i =
     (let stop = min (length xs) (i + limit) in
      (slice i stop xs, if stop < length xs then Some stop else None))"

interpretation plain_pages: pager "plain_page (Suc limit) xs" "\<lambda>i. drop i xs" "length xs"
  for limit and xs :: "'a list"
proof
  show "drop i xs = ys" if "plain_page (Suc limit) xs i = (ys, None)" for i ys
    using that by (auto simp: plain_page_def slice_def Let_def split: if_splits)
  show "i < j \<and> j \<le> length xs \<and> drop i xs = ys @ drop j xs"
    if "i \<le> length xs" "plain_page (Suc limit) xs i = (ys, Some j)" for i ys j
  proof -
    from that have j: "j = i + Suc limit" "j < length xs" "ys = take (Suc limit) (drop i xs)"
      by (auto simp: plain_page_def slice_def Let_def split: if_splits)
    have "drop i xs = take (Suc limit) (drop i xs) @ drop (Suc limit) (drop i xs)"
      by (rule append_take_drop_id [symmetric])
    with j show ?thesis by (simp add: add.commute)
  qed
qed

section \<open>Filtered pages\<close>

text \<open>
  The loop \<open>for (; index < count && emitted < pageLimit; ++index)\<close> of the discovery tools:
  \<open>visit\<close> is its body, which skips an element with \<open>None\<close> or emits its text. The result is what
  was emitted and the index where the loop ended.
\<close>

primrec filtered_page ::
    "(nat \<Rightarrow> 'a \<Rightarrow> ('s, tool_error + 'b option) state) \<Rightarrow> nat \<Rightarrow> nat \<Rightarrow> nat \<Rightarrow> 'a list \<Rightarrow>
     ('s, tool_error + 'b list \<times> nat) state" where
  "filtered_page visit limit index emitted [] = answer ([], index)"
| "filtered_page visit limit index emitted (x # xs) =
     (if emitted \<ge> limit then answer ([], index)
      else attempt (visit index x) (\<lambda>r.
        case r of
          None \<Rightarrow> filtered_page visit limit (index + 1) emitted xs
        | Some y \<Rightarrow> attempt (filtered_page visit limit (index + 1) (emitted + 1) xs) (\<lambda>(ys, n).
            answer (y # ys, n))))"

text \<open>What it computes when the elements it emits are those that satisfy \<open>p\<close>.\<close>

primrec filter_loop :: "('a \<Rightarrow> bool) \<Rightarrow> nat \<Rightarrow> nat \<Rightarrow> nat \<Rightarrow> 'a list \<Rightarrow> 'a list \<times> nat" where
  "filter_loop p limit index emitted [] = ([], index)"
| "filter_loop p limit index emitted (x # xs) =
     (if emitted \<ge> limit then ([], index)
      else if p x
      then (let (ys, n) = filter_loop p limit (index + 1) (emitted + 1) xs in (x # ys, n))
      else filter_loop p limit (index + 1) emitted xs)"

definition filter_page :: "('a \<Rightarrow> bool) \<Rightarrow> nat \<Rightarrow> 'a list \<Rightarrow> nat \<Rightarrow> 'a page" where
  "filter_page p limit xs i =
     (let (ys, n) = filter_loop p limit i 0 (drop i xs) in (ys, if n < length xs then Some n else None))"

lemma filter_loop_prefix:
  "filter_loop p limit index emitted xs = (ys, n) \<Longrightarrow>
   index \<le> n \<and> n \<le> index + length xs \<and> filter p xs = ys @ filter p (drop (n - index) xs) \<and>
   (emitted < limit \<longrightarrow> xs \<noteq> [] \<longrightarrow> index < n)"
proof (induction xs arbitrary: index emitted ys n)
  case (Cons x xs)
  show ?case
  proof (cases "emitted \<ge> limit")
    case True
    with Cons.prems show ?thesis by auto
  next
    case False
    obtain zs m where r: "filter_loop p limit (index + 1) (if p x then emitted + 1 else emitted) xs = (zs, m)"
      by fastforce
    with Cons.prems False have "n = m" "ys = (if p x then x # zs else zs)" by (auto split: if_splits)
    moreover have "index + 1 \<le> m \<and> m \<le> index + 1 + length xs \<and> filter p xs = zs @ filter p (drop (m - (index + 1)) xs)"
      using Cons.IH [OF r] by simp
    moreover have "m - index = Suc (m - (index + 1))" using Cons.IH [OF r] by linarith
    then have "drop (m - index) (x # xs) = drop (m - (index + 1)) xs" by simp
    ultimately show ?thesis by auto
  qed
qed simp

interpretation filtered_pages: pager "filter_page p (Suc limit) xs" "\<lambda>i. filter p (drop i xs)" "length xs"
  for p :: "'a \<Rightarrow> bool" and limit and xs :: "'a list"
proof
  fix i ys
  assume i: "i \<le> length xs" and p: "filter_page p (Suc limit) xs i = (ys, None)"
  obtain n where r: "filter_loop p (Suc limit) i 0 (drop i xs) = (ys, n)" "\<not> n < length xs"
    using p by (auto simp: filter_page_def split: prod.splits if_splits)
  from filter_loop_prefix [OF r(1)] r(2) i show "filter p (drop i xs) = ys" by auto
next
  fix i ys j
  assume i: "i \<le> length xs" and p: "filter_page p (Suc limit) xs i = (ys, Some j)"
  have r: "filter_loop p (Suc limit) i 0 (drop i xs) = (ys, j)" "j < length xs"
    using p by (auto simp: filter_page_def split: prod.splits if_splits)
  from filter_loop_prefix [OF r(1)] r(2) i
  show "i < j \<and> j \<le> length xs \<and> filter p (drop i xs) = ys @ filter p (drop j xs)" by auto
qed

text \<open>The loop of a tool emits exactly the elements of the page.\<close>

definition emits :: "('a \<Rightarrow> bool) \<Rightarrow> ('a \<Rightarrow> 'b \<Rightarrow> bool) \<Rightarrow> (nat \<Rightarrow> 'a \<Rightarrow> ('s, tool_error + 'b option) state) \<Rightarrow> bool" where
  "emits p R visit \<longleftrightarrow>
     (\<forall>i x s r s'. run_state (visit i x) s = (Inr r, s') \<longrightarrow> (case r of None \<Rightarrow> \<not> p x | Some y \<Rightarrow> p x \<and> R x y))"

lemma run_attemptE:
  assumes "run_state (attempt m f) s = (Inr b, t)"
  obtains a s' where "run_state m s = (Inr a, s')" "run_state (f a) s' = (Inr b, t)"
  using assms unfolding attempt_def by (elim run_bindE) (auto split: sum.splits)

lemma filtered_page_emits:
  assumes "emits p R visit" "run_state (filtered_page visit limit index emitted xs) s = (Inr (ys, n), s')"
  shows "\<exists>zs. filter_loop p limit index emitted xs = (zs, n) \<and> list_all2 R zs ys"
  using assms(2)
proof (induction xs arbitrary: index emitted s ys s')
  case (Cons x xs)
  show ?case
  proof (cases "emitted \<ge> limit")
    case True
    with Cons.prems show ?thesis by (simp add: answer_def)
  next
    case False
    with Cons.prems have "run_state (attempt (visit index x) (\<lambda>r. case r of
          None \<Rightarrow> filtered_page visit limit (Suc index) emitted xs
        | Some y \<Rightarrow> attempt (filtered_page visit limit (Suc index) (Suc emitted) xs) (\<lambda>(ys, n). answer (y # ys, n))))
        s = (Inr (ys, n), s')" by (simp cong: option.case_cong)
    then obtain r s1 where v: "run_state (visit index x) s = (Inr r, s1)" and
      c: "run_state (case r of
          None \<Rightarrow> filtered_page visit limit (Suc index) emitted xs
        | Some y \<Rightarrow> attempt (filtered_page visit limit (Suc index) (Suc emitted) xs) (\<lambda>(ys, n). answer (y # ys, n)))
        s1 = (Inr (ys, n), s')" by (rule run_attemptE)
    have e: "case r of None \<Rightarrow> \<not> p x | Some y \<Rightarrow> p x \<and> R x y"
      using assms(1) v unfolding emits_def by blast
    show ?thesis
    proof (cases r)
      case None
      with c e Cons.IH [of "Suc index" emitted s1 ys] False show ?thesis by auto
    next
      case (Some y)
      with c obtain ys' s2 where "run_state (filtered_page visit limit (Suc index) (Suc emitted) xs) s1 = (Inr (ys', n), s2)"
        "ys = y # ys'" by (auto elim!: run_attemptE simp: answer_def)
      with Cons.IH [of "Suc index" "Suc emitted" s1 ys'] obtain zs where
        "filter_loop p limit (Suc index) (Suc emitted) xs = (zs, n)" "list_all2 R zs ys'" by blast
      with e Some False \<open>ys = y # ys'\<close> show ?thesis by auto
    qed
  qed
qed (simp add: answer_def)

end
