(* ===== verification/Listing_Tools.thy ===== *)
theory Listing_Tools
  imports Reading_Tools Paging Breakpoint_Policy
begin

text \<open>
  The paged lists of \<open>runtime.cpp\<close>: \<open>modules.list\<close>, \<open>threads.list\<close>, \<open>breakpoints.list\<close>,
  \<open>references.to\<close> and \<open>memory.map\<close>. The first four return the plain page at the cursor's index,
  the last one filters.
\<close>

section \<open>Cursors\<close>

definition fresh_cursor ::
    "('w :: len) word Request \<Rightarrow> u64 \<Rightarrow> string \<Rightarrow> string \<Rightarrow> ('s, tool_error + 'a) state \<Rightarrow> ('s, tool_error + 'a) state" where
  "fresh_cursor q g code message rest =
     ensure (case rq_cursorGeneration q of None \<Rightarrow> True | Some c \<Rightarrow> c = g) code message False False rest"

definition index_valid ::
    "('w :: len) word Request \<Rightarrow> nat \<Rightarrow> ('s, tool_error + 'a) state \<Rightarrow> ('s, tool_error + 'a) state" where
  "index_valid q n rest =
     ensure (unat (rq_cursorIndex q) \<le> n) ''INVALID_ARGUMENT'' ''cursor is invalid'' False False rest"

definition page_cursor_json :: "('w :: len) word Request \<Rightarrow> u64 \<Rightarrow> nat option \<Rightarrow> string" where
  "page_cursor_json q g nxt = or_null (map_option (\<lambda>i. JsonString (PageCursor g (of_nat i :: 'w word))) nxt)"

definition discovery_cursor_json :: "('w :: len) word Request \<Rightarrow> u64 \<Rightarrow> nat option \<Rightarrow> string" where
  "discovery_cursor_json q g nxt =
     or_null (map_option (\<lambda>i. JsonString (DiscoveryCursor (rq_cursorFingerprint q) g (of_nat i :: 'w word))) nxt)"

definition list_page :: "('w :: len) word Request \<Rightarrow> 'a list \<Rightarrow> 'a page" where
  "list_page q xs = plain_page (rq_pageLimit q) xs (unat (rq_cursorIndex q))"

definition list_json :: "string list \<Rightarrow> string \<Rightarrow> u64 \<Rightarrow> string" where
  "list_json items nxt g = json_object
     [(''items'', json_array items), (''next_cursor'', nxt), (''state_generation'', dec g)]"

section \<open>modules.list\<close>

definition module_json :: "('w :: len) word ModuleInfo \<Rightarrow> string" where
  "module_json m = json_object
     [(''base'', hex (mi_base m)), (''size'', hex (mi_size m)), (''entry'', hex (mi_entry m)),
      (''name'', JsonString (c_field (mi_name m))), (''path'', JsonString (c_field (mi_path m)))]"

definition modules_list ::
    "('g, ('w :: len) word) debugger \<Rightarrow> 'w word Request \<Rightarrow> ('g, u64 \<times> string) tool" where
  "modules_list D q = paused_snapshot D requires_pause (\<lambda>g.
     fresh_cursor q g ''INVALID_ARGUMENT'' ''cursor is stale'' (do {
       l \<leftarrow> dbg_ModuleList D;
       (case l of
          None \<Rightarrow> refuse ''INTERNAL'' ''module list is unavailable'' True False
        | Some l \<Rightarrow>
            ensure (list_valid 65536 l) ''INTERNAL'' ''module list is invalid'' False False (
            index_valid q (length (list_items l)) (
            let (items, nxt) = list_page q (list_items l) in do {
              ok \<leftarrow> still_paused D g;
              ensure ok ''BUSY'' ''debugger changed during module snapshot'' True False
                (answer (g, list_json (map module_json items) (page_cursor_json q g nxt) g))
            })))
     }))"

section \<open>threads.list\<close>

definition thread_json :: "int \<Rightarrow> nat \<times> ('w :: len) word THREADINFO \<Rightarrow> string" where
  "thread_json currentThread it = (case it of (i, t) \<Rightarrow> json_object
     [(''thread_id'', hex (ti_ThreadId t)), (''instruction_pointer'', hex (ti_ThreadCip t)),
      (''start_address'', hex (ti_ThreadStartAddress t)), (''suspend_count'', dec (ti_SuspendCount t)),
      (''current'', json_bool (int i = currentThread)), (''name'', JsonString (c_field (ti_threadName t)))])"

definition threads_list ::
    "('g, ('w :: len) word) debugger \<Rightarrow> 'w word Request \<Rightarrow> ('g, u64 \<times> string) tool" where
  "threads_list D q = paused_snapshot D requires_pause (\<lambda>g.
     fresh_cursor q g ''INVALID_ARGUMENT'' ''cursor is stale'' (do {
       threads \<leftarrow> dbg_ThreadList D;
       ensure (array_valid (tl_count threads) (tl_list threads)) ''INTERNAL'' ''thread snapshot is invalid'' False False (
       let infos = array_items (tl_count threads) (tl_list threads) in
       index_valid q (length infos) (
       let (items, nxt) = list_page q (enumerate 0 infos) in do {
         ok \<leftarrow> still_paused D g;
         ensure ok ''BUSY'' ''debugger changed during thread snapshot'' True False
           (answer (g, list_json (map (thread_json (tl_CurrentThread threads)) items) (page_cursor_json q g nxt) g))
       }))
     }))"

section \<open>breakpoints.list\<close>

fun breakpoint_kind_name :: "BPXTYPE \<Rightarrow> string" where
  "breakpoint_kind_name bp_normal = ''software''"
| "breakpoint_kind_name bp_hardware = ''hardware''"
| "breakpoint_kind_name bp_memory = ''memory''"
| "breakpoint_kind_name bp_dll = ''dll''"
| "breakpoint_kind_name bp_exception = ''exception''"
| "breakpoint_kind_name bp_none = ''unknown''"

definition chance_name :: "sdk \<Rightarrow> u8 \<Rightarrow> string" where
  "chance_name k t =
     (if t = code_BPEXTYPE k ex_firstchance then ''first''
      else if t = code_BPEXTYPE k ex_secondchance then ''second''
      else if t = code_BPEXTYPE k ex_all then ''both'' else ''unknown'')"

definition typed_fields ::
    "('g, ('w :: len) word) debugger \<Rightarrow> sdk \<Rightarrow> 'w word bridgebp \<Rightarrow> ('g, (string \<times> string) list) tool" where
  "typed_fields D k bp =
     (case bp_type bp of
        bp_hardware \<Rightarrow>
          let sz = HardwareSizeFromNative k (bp_hwSize bp) in answer
          [(''access'', JsonString (HardwareAccessNameFromNative k (bp_typeEx bp))),
           (''size'', if sz = 0 then ''null'' else to_string sz),
           (''slot'', if bp_enabled bp \<and> bp_slot bp < 4 then dec (bp_slot bp) else ''null'')]
      | bp_memory \<Rightarrow> do {
          sz \<leftarrow> (case (case dbg_functions D of None \<Rightarrow> None | Some fs \<Rightarrow> fn_MemBpSize fs) of
              None \<Rightarrow> State_Monad.return 0
            | Some memBpSize \<Rightarrow> memBpSize (bp_addr bp));
          answer
          [(''access'', JsonString (MemoryAccessNameFromNative k (bp_typeEx bp))),
           (''size'', if sz = 0 then ''null'' else dec sz)]
        }
      | bp_normal \<Rightarrow>
          let condition = c_field (bp_breakCondition bp) in
          ensure (length condition < length (bp_breakCondition bp)) ''INTERNAL''
            ''software breakpoint condition is invalid'' False False (answer
          [(''condition_expression'', if condition = [] then ''null'' else JsonString condition),
           (''fast_resume'', json_bool (bp_fastResume bp)),
           (''managed_id'', or_null (map_option JsonString (ManagedBreakpointId bp ''conditional'')))])
      | bp_exception \<Rightarrow> answer
          [(''code'', hex (bp_addr bp)), (''chance'', JsonString (chance_name k (bp_typeEx bp))),
           (''managed_id'', or_null (map_option JsonString (ManagedBreakpointId bp ''exception'')))]
      | _ \<Rightarrow> answer [])"

primrec breakpoint_items ::
    "('g, ('w :: len) word) debugger \<Rightarrow> sdk \<Rightarrow> 'w word bridgebp list \<Rightarrow> ('g, string list) tool" where
  "breakpoint_items D k [] = answer []"
| "breakpoint_items D k (bp # bps) = attempt (typed_fields D k bp) (\<lambda>typed.
     attempt (breakpoint_items D k bps) (\<lambda>rest. answer (json_object
       ([(''address'', hex (bp_addr bp)), (''type'', JsonString (breakpoint_kind_name (bp_type bp))),
         (''enabled'', json_bool (bp_enabled bp)), (''active'', json_bool (bp_active bp)),
         (''hit_count'', dec (bp_hitCount bp))] @ typed) # rest)))"

definition breakpoints_list ::
    "('g, ('w :: len) word) debugger \<Rightarrow> sdk \<Rightarrow> 'w word Request \<Rightarrow> ('g, u64 \<times> string) tool" where
  "breakpoints_list D k q = do {
     snapshot \<leftarrow> observe D BeginActiveSnapshot;
     debugging \<leftarrow> (if snapshot = None then State_Monad.return False else dbg_IsDebugging D);
     ensure debugging ''INVALID_DEBUGGER_STATE'' ''operation requires an active debuggee'' False False (
     let g = the snapshot in
     fresh_cursor q g ''INVALID_ARGUMENT'' ''cursor is stale'' (do {
       (reported, n, bps) \<leftarrow> dbg_BpList D bp_none;
       ensure (\<not> (reported < 0 \<or> \<not> array_valid n bps)) ''INTERNAL'' ''breakpoint snapshot is invalid'' False False (
       let all = array_items n bps in
       index_valid q (length all) (
       let (page, nxt) = list_page q all in
       attempt (breakpoint_items D k page) (\<lambda>items. do {
         ok \<leftarrow> observe D (\<lambda>r. ActiveSnapshotCurrent r g);
         ensure ok ''BUSY'' ''debugger changed during breakpoint snapshot'' True False
           (answer (g, list_json items (page_cursor_json q g nxt) g))
       })))
     }))
   }"

section \<open>references.to\<close>

definition reference_json :: "('w :: len) word ModuleRecord list \<Rightarrow> u64 \<Rightarrow> 'w word XREF_RECORD \<Rightarrow> string" where
  "reference_json modules g x = json_object
     [(''from'', location_json (xr_addr x) modules g),
      (''type'', JsonString (if xr_type x = XREF_CALL then ''call'' else if xr_type x = XREF_JMP then ''jump'' else ''data''))]"

definition references_to ::
    "('g, ('w :: len) word) debugger \<Rightarrow> 'w word Request \<Rightarrow> 'w word ResolvedLocation \<Rightarrow> u64 \<Rightarrow>
     ('g, u64 \<times> string) tool" where
  "references_to D q loc g =
     fresh_cursor q g ''STALE_CURSOR'' ''cursor generation is stale'' (captured_modules D (\<lambda>modules. do {
       reported \<leftarrow> dbg_XrefCount D (rl_address loc);
       ensure (reported \<le> 65536) ''OUTPUT_LIMIT_EXCEEDED'' ''reference database exceeds native bounds'' False False (do {
         info \<leftarrow> (if reported = 0 then State_Monad.return (Some (0, None)) else dbg_XrefGet D (rl_address loc));
         (case info of
            None \<Rightarrow> refuse ''INTERNAL'' ''reference database is unavailable'' True False
          | Some (refcount, refs) \<Rightarrow>
              ensure (\<not> (refcount > 65536 \<or> refcount \<noteq> reported \<or> (refcount > 0 \<and> refs = None))) ''INTERNAL''
                ''reference snapshot is invalid'' False False (
              let all = array_items (int refcount) refs in
              index_valid q (length all) (
              let (items, nxt) = list_page q all in do {
                ok \<leftarrow> still_paused D g;
                ensure ok ''BUSY'' ''debugger changed during reference search'' True False (answer (g, json_object
                  [(''target'', LocationJson loc g), (''items'', json_array (map (reference_json modules g) items)),
                   (''next_cursor'', discovery_cursor_json q g nxt),
                   (''completeness'', JsonString ''known_only''), (''state_generation'', dec g)]))
              })))
       })
     }))"

section \<open>memory.map\<close>

definition MEM_COMMIT :: u32 where "MEM_COMMIT = 0x1000"

definition region_json :: "bool \<Rightarrow> ('w :: len) word MEMPAGE \<Rightarrow> string" where
  "region_json compact p = (let info = c_field (pg_info p) in json_object
     ([(''base'', hex (pg_BaseAddress p)), (''size'', hex (pg_RegionSize p))] @
      (if \<not> compact \<or> pg_AllocationBase p \<noteq> pg_BaseAddress p
       then [(''allocation_base'', hex (pg_AllocationBase p))] else []) @
      [(''protect'', hex (pg_Protect p)), (''state'', hex (pg_State p)), (''type'', hex (pg_Type p))] @
      (if \<not> compact \<or> info \<noteq> [] then [(''info'', JsonString info)] else [])))"

text \<open>The tests in the loop: the deadline and the pause every 256 regions, then the filters.\<close>

definition every_256 :: "('g, 'd) debugger \<Rightarrow> u64 option \<Rightarrow> string \<Rightarrow> string \<Rightarrow> nat \<Rightarrow> ('g, 'a) tool \<Rightarrow> ('g, 'a) tool" where
  "every_256 D snapshot late changed i rest =
     (if i mod 256 \<noteq> 0 then rest
      else do {
        expired \<leftarrow> dbg_expired D;
        ensure (\<not> expired) ''TIMEOUT'' late True False (
          case snapshot of
            None \<Rightarrow> rest
          | Some g \<Rightarrow> do {
              ok \<leftarrow> still_paused D g;
              ensure ok ''BUSY'' changed True False rest
            })
      })"

definition region_overlaps :: "('w :: len) word ModuleRecord option \<Rightarrow> 'w word MEMPAGE \<Rightarrow> bool option" where
  "region_overlaps selectedModule p =
     (case selectedModule of
        None \<Rightarrow> Some True
      | Some m \<Rightarrow> HalfOpenRangesOverlap (ucast (pg_BaseAddress p)) (ucast (pg_RegionSize p))
          (ucast (mr_base m)) (ucast (mr_size m)))"

definition region_wanted :: "('w :: len) word Request \<Rightarrow> 'w word ModuleRecord option \<Rightarrow> 'w word MEMPAGE \<Rightarrow> bool" where
  "region_wanted q selectedModule p \<longleftrightarrow>
     (rq_committedOnly q \<longrightarrow> pg_State p = MEM_COMMIT) \<and>
     (rq_executableOnly q \<longrightarrow> IsExecutableProtection (pg_Protect p)) \<and>
     region_overlaps selectedModule p = Some True"

definition visit_region ::
    "('g, ('w :: len) word) debugger \<Rightarrow> 'w word Request \<Rightarrow> u64 \<Rightarrow> 'w word ModuleRecord option \<Rightarrow> nat \<Rightarrow> 'w word MEMPAGE \<Rightarrow>
     ('g, string option) tool" where
  "visit_region D q g selectedModule i p =
     every_256 D (Some g) ''memory-map filtering exceeded its deadline''
       ''debugger changed during memory-map filtering'' i (
     if rq_committedOnly q \<and> pg_State p \<noteq> MEM_COMMIT then answer None
     else if rq_executableOnly q \<and> \<not> IsExecutableProtection (pg_Protect p) then answer None
     else
       (case region_overlaps selectedModule p of
          None \<Rightarrow> refuse ''INTERNAL'' ''memory-map range overflow'' False False
        | Some overlap \<Rightarrow> answer (if overlap then Some (region_json (rq_compact q) p) else None)))"

definition memory_map ::
    "('g, ('w :: len) word) debugger \<Rightarrow> winapi \<Rightarrow> 'w word Request \<Rightarrow> ('g, u64 \<times> string) tool" where
  "memory_map D W q = paused_snapshot D requires_pause (\<lambda>g.
     fresh_cursor q g ''STALE_CURSOR'' ''cursor generation is stale'' (
     attempt (if rq_module q = [] then answer None
       else captured_modules D (\<lambda>modules.
         case UniqueModule W modules (rq_module q) of
           None \<Rightarrow> refuse ''INVALID_ARGUMENT'' ''module is missing or ambiguous'' False False
         | Some m \<Rightarrow> answer (Some m))) (\<lambda>selectedModule. do {
       regions \<leftarrow> dbg_MemMap D;
       (case regions of
          None \<Rightarrow> refuse ''INTERNAL'' ''memory map is unavailable'' True False
        | Some (n, pages) \<Rightarrow>
            ensure (array_valid n pages) ''OUTPUT_LIMIT_EXCEEDED'' ''memory map exceeds native bounds'' False False (
            let all = array_items n pages; i = unat (rq_cursorIndex q) in
            index_valid q (length all) (
            attempt (filtered_page (visit_region D q g selectedModule) (rq_pageLimit q) i 0 (drop i all))
              (\<lambda>(items, stop). do {
                ok \<leftarrow> still_paused D g;
                ensure ok ''BUSY'' ''debugger changed during memory-map snapshot'' True False (answer (g,
                  list_json items (discovery_cursor_json q g (if stop < length all then Some stop else None)) g))
              }))))
     })))"

end
