(* ===== verification/Symbol_Tools.thy ===== *)
theory Symbol_Tools
  imports Listing_Tools
begin

text \<open>
  The module discovery tools of \<open>runtime.cpp\<close>: \<open>symbols.resolve\<close>, \<open>symbols.search\<close>,
  \<open>functions.list\<close>, \<open>sections.list\<close>, \<open>imports.list\<close> and \<open>exports.list\<close>. Sections, imports and
  exports are counted over the whole list before the page is made.
\<close>

section \<open>Shared steps\<close>

definition fixedString :: "string \<Rightarrow> string option" where
  "fixedString s = (let t = c_field s in
     if length t = length s then None else if IsValidUtf8 t then Some t else None)"

definition query_hits :: "winapi \<Rightarrow> ('w :: len) word Request \<Rightarrow> string list \<Rightarrow> bool" where
  "query_hits W q names \<longleftrightarrow> rq_query q = [] \<or> list_ex (\<lambda>n. contains_name W n (rq_query q)) names"

definition discovery ::
    "('g, ('w :: len) word) debugger \<Rightarrow> winapi \<Rightarrow> 'w word Request \<Rightarrow>
     (u64 \<Rightarrow> 'w word ModuleRecord list \<Rightarrow> 'w word ModuleRecord \<Rightarrow> ('g, 'a) tool) \<Rightarrow> ('g, 'a) tool" where
  "discovery D W q rest = paused_snapshot D requires_pause (\<lambda>g.
     fresh_cursor q g ''STALE_CURSOR'' ''cursor generation is stale'' (captured_modules D (\<lambda>modules.
       case UniqueModule W modules (rq_module q) of
         None \<Rightarrow> refuse ''INVALID_ARGUMENT'' ''module is missing or ambiguous'' False False
       | Some m \<Rightarrow> rest g modules m)))"

definition bounded_list ::
    "int \<Rightarrow> string \<Rightarrow> string \<Rightarrow> 'a ListInfo option \<Rightarrow> ('a list \<Rightarrow> ('g, 'b) tool) \<Rightarrow> ('g, 'b) tool" where
  "bounded_list most unavailable exceeds l rest =
     (case l of
        None \<Rightarrow> refuse ''INTERNAL'' unavailable True False
      | Some l \<Rightarrow> ensure (list_valid most l) ''OUTPUT_LIMIT_EXCEEDED'' exceeds False False (rest (list_items l)))"

definition native_module ::
    "('g, ('w :: len) word) debugger \<Rightarrow> 'w word ModuleRecord \<Rightarrow> string \<Rightarrow> ('w word ModuleInfo \<Rightarrow> ('g, 'a) tool) \<Rightarrow>
     ('g, 'a) tool" where
  "native_module D m message rest = do {
     info \<leftarrow> dbg_InfoFromAddr D (mr_base m);
     (case info of
        None \<Rightarrow> refuse ''BUSY'' message True False
      | Some n \<Rightarrow> ensure (mi_base n = mr_base m \<and> mi_size n = mr_size m) ''BUSY'' message True False (rest n))
   }"

text \<open>The loop that counts the matches and checks every record.\<close>

primrec count_matched ::
    "('g, 'd) debugger \<Rightarrow> string \<Rightarrow> ('a \<Rightarrow> tool_error + bool) \<Rightarrow> nat \<Rightarrow> 'a list \<Rightarrow> ('g, nat) tool" where
  "count_matched D late test i [] = answer 0"
| "count_matched D late test i (x # xs) = every_256 D None late [] i (
     case test x of
       Inl e \<Rightarrow> State_Monad.return (Inl e)
     | Inr hit \<Rightarrow> attempt (count_matched D late test (i + 1) xs) (\<lambda>n. answer (if hit then n + 1 else n)))"

definition counted_list ::
    "('g, ('w :: len) word) debugger \<Rightarrow> 'w word Request \<Rightarrow> u64 \<Rightarrow> 'w word ModuleRecord \<Rightarrow> string \<Rightarrow> string \<Rightarrow> string \<Rightarrow>
     ('a \<Rightarrow> tool_error + bool) \<Rightarrow> (nat \<Rightarrow> 'a \<Rightarrow> ('g, string option) tool) \<Rightarrow> 'a list \<Rightarrow> ('g, u64 \<times> string) tool" where
  "counted_list D q g m late changed completeness test visit xs = (
     let i = unat (rq_cursorIndex q) in
     index_valid q (length xs) (
     attempt (count_matched D late test 0 xs) (\<lambda>matched.
     attempt (filtered_page visit (rq_pageLimit q) i 0 (drop i xs)) (\<lambda>(items, stop). do {
       ok \<leftarrow> still_paused D g;
       ensure ok ''BUSY'' changed True False (answer (g, json_object
         [(''module'', JsonString (mr_name m)), (''native_count'', to_string (length xs)),
          (''matched_count'', to_string matched), (''items'', json_array items),
          (''next_cursor'', discovery_cursor_json q g (if stop < length xs then Some stop else None)),
          (''completeness'', JsonString completeness), (''state_generation'', dec g)]))
     }))))"

definition text_or_null :: "string \<Rightarrow> string" where
  "text_or_null s = (if s = [] then ''null'' else JsonString s)"

section \<open>sections.list\<close>

definition section_test ::
    "winapi \<Rightarrow> ('w :: len) word Request \<Rightarrow> 'w word ModuleRecord \<Rightarrow> 'w word ModuleSectionInfo \<Rightarrow> tool_error + bool" where
  "section_test W q m s =
     (case fixedString (se_name s) of
        None \<Rightarrow> failure ''INTERNAL'' ''module section record is invalid'' False False
      | Some name \<Rightarrow>
          if se_addr s < mr_base m
          then failure ''INTERNAL'' ''module section record is invalid'' False False
          else if se_addr s - mr_base m \<ge> mr_size m \<or> se_size s > mr_size m - (se_addr s - mr_base m)
          then failure ''INTERNAL'' ''module section range is invalid'' False False
          else Inr (query_hits W q [name]))"

definition visit_section ::
    "winapi \<Rightarrow> ('w :: len) word Request \<Rightarrow> u64 \<Rightarrow> 'w word ModuleRecord list \<Rightarrow> nat \<Rightarrow> 'w word ModuleSectionInfo \<Rightarrow>
     ('g, string option) tool" where
  "visit_section W q g modules i s =
     (case fixedString (se_name s) of
        None \<Rightarrow> refuse ''INTERNAL'' ''module section text is invalid'' False False
      | Some name \<Rightarrow>
          answer (if \<not> query_hits W q [name] then None else Some (json_object
            [(''index'', to_string i), (''name'', text_or_null name),
             (''start'', location_json (se_addr s) modules g), (''size'', hex (se_size s)),
             (''end_exclusive'', hex (se_addr s + se_size s))])))"

definition sections_list ::
    "('g, ('w :: len) word) debugger \<Rightarrow> winapi \<Rightarrow> 'w word Request \<Rightarrow> ('g, u64 \<times> string) tool" where
  "sections_list D W q = discovery D W q (\<lambda>g modules m.
     native_module D m ''module changed during section read'' (\<lambda>n.
     ensure (\<not> (mi_sectionCount n < 0 \<or> mi_sectionCount n > 4096 \<or> mr_size m = 0 \<or>
         mr_base m > - 1 - mr_size m)) ''OUTPUT_LIMIT_EXCEEDED''
       ''module section metadata exceeds native bounds'' False False (do {
         l \<leftarrow> dbg_SectionList D (mr_base m);
         bounded_list 4096 ''module sections are unavailable'' ''module section list exceeds native bounds'' l (\<lambda>xs.
           ensure (li_count (the l) = mi_sectionCount n) ''OUTPUT_LIMIT_EXCEEDED''
             ''module section list exceeds native bounds'' False False
             (counted_list D q g m ''section filtering exceeded its deadline'' ''debugger changed during section read''
               ''loaded_image_sections'' (section_test W q m) (visit_section W q g modules) xs))
       })))"

section \<open>imports.list\<close>

definition import_test ::
    "winapi \<Rightarrow> ('w :: len) word Request \<Rightarrow> 'w word ModuleImport \<Rightarrow> tool_error + bool" where
  "import_test W q x =
     (case (fixedString (im_name x), fixedString (im_undecoratedName x)) of
        (Some name, Some undecorated) \<Rightarrow> Inr (query_hits W q [name, undecorated])
      | _ \<Rightarrow> failure ''INTERNAL'' ''module import text is invalid'' False False)"

definition import_json ::
    "('w :: len) word ModuleRecord list \<Rightarrow> u64 \<Rightarrow> string \<Rightarrow> string \<Rightarrow> 'w word ModuleImport \<Rightarrow> 'w word option \<Rightarrow> string" where
  "import_json modules g name undecorated x target = json_object
     [(''name'', text_or_null name), (''undecorated_name'', text_or_null undecorated),
      (''ordinal'', if im_ordinal x = - 1 then ''null'' else dec (im_ordinal x)),
      (''iat'', location_json (im_iatVa x) modules g),
      (''resolution'', JsonString (case target of None \<Rightarrow> ''unreadable''
         | Some t \<Rightarrow> if t = 0 then ''unresolved'' else ''resolved'')),
      (''resolved_target'', case target of None \<Rightarrow> ''null''
         | Some t \<Rightarrow> if t = 0 then ''null'' else location_json t modules g)]"

definition visit_import ::
    "('g, ('w :: len) word) debugger \<Rightarrow> winapi \<Rightarrow> build \<Rightarrow> 'w word Request \<Rightarrow> u64 \<Rightarrow> 'w word ModuleRecord list \<Rightarrow>
     'w word ModuleRecord \<Rightarrow> nat \<Rightarrow> 'w word ModuleImport \<Rightarrow> ('g, string option) tool" where
  "visit_import D W b q g modules m i x = (
     let invalid = refuse ''INTERNAL'' ''module import record is invalid'' False False in
     case (fixedString (im_name x), fixedString (im_undecoratedName x)) of
       (Some name, Some undecorated) \<Rightarrow>
         if im_iatRva x \<ge> mr_size m \<or> mr_base m > - 1 - im_iatRva x \<or> im_iatVa x \<noteq> mr_base m + im_iatRva x
         then invalid
         else if \<not> query_hits W q [name, undecorated] then answer None
         else do {
           target \<leftarrow> read_duint D b (im_iatVa x);
           answer (Some (import_json modules g name undecorated x target))
         }
     | _ \<Rightarrow> invalid)"

definition imports_list ::
    "('g, ('w :: len) word) debugger \<Rightarrow> winapi \<Rightarrow> build \<Rightarrow> 'w word Request \<Rightarrow> ('g, u64 \<times> string) tool" where
  "imports_list D W b q = discovery D W q (\<lambda>g modules m.
     native_module D m ''module changed during linkage read'' (\<lambda>n. do {
       l \<leftarrow> dbg_Imports D n;
       bounded_list 65536 ''module imports are unavailable'' ''module import list exceeds native bounds'' l
         (counted_list D q g m ''import filtering exceeded its deadline'' ''debugger changed during import read''
           ''known_only'' (import_test W q) (visit_import D W b q g modules m))
     }))"

section \<open>exports.list\<close>

definition export_texts :: "'w ModuleExport \<Rightarrow> (string \<times> string \<times> string) option" where
  "export_texts x = do {
     name \<leftarrow> fixedString (xp_name x);
     undecorated \<leftarrow> fixedString (xp_undecoratedName x);
     forward \<leftarrow> fixedString (xp_forwardName x);
     Some (name, undecorated, forward)
   }"

definition export_test ::
    "winapi \<Rightarrow> ('w :: len) word Request \<Rightarrow> 'w word ModuleExport \<Rightarrow> tool_error + bool" where
  "export_test W q x =
     (case export_texts x of
        None \<Rightarrow> failure ''INTERNAL'' ''module export text is invalid'' False False
      | Some (name, undecorated, forward) \<Rightarrow> Inr (query_hits W q [name, undecorated, forward]))"

definition visit_export ::
    "winapi \<Rightarrow> ('w :: len) word Request \<Rightarrow> u64 \<Rightarrow> 'w word ModuleRecord list \<Rightarrow> 'w word ModuleRecord \<Rightarrow> nat \<Rightarrow>
     'w word ModuleExport \<Rightarrow> ('g, string option) tool" where
  "visit_export W q g modules m i x = (
     let invalid = refuse ''INTERNAL'' ''module export record is invalid'' False False in
     case export_texts x of
       None \<Rightarrow> invalid
     | Some (name, undecorated, forward) \<Rightarrow>
         if xp_rva x \<ge> mr_size m \<or> mr_base m > - 1 - xp_rva x \<or> xp_va x \<noteq> mr_base m + xp_rva x \<or>
           (xp_forwarded x \<and> forward = [])
         then invalid
         else answer (if \<not> query_hits W q [name, undecorated, forward] then None else Some (json_object
           [(''name'', text_or_null name), (''undecorated_name'', text_or_null undecorated),
            (''ordinal'', dec (xp_ordinal x)), (''location'', location_json (xp_va x) modules g),
            (''forwarded'', json_bool (xp_forwarded x)),
            (''forward_name'', if xp_forwarded x then JsonString forward else ''null'')])))"

definition exports_list ::
    "('g, ('w :: len) word) debugger \<Rightarrow> winapi \<Rightarrow> 'w word Request \<Rightarrow> ('g, u64 \<times> string) tool" where
  "exports_list D W q = discovery D W q (\<lambda>g modules m.
     native_module D m ''module changed during linkage read'' (\<lambda>n. do {
       l \<leftarrow> dbg_Exports D n;
       bounded_list 65536 ''module exports are unavailable'' ''module export list exceeds native bounds'' l
         (counted_list D q g m ''export filtering exceeded its deadline'' ''debugger changed during export read''
           ''known_only'' (export_test W q) (visit_export W q g modules m))
     }))"

section \<open>symbols.search and functions.list\<close>

definition known_list ::
    "('g, ('w :: len) word) debugger \<Rightarrow> 'w word Request \<Rightarrow> u64 \<Rightarrow> string \<Rightarrow>
     (nat \<Rightarrow> 'a \<Rightarrow> ('g, string option) tool) \<Rightarrow> 'a list \<Rightarrow> ('g, u64 \<times> string) tool" where
  "known_list D q g changed visit xs = (
     let i = unat (rq_cursorIndex q) in
     index_valid q (length xs) (
     attempt (filtered_page visit (rq_pageLimit q) i 0 (drop i xs)) (\<lambda>(items, stop). do {
       ok \<leftarrow> still_paused D g;
       ensure ok ''BUSY'' changed True False (answer (g, json_object
         [(''items'', json_array items),
          (''next_cursor'', discovery_cursor_json q g (if stop < length xs then Some stop else None)),
          (''completeness'', JsonString ''known_only''), (''state_generation'', dec g)]))
     })))"

fun symbol_type_name :: "SymbolType \<Rightarrow> string" where
  "symbol_type_name sym_Function = ''function''"
| "symbol_type_name sym_Import = ''import''"
| "symbol_type_name sym_Export = ''export''"

definition symbol_json ::
    "('w :: len) word ModuleRecord list \<Rightarrow> u64 \<Rightarrow> 'w word ModuleRecord \<Rightarrow> 'w word SymbolInfo \<Rightarrow> string" where
  "symbol_json modules g m s = json_object
     [(''name'', JsonString (c_field (sy_name s))), (''type'', JsonString (symbol_type_name (sy_type s))),
      (''manual'', json_bool (sy_manual s)), (''location'', location_json (mr_base m + sy_rva s) modules g)]"

definition symbol_wanted :: "winapi \<Rightarrow> ('w :: len) word Request \<Rightarrow> 'w word ModuleRecord \<Rightarrow> 'w word SymbolInfo \<Rightarrow> bool" where
  "symbol_wanted W q m s \<longleftrightarrow>
     same_name W (c_field (sy_mod s)) (mr_name m) \<and> contains_name W (c_field (sy_name s)) (rq_query q)"

definition visit_symbol ::
    "('g, ('w :: len) word) debugger \<Rightarrow> winapi \<Rightarrow> 'w word Request \<Rightarrow> u64 \<Rightarrow> 'w word ModuleRecord list \<Rightarrow>
     'w word ModuleRecord \<Rightarrow> nat \<Rightarrow> 'w word SymbolInfo \<Rightarrow> ('g, string option) tool" where
  "visit_symbol D W q g modules m i s =
     every_256 D None ''symbol search exceeded its deadline'' [] i (
     if \<not> symbol_wanted W q m s then answer None
     else ensure (\<not> (sy_rva s \<ge> mr_size m \<or> mr_base m > - 1 - sy_rva s)) ''INTERNAL''
       ''symbol record is outside its module'' False False (answer (Some (symbol_json modules g m s))))"

definition symbols_search ::
    "('g, ('w :: len) word) debugger \<Rightarrow> winapi \<Rightarrow> 'w word Request \<Rightarrow> ('g, u64 \<times> string) tool" where
  "symbols_search D W q = discovery D W q (\<lambda>g modules m. do {
     l \<leftarrow> dbg_SymbolList D;
     bounded_list 65536 ''symbol database is unavailable'' ''symbol database exceeds native bounds'' l
       (known_list D q g ''debugger changed during symbol search'' (visit_symbol D W q g modules m))
   })"

text \<open>The names of the module's functions by address; the first one stays.\<close>

primrec join_names ::
    "('g, ('w :: len) word) debugger \<Rightarrow> winapi \<Rightarrow> 'w word ModuleRecord \<Rightarrow> nat \<Rightarrow> 'w word SymbolInfo list \<Rightarrow>
     ('w word \<rightharpoonup> string) \<Rightarrow> ('g, 'w word \<rightharpoonup> string) tool" where
  "join_names D W m i [] names = answer names"
| "join_names D W m i (s # ss) names = every_256 D None ''function name join exceeded its deadline'' [] i
     (join_names D W m (i + 1) ss
       (if sy_type s = sym_Function \<and> same_name W (c_field (sy_mod s)) (mr_name m) \<and> names (sy_rva s) = None
        then names(sy_rva s \<mapsto> c_field (sy_name s)) else names))"

definition function_item ::
    "('w :: len) word ModuleRecord list \<Rightarrow> u64 \<Rightarrow> 'w word ModuleRecord \<Rightarrow> string option \<Rightarrow> 'w word FunctionInfo \<Rightarrow> string" where
  "function_item modules g m named f = json_object
     [(''name'', or_null (map_option JsonString named)),
      (''start'', location_json (mr_base m + fi_rvaStart f) modules g),
      (''end_inclusive'', location_json (mr_base m + fi_rvaEnd f) modules g),
      (''instruction_count'', dec (fi_instructioncount f)), (''manual'', json_bool (fi_manual f))]"

definition visit_function ::
    "('g, ('w :: len) word) debugger \<Rightarrow> winapi \<Rightarrow> 'w word Request \<Rightarrow> u64 \<Rightarrow> 'w word ModuleRecord list \<Rightarrow>
     'w word ModuleRecord \<Rightarrow> ('w word \<rightharpoonup> string) \<Rightarrow> nat \<Rightarrow> 'w word FunctionInfo \<Rightarrow> ('g, string option) tool" where
  "visit_function D W q g modules m names i f =
     every_256 D None ''function search exceeded its deadline'' [] i (
     if \<not> same_name W (c_field (fi_mod f)) (mr_name m) \<or> fi_rvaStart f > fi_rvaEnd f \<or> fi_rvaEnd f \<ge> mr_size m
     then answer None
     else ensure (\<not> mr_base m > - 1 - fi_rvaEnd f) ''INTERNAL'' ''function record is outside its module'' False False (
       let named = names (fi_rvaStart f) in
       if rq_query q \<noteq> [] \<and> (case named of None \<Rightarrow> True | Some n \<Rightarrow> \<not> contains_name W n (rq_query q))
       then answer None else answer (Some (function_item modules g m named f))))"

definition functions_list ::
    "('g, ('w :: len) word) debugger \<Rightarrow> winapi \<Rightarrow> 'w word Request \<Rightarrow> ('g, u64 \<times> string) tool" where
  "functions_list D W q = discovery D W q (\<lambda>g modules m. do {
     l \<leftarrow> dbg_FunctionList D;
     bounded_list 65536 ''function database is unavailable'' ''function database exceeds native bounds'' l (\<lambda>fs. do {
       symbols \<leftarrow> dbg_SymbolList D;
       attempt
         (case symbols of
            None \<Rightarrow> answer Map.empty
          | Some sl \<Rightarrow> ensure (list_valid 65536 sl) ''OUTPUT_LIMIT_EXCEEDED''
              ''symbol database exceeds native bounds'' False False (join_names D W m 0 (list_items sl) Map.empty))
         (\<lambda>names. known_list D q g ''debugger changed during function search''
           (visit_function D W q g modules m names) fs)
     })
   })"

section \<open>symbols.resolve\<close>

definition symbol_matches ::
    "winapi \<Rightarrow> ('w :: len) word Request \<Rightarrow> 'w word option \<Rightarrow> 'w word ModuleRecord option \<Rightarrow> 'w word SymbolInfo \<Rightarrow> bool" where
  "symbol_matches W q address selectedModule s =
     (case selectedModule of
        None \<Rightarrow> False
      | Some m \<Rightarrow>
          \<not> (\<not> same_name W (c_field (sy_mod s)) (mr_name m) \<or> sy_rva s \<ge> mr_size m \<or> mr_base m > - 1 - sy_rva s) \<and>
          (case address of
             Some a \<Rightarrow> mr_base m + sy_rva s = a
           | None \<Rightarrow> c_field (sy_name s) = rq_symbolName q))"

text \<open>The matches in order, every one of them, with the deadline tested on the way.\<close>

primrec resolve_symbols ::
    "('g, 'd) debugger \<Rightarrow> ('s \<Rightarrow> bool) \<Rightarrow> nat \<Rightarrow> 's list \<Rightarrow> ('g, 's list) tool" where
  "resolve_symbols D hit i [] = answer []"
| "resolve_symbols D hit i (s # ss) = every_256 D None ''symbol resolution exceeded its deadline'' [] i
     (attempt (resolve_symbols D hit (i + 1) ss) (\<lambda>rest. answer (if hit s then s # rest else rest)))"

definition symbol_module ::
    "winapi \<Rightarrow> ('w :: len) word Request \<Rightarrow> ('w word ResolvedLocation \<times> u64) option \<Rightarrow> 'w word ModuleRecord list \<Rightarrow>
     tool_error + 'w word ModuleRecord option" where
  "symbol_module W q resolved modules =
     (case resolved of
        Some (loc, _) \<Rightarrow> Inr (case rl_module loc of None \<Rightarrow> None | Some name \<Rightarrow> UniqueModule W modules name)
      | None \<Rightarrow>
          (case UniqueModule W modules (rq_module q) of
             None \<Rightarrow> failure ''INVALID_ARGUMENT'' ''module is missing or ambiguous'' False False
           | Some m \<Rightarrow> Inr (Some m)))"

text \<open>\<open>resolved\<close> is the location and its generation when the request has an address.\<close>

definition symbols_resolve ::
    "('g, ('w :: len) word) debugger \<Rightarrow> winapi \<Rightarrow> 'w word Request \<Rightarrow> ('w word ResolvedLocation \<times> u64) option \<Rightarrow>
     ('g, u64 \<times> string) tool" where
  "symbols_resolve D W q resolved = do {
     snapshot \<leftarrow> (case resolved of Some (_, g) \<Rightarrow> State_Monad.return (Some g) | None \<Rightarrow> observe D BeginPausedSnapshot);
     debugging \<leftarrow> (if snapshot = None then State_Monad.return False else dbg_IsDebugging D);
     ensure debugging ''INVALID_DEBUGGER_STATE'' requires_pause False False (
     let g = the snapshot in captured_modules D (\<lambda>modules.
       case symbol_module W q resolved modules of
         Inl e \<Rightarrow> State_Monad.return (Inl e)
       | Inr selectedModule \<Rightarrow> do {
           l \<leftarrow> dbg_SymbolList D;
           bounded_list 65536 ''symbol database is unavailable'' ''symbol database exceeds native bounds'' l (\<lambda>xs.
             attempt (resolve_symbols D
                 (symbol_matches W q (map_option (\<lambda>r. rl_address (fst r)) resolved) selectedModule) 0 xs) (\<lambda>found. do {
               ok \<leftarrow> still_paused D g;
               ensure ok ''BUSY'' ''debugger changed during symbol resolution'' True False (answer (g, json_object
                 [(''resolution'', JsonString (if length found = 0 then ''missing''
                     else if length found = 1 then ''found'' else ''ambiguous'')),
                  (''matches'', json_array (map (symbol_json modules g (the selectedModule)) (take 32 found))),
                  (''total_matches'', to_string (length found)),
                  (''matches_truncated'', json_bool (length found > 32)),
                  (''completeness'', JsonString ''known_only''), (''state_generation'', dec g)]))
             }))
         }))
   }"

end
