(* ===== verification/Quiet_Debugger.thy ===== *)
theory Quiet_Debugger
  imports Address_Tools
begin

text \<open>
  A debugger to evaluate tools on: every call returns, nothing changes and no other thread runs.
  Witnesses replace the calls they are about.
\<close>

definition quiet_debugger :: "('g, ('w :: len) word) debugger" where
  "quiet_debugger =
     \<lparr>dbg_others = State_Monad.return (), dbg_expired = State_Monad.return False,
      dbg_IsDebugging = State_Monad.return True, dbg_ModuleList = State_Monad.return None,
      dbg_MemRead = (\<lambda>a n. State_Monad.return None), dbg_MemWrite = (\<lambda>a bs. State_Monad.return False),
      dbg_MemFindBaseAddr = (\<lambda>a. State_Monad.return (0, 0)),
      dbg_DisasmAt = (\<lambda>a. State_Monad.return \<lparr>di_instr_size = 1, di_instruction = ''nop''\<rparr>),
      dbg_RegDump = State_Monad.return None,
      dbg_ThreadList = State_Monad.return \<lparr>tl_count = 0, tl_list = None, tl_CurrentThread = 0\<rparr>,
      dbg_ThreadHandle = State_Monad.return 0, dbg_ThreadId = State_Monad.return 0,
      dbg_GetThreadContext = (\<lambda>h. State_Monad.return None),
      dbg_SetThreadContext = (\<lambda>h c. State_Monad.return False),
      dbg_SetRegister = (\<lambda>r v. State_Monad.return False),
      dbg_SoftwareBpAt = (\<lambda>a. State_Monad.return False),
      dbg_BpList = (\<lambda>t. State_Monad.return (0, 0, None)),
      dbg_CmdExec = (\<lambda>c. State_Monad.return False), dbg_CmdExecDirect = (\<lambda>c. State_Monad.return False),
      dbg_random = State_Monad.return (Some 1), dbg_FunctionInfo = (\<lambda>a. State_Monad.return None),
      dbg_FunctionList = State_Monad.return None, dbg_SymbolList = State_Monad.return None,
      dbg_InfoFromAddr = (\<lambda>a. State_Monad.return None), dbg_SectionList = (\<lambda>a. State_Monad.return None),
      dbg_Imports = (\<lambda>m. State_Monad.return None), dbg_Exports = (\<lambda>m. State_Monad.return None),
      dbg_MemMap = State_Monad.return None, dbg_XrefCount = (\<lambda>a. State_Monad.return 0),
      dbg_XrefGet = (\<lambda>a. State_Monad.return None), dbg_ValFromString = (\<lambda>s. State_Monad.return None),
      dbg_ProcessId = State_Monad.return 0, dbg_PebAddress = (\<lambda>p. State_Monad.return 0),
      dbg_surroundings = State_Monad.return
        \<lparr>su_unixMs = 0, su_steady = 0, su_enqueueThrows = False, su_pushThrows = False, su_debugging = True,
         su_processId = (\<lambda>h. 0), su_threadId = (\<lambda>h. 0), su_signalled = (\<lambda>h. False)\<rparr>, dbg_ProcessHandle = State_Monad.return 0,
      dbg_RemoteBreakPoint = (\<lambda>h. State_Monad.return False), dbg_functions = None\<rparr>"

definition paused_world :: "u64 \<Rightarrow> 'g \<Rightarrow> 'g world" where
  "paused_world g d =
     \<lparr>w_runtime = (Runtime_init [])\<lparr>rt_pluginState := pl_ready, rt_debuggeeState := ds_paused, rt_generation := g\<rparr>,
      w_fence = \<lparr>cf_pending = None, cf_accepting = True, cf_completed = False\<rparr>, w_debugger = d\<rparr>"

lemma paused_world_current: "PausedSnapshotCurrent (w_runtime (paused_world g d)) g"
  by (simp add: paused_world_def PausedSnapshotCurrent_def)

end
