(* ===== verification/String_Tools.thy ===== *)
theory String_Tools
  imports Listing_Tools Quiet_Debugger
begin

text \<open>
  \<open>strings.search\<close> of \<open>runtime.cpp\<close>. A page scans up to one megabyte of a module from the offset
  its cursor names. The bytes are read in chunks of 64 KiB, and page by page where a chunk cannot
  be read. The two extraction loops compute the runs of printable characters and, on the way, the
  number of times they test the deadline and the pause; these tests are made before the runs are
  turned into candidates. \<open>toUtf8\<close> is the conversion of \<open>Utf16ToUtf8\<close>.
\<close>

section \<open>Reading\<close>

definition kScanBytes :: nat where
  "kScanBytes = 1024 * 1024"

primrec read_pages ::
    "('g, ('w :: len) word) debugger \<Rightarrow> 'w word \<Rightarrow> (nat \<times> nat) list \<Rightarrow> ('g, u8 list \<times> u8 list) call" where
  "read_pages D a [] = State_Monad.return ([], [])"
| "read_pages D a (p # ps) = do {
     got \<leftarrow> dbg_MemRead D (a + of_nat (fst p)) (snd p);
     (bytes, readable) \<leftarrow> read_pages D a ps;
     State_Monad.return (case got of
         None \<Rightarrow> (replicate (snd p) 0 @ bytes, replicate (snd p) 0 @ readable)
       | Some bs \<Rightarrow> (bs @ bytes, replicate (snd p) 1 @ readable))
   }"

text \<open>The bytes, which of them could be read, and whether a chunk could not be read at once.\<close>

primrec read_scan ::
    "('g, ('w :: len) word) debugger \<Rightarrow> u64 \<Rightarrow> 'w word \<Rightarrow> (nat \<times> nat) list \<Rightarrow> ('g, u8 list \<times> u8 list \<times> bool) tool" where
  "read_scan D g a [] = answer ([], [], False)"
| "read_scan D g a (c # cs) = do {
     expired \<leftarrow> dbg_expired D;
     ensure (\<not> expired) ''TIMEOUT'' ''string scan exceeded its deadline'' True False (do {
       got \<leftarrow> dbg_MemRead D (a + of_nat (fst c)) (snd c);
       (bs, rs) \<leftarrow> (case got of
           Some bs \<Rightarrow> State_Monad.return (bs, replicate (snd c) 1)
         | None \<Rightarrow> read_pages D (a + of_nat (fst c)) (pieces 4096 (snd c)));
       ok \<leftarrow> still_paused D g;
       ensure ok ''BUSY'' ''debugger changed during string scan'' True False
         (attempt (read_scan D g a cs) (\<lambda>(bytes, readable, incomplete).
           answer (bs @ bytes, rs @ readable, got = None \<or> incomplete)))
     })
   }"

section \<open>Runs of printable characters\<close>

definition printableLength :: "u8 list \<Rightarrow> string \<Rightarrow> nat \<Rightarrow> nat" where
  "printableLength readable t i =
     (if readable ! i = 0 then 0
      else if char_code (t ! i) < 32 \<or> char_code (t ! i) = 127 then 0
      else let n = Utf8SequenceLength t i in
        if n = 0 \<or> i + n > length readable then 0
        else if list_ex (\<lambda>k. readable ! (i + k) = 0) [0..<n] then 0 else n)"

function ascii_run :: "u8 list \<Rightarrow> string \<Rightarrow> nat \<Rightarrow> nat \<Rightarrow> nat \<times> nat" where
  "ascii_run readable t i characters =
     (if i < length t \<and> printableLength readable t i \<noteq> 0
      then ascii_run readable t (i + printableLength readable t i) (characters + 1)
      else (i, characters))"
  by pat_completeness auto
termination
  by (relation "measure (\<lambda>(readable, t, i, _). length t - i)") auto

declare ascii_run.simps [simp del]

lemma ascii_run_ge: "i \<le> fst (ascii_run readable t i n)"
proof (induction readable t i n rule: ascii_run.induct)
  case (1 readable t i n)
  then show ?case by (subst ascii_run.simps) auto
qed

lemma ascii_run_progress:
  "i < length t \<Longrightarrow> printableLength readable t i \<noteq> 0 \<Longrightarrow> i < fst (ascii_run readable t i n)"
  using ascii_run_ge [of "i + printableLength readable t i" readable t "n + 1"]
  by (subst ascii_run.simps) auto

definition check_at :: "nat \<Rightarrow> nat" where
  "check_at i = (if i mod 65536 = 0 then 1 else 0)"

text \<open>The runs with their number of characters, and the number of tests made.\<close>

function ascii_scan :: "u8 list \<Rightarrow> string \<Rightarrow> nat \<Rightarrow> (nat \<times> nat \<times> nat) list \<times> nat" where
  "ascii_scan readable t i =
     (if \<not> i < length t then ([], 0)
      else if printableLength readable t i = 0
      then (let (runs, checks) = ascii_scan readable t (i + 1) in (runs, check_at i + checks))
      else
        (let (stop, characters) = ascii_run readable t i 0; (runs, checks) = ascii_scan readable t stop in
         ((i, stop, characters) # runs, check_at i + (stop - i) div 65536 + checks)))"
  by pat_completeness auto
termination
proof (relation "measure (\<lambda>(readable, t, i). length t - i)", goal_cases)
  case (3 readable t i x stop characters)
  then have "stop = fst (ascii_run readable t i 0)" by (metis fst_conv)
  with 3 ascii_run_progress [of i t readable 0] show ?case by (simp add: diff_less_mono2)
qed auto

declare ascii_scan.simps [simp del]

definition unit_at :: "u8 list \<Rightarrow> nat \<Rightarrow> u16" where
  "unit_at bytes i = ucast (bytes ! i) + ucast (bytes ! (i + 1)) * 256"

definition printableUnits :: "u8 list \<Rightarrow> u8 list \<Rightarrow> nat \<Rightarrow> nat" where
  "printableUnits readable bytes i = (
     let n = length bytes; first = unit_at bytes i; second = unit_at bytes (i + 2) in
     if i + 1 \<ge> n \<or> readable ! i = 0 \<or> readable ! (i + 1) = 0 then 0
     else if first < 0x20 \<or> first = 0x7f \<or> (first \<ge> 0xdc00 \<and> first \<le> 0xdfff) then 0
     else if first < 0xd800 \<or> first > 0xdbff then 1
     else if i + 3 \<ge> n \<or> readable ! (i + 2) = 0 \<or> readable ! (i + 3) = 0 then 0
     else if second \<ge> 0xdc00 \<and> second \<le> 0xdfff then 2 else 0)"

function wide_run :: "u8 list \<Rightarrow> u8 list \<Rightarrow> nat \<Rightarrow> u16 list \<Rightarrow> nat \<times> u16 list" where
  "wide_run readable bytes i units = (
     let n = printableUnits readable bytes i in
     if i + 1 < length bytes \<and> n \<noteq> 0
     then wide_run readable bytes (i + n * 2) (units @ map (\<lambda>k. unit_at bytes (i + k * 2)) [0..<n])
     else (i, units))"
  by pat_completeness auto
termination
  by (relation "measure (\<lambda>(readable, bytes, i, _). length bytes - i)") auto

declare wide_run.simps [simp del]

lemma wide_run_ge: "i \<le> fst (wide_run readable bytes i units)"
proof (induction readable bytes i units rule: wide_run.induct)
  case (1 readable bytes i units)
  then show ?case by (subst wide_run.simps) (auto simp: Let_def)
qed

lemma wide_run_progress:
  "i + 1 < length bytes \<Longrightarrow> printableUnits readable bytes i \<noteq> 0 \<Longrightarrow> i < fst (wide_run readable bytes i units)"
  by (subst wide_run.simps) (auto simp: Let_def intro!: less_le_trans [OF _ wide_run_ge])

function wide_scan :: "nat \<Rightarrow> u8 list \<Rightarrow> u8 list \<Rightarrow> nat \<Rightarrow> (nat \<times> u16 list) list \<times> nat" where
  "wide_scan scanStart readable bytes i =
     (if \<not> i + 1 < length bytes then ([], 0)
      else if odd (scanStart + i) \<or> readable ! i = 0 \<or> readable ! (i + 1) = 0
      then (let (runs, checks) = wide_scan scanStart readable bytes (i + 1) in (runs, check_at i + checks))
      else if printableUnits readable bytes i = 0
      then (let (runs, checks) = wide_scan scanStart readable bytes (i + 2) in (runs, check_at i + checks))
      else
        (let (stop, units) = wide_run readable bytes i []; (runs, checks) = wide_scan scanStart readable bytes stop in
         ((i, units) # runs, check_at i + (stop - i) div 65536 + checks)))"
  by pat_completeness auto
termination
proof (relation "measure (\<lambda>(scanStart, readable, bytes, i). length bytes - i)", goal_cases)
  case (4 scanStart readable bytes i x stop units)
  then have "stop = fst (wide_run readable bytes i [])" by (metis fst_conv)
  with 4 wide_run_progress [of i bytes readable "[]"] show ?case by (simp add: diff_less_mono2)
qed auto

declare wide_scan.simps [simp del]

section \<open>Candidates\<close>

function skip_continuation :: "string \<Rightarrow> nat \<Rightarrow> nat" where
  "skip_continuation t i =
     (if i < length t \<and> IsContinuation (t ! i) then skip_continuation t (i + 1) else i)"
  by pat_completeness auto
termination
  by (relation "measure (\<lambda>(t, i). length t - i)") auto

declare skip_continuation.simps [simp del]

function shrink_end :: "string \<Rightarrow> nat \<Rightarrow> nat \<Rightarrow> nat" where
  "shrink_end t start e =
     (if e > start \<and> \<not> IsValidUtf8 (slice start e t) then shrink_end t start (e - 1) else e)"
  by pat_completeness auto
termination
  by (relation "measure (\<lambda>(t, start, e). e)") auto

declare shrink_end.simps [simp del]

text \<open>The text, its offset and whether it is cut.\<close>

definition ContextAroundUtf8Match :: "string \<Rightarrow> nat \<Rightarrow> string \<times> nat \<times> bool" where
  "ContextAroundUtf8Match t matchOffset = (
     let start = skip_continuation t (if matchOffset > 128 then matchOffset - 128 else 0);
         e = shrink_end t start (min (length t) (start + 512)) in
     (slice start e t, start, start \<noteq> 0 \<or> e \<noteq> length t))"

record StringCandidate =
  sc_offset :: nat
  sc_byteLength :: nat
  sc_text :: string
  sc_encoding :: string
  sc_truncated :: bool
  sc_key :: nat
  sc_matchOffset :: nat
  sc_textOffset :: nat
  sc_match :: "(string \<times> string \<times> string) option"

definition literalMatch :: "winapi \<Rightarrow> string \<Rightarrow> string \<Rightarrow> utf8_literal_match option" where
  "literalMatch W query t =
     (if \<not> IsValidUtf8 t then None
      else if query = [] then Some \<lparr>m_offset = 0, m_length = 0\<rparr>
      else Utf8OrdinalMatchIgnoreCase (wa_convert W) (wa_findNls W) (wa_utf8_size W) t query)"

definition string_candidate ::
    "string \<Rightarrow> nat \<Rightarrow> nat \<Rightarrow> nat \<Rightarrow> string \<Rightarrow> nat \<Rightarrow> string \<Rightarrow> utf8_literal_match \<Rightarrow> StringCandidate option" where
  "string_candidate query contextBytes offset byteLength encoding key t m =
     (if query = []
      then (case ContextAroundUtf8Match t 0 of (text', textOffset', shortened) \<Rightarrow> Some
        \<lparr>sc_offset = offset, sc_byteLength = byteLength, sc_text = text', sc_encoding = encoding,
         sc_truncated = shortened, sc_key = key, sc_matchOffset = m_offset m, sc_textOffset = textOffset',
         sc_match = None\<rparr>)
      else map_option (\<lambda>c.
        \<lparr>sc_offset = offset, sc_byteLength = byteLength, sc_text = context_text c, sc_encoding = encoding,
         sc_truncated = truncated c, sc_key = key, sc_matchOffset = m_offset m, sc_textOffset = textOffset c,
         sc_match = Some (before c, match_text c, after c)\<rparr>) (Utf8ContextAroundMatch t m contextBytes))"

text \<open>What the loops look at beside the bytes.\<close>

record string_query =
  sq_query :: string
  sq_minLength :: nat
  sq_contextBytes :: nat
  sq_encoding :: string
  sq_limit :: nat

definition ascii_candidate ::
    "winapi \<Rightarrow> string_query \<Rightarrow> nat \<Rightarrow> nat \<Rightarrow> string \<Rightarrow> nat \<times> nat \<times> nat \<Rightarrow> StringCandidate option" where
  "ascii_candidate W q scanStart cursorKey scanned r = (case r of (i, stop, characters) \<Rightarrow>
     let t = slice i stop scanned; key = (scanStart + i) * 2 in
     case literalMatch W (sq_query q) t of
       None \<Rightarrow> None
     | Some m \<Rightarrow>
         if characters \<ge> sq_minLength q \<and> key \<ge> cursorKey
         then string_candidate (sq_query q) (sq_contextBytes q) (scanStart + i) (stop - i) ''ascii_utf8'' key t m
         else None)"

definition wide_candidate ::
    "winapi \<Rightarrow> (u16 list \<Rightarrow> string option) \<Rightarrow> string_query \<Rightarrow> nat \<Rightarrow> nat \<Rightarrow> nat \<times> u16 list \<Rightarrow> StringCandidate option" where
  "wide_candidate W toUtf8 q scanStart cursorKey r = (case r of (i, units) \<Rightarrow>
     let key = (scanStart + i) * 2 + 1 in
     case toUtf8 units of
       None \<Rightarrow> None
     | Some t \<Rightarrow>
         (case literalMatch W (sq_query q) t of
            None \<Rightarrow> None
          | Some m \<Rightarrow>
              if length units \<ge> sq_minLength q \<and> key \<ge> cursorKey
              then string_candidate (sq_query q) (sq_contextBytes q) (scanStart + i) (length units * 2) ''utf16le'' key t m
              else None))"

definition scanned_text :: "u8 list \<Rightarrow> string" where
  "scanned_text bytes = map (\<lambda>b. char_of (unat b)) bytes"

text \<open>The candidates in the order of their keys, at most one more of each encoding than a page holds.\<close>

definition string_candidates ::
    "winapi \<Rightarrow> (u16 list \<Rightarrow> string option) \<Rightarrow> string_query \<Rightarrow> u8 list \<Rightarrow> u8 list \<Rightarrow> nat \<Rightarrow> StringCandidate list" where
  "string_candidates W toUtf8 q readable bytes cursorKey = (
     let scanStart = cursorKey div 2; t = scanned_text bytes; retain = sq_limit q + 1;
         ascii = (if sq_encoding q = ''utf16le'' then []
           else take retain (List.map_filter (ascii_candidate W q scanStart cursorKey t) (fst (ascii_scan readable t 0))));
         wide = (if sq_encoding q = ''ascii_utf8'' then []
           else take retain (List.map_filter (wide_candidate W toUtf8 q scanStart cursorKey)
             (fst (wide_scan scanStart readable bytes 0)))) in
     sort_key sc_key (ascii @ wide))"

definition string_checks :: "string_query \<Rightarrow> u8 list \<Rightarrow> u8 list \<Rightarrow> nat \<Rightarrow> nat" where
  "string_checks q readable bytes scanStart =
     (if sq_encoding q = ''utf16le'' then 0 else snd (ascii_scan readable (scanned_text bytes) 0)) +
     (if sq_encoding q = ''ascii_utf8'' then 0 else snd (wide_scan scanStart readable bytes 0))"

text \<open>The page and the key its cursor names; \<open>moduleSize\<close> is the size of the module.\<close>

definition string_page :: "nat \<Rightarrow> nat \<Rightarrow> nat \<Rightarrow> StringCandidate list \<Rightarrow> StringCandidate page" where
  "string_page limit moduleSize scanEnd candidates = (
     let returned = min (length candidates) limit in
     (take returned candidates,
      if length candidates > returned then Some (sc_key (candidates ! returned))
      else if scanEnd < moduleSize then Some (scanEnd * 2) else None))"

section \<open>strings.search\<close>

primrec checkpoints :: "('g, 'd) debugger \<Rightarrow> u64 \<Rightarrow> nat \<Rightarrow> ('g, 'a) tool \<Rightarrow> ('g, 'a) tool" where
  "checkpoints D g 0 rest = rest"
| "checkpoints D g (Suc n) rest = do {
     expired \<leftarrow> dbg_expired D;
     ensure (\<not> expired) ''TIMEOUT'' ''string extraction exceeded its deadline'' True False (do {
       ok \<leftarrow> still_paused D g;
       ensure ok ''BUSY'' ''debugger changed during string extraction'' True False (checkpoints D g n rest)
     })
   }"

definition candidate_json ::
    "('w :: len) word ModuleRecord list \<Rightarrow> u64 \<Rightarrow> 'w word ModuleRecord \<Rightarrow> StringCandidate \<Rightarrow> string" where
  "candidate_json modules g m c = json_object (
     [(''text'', JsonString (sc_text c)), (''encoding'', JsonString (sc_encoding c)),
      (''byte_length'', to_string (sc_byteLength c)), (''match_offset'', to_string (sc_matchOffset c)),
      (''text_offset'', to_string (sc_textOffset c)), (''truncated'', json_bool (sc_truncated c)),
      (''location'', location_json (mr_base m + of_nat (sc_offset c)) modules g)] @
     (case sc_match c of
        None \<Rightarrow> []
      | Some (b, t, a) \<Rightarrow> [(''before'', JsonString b), (''match'', JsonString t), (''after'', JsonString a)]))"

definition string_query_of :: "('w :: len) word Request \<Rightarrow> string_query" where
  "string_query_of q =
     \<lparr>sq_query = rq_query q, sq_minLength = rq_minStringLength q, sq_contextBytes = rq_stringContextBytes q,
      sq_encoding = rq_stringEncoding q, sq_limit = rq_pageLimit q\<rparr>"

definition strings_search ::
    "('g, ('w :: len) word) debugger \<Rightarrow> winapi \<Rightarrow> (u16 list \<Rightarrow> string option) \<Rightarrow> 'w word Request \<Rightarrow>
     ('g, u64 \<times> string) tool" where
  "strings_search D W toUtf8 q = paused_snapshot D requires_pause (\<lambda>g.
     fresh_cursor q g ''STALE_CURSOR'' ''cursor generation is stale'' (captured_modules D (\<lambda>modules.
     case UniqueModule W modules (rq_module q) of
       None \<Rightarrow> refuse ''INVALID_ARGUMENT'' ''module is missing or ambiguous'' False False
     | Some m \<Rightarrow>
         let moduleSize = unat (mr_size m); cursorKey = unat (rq_cursorIndex q); scanStart = cursorKey div 2;
             scanLength = min (moduleSize - scanStart) kScanBytes; sq = string_query_of q in
         ensure (\<not> mr_size m > - 1 div 2) ''OUTPUT_LIMIT_EXCEEDED''
           ''module is too large for string pagination'' False False (
         ensure (scanStart \<le> moduleSize) ''INVALID_ARGUMENT'' ''cursor is invalid'' False False (
         attempt (read_scan D g (mr_base m + of_nat scanStart) (pieces 65536 scanLength))
           (\<lambda>(bytes, readable, incomplete). checkpoints D g (string_checks sq readable bytes scanStart) (
             let (items, nxt) = string_page (rq_pageLimit q) moduleSize (scanStart + scanLength)
                   (string_candidates W toUtf8 sq readable bytes cursorKey) in do {
               ok \<leftarrow> still_paused D g;
               ensure ok ''BUSY'' ''debugger changed during string scan'' True False (answer (g, json_object
                 [(''items'', json_array (map (candidate_json modules g m) items)),
                  (''next_cursor'', discovery_cursor_json q g nxt), (''bytes_scanned'', to_string scanLength),
                  (''incomplete'', json_bool incomplete), (''completeness'', JsonString ''known_only''),
                  (''state_generation'', dec g)]))
             })))))))"

section \<open>Pages of strings\<close>

text \<open>
  The client that follows the cursors through a readable module, by the bytes its keys name. A
  UTF-16 string that consists of characters of the basic plane is converted by \<open>basic_utf8\<close>.
\<close>

definition module_page ::
    "winapi \<Rightarrow> (u16 list \<Rightarrow> string option) \<Rightarrow> string_query \<Rightarrow> u8 list \<Rightarrow> nat \<Rightarrow> StringCandidate page" where
  "module_page W toUtf8 q module cursorKey = (
     let scanStart = cursorKey div 2; bytes = take kScanBytes (drop scanStart module) in
     string_page (sq_limit q) (length module) (scanStart + length bytes)
       (string_candidates W toUtf8 q (replicate (length bytes) 1) bytes cursorKey))"

definition utf8_of_unit :: "u16 \<Rightarrow> string" where
  "utf8_of_unit u = map char_of
     (if unat u < 0x80 then [unat u]
      else if unat u < 0x800 then [0xc0 + unat u div 64, 0x80 + unat u mod 64]
      else [0xe0 + unat u div 4096, 0x80 + unat u div 64 mod 64, 0x80 + unat u mod 64])"

definition basic_utf8 :: "u16 list \<Rightarrow> string option" where
  "basic_utf8 units = Some (concat (map utf8_of_unit units))"

definition no_windows :: winapi where
  "no_windows = \<lparr>wa_convert = (\<lambda>s. []), wa_compareOrdinal = (\<lambda>a b. False), wa_findNls = (\<lambda>a b. (- 1, 0)),
     wa_utf8_size = (\<lambda>u. 0)\<rparr>"

definition string_keys :: "nat \<Rightarrow> u8 list \<Rightarrow> nat \<Rightarrow> nat page" where
  "string_keys limit module cursorKey = (case module_page no_windows basic_utf8
     \<lparr>sq_query = [], sq_minLength = 4, sq_contextBytes = 0, sq_encoding = ''both'', sq_limit = limit\<rparr> module cursorKey
     of (cs, nxt) \<Rightarrow> (map sc_key cs, nxt))"

definition sample_module :: "u8 list" where
  "sample_module = 1 # replicate 9 97"

lemma sample_pages:
  "string_keys 2 sample_module 0 = ([1, 2], None)" "string_keys 1 sample_module 0 = ([1], Some 2)"
  "string_keys 1 sample_module 2 = ([2], Some 5)" "string_keys 1 sample_module 5 = ([5], None)"
  by (code_simp, code_simp, code_simp, code_simp)

text \<open>
  C38. The strings a client gets depend on the size of its pages. A module of ten bytes holds one
  UTF-16 string from offset 0 and one ASCII string from offset 1. One page returns these two. Pages
  of one item return a third one: the cursor after the UTF-16 string names the ASCII string inside
  it, the next scan starts there, and finds the rest of the UTF-16 string again.
\<close>

theorem strings_search_repeats:
  "follow (string_keys 2 sample_module) 4 0 = ([1, 2], True) \<and>
   follow (string_keys 1 sample_module) 4 0 = ([1, 2, 5], True)"
proof -
  have "4 = Suc (Suc (Suc (Suc 0)))" by simp
  then show ?thesis by (simp only: follow.simps sample_pages prod.case option.case append.simps simp_thms)
qed

end
