(* ===== verification/Search_Tools.thy ===== *)
theory Search_Tools
  imports Listing_Tools Memory_Policy Patch_Policy Quiet_Debugger
begin

text \<open>
  The searches and the patch list of \<open>runtime.cpp\<close>: \<open>memory.search\<close>, \<open>patches.list\<close> and
  \<open>analysis.function\<close>. A memory search reads its window page by page; the pages that cannot be
  read are left out. The last section shows what the client that follows the cursors gets.
\<close>

unbundle bit_operations_syntax

section \<open>memory.search\<close>

definition kMaxModuleBytes :: "('w :: len) word" where
  "kMaxModuleBytes = 128 * 1024 * 1024"

definition kCandidateWindow :: nat where
  "kCandidateWindow = 1024 * 1024"

text \<open>\<open>kPageBytes\<close> is 4096; what is left of the page of an address.\<close>

definition page_remaining :: "('w :: len) word \<Rightarrow> nat" where
  "page_remaining a = 4096 - unat (a AND 4095)"

lemma page_remaining_pos: "0 < page_remaining a"
proof -
  have "unat (a AND 4095) \<le> unat (4095 :: 'a word)" by (intro word_le_nat_alt [THEN iffD1] word_and_le1)
  also have "\<dots> \<le> 4095" by (simp only: unat_numeral mod_less_eq_dividend)
  finally show ?thesis by (simp add: page_remaining_def)
qed

text \<open>The addresses and lengths of the reads.\<close>

function chunks :: "('w :: len) word \<Rightarrow> nat \<Rightarrow> ('w word \<times> nat) list" where
  "chunks a n =
     (if n = 0 then []
      else let c = min (page_remaining a) n in (a, c) # chunks (a + of_nat c) (n - c))"
  by pat_completeness auto
termination
  by (relation "measure snd") (auto simp: min_def page_remaining_pos intro!: diff_less)

declare chunks.simps [simp del]

text \<open>The bytes of the window and which of them could be read.\<close>

primrec read_chunks ::
    "('g, ('w :: len) word) debugger \<Rightarrow> u64 \<Rightarrow> ('w word \<times> nat) list \<Rightarrow> ('g, u8 list \<times> u8 list) tool" where
  "read_chunks D g [] = answer ([], [])"
| "read_chunks D g (c # cs) = do {
     expired \<leftarrow> dbg_expired D;
     ensure (\<not> expired) ''TIMEOUT'' ''memory search exceeded its deadline'' True False (do {
       got \<leftarrow> dbg_MemRead D (fst c) (snd c);
       ok \<leftarrow> still_paused D g;
       ensure ok ''BUSY'' ''debugger changed during memory search'' True False
         (attempt (read_chunks D g cs) (\<lambda>(bytes, readable).
           case got of
             None \<Rightarrow> answer (replicate (snd c) 0 @ bytes, replicate (snd c) 0 @ readable)
           | Some bs \<Rightarrow> answer (bs @ bytes, replicate (snd c) 1 @ readable)))
     })
   }"

definition total_candidates :: "memory_pattern \<Rightarrow> nat \<Rightarrow> nat" where
  "total_candidates p len = (if length (mp_bytes p) \<le> len then len - length (mp_bytes p) + 1 else 0)"

definition candidate_count :: "memory_pattern \<Rightarrow> nat \<Rightarrow> nat \<Rightarrow> nat" where
  "candidate_count p len i = min (total_candidates p len - i) kCandidateWindow"

definition read_length :: "memory_pattern \<Rightarrow> nat \<Rightarrow> nat \<Rightarrow> nat" where
  "read_length p len i =
     (if candidate_count p len i = 0 then 0 else candidate_count p len i + length (mp_bytes p) - 1)"

definition search_scan ::
    "('g, ('w :: len) word) debugger \<Rightarrow> u64 \<Rightarrow> memory_pattern \<Rightarrow> nat \<Rightarrow> 'w word \<Rightarrow> nat \<Rightarrow> nat \<Rightarrow>
     ('g, memory_search_matches \<times> u8 list) tool" where
  "search_scan D g p limit start len i =
     attempt (read_chunks D g (chunks (start + of_nat i) (read_length p len i))) (\<lambda>(bytes, readable). do {
       expired \<leftarrow> dbg_expired D;
       ensure (\<not> expired) ''TIMEOUT'' ''memory search exceeded its deadline'' True False
         (answer (the (FindMemoryPattern bytes readable p (candidate_count p len i) limit), readable))
     })"

definition search_next :: "memory_pattern \<Rightarrow> nat \<Rightarrow> nat \<Rightarrow> memory_search_matches \<Rightarrow> nat option" where
  "search_next p len i m =
     (if i + ms_nextCandidate m \<ge> total_candidates p len then None else Some (i + ms_nextCandidate m))"

definition search_scope ::
    "('g, ('w :: len) word) debugger \<Rightarrow> winapi \<Rightarrow> 'w word Request \<Rightarrow> 'w word ModuleRecord list \<Rightarrow>
     ('g, 'w word \<times> nat) tool" where
  "search_scope D W q modules =
     (if rq_memorySearchModuleScope q
      then
        (case UniqueModule W modules (rq_module q) of
           None \<Rightarrow> refuse ''INVALID_ARGUMENT'' ''module is missing or ambiguous'' False False
         | Some m \<Rightarrow> ensure (\<not> (mr_size m = 0 \<or> mr_size m > kMaxModuleBytes)) ''OUTPUT_LIMIT_EXCEEDED''
             ''module exceeds the 128 MiB search scope'' False False (answer (mr_base m, unat (mr_size m))))
      else do {
        l \<leftarrow> (if ar_pointerWidthValid (rq_address q) then dbg_ModuleList D else State_Monad.return None);
        (case ResolveAddress W (rq_address q) l of
           Inl e \<Rightarrow> State_Monad.return (Inl e)
         | Inr loc \<Rightarrow> answer (rl_address loc, rq_length q))
      })"

definition search_json ::
    "('w :: len) word Request \<Rightarrow> 'w word ModuleRecord list \<Rightarrow> u64 \<Rightarrow> 'w word \<Rightarrow> nat \<Rightarrow>
     memory_search_matches \<Rightarrow> u8 list \<Rightarrow> string" where
  "search_json q modules g start len m readable = (
     let p = rq_memoryPattern q; i = unat (rq_cursorIndex q);
         readStart = start + of_nat i;
         considered = (if ms_nextCandidate m = 0 then 0
           else min (read_length p len i) (ms_nextCandidate m + length (mp_bytes p) - 1));
         unreadable = length (filter (\<lambda>r. r = 0) (take considered readable)) in
     json_object
       [(''scope'', json_object [(''start'', location_json start modules g), (''length'', to_string len)]),
        (''pattern_hex'', JsonString (Hex (mp_bytes p))), (''mask'', JsonString (map mask_char (mp_exact p))),
        (''items'', json_array (map (\<lambda>j. json_object
           [(''location'', location_json (readStart + of_nat j) modules g)]) (ms_offsets m))),
        (''next_cursor'', discovery_cursor_json q g (search_next p len i m)),
        (''scan_complete'', json_bool (search_next p len i m = None)),
        (''read_completeness'', JsonString (if unreadable = 0 then ''complete'' else ''partial_unreadable'')),
        (''bytes_scanned'', to_string (ms_nextCandidate m)), (''unreadable_bytes'', to_string unreadable),
        (''state_generation'', dec g)])"

definition memory_search ::
    "('g, ('w :: len) word) debugger \<Rightarrow> winapi \<Rightarrow> 'w word Request \<Rightarrow> ('g, u64 \<times> string) tool" where
  "memory_search D W q = paused_snapshot D requires_pause (\<lambda>g.
     fresh_cursor q g ''STALE_CURSOR'' ''cursor generation is stale'' (captured_modules D (\<lambda>modules.
     attempt (search_scope D W q modules) (\<lambda>(start, len).
       ensure (\<not> (len = 0 \<or> start > - 1 - of_nat (len - 1))) ''INVALID_ARGUMENT''
         ''memory search scope overflows pointer width'' False False (do {
           ok \<leftarrow> still_paused D g;
           ensure ok ''BUSY'' ''debugger changed during search scope resolution'' True False (
           index_valid q (total_candidates (rq_memoryPattern q) len) (
           attempt (search_scan D g (rq_memoryPattern q) (rq_pageLimit q) start len (unat (rq_cursorIndex q)))
             (\<lambda>(m, readable). do {
               ok \<leftarrow> still_paused D g;
               ensure ok ''BUSY'' ''debugger changed during memory search'' True False
                 (answer (g, search_json q modules g start len m readable))
             })))
         })))))"

section \<open>patches.list\<close>

text \<open>The native records as tracked bytes, refused at the first one that is not in its module.\<close>

primrec patch_records ::
    "winapi \<Rightarrow> ('w :: len) word ModuleRecord list \<Rightarrow> 'w word native_patch list \<Rightarrow>
     tool_error + 'w word TrackedPatchByte list" where
  "patch_records W modules [] = Inr []"
| "patch_records W modules (n # ns) = (
     let name = c_field (np_mod n); loc = LocationFromModules (pi_addr n) modules in
     if name = [] \<or> length name = length (np_mod n) \<or> pi_oldbyte n = pi_newbyte n
     then failure ''BUSY'' ''patch enumeration contains an invalid record'' True False
     else
       (case (UniqueModule W modules name, rl_module loc) of
          (Some owner, Some m) \<Rightarrow>
            if \<not> same_name W (mr_name owner) m
            then failure ''BUSY'' ''patch record is outside its named module'' True False
            else
              (case patch_records W modules ns of
                 Inl e \<Rightarrow> Inl e
               | Inr rs \<Rightarrow> Inr (\<lparr>tb_module = mr_name owner, tb_address = pi_addr n,
                   tb_original = pi_oldbyte n, tb_patched = pi_newbyte n\<rparr> # rs))
        | _ \<Rightarrow> failure ''BUSY'' ''patch record is outside its named module'' True False))"

text \<open>The three calls of \<open>PatchEnum\<close>; \<open>sz\<close> is \<open>sizeof(DBGPATCHINFO)\<close>.\<close>

definition enumerate_patches ::
    "('g, nat) call \<Rightarrow> (nat \<Rightarrow> ('g, bool \<times> 'd native_patch list \<times> nat) call) \<Rightarrow> nat \<Rightarrow>
     ('g, 'd native_patch list) tool" where
  "enumerate_patches probe enum sz = do {
     firstBytes \<leftarrow> probe;
     ensure (firstBytes mod sz = 0) ''BUSY'' ''patch size probe is inconsistent'' True False (
     let n = firstBytes div sz in
     ensure (n \<le> 65536) ''OUTPUT_LIMIT_EXCEEDED'' ''patch database exceeds native bounds'' False False (do {
       (ok, natives, enumeratedBytes) \<leftarrow>
         (if n = 0 then State_Monad.return (True, [], firstBytes) else enum firstBytes);
       ensure (ok \<and> enumeratedBytes = firstBytes) ''BUSY'' ''patch database changed during enumeration'' True False (do {
         finalBytes \<leftarrow> probe;
         ensure (finalBytes = firstBytes) ''BUSY'' ''patch database changed after enumeration'' True False
           (answer (take n natives))
       })
     }))
   }"

primrec patch_items ::
    "('g, ('w :: len) word) debugger \<Rightarrow> 'w word ModuleRecord list \<Rightarrow> u64 \<Rightarrow> 'w word TrackedPatchRange list \<Rightarrow>
     ('g, string list) tool" where
  "patch_items D modules g [] = answer []"
| "patch_items D modules g (r # rs) = do {
     expired \<leftarrow> dbg_expired D;
     ensure (\<not> expired) ''TIMEOUT'' ''patch listing exceeded its deadline'' True False (do {
       bytes \<leftarrow> dbg_MemRead D (tr_address r) (length (tr_patched r));
       (case bytes of
          None \<Rightarrow> refuse ''ACCESS_DENIED'' ''current patch bytes are not readable'' False False
        | Some bytes \<Rightarrow> attempt (patch_items D modules g rs) (\<lambda>items. answer (json_object
            [(''start'', location_json (tr_address r) modules g),
             (''length'', to_string (length (tr_patched r))),
             (''original_bytes_hex'', JsonString (Hex (tr_original r))),
             (''patched_bytes_hex'', JsonString (Hex (tr_patched r))),
             (''current_bytes_hex'', JsonString (Hex bytes)),
             (''current_matches_patch'', json_bool (bytes = tr_patched r))] # items)))
     })
   }"

definition selected_records ::
    "winapi \<Rightarrow> 'w ModuleRecord option \<Rightarrow> 'w TrackedPatchByte list \<Rightarrow> 'w TrackedPatchByte list" where
  "selected_records W selectedModule records =
     (case selectedModule of
        None \<Rightarrow> records
      | Some m \<Rightarrow> filter (\<lambda>r. same_name W (tb_module r) (mr_name m)) records)"

definition patch_ranges ::
    "winapi \<Rightarrow> ('w :: len) word Request \<Rightarrow> 'w word ModuleRecord list \<Rightarrow> 'w word ModuleRecord option \<Rightarrow>
     'w word native_patch list \<Rightarrow> tool_error + 'w word TrackedPatchRange list \<times> u64" where
  "patch_ranges W q modules selectedModule natives =
     (case patch_records W modules natives of
        Inl e \<Rightarrow> Inl e
      | Inr unsorted \<Rightarrow>
          let records = sort_key patch_key unsorted; fingerprint = TrackedPatchFingerprint records in
          if (case rq_cursorSnapshotFingerprint q of None \<Rightarrow> False | Some f \<Rightarrow> f \<noteq> fingerprint)
          then failure ''STALE_CURSOR'' ''patch snapshot changed between pages'' False False
          else
            (case NormalizeTrackedPatches (selected_records W selectedModule records) of
               None \<Rightarrow> failure ''BUSY'' ''patch records cannot form stable ranges'' True False
             | Some ranges \<Rightarrow> Inr (ranges, fingerprint)))"

definition patches_list ::
    "('g, ('w :: len) word) debugger \<Rightarrow> winapi \<Rightarrow> nat \<Rightarrow> 'w word Request \<Rightarrow> ('g, u64 \<times> string) tool" where
  "patches_list D W sz q = paused_snapshot D requires_pause (\<lambda>g.
     fresh_cursor q g ''STALE_CURSOR'' ''cursor generation is stale'' (captured_modules D (\<lambda>modules.
     attempt (if rq_module q = [] then answer None
       else
         (case UniqueModule W modules (rq_module q) of
            None \<Rightarrow> refuse ''NOT_FOUND'' ''module is not uniquely loaded'' False False
          | Some m \<Rightarrow> answer (Some m))) (\<lambda>selectedModule.
     case (case dbg_functions D of None \<Rightarrow> None | Some fs \<Rightarrow> fn_PatchEnum fs) of
       None \<Rightarrow> refuse ''INTERNAL'' ''native patch enumeration is unavailable'' False False
     | Some (probe, enum) \<Rightarrow> attempt (enumerate_patches probe enum sz) (\<lambda>natives.
         case patch_ranges W q modules selectedModule natives of
           Inl e \<Rightarrow> State_Monad.return (Inl e)
         | Inr (ranges, fingerprint) \<Rightarrow>
             index_valid q (length ranges) (
             let (page, nxt) = list_page q ranges in
             attempt (patch_items D modules g page) (\<lambda>items. do {
               ok \<leftarrow> still_paused D g;
               ensure ok ''BUSY'' ''debugger changed during patch listing'' True False (answer (g, json_object
                 [(''items'', json_array items),
                  (''next_cursor'', or_null (map_option (\<lambda>i. JsonString
                     (PatchCursor (rq_cursorFingerprint q) g fingerprint (of_nat i :: 'w word))) nxt)),
                  (''completeness'', JsonString ''tracked_only''),
                  (''snapshot_fingerprint'', hex fingerprint), (''state_generation'', dec g)]))
             })))))))"

section \<open>analysis.function\<close>

definition analysis_marker ::
    "winapi \<Rightarrow> ('w :: len) word ModuleRecord list \<Rightarrow> string \<Rightarrow> 'w word \<Rightarrow> 'w word FunctionInfo \<Rightarrow>
     'w word ModuleRecord option" where
  "analysis_marker W modules name rva f =
     (case UniqueModule W modules (c_field (fi_mod f)) of
        None \<Rightarrow> None
      | Some owner \<Rightarrow>
          if \<not> same_name W (mr_name owner) name \<or> fi_rvaStart f > fi_rvaEnd f \<or> fi_rvaEnd f \<ge> mr_size owner \<or>
            rva < fi_rvaStart f \<or> rva > fi_rvaEnd f
          then None else Some owner)"

definition analysis_finished ::
    "('g, ('w :: len) word) debugger \<Rightarrow> winapi \<Rightarrow> 'w word ResolvedLocation \<Rightarrow> u64 \<Rightarrow> 'w word ModuleRecord list \<Rightarrow>
     string \<Rightarrow> 'w word \<Rightarrow> bool \<Rightarrow> ('g, u64 \<times> string) tool" where
  "analysis_finished D W loc g modules name rva alreadyKnown = do {
     ok \<leftarrow> still_paused D g;
     ensure ok ''BUSY'' ''debugger changed while analysis was running'' False True (do {
       found \<leftarrow> dbg_FunctionInfo D (rl_address loc);
       (case found of
          None \<Rightarrow> refuse ''INVALID_ARGUMENT'' ''analysis did not produce a function marker'' False False
        | Some f \<Rightarrow>
            (case analysis_marker W modules name rva f of
               None \<Rightarrow> refuse ''INTERNAL'' ''analysis returned an invalid function marker'' False False
             | Some owner \<Rightarrow> answer (g, json_object
                 [(''requested_location'', LocationJson loc g),
                  (''function'', json_object
                     [(''start'', location_json (mr_base owner + fi_rvaStart f) modules g),
                      (''end'', location_json (mr_base owner + fi_rvaEnd f) modules g),
                      (''instruction_count'', dec (fi_instructioncount f)), (''manual'', json_bool (fi_manual f))]),
                  (''already_known'', json_bool alreadyKnown), (''state_generation'', dec g)])))
     })
   }"

definition analysis_function ::
    "('g, ('w :: len) word) debugger \<Rightarrow> winapi \<Rightarrow> 'w word ResolvedLocation \<Rightarrow> u64 \<Rightarrow> ('g, u64 \<times> string) tool" where
  "analysis_function D W loc g =
     (case (rl_module loc, rl_moduleBase loc, rl_rva loc) of
        (Some name, Some base, Some rva) \<Rightarrow> do {
          captured \<leftarrow> CaptureModuleRecords D;
          (case captured of
             None \<Rightarrow> refuse ''BUSY'' ''loaded module changed during analysis validation'' True False
           | Some modules \<Rightarrow>
               (case UniqueModule W modules name of
                  None \<Rightarrow> refuse ''BUSY'' ''loaded module changed during analysis validation'' True False
                | Some m \<Rightarrow>
                    ensure (\<not> (mr_size m = 0 \<or> mr_size m > kMaxModuleBytes)) ''OUTPUT_LIMIT_EXCEEDED''
                      ''analysis module exceeds the 128 MiB bound'' False False (do {
                        ok \<leftarrow> still_paused D g;
                        ensure ok ''BUSY'' ''debugger changed before analysis submission'' True False (do {
                          known \<leftarrow> dbg_FunctionInfo D (rl_address loc);
                          phase \<leftarrow> fence_phases D (''analr '' @ HexValue (ucast (rl_address loc)));
                          (case phase of
                             fp_no_fence \<Rightarrow> refuse ''BUSY'' ''analysis command fence is unavailable'' True False
                           | fp_command_rejected \<Rightarrow>
                               refuse ''BUSY'' ''debugger command queue rejected analysis'' True False
                           | fp_fence_rejected \<Rightarrow> refuse ''TIMEOUT''
                               ''analysis was queued but its completion fence was rejected'' False True
                           | fp_unconfirmed \<Rightarrow> refuse ''TIMEOUT''
                               ''analysis completion was not command-queue confirmed'' False True
                           | fp_confirmed \<Rightarrow> analysis_finished D W loc g modules name rva (known \<noteq> None))
                        })
                      })))
        }
      | _ \<Rightarrow> refuse ''INVALID_ARGUMENT'' ''analysis address must resolve inside one loaded module'' False False)"

section \<open>What the client of memory.search gets\<close>

text \<open>
  The debuggee's memory as a partial function, whose readability is decided page by page, and the
  debugger that reads it while nothing else happens.
\<close>

definition memory_bytes :: "(('w :: len) word \<Rightarrow> u8 option) \<Rightarrow> 'w word \<Rightarrow> nat \<Rightarrow> u8 list" where
  "memory_bytes mem a n = map (\<lambda>k. case mem (a + of_nat k) of None \<Rightarrow> 0 | Some b \<Rightarrow> b) [0..<n]"

definition memory_flags :: "(('w :: len) word \<Rightarrow> u8 option) \<Rightarrow> 'w word \<Rightarrow> nat \<Rightarrow> u8 list" where
  "memory_flags mem a n = map (\<lambda>k. if mem (a + of_nat k) = None then 0 else 1) [0..<n]"

definition read_memory :: "(('w :: len) word \<Rightarrow> u8 option) \<Rightarrow> 'w word \<Rightarrow> nat \<Rightarrow> u8 list option" where
  "read_memory mem a n =
     (if list_all (\<lambda>k. mem (a + of_nat k) \<noteq> None) [0..<n] then Some (memory_bytes mem a n) else None)"

definition paged :: "(('w :: len) word \<Rightarrow> u8 option) \<Rightarrow> bool" where
  "paged mem \<longleftrightarrow> (\<forall>a b. unat a div 4096 = unat b div 4096 \<longrightarrow> (mem a = None \<longleftrightarrow> mem b = None))"

definition undisturbed :: "('g, 'd) debugger \<Rightarrow> bool" where
  "undisturbed D \<longleftrightarrow>
     (\<forall>w. run_state (dbg_others D) w = ((), w)) \<and> (\<forall>w. run_state (dbg_expired D) w = (False, w))"

definition reads :: "('g, ('w :: len) word) debugger \<Rightarrow> ('w word \<Rightarrow> u8 option) \<Rightarrow> bool" where
  "reads D mem \<longleftrightarrow> (\<forall>a n w. run_state (dbg_MemRead D a n) w = (read_memory mem a n, w))"

lemma page_remaining_eq:
  assumes "12 < LENGTH('w :: len)"
  shows "page_remaining (a :: 'w word) = 4096 - unat a mod 4096"
proof -
  have "(4095 :: 'w word) = mask 12" by (simp add: mask_eq_exp_minus_1)
  then have "a AND 4095 = take_bit 12 a" by (simp only: take_bit_eq_mask)
  then have "unat (a AND 4095) = take_bit 12 (unat a)" by (simp only: unsigned_take_bit_eq)
  then show ?thesis by (simp add: page_remaining_def take_bit_eq_mod)
qed

lemma same_page:
  assumes "12 < LENGTH('w :: len)" "k < page_remaining (a :: 'w word)"
  shows "unat (a + of_nat k) div 4096 = unat a div 4096"
proof -
  obtain d r where a: "unat a = 4096 * d + r" "unat a div 4096 = d" "unat a mod 4096 = r"
    by (metis mult_div_mod_eq)
  have k: "r + k < 4096" using assms a(3) by (simp add: page_remaining_eq)
  have "2 ^ LENGTH('w) = (2 :: nat) ^ 12 * 2 ^ (LENGTH('w) - 12)"
    using assms(1) by (subst power_add [symmetric]) simp
  then have "2 ^ LENGTH('w) = (4096 :: nat) * 2 ^ (LENGTH('w) - 12)" by simp
  then obtain m where m: "2 ^ LENGTH('w) = (4096 :: nat) * m" ..
  have "unat a < 2 ^ LENGTH('w)" by (rule unsigned_less)
  then have "d < m" using a(1) by (simp add: m)
  then have "4096 * (d + 1) \<le> 4096 * m" by (intro mult_le_mono2) simp
  with k have "4096 * d + r + k < 4096 * m" by simp
  then have "unat (a + of_nat k) = 4096 * d + r + k"
    by (simp add: unat_word_ariths unat_of_nat a(1) m)
  with k a(2) show ?thesis by (simp add: div_nat_eqI)
qed

lemma read_memory_chunk:
  assumes "12 < LENGTH('w :: len)" "paged mem" "n \<le> page_remaining (a :: 'w word)" "0 < n"
  shows "read_memory mem a n = (if mem a = None then None else Some (memory_bytes mem a n))"
    "memory_flags mem a n = replicate n (if mem a = None then 0 else 1)"
    "mem a = None \<Longrightarrow> memory_bytes mem a n = replicate n 0"
proof -
  have m: "mem (a + of_nat k) = None \<longleftrightarrow> mem a = None" if "k < n" for k
  proof -
    have "unat (a + of_nat k) div 4096 = unat a div 4096" using that assms(3) by (intro same_page [OF assms(1)]) simp
    with assms(2) show ?thesis unfolding paged_def by blast
  qed
  show "read_memory mem a n = (if mem a = None then None else Some (memory_bytes mem a n))"
  proof -
    have "list_all (\<lambda>k. mem (a + of_nat k) \<noteq> None) [0..<n] = list_all (\<lambda>k. mem a \<noteq> None) [0..<n]"
      using m by (intro list.pred_cong) auto
    with assms(4) show ?thesis by (auto simp: read_memory_def list_all_iff)
  qed
  show "memory_flags mem a n = replicate n (if mem a = None then 0 else 1)"
    using m by (auto simp: memory_flags_def intro!: nth_equalityI)
  show "memory_bytes mem a n = replicate n 0" if "mem a = None"
    using m that by (auto simp: memory_bytes_def intro!: nth_equalityI)
qed

lemma memory_append:
  "memory_bytes mem a (m + n) = memory_bytes mem a m @ memory_bytes mem (a + of_nat m) n"
  "memory_flags mem a (m + n) = memory_flags mem a m @ memory_flags mem (a + of_nat m) n"
  by (auto simp: memory_bytes_def memory_flags_def nth_append add.assoc of_nat_diff intro!: nth_equalityI)

lemma read_chunks_memory:
  assumes "12 < LENGTH('w :: len)" "paged mem" "reads D mem" "undisturbed D"
    "PausedSnapshotCurrent (w_runtime w) g"
  shows "run_state (read_chunks D g (chunks (a :: 'w word) n)) w =
    (Inr (memory_bytes mem a n, memory_flags mem a n), w)"
proof (induction a n rule: chunks.induct)
  case (1 a n)
  note quiet = assms(3,4) [unfolded reads_def undisturbed_def]
  show ?case
  proof (cases "n = 0")
    case True
    then show ?thesis by (simp add: chunks.simps [of a 0] answer_def memory_bytes_def memory_flags_def)
  next
    case False
    define c where "c = min (page_remaining a) n"
    have c: "c \<le> page_remaining a" "0 < c" "n = c + (n - c)"
      using page_remaining_pos [of a] False by (auto simp: c_def)
    note IH = "1.IH" [OF False c_def]
    note chunk = read_memory_chunk [OF assms(1,2) c(1,2)]
    have split: "chunks a n = (a, c) # chunks (a + of_nat c) (n - c)"
      using False by (simp add: chunks.simps [of a n] c_def Let_def)
    have app: "memory_bytes mem a n = memory_bytes mem a c @ memory_bytes mem (a + of_nat c) (n - c)"
      "memory_flags mem a n = memory_flags mem a c @ memory_flags mem (a + of_nat c) (n - c)"
      using memory_append [of mem a c "n - c"] c(3) by simp_all
    show ?thesis
      unfolding split app
      by (simp add: quiet assms(5) still_paused_def observe_def ensure_def attempt_def answer_def IH
          chunk split: option.split)
  qed
qed

text \<open>The page at an index, computed from the memory, and the matches that are left.\<close>

definition match_in :: "(('w :: len) word \<Rightarrow> u8 option) \<Rightarrow> memory_pattern \<Rightarrow> 'w word \<Rightarrow> nat \<Rightarrow> bool" where
  "match_in mem p start i \<longleftrightarrow> list_all (\<lambda>j. case mem (start + of_nat (i + j)) of
     None \<Rightarrow> False | Some b \<Rightarrow> mp_exact p ! j \<noteq> 0 \<longrightarrow> b = mp_bytes p ! j) [0..<length (mp_bytes p)]"

definition window_matches ::
    "(('w :: len) word \<Rightarrow> u8 option) \<Rightarrow> memory_pattern \<Rightarrow> nat \<Rightarrow> 'w word \<Rightarrow> nat \<Rightarrow> nat \<Rightarrow> memory_search_matches" where
  "window_matches mem p limit start len i = (
     let a = start + of_nat i; n = read_length p len i in
     the (FindMemoryPattern (memory_bytes mem a n) (memory_flags mem a n) p (candidate_count p len i) limit))"

definition scan_page :: "memory_pattern \<Rightarrow> nat \<Rightarrow> nat \<Rightarrow> memory_search_matches \<Rightarrow> nat page" where
  "scan_page p len i m = (map (\<lambda>j. i + j) (ms_offsets m), search_next p len i m)"

definition byte_pattern :: "(u8 \<times> u8) list \<Rightarrow> memory_pattern" where
  "byte_pattern cs = \<lparr>mp_bytes = map fst cs, mp_exact = map snd cs\<rparr>"

lemma match_in_window:
  assumes "j + length (mp_bytes p) \<le> n"
  shows "matches_at (memory_bytes mem (start + of_nat i) n) (memory_flags mem (start + of_nat i) n) p j =
    match_in mem p start (i + j)"
proof -
  have "memory_bytes mem (start + of_nat i) n ! (j + k) =
      (case mem (start + of_nat (i + j + k)) of None \<Rightarrow> 0 | Some b \<Rightarrow> b)"
    "memory_flags mem (start + of_nat i) n ! (j + k) = (if mem (start + of_nat (i + j + k)) = None then 0 else 1)"
    if "k < length (mp_bytes p)" for k
    using that assms by (simp_all add: memory_bytes_def memory_flags_def add.assoc)
  then have "memory_flags mem (start + of_nat i) n ! (j + k) \<noteq> 0 \<and>
      (mp_exact p ! k \<noteq> 0 \<longrightarrow> memory_bytes mem (start + of_nat i) n ! (j + k) = mp_bytes p ! k) \<longleftrightarrow>
      (case mem (start + of_nat (i + j + k)) of None \<Rightarrow> False | Some b \<Rightarrow> mp_exact p ! k \<noteq> 0 \<longrightarrow> b = mp_bytes p ! k)"
    if "k < length (mp_bytes p)" for k
    using that by (simp del: of_nat_add split: option.split)
  then show ?thesis by (simp add: matches_at_def match_in_def list_all_iff atLeast0LessThan lessThan_def del: of_nat_add)
qed

lemma window_matches_scan:
  fixes mem :: "('w :: len) word \<Rightarrow> u8 option" and len i :: nat and start :: "'w word"
  assumes "mp_bytes p \<noteq> []" "length (mp_exact p) = length (mp_bytes p)" "0 < limit"
  defines "m \<equiv> window_matches mem p limit start len i"
  shows "map (\<lambda>j. i + j) (ms_offsets m) = filter (match_in mem p start) [i..<i + ms_nextCandidate m]"
    "ms_nextCandidate m \<le> candidate_count p len i"
    "0 < candidate_count p len i \<Longrightarrow> 0 < ms_nextCandidate m"
proof -
  let ?n = "read_length p len i" and ?c = "candidate_count p len i"
  let ?bs = "memory_bytes mem (start + of_nat i) ?n" and ?rs = "memory_flags mem (start + of_nat i) ?n"
  have fits: "j + length (mp_bytes p) \<le> ?n" if "j < ?c" for j
    using that assms(1) by (auto simp: read_length_def Suc_leI)
  have "scan_request_ok ?bs ?rs p ?c limit"
    using assms(1-3) fits [of "?c - 1"] by (auto simp: scan_request_ok_def memory_bytes_def memory_flags_def)
  then obtain out where out: "FindMemoryPattern ?bs ?rs p ?c limit = Some out"
    "ms_offsets out = take limit (filter (matches_at ?bs ?rs p) [0..<?c])"
    "ms_offsets out = filter (matches_at ?bs ?rs p) [0..<ms_nextCandidate out]"
    "ms_nextCandidate out \<le> ?c" "length (ms_offsets out) < limit \<longrightarrow> ms_nextCandidate out = ?c"
    using FindMemoryPattern_scan by blast
  have m: "m = out" using out(1) by (simp add: m_def window_matches_def Let_def)
  show "ms_nextCandidate m \<le> ?c" using out(4) m by simp
  show "0 < ms_nextCandidate m" if "0 < ?c"
    using out(3,5) that assms(3) m by (cases "ms_nextCandidate out") auto
  have "filter (matches_at ?bs ?rs p) [0..<ms_nextCandidate out] =
      filter (\<lambda>j. match_in mem p start (i + j)) [0..<ms_nextCandidate out]"
    using out(4) fits by (intro filter_cong refl match_in_window) auto
  then have "map (\<lambda>j. i + j) (ms_offsets m) = filter (match_in mem p start) (map (\<lambda>j. i + j) [0..<ms_nextCandidate out])"
    by (simp add: m out(3) filter_map comp_def)
  then show "map (\<lambda>j. i + j) (ms_offsets m) = filter (match_in mem p start) [i..<i + ms_nextCandidate m]"
    by (simp add: m add.commute [of i] flip: map_add_upt)
qed

interpretation search_pages: pager "\<lambda>i. scan_page (byte_pattern (c # cs)) len i
    (window_matches mem (byte_pattern (c # cs)) (Suc limit) start len i)"
  "\<lambda>i. filter (match_in mem (byte_pattern (c # cs)) start) [i..<total_candidates (byte_pattern (c # cs)) len]"
  "total_candidates (byte_pattern (c # cs)) len"
  for c cs limit start len and mem :: "('w :: len) word \<Rightarrow> u8 option"
proof
  let ?p = "byte_pattern (c # cs)"
  let ?m = "\<lambda>i. window_matches mem ?p (Suc limit) start len i"
  have wf: "mp_bytes ?p \<noteq> []" "length (mp_exact ?p) = length (mp_bytes ?p)" "0 < Suc limit"
    by (simp_all add: byte_pattern_def)
  note scan = window_matches_scan [OF wf]
  fix i ys
  assume i: "i \<le> total_candidates ?p len"
  have bound: "i + ms_nextCandidate (?m i) \<le> total_candidates ?p len"
    using scan(2) [where mem = mem and start = start and len = len and i = i] i unfolding candidate_count_def by linarith
  show "filter (match_in mem ?p start) [i..<total_candidates ?p len] = ys"
    if "scan_page ?p len i (?m i) = (ys, None)"
    using that bound scan(1) [where mem = mem and start = start and len = len and i = i] by (auto simp: scan_page_def search_next_def split: if_splits)
  show "i < j \<and> j \<le> total_candidates ?p len \<and> filter (match_in mem ?p start) [i..<total_candidates ?p len] =
      ys @ filter (match_in mem ?p start) [j..<total_candidates ?p len]"
    if "scan_page ?p len i (?m i) = (ys, Some j)" for j
  proof -
    have j: "j = i + ms_nextCandidate (?m i)" "j < total_candidates ?p len"
      "ys = filter (match_in mem ?p start) [i..<j]"
      using that scan(1) [where mem = mem and start = start and len = len and i = i] by (auto simp: scan_page_def search_next_def split: if_splits)
    then have "0 < candidate_count ?p len i" by (simp add: candidate_count_def kCandidateWindow_def)
    with scan(3) j have "i < j" by simp
    moreover have "[i..<total_candidates ?p len] = [i..<j] @ [j..<total_candidates ?p len]"
      using \<open>i < j\<close> j(2) by (simp add: upt_join)
    ultimately show ?thesis using j by simp
  qed
qed

text \<open>The page the client at index \<open>i\<close> gets from the scan in the world \<open>w\<close>, empty after an error.\<close>

definition scan_client ::
    "('g, ('w :: len) word) debugger \<Rightarrow> u64 \<Rightarrow> memory_pattern \<Rightarrow> nat \<Rightarrow> 'w word \<Rightarrow> nat \<Rightarrow> 'g world \<Rightarrow> nat \<Rightarrow> nat page" where
  "scan_client D g p limit start len w i =
     (case fst (run_state (search_scan D g p limit start len i) w) of
        Inl e \<Rightarrow> ([], None)
      | Inr (m, _) \<Rightarrow> scan_page p len i m)"

lemma scan_client_window:
  assumes "12 < LENGTH('w :: len)" "paged mem" "reads D mem" "undisturbed D" "PausedSnapshotCurrent (w_runtime w) g"
  shows "scan_client D g p limit (start :: 'w word) len w = (\<lambda>i. scan_page p len i (window_matches mem p limit start len i))"
  using assms(4)
  by (simp add: fun_eq_iff scan_client_def search_scan_def attempt_def ensure_def answer_def
      read_chunks_memory [OF assms] undisturbed_def window_matches_def Let_def)

text \<open>
  C14. While the debuggee is paused and no deadline passes, the client that follows the cursors of
  \<open>memory.search\<close> comes to an end after at most one page per candidate, and gets every offset of
  the scope where all bytes are readable and match the pattern, once and in order, however the
  scope lies across pages of memory and windows of the scan.
\<close>

theorem memory_search_terminates:
  assumes "paged mem" "reads D mem" "undisturbed D" "PausedSnapshotCurrent (w_runtime w) g"
    "mp_bytes p \<noteq> []" "length (mp_exact p) = length (mp_bytes p)" "0 < limit"
    "total_candidates p len < requests"
  shows "follow (scan_client D g p limit (start :: u64) len w) requests 0 =
    (filter (match_in mem p start) [0..<total_candidates p len], True)"
proof -
  obtain c cs where cs: "zip (mp_bytes p) (mp_exact p) = c # cs"
    using assms(5,6) by (cases "zip (mp_bytes p) (mp_exact p)") auto
  have p: "p = byte_pattern (c # cs)"
    unfolding byte_pattern_def cs [symmetric] using assms(6) by simp
  have "scan_client D g p limit start len w = (\<lambda>i. scan_page p len i (window_matches mem p limit start len i))"
    by (rule scan_client_window) (use assms in simp_all)
  then show ?thesis
    using search_pages.follow_complete [of 0 c cs len requests mem "limit - 1" start] assms(7,8)
    by (simp add: p)
qed

definition sample_memory :: "u64 \<Rightarrow> u8 option" where
  "sample_memory a = (if unat a div 4096 < 2 then Some (ucast a) else None)"

theorem memory_search_terminates_witness:
  "follow (scan_client (quiet_debugger\<lparr>dbg_MemRead := \<lambda>a n. State_Monad.return (read_memory sample_memory a n)\<rparr>)
     7 \<lparr>mp_bytes = [0, 1], mp_exact = [1, 1]\<rparr> 1 4090 16 (paused_world 7 ())) 20 0 = ([6], True)"
proof -
  let ?p = "\<lparr>mp_bytes = [0, 1], mp_exact = [1, 1]\<rparr>"
  have "filter (match_in sample_memory ?p 4090) [0..<total_candidates ?p 16] = [6]" by code_simp
  moreover have "total_candidates ?p 16 < 20" by code_simp
  ultimately show ?thesis
    by (subst memory_search_terminates [where mem = sample_memory])
      (auto simp: paged_def sample_memory_def reads_def undisturbed_def quiet_debugger_def paused_world_current)
qed

end
