(* ===== verification/Dump_Memory.thy ===== *)
theory Dump_Memory
  imports Reading_Tools Search_Tools
begin

text \<open>
  \<open>dump_memory.cpp\<close> and the tool \<open>memory.dump\<close> of \<open>runtime.cpp\<close>. A path is a list of UTF-16 code
  units. The file and hash functions of Windows are the record \<open>dump_files\<close>: each is a
  computation over the world, and the answer says whether the calls it stands for succeeded. The
  destructor of \<open>Resources\<close> deletes the temporary file on every return after its creation but the
  last one.
\<close>

section \<open>Paths\<close>

definition dump_forbidden :: "u16 \<Rightarrow> bool" where
  "dump_forbidden c \<longleftrightarrow> c < 32 \<or> c \<in> set [127, 0x3a, 0x2f, 0x22, 0x3c, 0x3e, 0x7c, 0x3f, 0x2a]"

definition wide :: "string \<Rightarrow> u16 list" where
  "wide s = map (\<lambda>c. of_nat (of_char c)) s"

definition wide_upper :: "u16 \<Rightarrow> u16" where
  "wide_upper c = (if 0x61 \<le> c \<and> c \<le> 0x7a then c - 0x20 else c)"

definition reserved_devices :: "u16 list list" where
  "reserved_devices = map wide ([''CON'', ''PRN'', ''AUX'', ''NUL'', ''CONIN$'', ''CONOUT$''] @
     concat (map (\<lambda>d. [''COM'' @ [d], ''LPT'' @ [d]]) ''123456789''))"

text \<open>The stem before the first dot names a device, or has four units and ends with a superscript digit.\<close>

definition reserved_part :: "u16 list \<Rightarrow> bool" where
  "reserved_part part = (
     let stem = takeWhile (\<lambda>c. c \<noteq> 0x2e) part in
     map wide_upper stem \<in> set reserved_devices \<or> (length stem = 4 \<and> last stem \<in> set [0xb9, 0xb2, 0xb3]))"

definition part_rejected :: "u16 list \<Rightarrow> bool" where
  "part_rejected part \<longleftrightarrow> part = [] \<or> last part = 0x2e \<or> last part = 0x20 \<or> reserved_part part"

function ValidDumpPath_loop :: "u16 list \<Rightarrow> nat \<Rightarrow> nat \<Rightarrow> bool" where
  "ValidDumpPath_loop path start e =
     (if e > length path then True
      else if e < length path \<and> path ! e \<noteq> 0x5c
      then (if dump_forbidden (path ! e) then False else ValidDumpPath_loop path start (e + 1))
      else if part_rejected (slice start e path) then False
      else ValidDumpPath_loop path (e + 1) (e + 1))"
  by pat_completeness auto
termination
  by (relation "measure (\<lambda>(path, start, e). length path + 1 - e)") auto

declare ValidDumpPath_loop.simps [simp del]

definition drive_prefix :: "u16 list \<Rightarrow> bool" where
  "drive_prefix path \<longleftrightarrow>
     length path \<ge> 4 \<and> length path < 32700 \<and>
     ((0x41 \<le> path ! 0 \<and> path ! 0 \<le> 0x5a) \<or> (0x61 \<le> path ! 0 \<and> path ! 0 \<le> 0x7a)) \<and>
     path ! 1 = 0x3a \<and> path ! 2 = 0x5c"

definition ValidDumpPath :: "u16 list \<Rightarrow> bool" where
  "ValidDumpPath path \<longleftrightarrow> drive_prefix path \<and> ValidDumpPath_loop path 3 3"

section \<open>Files\<close>

datatype destination = dest_missing | dest_error | dest_file bool

text \<open>
  \<open>df_directory\<close>: a handle to the directory was opened, and it is a directory on disk that is no
  reparse point. \<open>df_attributes\<close>: no such file, another error, or a file and whether it is a
  directory, a reparse point or a device. \<open>df_finish\<close>: the digest.
\<close>

record 'g dump_files =
  df_directory :: "u16 list \<Rightarrow> ('g, bool) call"
  df_attributes :: "u16 list \<Rightarrow> ('g, destination) call"
  df_random :: "('g, u8 list option) call"
  df_create :: "u16 list \<Rightarrow> ('g, bool) call"
  df_openHash :: "('g, bool) call"
  df_write :: "u8 list \<Rightarrow> ('g, bool) call"
  df_hash :: "u8 list \<Rightarrow> ('g, bool) call"
  df_finish :: "('g, u8 list option) call"
  df_flush :: "('g, bool) call"
  df_rename :: "u16 list \<Rightarrow> bool \<Rightarrow> ('g, bool) call"
  df_delete :: "u16 list \<Rightarrow> ('g, unit) call"

definition unpublished :: "bool \<Rightarrow> ('g, 'a) tool \<Rightarrow> ('g, 'a) tool" where
  "unpublished ok rest = ensure ok ''ACCESS_DENIED'' ''dump was not published'' False False rest"

definition dump_valid :: "('g, 'd) debugger \<Rightarrow> u64 \<Rightarrow> ('g, 'a) tool \<Rightarrow> ('g, 'a) tool" where
  "dump_valid D g rest = do {
     expired \<leftarrow> dbg_expired D;
     ensure (\<not> expired) ''TIMEOUT'' ''dump deadline expired before publication'' False False (do {
       ok \<leftarrow> still_paused D g;
       ensure ok ''BUSY'' ''debugger changed before dump publication'' False False rest
     })
   }"

definition separator :: "u16 list \<Rightarrow> nat" where
  "separator path = length path - 1 - length (takeWhile (\<lambda>c. c \<noteq> 0x5c) (rev path))"

definition ancestors :: "u16 list \<Rightarrow> u16 list list" where
  "ancestors path = map (\<lambda>e. if e = 2 then take 3 path else take e path)
     (filter (\<lambda>e. path ! e = 0x5c) [2..<separator path + 1])"

primrec open_ancestors :: "('g, 'd) debugger \<Rightarrow> 'g dump_files \<Rightarrow> u64 \<Rightarrow> u16 list list \<Rightarrow> ('g, unit) tool" where
  "open_ancestors D F g [] = answer ()"
| "open_ancestors D F g (d # ds) = do {
     plain \<leftarrow> df_directory F d;
     unpublished plain (dump_valid D g (open_ancestors D F g ds))
   }"

fun destinationValid :: "bool \<Rightarrow> destination \<Rightarrow> bool" where
  "destinationValid overwrite dest_missing = True"
| "destinationValid overwrite dest_error = False"
| "destinationValid overwrite (dest_file special) = (overwrite \<and> \<not> special)"

definition uuid_bytes :: "u8 list \<Rightarrow> u8 list" where
  "uuid_bytes r = r[6 := (r ! 6 AND 0x0f) OR 0x40, 8 := (r ! 8 AND 0x3f) OR 0x80]"

definition temporary_name :: "u16 list \<Rightarrow> u8 list \<Rightarrow> u16 list" where
  "temporary_name path random = (
     let r = uuid_bytes random in
     take (separator path + 1) path @ wide ''.mcp-dump-'' @
     concat (map (\<lambda>i. (if i \<in> {4, 6, 8, 10} then wide ''-'' else []) @ wide (Hex [r ! i])) [0..<16]) @ wide ''.tmp'')"

text \<open>The buffer has 64 KiB.\<close>

primrec copy_chunks ::
    "('g, ('w :: len) word) debugger \<Rightarrow> 'g dump_files \<Rightarrow> u64 \<Rightarrow> 'w word \<Rightarrow> (nat \<times> nat) list \<Rightarrow> ('g, unit) tool" where
  "copy_chunks D F g a [] = answer ()"
| "copy_chunks D F g a (c # cs) = dump_valid D g (do {
     got \<leftarrow> dbg_MemRead D (a + of_nat (fst c)) (snd c);
     (case got of
        None \<Rightarrow> refuse ''ACCESS_DENIED'' ''memory range is not fully readable; dump was not published'' False False
      | Some bs \<Rightarrow> dump_valid D g (do {
          written \<leftarrow> df_write F bs;
          hashed \<leftarrow> (if written then df_hash F bs else State_Monad.return False);
          unpublished hashed (dump_valid D g (copy_chunks D F g a cs))
        }))
   })"

definition publish ::
    "('g, 'd) debugger \<Rightarrow> 'g dump_files \<Rightarrow> u64 \<Rightarrow> u16 list \<Rightarrow> bool \<Rightarrow> ('g, string) tool" where
  "publish D F g path overwrite = do {
     digest \<leftarrow> df_finish F;
     flushed \<leftarrow> (if digest = None then State_Monad.return False else df_flush F);
     unpublished flushed (do {
       destination \<leftarrow> df_attributes F path;
       unpublished (destinationValid overwrite destination) (dump_valid D g (do {
         renamed \<leftarrow> df_rename F path overwrite;
         unpublished renamed (answer (Hex (the digest)))
       }))
     })
   }"

text \<open>The destructor of \<open>Resources\<close>.\<close>

definition owning_temporary :: "'g dump_files \<Rightarrow> u16 list \<Rightarrow> ('g, 'a) tool \<Rightarrow> ('g, 'a) tool" where
  "owning_temporary F temporary body = do {
     r \<leftarrow> body;
     (case r of
        Inl e \<Rightarrow> do { df_delete F temporary; State_Monad.return (Inl e) }
      | Inr x \<Rightarrow> State_Monad.return (Inr x))
   }"

text \<open>The result is the printed digest.\<close>

definition DumpMemory ::
    "('g, ('w :: len) word) debugger \<Rightarrow> 'g dump_files \<Rightarrow> u64 \<Rightarrow> u16 list \<Rightarrow> 'w word \<Rightarrow> nat \<Rightarrow> bool \<Rightarrow>
     ('g, string) tool" where
  "DumpMemory D F g path address len overwrite =
     ensure (ValidDumpPath path \<and> len \<noteq> 0 \<and> len \<le> 67108864 \<and> \<not> (ucast address :: u64) > - 1 - of_nat (len - 1))
       ''INVALID_ARGUMENT'' ''dump requires a drive-absolute regular-file path and 1..67108864 bytes'' False False
       (dump_valid D g (attempt (open_ancestors D F g (ancestors path)) (\<lambda>_. do {
         destination \<leftarrow> df_attributes F path;
         unpublished (destinationValid overwrite destination) (do {
           random \<leftarrow> df_random F;
           unpublished (random \<noteq> None) (do {
             created \<leftarrow> df_create F (temporary_name path (the random));
             unpublished created (owning_temporary F (temporary_name path (the random)) (do {
               opened \<leftarrow> df_openHash F;
               unpublished opened (attempt (copy_chunks D F g address (pieces 65536 len)) (\<lambda>_.
                 publish D F g path overwrite))
             }))
           })
         })
       })))"

text \<open>\<open>toWide\<close> is \<open>MultiByteToWideChar\<close> with \<open>MB_ERR_INVALID_CHARS\<close>, empty on an error.\<close>

definition memory_dump ::
    "('g, ('w :: len) word) debugger \<Rightarrow> 'g dump_files \<Rightarrow> (string \<Rightarrow> u16 list) \<Rightarrow> 'w word Request \<Rightarrow>
     'w word ResolvedLocation \<Rightarrow> u64 \<Rightarrow> ('g, u64 \<times> string) tool" where
  "memory_dump D F toWide q loc g =
     ensure (toWide (rq_path q) \<noteq> []) ''INVALID_ARGUMENT'' ''invalid UTF-8 dump path'' False False (
     ensure (\<not> of_nat (rq_length q - 1) > - 1 - rl_address loc) ''INVALID_ARGUMENT''
       ''dump range exceeds pointer width'' False False
       (attempt (DumpMemory D F g (toWide (rq_path q)) (rl_address loc) (rq_length q) (rq_overwrite q)) (\<lambda>sha256.
         answer (g, json_object
           [(''path'', JsonString (rq_path q)), (''bytes_written'', to_string (rq_length q)),
            (''sha256'', JsonString sha256), (''complete'', ''true''), (''location'', LocationJson loc g),
            (''state_generation'', dec g)]))))"

section \<open>The components of a valid path\<close>

text \<open>The components between the backslashes, and what is asked of each.\<close>

fun components :: "u16 list \<Rightarrow> u16 list list" where
  "components [] = [[]]"
| "components (c # cs) =
     (if c = 0x5c then [] # components cs
      else (case components cs of [] \<Rightarrow> [[c]] | p # ps \<Rightarrow> (c # p) # ps))"

definition part_valid :: "u16 list \<Rightarrow> bool" where
  "part_valid part \<longleftrightarrow> list_all (\<lambda>c. \<not> dump_forbidden c) part \<and> \<not> part_rejected part"

lemma components_prefix:
  "0x5c \<notin> set p \<Longrightarrow> components (p @ cs) = (case components cs of [] \<Rightarrow> [p] | q # qs \<Rightarrow> (p @ q) # qs)"
proof (induction p)
  case Nil
  show ?case by (cases cs) (auto split: list.split)
next
  case (Cons c p)
  then show ?case by (cases "components cs") auto
qed

lemma components_part [simp]: "0x5c \<notin> set p \<Longrightarrow> components p = [p]"
  using components_prefix [of p "[]"] by simp

lemma components_separator [simp]: "0x5c \<notin> set p \<Longrightarrow> components (p @ 0x5c # cs) = p # components cs"
  by (simp add: components_prefix)

lemma components_forbidden:
  assumes "0x5c \<notin> set p" "c \<noteq> 0x5c" "dump_forbidden c"
  shows "\<not> list_all part_valid (components (p @ c # cs))"
  using assms by (simp add: components_prefix part_valid_def split: list.split)

lemma slice_step: "start \<le> e \<Longrightarrow> e < length s \<Longrightarrow> slice start (Suc e) s = slice start e s @ [s ! e]"
  by (simp add: slice_def Suc_diff_le take_Suc_conv_app_nth)

lemma slice_rest: "start \<le> e \<Longrightarrow> slice start e s @ drop e s = drop start s"
  by (metis append_take_drop_id drop_drop le_add_diff_inverse2 slice_def)

lemma ValidDumpPath_loop_components:
  "start \<le> e \<Longrightarrow> e \<le> length path \<Longrightarrow> list_all (\<lambda>c. c \<noteq> 0x5c \<and> \<not> dump_forbidden c) (slice start e path) \<Longrightarrow>
   ValidDumpPath_loop path start e \<longleftrightarrow> list_all part_valid (components (drop start path))"
proof (induction path start e rule: ValidDumpPath_loop.induct)
  case (1 path start e)
  let ?p = "slice start e path"
  from "1.prems" have p: "0x5c \<notin> set ?p" "list_all (\<lambda>c. \<not> dump_forbidden c) ?p"
    by (auto simp: list_all_iff)
  note step = ValidDumpPath_loop.simps [of path start e]
  have parts: "drop start path = ?p @ drop e path" using "1.prems" by (simp add: slice_rest)
  consider "e = length path" | "e < length path" "path ! e = 0x5c"
    | "e < length path" "path ! e \<noteq> 0x5c" "dump_forbidden (path ! e)"
    | "e < length path" "path ! e \<noteq> 0x5c" "\<not> dump_forbidden (path ! e)"
    using "1.prems" by linarith
  then show ?case
  proof cases
    case 1
    with p parts show ?thesis
      by (simp add: part_valid_def ValidDumpPath_loop.simps [of path start "length path"]
          ValidDumpPath_loop.simps [of path "Suc (length path)"])
  next
    case 2
    then have "drop e path = 0x5c # drop (Suc e) path" by (metis Cons_nth_drop_Suc)
    moreover have "ValidDumpPath_loop path (e + 1) (e + 1) = list_all part_valid (components (drop (Suc e) path))"
      if "\<not> part_rejected ?p"
      using 2 that "1.IH"(2) by (simp add: slice_def)
    ultimately show ?thesis using 2 p parts by (simp add: step part_valid_def [of ?p])
  next
    case 3
    then have "drop e path = path ! e # drop (Suc e) path" by (metis Cons_nth_drop_Suc)
    with 3 p parts components_forbidden [of ?p "path ! e"] show ?thesis by (simp add: step)
  next
    case 4
    then have "ValidDumpPath_loop path start (e + 1) = list_all part_valid (components (drop start path))"
      using "1.prems" "1.IH"(1) by (simp add: slice_step)
    with 4 show ?thesis by (simp add: step)
  qed
qed

text \<open>
  C31. The one-pass loop of \<open>ValidDumpPath\<close> accepts exactly the drive-absolute paths all of whose
  components, as the split at the backslashes gives them, are non-empty, hold no forbidden
  character, do not end with a dot or a blank and do not name a device.
\<close>

theorem ValidDumpPath_components:
  "ValidDumpPath path \<longleftrightarrow> drive_prefix path \<and> list_all part_valid (components (drop 3 path))"
  using ValidDumpPath_loop_components [of 3 3 path]
  by (auto simp: ValidDumpPath_def drive_prefix_def slice_def)

section \<open>What a dump publishes\<close>

text \<open>
  What the file and hash functions promise: \<open>published\<close> is the content of the destination,
  \<open>content\<close> that of the temporary file and \<open>hashed\<close> what was given to the hash object, of which
  \<open>digest\<close> is the hash. Only a rename that succeeds changes the destination; without \<open>overwrite\<close> it
  succeeds only where there is none.
\<close>

record 'g dump_view =
  published :: "'g world \<Rightarrow> u8 list option"
  content :: "'g world \<Rightarrow> u8 list"
  hashed :: "'g world \<Rightarrow> u8 list"






























end
