(* ===== verification/Windows_Calls.thy ===== *)
theory Windows_Calls
  imports Prelude
begin

text \<open>What the models of the calls to Windows share: wide literals and the result of a wait.\<close>

definition ascii_wide :: "string \<Rightarrow> u16 list" where
  "ascii_wide s = map (\<lambda>c. of_nat (of_char c)) s"

text \<open>\<open>WAIT_OBJECT_0\<close>, \<open>WAIT_TIMEOUT\<close> and the rest.\<close>

datatype wait_status = wait_object | wait_timeout | wait_failed

end
