(* ===== verification/Controller.thy ===== *)
theory Controller
  imports Control_Policy Monad_Logic Windows_Calls
begin

text \<open>
  \<open>controller/src/main.cpp\<close>, the command-line program that starts, stops and inspects a debugger
  host and selects the ScyllaHide profile. \<open>wchar_t\<close> is a UTF-16 code unit, a path is the list of
  its units.

  Windows, the C++ file system and the clock are the parameter \<open>host_os\<close>, a record of computations
  over the state \<open>'s\<close> of the machine; the clock counts nanoseconds. A command ends in an answer or
  in a \<open>control_end\<close>: the error it prints, an exception that nothing catches, or, for the two
  loops that poll until a deadline, the end of the fuel \<open>polls\<close>. The last section shows that
  1200 polls are enough for every deadline the options allow.
\<close>

section \<open>Options\<close>

datatype Backend = backend_x32 | backend_x64

datatype Command = cmd_status | cmd_start | cmd_stop | cmd_restart | cmd_scyllaProfile

record Options =
  op_command :: Command
  op_backend :: "Backend option"
  op_root :: "u16 list option"
  op_profile :: "string option"
  op_timeoutMs :: u32
  op_force :: bool

fun ParseUnsigned_loop :: "u16 list \<Rightarrow> nat \<Rightarrow> nat option" where
  "ParseUnsigned_loop [] parsed = Some parsed"
| "ParseUnsigned_loop (c # cs) parsed =
     (if c < 0x30 \<or> c > 0x39 then None
      else
        let parsed = parsed * 10 + (unat c - 0x30) in
        if parsed > 4294967295 then None else ParseUnsigned_loop cs parsed)"

definition ParseUnsigned :: "u16 list \<Rightarrow> u32 option" where
  "ParseUnsigned v =
     (if v = [] \<or> length v > 10 then None else map_option of_nat (ParseUnsigned_loop v 0))"

text \<open>\<open>Utf8\<close> and \<open>Wide\<close> around the conversions of Windows, which reject malformed text.\<close>

definition Utf8 :: "(u16 list \<Rightarrow> string option) \<Rightarrow> u16 list \<Rightarrow> string option" where
  "Utf8 toUtf8 v = (if v = [] then Some [] else if length v > 2147483647 then None else toUtf8 v)"

definition Wide :: "(string \<Rightarrow> u16 list option) \<Rightarrow> string \<Rightarrow> u16 list option" where
  "Wide toWide v = (if v = [] then Some [] else if length v > 2147483647 then None else toWide v)"

definition parse_option ::
    "(u16 list \<Rightarrow> string option) \<Rightarrow> u16 list \<Rightarrow> u16 list \<Rightarrow> Options \<times> bool \<Rightarrow> (Options \<times> bool) result" where
  "parse_option toUtf8 flag v st = (
     let (options, timeoutSeen) = st in
     if flag = ascii_wide ''--backend''
     then (if op_backend options \<noteq> None then Inl ''--backend must not be repeated''
       else if v = ascii_wide ''x32'' then Inr (options\<lparr>op_backend := Some backend_x32\<rparr>, timeoutSeen)
       else if v = ascii_wide ''x64'' then Inr (options\<lparr>op_backend := Some backend_x64\<rparr>, timeoutSeen)
       else Inl ''--backend must be x32 or x64'')
     else if flag = ascii_wide ''--root''
     then (if op_root options \<noteq> None \<or> v = [] \<or> length v > 32767
       then Inl ''--root is repeated, empty, or oversized''
       else Inr (options\<lparr>op_root := Some v\<rparr>, timeoutSeen))
     else if flag = ascii_wide ''--profile''
     then (if op_profile options \<noteq> None then Inl ''--profile must not be repeated''
       else
         (case Utf8 toUtf8 v of
            None \<Rightarrow> Inl ''--profile is invalid or oversized''
          | Some encoded \<Rightarrow>
              if encoded = [] \<or> length encoded > 128 then Inl ''--profile is invalid or oversized''
              else Inr (options\<lparr>op_profile := Some encoded\<rparr>, timeoutSeen)))
     else if flag = ascii_wide ''--timeout-ms''
     then
       (case (if timeoutSeen then None else ParseUnsigned v) of
          None \<Rightarrow> Inl ''--timeout-ms must be a unique value from 1000 through 60000''
        | Some t \<Rightarrow>
            if t < 1000 \<or> t > 60000 then Inl ''--timeout-ms must be a unique value from 1000 through 60000''
            else Inr (options\<lparr>op_timeoutMs := t\<rparr>, True))
     else Inl ''unknown option'')"

fun parse_options ::
    "(u16 list \<Rightarrow> string option) \<Rightarrow> u16 list list \<Rightarrow> Options \<times> bool \<Rightarrow> Options result" where
  "parse_options toUtf8 [] st = Inr (fst st)"
| "parse_options toUtf8 (flag # rest) st =
     (if flag = ascii_wide ''--force''
      then (if op_force (fst st) then Inl ''--force must not be repeated''
        else parse_options toUtf8 rest ((fst st)\<lparr>op_force := True\<rparr>, snd st))
      else
        (case rest of
           [] \<Rightarrow> Inl ''option requires a value''
         | v # rest \<Rightarrow>
             (case parse_option toUtf8 flag v st of
                Inl e \<Rightarrow> Inl e
              | Inr st \<Rightarrow> parse_options toUtf8 rest st)))"

definition parse_command :: "u16 list \<Rightarrow> Command option" where
  "parse_command c =
     (if c = ascii_wide ''status'' then Some cmd_status
      else if c = ascii_wide ''start'' then Some cmd_start
      else if c = ascii_wide ''stop'' then Some cmd_stop
      else if c = ascii_wide ''restart'' then Some cmd_restart
      else if c = ascii_wide ''scyllahide-profile'' then Some cmd_scyllaProfile
      else None)"

text \<open>The tests after the loop.\<close>

definition check_options :: "Options \<Rightarrow> Options result" where
  "check_options options =
     (if op_backend options = None then Inl ''--backend is required''
      else if (op_command options = cmd_scyllaProfile) \<noteq> (op_profile options \<noteq> None)
      then Inl ''--profile is required only for scyllahide-profile''
      else if op_force options \<and> op_command options \<noteq> cmd_stop \<and> op_command options \<noteq> cmd_restart
      then Inl ''--force is valid only for stop and restart''
      else Inr options)"

definition ParseOptions :: "(u16 list \<Rightarrow> string option) \<Rightarrow> u16 list list \<Rightarrow> Options result" where
  "ParseOptions toUtf8 argv =
     (if length argv < 2 \<or> length argv > 12 then Inl ''expected one command and bounded options''
      else
        (case parse_command (argv ! 1) of
           None \<Rightarrow> Inl ''unknown command''
         | Some c \<Rightarrow>
             (case parse_options toUtf8 (drop 2 argv)
                (\<lparr>op_command = c, op_backend = None, op_root = None, op_profile = None,
                  op_timeoutMs = 20000, op_force = False\<rparr>, False) of
                Inl e \<Rightarrow> Inl e
              | Inr options \<Rightarrow> check_options options)))"

section \<open>Printing\<close>

definition json_escape :: "char \<Rightarrow> string" where
  "json_escape c =
     (if c = CHR 0x22 then [CHR 0x5c, CHR 0x22]
      else if c = CHR 0x5c then [CHR 0x5c, CHR 0x5c]
      else if c = CHR 0x08 then [CHR 0x5c, CHR ''b'']
      else if c = CHR 0x0c then [CHR 0x5c, CHR ''f'']
      else if c = CHR 0x0a then [CHR 0x5c, CHR ''n'']
      else if c = CHR 0x0d then [CHR 0x5c, CHR ''r'']
      else if c = CHR 0x09 then [CHR 0x5c, CHR ''t'']
      else if char_code c < 0x20
      then CHR 0x5c # ''u00'' @ [digit_char (char_code c div 16), digit_char (char_code c mod 16)]
      else [c])"

definition ControlJsonString :: "string \<Rightarrow> string" where
  "ControlJsonString v = [CHR 0x22] @ concat (map json_escape v) @ [CHR 0x22]"

fun BackendName :: "Backend \<Rightarrow> string" where
  "BackendName backend_x32 = ''x32''"
| "BackendName backend_x64 = ''x64''"

definition member :: "string \<Rightarrow> string \<Rightarrow> string" where
  "member k v = [CHR 0x22] @ k @ [CHR 0x22, CHR '':''] @ v"

fun members :: "(string \<times> string) list \<Rightarrow> string" where
  "members [] = []"
| "members [(k, v)] = member k v"
| "members ((k, v) # m # ms) = member k v @ '','' @ members (m # ms)"

definition json_line :: "(string \<times> string) list \<Rightarrow> string" where
  "json_line ms = ''{'' @ members ms @ ''}'' @ [CHR 0x0a]"

section \<open>The machine\<close>

datatype control_end =
    ctl_error nat string string bool
  | ctl_exception
  | ctl_unfinished

type_synonym ('s, 'a) control = "('s, control_end + 'a) state"

text \<open>
  A top-level window with its process and whether it has no owner. \<open>os_processes\<close> is the process
  list from \<open>Process32FirstW\<close> and \<open>Process32NextW\<close>, \<open>None\<close> when the first call fails for another
  reason than an empty list; \<open>os_image\<close> opens a process and asks for its image path, \<open>None\<close> when one
  of them fails. \<open>os_request\<close> sends the health request and returns the status code, \<open>os_terminate\<close>
  opens a process and terminates it. The file operations that throw return \<open>None\<close> then.
\<close>

record 's host_os =
  os_now :: "('s, nat) state"
  os_sleep :: "nat \<Rightarrow> ('s, unit) state"
  os_toUtf8 :: "u16 list \<Rightarrow> string option"
  os_toWide :: "string \<Rightarrow> u16 list option"
  os_equalPath :: "u16 list \<Rightarrow> u16 list \<Rightarrow> bool"
  os_snapshot :: "('s, bool) state"
  os_processes :: "('s, u32 list option) state"
  os_image :: "u32 \<Rightarrow> ('s, (u64 \<times> u16 list) option) state"
  os_request :: "u16 list \<Rightarrow> u16 \<Rightarrow> nat \<Rightarrow> ('s, u32 option) state"
  os_available :: "('s, nat option) state"
  os_readData :: "nat \<Rightarrow> ('s, string option) state"
  os_windows :: "('s, (u64 \<times> u32 \<times> bool) list) state"
  os_postClose :: "u64 \<Rightarrow> ('s, bool) state"
  os_terminate :: "u32 \<Rightarrow> ('s, bool) state"
  os_wait :: "u64 \<Rightarrow> nat \<Rightarrow> ('s, wait_status) state"
  os_createProcess :: "u16 list \<Rightarrow> u16 list \<Rightarrow> u16 list \<Rightarrow> ('s, (u64 \<times> u32) option) state"
  os_fileSize :: "u16 list \<Rightarrow> ('s, nat option) state"
  os_openInput :: "u16 list \<Rightarrow> ('s, bool) state"
  os_readInput :: "nat \<Rightarrow> ('s, string \<times> bool) state"
  os_createNew :: "u16 list \<Rightarrow> ('s, bool) state"
  os_writeFile :: "string \<Rightarrow> ('s, bool \<times> nat) state"
  os_flush :: "('s, bool) state"
  os_moveFile :: "u16 list \<Rightarrow> u16 list \<Rightarrow> ('s, bool) state"
  os_deleteFile :: "u16 list \<Rightarrow> ('s, unit) state"
  os_processId :: nat
  os_executable :: "('s, u16 list option) state"
  fs_join :: "u16 list \<Rightarrow> u16 list \<Rightarrow> u16 list"
  fs_parent :: "u16 list \<Rightarrow> u16 list"
  fs_absolute :: "u16 list \<Rightarrow> ('s, u16 list option) state"
  fs_canonical :: "u16 list \<Rightarrow> ('s, u16 list option) state"
  fs_isDirectory :: "u16 list \<Rightarrow> ('s, bool option) state"
  fs_isFile :: "u16 list \<Rightarrow> ('s, bool option) state"

definition fail_with :: "nat \<Rightarrow> string \<Rightarrow> string \<Rightarrow> bool \<Rightarrow> ('s, 'a) control" where
  "fail_with exitCode code message retryable =
     State_Monad.return (Inl (ctl_error exitCode code message retryable))"

definition demand :: "bool \<Rightarrow> nat \<Rightarrow> string \<Rightarrow> string \<Rightarrow> bool \<Rightarrow> ('s, 'a) control \<Rightarrow> ('s, 'a) control" where
  "demand c exitCode code message retryable rest =
     (if c then rest else fail_with exitCode code message retryable)"

text \<open>A file operation that may throw, and one whose result may be missing.\<close>

definition throwing :: "('s, 'a option) state \<Rightarrow> ('s, 'a) control" where
  "throwing m = do { x \<leftarrow> m; State_Monad.return (case x of None \<Rightarrow> Inl ctl_exception | Some a \<Rightarrow> Inr a) }"

definition or_fail :: "('s, 'a result) state \<Rightarrow> nat \<Rightarrow> string \<Rightarrow> bool \<Rightarrow> ('s, 'a) control" where
  "or_fail m exitCode code retryable = do {
     x \<leftarrow> m;
     State_Monad.return (case x of Inl e \<Rightarrow> Inl (ctl_error exitCode code e retryable) | Inr a \<Rightarrow> Inr a)
   }"

section \<open>Paths and files\<close>

record Paths =
  pa_releaseRoot :: "u16 list"
  pa_host :: "u16 list"
  pa_config :: "u16 list"
  pa_scyllaIni :: "u16 list"

text \<open>\<open>is_directory(a) && is_directory(b)\<close>, whose second call is made only after the first one holds.\<close>

definition both_directories :: "'s host_os \<Rightarrow> u16 list \<Rightarrow> u16 list \<Rightarrow> ('s, bool) control" where
  "both_directories C a b = attempt (throwing (fs_isDirectory C a)) (\<lambda>x.
     if x then throwing (fs_isDirectory C b) else answer False)"

definition layout_root :: "'s host_os \<Rightarrow> Options \<Rightarrow> ('s, u16 list) control" where
  "layout_root C options =
     (case op_root options of
        Some root \<Rightarrow> attempt (throwing (fs_absolute C root)) (\<lambda>candidate.
          let release = fs_join C candidate (ascii_wide ''release'') in
          attempt (both_directories C (fs_join C release (ascii_wide ''x32'')) (fs_join C release (ascii_wide ''x64'')))
            (\<lambda>nested. answer (if nested then release else candidate)))
      | None \<Rightarrow> do {
          executable \<leftarrow> os_executable C;
          (case executable of
             None \<Rightarrow> fail_with 2 ''INVALID_LAYOUT'' ''controller executable path is unavailable'' False
           | Some e \<Rightarrow> answer (fs_parent C (fs_parent C e)))
        })"

definition backend_text :: "Options \<Rightarrow> string \<Rightarrow> string \<Rightarrow> u16 list" where
  "backend_text options a b = ascii_wide (if op_backend options = Some backend_x32 then a else b)"

definition ResolvePaths :: "'s host_os \<Rightarrow> Options \<Rightarrow> ('s, Paths) control" where
  "ResolvePaths C options = attempt (layout_root C options) (\<lambda>candidate. do {
     canonical \<leftarrow> fs_canonical C candidate;
     attempt (case canonical of
         None \<Rightarrow> answer False
       | Some c \<Rightarrow> both_directories C (fs_join C c (ascii_wide ''x32'')) (fs_join C c (ascii_wide ''x64''))) (\<lambda>ok.
     demand ok 2 ''INVALID_LAYOUT'' ''x64dbg root must contain x32 and x64 directories'' False (
     let candidate = the canonical;
         backendDirectory = fs_join C candidate (backend_text options ''x32'' ''x64'');
         host = fs_join C backendDirectory (backend_text options ''x32dbg.exe'' ''x64dbg.exe'') in
     attempt (throwing (fs_isFile C host)) (\<lambda>regular.
     demand regular 2 ''INVALID_LAYOUT'' ''selected debugger executable is missing'' False (
     attempt (throwing (fs_canonical C host)) (\<lambda>canonicalHost.
       answer \<lparr>pa_releaseRoot = candidate, pa_host = canonicalHost,
         pa_config = fs_join C (fs_join C candidate (ascii_wide ''mcp''))
           (backend_text options ''x64dbg-mcp-server-x32.toml'' ''x64dbg-mcp-server-x64.toml''),
         pa_scyllaIni = fs_join C (fs_join C backendDirectory (ascii_wide ''plugins''))
           (ascii_wide ''scylla_hide.ini'')\<rparr>)))))
   })"

definition ReadFileBounded :: "'s host_os \<Rightarrow> u16 list \<Rightarrow> nat \<Rightarrow> ('s, string result) state" where
  "ReadFileBounded C path maximum = do {
     size \<leftarrow> os_fileSize C path;
     (case size of
        None \<Rightarrow> State_Monad.return (Inl ''file is missing, empty, or exceeds its bound'')
      | Some n \<Rightarrow>
          if n = 0 \<or> n > maximum then State_Monad.return (Inl ''file is missing, empty, or exceeds its bound'')
          else do {
            opened \<leftarrow> os_openInput C path;
            if \<not> opened then State_Monad.return (Inl ''file could not be opened'')
            else do {
              (v, atEnd) \<leftarrow> os_readInput C n;
              State_Monad.return (if length v \<noteq> n \<or> \<not> atEnd then Inl ''file could not be read exactly'' else Inr v)
            }
          })
   }"

section \<open>Hosts and their health\<close>

text \<open>The hosts with their handles.\<close>

primrec matching_hosts :: "'s host_os \<Rightarrow> u16 list \<Rightarrow> u32 list \<Rightarrow> ('s, (u32 \<times> u64) list) state" where
  "matching_hosts C expected [] = State_Monad.return []"
| "matching_hosts C expected (i # is) = do {
     image \<leftarrow> os_image C i;
     hosts \<leftarrow> matching_hosts C expected is;
     State_Monad.return
       (case image of
          None \<Rightarrow> hosts
        | Some (h, path) \<Rightarrow> if os_equalPath C path expected then (i, h) # hosts else hosts)
   }"

definition FindHosts :: "'s host_os \<Rightarrow> u16 list \<Rightarrow> ('s, (u32 \<times> u64) list result) state" where
  "FindHosts C expected = do {
     ok \<leftarrow> os_snapshot C;
     if \<not> ok then State_Monad.return (Inl ''process snapshot failed'')
     else do {
       processes \<leftarrow> os_processes C;
       (case processes of
          None \<Rightarrow> State_Monad.return (Inl ''process enumeration failed'')
        | Some is \<Rightarrow> do { hosts \<leftarrow> matching_hosts C expected is; State_Monad.return (Inr hosts) })
     }
   }"

text \<open>The test every command makes first: at most one host.\<close>

definition single_host :: "'s host_os \<Rightarrow> Paths \<Rightarrow> ((u32 \<times> u64) option \<Rightarrow> ('s, 'a) control) \<Rightarrow> ('s, 'a) control" where
  "single_host C paths rest = attempt (or_fail (FindHosts C (pa_host paths)) 5 ''OS_ERROR'' True) (\<lambda>hosts.
     case hosts of
       [] \<Rightarrow> rest None
     | [h] \<Rightarrow> rest (Some h)
     | _ \<Rightarrow> fail_with 3 ''MULTIPLE_HOSTS'' ''multiple exact-path debugger hosts are running'' False)"

fun find_text :: "'a list \<Rightarrow> 'a list \<Rightarrow> nat option" where
  "find_text needle s =
     (if take (length needle) s = needle then Some 0
      else case s of [] \<Rightarrow> None | c # cs \<Rightarrow> map_option Suc (find_text needle cs))"

declare find_text.simps [simp del]

definition json_blank :: "char \<Rightarrow> bool" where
  "json_blank c \<longleftrightarrow> c \<in> set [CHR '' '', CHR 0x09, CHR 0x0d, CHR 0x0a]"

definition expect_char :: "char \<Rightarrow> string \<Rightarrow> string option" where
  "expect_char c s =
     (case dropWhile json_blank s of [] \<Rightarrow> None | x # xs \<Rightarrow> if x = c then Some xs else None)"

definition JsonStringField :: "string \<Rightarrow> string \<Rightarrow> string option" where
  "JsonStringField json field = (
     let needle = [CHR 0x22] @ field @ [CHR 0x22] in
     do {
       key \<leftarrow> find_text needle json;
       afterColon \<leftarrow> expect_char (CHR '':'') (drop (key + length needle) json);
       txt \<leftarrow> expect_char (CHR 0x22) afterColon;
       n \<leftarrow> find_char (CHR 0x22) txt;
       if n > 128 \<or> CHR 0x5c \<in> set (take n txt) then None else Some (take n txt)
     })"

record Health =
  he_ready :: bool
  he_instanceId :: string
  he_debuggeeState :: string

definition no_health :: Health where
  "no_health = \<lparr>he_ready = False, he_instanceId = [], he_debuggeeState = []\<rparr>"

definition kMaxHealthBytes :: nat where "kMaxHealthBytes = 64 * 1024"

text \<open>The loop that reads the body; \<open>WinHttpReadData\<close> writes at most what it was offered.\<close>

function health_body :: "'s host_os \<Rightarrow> string \<Rightarrow> 's \<Rightarrow> string option \<times> 's" where
  "health_body C body s =
     (case run_state (os_available C) s of
        (None, s) \<Rightarrow> (None, s)
      | (Some n, s) \<Rightarrow>
          if n = 0 then (Some body, s)
          else if n > kMaxHealthBytes - length body then (None, s)
          else
            (case run_state (os_readData C n) s of
               (None, s) \<Rightarrow> (None, s)
             | (Some bytes, s) \<Rightarrow>
                 if take n bytes = [] then (None, s) else health_body C (body @ take n bytes) s))"
  by pat_completeness auto
termination
  by (relation "measure (\<lambda>(C, body, s). kMaxHealthBytes - length body)")
    (auto simp: min_def intro!: diff_less_mono2)

declare health_body.simps [simp del]

definition health_of_body :: "string \<Rightarrow> Health" where
  "health_of_body body =
     (case (JsonStringField body ''instance_id'', JsonStringField body ''debugger_state'') of
        (Some instanc, Some state) \<Rightarrow>
          if IsCanonicalUuid instanc \<and>
             state \<in> set [''absent'', ''starting'', ''paused'', ''running'', ''stopping'', ''exited'']
          then \<lparr>he_ready = True, he_instanceId = instanc, he_debuggeeState = state\<rparr>
          else no_health
      | _ \<Rightarrow> no_health)"

definition QueryHealth :: "'s host_os \<Rightarrow> ServerConfig \<Rightarrow> nat \<Rightarrow> ('s, Health) state" where
  "QueryHealth C config timeoutMs =
     (case Wide (os_toWide C) (sc_bearerToken config) of
        None \<Rightarrow> State_Monad.return no_health
      | Some token \<Rightarrow> do {
          status \<leftarrow> os_request C (ascii_wide ''Authorization: Bearer '' @ token) (sc_port config)
            (max 1 (min timeoutMs 5000));
          if status \<noteq> Some 200 then State_Monad.return no_health
          else do {
            body \<leftarrow> State (health_body C []);
            State_Monad.return (case body of None \<Rightarrow> no_health | Some b \<Rightarrow> health_of_body b)
          }
        })"

definition LoadServerConfig :: "'s host_os \<Rightarrow> Paths \<Rightarrow> ('s, ServerConfig result) state" where
  "LoadServerConfig C paths = do {
     txt \<leftarrow> ReadFileBounded C (pa_config paths) (64 * 1024);
     State_Monad.return (case txt of Inl e \<Rightarrow> Inl e | Inr t \<Rightarrow> ParseServerConfig t)
   }"

definition RemainingMs :: "'s host_os \<Rightarrow> nat \<Rightarrow> ('s, nat) state" where
  "RemainingMs C deadline = do {
     now \<leftarrow> os_now C;
     State_Monad.return (if now \<ge> deadline then 0 else min ((deadline - now) div 1000000) 60000)
   }"

text \<open>A health query that waits at most until the deadline, as \<open>start\<close> and \<open>stop\<close> make it.\<close>

definition timely_health :: "'s host_os \<Rightarrow> ServerConfig \<Rightarrow> nat \<Rightarrow> nat \<Rightarrow> ('s, Health) state" where
  "timely_health C config deadline most = do {
     left \<leftarrow> RemainingMs C deadline;
     QueryHealth C config (min left most)
   }"

section \<open>status and start\<close>

definition nullable :: "string option \<Rightarrow> string" where
  "nullable v = (case v of None \<Rightarrow> ''null'' | Some s \<Rightarrow> ControlJsonString s)"

definition Status :: "'s host_os \<Rightarrow> Backend \<Rightarrow> Paths \<Rightarrow> ServerConfig \<Rightarrow> nat \<Rightarrow> ('s, string) control" where
  "Status C backend paths config timeoutMs = single_host C paths (\<lambda>host.
     case Utf8 (os_toUtf8 C) (pa_host paths) of
       None \<Rightarrow> fail_with 5 ''OS_ERROR'' ''host path is not valid UTF-16'' False
     | Some path \<Rightarrow>
         (case host of
            None \<Rightarrow> answer (json_line
              [(''status'', ControlJsonString ''ok''), (''backend'', ControlJsonString (BackendName backend)),
               (''host_state'', ControlJsonString ''stopped''), (''host_path'', ControlJsonString path),
               (''process_id'', ''null''), (''mcp_state'', ControlJsonString ''unavailable''),
               (''instance_id'', ''null''), (''debuggee_state'', ''null'')])
          | Some (i, _) \<Rightarrow> do {
              health \<leftarrow> QueryHealth C config (min timeoutMs 2000);
              answer (json_line
                [(''status'', ControlJsonString ''ok''), (''backend'', ControlJsonString (BackendName backend)),
                 (''host_state'', ControlJsonString ''running''), (''host_path'', ControlJsonString path),
                 (''process_id'', to_string (unat i)),
                 (''mcp_state'', ControlJsonString (if he_ready health then ''ready'' else ''unavailable'')),
                 (''instance_id'', nullable (if he_ready health then Some (he_instanceId health) else None)),
                 (''debuggee_state'', nullable (if he_ready health then Some (he_debuggeeState health) else None))])
            }))"

record StartResult =
  sr_processId :: u32
  sr_instanceId :: string
  sr_alreadyRunning :: bool

text \<open>The loop after \<open>CreateProcessW\<close>.\<close>

primrec await_ready ::
    "'s host_os \<Rightarrow> ServerConfig \<Rightarrow> nat \<Rightarrow> u64 \<Rightarrow> u32 \<Rightarrow> nat \<Rightarrow> ('s, StartResult) control" where
  "await_ready C config deadline process i 0 = State_Monad.return (Inl ctl_unfinished)"
| "await_ready C config deadline process i (Suc polls) = do {
     now \<leftarrow> os_now C;
     if now < deadline
     then do {
       exited \<leftarrow> os_wait C process 0;
       demand (exited \<noteq> wait_object) 3 ''HOST_EXITED'' ''debugger exited before MCP readiness'' False (do {
         health \<leftarrow> timely_health C config deadline 1000;
         if he_ready health
         then answer \<lparr>sr_processId = i, sr_instanceId = he_instanceId health, sr_alreadyRunning = False\<rparr>
         else do {
           os_sleep C 100;
           await_ready C config deadline process i polls
         }
       })
     }
     else fail_with 4 ''START_TIMEOUT''
       ''debugger was started but MCP readiness was not observed; outcome is unknown'' True
   }"

definition StartHost ::
    "'s host_os \<Rightarrow> Paths \<Rightarrow> ServerConfig \<Rightarrow> nat \<Rightarrow> nat \<Rightarrow> ('s, StartResult) control" where
  "StartHost C paths config deadline polls = single_host C paths (\<lambda>host.
     case host of
       Some (i, _) \<Rightarrow> do {
         health \<leftarrow> timely_health C config deadline 2000;
         demand (he_ready health) 3 ''HOST_RUNNING_NOT_READY''
           ''debugger host is running but its MCP backend is not ready'' True
           (answer \<lparr>sr_processId = i, sr_instanceId = he_instanceId health, sr_alreadyRunning = True\<rparr>)
       }
     | None \<Rightarrow> do {
         created \<leftarrow> os_createProcess C (pa_host paths) ([0x22] @ pa_host paths @ [0x22]) (fs_parent C (pa_host paths));
         (case created of
            None \<Rightarrow> fail_with 5 ''START_FAILED'' ''CreateProcessW failed'' True
          | Some (process, i) \<Rightarrow> await_ready C config deadline process i polls)
       })"

definition json_truth :: "bool \<Rightarrow> string" where
  "json_truth b = (if b then ''true'' else ''false'')"

definition EmitStart :: "Backend \<Rightarrow> StartResult \<Rightarrow> string" where
  "EmitStart backend r = json_line
     [(''status'', ControlJsonString ''ok''), (''backend'', ControlJsonString (BackendName backend)),
      (''action'', ControlJsonString ''start''), (''process_id'', to_string (unat (sr_processId r))),
      (''instance_id'', ControlJsonString (sr_instanceId r)), (''already_running'', json_truth (sr_alreadyRunning r))]"

section \<open>stop\<close>

text \<open>The result is the process that ended, or nothing when there was no host.\<close>

definition FindMainWindow :: "u32 \<Rightarrow> (u64 \<times> u32 \<times> bool) list \<Rightarrow> u64 option" where
  "FindMainWindow i windows = map_option fst (find (\<lambda>(w, p, top). p = i \<and> top) windows)"

primrec await_window :: "'s host_os \<Rightarrow> u32 \<Rightarrow> nat \<Rightarrow> nat \<Rightarrow> ('s, u64 option) control" where
  "await_window C i windowDeadline 0 = State_Monad.return (Inl ctl_unfinished)"
| "await_window C i windowDeadline (Suc polls) = do {
     now \<leftarrow> os_now C;
     if now < windowDeadline
     then do {
       windows \<leftarrow> os_windows C;
       (case FindMainWindow i windows of
          Some w \<Rightarrow> answer (Some w)
        | None \<Rightarrow> do {
            os_sleep C 50;
            await_window C i windowDeadline polls
          })
     }
     else answer None
   }"

definition no_main_window :: "'s host_os \<Rightarrow> u32 \<times> u64 \<Rightarrow> nat \<Rightarrow> bool \<Rightarrow> ('s, u32 option) control" where
  "no_main_window C host deadline force = do {
     terminated \<leftarrow> (if force then os_terminate C (fst host) else State_Monad.return False);
     ended \<leftarrow> (if terminated then do { left \<leftarrow> RemainingMs C deadline; os_wait C (snd host) left }
       else State_Monad.return wait_failed);
     demand (ended = wait_object) 3 ''NO_MAIN_WINDOW'' ''debugger main window could not be closed'' False
       (answer (Some (fst host)))
   }"

definition stop_timeout :: "'s host_os \<Rightarrow> u32 \<times> u64 \<Rightarrow> bool \<Rightarrow> ('s, u32 option) control" where
  "stop_timeout C host force = do {
     terminated \<leftarrow> (if force then os_terminate C (fst host) else State_Monad.return False);
     ended \<leftarrow> (if terminated then os_wait C (snd host) 2000 else State_Monad.return wait_failed);
     demand (ended = wait_object) 4 ''STOP_TIMEOUT''
       ''debugger did not exit before the deadline; outcome is unknown'' True (answer (Some (fst host)))
   }"

text \<open>What \<open>stop\<close> does once it may close the host.\<close>

definition close_host :: "'s host_os \<Rightarrow> u32 \<times> u64 \<Rightarrow> nat \<Rightarrow> bool \<Rightarrow> nat \<Rightarrow> ('s, u32 option) control" where
  "close_host C host deadline force polls = do {
     now \<leftarrow> os_now C;
     attempt (await_window C (fst host) (min deadline (now + 2000000000)) polls) (\<lambda>window. do {
       posted \<leftarrow> (case window of None \<Rightarrow> State_Monad.return False | Some w \<Rightarrow> os_postClose C w);
       if \<not> posted then no_main_window C host deadline force
       else do {
         left \<leftarrow> RemainingMs C deadline;
         ended \<leftarrow> os_wait C (snd host) left;
         (case ended of
            wait_timeout \<Rightarrow> stop_timeout C host force
          | wait_failed \<Rightarrow> fail_with 5 ''WAIT_FAILED'' ''waiting for debugger exit failed'' True
          | wait_object \<Rightarrow> answer (Some (fst host)))
       }
     })
   }"

definition StopHost ::
    "'s host_os \<Rightarrow> Paths \<Rightarrow> ServerConfig \<Rightarrow> nat \<Rightarrow> bool \<Rightarrow> nat \<Rightarrow> ('s, u32 option) control" where
  "StopHost C paths config deadline force polls = single_host C paths (\<lambda>host.
     case host of
       None \<Rightarrow> answer None
     | Some host \<Rightarrow>
         if force then close_host C host deadline force polls
         else do {
           health \<leftarrow> timely_health C config deadline 2000;
           demand (he_ready health) 3 ''BACKEND_UNAVAILABLE''
             ''refusing to close a host whose debugger state is unobservable; use --force'' False (
           demand (he_debuggeeState health = ''absent'') 3 ''DEBUGGEE_ACTIVE''
             ''refusing to close a host with an active debuggee; use --force'' False
             (close_host C host deadline force polls))
         })"

definition process_json :: "u32 option \<Rightarrow> string" where
  "process_json i = (case i of None \<Rightarrow> ''null'' | Some i \<Rightarrow> to_string (unat i))"

definition EmitStop :: "Backend \<Rightarrow> u32 option \<Rightarrow> string" where
  "EmitStop backend r = json_line
     [(''status'', ControlJsonString ''ok''), (''backend'', ControlJsonString (BackendName backend)),
      (''action'', ControlJsonString ''stop''), (''process_id'', process_json r),
      (''already_stopped'', json_truth (r = None))]"

section \<open>scyllahide-profile\<close>

definition AtomicReplace :: "'s host_os \<Rightarrow> u16 list \<Rightarrow> string \<Rightarrow> ('s, unit result) state" where
  "AtomicReplace C path txt = (
     let temporary = fs_join C (fs_parent C path)
           (ascii_wide (''.scylla-hide-mcp-'' @ to_string (os_processId C) @ ''.tmp'')) in
     do {
       created \<leftarrow> os_createNew C temporary;
       if \<not> created then State_Monad.return (Inl ''temporary ScyllaHide config could not be created'')
       else do {
         (ok, written) \<leftarrow> (if length txt \<le> 4294967295 then os_writeFile C txt else State_Monad.return (False, 0));
         flushed \<leftarrow> (if ok \<and> written = length txt then os_flush C else State_Monad.return False);
         moved \<leftarrow> (if flushed then os_moveFile C temporary path else State_Monad.return False);
         if moved then State_Monad.return (Inr ())
         else do {
           os_deleteFile C temporary;
           State_Monad.return (Inl ''ScyllaHide config replacement failed'')
         }
       }
     })"

definition kMaxTextFileBytes :: nat where "kMaxTextFileBytes = 1024 * 1024"

definition UpdateProfile :: "'s host_os \<Rightarrow> Backend \<Rightarrow> Paths \<Rightarrow> string \<Rightarrow> ('s, string) control" where
  "UpdateProfile C backend paths profile =
     attempt (or_fail (FindHosts C (pa_host paths)) 5 ''OS_ERROR'' True) (\<lambda>hosts.
     demand (hosts = []) 3 ''HOST_RUNNING''
       ''ScyllaHide profile can be changed only while the debugger is stopped'' False (
     attempt (or_fail (ReadFileBounded C (pa_scyllaIni paths) kMaxTextFileBytes) 3 ''SCYLLAHIDE_NOT_INSTALLED'' False)
       (\<lambda>txt.
     attempt (or_fail (State_Monad.return (SetScyllaHideProfile txt profile)) 2 ''INVALID_PROFILE'' False) (\<lambda>updated.
     attempt (or_fail (AtomicReplace C (pa_scyllaIni paths) (pu_text updated)) 5 ''PROFILE_WRITE_FAILED'' True) (\<lambda>_.
       answer (json_line
         [(''status'', ControlJsonString ''ok''), (''backend'', ControlJsonString (BackendName backend)),
          (''action'', ControlJsonString ''scyllahide-profile''),
          (''profile'', ControlJsonString (pu_canonicalProfile updated)), (''reload_required'', ''true'')]))))))"

section \<open>wmain\<close>

definition restart :: "'s host_os \<Rightarrow> Backend \<Rightarrow> Paths \<Rightarrow> ServerConfig \<Rightarrow> nat \<Rightarrow> bool \<Rightarrow> nat \<Rightarrow> ('s, string) control" where
  "restart C backend paths config deadline force polls =
     attempt (StopHost C paths config deadline force polls) (\<lambda>stopped.
     attempt (StartHost C paths config deadline polls) (\<lambda>started.
       answer (json_line
         [(''status'', ControlJsonString ''ok''), (''backend'', ControlJsonString (BackendName backend)),
          (''action'', ControlJsonString ''restart''), (''previous_process_id'', process_json stopped),
          (''process_id'', to_string (unat (sr_processId started))),
          (''instance_id'', ControlJsonString (sr_instanceId started))])))"

definition run_command ::
    "'s host_os \<Rightarrow> Options \<Rightarrow> Paths \<Rightarrow> ServerConfig \<Rightarrow> nat \<Rightarrow> nat \<Rightarrow> ('s, string) control" where
  "run_command C options paths config deadline polls = (
     let backend = the (op_backend options) in
     case op_command options of
       cmd_status \<Rightarrow> Status C backend paths config (unat (op_timeoutMs options))
     | cmd_start \<Rightarrow> attempt (StartHost C paths config deadline polls) (\<lambda>r. answer (EmitStart backend r))
     | cmd_stop \<Rightarrow> attempt (StopHost C paths config deadline (op_force options) polls) (\<lambda>r. answer (EmitStop backend r))
     | cmd_restart \<Rightarrow> restart C backend paths config deadline (op_force options) polls
     | cmd_scyllaProfile \<Rightarrow> fail_with 5 ''INTERNAL'' ''unreachable command state'' False)"

definition wmain :: "'s host_os \<Rightarrow> u16 list list \<Rightarrow> nat \<Rightarrow> ('s, string) control" where
  "wmain C argv polls =
     (case ParseOptions (os_toUtf8 C) argv of
        Inl e \<Rightarrow> fail_with 2 ''INVALID_ARGUMENT'' e False
      | Inr options \<Rightarrow> attempt (ResolvePaths C options) (\<lambda>paths.
          if op_command options = cmd_scyllaProfile
          then UpdateProfile C (the (op_backend options)) paths (the (op_profile options))
          else attempt (or_fail (LoadServerConfig C paths) 2 ''CONFIG_INVALID'' False) (\<lambda>config. do {
            now \<leftarrow> os_now C;
            run_command C options paths config (now + unat (op_timeoutMs options) * 1000000) polls
          })))"

text \<open>The exit code and the text on standard output, where the program ends by itself.\<close>

fun control_output :: "control_end + string \<Rightarrow> (nat \<times> string) option" where
  "control_output (Inr txt) = Some (0, txt)"
| "control_output (Inl (ctl_error exitCode code message retryable)) = Some (exitCode, json_line
     [(''status'', ControlJsonString ''error''), (''code'', ControlJsonString code),
      (''message'', ControlJsonString message), (''retryable'', json_truth retryable)])"
| "control_output (Inl _) = None"

section \<open>Accepted options\<close>

definition options_valid :: "Options \<Rightarrow> bool" where
  "options_valid options \<longleftrightarrow>
     op_backend options \<noteq> None \<and> 1000 \<le> op_timeoutMs options \<and> op_timeoutMs options \<le> 60000 \<and>
     (op_command options = cmd_scyllaProfile \<longleftrightarrow> op_profile options \<noteq> None) \<and>
     (case op_profile options of None \<Rightarrow> True | Some p \<Rightarrow> p \<noteq> [] \<and> length p \<le> 128) \<and>
     (case op_root options of None \<Rightarrow> True | Some r \<Rightarrow> r \<noteq> [] \<and> length r \<le> 32767) \<and>
     (op_force options \<longrightarrow> op_command options \<in> {cmd_stop, cmd_restart})"

text \<open>What the loop keeps of it.\<close>

definition options_partial :: "Options \<Rightarrow> bool" where
  "options_partial options \<longleftrightarrow>
     1000 \<le> op_timeoutMs options \<and> op_timeoutMs options \<le> 60000 \<and>
     (case op_profile options of None \<Rightarrow> True | Some p \<Rightarrow> p \<noteq> [] \<and> length p \<le> 128) \<and>
     (case op_root options of None \<Rightarrow> True | Some r \<Rightarrow> r \<noteq> [] \<and> length r \<le> 32767)"

lemma parse_option_partial:
  "parse_option u flag v st = Inr st' \<Longrightarrow> options_partial (fst st) \<Longrightarrow>
   options_partial (fst st') \<and> op_command (fst st') = op_command (fst st)"
  by (cases st) (auto simp: parse_option_def options_partial_def split: if_splits option.splits)

lemma parse_options_partial:
  "parse_options u args st = Inr options \<Longrightarrow> options_partial (fst st) \<Longrightarrow>
   options_partial options \<and> op_command options = op_command (fst st)"
proof (induction u args st rule: parse_options.induct)
  case (2 u flag rest st)
  show ?case
  proof (cases "flag = ascii_wide ''--force''")
    case True
    with "2.prems" "2.IH"(1) show ?thesis by (simp add: options_partial_def split: if_splits)
  next
    case False
    with "2.prems"(1) obtain v rest' st' where st': "rest = v # rest'" "parse_option u flag v st = Inr st'"
      "parse_options u rest' st' = Inr options"
      by (simp split: list.splits sum.splits)
    with "2.prems"(2) parse_option_partial have "options_partial (fst st')" "op_command (fst st') = op_command (fst st)"
      by blast+
    with "2.IH"(2) [OF False st'(1,2)] st'(3) show ?thesis by simp
  qed
qed simp

lemma ParseOptions_valid:
  assumes "ParseOptions u argv = Inr options"
  shows "options_valid options"
proof -
  from assms obtain c options' where c: "parse_options u (drop 2 argv)
      (\<lparr>op_command = c, op_backend = None, op_root = None, op_profile = None, op_timeoutMs = 20000,
        op_force = False\<rparr>, False) = Inr options'" "check_options options' = Inr options"
    by (simp add: ParseOptions_def split: if_splits option.splits sum.splits)
  from c(2) have o: "options' = options" "op_backend options \<noteq> None"
    "op_command options = cmd_scyllaProfile \<longleftrightarrow> op_profile options \<noteq> None"
    "op_force options \<longrightarrow> op_command options \<in> {cmd_stop, cmd_restart}"
    by (simp_all add: check_options_def split: if_splits)
  with parse_options_partial [OF c(1)] show ?thesis
    by (simp add: options_partial_def options_valid_def)
qed

text \<open>
  C20. Options that \<open>ParseOptions\<close> accepts name a backend, have a timeout from one second to one
  minute, a profile of 1 to 128 bytes exactly for the command that sets it, a root of 1 to 32767
  units if any, and \<open>--force\<close> only for the commands that end a host.
\<close>

theorem ParseOptions_sound:
  assumes "ParseOptions toUtf8 argv = Inr options"
  shows "options_valid options"
  using assms by (rule ParseOptions_valid)

definition sample_arguments :: "u16 list list" where
  "sample_arguments = map ascii_wide
     [''control'', ''stop'', ''--backend'', ''x64'', ''--force'', ''--timeout-ms'', ''5000'']"

theorem ParseOptions_sound_witness:
  "options_valid \<lparr>op_command = cmd_stop, op_backend = Some backend_x64, op_root = None, op_profile = None,
     op_timeoutMs = 5000, op_force = True\<rparr>"
proof (rule ParseOptions_sound [of "\<lambda>_. None" sample_arguments])
  show "ParseOptions (\<lambda>_. None) sample_arguments = Inr \<lparr>op_command = cmd_stop, op_backend = Some backend_x64,
      op_root = None, op_profile = None, op_timeoutMs = 5000, op_force = True\<rparr>"
    by code_simp
qed

section \<open>What inquiries keep\<close>

text \<open>A property that the queries and \<open>health_body\<close> keep.\<close>

definition inquiries_keep :: "('s \<Rightarrow> bool) \<Rightarrow> 's host_os \<Rightarrow> bool" where
  "inquiries_keep P C \<longleftrightarrow>
     maintains P (os_now C) \<and> maintains P (os_snapshot C) \<and> maintains P (os_processes C) \<and>
     (\<forall>i. maintains P (os_image C i)) \<and> (\<forall>h p n. maintains P (os_request C h p n)) \<and>
     maintains P (os_available C) \<and> (\<forall>n. maintains P (os_readData C n))"

lemma inquiries_keepD:
  assumes "inquiries_keep P C"
  shows "maintains P (os_now C)" "maintains P (os_snapshot C)" "maintains P (os_processes C)"
    "maintains P (os_image C i)" "maintains P (os_request C h p n)" "maintains P (os_available C)"
    "maintains P (os_readData C k)"
  using assms by (simp_all add: inquiries_keep_def)

lemma health_body_keeps:
  "inquiries_keep P C \<Longrightarrow> P s \<Longrightarrow> P (snd (health_body C body s))"
proof (induction C body s rule: health_body.induct)
  case (1 C body s)
  obtain a s1 where a: "run_state (os_available C) s = (a, s1)" by fastforce
  with "1.prems" have s1: "P s1" by (blast intro: maintainsD inquiries_keepD(6))
  note step = health_body.simps [of C body s] a
  show ?case
  proof (cases "a = None \<or> the a = 0 \<or> kMaxHealthBytes - length body < the a")
    case True
    with s1 show ?thesis by (cases a) (auto simp: step)
  next
    case False
    then obtain n where n: "a = Some n" "n \<noteq> 0" "\<not> kMaxHealthBytes - length body < n" by auto
    obtain b s2 where b: "run_state (os_readData C n) s1 = (b, s2)" by fastforce
    with "1.prems" s1 have s2: "P s2" by (blast intro: maintainsD inquiries_keepD(7))
    show ?thesis
    proof (cases "b = None \<or> take n (the b) = []")
      case True
      with s2 n b show ?thesis by (cases b) (auto simp: step)
    next
      case False
      then obtain bytes where bytes: "b = Some bytes" "take n bytes \<noteq> []" by (cases b) simp_all
      have "P (snd (health_body C (body @ take n bytes) s2))"
        using "1.IH" [OF a [symmetric] n b [symmetric] bytes] "1.prems"(1) s2 by simp
      with n b bytes show ?thesis by (simp add: step)
    qed
  qed
qed

lemma maintains_QueryHealth: "inquiries_keep P C \<Longrightarrow> maintains P (QueryHealth C config t)"
  unfolding QueryHealth_def
  by (intro maintains_rules inquiries_keepD) (auto simp: maintains_def dest: health_body_keeps [where body = "[]"])

lemma maintains_timely_health: "inquiries_keep P C \<Longrightarrow> maintains P (timely_health C config deadline t)"
  unfolding timely_health_def RemainingMs_def
  by (intro maintains_rules maintains_QueryHealth inquiries_keepD)

lemma maintains_matching_hosts: "inquiries_keep P C \<Longrightarrow> maintains P (matching_hosts C expected is)"
  by (induction "is") (auto intro!: maintains_rules inquiries_keepD)

lemma maintains_FindHosts: "inquiries_keep P C \<Longrightarrow> maintains P (FindHosts C expected)"
  unfolding FindHosts_def by (intro maintains_rules maintains_matching_hosts inquiries_keepD)

section \<open>The loops end\<close>

text \<open>
  The clock is read by \<open>os_now\<close>, never goes back, and passes at least the given milliseconds in a
  sleep.
\<close>

definition later :: "('s \<Rightarrow> nat) \<Rightarrow> ('s, 'a) state \<Rightarrow> bool" where
  "later clock m \<longleftrightarrow> (\<forall>s. clock s \<le> clock (snd (run_state m s)))"

definition ticking :: "('s \<Rightarrow> nat) \<Rightarrow> 's host_os \<Rightarrow> bool" where
  "ticking clock C \<longleftrightarrow>
     (\<forall>s. fst (run_state (os_now C) s) = clock s) \<and> later clock (os_now C) \<and>
     (\<forall>n s. clock s + n * 1000000 \<le> clock (snd (run_state (os_sleep C n) s))) \<and>
     later clock (os_snapshot C) \<and> later clock (os_processes C) \<and> (\<forall>i. later clock (os_image C i)) \<and>
     (\<forall>h p n. later clock (os_request C h p n)) \<and> later clock (os_available C) \<and>
     (\<forall>n. later clock (os_readData C n)) \<and> later clock (os_windows C) \<and>
     (\<forall>w. later clock (os_postClose C w)) \<and> (\<forall>i. later clock (os_terminate C i)) \<and>
     (\<forall>h n. later clock (os_wait C h n)) \<and> (\<forall>a b c. later clock (os_createProcess C a b c))"

lemma later_maintains: "later clock m \<Longrightarrow> maintains (\<lambda>s. t \<le> clock s) m"
  unfolding later_def maintains_def by (metis order_trans snd_conv)

lemma tickingD:
  assumes "ticking clock C"
  shows "inquiries_keep (\<lambda>s. t \<le> clock s) C" "maintains (\<lambda>s. t \<le> clock s) (os_windows C)"
    "maintains (\<lambda>s. t \<le> clock s) (os_postClose C w)" "maintains (\<lambda>s. t \<le> clock s) (os_terminate C i)"
    "maintains (\<lambda>s. t \<le> clock s) (os_wait C h n)" "maintains (\<lambda>s. t \<le> clock s) (os_createProcess C a b c)"
  using assms by (simp_all add: ticking_def inquiries_keep_def later_maintains)

text \<open>A computation that, begun at \<open>t\<close> or later, does not run out of fuel.\<close>

definition finishes :: "('s \<Rightarrow> nat) \<Rightarrow> nat \<Rightarrow> ('s, 'a) control \<Rightarrow> bool" where
  "finishes clock t m \<longleftrightarrow> (\<forall>s. t \<le> clock s \<longrightarrow> wp m (\<lambda>r s'. r \<noteq> Inl ctl_unfinished \<and> t \<le> clock s') s)"

named_theorems finishes_rules \<open>introduction rules for finishes\<close>

lemma finishes_bind:
  "maintains (\<lambda>s. t \<le> clock s) m \<Longrightarrow> (\<And>a. finishes clock t (f a)) \<Longrightarrow> finishes clock t (State_Monad.bind m f)"
  unfolding finishes_def by (intro allI impI wp_bindI) (erule (1) wp_maintains, simp)

lemma finishes_attempt [finishes_rules]:
  "finishes clock t m \<Longrightarrow> (\<And>a. finishes clock t (f a)) \<Longrightarrow> finishes clock t (attempt m f)"
  unfolding finishes_def wp_attempt
  by (intro allI impI) (erule allE, erule (1) impE, erule wp_mono, auto split: sum.split)

lemma finishes_return [finishes_rules]: "r \<noteq> Inl ctl_unfinished \<Longrightarrow> finishes clock t (State_Monad.return r)"
  by (simp add: finishes_def wp_return)

lemma finishes_answer [finishes_rules]: "finishes clock t (answer a)"
  by (simp add: finishes_def wp_answer)

lemma finishes_fail_with [finishes_rules]: "finishes clock t (fail_with e c m r)"
  by (simp add: fail_with_def finishes_rules)

lemma finishes_demand [finishes_rules]: "finishes clock t rest \<Longrightarrow> finishes clock t (demand b e c m r rest)"
  by (simp add: demand_def finishes_rules)

lemma finishes_if [finishes_rules]:
  "(b \<Longrightarrow> finishes clock t m) \<Longrightarrow> (\<not> b \<Longrightarrow> finishes clock t n) \<Longrightarrow> finishes clock t (if b then m else n)"
  by simp

lemma finishes_case_option [finishes_rules]:
  "finishes clock t m \<Longrightarrow> (\<And>a. finishes clock t (f a)) \<Longrightarrow>
   finishes clock t (case x of None \<Rightarrow> m | Some a \<Rightarrow> f a)"
  by (simp split: option.split)

lemma finishes_case_prod [finishes_rules]:
  "(\<And>a b. finishes clock t (f a b)) \<Longrightarrow> finishes clock t (case x of (a, b) \<Rightarrow> f a b)"
  by (simp split: prod.split)

lemma finishes_case_wait [finishes_rules]:
  "finishes clock t a \<Longrightarrow> finishes clock t b \<Longrightarrow> finishes clock t c \<Longrightarrow>
   finishes clock t (case x of wait_object \<Rightarrow> a | wait_timeout \<Rightarrow> b | wait_failed \<Rightarrow> c)"
  by (simp split: wait_status.split)

lemma finishes_Let [finishes_rules]: "(\<And>x. finishes clock t (f x)) \<Longrightarrow> finishes clock t (let x = e in f x)"
  by simp

lemma finishes_or_fail [finishes_rules]:
  "maintains (\<lambda>s. t \<le> clock s) m \<Longrightarrow> finishes clock t (or_fail m e c r)"
  unfolding or_fail_def by (intro finishes_bind finishes_return) (auto split: sum.split)

lemma finishes_throwing [finishes_rules]:
  "maintains (\<lambda>s. t \<le> clock s) m \<Longrightarrow> finishes clock t (throwing m)"
  unfolding throwing_def by (intro finishes_bind finishes_return) (auto split: option.split)

lemma finishes_single_host [finishes_rules]:
  "ticking clock C \<Longrightarrow> (\<And>h. finishes clock t (rest h)) \<Longrightarrow> finishes clock t (single_host C paths rest)"
  unfolding single_host_def
  by (intro finishes_attempt finishes_or_fail maintains_FindHosts tickingD) (auto simp: finishes_rules split: list.split)

text \<open>The two loops.\<close>

lemma wp_now: "ticking clock C \<Longrightarrow> (\<And>s'. clock s \<le> clock s' \<Longrightarrow> Q (clock s) s') \<Longrightarrow> wp (os_now C) Q s"
  by (simp add: ticking_def later_def wp_def split: prod.split) (metis fst_conv snd_conv)

lemma wp_sleep:
  "ticking clock C \<Longrightarrow> (\<And>s'. clock s + n * 1000000 \<le> clock s' \<Longrightarrow> Q () s') \<Longrightarrow> wp (os_sleep C n) Q s"
  by (simp add: ticking_def wp_def split: prod.split) (metis snd_conv)

lemma finishes_now:
  "ticking clock C \<Longrightarrow> (\<And>now. t \<le> now \<Longrightarrow> finishes clock t (f now)) \<Longrightarrow>
   finishes clock t (State_Monad.bind (os_now C) f)"
  unfolding finishes_def by (intro allI impI wp_bindI wp_now [where C = C]) auto

lemma finishes_sleep:
  assumes "ticking clock C" "finishes clock (t + n * 1000000) m"
  shows "finishes clock t (do { os_sleep C n; m })"
  using assms(2) unfolding finishes_def
  by (intro allI impI wp_bindI wp_sleep [OF assms(1)]) (auto elim!: allE wp_mono)

lemma finishes_await_ready:
  assumes T: "ticking clock C"
  shows "deadline \<le> t + polls * 100000000 \<Longrightarrow> finishes clock t (await_ready C config deadline process i (Suc polls))"
proof (induction polls arbitrary: t)
  case 0
  then show ?case
    unfolding await_ready.simps
    by (intro finishes_now [OF T] finishes_if finishes_fail_with) simp
next
  case (Suc polls)
  then have "finishes clock (t + 100 * 1000000) (await_ready C config deadline process i (Suc polls))" by simp
  then show ?case
    unfolding await_ready.simps(2) [of C config deadline process i "Suc polls"]
    by (intro finishes_now [OF T] finishes_sleep [OF T] finishes_bind finishes_rules maintains_timely_health tickingD [OF T])
qed

lemma finishes_await_window:
  assumes T: "ticking clock C"
  shows "deadline \<le> t + polls * 50000000 \<Longrightarrow> finishes clock t (await_window C i deadline (Suc polls))"
proof (induction polls arbitrary: t)
  case 0
  then show ?case
    unfolding await_window.simps
    by (intro finishes_now [OF T] finishes_if finishes_answer) simp
next
  case (Suc polls)
  then have "finishes clock (t + 50 * 1000000) (await_window C i deadline (Suc polls))" by simp
  then show ?case
    unfolding await_window.simps(2) [of C i deadline "Suc polls"]
    by (intro finishes_now [OF T] finishes_sleep [OF T] finishes_bind finishes_rules tickingD [OF T])
qed

lemma finishes_StartHost:
  assumes T: "ticking clock C" and d: "deadline \<le> t + 60000000000" "1200 < polls"
  shows "finishes clock t (StartHost C paths config deadline polls)"
proof -
  obtain n where n: "polls = Suc n" "deadline \<le> t + n * 100000000" using d by (cases polls) auto
  show ?thesis
    unfolding StartHost_def n(1)
    by (intro finishes_rules finishes_await_ready [OF T n(2)] finishes_bind maintains_timely_health T tickingD [OF T])
qed

lemma finishes_StopHost:
  assumes T: "ticking clock C" and d: "deadline \<le> t + 60000000000" "1200 < polls"
  shows "finishes clock t (StopHost C paths config deadline force polls)"
proof -
  obtain n where n: "polls = Suc n" using d by (cases polls) auto
  have w: "min deadline (now + 2000000000) \<le> t + n * 50000000" for now
    using d n by (auto simp: min_def)
  note now = inquiries_keepD(1) [OF tickingD(1) [OF T]]
  have close: "finishes clock t (close_host C host deadline force polls)" for host
    unfolding close_host_def no_main_window_def stop_timeout_def RemainingMs_def n
    by (intro finishes_now [OF T] finishes_await_window [OF T w] finishes_rules finishes_bind maintains_rules now tickingD [OF T])
  show ?thesis
    unfolding StopHost_def
    by (intro finishes_rules close finishes_bind maintains_timely_health T tickingD [OF T])
qed

lemma finishes_from_now:
  assumes "ticking clock C" "\<And>now. finishes clock now (f now)"
  shows "finishes clock 0 (State_Monad.bind (os_now C) f)"
  unfolding finishes_def
proof (intro allI impI wp_bindI wp_now [OF assms(1)])
  fix s s'
  assume "clock s \<le> clock s'"
  then have "wp (f (clock s)) (\<lambda>r s'. r \<noteq> Inl ctl_unfinished \<and> clock s \<le> clock s') s'"
    using assms(2) by (simp add: finishes_def)
  then show "wp (f (clock s)) (\<lambda>r s'. r \<noteq> Inl ctl_unfinished \<and> 0 \<le> clock s') s'" by (rule wp_mono) simp
qed

lemma maintains_begun: "maintains (\<lambda>s. (0 :: nat) \<le> clock s) m"
  by (simp add: maintains_def)

lemma finishes_ResolvePaths: "finishes clock 0 (ResolvePaths C options)"
  unfolding ResolvePaths_def layout_root_def both_directories_def
  by (intro finishes_rules finishes_bind maintains_begun)

lemma finishes_UpdateProfile: "finishes clock 0 (UpdateProfile C backend paths profile)"
  unfolding UpdateProfile_def by (intro finishes_rules maintains_begun)

lemma finishes_run_command:
  assumes T: "ticking clock C" and d: "deadline \<le> t + 60000000000" "1200 < polls"
  shows "finishes clock t (run_command C options paths config deadline polls)"
  unfolding run_command_def restart_def Status_def Let_def
  by (cases "op_command options"; simp only: Command.case)
    (intro finishes_rules finishes_bind finishes_StartHost [OF T d] finishes_StopHost [OF T d]
      maintains_QueryHealth T tickingD [OF T])+

text \<open>
  C19. The program always ends: with a clock that does not stand still in a sleep, neither the loop
  that waits for a started debugger to become ready nor the one that looks for a window to close
  runs more than 1200 times, whatever the command line, the file system, the processes and the
  answers of the health endpoint are. Each run prints an answer or an error or ends in an exception
  of the file system.
\<close>

theorem wmain_terminates:
  assumes T: "ticking clock C" and p: "1200 < polls"
  shows "fst (run_state (wmain C argv polls) s) \<noteq> Inl ctl_unfinished"
proof -
  have "finishes clock 0 (do { now \<leftarrow> os_now C;
      run_command C options paths config (now + unat (op_timeoutMs options) * 1000000) polls })"
    if "ParseOptions (os_toUtf8 C) argv = Inr options" for options paths config
  proof (rule finishes_from_now [OF T], rule finishes_run_command [OF T _ p])
    have "unat (op_timeoutMs options) \<le> unat (60000 :: u32)"
      using ParseOptions_valid [OF that] unfolding options_valid_def word_le_nat_alt by blast
    then show "now + unat (op_timeoutMs options) * 1000000 \<le> now + 60000000000" for now by simp
  qed
  note run = this
  have "finishes clock 0 (wmain C argv polls)"
  proof (cases "ParseOptions (os_toUtf8 C) argv")
    case (Inr options)
    then show ?thesis
      unfolding wmain_def
      by (simp, intro run finishes_rules finishes_ResolvePaths finishes_UpdateProfile maintains_begun)
  qed (simp add: wmain_def finishes_fail_with)
  then show ?thesis by (simp add: finishes_def wp_def case_prod_beta)
qed

text \<open>
  A machine with one host, process 7, whose health answer is \<open>body\<close>: its state is the clock, what is
  left of the answer, and whether the host was told to close.
\<close>

definition sample_os :: "string \<Rightarrow> (nat \<times> string \<times> bool) host_os" where
  "sample_os body =
     \<lparr>os_now = State (\<lambda>s. (fst s, s)), os_sleep = (\<lambda>n. State (\<lambda>s. ((), apfst (\<lambda>t. t + n * 1000000) s))),
      os_toUtf8 = (\<lambda>w. Some (map (\<lambda>c. char_of (unat c)) w)), os_toWide = (\<lambda>v. Some (ascii_wide v)),
      os_equalPath = (=), os_snapshot = State_Monad.return True, os_processes = State_Monad.return (Some [4, 7]),
      os_image = (\<lambda>i. State_Monad.return (if i = 7 then Some (70, ascii_wide ''host'') else None)),
      os_request = (\<lambda>h p n. State (\<lambda>s. (Some 200, apsnd (apfst (\<lambda>_. body)) s))),
      os_available = State (\<lambda>s. (Some (length (fst (snd s))), s)),
      os_readData = (\<lambda>n. State (\<lambda>s. (Some (take n (fst (snd s))), apsnd (apfst (drop n)) s))),
      os_windows = State_Monad.return [(70, 7, True)],
      os_postClose = (\<lambda>w. State (\<lambda>s. (True, apsnd (apsnd (\<lambda>_. True)) s))),
      os_terminate = (\<lambda>i. State (\<lambda>s. (True, apsnd (apsnd (\<lambda>_. True)) s))),
      os_wait = (\<lambda>h n. State (\<lambda>s. (if snd (snd s) then wait_object else wait_timeout, s))),
      os_createProcess = (\<lambda>a b c. State_Monad.return (Some (71, 8))),
      os_fileSize = (\<lambda>p. State_Monad.return None), os_openInput = (\<lambda>p. State_Monad.return False),
      os_readInput = (\<lambda>n. State_Monad.return ([], True)), os_createNew = (\<lambda>p. State_Monad.return False),
      os_writeFile = (\<lambda>v. State_Monad.return (False, 0)), os_flush = State_Monad.return False,
      os_moveFile = (\<lambda>a b. State_Monad.return False), os_deleteFile = (\<lambda>p. State_Monad.return ()),
      os_processId = 9, os_executable = State_Monad.return None, fs_join = (\<lambda>a b. a @ 0x5c # b), fs_parent = id,
      fs_absolute = (\<lambda>p. State_Monad.return (Some p)), fs_canonical = (\<lambda>p. State_Monad.return (Some p)),
      fs_isDirectory = (\<lambda>p. State_Monad.return (Some True)), fs_isFile = (\<lambda>p. State_Monad.return (Some True))\<rparr>"

lemma sample_os_ticking: "ticking fst (sample_os body)"
  by (simp add: ticking_def later_def sample_os_def)

theorem wmain_terminates_witness:
  "fst (run_state (wmain (sample_os []) sample_arguments 1201) (5, [], False)) \<noteq> Inl ctl_unfinished"
  by (rule wmain_terminates [OF sample_os_ticking]) simp

section \<open>Hosts that may not be closed\<close>

lemma wp_single_host:
  assumes "inquiries_keep P C" "P s" "\<And>h s'. P s' \<Longrightarrow> wp (rest h) Q s'" "\<And>e s'. P s' \<Longrightarrow> Q (Inl e) s'"
  shows "wp (single_host C paths rest) Q s"
  unfolding single_host_def or_fail_def wp_attempt wp_bind wp_return
  by (rule wp_maintains [OF maintains_FindHosts [OF assms(1)] assms(2)])
    (auto simp: assms(3,4) fail_with_def wp_return split: sum.split list.split)

lemma wp_demand: "(b \<Longrightarrow> wp rest Q s) \<Longrightarrow> (\<And>e. \<not> b \<Longrightarrow> Q (Inl e) s) \<Longrightarrow> wp (demand b n c m r rest) Q s"
  by (simp add: demand_def fail_with_def wp_return)

text \<open>
  C18. Without \<open>--force\<close>, \<open>stop\<close> does not touch a host whose health endpoint does not say that no
  debuggee is there: whatever the inquiries keep still holds, so no window was closed and no
  process ended, and the answer is not that of a stopped host.
\<close>

theorem StopHost_spares_debuggee:
  assumes keep: "inquiries_keep P C"
    and active: "\<And>t s. he_debuggeeState (fst (run_state (QueryHealth C config t) s)) \<noteq> ''absent''"
    and run: "P s" "run_state (StopHost C paths config deadline False polls) s = (r, s')"
  shows "P s' \<and> (\<forall>i. r \<noteq> Inr (Some i))"
proof -
  let ?Q = "\<lambda>r s'. P s' \<and> (\<forall>i. r \<noteq> Inr (Some i))"
  have query: "wp (QueryHealth C config t) (\<lambda>h s'. P s' \<and> he_debuggeeState h \<noteq> ''absent'') s1" if "P s1" for t s1
    using maintains_QueryHealth [OF keep, of config t] active [of t s1] that by (auto simp: wp_iff maintains_def)
  have health: "wp (timely_health C config deadline 2000) (\<lambda>h s'. P s' \<and> he_debuggeeState h \<noteq> ''absent'') s1"
    if "P s1" for s1
    unfolding timely_health_def RemainingMs_def wp_bind wp_return
    by (rule wp_maintains [OF inquiries_keepD(1) [OF keep] that]) (rule query)
  have "wp (StopHost C paths config deadline False polls) ?Q s"
    unfolding StopHost_def
  proof (rule wp_single_host [OF keep run(1)])
    fix h s1
    assume "P s1"
    then show "wp (case h of None \<Rightarrow> answer None
      | Some host \<Rightarrow> if False then close_host C host deadline False polls
          else do {
           health \<leftarrow> timely_health C config deadline 2000;
           demand (he_ready health) 3 ''BACKEND_UNAVAILABLE''
             ''refusing to close a host whose debugger state is unobservable; use --force'' False (
           demand (he_debuggeeState health = ''absent'') 3 ''DEBUGGEE_ACTIVE''
             ''refusing to close a host with an active debuggee; use --force'' False
             (close_host C host deadline False polls))
         }) ?Q s1"
      by (cases h) (auto simp: wp_answer intro!: wp_bindI wp_mono [OF health] wp_demand)
  qed simp
  from wpD [OF this run(2)] show ?thesis .
qed

definition paused_body :: string where
  "paused_body = members [(''instance_id'', ControlJsonString ''01234567-89ab-4cde-8f01-23456789abcd''),
     (''debugger_state'', ControlJsonString ''paused'')]"

lemma paused_health:
  "he_debuggeeState (fst (run_state (QueryHealth (sample_os paused_body) config t) s)) \<noteq> ''absent''"
proof -
  have len: "length paused_body \<le> kMaxHealthBytes" "paused_body \<noteq> []" by code_simp+
  have body: "health_body (sample_os paused_body) [] (a, paused_body, b) = (Some paused_body, a, [], b)" for a b
    using len by (simp add: health_body.simps [of _ "[]"] health_body.simps [of _ paused_body] sample_os_def)
  have "he_debuggeeState (health_of_body paused_body) = ''paused''" by code_simp
  with body show ?thesis
    by (cases s) (simp add: QueryHealth_def sample_os_def Wide_def no_health_def)
qed

theorem StopHost_spares_debuggee_witness:
  "let P = \<lambda>s. \<not> snd (snd s);
       paths = \<lparr>pa_releaseRoot = [], pa_host = ascii_wide ''host'', pa_config = [], pa_scyllaIni = []\<rparr>;
       config = \<lparr>sc_bind = ''127.0.0.1'', sc_port = 80, sc_bearerToken = ''secret''\<rparr>;
       (r, s') = run_state (StopHost (sample_os paused_body) paths config 1000 False 50) (0, [], False)
   in P s' \<and> (\<forall>i. r \<noteq> Inr (Some i))"
proof -
  have "inquiries_keep (\<lambda>s. \<not> snd (snd s)) (sample_os paused_body)"
    by (simp add: inquiries_keep_def maintains_def sample_os_def)
  from StopHost_spares_debuggee [OF this paused_health _ surjective_pairing] show ?thesis
    by (simp add: Let_def case_prod_beta)
qed

end
