(* ===== verification/State_Tools.thy ===== *)
theory State_Tools
  imports Run_Tools Dump_Memory
begin

text \<open>
  The tools of \<open>runtime.cpp\<close> that work on the plugin's own state, over the world: \<open>debugger.state\<close>,
  \<open>events.list\<close>, \<open>events.wait\<close>, \<open>debugger.wait_for_pause\<close> and the traces. Their critical sections are
  those of \<open>Runtime_Responses\<close> and \<open>Runtime_Steps\<close>; here they stand in the order the code runs them,
  with the steps of other threads in between.

  Running out of memory while \<open>trace.start\<close> copies the module list is not modelled.
\<close>

unbundle bit_operations_syntax

section \<open>Identifiers\<close>

definition uuid_text :: "u8 list \<Rightarrow> string" where
  "uuid_text bs = concat (map (\<lambda>i. (if i \<in> {4, 6, 8, 10} then ''-'' else []) @ Hex [bs ! i]) [0..<16])"

definition RandomUuid :: "u8 list option \<Rightarrow> string option" where
  "RandomUuid random = map_option (\<lambda>bs. uuid_text (uuid_bytes bs)) random"

section \<open>Events and the pause\<close>

text \<open>\<open>late i\<close>: the deadline has passed when the page loop is at index \<open>i\<close>.\<close>

definition events_list_tool ::
    "('g, 'd) debugger \<Rightarrow> (nat \<Rightarrow> bool) \<Rightarrow> ('w :: len) word Request \<Rightarrow> ('g, string) tool" where
  "events_list_tool D late q = do {
     page \<leftarrow> observe D (events_list late q);
     (case page of
        Inl e \<Rightarrow> State_Monad.return (Inl e)
      | Inr p \<Rightarrow> do {
          generation \<leftarrow> observe D rt_generation;
          answer (events_list_response q generation p)
        })
   }"

text \<open>The states in which a wait on the condition variable tests its condition; the last one ends it.\<close>

primrec wake_ups :: "('g, 'd) debugger \<Rightarrow> nat \<Rightarrow> ('g, Runtime list) call" where
  "wake_ups D 0 = do { r \<leftarrow> observe D (\<lambda>r. r); State_Monad.return [r] }"
| "wake_ups D (Suc n) = do { r \<leftarrow> observe D (\<lambda>r. r); rs \<leftarrow> wake_ups D n; State_Monad.return (r # rs) }"

definition no_event :: event_wait where
  "no_event = \<lparr>ew_changed = False, ew_latest = 0, ew_matched = None\<rparr>"

definition events_wait_tool ::
    "('g, 'd) debugger \<Rightarrow> nat \<Rightarrow> ('w :: len) word Request \<Rightarrow> ('g, string) tool" where
  "events_wait_tool D wakes q = do {
     r \<leftarrow> observe D (\<lambda>r. r);
     woken \<leftarrow> (if fst (findMatch q (rt_eventSessionEpoch r) (latest_sequence r) r no_event)
       then State_Monad.return [] else wake_ups D wakes);
     final \<leftarrow> observe D rt_pluginState;
     (case events_wait q r (woken @ (if woken = [] then [] else [last woken])) final of
        Inl e \<Rightarrow> State_Monad.return (Inl e)
      | Inr a \<Rightarrow> answer (events_wait_response q a))
   }"

definition pause_arrived :: "('w :: len) word Request \<Rightarrow> Runtime \<Rightarrow> bool" where
  "pause_arrived q r \<longleftrightarrow>
     rt_pluginState r \<noteq> pl_ready \<or> rt_pausedGeneration r > rq_afterGeneration q \<or>
     rt_debuggeeState r \<in> {ds_absent, ds_exited, ds_stopping}"

definition wait_for_pause_tool ::
    "('g, ('w :: len) word) debugger \<Rightarrow> 'w word Request \<Rightarrow> ('g, string) tool" where
  "wait_for_pause_tool D q = do {
     admit \<leftarrow> observe D wait_for_pause_admit;
     (case admit of
        Inl e \<Rightarrow> State_Monad.return (Inl e)
      | Inr _ \<Rightarrow> do {
          observation \<leftarrow> observe D (\<lambda>r. wait_for_pause_observe q (pause_arrived q r) r);
          (case observation of
             Inl e \<Rightarrow> State_Monad.return (Inl e)
           | Inr obs \<Rightarrow> do {
               debugging \<leftarrow> dbg_IsDebugging D;
               paused \<leftarrow> (if debugging then observe D (\<lambda>r. rt_debuggeeState r = ds_paused) else State_Monad.return False);
               ensure paused ''BUSY''
                 ''debuggee resumed before snapshot capture'' True False (do {
                   dump \<leftarrow> dbg_RegDump D;
                   (case dump of
                      None \<Rightarrow> refuse ''INTERNAL'' ''paused register snapshot is unavailable'' True False
                    | Some registers \<Rightarrow> do {
                        thread \<leftarrow> dbg_ThreadId D;
                        ok \<leftarrow> observe D (\<lambda>r. PauseObservationCurrent r (snd obs) (po_generation (fst obs)));
                        ensure ok ''BUSY'' ''pause changed during snapshot capture'' True False
                          (answer (wait_for_pause_response q obs (ucast (rg_cip registers)) thread))
                      })
                 })
             })
        })
   }"

definition state_tool ::
    "('g, ('w :: len) word) debugger \<Rightarrow> build \<Rightarrow> 'w word Request \<Rightarrow> ('g, string) call" where
  "state_tool D b q = do {
     reconcile D;
     r \<leftarrow> observe D (\<lambda>r. r);
     debugging \<leftarrow> (if rt_debuggeeState r = ds_paused then dbg_IsDebugging D else State_Monad.return False);
     dump \<leftarrow> (if debugging then dbg_RegDump D else State_Monad.return None);
     r' \<leftarrow> (if debugging \<and> dump = None then State_Monad.return r else observe D (\<lambda>r. r));
     u \<leftarrow> dbg_surroundings D;
     State_Monad.return (StateResponse b (u\<lparr>su_debugging := debugging\<rparr>) (rq_requestId q)
       (map_option (\<lambda>d. ucast (rg_cip d)) dump) r r')
   }"

section \<open>Traces\<close>

text \<open>
  The Windows calls of \<open>trace.start\<close>: random bytes, \<open>OpenProcess\<close>, the base of \<open>ntdll\<close> with the address of
  \<open>DbgBreakPoint\<close> in the plugin's own process, and \<open>ReadProcessMemory\<close>.
\<close>

record 'g trace_os =
  to_random :: "('g, u8 list option) call"
  to_openProcess :: "u32 \<Rightarrow> ('g, handle option) call"
  to_localBreak :: "(u64 \<times> u64) option"
  to_readProcess :: "handle \<Rightarrow> u64 \<Rightarrow> nat \<Rightarrow> ('g, u8 list option) call"

definition trace_module :: "('w :: len) word ModuleRecord \<Rightarrow> TraceModule" where
  "trace_module m = \<lparr>tm_base = ucast (mr_base m), tm_size = ucast (mr_size m), tm_name = mr_name m\<rparr>"

text \<open>The last module of that name counts.\<close>

definition remote_break :: "(u64 \<times> u64) option \<Rightarrow> TraceModule list \<Rightarrow> u64" where
  "remote_break local ms = foldl (\<lambda>found m.
     case local of
       None \<Rightarrow> found
     | Some (ntdll, entry) \<Rightarrow>
         if map tolower (tm_name m) = ''ntdll.dll'' then tm_base m + entry - ntdll else found) 0 ms"

definition trace_mode :: "('w :: len) word Request \<Rightarrow> TraceMode" where
  "trace_mode q = (if rq_traceMode q = ''into'' then mode_into else mode_over)"

definition trace_command :: "('w :: len) word Request \<Rightarrow> string" where
  "trace_command q =
     (if trace_mode q = mode_into then ''TraceIntoConditional 0, .'' else ''TraceOverConditional 0, .'') @
     to_string (rq_traceMaxSteps q)"

text \<open>The thread and register checks; the rest gets the instruction pointer and the modules.\<close>

definition trace_snapshot ::
    "('g, ('w :: len) word) debugger \<Rightarrow> u64 \<Rightarrow> ('w word \<Rightarrow> TraceModule list \<Rightarrow> ('g, 'a) tool) \<Rightarrow> ('g, 'a) tool" where
  "trace_snapshot D g rest = do {
     committed \<leftarrow> observe D TracePauseCommittedLocked;
     ensure committed ''BUSY'' ''native pause phase has not committed for the current debug event'' True False (do {
       eventThread \<leftarrow> dbg_ThreadId D;
       selected \<leftarrow> selected_thread D;
       ensure (\<not> (eventThread = 0 \<or> (selected \<noteq> None \<and> selected \<noteq> Some eventThread))) ''INVALID_DEBUGGER_STATE''
         ''trace requires the selected thread to match the native debug-event thread'' False False (do {
           u \<leftarrow> dbg_surroundings D;
           helper \<leftarrow> observe D (\<lambda>r. case rt_traceInterruptThread r of
               None \<Rightarrow> False | Some h \<Rightarrow> eventThread = su_threadId u h);
           ensure (\<not> helper) ''INVALID_DEBUGGER_STATE''
             ''trace interrupt helper is the debug-event thread; reposition into an application thread before tracing''
             False False (do {
               modules \<leftarrow> CaptureModuleRecords D;
               dump \<leftarrow> dbg_RegDump D;
               (case (dump, modules) of
                  (Some registers, Some ms) \<Rightarrow>
                    ensure (rg_cip registers \<noteq> 0) ''INTERNAL'' ''trace start snapshot is unavailable'' True False (do {
                      ok \<leftarrow> still_paused D g;
                      ensure ok ''BUSY'' ''debugger changed before trace admission'' True False
                        (rest (rg_cip registers) (map trace_module ms))
                    })
                | _ \<Rightarrow> refuse ''INTERNAL'' ''trace start snapshot is unavailable'' True False)
             })
         })
     })
   }"

definition trace_submit ::
    "('g, ('w :: len) word) debugger \<Rightarrow> 'w word Request \<Rightarrow> string \<Rightarrow> Ticket \<Rightarrow> ('g, string) tool" where
  "trace_submit D q i ticket = do {
     current \<leftarrow> observe D (trace_still_current i ticket);
     accepted \<leftarrow> (if current then dbg_CmdExecDirect D (trace_command q) else State_Monad.return False);
     critical D (\<lambda>r. ((), trace_submitted ticket accepted r));
     ensure accepted ''BUSY'' ''debugger rejected synchronous trace start'' True False (do {
       r \<leftarrow> observe D (\<lambda>r. r);
       ensure (Matches (rt_trace r) i \<and> tp_state (rt_trace r) \<noteq> st_starting) ''TIMEOUT''
         ''trace admission outcome is unknown'' False True (do {
           generation \<leftarrow> observe D rt_generation;
           answer (trace_status_response q generation (rt_trace r))
         })
     })
   }"

definition trace_start ::
    "('g, ('w :: len) word) debugger \<Rightarrow> 'g trace_os \<Rightarrow> 'w word Request \<Rightarrow> ('g, string) tool" where
  "trace_start D T q = do {
     active \<leftarrow> observe D (\<lambda>r. Active (rt_trace r));
     ensure (\<not> active) ''BUSY'' ''another trace session is active'' True False (
     paused_snapshot D ''trace start requires a paused debuggee'' (\<lambda>g. trace_snapshot D g (\<lambda>cip ms. do {
       random \<leftarrow> to_random T;
       ensure (random \<noteq> None) ''INTERNAL'' ''trace identity generation failed'' False False (do {
         u \<leftarrow> dbg_surroundings D;
         processEpoch \<leftarrow> observe D rt_processEpoch;
         processId \<leftarrow> observe D rt_processId;
         process \<leftarrow> to_openProcess T processId;
         (let entry = remote_break (to_localBreak T) ms; i = the (RandomUuid random) in do {
           opcodes \<leftarrow> (if process = None \<or> entry = 0 then State_Monad.return None
             else to_readProcess T (the process) entry 2);
           ensure (case opcodes of None \<Rightarrow> False | Some bs \<Rightarrow> length bs = 2 \<and> bs ! 1 = 0xc3)
             ''INVALID_DEBUGGER_STATE'' ''trace requires the verified RET following ntdll DbgBreakPoint'' False False (do {
               ticket \<leftarrow> critical D (trace_admit
                 \<lparr>tr_processEpoch = processEpoch, tr_processId = processId, tr_snapshot = g, tr_id = i,
                  tr_mode = trace_mode q, tr_maxSteps = rq_traceMaxSteps q,
                  tr_deadline = su_steady u + int (rq_traceTimeoutMs q) * 1000000, tr_cip = ucast cip,
                  tr_modules = ms, tr_process = the process, tr_remoteBreak = entry\<rparr>);
               (case ticket of
                  None \<Rightarrow> refuse ''BUSY'' ''trace session could not be admitted'' True False
                | Some t \<Rightarrow> trace_submit D q i t)
             })
         })
       })
     })))
   }"

definition trace_status_tool :: "('g, 'd) debugger \<Rightarrow> ('w :: len) word Request \<Rightarrow> ('g, string) tool" where
  "trace_status_tool D q = do {
     t \<leftarrow> observe D (trace_status q);
     (case t of
        Inl e \<Rightarrow> State_Monad.return (Inl e)
      | Inr t \<Rightarrow> do { generation \<leftarrow> observe D rt_generation; answer (trace_status_response q generation t) })
   }"

definition trace_results_tool :: "('g, 'd) debugger \<Rightarrow> ('w :: len) word Request \<Rightarrow> ('g, string) tool" where
  "trace_results_tool D q = do {
     page \<leftarrow> observe D (trace_results q);
     (case page of
        Inl e \<Rightarrow> State_Monad.return (Inl e)
      | Inr p \<Rightarrow> do { generation \<leftarrow> observe D rt_generation; answer (trace_results_response q generation p) })
   }"

definition trace_cancelled :: "('w :: len) word Request \<Rightarrow> Runtime \<Rightarrow> bool" where
  "trace_cancelled q r \<longleftrightarrow>
     rt_pluginState r \<noteq> pl_ready \<or> \<not> Matches (rt_trace r) (rq_traceId q) \<or> Terminal (rt_trace r) \<or>
     Blocked (rt_traceStop r)"

definition trace_cancel_tool :: "('g, 'd) debugger \<Rightarrow> ('w :: len) word Request \<Rightarrow> ('g, string) tool" where
  "trace_cancel_tool D q = do {
     u \<leftarrow> dbg_surroundings D;
     asked \<leftarrow> critical D (trace_cancel u (rq_traceId q));
     (case asked of
        cancel_not_found \<Rightarrow> refuse ''NOT_FOUND'' ''trace_id is not retained'' False False
      | cancel_terminal t \<Rightarrow> do {
          generation \<leftarrow> observe D rt_generation;
          answer (trace_status_response q generation t)
        }
      | cancel_requested \<Rightarrow> do {
          result \<leftarrow> observe D (\<lambda>r. trace_cancel_result q (trace_cancelled q r) r);
          (case result of
             Inl e \<Rightarrow> State_Monad.return (Inl e)
           | Inr t \<Rightarrow> do { generation \<leftarrow> observe D rt_generation; answer (trace_status_response q generation t) })
        })
   }"

end
