(* ===== verification/Worker.thy ===== *)
theory Worker
  imports State_Tools Run_To Patch_Tools Symbol_Tools String_Tools Profile_Tool
begin

text \<open>
  The operation \<open>Worker\<close> of \<open>runtime.cpp\<close> hands to the executor for a request: the rejections in
  front of it, the resolution of the address for the tools that take one, and the choice of the tool
  by the method, in the order of the code. The parameters of the tools are the record \<open>worker_env\<close>.
\<close>

record ('g, 'd) worker_env =
  we_debugger :: "('g, 'd) debugger"
  we_winapi :: winapi
  we_sdk :: sdk
  we_build :: build
  we_launch :: launch_env
  we_files :: "'g dump_files"
  we_trace :: "'g trace_os"
  we_toWide :: "string \<Rightarrow> u16 list"
  we_toUtf8 :: "u16 list \<Rightarrow> string option"
  we_host :: u32
  we_sidecar :: u32
  we_patchBytes :: nat
  we_bpTypeCode :: "BPXTYPE \<Rightarrow> nat"
  we_ticks :: nat
  we_wakes :: nat
  we_late :: "nat \<Rightarrow> bool"
  we_readConfig :: "'g world \<Rightarrow> string option"
  we_replaceConfig :: "'g world \<Rightarrow> string \<Rightarrow> bool \<times> 'g world"
  we_digest :: "string \<Rightarrow> u8 list option"
  we_startupGeneration :: string
  we_startupProfile :: string

text \<open>A tool that prints its own response, and one whose generation and result are wrapped.\<close>

definition spoken :: "('w :: len) word Request \<Rightarrow> ('g, string) tool \<Rightarrow> ('g, string) call" where
  "spoken q m = do {
     x \<leftarrow> m;
     State_Monad.return (case x of Inl e \<Rightarrow> ErrorResponse q e | Inr s \<Rightarrow> s)
   }"

definition wrapped :: "('w :: len) word Request \<Rightarrow> ('g, u64 \<times> string) tool \<Rightarrow> ('g, string) call" where
  "wrapped q m = do { x \<leftarrow> m; State_Monad.return (tool_response q x) }"

section \<open>Choosing the tool\<close>

text \<open>The tools that need a resolved address.\<close>

definition address_tool ::
    "('g, ('w :: len) word) worker_env \<Rightarrow> 'w word Request \<Rightarrow> 'w word ResolvedLocation \<Rightarrow> u64 \<Rightarrow>
     ('g, u64 \<times> string) tool" where
  "address_tool E q loc g = (
     let D = we_debugger E; m = rq_method q in
     if m = ''address.resolve'' then address_resolve loc g
     else if m = ''functions.at'' then functions_at D (we_winapi E) loc g
     else if m \<in> {''assembly.preview'', ''assembly.patch'', ''patches.restore''} then patch_tool D q loc g
     else if m = ''debugger.run_to_address'' then run_to_address D (we_bpTypeCode E) (we_ticks E) q loc g
     else if m = ''analysis.function'' then analysis_function D (we_winapi E) loc g
     else if m = ''memory.write'' then memory_write D q loc g
     else if m \<in> {''breakpoints.enable'', ''breakpoints.disable''}
     then breakpoint_transition D (we_sdk E) (we_build E) q loc g
     else if m \<in> {''breakpoints.conditional.set'', ''breakpoints.conditional.remove''}
     then conditional_mutation D q loc g
     else if m \<in> {''breakpoints.set'', ''breakpoints.remove''} then software_mutation D q loc g
     else if m \<in> {''breakpoints.hardware.set'', ''breakpoints.hardware.remove''}
     then hardware_mutation D (we_sdk E) (we_build E) (we_ticks E) q loc g
     else if m \<in> {''breakpoints.memory.set'', ''breakpoints.memory.remove''}
     then memory_bp_mutation D (we_sdk E) (we_ticks E) q loc g
     else if m = ''memory.dump'' then memory_dump D (we_files E) (we_toWide E) q loc g
     else if m = ''memory.read'' then memory_read D q loc g
     else if m = ''symbols.resolve'' then symbols_resolve D (we_winapi E) q (Some (loc, g))
     else if m = ''references.to'' then references_to D q loc g
     else if m = ''disassembly.read'' then disassembly_read D q loc g
     else refuse ''UNSUPPORTED'' ''tool not implemented by plugin'' False False)"

text \<open>The others behind the test of the discovery cursor.\<close>

definition plain_tool ::
    "('g, ('w :: len) word) worker_env \<Rightarrow> 'w word Request \<Rightarrow> ('g, u64 \<times> string) tool" where
  "plain_tool E q = (
     let D = we_debugger E; W = we_winapi E; b = we_build E; m = rq_method q in
     if m = ''memory.search'' then memory_search D W q
     else if m = ''debuggee.attach'' then debuggee_attach D (we_host E) (we_sidecar E) q
     else if m \<in> {''debuggee.launch'', ''debuggee.launch_dll''} then debuggee_launch D W (we_launch E) b q
     else if m = ''debuggee.detach'' then debuggee_detach D q
     else if m = ''debugger.step_out'' then step_out D q
     else if m \<in> {''debugger.pause'', ''debugger.resume'', ''debugger.continue_exception'', ''debugger.step_into'',
       ''debugger.step_over'', ''debugger.stop''} then run_control D b q
     else if m = ''expressions.evaluate_batch'' then expressions_evaluate_batch D q
     else if m = ''process.peb'' then process_peb D b
     else if m = ''context.arguments'' then context_arguments D b q
     else if m = ''expression.evaluate'' then expression_evaluate D q
     else if m = ''registers.write'' then registers_write D b q
     else if m = ''registers.read'' then registers_read D b q
     else if m = ''strings.search'' then strings_search D W (we_toUtf8 E) q
     else if m = ''patches.list'' then patches_list D W (we_patchBytes E) q
     else if m = ''symbols.resolve'' then symbols_resolve D W q None
     else if m = ''sections.list'' then sections_list D W q
     else if m = ''imports.list'' then imports_list D W b q
     else if m = ''exports.list'' then exports_list D W q
     else if m = ''symbols.search'' then symbols_search D W q
     else if m = ''functions.list'' then functions_list D W q
     else if m = ''callstack.read'' then callstack_read D q
     else if m = ''threads.list'' then threads_list D q
     else if m = ''memory.map'' then memory_map D W q
     else if m = ''breakpoints.list'' then breakpoints_list D (we_sdk E) q
     else if m = ''modules.list'' then modules_list D q
     else refuse ''UNSUPPORTED'' ''tool not implemented by plugin'' False False)"

definition cursor_checked :: "('w :: len) word Request \<Rightarrow> ('g, 'a) tool \<Rightarrow> ('g, 'a) tool" where
  "cursor_checked q rest = ensure (\<not> rq_discoveryCursorInvalid q) ''INVALID_ARGUMENT''
     ''cursor does not match the discovery filters'' False False rest"

text \<open>The tools from \<open>debugger.snapshot\<close> on.\<close>

definition debugger_tool ::
    "('g, ('w :: len) word) worker_env \<Rightarrow> 'w word Request \<Rightarrow> ('g, u64 \<times> string) tool" where
  "debugger_tool E q = (
     let D = we_debugger E; m = rq_method q in
     if m = ''debugger.snapshot'' then debugger_snapshot D (we_build E) q
     else if m \<in> {''breakpoints.enable'', ''breakpoints.disable''} \<and> rq_breakpointKind q = ''exception''
     then exception_toggle D (we_sdk E) q
     else if m \<in> {''breakpoints.exception.set'', ''breakpoints.exception.remove''}
     then exception_mutation D (we_sdk E) q
     else if addressMethod q
     then attempt (resolved_address D (we_winapi E) q) (\<lambda>(loc, g). cursor_checked q (address_tool E q loc g))
     else cursor_checked q (plain_tool E q))"

definition chosen_tool :: "('g, ('w :: len) word) worker_env \<Rightarrow> 'w word Request \<Rightarrow> ('g, string) call" where
  "chosen_tool E q = (
     let D = we_debugger E; m = rq_method q in
     if m = ''debugger.state'' then state_tool D (we_build E) q
     else if m = ''events.list'' then spoken q (events_list_tool D (we_late E) q)
     else if m = ''events.wait'' then spoken q (events_wait_tool D (we_wakes E) q)
     else if m = ''trace.status'' then spoken q (trace_status_tool D q)
     else if m = ''trace.results'' then spoken q (trace_results_tool D q)
     else if m = ''debugger.wait_for_pause'' then spoken q (wait_for_pause_tool D q)
     else if m = ''trace.start'' then spoken q (trace_start D (we_trace E) q)
     else if m = ''trace.cancel'' then spoken q (trace_cancel_tool D q)
     else wrapped q (debugger_tool E q))"

section \<open>Rejections and the executor\<close>

definition rejected_by_helper :: "('g, 'd) debugger \<Rightarrow> ('w :: len) word Request \<Rightarrow> ('g, tool_error + unit) call" where
  "rejected_by_helper D q = do { u \<leftarrow> dbg_surroundings D; observe D (\<lambda>r. helper_rejection u r q) }"

definition operation :: "('g, ('w :: len) word) worker_env \<Rightarrow> 'w word Request \<Rightarrow> ('g, string) call" where
  "operation E q = do {
     helper \<leftarrow> rejected_by_helper (we_debugger E) q;
     (case helper of
        Inl e \<Rightarrow> State_Monad.return (ErrorResponse q e)
      | Inr _ \<Rightarrow> do {
          tracing \<leftarrow> observe (we_debugger E) (\<lambda>r. trace_rejection r q);
          (case tracing of
             Inl e \<Rightarrow> State_Monad.return (ErrorResponse q e)
           | Inr _ \<Rightarrow> chosen_tool E q)
        })
   }"

text \<open>
  The response to one request: \<open>status\<close> is what \<open>Execute\<close> reports. An operation that the executor
  has refused or dropped does not run here; one that is reported as late while it runs does, and its
  own response is discarded.
\<close>

definition profile_response :: "('g, ('w :: len) word) worker_env \<Rightarrow> 'w word Request \<Rightarrow> ('g, string) call" where
  "profile_response E q = do {
     expired \<leftarrow> dbg_expired (we_debugger E);
     if expired
     then State_Monad.return (ErrorResponse q
       \<lparr>te_code = ''TIMEOUT'', te_message = ''operation deadline elapsed'', te_retryable = \<not> rq_mutation q,
        te_unknown = False, te_details = None\<rparr>)
     else State (ScyllaHideProfileResponse (we_readConfig E) (we_replaceConfig E) (we_digest E) (we_build E)
       (we_startupGeneration E) (we_startupProfile E) (rq_requestId q) (rq_operationId q) (rq_scyllaAction q)
       (rq_scyllaProfile q) (rq_expectedConfigGeneration q))
   }"

definition serve :: "('g, ('w :: len) word) worker_env \<Rightarrow> ExecutionStatus \<Rightarrow> 'w word Request \<Rightarrow> ('g, string) call" where
  "serve E status q = do {
     helper \<leftarrow> rejected_by_helper (we_debugger E) q;
     (case helper of
        Inl e \<Rightarrow> State_Monad.return (ErrorResponse q e)
      | Inr _ \<Rightarrow>
          if rq_method q = ''scyllahide.profile'' then profile_response E q
          else do {
            v \<leftarrow> (if status \<in> {ex_completed, ex_timedOutStarted} then operation E q else State_Monad.return []);
            State_Monad.return (execution_response q status v)
          })
   }"

end
