(* ===== verification/Read_Only.thy ===== *)
theory Read_Only
  imports Worker
begin

text \<open>
  Requests without an operation id. The methods that are no mutations only reach tools that ask the
  debugger: whatever those calls keep, the request keeps, whether it is answered or refused.
\<close>

named_theorems inspecting \<open>computations that only ask the debugger\<close>

text \<open>
  A property of the debugger's state that no query ends; it does not speak about the plugin's own
  state, which \<open>debugger.state\<close> brings up to date.
\<close>

definition table_inspects :: "('g world \<Rightarrow> bool) \<Rightarrow> ('g, 'd) DBGFUNCTIONS \<Rightarrow> bool" where
  "table_inspects P fs \<longleftrightarrow>
     optionally (\<lambda>(probe, enum). maintains P probe \<and> (\<forall>n. maintains P (enum n))) (fn_PatchEnum fs) \<and>
     optionally (\<lambda>f. \<forall>h. maintains P (f h)) (fn_GetCallStackByThread fs)"

definition inspects :: "('g world \<Rightarrow> bool) \<Rightarrow> ('g, 'd) debugger \<Rightarrow> bool" where
  "inspects P D \<longleftrightarrow>
     queries_keep P D \<and> (\<forall>w r. P (w\<lparr>w_runtime := r\<rparr>) = P w) \<and>
     (\<forall>a. maintains P (dbg_FunctionInfo D a)) \<and> maintains P (dbg_FunctionList D) \<and> maintains P (dbg_SymbolList D) \<and>
     (\<forall>a. maintains P (dbg_InfoFromAddr D a)) \<and> (\<forall>a. maintains P (dbg_SectionList D a)) \<and>
     (\<forall>m. maintains P (dbg_Imports D m)) \<and> (\<forall>m. maintains P (dbg_Exports D m)) \<and> maintains P (dbg_MemMap D) \<and>
     (\<forall>a. maintains P (dbg_XrefCount D a)) \<and> (\<forall>a. maintains P (dbg_XrefGet D a)) \<and>
     (\<forall>s. maintains P (dbg_ValFromString D s)) \<and> maintains P (dbg_ProcessId D) \<and>
     (\<forall>p. maintains P (dbg_PebAddress D p)) \<and> maintains P (dbg_surroundings D) \<and>
     optionally (table_inspects P) (dbg_functions D)"

lemma inspectsD [inspecting]:
  assumes "inspects P D"
  shows "maintains P (dbg_others D)" "maintains P (dbg_expired D)" "maintains P (dbg_IsDebugging D)"
    "maintains P (dbg_ModuleList D)" "maintains P (dbg_MemRead D a n)" "maintains P (dbg_MemFindBaseAddr D a)"
    "maintains P (dbg_DisasmAt D a)" "maintains P (dbg_RegDump D)" "maintains P (dbg_ThreadList D)"
    "maintains P (dbg_ThreadHandle D)" "maintains P (dbg_ThreadId D)" "maintains P (dbg_GetThreadContext D a)"
    "maintains P (dbg_BpList D t)" "maintains P (dbg_FunctionInfo D a)" "maintains P (dbg_FunctionList D)"
    "maintains P (dbg_SymbolList D)" "maintains P (dbg_InfoFromAddr D a)" "maintains P (dbg_SectionList D a)"
    "maintains P (dbg_Imports D m)" "maintains P (dbg_Exports D m)" "maintains P (dbg_MemMap D)"
    "maintains P (dbg_XrefCount D a)" "maintains P (dbg_XrefGet D a)" "maintains P (dbg_ValFromString D s)"
    "maintains P (dbg_ProcessId D)" "maintains P (dbg_PebAddress D p)" "maintains P (dbg_surroundings D)"
  using assms by (auto simp: inspects_def queries_keep_def)

lemma inspects_queries: "inspects P D \<Longrightarrow> queries_keep P D"
  by (simp add: inspects_def)

section \<open>Shared steps\<close>

lemma maintains_paused_snapshot [inspecting]:
  assumes i: "inspects P D" and "\<And>g. maintains P (rest g)"
  shows "maintains P (paused_snapshot D m rest)"
  unfolding paused_snapshot_def by (intro maintains_rules inspecting assms)

lemma maintains_modules [inspecting]:
  assumes i: "inspects P D"
  shows "maintains P (CaptureModuleRecords D)"
    "(\<And>ms. maintains P (rest ms)) \<Longrightarrow> maintains P (captured_modules D rest)"
  unfolding captured_modules_def by (intro maintains_rules maintains_CaptureModuleRecords inspects_queries i)+

lemma maintains_address [inspecting]:
  assumes i: "inspects P D"
  shows "maintains P (resolved_address D W q)"
  by (rule maintains_resolved_address [OF inspects_queries [OF i]])

lemma maintains_cursor [inspecting]:
  assumes "maintains P rest"
  shows "maintains P (fresh_cursor q g c m rest)" "maintains P (index_valid q n rest)" "maintains P (cursor_checked q rest)"
  unfolding fresh_cursor_def index_valid_def cursor_checked_def by (intro maintains_rules assms)+

lemma maintains_every_256 [inspecting]:
  assumes "inspects P D" "maintains P rest"
  shows "maintains P (every_256 D snapshot late changed n rest)"
  unfolding every_256_def by (intro maintains_rules inspecting assms)

lemma maintains_filtered_page [inspecting]:
  assumes "\<And>n x. maintains P (visit n x)"
  shows "maintains P (filtered_page visit limit n k xs)"
  by (induction xs arbitrary: n k) (auto simp: assms intro!: maintains_rules)

lemma maintains_selected_thread [inspecting]:
  assumes i: "inspects P D"
  shows "maintains P (selected_thread D)"
  unfolding selected_thread_def by (intro maintains_rules inspecting i)

section \<open>The loops of the tools\<close>

lemma inspecting_disassemble [inspecting]:
  assumes i: "inspects P D"
  shows "maintains P (disassemble D timed c m n a)"
  by (induction n arbitrary: a)
    (simp_all only: disassemble.simps, (intro maintains_rules inspecting i | assumption)+)

lemma inspecting_evaluate_all [inspecting]:
  assumes i: "inspects P D"
  shows "maintains P (evaluate_all D es)"
  by (induction es)
    (simp_all only: evaluate_all.simps, (intro maintains_rules inspecting i | assumption)+)

lemma inspecting_read_fields [inspecting]:
  assumes i: "inspects P D"
  shows "maintains P (read_fields D fs)"
  by (induction fs)
    (simp_all only: read_fields.simps, (intro maintains_rules inspecting i | assumption)+)

lemma inspecting_read_duint [inspecting]:
  assumes i: "inspects P D"
  shows "maintains P (read_duint D b a)"
  unfolding read_duint_def by (intro maintains_rules inspecting i)

lemma inspecting_read_arguments [inspecting]:
  assumes i: "inspects P D"
  shows "maintains P (read_arguments D b c r is)"
  by (induction "is")
    (simp_all only: read_arguments.simps, (intro maintains_rules inspecting i | assumption)+)

lemma inspecting_capture_thread [inspecting]:
  assumes i: "inspects P D"
  shows "maintains P (capture_thread D b t)"
  unfolding capture_thread_def thread_registers_def by (intro maintains_rules inspecting i)

lemma inspecting_captured [inspecting]:
  assumes i: "inspects P D" and "\<And>c. maintains P (rest c)"
  shows "maintains P (captured D b q rest)"
  unfolding captured_def by (intro maintains_rules inspecting assms)

lemma inspecting_read_chunks [inspecting]:
  assumes i: "inspects P D"
  shows "maintains P (read_chunks D g cs)"
  by (induction cs)
    (simp_all only: read_chunks.simps, (intro maintains_rules inspecting i | assumption)+)

lemma inspecting_search_scope [inspecting]:
  assumes i: "inspects P D"
  shows "maintains P (search_scope D W q ms)"
  unfolding search_scope_def by (intro maintains_rules inspecting i)

lemma inspecting_search_scan [inspecting]:
  assumes i: "inspects P D"
  shows "maintains P (search_scan D g p limit start len n)"
  unfolding search_scan_def by (intro maintains_rules inspecting i)

lemma inspecting_patch_items [inspecting]:
  assumes i: "inspects P D"
  shows "maintains P (patch_items D ms g rs)"
  by (induction rs)
    (simp_all only: patch_items.simps, (intro maintains_rules inspecting i | assumption)+)

lemma inspecting_enumerate_patches [inspecting]:
  assumes "maintains P probe" "\<And>n. maintains P (enum n)"
  shows "maintains P (enumerate_patches probe enum sz)"
  unfolding enumerate_patches_def by (intro maintains_rules assms)

lemma inspecting_count_matched [inspecting]:
  assumes i: "inspects P D"
  shows "maintains P (count_matched D late test n xs)"
  by (induction xs arbitrary: n)
    (simp_all only: count_matched.simps, (intro maintains_rules inspecting i | assumption)+)

lemma inspecting_counted_list [inspecting]:
  assumes i: "inspects P D" and "\<And>n x. maintains P (visit n x)"
  shows "maintains P (counted_list D q g m late changed completeness test visit xs)"
  unfolding counted_list_def by (intro maintains_rules inspecting assms)

lemma inspecting_discovery [inspecting]:
  assumes i: "inspects P D" and "\<And>g ms m. maintains P (rest g ms m)"
  shows "maintains P (discovery D W q rest)"
  unfolding discovery_def by (intro maintains_rules inspecting assms)

lemma inspecting_bounded_list [inspecting]:
  "(\<And>xs. maintains P (rest xs)) \<Longrightarrow> maintains P (bounded_list most u e l rest)"
  unfolding bounded_list_def by (intro maintains_rules)

lemma inspecting_native_module [inspecting]:
  assumes i: "inspects P D" and "\<And>n. maintains P (rest n)"
  shows "maintains P (native_module D m t rest)"
  unfolding native_module_def by (intro maintains_rules inspecting assms)

lemma inspecting_read_pages [inspecting]:
  assumes i: "inspects P D"
  shows "maintains P (read_pages D a cs)"
  by (induction cs)
    (simp_all only: read_pages.simps, (intro maintains_rules inspecting i | assumption)+)

lemma inspecting_read_scan [inspecting]:
  assumes i: "inspects P D"
  shows "maintains P (read_scan D g a cs)"
  by (induction cs)
    (simp_all only: read_scan.simps, (intro maintains_rules inspecting i | assumption)+)

lemma inspecting_checkpoints [inspecting]:
  assumes i: "inspects P D" and "maintains P rest"
  shows "maintains P (checkpoints D g n rest)"
  by (induction n) (simp_all only: checkpoints.simps, (intro maintains_rules inspecting assms | assumption)+)

lemma inspecting_typed_fields [inspecting]:
  assumes i: "inspects P D"
  shows "maintains P (typed_fields D k bp)"
  unfolding typed_fields_def
  by (cases "bp_type bp"; simp only: BPXTYPE.case; (intro maintains_rules)?)
    (use i in \<open>auto simp: inspects_def queries_keep_def optionally_def table_queries_keep_def split: option.splits\<close>)

lemma inspecting_breakpoint_items [inspecting]:
  assumes i: "inspects P D"
  shows "maintains P (breakpoint_items D k bs)"
  by (induction bs)
    (simp_all only: breakpoint_items.simps, (intro maintains_rules inspecting i | assumption)+)

section \<open>The tools\<close>

lemma inspecting_functions_at [inspecting]:
  assumes i: "inspects P D"
  shows "maintains P (functions_at D W loc g)"
  unfolding functions_at_def Let_def by (intro maintains_rules inspecting i)

lemma inspecting_memory_read [inspecting]:
  assumes i: "inspects P D"
  shows "maintains P (memory_read D q loc g)"
  unfolding memory_read_def by (intro maintains_rules inspecting i)

lemma inspecting_disassembly_read [inspecting]:
  assumes i: "inspects P D"
  shows "maintains P (disassembly_read D q loc g)"
  unfolding disassembly_read_def by (intro maintains_rules inspecting i)

lemma inspecting_expression_evaluate [inspecting]:
  assumes i: "inspects P D"
  shows "maintains P (expression_evaluate D q)"
  unfolding expression_evaluate_def by (intro maintains_rules inspecting i)

lemma inspecting_expressions_evaluate_batch [inspecting]:
  assumes i: "inspects P D"
  shows "maintains P (expressions_evaluate_batch D q)"
  unfolding expressions_evaluate_batch_def by (intro maintains_rules inspecting i)

lemma inspecting_process_peb [inspecting]:
  assumes i: "inspects P D"
  shows "maintains P (process_peb D b)"
  unfolding process_peb_def by (intro maintains_rules inspecting i)

lemma inspecting_context_arguments [inspecting]:
  assumes i: "inspects P D"
  shows "maintains P (context_arguments D b q)"
  unfolding context_arguments_def by (intro maintains_rules inspecting i)

lemma inspecting_registers_read [inspecting]:
  assumes i: "inspects P D"
  shows "maintains P (registers_read D b q)"
  unfolding registers_read_def by (intro maintains_rules inspecting i)

lemma inspecting_debugger_snapshot [inspecting]:
  assumes i: "inspects P D"
  shows "maintains P (debugger_snapshot D b q)"
  unfolding debugger_snapshot_def by (intro maintains_rules inspecting i)

lemma inspecting_callstack_read [inspecting]:
  assumes i: "inspects P D"
  shows "maintains P (callstack_read D q)"
  unfolding callstack_read_def by (intro maintains_rules inspecting i)
    (use i in \<open>auto simp: inspects_def optionally_def table_inspects_def split: option.splits\<close>)

lemma inspecting_modules_list [inspecting]:
  assumes i: "inspects P D"
  shows "maintains P (modules_list D q)"
  unfolding modules_list_def by (intro maintains_rules inspecting i)

lemma inspecting_threads_list [inspecting]:
  assumes i: "inspects P D"
  shows "maintains P (threads_list D q)"
  unfolding threads_list_def by (intro maintains_rules inspecting i)

lemma inspecting_breakpoints_list [inspecting]:
  assumes i: "inspects P D"
  shows "maintains P (breakpoints_list D k q)"
  unfolding breakpoints_list_def by (intro maintains_rules inspecting i)

lemma inspecting_references_to [inspecting]:
  assumes i: "inspects P D"
  shows "maintains P (references_to D q loc g)"
  unfolding references_to_def by (intro maintains_rules inspecting i)

lemma inspecting_memory_map [inspecting]:
  assumes i: "inspects P D"
  shows "maintains P (memory_map D W q)"
  unfolding memory_map_def visit_region_def by (intro maintains_rules inspecting i)

lemma inspecting_memory_search [inspecting]:
  assumes i: "inspects P D"
  shows "maintains P (memory_search D W q)"
  unfolding memory_search_def by (intro maintains_rules inspecting i)

lemma inspecting_patches_list [inspecting]:
  assumes i: "inspects P D"
  shows "maintains P (patches_list D W sz q)"
  unfolding patches_list_def by (intro maintains_rules inspecting i)
    (use i in \<open>auto simp: inspects_def optionally_def table_inspects_def split: option.splits\<close>)

lemma inspecting_sections_list [inspecting]:
  assumes i: "inspects P D"
  shows "maintains P (sections_list D W q)"
  unfolding sections_list_def visit_section_def by (intro maintains_rules inspecting i)

lemma inspecting_imports_list [inspecting]:
  assumes i: "inspects P D"
  shows "maintains P (imports_list D W b q)"
  unfolding imports_list_def visit_import_def Let_def by (intro maintains_rules inspecting i)

lemma inspecting_exports_list [inspecting]:
  assumes i: "inspects P D"
  shows "maintains P (exports_list D W q)"
  unfolding exports_list_def visit_export_def Let_def by (intro maintains_rules inspecting i)

lemma inspecting_symbols_search [inspecting]:
  assumes i: "inspects P D"
  shows "maintains P (symbols_search D W q)"
  unfolding symbols_search_def known_list_def visit_symbol_def by (intro maintains_rules inspecting i)

lemma inspecting_join_names [inspecting]:
  assumes i: "inspects P D"
  shows "maintains P (join_names D W m n ss names)"
  by (induction ss arbitrary: n names)
    (simp_all only: join_names.simps, (intro maintains_rules inspecting i | assumption)+)

lemma inspecting_resolve_symbols [inspecting]:
  assumes i: "inspects P D"
  shows "maintains P (resolve_symbols D hit n ss)"
  by (induction ss arbitrary: n)
    (simp_all only: resolve_symbols.simps, (intro maintains_rules inspecting i | assumption)+)

lemma inspecting_functions_list [inspecting]:
  assumes i: "inspects P D"
  shows "maintains P (functions_list D W q)"
  unfolding functions_list_def known_list_def visit_function_def by (intro maintains_rules inspecting i)

lemma inspecting_symbols_resolve [inspecting]:
  assumes i: "inspects P D"
  shows "maintains P (symbols_resolve D W q loc)"
  unfolding symbols_resolve_def by (intro maintains_rules inspecting i)

lemma inspecting_strings_search [inspecting]:
  assumes i: "inspects P D"
  shows "maintains P (strings_search D W toUtf8 q)"
  unfolding strings_search_def by (intro maintains_rules inspecting i)

lemma inspecting_preview [inspecting]:
  assumes i: "inspects P D" and m: "rq_method q = ''assembly.preview''"
  shows "maintains P (patch_tool D q loc g)"
proof -
  have "maintains P (assembly_preview D fs q loc g)"
    if "dbg_functions D = Some fs" "fn_Assemble fs \<noteq> None" for fs
    unfolding assembly_preview_def
    by (intro maintains_rules inspecting i maintains_assemble [OF inspects_queries [OF i]] that)
  then show ?thesis
    by (auto simp: patch_tool_def patch_functions_missing_def m maintains_rules split: option.split)
qed

section \<open>The tools on the plugin's state\<close>

lemma inspecting_critical [inspecting]:
  assumes i: "inspects P D"
  shows "maintains P (critical D f)"
proof -
  have "P (w\<lparr>w_runtime := r\<rparr>) = P w" for w r
    using i by (simp add: inspects_def)
  moreover have "P (snd (run_state (dbg_others D) w))" if "P w" for w
    by (rule maintainsD [OF inspectsD(1) [OF i] that prod.collapse [symmetric]])
  ultimately show ?thesis
    by (simp add: critical_def maintains_def case_prod_beta)
qed

lemma inspecting_reconcile [inspecting]:
  assumes i: "inspects P D"
  shows "maintains P (reconcile D)"
  unfolding reconcile_def by (intro maintains_rules inspecting i)

lemma inspecting_wake_ups [inspecting]:
  assumes i: "inspects P D"
  shows "maintains P (wake_ups D n)"
  by (induction n) (simp_all only: wake_ups.simps, (intro maintains_rules inspecting i | assumption)+)

lemma inspecting_state_tool [inspecting]:
  assumes i: "inspects P D"
  shows "maintains P (state_tool D b q)"
  unfolding state_tool_def by (intro maintains_rules inspecting i)

lemma inspecting_events_list_tool [inspecting]:
  assumes i: "inspects P D"
  shows "maintains P (events_list_tool D late q)"
  unfolding events_list_tool_def by (intro maintains_rules inspecting i)

lemma inspecting_events_wait_tool [inspecting]:
  assumes i: "inspects P D"
  shows "maintains P (events_wait_tool D n q)"
  unfolding events_wait_tool_def by (intro maintains_rules inspecting i)

lemma inspecting_wait_for_pause_tool [inspecting]:
  assumes i: "inspects P D"
  shows "maintains P (wait_for_pause_tool D q)"
  unfolding wait_for_pause_tool_def by (intro maintains_rules inspecting i)

lemma inspecting_trace_status_tool [inspecting]:
  assumes i: "inspects P D"
  shows "maintains P (trace_status_tool D q)"
  unfolding trace_status_tool_def by (intro maintains_rules inspecting i)

lemma inspecting_trace_results_tool [inspecting]:
  assumes i: "inspects P D"
  shows "maintains P (trace_results_tool D q)"
  unfolding trace_results_tool_def by (intro maintains_rules inspecting i)

section \<open>The dispatch\<close>

lemma inspecting_spoken [inspecting]: "maintains P m \<Longrightarrow> maintains P (spoken q m)"
  unfolding spoken_def by (intro maintains_rules)

lemma inspecting_wrapped [inspecting]: "maintains P m \<Longrightarrow> maintains P (wrapped q m)"
  unfolding wrapped_def by (intro maintains_rules)

lemma inspecting_rejected_by_helper [inspecting]: "inspects P D \<Longrightarrow> maintains P (rejected_by_helper D q)"
  unfolding rejected_by_helper_def by (intro maintains_rules inspecting)

lemma inspecting_cursor_checked [inspecting]: "maintains P m \<Longrightarrow> maintains P (cursor_checked q m)"
  unfolding cursor_checked_def by (intro maintains_rules)

lemma inspecting_address_tool [inspecting]:
  assumes i: "inspects P (we_debugger E)" and m: "\<not> IsMutation (rq_method q)"
  shows "maintains P (address_tool E q loc g)"
  using m unfolding address_tool_def Let_def address_resolve_def
  by (auto simp: IsMutation_def mutation_methods_def intro!: maintains_refuse maintains_answer inspecting i)

lemma inspecting_plain_tool [inspecting]:
  assumes i: "inspects P (we_debugger E)" and m: "\<not> IsMutation (rq_method q)"
  shows "maintains P (plain_tool E q)"
  using m unfolding plain_tool_def Let_def
  by (auto simp: IsMutation_def mutation_methods_def intro!: maintains_refuse maintains_answer inspecting i)

lemma inspecting_debugger_tool [inspecting]:
  assumes i: "inspects P (we_debugger E)" and m: "\<not> IsMutation (rq_method q)"
  shows "maintains P (debugger_tool E q)"
proof -
  have "rq_method q \<notin> {''breakpoints.enable'', ''breakpoints.disable'', ''breakpoints.exception.set'',
      ''breakpoints.exception.remove''}"
    using m by (auto simp: IsMutation_def mutation_methods_def)
  then show ?thesis
    unfolding debugger_tool_def Let_def
    by (simp, intro conjI impI maintains_rules inspecting i m)
qed

lemma inspecting_chosen_tool [inspecting]:
  assumes i: "inspects P (we_debugger E)" and m: "\<not> IsMutation (rq_method q)"
  shows "maintains P (chosen_tool E q)"
proof -
  have "rq_method q \<notin> {''trace.start'', ''trace.cancel''}"
    using m by (auto simp: IsMutation_def mutation_methods_def)
  then show ?thesis
    unfolding chosen_tool_def Let_def
    by (simp, intro conjI impI maintains_rules inspecting i m)
qed

lemma inspecting_operation [inspecting]:
  assumes "inspects P (we_debugger E)" "\<not> IsMutation (rq_method q)"
  shows "maintains P (operation E q)"
  unfolding operation_def by (intro maintains_rules inspecting assms)

end
