(* ===== verification/Session.thy ===== *)
theory Session
  imports Worker Frames
begin

text \<open>
  \<open>Runtime::Worker\<close> around the dispatch: the connection of the sidecar, the handshake, and the loop
  that reads a request, serves it and writes the response. The loop is followed for a number of
  requests; the result is the list of the frames that were answered, with their responses.
\<close>

text \<open>
  The pipe, as the calls \<open>ReadFile\<close> and \<open>WriteFile\<close> on a world that contains it; whether
  \<open>ConnectNamedPipe\<close> finds a client; what \<open>Execute\<close> reports for the next operation; the JSON library
  and the conversion the parser uses; whether the copy of the instance id throws.
\<close>

record ('g, 'j) session_env =
  se_connect :: "('g, bool) call"
  se_readFile :: "'g world \<Rightarrow> nat \<Rightarrow> (string \<times> 'g world) option"
  se_writeFile :: "'g world \<Rightarrow> string \<Rightarrow> (nat \<times> 'g world) option"
  se_execute :: "('g, ExecutionStatus) call"
  se_jansson :: "'j jansson"
  se_wide :: "string \<Rightarrow> u16 list option"
  se_pluginPid :: u32
  se_nonce :: string
  se_throws :: bool

definition read_frame :: "('g, 'j) session_env \<Rightarrow> ('g, string option) call" where
  "read_frame S = State (ReadFrame (se_readFile S))"

definition write_frame :: "('g, 'j) session_env \<Rightarrow> string \<Rightarrow> ('g, bool) call" where
  "write_frame S payload = State (\<lambda>w. WriteFrame (se_writeFile S) w payload)"

definition handshake_text :: "('g, 'j) session_env \<Rightarrow> build \<Rightarrow> string" where
  "handshake_text S b =
     ''{'' @ json_key ''protocol_major'' @ ''1,'' @ json_key ''protocol_minor'' @ ''1,'' @
     json_key ''backend'' @ JsonString (if b = Win64 then ''x64dbg'' else ''x32dbg'') @
     '','' @ json_key ''plugin_pid'' @ to_string (unat (se_pluginPid S)) @
     '','' @ json_key ''nonce'' @ JsonString (se_nonce S) @ ''}''"

text \<open>The request in a frame, when the plugin is still ready and the parser accepts it.\<close>

definition next_request ::
    "('g, ('w :: len) word) worker_env \<Rightarrow> ('g, 'j) session_env \<Rightarrow> ('g, (string \<times> 'w word Request) option) call" where
  "next_request E S = do {
     frame \<leftarrow> read_frame S;
     (case frame of
        None \<Rightarrow> State_Monad.return None
      | Some bytes \<Rightarrow> do {
          ready \<leftarrow> observe (we_debugger E) (\<lambda>r. rt_pluginState r = pl_ready);
          State_Monad.return
            (if ready
             then map_option (\<lambda>q. (bytes, q))
               (ParseRequest (se_jansson S) (we_sdk E) (we_build E) (se_wide S) bytes)
             else None)
        })
   }"

primrec worker_loop ::
    "('g, ('w :: len) word) worker_env \<Rightarrow> ('g, 'j) session_env \<Rightarrow> nat \<Rightarrow> ('g, (string \<times> string) list) call" where
  "worker_loop E S 0 = State_Monad.return []"
| "worker_loop E S (Suc n) = do {
     received \<leftarrow> next_request E S;
     (case received of
        None \<Rightarrow> State_Monad.return []
      | Some (bytes, q) \<Rightarrow> do {
          status \<leftarrow> se_execute S;
          response \<leftarrow> serve E status q;
          written \<leftarrow> write_frame S response;
          if written
          then do { rest \<leftarrow> worker_loop E S n; State_Monad.return ((bytes, response) # rest) }
          else State_Monad.return []
        })
   }"

text \<open>The end of \<open>Worker\<close>, in two critical sections.\<close>

definition disconnect :: "('g, 'd) debugger \<Rightarrow> ('g, unit) call" where
  "disconnect D = do {
     ready \<leftarrow> critical D disconnected;
     if ready then critical D (\<lambda>r. ((), disconnected_generation r)) else State_Monad.return ()
   }"

text \<open>\<open>None\<close>: the sidecar did not connect or was not accepted.\<close>

definition handshake :: "('g, ('w :: len) word) worker_env \<Rightarrow> ('g, 'j) session_env \<Rightarrow> ('g, string option) call" where
  "handshake E S = do {
     connected \<leftarrow> se_connect S;
     written \<leftarrow> (if connected then write_frame S (handshake_text S (we_build E)) else State_Monad.return False);
     ack \<leftarrow> (if written then read_frame S else State_Monad.return None);
     State_Monad.return (case ack of None \<Rightarrow> None | Some bytes \<Rightarrow> AcceptedHandshakeInstanceId (se_jansson S) bytes)
   }"

definition Worker ::
    "('g, ('w :: len) word) worker_env \<Rightarrow> ('g, 'j) session_env \<Rightarrow> nat \<Rightarrow> ('g, (string \<times> string) list) call" where
  "Worker E S n = do {
     instanceId \<leftarrow> handshake E S;
     (case instanceId of
        None \<Rightarrow> State_Monad.return []
      | Some i \<Rightarrow> do {
          critical (we_debugger E) (\<lambda>r. ((), handshake_accepted (se_throws S) i r));
          served \<leftarrow> worker_loop E S n;
          disconnect (we_debugger E);
          State_Monad.return served
        })
   }"

section \<open>Responses carry the id of their request\<close>

named_theorems addressing \<open>computations whose answers carry the id of the request\<close>

definition addressed :: "string \<Rightarrow> string \<Rightarrow> bool" where
  "addressed i response \<longleftrightarrow>
     (\<exists>rest. response = ''{'' @ json_key ''request_id'' @ JsonString i @ '','' @ rest)"

definition addresses :: "string \<Rightarrow> ('s, string) state \<Rightarrow> bool" where
  "addresses i m \<longleftrightarrow> (\<forall>s. addressed i (fst (run_state m s)))"

definition tool_addresses :: "string \<Rightarrow> ('s, tool_error + string) state \<Rightarrow> bool" where
  "tool_addresses i m \<longleftrightarrow> (\<forall>s r. fst (run_state m s) = Inr r \<longrightarrow> addressed i r)"

lemma addressed_responses [simp]:
  "addressed i (ErrorResponseForId i e)" "addressed (rq_requestId q) (ErrorResponse q e)"
  "addressed i (ok_response i g s)"
  by (auto simp: addressed_def ErrorResponse_def ErrorResponseForId_def ErrorResponseWithDetails_def ok_response_def)

lemma addressed_printers [simp]:
  "addressed (rq_requestId q) (events_list_response q g p)" "addressed (rq_requestId q) (events_wait_response q a)"
  "addressed (rq_requestId q) (trace_status_response q g t)" "addressed (rq_requestId q) (trace_results_response q g r)"
  "addressed (rq_requestId q) (wait_for_pause_response q obs cip tid)" "addressed i (StateResponse b u i dump r0 r1)"
  "addressed (rq_requestId q) (tool_response q v)"
  by (simp_all add: events_list_response_def events_wait_response_def trace_status_response_def
      trace_results_response_def wait_for_pause_response_def StateResponse_def tool_response_def
      split: prod.split sum.split)

lemma addresses_return [addressing]: "addressed i r \<Longrightarrow> addresses i (State_Monad.return r)"
  by (simp add: addresses_def)

lemma addresses_bind [addressing]: "(\<And>a. addresses i (f a)) \<Longrightarrow> addresses i (State_Monad.bind m f)"
  by (simp add: addresses_def case_prod_beta)

lemma addresses_if [addressing]: "(c \<Longrightarrow> addresses i m) \<Longrightarrow> (\<not> c \<Longrightarrow> addresses i n) \<Longrightarrow> addresses i (if c then m else n)"
  by simp

lemma addresses_case_sum [addressing]:
  "(\<And>e. addresses i (f e)) \<Longrightarrow> (\<And>a. addresses i (g a)) \<Longrightarrow>
   addresses i (case x of Inl e \<Rightarrow> f e | Inr a \<Rightarrow> g a)"
  by (simp split: sum.split)

lemma tool_addresses_answer [addressing]: "addressed i r \<Longrightarrow> tool_addresses i (answer r)"
  by (simp add: tool_addresses_def answer_def)

lemma tool_addresses_refused [addressing]:
  "tool_addresses i (refuse c m r u)" "tool_addresses i (State_Monad.return (Inl e))"
  by (simp_all add: tool_addresses_def refuse_def failure_def)

lemma tool_addresses_bind [addressing]:
  "(\<And>a. tool_addresses i (f a)) \<Longrightarrow> tool_addresses i (State_Monad.bind m f)"
  by (simp add: tool_addresses_def case_prod_beta)

lemma tool_addresses_ensure [addressing]: "tool_addresses i m \<Longrightarrow> tool_addresses i (ensure b c t r u m)"
  by (simp add: ensure_def addressing)

lemma tool_addresses_case_sum [addressing]:
  "(\<And>e. tool_addresses i (f e)) \<Longrightarrow> (\<And>a. tool_addresses i (g a)) \<Longrightarrow>
   tool_addresses i (case x of Inl e \<Rightarrow> f e | Inr a \<Rightarrow> g a)"
  by (simp split: sum.split)

lemma tool_addresses_case_option [addressing]:
  "tool_addresses i m \<Longrightarrow> (\<And>a. tool_addresses i (f a)) \<Longrightarrow>
   tool_addresses i (case x of None \<Rightarrow> m | Some a \<Rightarrow> f a)"
  by (simp split: option.split)

lemma tool_addresses_case_prod [addressing]:
  "(\<And>a b. tool_addresses i (f a b)) \<Longrightarrow> tool_addresses i (case x of (a, b) \<Rightarrow> f a b)"
  by (simp split: prod.split)

lemma tool_addresses_Let [addressing]: "(\<And>a. tool_addresses i (f a)) \<Longrightarrow> tool_addresses i (let a = x in f a)"
  by simp

lemma addresses_spoken [addressing]:
  assumes "tool_addresses (rq_requestId q) m"
  shows "addresses (rq_requestId q) (spoken q m)"
  using assms by (auto simp: addresses_def tool_addresses_def spoken_def case_prod_beta split: sum.split)

lemma addresses_wrapped [addressing]: "addresses (rq_requestId q) (wrapped q m)"
  unfolding wrapped_def by (intro addressing) simp

lemma event_tools_address [addressing]:
  "tool_addresses (rq_requestId q) (events_list_tool D late q)"
  "tool_addresses (rq_requestId q) (events_wait_tool D wakes q)"
  unfolding events_list_tool_def events_wait_tool_def by (intro addressing; simp)+

lemma wait_for_pause_tool_addresses [addressing]: "tool_addresses (rq_requestId q) (wait_for_pause_tool D q)"
  unfolding wait_for_pause_tool_def by (intro addressing) simp

lemma trace_tools_address [addressing]:
  "tool_addresses (rq_requestId q) (trace_status_tool D q)"
  "tool_addresses (rq_requestId q) (trace_results_tool D q)"
  unfolding trace_status_tool_def trace_results_tool_def by (intro addressing; simp)+

lemma trace_submit_addresses [addressing]: "tool_addresses (rq_requestId q) (trace_submit D q i t)"
  unfolding trace_submit_def by (intro addressing) simp

lemma trace_snapshot_addresses [addressing]:
  "(\<And>cip ms. tool_addresses i (rest cip ms)) \<Longrightarrow> tool_addresses i (trace_snapshot D g rest)"
  unfolding trace_snapshot_def by (intro addressing)

lemma paused_snapshot_addresses [addressing]:
  "(\<And>g. tool_addresses i (rest g)) \<Longrightarrow> tool_addresses i (paused_snapshot D m rest)"
  unfolding paused_snapshot_def by (intro addressing)

lemma trace_start_addresses [addressing]: "tool_addresses (rq_requestId q) (trace_start D T q)"
  unfolding trace_start_def by (intro addressing)

lemma trace_cancel_tool_addresses [addressing]: "tool_addresses (rq_requestId q) (trace_cancel_tool D q)"
  unfolding trace_cancel_tool_def
  apply (intro addressing)
  subgoal for u asked by (cases asked) (simp_all add: addressing)
  done

lemma state_tool_addresses [addressing]: "addresses (rq_requestId q) (state_tool D b q)"
  unfolding state_tool_def by (intro addressing) simp

lemma chosen_tool_addresses [addressing]: "addresses (rq_requestId q) (chosen_tool E q)"
  unfolding chosen_tool_def Let_def by (intro addressing)

lemma operation_addresses [addressing]: "addresses (rq_requestId q) (operation E q)"
  unfolding operation_def by (intro addressing) simp_all

lemma profile_addressed:
  "addressed i (fst (ScyllaHideProfileResponse rc pc d b sg sp i oi ac pr ex w))"
  by (cases "ScyllaHideProfile rc pc d ac pr ex w"; cases "fst (ScyllaHideProfile rc pc d ac pr ex w)")
    (auto simp: addressed_def ScyllaHideProfileResponse_def Let_def split: prod.split)

lemma profile_response_addresses [addressing]: "addresses (rq_requestId q) (profile_response E q)"
  unfolding profile_response_def
  by (intro addresses_bind addresses_if addresses_return) (simp_all add: addresses_def profile_addressed)

lemma serve_addresses: "addressed (rq_requestId q) (fst (run_state (serve E status q) w))"
proof -
  have "addresses (rq_requestId q) (serve E status q)"
  proof (cases "status = ex_completed")
    case True
    have "addresses (rq_requestId q)
        (State_Monad.bind (operation E q) (\<lambda>v. State_Monad.return (execution_response q ex_completed v)))"
      using operation_addresses [of q E] by (simp add: addresses_def execution_response_def case_prod_beta)
    then show ?thesis
      unfolding serve_def True
      by (intro addresses_bind [of "rq_requestId q" _ "rejected_by_helper _ _"] addresses_case_sum addresses_if)
        (simp_all add: addressing)
  next
    case False
    then have "addressed (rq_requestId q) (execution_response q status v)" for v
      by (cases status) (simp_all add: execution_response_def failure_def)
    then show ?thesis
      unfolding serve_def by (intro addressing) simp_all
  qed
  then show ?thesis by (simp add: addresses_def)
qed

definition matched ::
    "('g, ('w :: len) word) worker_env \<Rightarrow> ('g, 'j) session_env \<Rightarrow> string \<times> string \<Rightarrow> bool" where
  "matched E S exchange \<longleftrightarrow>
     (\<exists>q. ParseRequest (se_jansson S) (we_sdk E) (we_build E) (se_wide S) (fst exchange) = Some (q :: 'w word Request) \<and>
       addressed (rq_requestId q) (snd exchange))"

lemma next_request_parsed:
  "fst (run_state (next_request E S) w) = Some (bytes, q) \<Longrightarrow>
   ParseRequest (se_jansson S) (we_sdk E) (we_build E) (se_wide S) bytes = Some q"
  by (auto simp: next_request_def case_prod_beta split: option.splits if_splits)

lemma worker_loop_matched: "list_all (matched E S) (fst (run_state (worker_loop E S n) w))"
proof (induction n arbitrary: w)
  case (Suc n)
  show ?case
  proof (cases "fst (run_state (next_request E S) w)")
    case (Some received)
    obtain bytes q where q: "received = (bytes, q)" by (cases received)
    have "matched E S (bytes, fst (run_state (serve E status q) w'))" for status w'
      using next_request_parsed [OF Some [unfolded q]] serve_addresses by (auto simp: matched_def)
    with Suc show ?thesis
      by (simp add: Some q case_prod_beta)
  qed (simp add: case_prod_beta)
qed simp

text \<open>C23.
  Requests and responses never get mixed up: in every session, however long, each frame the worker
  answers is a request the parser accepts, and its response, whichever tool made it and whether it
  is a result, a refusal, a time-out or the answer about the profile, is a JSON object that begins
  with the id of exactly this request.
\<close>

theorem Worker_responses_match:
  fixes E :: "('g, ('w :: len) word) worker_env"
  shows "list_all (\<lambda>(bytes, response). \<exists>q rest.
       ParseRequest (se_jansson S) (we_sdk E) (we_build E) (se_wide S) bytes = Some (q :: 'w word Request) \<and>
       response = ''{'' @ json_key ''request_id'' @ JsonString (rq_requestId q) @ '','' @ rest)
     (fst (run_state (Worker E S n) w))"
proof -
  have "list_all (matched E S) (fst (run_state (Worker E S n) w))"
    using worker_loop_matched by (auto simp: Worker_def case_prod_beta split: option.split)
  then show ?thesis
    by (simp add: list_all_iff matched_def addressed_def case_prod_beta)
qed

end
