(* ===== verification/Lifecycle.thy ===== *)
theory Lifecycle
  imports Windows_Calls Runtime_State Frames Hex_Bytes Control_Policy Monad_Logic "HOL-Library.Multiset"
begin

text \<open>
  The plugin as the debugger loads and unloads it: the entry points of \<open>plugin.cpp\<close>,
  \<open>Runtime::Start\<close>, \<open>CreateEndpoint\<close>, \<open>LaunchSidecar\<close> and \<open>Runtime::Stop\<close> of \<open>runtime.cpp\<close>, and the
  pipe of \<open>EventStream::Start\<close> and \<open>Stop\<close>. What they do to the state of the debuggee is in
  \<open>Runtime_Steps\<close>; here it is the handles, the child process and the registrations.

  Windows and the x64dbg SDK are the parameter \<open>win32\<close>. The model keeps a ledger beside the members:
  the handles that were opened and not closed, whether one was closed that was not open, the
  processes in the job, whether one was resumed outside of it, and what is registered. The code
  does not read the ledger.
\<close>

section \<open>Members and ledger\<close>

record 's plugin =
  pg_state :: PluginState
  pg_pipe :: "handle option"
  pg_eventPipe :: "handle option"
  pg_nonceWriter :: "handle option"
  pg_sidecarJob :: "handle option"
  pg_sidecarProcess :: "handle option"
  pg_instanceMutex :: "handle option"
  pg_nonce :: string
  pg_pipeName :: "u16 list"
  pg_startupGeneration :: string
  pg_startupProfile :: string
  pg_handle :: int
  pg_open :: "handle multiset"
  pg_badClose :: bool
  pg_inJob :: "handle set"
  pg_escaped :: bool
  pg_callbacks :: "string set"
  pg_command :: bool
  pg_machine :: 's

type_synonym ('s, 'a) step = "('s plugin, 'a) state"

text \<open>
  \<open>wn_createMutex\<close> also says whether the mutex existed before; \<open>wn_createPipe\<close> gives the two ends,
  \<open>wn_createProcess\<close> the process and its thread. \<open>wn_environment\<close> is the configured path of the
  server, when it is set and fits; \<open>wn_canonical\<close> is \<open>absolute\<close> and \<open>lexically_normal\<close>. These and
  \<open>wn_isFile\<close> return \<open>None\<close> when they throw. \<open>wn_drain\<close> is what \<open>Stop\<close> waits for and cancels.
\<close>

record 's win32 =
  wn_random :: "('s, u8 list option) state"
  wn_descriptor :: "('s, bool) state"
  wn_createNamedPipe :: "u16 list \<Rightarrow> ('s, handle option) state"
  wn_createMutex :: "u16 list \<Rightarrow> ('s, handle option \<times> bool) state"
  wn_createPipe :: "('s, (handle \<times> handle) option) state"
  wn_keepPrivate :: "handle \<Rightarrow> ('s, bool) state"
  wn_openNul :: "('s, handle option) state"
  wn_environment :: "('s, u16 list option) state"
  wn_moduleDirectory :: "('s, u16 list) state"
  wn_join :: "u16 list \<Rightarrow> u16 list \<Rightarrow> u16 list"
  wn_parent :: "u16 list \<Rightarrow> u16 list"
  wn_canonical :: "u16 list \<Rightarrow> ('s, u16 list option) state"
  wn_isFile :: "u16 list \<Rightarrow> ('s, bool option) state"
  wn_createJob :: "('s, handle option) state"
  wn_killOnClose :: "handle \<Rightarrow> ('s, bool) state"
  wn_attributeList :: "('s, bool) state"
  wn_inheritOnly :: "handle list \<Rightarrow> ('s, bool) state"
  wn_createProcess :: "u16 list \<Rightarrow> u16 list \<Rightarrow> u16 list \<Rightarrow> ('s, (handle \<times> handle) option) state"
  wn_assign :: "handle \<Rightarrow> handle \<Rightarrow> ('s, bool) state"
  wn_resume :: "handle \<Rightarrow> ('s, bool) state"
  wn_terminate :: "handle \<Rightarrow> ('s, unit) state"
  wn_wait :: "handle \<Rightarrow> nat \<Rightarrow> ('s, wait_status) state"
  wn_writeFile :: "handle \<Rightarrow> 's \<Rightarrow> string \<Rightarrow> (nat \<times> 's) option"
  wn_startThread :: "('s, bool) state"
  wn_startExecutor :: "('s, bool) state"
  wn_startFence :: "('s, bool) state"
  wn_readConfig :: "('s, string option) state"
  wn_digest :: "string \<Rightarrow> ('s, string option) state"
  wn_drain :: "('s, unit) state"
  wn_registerCommand :: "('s, bool) state"

definition machine :: "('s, 'a) state \<Rightarrow> ('s, 'a) step" where
  "machine m = State (\<lambda>x. case run_state m (pg_machine x) of (a, s) \<Rightarrow> (a, x\<lparr>pg_machine := s\<rparr>))"

definition update :: "('s plugin \<Rightarrow> 's plugin) \<Rightarrow> ('s, unit) step" where
  "update f = State (\<lambda>x. ((), f x))"

text \<open>A call that may return a new handle.\<close>

definition opened :: "handle option \<Rightarrow> 's plugin \<Rightarrow> 's plugin" where
  "opened h x = (case h of None \<Rightarrow> x | Some h \<Rightarrow> x\<lparr>pg_open := add_mset h (pg_open x)\<rparr>)"

definition acquiring :: "('s, handle option) state \<Rightarrow> ('s, handle option) step" where
  "acquiring m = do { h \<leftarrow> machine m; update (opened h); State_Monad.return h }"

definition closed :: "handle \<Rightarrow> 's plugin \<Rightarrow> 's plugin" where
  "closed h x = (if h \<in># pg_open x then x\<lparr>pg_open := pg_open x - {#h#}\<rparr> else x\<lparr>pg_badClose := True\<rparr>)"

definition CloseHandle :: "handle \<Rightarrow> ('s, unit) step" where
  "CloseHandle h = update (closed h)"

text \<open>\<open>CloseHandleValue\<close> on a member, given by its selector and its update, and on a local.\<close>

definition CloseHandleValue ::
    "('s plugin \<Rightarrow> handle option) \<Rightarrow> ((handle option \<Rightarrow> handle option) \<Rightarrow> 's plugin \<Rightarrow> 's plugin) \<Rightarrow> ('s, unit) step" where
  "CloseHandleValue sel upd =
     update (\<lambda>x. upd (\<lambda>_. None) (case sel x of None \<Rightarrow> x | Some h \<Rightarrow> closed h x))"

section \<open>The endpoint\<close>

definition kEventsSuffix :: "u16 list" where "kEventsSuffix = ascii_wide ''.events''"





section \<open>The sidecar\<close>

definition server_path :: "'s win32 \<Rightarrow> ('s, u16 list) step" where
  "server_path W = do {
     configured \<leftarrow> machine (wn_environment W);
     (case configured of
        Some path \<Rightarrow> State_Monad.return path
      | None \<Rightarrow> do {
          directory \<leftarrow> machine (wn_moduleDirectory W);
          State_Monad.return (foldl (wn_join W) directory
            (map ascii_wide [''..'', ''..'', ''mcp'', ''x96dbg-mcp-server.exe'']))
        })
   }"

definition config_path :: "'s win32 \<Rightarrow> build \<Rightarrow> u16 list \<Rightarrow> u16 list" where
  "config_path W b executable = wn_join W (wn_parent W executable)
     (ascii_wide (''x64dbg-mcp-server-'' @ (if b = Win64 then ''x64'' else ''x32'') @ ''.toml''))"

definition quoted :: "u16 list \<Rightarrow> u16 list" where
  "quoted s = [0x22] @ s @ [0x22]"

definition sidecar_command :: "u16 list \<Rightarrow> u16 list \<Rightarrow> u16 list option \<Rightarrow> u16 list" where
  "sidecar_command executable pipeName config =
     quoted executable @ ascii_wide '' --pipe '' @ quoted pipeName @ ascii_wide '' --events-pipe '' @
     quoted (pipeName @ kEventsSuffix) @
     (case config of None \<Rightarrow> [] | Some c \<Rightarrow> ascii_wide '' --config '' @ quoted c)"

text \<open>After \<open>CreateProcessW\<close>: the process is suspended until it is in the job.\<close>

definition released_process :: "'s win32 \<Rightarrow> handle \<Rightarrow> handle \<Rightarrow> ('s, bool) step" where
  "released_process W process thread = do {
     x \<leftarrow> State_Monad.get;
     assigned \<leftarrow> machine (wn_assign W (the (pg_sidecarJob x)) process);
     update (pg_inJob_update (\<lambda>ps. if assigned then insert process ps else ps));
     resumed \<leftarrow> (if assigned
       then do {
         update (\<lambda>x. x\<lparr>pg_escaped := pg_escaped x \<or> process \<notin> pg_inJob x\<rparr>);
         machine (wn_resume W thread)
       } else State_Monad.return False);
     if \<not> resumed
     then do {
       machine (wn_terminate W process);
       machine (wn_wait W process 1000);
       CloseHandle thread;
       CloseHandle process;
       CloseHandleValue pg_sidecarJob pg_sidecarJob_update;
       State_Monad.return False
     }
     else do {
       CloseHandle thread;
       update (pg_sidecarProcess_update (\<lambda>_. Some process));
       x \<leftarrow> State_Monad.get;
       machine (State (\<lambda>s. WriteAll (wn_writeFile W (the (pg_nonceWriter x))) s (pg_nonce x @ [CHR 0x0a])))
     }
   }"

text \<open>From the attribute list on; the two local handles are closed whether the process was created or not.\<close>

definition create_sidecar ::
    "'s win32 \<Rightarrow> build \<Rightarrow> u16 list \<Rightarrow> handle \<Rightarrow> handle \<Rightarrow> ('s, bool option) step" where
  "create_sidecar W b executable nonceReader nullOutput = do {
     inherit \<leftarrow> machine (wn_inheritOnly W [nonceReader, nullOutput]);
     config \<leftarrow> machine (wn_isFile W (config_path W b executable));
     (case config of
        None \<Rightarrow> State_Monad.return None
      | Some found \<Rightarrow> do {
          x \<leftarrow> State_Monad.get;
          created \<leftarrow> (if inherit
            then machine (wn_createProcess W executable
              (sidecar_command executable (pg_pipeName x) (if found then Some (config_path W b executable) else None))
              (wn_parent W executable))
            else State_Monad.return None);
          update (opened (map_option fst created));
          update (opened (map_option snd created));
          CloseHandle nonceReader;
          CloseHandle nullOutput;
          (case created of
             None \<Rightarrow> do { CloseHandleValue pg_sidecarJob pg_sidecarJob_update; State_Monad.return (Some False) }
           | Some (process, thread) \<Rightarrow> do {
               ok \<leftarrow> released_process W process thread;
               State_Monad.return (Some ok)
             })
        })
   }"

text \<open>The job and the attribute list.\<close>

definition job_and_sidecar ::
    "'s win32 \<Rightarrow> build \<Rightarrow> u16 list \<Rightarrow> handle \<Rightarrow> handle \<Rightarrow> ('s, bool option) step" where
  "job_and_sidecar W b executable nonceReader nullOutput = do {
     job \<leftarrow> acquiring (wn_createJob W);
     update (pg_sidecarJob_update (\<lambda>_. job));
     limited \<leftarrow> (case job of None \<Rightarrow> State_Monad.return False | Some j \<Rightarrow> machine (wn_killOnClose W j));
     attributes \<leftarrow> (if limited then machine (wn_attributeList W) else State_Monad.return False);
     if \<not> attributes
     then do {
       CloseHandleValue pg_sidecarJob pg_sidecarJob_update;
       CloseHandle nonceReader;
       CloseHandle nullOutput;
       State_Monad.return (Some False)
     }
     else create_sidecar W b executable nonceReader nullOutput
   }"

text \<open>\<open>None\<close>: an exception of the file system leaves \<open>LaunchSidecar\<close>.\<close>

definition LaunchSidecar :: "'s win32 \<Rightarrow> build \<Rightarrow> ('s, bool option) step" where
  "LaunchSidecar W b = do {
     ends \<leftarrow> machine (wn_createPipe W);
     (case ends of
        None \<Rightarrow> State_Monad.return (Some False)
      | Some (nonceReader, nonceWriter) \<Rightarrow> do {
          update (opened (Some nonceReader));
          update (opened (Some nonceWriter));
          update (pg_nonceWriter_update (\<lambda>_. Some nonceWriter));
          unshared \<leftarrow> machine (wn_keepPrivate W nonceWriter);
          nul \<leftarrow> (if unshared then acquiring (wn_openNul W) else State_Monad.return None);
          (case nul of
             None \<Rightarrow> do { CloseHandle nonceReader; State_Monad.return (Some False) }
           | Some nullOutput \<Rightarrow> do {
               path \<leftarrow> server_path W;
               executable \<leftarrow> machine (wn_canonical W path);
               file \<leftarrow> (case executable of None \<Rightarrow> State_Monad.return None | Some e \<Rightarrow> machine (wn_isFile W e));
               (case file of
                  None \<Rightarrow> State_Monad.return None
                | Some False \<Rightarrow> do { CloseHandle nonceReader; CloseHandle nullOutput; State_Monad.return (Some False) }
                | Some True \<Rightarrow> job_and_sidecar W b (the executable) nonceReader nullOutput)
             })
        })
   }"

section \<open>Start and Stop\<close>






section \<open>Entry points\<close>











definition loaded :: "'s \<Rightarrow> 's plugin" where
  "loaded s =
     \<lparr>pg_state = pl_stopped, pg_pipe = None, pg_eventPipe = None, pg_nonceWriter = None, pg_sidecarJob = None,
      pg_sidecarProcess = None, pg_instanceMutex = None, pg_nonce = [], pg_pipeName = [],
      pg_startupGeneration = [], pg_startupProfile = [], pg_handle = 0, pg_open = {#}, pg_badClose = False,
      pg_inJob = {}, pg_escaped = False, pg_callbacks = {}, pg_command = False, pg_machine = s\<rparr>"

section \<open>The ledger\<close>

definition slot :: "handle option \<Rightarrow> handle multiset" where
  "slot h = (case h of None \<Rightarrow> {#} | Some h \<Rightarrow> {#h#})"

lemma slot_simps [simp]: "slot None = {#}" "slot (Some h) = {#h#}"
  by (simp_all add: slot_def)

definition held :: "'s plugin \<Rightarrow> handle multiset" where
  "held x = slot (pg_pipe x) + slot (pg_eventPipe x) + slot (pg_nonceWriter x) + slot (pg_sidecarJob x) +
     slot (pg_sidecarProcess x) + slot (pg_instanceMutex x)"

text \<open>The open handles are those of the members and the local ones in \<open>L\<close>.\<close>

definition ledger :: "handle multiset \<Rightarrow> 's plugin \<Rightarrow> bool" where
  "ledger L x \<longleftrightarrow> pg_open x = held x + L \<and> \<not> pg_badClose x \<and> \<not> pg_escaped x"

named_theorems steps \<open>rules to follow a computation on the plugin\<close>

lemmas [steps] = wp_bindI

lemma wp_machineI [steps]: "(\<And>a s. Q a (x\<lparr>pg_machine := s\<rparr>)) \<Longrightarrow> wp (machine m) Q x"
  by (simp add: wp_def machine_def split: prod.split)

lemma wp_updateI [steps]: "Q () (f x) \<Longrightarrow> wp (update f) Q x"
  by (simp add: wp_def update_def)

lemma wp_returnI [steps]: "Q a x \<Longrightarrow> wp (State_Monad.return a) Q x"
  by (simp add: wp_return)

lemma wp_getI [steps]: "Q x x \<Longrightarrow> wp State_Monad.get Q x"
  by (simp add: wp_get)

lemma wp_ifI [steps]: "(c \<Longrightarrow> wp m Q x) \<Longrightarrow> (\<not> c \<Longrightarrow> wp n Q x) \<Longrightarrow> wp (if c then m else n) Q x"
  by simp

lemma wp_optionI [steps]:
  "(h = None \<Longrightarrow> wp m Q x) \<Longrightarrow> (\<And>a. h = Some a \<Longrightarrow> wp (f a) Q x) \<Longrightarrow>
   wp (case h of None \<Rightarrow> m | Some a \<Rightarrow> f a) Q x"
  by (simp split: option.split)

lemma wp_prodI [steps]: "(\<And>a b. h = (a, b) \<Longrightarrow> wp (f a b) Q x) \<Longrightarrow> wp (case h of (a, b) \<Rightarrow> f a b) Q x"
  by (simp split: prod.split)

lemma wp_boolI [steps]: "(c \<Longrightarrow> wp m Q x) \<Longrightarrow> (\<not> c \<Longrightarrow> wp n Q x) \<Longrightarrow> wp (case c of True \<Rightarrow> m | False \<Rightarrow> n) Q x"
  by (simp split: bool.split)

lemma wp_LetI [steps]: "wp (f y) Q x \<Longrightarrow> wp (let a = y in f a) Q x"
  by simp




lemmas follow = CloseHandle_def CloseHandleValue_def acquiring_def










text \<open>
  A member that owns a handle: clearing it takes its handle out of what the members hold. Closing it
  keeps the ledger, whichever member it is.
\<close>

locale handle_member =
  fixes sel :: "'s plugin \<Rightarrow> handle option"
    and upd :: "(handle option \<Rightarrow> handle option) \<Rightarrow> 's plugin \<Rightarrow> 's plugin"
  assumes held_upd: "held x = held (upd (\<lambda>_. None) x) + slot (sel x)"
    and open_upd: "pg_open (upd f x) = pg_open x" "pg_badClose (upd f x) = pg_badClose x" "pg_escaped (upd f x) = pg_escaped x"
    and upd_open: "upd f (x\<lparr>pg_open := M\<rparr>) = (upd f x)\<lparr>pg_open := M\<rparr>"
begin

definition cleared :: "'s plugin \<Rightarrow> 's plugin" where
  "cleared x = (upd (\<lambda>_. None) x)\<lparr>pg_open := pg_open x - slot (sel x)\<rparr>"

lemma ledger_cleared: "ledger L x \<Longrightarrow> ledger L (cleared x)"
  using held_upd [of x] by (simp add: ledger_def cleared_def open_upd held_def)

lemma CloseHandleValue_cleared:
  assumes "ledger L x"
  shows "upd (\<lambda>_. None) (case sel x of None \<Rightarrow> x | Some h \<Rightarrow> closed h x) = cleared x"
proof (cases "sel x")
  case None
  then show ?thesis using upd_open [of "\<lambda>_. None" "pg_open x" x] by (simp add: cleared_def)
next
  case (Some h)
  with assms held_upd [of x] have "h \<in># pg_open x" by (simp add: ledger_def)
  with Some show ?thesis by (simp add: closed_def cleared_def upd_open)
qed

lemma wp_close:
  assumes "ledger L x" "ledger L (cleared x) \<Longrightarrow> Q () (cleared x)"
  shows "wp (CloseHandleValue sel upd) Q x"
  unfolding CloseHandleValue_def
  using assms ledger_cleared [OF assms(1)] by (intro wp_updateI) (simp add: CloseHandleValue_cleared)

end

interpretation pipe: handle_member pg_pipe pg_pipe_update
  by unfold_locales (simp_all add: held_def)

interpretation nonceWriter: handle_member pg_nonceWriter pg_nonceWriter_update
  by unfold_locales (simp_all add: held_def)













text \<open>A Windows on which every call works, with the next handle as its state; \<open>file\<close> is what the tests of files say.\<close>

definition fresh :: "(nat, nat) state" where
  "fresh = State (\<lambda>n. (n, n + 1))"

definition sample_windows :: "bool option \<Rightarrow> nat win32" where
  "sample_windows file =
     \<lparr>wn_random = State_Monad.return (Some [1, 2]), wn_descriptor = State_Monad.return True,
      wn_createNamedPipe = (\<lambda>p. do { h \<leftarrow> fresh; State_Monad.return (Some h) }),
      wn_createMutex = (\<lambda>p. do { h \<leftarrow> fresh; State_Monad.return (Some h, False) }),
      wn_createPipe = do { r \<leftarrow> fresh; w \<leftarrow> fresh; State_Monad.return (Some (r, w)) },
      wn_keepPrivate = (\<lambda>h. State_Monad.return True), wn_openNul = do { h \<leftarrow> fresh; State_Monad.return (Some h) },
      wn_environment = State_Monad.return (Some []), wn_moduleDirectory = State_Monad.return [],
      wn_join = (@), wn_parent = id, wn_canonical = (\<lambda>p. State_Monad.return (Some p)),
      wn_isFile = (\<lambda>p. State_Monad.return file), wn_createJob = do { h \<leftarrow> fresh; State_Monad.return (Some h) },
      wn_killOnClose = (\<lambda>h. State_Monad.return True), wn_attributeList = State_Monad.return True,
      wn_inheritOnly = (\<lambda>hs. State_Monad.return True),
      wn_createProcess = (\<lambda>e c d. do { p \<leftarrow> fresh; t \<leftarrow> fresh; State_Monad.return (Some (p, t)) }),
      wn_assign = (\<lambda>j p. State_Monad.return True), wn_resume = (\<lambda>t. State_Monad.return True),
      wn_terminate = (\<lambda>p. State_Monad.return ()), wn_wait = (\<lambda>p n. State_Monad.return wait_object),
      wn_writeFile = (\<lambda>h s bytes. Some (length bytes, s)), wn_startThread = State_Monad.return True,
      wn_startExecutor = State_Monad.return True, wn_startFence = State_Monad.return True,
      wn_readConfig = State_Monad.return None, wn_digest = (\<lambda>s. State_Monad.return None),
      wn_drain = State_Monad.return (), wn_registerCommand = State_Monad.return True\<rparr>"

















text \<open>An exception between the opening of the pipe and the start of the process leaves two handles behind.\<close>

lemma throwing_launch_leaks:
  "case run_state (LaunchSidecar (sample_windows None) b) (loaded 1) of
     (result, x) \<Rightarrow> result = None \<and> held x = {#2#} \<and> pg_open x = {#1, 2, 3#}"
  by (simp add: LaunchSidecar_def server_path_def machine_def update_def acquiring_def opened_def fresh_def
      sample_windows_def loaded_def held_def eval_nat_numeral)

end
