(* ===== verification/Config_File.thy ===== *)
theory Config_File
  imports Profile_Tool Frames Windows_Calls
begin

text \<open>
  The ScyllaHide configuration on disk: \<open>ReadScyllaHideConfig\<close> and \<open>AtomicReplaceScyllaHideConfig\<close> of
  \<open>runtime.cpp\<close>, which are what the profile tool reads and replaces the file with. A path is its
  directory and its file name. The calls of Windows and of the C++ streams are the parameter
  \<open>config_os\<close> on a state \<open>'f\<close> of the file system.
\<close>

type_synonym path = "u16 list \<times> u16 list"

record 'f config_os =
  co_directory :: "u16 list"
  co_size :: "path \<Rightarrow> 'f \<Rightarrow> nat option"
  co_read :: "path \<Rightarrow> nat \<Rightarrow> 'f \<Rightarrow> string option"
  co_processId :: nat
  co_ticks :: "'f \<Rightarrow> nat"
  co_createNew :: "path \<Rightarrow> 'f \<Rightarrow> bool \<times> 'f"
  co_writeFile :: "path \<Rightarrow> 'f \<Rightarrow> string \<Rightarrow> (nat \<times> 'f) option"
  co_flush :: "path \<Rightarrow> 'f \<Rightarrow> bool \<times> 'f"
  co_move :: "path \<Rightarrow> path \<Rightarrow> 'f \<Rightarrow> bool \<times> 'f"
  co_delete :: "path \<Rightarrow> 'f \<Rightarrow> 'f"

definition ScyllaHideConfigPath :: "'f config_os \<Rightarrow> path" where
  "ScyllaHideConfigPath F = (co_directory F, ascii_wide ''scylla_hide.ini'')"

text \<open>\<open>co_read\<close> opens the file and reads at most that many bytes; fewer than asked for is a failure.\<close>

definition ReadScyllaHideConfig :: "'f config_os \<Rightarrow> 'f \<Rightarrow> string option" where
  "ReadScyllaHideConfig F fs =
     (case co_size F (ScyllaHideConfigPath F) fs of
        None \<Rightarrow> None
      | Some n \<Rightarrow>
          if n = 0 \<or> n > 1024 * 1024 then None
          else
            (case co_read F (ScyllaHideConfigPath F) n fs of
               None \<Rightarrow> None
             | Some txt \<Rightarrow> if length txt = n then Some txt else None))"

definition temporary_config :: "'f config_os \<Rightarrow> 'f \<Rightarrow> path" where
  "temporary_config F fs = (fst (ScyllaHideConfigPath F),
     ascii_wide (''.scylla-hide-mcp-'' @ to_string (co_processId F) @ ''-'' @ to_string (co_ticks F fs) @ ''.tmp''))"

text \<open>The file after the write and the flush, with whether both were complete.\<close>

definition write_config :: "'f config_os \<Rightarrow> path \<Rightarrow> string \<Rightarrow> 'f \<Rightarrow> bool \<times> 'f" where
  "write_config F p txt fs =
     (if length txt > 4294967295 then (False, fs)
      else
        case WriteAll (co_writeFile F p) fs txt of
          (False, fs) \<Rightarrow> (False, fs)
        | (True, fs) \<Rightarrow> co_flush F p fs)"

definition AtomicReplaceScyllaHideConfig :: "'f config_os \<Rightarrow> 'f \<Rightarrow> string \<Rightarrow> bool \<times> 'f" where
  "AtomicReplaceScyllaHideConfig F fs txt = (
     let p = temporary_config F fs in
     case co_createNew F p fs of
       (False, fs) \<Rightarrow> (False, fs)
     | (True, fs) \<Rightarrow>
         (case write_config F p txt fs of
            (False, fs) \<Rightarrow> (False, co_delete F p fs)
          | (True, fs) \<Rightarrow>
              (case co_move F p (ScyllaHideConfigPath F) fs of
                 (True, fs) \<Rightarrow> (True, fs)
               | (False, fs) \<Rightarrow> (False, co_delete F p fs))))"

section \<open>The replacement is atomic\<close>

text \<open>
  \<open>contents\<close> are the files of a state. The calls do what they are documented to do: \<open>CREATE_NEW\<close> makes
  an empty file where there is none, a write appends a prefix of its data, a move replaces the
  target, and a call that fails changes no file. Nothing is said about a deleted file.
\<close>

definition files_ok :: "'f config_os \<Rightarrow> ('f \<Rightarrow> path \<Rightarrow> string option) \<Rightarrow> bool" where
  "files_ok F contents \<longleftrightarrow>
     (\<forall>p fs. co_size F p fs = map_option length (contents fs p)) \<and>
     (\<forall>p n fs. co_read F p n fs = map_option (take n) (contents fs p)) \<and>
     (\<forall>p fs. contents (snd (co_createNew F p fs)) =
        (if fst (co_createNew F p fs) then (contents fs)(p := Some []) else contents fs)) \<and>
     (\<forall>p fs s k fs'. co_writeFile F p fs s = Some (k, fs') \<longrightarrow>
        k \<le> length s \<and> contents fs' = (contents fs)(p := map_option (\<lambda>old. old @ take k s) (contents fs p))) \<and>
     (\<forall>p fs. contents (snd (co_flush F p fs)) = contents fs) \<and>
     (\<forall>p q fs. contents (snd (co_move F p q fs)) =
        (if fst (co_move F p q fs) then (contents fs)(q := contents fs p, p := None) else contents fs)) \<and>
     (\<forall>p fs q. q \<noteq> p \<longrightarrow> contents (co_delete F p fs) q = contents fs q)"

lemma files_okD:
  assumes "files_ok F contents"
  shows "co_size F p fs = map_option length (contents fs p)"
    "co_read F p n fs = map_option (take n) (contents fs p)"
    "co_createNew F p fs = (created, fs') \<Longrightarrow>
      contents fs' = (if created then (contents fs)(p := Some []) else contents fs)"
    "co_writeFile F p fs s = Some (k, fs') \<Longrightarrow> k \<le> length s"
    "co_writeFile F p fs s = Some (k, fs') \<Longrightarrow>
      contents fs' = (contents fs)(p := map_option (\<lambda>old. old @ take k s) (contents fs p))"
    "co_flush F p fs = (done', fs') \<Longrightarrow> contents fs' = contents fs"
    "co_move F p q fs = (moved, fs') \<Longrightarrow>
      contents fs' = (if moved then (contents fs)(q := contents fs p, p := None) else contents fs)"
    "q \<noteq> p \<Longrightarrow> contents (co_delete F p fs) q = contents fs q"
  using assms unfolding files_ok_def by (metis fst_conv snd_conv)+

lemma WriteAll_file:
  assumes ok: "files_ok F contents"
  shows "WriteAll (co_writeFile F p) fs s = (written, fs') \<Longrightarrow> contents fs p = Some old \<Longrightarrow>
    (\<forall>q. q \<noteq> p \<longrightarrow> contents fs' q = contents fs q) \<and> (written \<longrightarrow> contents fs' p = Some (old @ s))"
proof (induction "length s" arbitrary: fs s old rule: less_induct)
  case less
  show ?case
  proof (cases "s = [] \<or> co_writeFile F p fs s = None")
    case True
    with less.prems show ?thesis by (auto simp: WriteAll.simps [of _ fs s] split: if_splits)
  next
    case False
    then obtain k fs1 where k: "co_writeFile F p fs s = Some (k, fs1)" by fastforce
    with less.prems(2) have fs1: "k \<le> length s" "contents fs1 = (contents fs)(p := Some (old @ take k s))"
      using files_okD(4,5) [OF ok k] by simp_all
    show ?thesis
    proof (cases "k = 0")
      case True
      with less.prems k False fs1 show ?thesis by (auto simp: WriteAll.simps [of _ fs s])
    next
      case pos: False
      with less.prems(1) k False have "WriteAll (co_writeFile F p) fs1 (drop k s) = (written, fs')"
        by (simp add: WriteAll.simps [of _ fs s])
      from less.hyps [OF _ this, of "old @ take k s"] pos False fs1 show ?thesis by auto
    qed
  qed
qed

lemma temporary_config_differs: "temporary_config F fs \<noteq> ScyllaHideConfigPath F"
  by (simp add: temporary_config_def ScyllaHideConfigPath_def ascii_wide_def)

lemma write_config_contents:
  assumes "files_ok F contents" "write_config F p txt fs = (ok, fs')" "contents fs p = Some []"
  shows "(\<forall>q. q \<noteq> p \<longrightarrow> contents fs' q = contents fs q) \<and> (ok \<longrightarrow> contents fs' p = Some txt)"
proof (cases "length txt > 4294967295")
  case False
  obtain written fs1 where w: "WriteAll (co_writeFile F p) fs txt = (written, fs1)" by fastforce
  have "contents fs' = contents fs1"
    using assms(2) False w files_okD(6) [OF assms(1)] by (cases written) (auto simp: write_config_def)
  moreover have "ok \<longrightarrow> written"
    using assms(2) False w by (auto simp: write_config_def split: bool.splits)
  ultimately show ?thesis
    using WriteAll_file [OF assms(1) w assms(3)] by auto
qed (use assms(2) in \<open>simp add: write_config_def\<close>)

text \<open>A replacement that succeeded is what is read next, one that failed left the configuration.\<close>

lemma AtomicReplace_atomic:
  assumes F: "files_ok F contents" and run: "AtomicReplaceScyllaHideConfig F fs txt = (ok, fs')"
  shows "contents fs' (ScyllaHideConfigPath F) = (if ok then Some txt else contents fs (ScyllaHideConfigPath F))"
proof -
  let ?p = "temporary_config F fs" and ?q = "ScyllaHideConfigPath F"
  obtain created fs1 where c: "co_createNew F ?p fs = (created, fs1)" by fastforce
  obtain written fs2 where w: "write_config F ?p txt fs1 = (written, fs2)" by fastforce
  obtain moved fs3 where m: "co_move F ?p ?q fs2 = (moved, fs3)" by fastforce
  have fs1: "contents fs1 = (if created then (contents fs)(?p := Some []) else contents fs)"
    by (rule files_okD(3) [OF F c])
  have fs2: "contents fs2 ?q = contents fs ?q" "written \<Longrightarrow> contents fs2 ?p = Some txt" if created
    using write_config_contents [OF F w] fs1 that temporary_config_differs [of F fs] by (auto simp del: split_paired_All)
  have fs3: "contents fs3 = (if moved then (contents fs2)(?q := contents fs2 ?p, ?p := None) else contents fs2)"
    by (rule files_okD(7) [OF F m])
  have gone: "contents (co_delete F ?p fs') ?q = contents fs' ?q" for fs'
    by (rule files_okD(8) [OF F temporary_config_differs [symmetric]])
  show ?thesis
    using run c w m fs1 fs2 fs3 gone temporary_config_differs [of F fs]
    by (cases created; cases written; cases moved)
      (auto simp: AtomicReplaceScyllaHideConfig_def Let_def)
qed

lemma ReadScyllaHideConfig_contents:
  assumes F: "files_ok F contents"
  shows "ReadScyllaHideConfig F fs = (case contents fs (ScyllaHideConfigPath F) of
      None \<Rightarrow> None | Some s \<Rightarrow> if s = [] \<or> length s > 1024 * 1024 then None else Some s)"
  by (auto simp: ReadScyllaHideConfig_def files_okD(1,2) [OF F] split: option.split)

lemma config_file_ok:
  "files_ok F contents \<Longrightarrow> file_ok (ReadScyllaHideConfig F) (AtomicReplaceScyllaHideConfig F)"
  using AtomicReplace_atomic [of F contents]
  by (auto simp: file_ok_def ReadScyllaHideConfig_contents)

lemma ScyllaHideProfile_state:
  "ScyllaHideProfile rd rp digest action profile expected fs = (result, fs') \<Longrightarrow>
   fs' = fs \<or> (\<exists>original update ok. rd fs = Some original \<and> action = ''set'' \<and>
     ConfigGeneration digest original = Some expected \<and> SetScyllaHideProfile original profile = Inr update \<and>
     rp fs (pu_text update) = (ok, fs'))"
  by (auto simp: ScyllaHideProfile_def profile_set_def Let_def split: option.splits sum.splits if_splits prod.splits)

text \<open>C21.
  Selecting a profile is a compare-and-swap on the configuration file on disk, through the
  plugin's own reading and replacing of it: on a file system whose calls may fail at any point, but do
  what they are documented to do, the contents of the file change only for the action \<open>set\<close> with the
  generation of the contents that were there, and then at once from these contents to exactly these
  contents with the profile selected; an answer reports the configuration the file has when it is given.
\<close>

theorem profile_set_on_disk:
  assumes F: "files_ok F contents"
    and run: "ScyllaHideProfile (ReadScyllaHideConfig F) (AtomicReplaceScyllaHideConfig F) digest action profile
      expected fs = (result, fs')"
  shows "(if contents fs' (ScyllaHideConfigPath F) = contents fs (ScyllaHideConfigPath F) then True
      else action = ''set'' \<and>
        (\<exists>original update. contents fs (ScyllaHideConfigPath F) = Some original \<and>
          ConfigGeneration digest original = Some expected \<and> SetScyllaHideProfile original profile = Inr update \<and>
          contents fs' (ScyllaHideConfigPath F) = Some (pu_text update))) \<and>
    (case result of
       Inl _ \<Rightarrow> True
     | Inr a \<Rightarrow> \<exists>txt. contents fs' (ScyllaHideConfigPath F) = Some txt \<and>
         ConfigGeneration digest txt = Some (pa_generation a) \<and> ParseScyllaHideConfig txt = Inr (pa_config a))"
proof -
  have read: "contents g (ScyllaHideConfigPath F) = Some s" if "ReadScyllaHideConfig F g = Some s" for g s
    using that by (simp add: ReadScyllaHideConfig_contents [OF F] split: option.splits if_splits)
  show ?thesis
  proof
    show "if contents fs' (ScyllaHideConfigPath F) = contents fs (ScyllaHideConfigPath F) then True
      else action = ''set'' \<and>
        (\<exists>original update. contents fs (ScyllaHideConfigPath F) = Some original \<and>
          ConfigGeneration digest original = Some expected \<and> SetScyllaHideProfile original profile = Inr update \<and>
          contents fs' (ScyllaHideConfigPath F) = Some (pu_text update))"
      using ScyllaHideProfile_state [OF run] AtomicReplace_atomic [OF F] read by fastforce
    show "case result of Inl _ \<Rightarrow> True
     | Inr a \<Rightarrow> \<exists>txt. contents fs' (ScyllaHideConfigPath F) = Some txt \<and>
         ConfigGeneration digest txt = Some (pa_generation a) \<and> ParseScyllaHideConfig txt = Inr (pa_config a)"
      using profile_compare_and_swap [OF config_file_ok [OF F] run] read by (auto split: sum.splits)
  qed
qed

text \<open>A disk that writes at most 64 bytes at once.\<close>

definition sample_disk :: "(path \<Rightarrow> string option) config_os" where
  "sample_disk =
     \<lparr>co_directory = [], co_size = (\<lambda>p fs. map_option length (fs p)), co_read = (\<lambda>p n fs. map_option (take n) (fs p)),
      co_processId = 7, co_ticks = (\<lambda>fs. 9),
      co_createNew = (\<lambda>p fs. if fs p = None then (True, fs(p := Some [])) else (False, fs)),
      co_writeFile = (\<lambda>p fs s. if fs p = None then None
        else Some (min 64 (length s), fs(p := map_option (\<lambda>old. old @ take (min 64 (length s)) s) (fs p)))),
      co_flush = (\<lambda>p fs. (True, fs)), co_move = (\<lambda>p q fs. (True, fs(q := fs p, p := None))),
      co_delete = (\<lambda>p fs. fs(p := None))\<rparr>"

lemma sample_disk_ok: "files_ok sample_disk (\<lambda>fs. fs)"
  by (auto simp: files_ok_def sample_disk_def split: if_splits)

definition sample_selected :: "(profile_error + profile_answer) \<times> (path \<Rightarrow> string option)" where
  "sample_selected = ScyllaHideProfile (ReadScyllaHideConfig sample_disk) (AtomicReplaceScyllaHideConfig sample_disk)
     (\<lambda>_. Some [0]) ''set'' ''bC'' ''sha256:00''
     (\<lambda>p. if p = ScyllaHideConfigPath sample_disk then Some sample_config else None)"

lemma sample_selected_answer: "\<not> isl (fst sample_selected)"
  by code_simp

theorem profile_set_on_disk_witness:
  "\<exists>a txt. fst sample_selected = Inr a \<and> snd sample_selected (ScyllaHideConfigPath sample_disk) = Some txt \<and>
     ParseScyllaHideConfig txt = Inr (pa_config a)"
proof -
  obtain a where "fst sample_selected = Inr a"
    using sample_selected_answer by (cases "fst sample_selected") auto
  with profile_set_on_disk [OF sample_disk_ok, of "\<lambda>_. Some [0]" "''set''" "''bC''" "''sha256:00''"
      "\<lambda>p. if p = ScyllaHideConfigPath sample_disk then Some sample_config else None" "fst sample_selected"
      "snd sample_selected"]
  show ?thesis
    by (auto simp: sample_selected_def)
qed

end
