(* ===== verification/Spec2Isabelle.thy ===== *)
theory Spec2Isabelle
  imports Memory_Policy Pe_Policy Launch_Arguments Utf8 Control_Policy Breakpoint_Policy Patch_Policy
    Register_Policy Trace_Policy Command_Fence Debugger_Executor Event_Transport Cursor Request_Properties
    Runtime_Pages Profile_Tool Fenced_Commands Patch_Tools Run_To Symbol_Tools
    String_Tools Dump_Memory Controller Tool_Properties Session Lifecycle Config_File
begin

text \<open>
  A verification of the C++ part of the x64dbg MCP backend: the debugger plugin under
  \<open>plugin/src\<close> and the controller program under \<open>controller/src\<close>.

  \<^bold>\<open>The program.\<close> The plugin runs inside x64dbg. When it is set up (\<open>plugin.cpp\<close>, \<open>Runtime::Start\<close>) it
  starts a sidecar process and two pipes to it. Over the first one the sidecar sends requests in
  length-prefixed JSON frames; \<open>Runtime::Worker\<close> parses each (\<open>ParseRequest\<close>), hands the operation to
  the single worker thread of the \<open>DebuggerExecutor\<close>, which runs the tool the method names against
  the SDK of the debugger, and writes the response. Over the second one the \<open>EventStream\<close> sends what
  the debugger reports. The debugger calls back into \<open>Runtime::OnDebuggerEvent\<close> from its own
  threads, which keeps the state the tools check: a generation number that changes with every
  change of state, the last pause, the history of events, and a bounded trace with a supervisor thread
  that stops it. Commands whose effect has to be waited for pass the \<open>CommandFence\<close>. The controller
  is a separate program that starts, stops and inspects debugger hosts.

  \<^bold>\<open>Conventions.\<close> A definition has the name of the function or type it models, or says in its
  theory which part of one it is. C++ strings are strings of bytes, \<open>wchar_t\<close> is a 16-bit word,
  machine integers are words of their width, \<open>duint\<close> is a word of any width \<open>'w\<close> so that each tool is about both
  builds. An error answer is a value: its code, message, whether it may be retried, and the mark
  \<open>te_unknown\<close> that says that the outcome is unknown. What is not in the sources (Windows, the x64dbg
  SDK, the jansson library, the C++ file system) is an argument: a function, or a record of functions
  (\<open>debugger\<close>, \<open>winapi\<close>, \<open>jansson\<close>, \<open>host_os\<close>, \<open>win32\<close>, \<open>config_os\<close>, \<open>dump_files\<close>) over a state that
  the development knows nothing about. What a theorem needs of it is a named predicate in
  its statement, and its witness runs on a concrete instance.

  \<^bold>\<open>Foundations.\<close>
  \<^item> \<open>Prelude\<close>: types, early returns, lists and words; the locales \<open>wire_enum\<close> (an enumeration with its
    names on the wire) and \<open>invariant_system\<close> (a step relation with an invariant).
  \<^item> \<open>Cpp_Text\<close>, \<open>Hex_Bytes\<close>, \<open>Jansson\<close>, \<open>Windows_Calls\<close>: numbers as text, hexadecimal byte strings, the
    interface of the JSON library, and what the models of Windows calls share.
  \<^item> \<open>Monad_Logic\<close>, \<open>Tool_Logic\<close>: computations with early returns in the state monad, and judgements
    about them by syntax-directed rules: \<open>wp\<close>, \<open>maintains\<close> (a property is kept), \<open>marked\<close> (every error
    carries the mark), \<open>harmless\<close> (an error without the mark keeps a property), \<open>settles\<close>.

  \<^bold>\<open>Policies\<close>, one theory per source file of \<open>plugin/src\<close> or \<open>controller/src\<close>, functional correctness of each:
  \<^item> \<open>Memory_Policy\<close> (\<open>memory_filters.cpp\<close>, \<open>memory_search.cpp\<close>): the pattern scanner finds every match in
    order, cut at its limit, with an exact continuation.
  \<^item> \<open>Pe_Policy\<close> (\<open>pe_policy.cpp\<close>), \<open>Launch_Arguments\<close> (\<open>launch_arguments.cpp\<close>): header parsing without reads out
    of range; rendered command lines split back into the arguments.
  \<^item> \<open>Utf8\<close> (\<open>utf8.cpp\<close>): the validator accepts exactly the encodings of scalar values; printed JSON
    strings read back.
  \<^item> \<open>Control_Policy\<close> (\<open>control_policy.cpp\<close>): the configurations of the server and of ScyllaHide; updating the
    profile and parsing are inverse, except for a section that the parser rejects.
  \<^item> \<open>Breakpoint_Policy\<close>, \<open>Patch_Policy\<close>, \<open>Register_Policy\<close> (the \<open>.cpp\<close> files of these names): wire names,
    ownership and conditions of breakpoints; tracked patches as maximal ranges; register
    assignments and thread contexts.
  \<^item> \<open>Trace_Policy\<close> (\<open>trace_policy.cpp\<close>): the trace and its stop coordinator as a transition system; a
    terminal trace is settled, at most one interrupt is reserved, the points are bounded.
  \<^item> \<open>Command_Fence\<close>, \<open>Debugger_Executor\<close>, \<open>Event_Stream\<close> (the \<open>.cpp\<close> files of these names): the threads as interleaved
    critical sections; a wait never sees a stale token, operations run at most once and the shutdown ends, events are
    written in order or counted as a gap. Two defects are proved: an operation that is reported as
    expired in the queue may run, and the bound of the event queue can be lost. \<open>Event_Transport\<close> is the bounded
    read of the greeting on the event pipe; a silent client is given up after its deadline.
  \<^item> \<open>Frames\<close>, \<open>Events\<close>, \<open>Cursor\<close> (\<open>runtime.cpp\<close>, \<open>event_stream.h\<close>): frames survive partial reads and
    writes, cursors parse back (locale \<open>codec\<close>).

  \<^bold>\<open>Requests.\<close> \<open>Request_Values\<close> and \<open>Request\<close> are \<open>ParseRequest\<close> with every method;
  \<open>Request_Properties\<close> shows the invariant of accepted requests and what a printed cursor restores, and that the
  cursor of \<open>references.to\<close> is not bound to its address.

  \<^bold>\<open>The runtime\<close> (\<open>runtime.h\<close>, \<open>runtime.cpp\<close>). \<open>Runtime_State\<close> has the members, \<open>Runtime_Events\<close> the callbacks,
  \<open>Runtime_Steps\<close> the sections of the other threads and the system in which all sections interleave. Over every
  interleaving: \<open>Runtime_Snapshots\<close> (a generation that is found again means that nothing changed, for
  fewer than \<open>2 ^ 64\<close> sections in between), \<open>Runtime_Histories\<close> (order and bound of the event history, failed
  attempts leave it alone), \<open>Runtime_Traces\<close> (the runtime refines the trace system). Their common
  induction is the locale \<open>section_relation\<close>. \<open>Runtime_Responses\<close> has the answers from the state, \<open>Runtime_Pages\<close> what a
  client that follows the cursors of events and traces gets.

  \<^bold>\<open>The tools\<close> (\<open>Worker\<close> in \<open>runtime.cpp\<close>). \<open>Debugger_World\<close> is what a tool runs against: the runtime, the fence and the
  debugger, with the steps of other threads (\<open>dbg_others\<close>) before every critical section. \<open>Fenced_Commands\<close> is
  \<open>submitFencedCommand\<close>. \<open>Address_Tools\<close>, \<open>Reading_Tools\<close>, \<open>Listing_Tools\<close>, \<open>Symbol_Tools\<close>, \<open>String_Tools\<close>,
  \<open>Search_Tools\<close>, \<open>Thread_Tools\<close>, \<open>Patch_Tools\<close>, \<open>Breakpoint_Tools\<close>, \<open>Run_Tools\<close>, \<open>Run_To\<close>, \<open>Dump_Memory\<close> (with
  \<open>dump_memory.cpp\<close>), \<open>Profile_Tool\<close>, \<open>Config_File\<close> and \<open>State_Tools\<close> are the tools, each as a whole: guards, calls, error
  answers and clean-ups in the order of the code. \<open>Paging\<close> has the contract of paged lists (locale \<open>pager\<close>) the
  lists and searches fulfil. \<open>Quiet_Debugger\<close> is an SDK for witnesses.
  \<^item> Searching: following the cursors of \<open>memory.search\<close> ends and returns every match once. \<open>strings.search\<close> does not have
    this property, which is proved on an example.
  \<^item> Files: a dump is published whole or not at all; selecting a profile is a compare-and-swap on
    the configuration file.
  \<^item> \<open>Worker\<close> is the dispatch of a request, \<open>Read_Only\<close> and \<open>Tool_Properties\<close> what it promises for all methods: a
    request that is no mutation changes nothing of the debugger, and a mutation of memory or breakpoints
    that is refused without the mark has changed nothing.
  \<^item> \<open>Session\<close> is the handshake and the loop around the dispatch: every response carries the id of
    its request.

  \<^bold>\<open>Processes.\<close> \<open>Lifecycle\<close> is the loading and unloading of the plugin with a ledger of the handles, the sidecar and the
  registrations (locale \<open>handle_member\<close>): nothing leaks and nothing is closed twice, whichever call fails.
  \<open>Controller\<close> is \<open>main.cpp\<close>: accepted options, termination of every command, and that a host with a debuggee is
  not closed without \<open>--force\<close>.

  \<^bold>\<open>Bounds.\<close> Loops over data are recursive functions. Loops that poll have a number of rounds as an argument:
  \<open>we_ticks\<close> for the breakpoint tools, whose theorems hold for every number; \<open>we_wakes\<close> for the times a wait on
  the events wakes up; the number of requests a session is followed for; and the
  polls of the controller, for which 1200 are shown to be enough for every deadline the options
  allow when a sleep lets the clock advance, and the polls of the greeting, for which one more than
  the milliseconds of its deadline are enough. A wait on a condition variable is the section that
  follows it, after any steps of other threads.

  \<^bold>\<open>Not modelled.\<close> The functions behind \<open>MCP_LIFECYCLE_HARNESS\<close> are test code. The sidecar and the
  other crates are written in Rust. Running out of memory is modelled only where the code catches
  it in the event history and the event stream. \<open>SteadyDeadline\<close> (a deadline is \<open>dbg_expired\<close>, which may become true
  at any time), the thin wrappers \<open>Utf16ToUtf8\<close>, \<open>ExecutablePath\<close> and \<open>ModuleDirectory\<close> around one call of Windows, logging,
  and the text of the version resources are left out. The weak memory behaviour of the atomics is not
  modelled: every access is one step of an interleaving.
\<close>

end
